(* ===== verification/Prelude.thy ===== *)
theory Prelude
  imports
    Complex_Main
    "HOL-Library.AList"
    "HOL-Library.Char_ord"
    "HOL-Library.List_Lexorder"
    "HOL-Library.Multiset"
    "HOL-Library.Sublist"
    "HOL-Library.Word"
begin

text \<open>
  What the components share: the JavaScript values, strings, numbers and \<open>Map\<close> objects
  the gateway's code works on, with the library functions it calls on them, and the two
  interfaces that several components meet: a keyed store and a machine that keeps an
  invariant along every run.

  Strings are lists of \<^typ>\<open>char\<close>; one \<^typ>\<open>char\<close> is one UTF-16 code unit below 256, so a
  string of the model is a JavaScript string over Latin-1 and \<^term>\<open>length\<close> is the code's
  \<open>.length\<close>. Numbers that the code only compares, adds and floors (times, sizes, counters)
  are \<^typ>\<open>int\<close>; numbers that come from outside (parsed JSON, environment) are \<open>jnum\<close>, exact
  rationals with the three non-finite values. The rounding of doubles above \<open>2^53\<close> is not
  modelled.
\<close>

named_theorems gw_defs \<open>definitions of the operations, for proofs about one operation\<close>
named_theorems gw_intro \<open>preservation lemmas of the component invariants\<close>

section \<open>Strings\<close>

definition js_ws :: "char \<Rightarrow> bool" where
  "js_ws c \<longleftrightarrow> (of_char c :: nat) \<in> {9, 10, 11, 12, 13, 32, 160}"

definition trim :: "string \<Rightarrow> string" where
  "trim s = rev (dropWhile js_ws (rev (dropWhile js_ws s)))"

definition lower_char :: "char \<Rightarrow> char" where
  "lower_char c =
     (let n = (of_char c :: nat)
      in if (65 \<le> n \<and> n \<le> 90) \<or> (192 \<le> n \<and> n \<le> 222 \<and> n \<noteq> 215) then char_of (n + 32) else c)"

abbreviation to_lower :: "string \<Rightarrow> string" where
  "to_lower \<equiv> map lower_char"

definition is_digit :: "char \<Rightarrow> bool" where
  "is_digit c \<longleftrightarrow> (let n = (of_char c :: nat) in 48 \<le> n \<and> n \<le> 57)"

definition is_upper :: "char \<Rightarrow> bool" where
  "is_upper c \<longleftrightarrow> (let n = (of_char c :: nat) in 65 \<le> n \<and> n \<le> 90)"

definition is_lower :: "char \<Rightarrow> bool" where
  "is_lower c \<longleftrightarrow> (let n = (of_char c :: nat) in 97 \<le> n \<and> n \<le> 122)"

definition is_alnum :: "char \<Rightarrow> bool" where
  "is_alnum c \<longleftrightarrow> is_digit c \<or> is_upper c \<or> is_lower c"

definition is_hex :: "char \<Rightarrow> bool" where
  "is_hex c \<longleftrightarrow> is_digit c \<or> c \<in> set ''abcdefABCDEF''"

definition is_control :: "char \<Rightarrow> bool" where
  "is_control c \<longleftrightarrow> (let n = (of_char c :: nat) in n \<le> 31 \<or> n = 127)"

text \<open>\<open>/^[class]{lo,hi}$/.test(s)\<close>: every code unit in the class, the length between the bounds.\<close>

definition matches_class :: "(char \<Rightarrow> bool) \<Rightarrow> nat \<Rightarrow> nat \<Rightarrow> string \<Rightarrow> bool" where
  "matches_class p lo hi s \<longleftrightarrow> list_all p s \<and> lo \<le> length s \<and> length s \<le> hi"

text \<open>\<open>s.indexOf(c)\<close> for a one-character needle: the first position, or \<open>-1\<close>.\<close>

fun index_from :: "nat \<Rightarrow> char \<Rightarrow> string \<Rightarrow> int" where
  "index_from i c [] = - 1"
| "index_from i c (x # xs) = (if x = c then int i else index_from (Suc i) c xs)"

abbreviation index_of :: "char \<Rightarrow> string \<Rightarrow> int" where
  "index_of c s \<equiv> index_from 0 c s"

fun split_on :: "char \<Rightarrow> string \<Rightarrow> string list" where
  "split_on c [] = [[]]"
| "split_on c (x # xs) =
     (if x = c then [] # split_on c xs
      else (case split_on c xs of [] \<Rightarrow> [[x]] | w # ws \<Rightarrow> (x # w) # ws))"

fun join_with :: "string \<Rightarrow> string list \<Rightarrow> string" where
  "join_with sep [] = []"
| "join_with sep [w] = w"
| "join_with sep (w # v # ws) = w @ sep @ join_with sep (v # ws)"

abbreviation starts_with :: "string \<Rightarrow> string \<Rightarrow> bool" where
  "starts_with s p \<equiv> prefix p s"

definition ends_with :: "string \<Rightarrow> string \<Rightarrow> bool" where
  "ends_with s p \<longleftrightarrow> prefix (rev p) (rev s)"

fun includes_str :: "string \<Rightarrow> string \<Rightarrow> bool" where
  "includes_str [] p \<longleftrightarrow> p = []"
| "includes_str (x # xs) p \<longleftrightarrow> prefix p (x # xs) \<or> includes_str xs p"

text \<open>\<open>Buffer.byteLength(s, 'utf8')\<close>: code units from 128 to 255 take two bytes.\<close>

definition utf8_len :: "string \<Rightarrow> nat" where
  "utf8_len s = sum_list (map (\<lambda>c. if (of_char c :: nat) < 128 then 1 else 2) s)"

section \<open>Numbers\<close>

datatype jnum = Fin rat | NaN | PInf | NInf

fun is_finite :: "jnum \<Rightarrow> bool" where
  "is_finite (Fin q) = True"
| "is_finite _ = False"

fun is_integer :: "jnum \<Rightarrow> bool" where
  "is_integer (Fin q) \<longleftrightarrow> of_int \<lfloor>q\<rfloor> = q"
| "is_integer _ = False"

definition digit_val :: "char \<Rightarrow> int" where
  "digit_val c = int (of_char c) - 48"

definition digits_val :: "string \<Rightarrow> int" where
  "digits_val s = foldl (\<lambda>a c. 10 * a + digit_val c) 0 s"

text \<open>\<open>Number.parseInt(s, 10)\<close>: leading white space, a sign, the longest run of digits;
  \<^term>\<open>None\<close> is \<open>NaN\<close>.\<close>

definition parse_int :: "string \<Rightarrow> int option" where
  "parse_int s =
     (let t = dropWhile js_ws s;
          neg = (t \<noteq> [] \<and> hd t = CHR ''-'');
          u = (if t \<noteq> [] \<and> (hd t = CHR ''-'' \<or> hd t = CHR ''+'') then tl t else t);
          ds = takeWhile is_digit u
      in if ds = [] then None
         else Some (if neg then - digits_val ds else digits_val ds))"

text \<open>\<open>String(n)\<close> of an integer (below \<open>10^21\<close>, where the code's numbers stay).\<close>

fun nat_str :: "nat \<Rightarrow> string" where
  "nat_str n =
     (if n < 10 then [char_of (48 + n)] else nat_str (n div 10) @ [char_of (48 + n mod 10)])"

declare nat_str.simps [simp del]

definition int_str :: "int \<Rightarrow> string" where
  "int_str i = (if i < 0 then CHR ''-'' # nat_str (nat (- i)) else nat_str (nat i))"

section \<open>Values of unknown type\<close>

text \<open>
  \<open>unknown\<close> values: what \<open>JSON.parse\<close> returns, and \<open>undefined\<close> for an absent property. An object
  is the list of its own properties in the order \<open>Object.entries\<close> gives.
\<close>

datatype jsval =
    JUndef
  | JNull
  | JBool bool
  | JNum jnum
  | JStr string
  | JArr "jsval list"
  | JObj "(string \<times> jsval) list"

type_synonym jobj = "(string \<times> jsval) list"

definition jprop :: "jobj \<Rightarrow> string \<Rightarrow> jsval" where
  "jprop obj k = (case map_of obj k of None \<Rightarrow> JUndef | Some v \<Rightarrow> v)"

fun truthy :: "jsval \<Rightarrow> bool" where
  "truthy JUndef = False"
| "truthy JNull = False"
| "truthy (JBool b) = b"
| "truthy (JNum (Fin q)) = (q \<noteq> 0)"
| "truthy (JNum NaN) = False"
| "truthy (JNum _) = True"
| "truthy (JStr s) = (s \<noteq> [])"
| "truthy _ = True"

fun as_obj :: "jsval \<Rightarrow> jobj option" where
  "as_obj (JObj obj) = Some obj"
| "as_obj _ = None"

fun as_str :: "jsval \<Rightarrow> string option" where
  "as_str (JStr s) = Some s"
| "as_str _ = None"

text \<open>The names every plain object inherits: for them \<open>table[name]\<close> is an inherited value, truthy,
  although the table has no such property of its own.\<close>

definition object_prototype_keys :: "string list" where
  "object_prototype_keys =
     [''constructor'', ''__proto__'', ''hasOwnProperty'', ''isPrototypeOf'', ''propertyIsEnumerable'',
      ''toLocaleString'', ''toString'', ''valueOf'', ''__defineGetter__'', ''__defineSetter__'',
      ''__lookupGetter__'', ''__lookupSetter__'']"

text \<open>A plain object used as a table: a lookup finds an own entry or an inherited value, and assigning
  \<open>__proto__\<close> a string has no effect.\<close>

datatype 'a table_value = Own 'a | Inherited string

definition table_lookup :: "(string \<times> 'a) list \<Rightarrow> string \<Rightarrow> 'a table_value option" where
  "table_lookup m k =
     (case map_of m k of
        Some v \<Rightarrow> Some (Own v)
      | None \<Rightarrow> if k \<in> set object_prototype_keys then Some (Inherited k) else None)"

definition table_set :: "string \<Rightarrow> 'a \<Rightarrow> (string \<times> 'a) list \<Rightarrow> (string \<times> 'a) list" where
  "table_set k v m = (if k = ''__proto__'' then m else AList.update k v m)"

text \<open>The inherited value as text (in a template literal) and for \<open>JSON.stringify\<close>, which leaves out
  functions like \<open>undefined\<close>.\<close>

definition inherited_text :: "string \<Rightarrow> string" where
  "inherited_text name =
     (if name = ''__proto__'' then ''[object Object]''
      else ''function '' @ (if name = ''constructor'' then ''Object'' else name) @ ''() { [native code] }'')"

definition inherited_json :: "string \<Rightarrow> jsval" where
  "inherited_json name = (if name = ''__proto__'' then JObj [] else JUndef)"

section \<open>Steps that may stop\<close>

definition sum_bind :: "'e + 'a \<Rightarrow> ('a \<Rightarrow> 'e + 'b) \<Rightarrow> 'e + 'b" where
  "sum_bind r k = (case r of Inl e \<Rightarrow> Inl e | Inr v \<Rightarrow> k v)"

lemma sum_bind_simps [simp]:
  "sum_bind (Inl e) k = Inl e" "sum_bind (Inr v) k = k v"
  by (simp_all add: sum_bind_def)

lemma sum_bind_Inr: "sum_bind r k = Inr v \<longleftrightarrow> (\<exists>u. r = Inr u \<and> k u = Inr v)"
  by (cases r) auto

section \<open>HTTP calls\<close>

text \<open>What a component hands to \<open>fetch\<close>, and what comes back: the response's \<open>ok\<close> flag with its status
  and body text, or an exception, which is an \<open>AbortError\<close> or not.\<close>

record http_request =
  rq_url :: string
  rq_method :: string
  rq_headers :: "(string \<times> string) list"
  rq_body :: "string option"

record http_response =
  rp_ok :: bool
  rp_status :: int
  rp_body :: string

datatype fetch_outcome = Responded http_response | Threw bool

text \<open>The parts of a \<open>URL\<close> object the code reads; parsing is a parameter of the components.\<close>

record url_parts =
  up_protocol :: string
  up_username :: string
  up_password :: string
  up_hostname :: string
  up_href :: string

section \<open>Map objects\<close>

text \<open>
  A JavaScript \<open>Map\<close> is the list of its entries in insertion order, with distinct keys:
  \<open>set\<close> overwrites in place or appends (\<^const>\<open>AList.update\<close>), \<open>delete\<close> removes
  (\<^const>\<open>AList.delete\<close>), \<open>get\<close> is \<^const>\<open>map_of\<close>, \<open>keys().next()\<close> is the head. A
  \<open>for .. of\<close> loop that deletes the entries satisfying a test is a \<^const>\<open>filter\<close>.
\<close>

type_synonym 'v jmap = "(string \<times> 'v) list"

abbreviation jm_ok :: "'v jmap \<Rightarrow> bool" where
  "jm_ok m \<equiv> distinct (map fst m)"

text \<open>A \<open>while (test(map.size)) map.delete(map.keys().next().value)\<close> loop with its counter.\<close>

lemma length_delete_le: "length (AList.delete k m) \<le> length m"
  by (simp add: AList.delete_eq)

function evict_while :: "(int \<Rightarrow> bool) \<Rightarrow> 'v jmap \<Rightarrow> int \<times> 'v jmap" where
  "evict_while p m =
     (if p (int (length m)) then
        (case m of [] \<Rightarrow> (0, m)
         | (k, _) # _ \<Rightarrow> let (n, m') = evict_while p (AList.delete k m) in (n + 1, m'))
      else (0, m))"
  by pat_completeness auto
termination
  by (relation "measure (\<lambda>(p, m). length m)")
    (auto simp: le_imp_less_Suc length_delete_le)

declare evict_while.simps [simp del]

lemma delete_fresh: "k \<notin> fst ` set m \<Longrightarrow> AList.delete k m = m"
  by (force simp: AList.delete_eq filter_id_conv)

lemma evict_while_drop:
  assumes "jm_ok m"
  shows "\<exists>n. evict_while p m = (int n, drop n m) \<and> n \<le> length m
    \<and> (drop n m = [] \<or> \<not> p (int (length m - n))) \<and> (\<forall>i < n. p (int (length m - i)))"
  using assms
proof (induction p m rule: evict_while.induct)
  case (1 p m)
  show ?case
  proof (cases "p (int (length m)) \<and> m \<noteq> []")
    case False
    then have "evict_while p m = (0, m)"
      by (subst evict_while.simps) (auto split: list.splits)
    with False show ?thesis by (intro exI [of _ 0]) auto
  next
    case True
    then obtain k v r where m: "m = (k, v) # r" by (cases m) auto
    have del: "AList.delete k m = r" using "1.prems" m by (simp add: delete_fresh)
    have "jm_ok r" using "1.prems" m by simp
    with "1.IH" [of "(k, v)" r k v] True m del obtain n where
      n: "evict_while p r = (int n, drop n r)" "n \<le> length r"
         "drop n r = [] \<or> \<not> p (int (length r - n))" "\<forall>i < n. p (int (length r - i))"
      by auto
    have "evict_while p m = (int (Suc n), drop (Suc n) m)"
      using True n(1) m del by (subst evict_while.simps) simp
    moreover have "\<forall>i < Suc n. p (int (length m - i))"
      using True n(4) m by (auto simp: less_Suc_eq_0_disj)
    ultimately show ?thesis using n m by (intro exI [of _ "Suc n"]) auto
  qed
qed

lemma evict_while_size:
  assumes "jm_ok m" and "evict_while p m = (n, m')"
  shows "jm_ok m'" and "set m' \<subseteq> set m" and "m' = [] \<or> \<not> p (int (length m'))"
    and "0 \<le> n" and "length m' \<le> length m"
proof -
  from evict_while_drop [OF assms(1), of p] assms(2) obtain i where
    i: "n = int i" "m' = drop i m" "i \<le> length m" "drop i m = [] \<or> \<not> p (int (length m - i))"
    by auto
  show "jm_ok m'" using assms(1) i(2) by (simp add: drop_map [symmetric])
  show "set m' \<subseteq> set m" using i(2) by (simp add: set_drop_subset)
  show "m' = [] \<or> \<not> p (int (length m'))" using i by auto
  show "0 \<le> n" using i by simp
  show "length m' \<le> length m" using i by simp
qed

lemma evict_room:
  assumes "jm_ok m" and "0 < cap"
  shows "jm_ok (snd (evict_while (\<lambda>size. size \<ge> cap) m))"
    and "int (length (snd (evict_while (\<lambda>size. size \<ge> cap) m))) < cap"
proof -
  obtain n m' where e: "evict_while (\<lambda>size. size \<ge> cap) m = (n, m')" by fastforce
  from evict_while_size [OF assms(1) e] assms(2)
  show "jm_ok (snd (evict_while (\<lambda>size. size \<ge> cap) m))"
    and "int (length (snd (evict_while (\<lambda>size. size \<ge> cap) m))) < cap"
    by (auto simp: e)
qed

lemma evict_while_not [simp]: "\<not> p (int (length m)) \<Longrightarrow> evict_while p m = (0, m)"
  by (subst evict_while.simps) simp

lemma jm_ok_filter [simp, gw_intro]: "jm_ok m \<Longrightarrow> jm_ok (filter P m)"
  by (induction m) (auto simp: image_iff)

lemma map_of_filter_jm:
  "jm_ok m \<Longrightarrow> map_of (filter (\<lambda>(k, v). P k v) m) k
     = (case map_of m k of None \<Rightarrow> None | Some v \<Rightarrow> if P k v then Some v else None)"
  by (induction m) (auto simp: map_of_eq_None_iff image_iff split: option.splits)

lemma length_update_jm:
  "length (AList.update k v m) = (if k \<in> fst ` set m then length m else Suc (length m))"
  by (induction m) auto

lemma map_of_update_jm [simp]:
  "map_of (AList.update k v m) k' = (if k' = k then Some v else map_of m k')"
  by (simp add: AList.update_conv')

lemma map_of_delete_jm [simp]:
  "map_of (AList.delete k m) k' = (if k' = k then None else map_of m k')"
  by (simp add: AList.delete_conv')

lemma jm_ok_update [simp, gw_intro]: "jm_ok m \<Longrightarrow> jm_ok (AList.update k v m)"
  by (rule AList.distinct_update)

lemma jm_ok_delete [simp, gw_intro]: "jm_ok m \<Longrightarrow> jm_ok (AList.delete k m)"
  by (rule AList.distinct_delete)

lemma fst_set_map_of: "k \<in> fst ` set m \<longleftrightarrow> map_of m k \<noteq> None"
  by (force simp: map_of_eq_None_iff)

lemma keys_delete [simp]: "fst ` set (AList.delete k m) = fst ` set m - {k}"
  by (auto simp: AList.delete_eq)

lemma keys_update [simp]: "fst ` set (AList.update k v m) = insert k (fst ` set m)"
  by (simp add: dom_update)

declare map_of_eq_Some_iff [simp del] Some_eq_map_of_iff [simp del]

section \<open>Interfaces\<close>

text \<open>A keyed store, as the clients of a \<open>Map\<close>, of a KV adapter or of a session store see it.\<close>

locale key_store =
  fixes lookup :: "'s \<Rightarrow> string \<Rightarrow> 'v option"
    and insert_at :: "string \<Rightarrow> 'v \<Rightarrow> 's \<Rightarrow> 's"
    and remove_at :: "string \<Rightarrow> 's \<Rightarrow> 's"
  assumes lookup_insert: "lookup (insert_at k v s) k' = (if k' = k then Some v else lookup s k')"
    and lookup_remove: "lookup (remove_at k s) k' = (if k' = k then None else lookup s k')"
begin

lemma insert_then_lookup [simp]: "lookup (insert_at k v s) k = Some v"
  by (simp add: lookup_insert)

lemma insert_frame: "k' \<noteq> k \<Longrightarrow> lookup (insert_at k v s) k' = lookup s k'"
  by (simp add: lookup_insert)

lemma remove_then_lookup [simp]: "lookup (remove_at k s) k = None"
  by (simp add: lookup_remove)

lemma last_insert_wins: "lookup (insert_at k w (insert_at k v s)) = lookup (insert_at k w s)"
  by (rule ext) (simp add: lookup_insert)

lemma insert_commute:
  "k \<noteq> k' \<Longrightarrow> lookup (insert_at k v (insert_at k' w s)) = lookup (insert_at k' w (insert_at k v s))"
  by (rule ext) (simp add: lookup_insert)

lemma fold_insert_frame:
  "k \<notin> fst ` set kvs \<Longrightarrow> lookup (fold (\<lambda>(k, v). insert_at k v) kvs s) k = lookup s k"
  by (induction kvs arbitrary: s) (auto simp: lookup_insert)

end

interpretation jmap: key_store map_of AList.update AList.delete
  by unfold_locales simp_all

text \<open>A component that is driven by calls: its invariant holds after every sequence of calls.\<close>

locale run_invariant =
  fixes start :: 's
    and step :: "'s \<Rightarrow> 'o \<Rightarrow> 's"
    and inv :: "'s \<Rightarrow> bool"
  assumes inv_start: "inv start"
    and inv_step: "inv s \<Longrightarrow> inv (step s x)"
begin

lemma inv_run_from: "inv s \<Longrightarrow> inv (foldl step s xs)"
  by (induction xs arbitrary: s) (auto intro: inv_step)

lemma inv_run: "inv (foldl step start xs)"
  by (rule inv_run_from [OF inv_start])

lemma inv_run_prefix: "prefix ys xs \<Longrightarrow> inv (foldl step start ys)"
  by (rule inv_run)

end

section \<open>Lemmas on strings\<close>

lemma list_all_rev [simp]: "list_all p (rev xs) = list_all p xs"
  by (simp add: list_all_iff)

lemma dropWhile_hd_not: "xs = [] \<or> \<not> p (hd xs) \<Longrightarrow> dropWhile p xs = xs"
  by (cases xs) auto

lemma trim_id:
  assumes "s = [] \<or> \<not> js_ws (hd s) \<and> \<not> js_ws (last s)"
  shows "trim s = s"
  using assms by (auto simp: trim_def dropWhile_hd_not hd_rev)

lemma trim_no_ws: "list_all (\<lambda>c. \<not> js_ws c) s \<Longrightarrow> trim s = s"
  by (cases "s = []") (auto simp: list_all_iff intro!: trim_id)

lemma hd_dropWhile_not: "dropWhile p xs \<noteq> [] \<Longrightarrow> \<not> p (hd (dropWhile p xs))"
  by (rule hd_dropWhile)

lemma trim_ends: "trim s \<noteq> [] \<Longrightarrow> \<not> js_ws (hd (trim s)) \<and> \<not> js_ws (last (trim s))"
proof -
  assume ne: "trim s \<noteq> []"
  define t where "t = dropWhile js_ws s"
  define u where "u = dropWhile js_ws (rev t)"
  have tr: "trim s = rev u" by (simp add: trim_def t_def u_def)
  with ne have u: "u \<noteq> []" by simp
  have l: "\<not> js_ws (last (trim s))"
    using u hd_dropWhile [of js_ws "rev t"] by (simp add: tr last_rev u_def)
  have "suffix u (rev t)" by (simp add: u_def suffix_dropWhile)
  then have "prefix (rev u) t" by (metis rev_rev_ident suffix_to_prefix)
  then have "hd (rev u) = hd t" using u by (auto simp: prefix_def)
  moreover have "t \<noteq> []" using u by (auto simp: u_def)
  then have "\<not> js_ws (hd t)" by (simp add: t_def hd_dropWhile)
  ultimately show ?thesis using l by (simp add: tr)
qed

lemma trim_trim [simp]: "trim (trim s) = trim s"
  using trim_ends [of s] by (intro trim_id) blast

lemma trim_Nil [simp]: "trim [] = []"
  by (simp add: trim_def)

lemma set_trim: "set (trim s) \<subseteq> set s"
  by (auto simp: trim_def dest!: set_dropWhileD)

lemma length_trim: "length (trim s) \<le> length s"
  using length_dropWhile_le [of js_ws "rev (dropWhile js_ws s)"] length_dropWhile_le [of js_ws s]
  by (simp add: trim_def)

lemma lower_char_idem [simp]: "lower_char (lower_char c) = lower_char c"
proof -
  have "of_char c < (256 :: nat)" using nat_of_char_less_256 by simp
  then show ?thesis by (auto simp: lower_char_def Let_def of_char_of)
qed

lemma to_lower_idem [simp]: "to_lower (to_lower s) = to_lower s"
  by simp

lemma utf8_len_ge: "length s \<le> utf8_len s"
  by (induction s) (auto simp: utf8_len_def)

lemma utf8_len_le: "utf8_len s \<le> 2 * length s"
  by (induction s) (auto simp: utf8_len_def)

section \<open>Printed integers\<close>

lemma digits_val_snoc: "digits_val (s @ [c]) = 10 * digits_val s + digit_val c"
  by (simp add: digits_val_def)

lemma digits_val_nat_str [simp]: "digits_val (nat_str n) = int n"
proof (induction n rule: nat_str.induct)
  case (1 n)
  show ?case
  proof (cases "n < 10")
    case True
    then show ?thesis
      by (subst nat_str.simps) (simp add: digits_val_def digit_val_def of_char_of)
  next
    case False
    have "(48 + n mod 10) mod 256 = 48 + n mod 10" by simp
    then have d: "digit_val (char_of (48 + n mod 10)) = int (n mod 10)"
      by (simp add: digit_val_def of_char_of)
    have "digits_val (nat_str n) = 10 * int (n div 10) + int (n mod 10)"
      using False 1 by (subst nat_str.simps) (simp add: digits_val_snoc d)
    then show ?thesis by presburger
  qed
qed

lemma is_digit_char: "n < 10 \<Longrightarrow> is_digit (char_of (48 + n :: nat))"
  by (simp add: is_digit_def of_char_of)

lemma nat_str_digits [simp]: "list_all is_digit (nat_str n)"
proof (induction n rule: nat_str.induct)
  case (1 n)
  then show ?case by (subst nat_str.simps) (simp add: is_digit_char)
qed

lemma nat_str_ne [simp]: "nat_str n \<noteq> []"
  by (subst nat_str.simps) simp

lemma inj_nat_str: "nat_str n = nat_str m \<Longrightarrow> n = m"
  by (metis digits_val_nat_str of_nat_eq_iff)

lemma nat_str_no_minus: "nat_str n \<noteq> CHR ''-'' # s"
proof
  assume "nat_str n = CHR ''-'' # s"
  with nat_str_digits [of n] have "list_all is_digit (CHR ''-'' # s)" by simp
  then show False by (simp add: is_digit_def)
qed

lemma inj_int_str: "int_str i = int_str j \<Longrightarrow> i = j"
  using nat_str_no_minus [of "nat i" "nat_str (nat (- j))"] nat_str_no_minus [of "nat j" "nat_str (nat (- i))"]
  by (auto simp: int_str_def dest!: inj_nat_str split: if_splits)

lemma int_str_chars: "list_all (\<lambda>c. is_digit c \<or> c = CHR ''-'') (int_str i)"
  using nat_str_digits [of "nat i"] nat_str_digits [of "nat (- i)"]
  by (auto simp: int_str_def list_all_iff)

lemma split_first_unique:
  "c \<notin> set a \<Longrightarrow> c \<notin> set a' \<Longrightarrow> a @ c # b = a' @ c # b' \<longleftrightarrow> a = a' \<and> b = b'"
proof (induction a arbitrary: a')
  case Nil
  then show ?case by (cases a') auto
next
  case (Cons x a)
  then show ?case by (cases a') auto
qed

lemma index_from_split:
  "index_from i c s = - 1 \<and> c \<notin> set s
   \<or> (\<exists>a b. s = a @ c # b \<and> c \<notin> set a \<and> index_from i c s = int (i + length a))"
proof (induction s arbitrary: i)
  case (Cons x s)
  show ?case
  proof (cases "x = c")
    case True
    then show ?thesis by (auto intro!: exI [of _ "[]"])
  next
    case False
    from Cons.IH [of "Suc i"] show ?thesis
    proof
      assume "\<exists>a b. s = a @ c # b \<and> c \<notin> set a \<and> index_from (Suc i) c s = int (Suc i + length a)"
      then obtain a b where "s = a @ c # b" "c \<notin> set a" "index_from (Suc i) c s = int (Suc i + length a)"
        by blast
      with False show ?thesis by (intro disjI2 exI [of _ "x # a"] exI [of _ b]) simp
    qed (use False in auto)
  qed
qed simp

lemma index_of_first: "c \<notin> set a \<Longrightarrow> index_from i c (a @ c # b) = int (i + length a)"
  by (induction a arbitrary: i) auto

lemma split_on_ne [simp]: "split_on c s \<noteq> []"
  by (induction s) (auto split: list.splits)

lemma split_on_none: "c \<notin> set s \<Longrightarrow> split_on c s = [s]"
  by (induction s) auto

lemma split_on_chars: "x \<in> set s \<Longrightarrow> x = c \<or> (\<exists>w \<in> set (split_on c s). x \<in> set w)"
proof (induction s)
  case (Cons y s)
  show ?case
  proof (cases "y = c")
    case True
    then show ?thesis using Cons by auto
  next
    case False
    obtain w ws where w: "split_on c s = w # ws" by (cases "split_on c s") auto
    then have "split_on c (y # s) = (y # w) # ws" using False by simp
    then show ?thesis using Cons w by auto
  qed
qed simp

lemma split_on_first: "c \<notin> set a \<Longrightarrow> split_on c (a @ c # b) = a # split_on c b"
  by (induction a) auto

lemma split_on_join:
  "ws \<noteq> [] \<Longrightarrow> \<forall>w \<in> set ws. c \<notin> set w \<Longrightarrow> split_on c (join_with [c] ws) = ws"
  by (induction ws rule: induct_list012) (auto simp: split_on_none split_on_first)

lemma digit_not_ws: "is_digit c \<Longrightarrow> \<not> js_ws c"
  by (auto simp: is_digit_def js_ws_def Let_def)

lemma alnum_not_ws: "is_alnum c \<Longrightarrow> \<not> js_ws c"
  by (auto simp: is_alnum_def is_digit_def is_upper_def is_lower_def js_ws_def Let_def)

lemma alnum_ne: "is_alnum c \<Longrightarrow> c \<noteq> CHR '';'' \<and> c \<noteq> CHR ''='' \<and> c \<noteq> CHR '','' \<and> c \<noteq> CHR ''.'' \<and> c \<noteq> CHR '':''"
  by (auto simp: is_alnum_def is_digit_def is_upper_def is_lower_def Let_def)

lemma parse_int_nat_str [simp]: "parse_int (nat_str n) = Some (int n)"
proof -
  have d: "\<forall>c \<in> set (nat_str n). is_digit c" using nat_str_digits [of n] by (simp add: list_all_iff)
  obtain c r where cr: "nat_str n = c # r" by (cases "nat_str n") auto
  with d have c: "is_digit c" by simp
  then have "\<not> js_ws c" "c \<noteq> CHR ''-''" "c \<noteq> CHR ''+''" by (auto simp: is_digit_def js_ws_def Let_def)
  moreover have "takeWhile is_digit (nat_str n) = nat_str n" using d by (simp add: takeWhile_eq_all_conv)
  ultimately show ?thesis
    using digits_val_nat_str [of n] by (simp add: parse_int_def cr)
qed

lemma nat_str_no_ws: "list_all (\<lambda>c. \<not> js_ws c) (nat_str n)"
  using nat_str_digits [of n] digit_not_ws by (auto simp: list_all_iff)

end
