(* ===== verification/Metrics.thy ===== *)
theory Metrics
  imports Prelude
begin

text \<open>
  The metrics registry of \<open>src/src/metrics.ts\<close>: counters, gauges and the state of the
  integrity audit stream, which every other component of the gateway updates through \<open>inc\<close>
  and \<open>gauge\<close>. The registry is a field of the record \<open>mstate\<close> that the states of the
  other components extend, so a component's operation updates it the way the code does.
\<close>

record metrics =
  counters :: "int jmap"
  gauges :: "int jmap"
  auditSeqFrom :: "int option"
  auditLastSeqTo :: "int option"

definition metrics_empty :: metrics where
  "metrics_empty = \<lparr>counters = [], gauges = [], auditSeqFrom = None, auditLastSeqTo = None\<rparr>"

definition metrics_help :: "(string \<times> string) list" where
  "metrics_help =
    [(''gateway_cache_hit_total'', ''Cache hits''),
     (''gateway_cache_miss_total'', ''Cache misses''),
     (''gateway_cache_expired_total'', ''Cache entries expired''),
     (''gateway_cache_swept_total'', ''Cache entries removed by sweep''),
     (''gateway_cache_store_reject_total'', ''Cache entries rejected by admission limits''),
     (''gateway_cache_store_reject_size_total'', ''Cache entries rejected for exceeding max entry bytes''),
     (''gateway_cache_store_reject_capacity_total'', ''Cache entries rejected because cache is at max entries''),
     (''gateway_cache_forget_forward_attempt_total'', ''Cache forget events attempted for worker forwarding''),
     (''gateway_cache_forget_forward_success_total'', ''Cache forget events successfully forwarded to worker''),
     (''gateway_cache_forget_forward_failed_total'', ''Cache forget events that failed worker forwarding''),
     (''gateway_cache_forget_forward_timeout_total'', ''Cache forget events that timed out during worker forwarding''),
     (''gateway_cache_forget_forward_skipped_total'', ''Cache forget events skipped because forwarding is not configured''),
     (''gateway_cache_size'', ''Cache entries currently stored''),
     (''gateway_cache_ttl_ms'', ''Configured cache TTL (ms)''),
     (''gateway_cache_max_entry_bytes'', ''Configured cache max entry size (bytes)''),
     (''gateway_cache_max_entries'', ''Configured cache max entry count''),
     (''gateway_inbox_accept_total'', ''Inbox requests accepted''),
     (''gateway_ratelimit_blocked_total'', ''Requests blocked by rate limit''),
     (''gateway_ratelimit_pruned_total'', ''Rate-limit buckets pruned by expiry/cap''),
     (''gateway_ratelimit_buckets'', ''Active rate-limit buckets''),
     (''gateway_ratelimit_max'', ''Configured max requests per rate-limit window''),
     (''gateway_ratelimit_max_buckets'', ''Configured max rate-limit bucket count''),
     (''gateway_ratelimit_override_count'', ''Configured per-prefix rate-limit overrides''),
     (''gateway_ratelimit_effective_max_last'', ''Last effective rate-limit max selected for a checked key''),
     (''gateway_metrics_auth_blocked_total'', ''Unauthorized requests to /metrics''),
     (''gateway_webhook_stripe_ok_total'', ''Stripe webhooks verified''),
     (''gateway_webhook_stripe_verify_fail_total'', ''Stripe webhook verify failures''),
     (''gateway_webhook_paypal_ok_total'', ''PayPal webhooks verified''),
     (''gateway_webhook_paypal_verify_fail_total'', ''PayPal webhook verify failures''),
     (''gateway_webhook_gopay_ok_total'', ''GoPay webhooks verified''),
     (''gateway_webhook_gopay_verify_fail_total'', ''GoPay webhook verify failures''),
     (''gateway_webhook_cert_seen_total'', ''Webhook certificates observed''),
     (''gateway_webhook_replay_total'', ''Webhook replay detections''),
     (''gateway_webhook_replay_pruned_total'', ''Replay detector keys pruned by expiry/cap''),
     (''gateway_webhook_replay_ttl_ms'', ''Configured replay detector TTL (ms)''),
     (''gateway_webhook_replay_max_keys'', ''Configured replay detector max key count''),
     (''gateway_webhook_cert_cache_size'', ''Cached webhook cert entries''),
     (''gateway_webhook_cert_allow_fail_total'', ''Webhook cert URL rejected by allowlist''),
     (''gateway_webhook_cert_pin_fail_total'', ''Webhook cert fingerprint failed pin''),
     (''gateway_webhook_stripe_5xx_total'', ''Stripe webhook handler 5xx responses''),
     (''gateway_webhook_paypal_5xx_total'', ''PayPal webhook handler 5xx responses''),
     (''gateway_webhook_gopay_5xx_total'', ''GoPay webhook handler 5xx responses''),
     (''gateway_template_call_total'', ''Template API calls received''),
     (''gateway_template_call_ok_total'', ''Template API calls forwarded successfully''),
     (''gateway_template_call_blocked_total'', ''Template API calls blocked by policy/auth/validation''),
     (''gateway_template_call_backend_fail_total'', ''Template API calls failed at backend''),
     (''gateway_template_secret_guard_blocked_total'', ''Template API calls blocked by secret guard''),
     (''gateway_template_signer_ref_mismatch_total'', ''Template API calls blocked by signer signatureRef mismatch''),
     (''gateway_template_signer_ref_map_invalid_total'', ''Template API calls blocked by invalid signer signatureRef map''),
     (''gateway_integrity_policy_paused'', ''Gateway integrity policy paused (1 when paused, 0 otherwise)''),
     (''gateway_integrity_fallback_readonly_total'', ''Read-only requests served while integrity policy paused''),
     (''gateway_integrity_unverified_block_total'', ''Requests blocked by integrity gate''),
     (''gateway_integrity_verify_ok_total'', ''Cache artifact integrity checks passed''),
     (''gateway_integrity_verify_fail_total'', ''Cache artifact integrity checks failed''),
     (''gateway_integrity_snapshot_fetch_fail_total'', ''AO integrity snapshot fetch/validation failures''),
     (''gateway_integrity_checkpoint_restore_total'', ''Integrity state restored from signed local checkpoint''),
     (''gateway_integrity_checkpoint_age_seconds'', ''Age of the last integrity checkpoint/snapshot audit in seconds''),
     (''gateway_integrity_audit_seq_from'', ''Latest integrity audit sequence start observed by gateway''),
     (''gateway_integrity_audit_seq_to'', ''Latest integrity audit sequence end observed by gateway''),
     (''gateway_integrity_audit_lag_seconds'', ''Lag in seconds between now and integrity audit acceptance timestamp''),
     (''gateway_integrity_audit_stream_anomaly_total'', ''AO integrity audit stream anomalies detected (sequence regression or invalid ordering)''),
     (''gateway_integrity_incident_total'', ''Integrity incidents accepted by gateway''),
     (''gateway_integrity_incident_duplicate_total'', ''Integrity incidents detected as duplicate/idempotent replay''),
     (''gateway_integrity_incident_auth_blocked_total'', ''Integrity incident requests blocked by auth''),
     (''gateway_integrity_incident_role_blocked_total'', ''Integrity incident requests blocked by signature-ref role policy''),
     (''gateway_integrity_state_auth_blocked_total'', ''Integrity state requests blocked by auth''),
     (''gateway_integrity_incident_notify_ok_total'', ''Integrity incident notifications forwarded successfully''),
     (''gateway_integrity_incident_notify_fail_total'', ''Integrity incident notification forwarding failures''),
     (''gateway_integrity_state_read_total'', ''Integrity state read requests served''),
     (''gateway_integrity_mirror_mismatch_total'', ''Integrity mirror snapshots that disagree with the primary integrity snapshot''),
     (''gateway_integrity_mirror_fetch_fail_total'', ''Integrity mirror snapshot fetch or validation failures'')]"

datatype metric_type = CounterT | GaugeT

definition metric_type_of :: "string \<Rightarrow> metric_type" where
  "metric_type_of k = (if ends_with k ''_total'' then CounterT else GaugeT)"

definition norm_name :: "string \<Rightarrow> string" where
  "norm_name = map (\<lambda>c. if is_alnum c \<or> c = CHR ''_'' then c else CHR ''_'')"

definition metric_inc :: "string \<Rightarrow> int \<Rightarrow> metrics \<Rightarrow> metrics" where
  "metric_inc name v m =
     (let k = norm_name name
      in m\<lparr>counters := AList.update k (case_option 0 id (map_of (counters m) k) + v) (counters m)\<rparr>)"

definition note_audit_sequence :: "string \<Rightarrow> int \<Rightarrow> metrics \<Rightarrow> metrics" where
  "note_audit_sequence name v m =
     (if name = ''gateway_integrity_audit_seq_from'' then m\<lparr>auditSeqFrom := Some v\<rparr>
      else if name \<noteq> ''gateway_integrity_audit_seq_to'' then m
      else
        let anomaly = (case auditSeqFrom m of None \<Rightarrow> False | Some f \<Rightarrow> v < f)
                    \<or> (case auditLastSeqTo m of None \<Rightarrow> False | Some l \<Rightarrow> v < l);
            m' = (if anomaly then metric_inc ''gateway_integrity_audit_stream_anomaly'' 1 m else m)
        in m'\<lparr>auditLastSeqTo := Some v\<rparr>)"

definition metric_gauge :: "string \<Rightarrow> int \<Rightarrow> metrics \<Rightarrow> metrics" where
  "metric_gauge name v m =
     (let k = norm_name name
      in note_audit_sequence k v (m\<lparr>gauges := AList.update k v (gauges m)\<rparr>))"

definition metric_snapshot :: "metrics \<Rightarrow> int jmap \<times> int jmap" where
  "metric_snapshot m = (counters m, gauges m)"

definition to_prom :: "metrics \<Rightarrow> string" where
  "to_prom m =
     (let newline = [char_of (10 :: nat)];
          head_lines = concat (map (\<lambda>(k, v). case metric_type_of k of
              CounterT \<Rightarrow> [''# HELP '' @ k @ '' '' @ v, ''# TYPE '' @ k @ '' counter'']
            | GaugeT \<Rightarrow> [''# HELP '' @ k @ '' '' @ v, ''# TYPE '' @ k @ '' gauge'']) metrics_help);
          counter_lines = map (\<lambda>(k, v). k @ ''_total '' @ int_str v) (counters m);
          gauge_lines = map (\<lambda>(k, v). k @ '' '' @ int_str v) (gauges m)
      in join_with newline (head_lines @ counter_lines @ gauge_lines) @ newline)"

definition metric_reset :: "metrics \<Rightarrow> metrics" where
  "metric_reset m = m\<lparr>counters := [], gauges := [], auditSeqFrom := None, auditLastSeqTo := None\<rparr>"

section \<open>The registry as a part of a component's state\<close>

record mstate =
  mx :: metrics

definition minc :: "string \<Rightarrow> 'a mstate_scheme \<Rightarrow> 'a mstate_scheme" where
  "minc name s = s\<lparr>mx := metric_inc name 1 (mx s)\<rparr>"

definition minc_by :: "string \<Rightarrow> int \<Rightarrow> 'a mstate_scheme \<Rightarrow> 'a mstate_scheme" where
  "minc_by name v s = s\<lparr>mx := metric_inc name v (mx s)\<rparr>"

definition mgauge :: "string \<Rightarrow> int \<Rightarrow> 'a mstate_scheme \<Rightarrow> 'a mstate_scheme" where
  "mgauge name v s = s\<lparr>mx := metric_gauge name v (mx s)\<rparr>"

lemmas m_defs = minc_def minc_by_def mgauge_def

section \<open>Properties\<close>

definition metrics_ok :: "metrics \<Rightarrow> bool" where
  "metrics_ok m \<longleftrightarrow> jm_ok (counters m) \<and> jm_ok (gauges m)"

datatype metric_call = IncCall string int | GaugeCall string int | ResetCall

fun metric_step :: "metrics \<Rightarrow> metric_call \<Rightarrow> metrics" where
  "metric_step m (IncCall k v) = metric_inc k v m"
| "metric_step m (GaugeCall k v) = metric_gauge k v m"
| "metric_step m ResetCall = metric_reset m"

lemma metric_inc_ok [gw_intro]: "metrics_ok m \<Longrightarrow> metrics_ok (metric_inc k v m)"
  by (simp add: metrics_ok_def metric_inc_def Let_def)

lemma metric_gauge_ok [gw_intro]: "metrics_ok m \<Longrightarrow> metrics_ok (metric_gauge k v m)"
  by (simp add: metrics_ok_def metric_inc_def metric_gauge_def note_audit_sequence_def Let_def)

lemma metric_reset_ok [gw_intro]: "metrics_ok (metric_reset m)"
  by (simp add: metrics_ok_def metric_reset_def)

interpretation metrics_run: run_invariant metrics_empty metric_step metrics_ok
proof unfold_locales
  show "metrics_ok metrics_empty" by (simp add: metrics_ok_def metrics_empty_def)
  fix m x assume "metrics_ok m"
  then show "metrics_ok (metric_step m x)"
    by (cases x) (simp_all add: metric_inc_ok metric_gauge_ok metric_reset_ok)
qed

lemma norm_name_idem [simp]: "norm_name (norm_name k) = norm_name k"
  by (simp add: norm_name_def)

definition counter_of :: "metrics \<Rightarrow> string \<Rightarrow> int" where
  "counter_of m k = case_option 0 id (map_of (counters m) k)"

lemma counter_of_inc:
  "counter_of (metric_inc name v m) k
     = counter_of m k + (if k = norm_name name then v else 0)"
  by (simp add: counter_of_def metric_inc_def Let_def)

lemma counter_of_gauges [simp]: "counter_of (m\<lparr>gauges := g\<rparr>) k = counter_of m k"
  by (simp add: counter_of_def)

lemma counter_of_audit [simp]:
  "counter_of (m\<lparr>auditSeqFrom := a\<rparr>) k = counter_of m k"
  "counter_of (m\<lparr>auditLastSeqTo := a\<rparr>) k = counter_of m k"
  by (simp_all add: counter_of_def)

abbreviation seq_from_name :: string where
  "seq_from_name \<equiv> ''gateway_integrity_audit_seq_from''"

abbreviation seq_to_name :: string where
  "seq_to_name \<equiv> ''gateway_integrity_audit_seq_to''"

abbreviation anomaly_name :: string where
  "anomaly_name \<equiv> ''gateway_integrity_audit_stream_anomaly''"

text \<open>One audit window reported by the handler: \<open>seq_from\<close>, then \<open>seq_to\<close>.\<close>

definition report_window :: "metrics \<Rightarrow> int \<times> int \<Rightarrow> metrics" where
  "report_window m w = metric_gauge seq_to_name (snd w) (metric_gauge seq_from_name (fst w) m)"

lemma norm_seq_names [simp]:
  "norm_name seq_from_name = seq_from_name" "norm_name seq_to_name = seq_to_name"
  "norm_name anomaly_name = anomaly_name"
  by code_simp+

lemma report_window_effect:
  "auditLastSeqTo (report_window m (f, t)) = Some t"
  "counter_of (report_window m (f, t)) anomaly_name = counter_of m anomaly_name
     + (if t < f \<or> (\<exists>l. auditLastSeqTo m = Some l \<and> t < l) then 1 else 0)"
  by (auto simp: report_window_def metric_gauge_def note_audit_sequence_def Let_def
      counter_of_inc split: option.splits)

text \<open>
  What the anomaly counter counts: windows that end before they start, or before the end of the
  window reported last.
\<close>

fun regressions :: "int option \<Rightarrow> (int \<times> int) list \<Rightarrow> int" where
  "regressions prev [] = 0"
| "regressions prev ((f, t) # ws) =
     (if t < f \<or> (case prev of None \<Rightarrow> False | Some l \<Rightarrow> t < l) then 1 else 0)
     + regressions (Some t) ws"

lemma counter_report_windows:
  "counter_of (foldl report_window m ws) anomaly_name
     = counter_of m anomaly_name + regressions (auditLastSeqTo m) ws"
proof (induction ws arbitrary: m)
  case (Cons w ws)
  obtain f t where "w = (f, t)" by (cases w)
  then show ?case
    by (auto simp: Cons.IH report_window_effect split: option.splits)
qed simp

end
