(* ===== verification/Config.thy ===== *)
theory Config
  imports Metrics
begin

text \<open>
  Reading the configuration from the environment: \<open>runtime/config/loader.ts\<close>,
  \<open>runtime/config/profile.ts\<close>, \<open>runtime/config/handlerConfig.ts\<close> and
  \<open>runtime/core/bytes.ts\<close> under \<open>src/src\<close>. The environment is a parameter of every reader;
  every other component receives its limits from here.
\<close>

type_synonym env = "string \<Rightarrow> string option"

section \<open>loader.ts\<close>

datatype source_kind = SrcEnv | SrcFallback | SrcDefault | SrcMissing

record config_source =
  src_kind :: source_kind
  src_name :: string
  src_redacted :: bool
  src_value :: "string option"

datatype config_error = MissingRequiredEnv | InvalidRequiredEnv | InvalidOptionalEnv

datatype 'a config_result =
    ConfigOk string "'a option" config_source
  | ConfigFail string config_error string config_source

text \<open>
  \<open>fallbackValue\<close> and \<open>defaultValue\<close> are own properties of the options or not (the outer
  option) and may be \<open>undefined\<close> (the inner one).
\<close>

record 'a load_options =
  lo_required :: bool
  lo_secret :: bool
  lo_fallback :: "'a option option"
  lo_default :: "'a option option"

definition redacted_value :: string where
  "redacted_value = ''[redacted]''"

definition normalize_env_raw :: "string option \<Rightarrow> string option" where
  "normalize_env_raw raw =
     (case raw of None \<Rightarrow> None
      | Some r \<Rightarrow> let t = trim r in if t \<noteq> [] then Some t else None)"

definition display_value :: "string \<Rightarrow> bool \<Rightarrow> string" where
  "display_value raw secret = (if secret then redacted_value else raw)"

definition mk_source :: "source_kind \<Rightarrow> string \<Rightarrow> bool \<Rightarrow> string option \<Rightarrow> config_source" where
  "mk_source kind name red v =
     \<lparr>src_kind = kind, src_name = name, src_redacted = red, src_value = v\<rparr>"

definition config_success ::
  "string \<Rightarrow> 'a option \<Rightarrow> source_kind \<Rightarrow> string \<Rightarrow> bool \<Rightarrow> 'a config_result" where
  "config_success name v kind disp secret =
     ConfigOk name v (mk_source kind name secret (Some (display_value disp secret)))"

definition config_failure ::
  "string \<Rightarrow> config_error \<Rightarrow> string \<Rightarrow> source_kind \<Rightarrow> bool \<Rightarrow> string option \<Rightarrow> 'a config_result" where
  "config_failure name code msg kind secret v =
     ConfigFail name code msg
       (mk_source kind name secret (map_option (\<lambda>x. display_value x secret) v))"

text \<open>\<open>stringifyFallback\<close> is the argument \<open>sh\<close>: how a value of the type is shown.\<close>

definition resolve_from_env ::
  "('a option \<Rightarrow> string) \<Rightarrow> env \<Rightarrow> string \<Rightarrow> (string \<Rightarrow> 'a option) \<Rightarrow> 'a load_options
     \<Rightarrow> 'a config_result" where
  "resolve_from_env sh env name parser opts =
     (let secret = lo_secret opts; required = lo_required opts in
      case normalize_env_raw (env name) of
        Some raw \<Rightarrow>
          (case parser raw of
             None \<Rightarrow> config_failure name
               (if required then InvalidRequiredEnv else InvalidOptionalEnv)
               (''Invalid env var value for '' @ name) SrcEnv secret (Some raw)
           | Some v \<Rightarrow> config_success name (Some v) SrcEnv raw secret)
      | None \<Rightarrow>
          (case lo_fallback opts of
             Some v \<Rightarrow> config_success name v SrcFallback (sh v) secret
           | None \<Rightarrow>
          (case lo_default opts of
             Some v \<Rightarrow> config_success name v SrcDefault (sh v) secret
           | None \<Rightarrow>
               if required then
                 config_failure name MissingRequiredEnv
                   (''Missing required env var '' @ name) SrcMissing secret None
               else ConfigOk name None (mk_source SrcMissing name secret None))))"

definition show_int_option :: "int option \<Rightarrow> string" where
  "show_int_option v = (case v of None \<Rightarrow> ''undefined'' | Some i \<Rightarrow> int_str i)"

definition show_string_option :: "string option \<Rightarrow> string" where
  "show_string_option v = (case v of None \<Rightarrow> ''undefined'' | Some s \<Rightarrow> s)"

definition show_bool_option :: "bool option \<Rightarrow> string" where
  "show_bool_option v =
     (case v of None \<Rightarrow> ''undefined'' | Some b \<Rightarrow> if b then ''true'' else ''false'')"

definition max_safe_integer :: int where
  "max_safe_integer = 9007199254740991"

definition parse_env_integer :: "string \<Rightarrow> int option" where
  "parse_env_integer raw =
     (let signed = (raw \<noteq> [] \<and> (hd raw = CHR ''+'' \<or> hd raw = CHR ''-''));
          ds = (if signed then tl raw else raw)
      in if ds = [] \<or> \<not> list_all is_digit ds then None
         else let v = (if signed \<and> hd raw = CHR ''-'' then - digits_val ds else digits_val ds)
              in if \<bar>v\<bar> \<le> max_safe_integer then Some v else None)"

definition parse_env_boolean :: "string \<Rightarrow> bool option" where
  "parse_env_boolean raw =
     (let n = to_lower (trim raw)
      in if n = ''1'' \<or> n = ''true'' \<or> n = ''yes'' \<or> n = ''on'' then Some True
         else if n = ''0'' \<or> n = ''false'' \<or> n = ''no'' \<or> n = ''off'' then Some False
         else None)"

definition no_options :: "'a load_options" where
  "no_options = \<lparr>lo_required = False, lo_secret = False, lo_fallback = None, lo_default = None\<rparr>"

definition load_string_config :: "env \<Rightarrow> string \<Rightarrow> string load_options \<Rightarrow> string config_result" where
  "load_string_config env name opts = resolve_from_env show_string_option env name Some opts"

definition load_integer_config :: "env \<Rightarrow> string \<Rightarrow> int load_options \<Rightarrow> int config_result" where
  "load_integer_config env name opts =
     resolve_from_env show_int_option env name parse_env_integer opts"

definition load_boolean_config :: "env \<Rightarrow> string \<Rightarrow> bool load_options \<Rightarrow> bool config_result" where
  "load_boolean_config env name opts =
     resolve_from_env show_bool_option env name parse_env_boolean opts"

section \<open>profile.ts and bytes.ts\<close>

datatype resource_profile = VpsSmall | VpsMedium | Diskless

definition resolve_resource_profile :: "string option \<Rightarrow> resource_profile option" where
  "resolve_resource_profile raw =
     (let v = to_lower (trim (case raw of None \<Rightarrow> [] | Some r \<Rightarrow> r))
      in if v = [] then None
         else if v \<in> {''vps-small'', ''small'', ''s'', ''vps_small''} then Some VpsSmall
         else if v \<in> {''vps-medium'', ''medium'', ''m'', ''default'', ''vps_medium''} then Some VpsMedium
         else if v \<in> {''diskless'', ''memory-only'', ''memory_only'', ''ephemeral''} then Some Diskless
         else None)"

definition parse_bounded_integer :: "string option \<Rightarrow> int \<Rightarrow> int \<Rightarrow> int \<Rightarrow> int" where
  "parse_bounded_integer raw fallback lo hi =
     (case (case raw of None \<Rightarrow> None | Some r \<Rightarrow> parse_int r) of
        None \<Rightarrow> fallback
      | Some v \<Rightarrow> if v < lo then fallback else min v hi)"

definition normalize_bounded_integer :: "jnum option \<Rightarrow> int \<Rightarrow> int \<Rightarrow> int \<Rightarrow> int" where
  "normalize_bounded_integer v fallback lo hi =
     (case v of
        Some (Fin q) \<Rightarrow> if q < of_int lo then fallback else min \<lfloor>q\<rfloor> hi
      | _ \<Rightarrow> fallback)"

definition read_positive_integer :: "string option \<Rightarrow> int \<Rightarrow> jnum \<Rightarrow> int" where
  "read_positive_integer raw fallback lo =
     (case raw of None \<Rightarrow> fallback
      | Some r \<Rightarrow>
          (let bound = (case lo of Fin q \<Rightarrow> max 1 \<lfloor>q\<rfloor> | _ \<Rightarrow> 1)
           in case parse_int r of None \<Rightarrow> fallback
              | Some v \<Rightarrow> if v < bound then fallback else v))"

definition body_exceeds_utf8_limit :: "string \<Rightarrow> int \<Rightarrow> bool" where
  "body_exceeds_utf8_limit body limit \<longleftrightarrow> int (utf8_len body) > limit"

section \<open>handlerConfig.ts\<close>

definition with_fallback :: "int \<Rightarrow> int load_options" where
  "with_fallback f = no_options\<lparr>lo_fallback := Some (Some f)\<rparr>"

definition read_raw_env :: "string \<Rightarrow> env \<Rightarrow> string option" where
  "read_raw_env name env =
     (case load_string_config env name no_options of ConfigOk _ v _ \<Rightarrow> v | ConfigFail _ _ _ _ \<Rightarrow> None)"

definition read_env_string :: "string \<Rightarrow> env \<Rightarrow> string option" where
  "read_env_string name env =
     (case load_string_config env name no_options of
        ConfigFail _ _ _ _ \<Rightarrow> None
      | ConfigOk _ v _ \<Rightarrow>
          (let t = (case v of None \<Rightarrow> [] | Some s \<Rightarrow> trim s) in if t \<noteq> [] then Some t else None))"

definition read_strict_enabled_flag :: "string \<Rightarrow> env \<Rightarrow> bool" where
  "read_strict_enabled_flag name env \<longleftrightarrow> read_env_string name env = Some ''1''"

definition read_positive_int_env :: "string \<Rightarrow> int \<Rightarrow> env \<Rightarrow> int" where
  "read_positive_int_env name fallback env =
     (case load_integer_config env name (with_fallback fallback) of
        ConfigOk _ (Some v) _ \<Rightarrow> if v \<le> 0 then fallback else v
      | _ \<Rightarrow> fallback)"

definition read_bounded_int_env :: "string \<Rightarrow> int \<Rightarrow> int \<Rightarrow> int \<Rightarrow> env \<Rightarrow> int" where
  "read_bounded_int_env name fallback lo hi env =
     (case load_integer_config env name (with_fallback fallback) of
        ConfigOk _ (Some v) _ \<Rightarrow> min (max v lo) hi
      | _ \<Rightarrow> fallback)"

definition split_refs_csv :: "string option \<Rightarrow> string list" where
  "split_refs_csv raw =
     (case raw of None \<Rightarrow> []
      | Some r \<Rightarrow> if r = [] then [] else filter (\<lambda>e. e \<noteq> []) (map trim (split_on CHR '','' r)))"

abbreviation or_empty :: "string option \<Rightarrow> string" where
  "or_empty v \<equiv> (case v of None \<Rightarrow> [] | Some s \<Rightarrow> s)"

text \<open>\<open>a || b\<close> on strings that may be \<open>undefined\<close>.\<close>

definition or_else :: "string option \<Rightarrow> string option \<Rightarrow> string option" where
  "or_else a b = (case a of Some s \<Rightarrow> if s \<noteq> [] then a else b | None \<Rightarrow> b)"

record incident_auth_config =
  ia_token :: string
  ia_requireSignatureRef :: bool
  ia_refHeaderName :: string
  ia_root :: "string list"
  ia_upgrade :: "string list"
  ia_emergency :: "string list"
  ia_reporter :: "string list"
  ia_notifyUrl :: "string option"
  ia_notifyToken :: "string option"
  ia_notifyHmac :: "string option"

definition read_incident_auth_config :: "env \<Rightarrow> incident_auth_config" where
  "read_incident_auth_config env =
     \<lparr>ia_token = or_empty (read_raw_env ''GATEWAY_INTEGRITY_INCIDENT_TOKEN'' env),
      ia_requireSignatureRef =
        (read_raw_env ''GATEWAY_INTEGRITY_INCIDENT_REQUIRE_SIGNATURE_REF'' env = Some ''1''),
      ia_refHeaderName =
        trim (or_empty (or_else (read_raw_env ''GATEWAY_INTEGRITY_INCIDENT_REF_HEADER'' env)
          (Some ''x-signature-ref''))),
      ia_root = split_refs_csv (read_raw_env ''GATEWAY_INTEGRITY_ROLE_ROOT_REFS'' env),
      ia_upgrade = split_refs_csv (read_raw_env ''GATEWAY_INTEGRITY_ROLE_UPGRADE_REFS'' env),
      ia_emergency = split_refs_csv (read_raw_env ''GATEWAY_INTEGRITY_ROLE_EMERGENCY_REFS'' env),
      ia_reporter = split_refs_csv (read_raw_env ''GATEWAY_INTEGRITY_ROLE_REPORTER_REFS'' env),
      ia_notifyUrl = read_env_string ''GATEWAY_INTEGRITY_INCIDENT_NOTIFY_URL'' env,
      ia_notifyToken = read_env_string ''GATEWAY_INTEGRITY_INCIDENT_NOTIFY_TOKEN'' env,
      ia_notifyHmac = read_env_string ''GATEWAY_INTEGRITY_INCIDENT_NOTIFY_HMAC'' env\<rparr>"

record metrics_auth_config =
  ma_basicUser :: string
  ma_basicPass :: string
  ma_bearerToken :: string
  ma_needBasic :: bool
  ma_needBearer :: bool
  ma_mustGuard :: bool

definition read_metrics_auth_config :: "env \<Rightarrow> metrics_auth_config" where
  "read_metrics_auth_config env =
     \<lparr>ma_basicUser = or_empty (read_raw_env ''METRICS_BASIC_USER'' env),
      ma_basicPass = or_empty (read_raw_env ''METRICS_BASIC_PASS'' env),
      ma_bearerToken = or_empty (read_raw_env ''METRICS_BEARER_TOKEN'' env),
      ma_needBasic = (or_empty (read_raw_env ''METRICS_BASIC_USER'' env) \<noteq> []
                    \<and> or_empty (read_raw_env ''METRICS_BASIC_PASS'' env) \<noteq> []),
      ma_needBearer = (or_empty (read_raw_env ''METRICS_BEARER_TOKEN'' env) \<noteq> []),
      ma_mustGuard = (read_raw_env ''GATEWAY_REQUIRE_METRICS_AUTH'' env \<noteq> Some ''0'')\<rparr>"

record webhook_config =
  wc_maxBodyBytes :: int
  wc_shadowInvalid :: bool
  wc_stripeSecret :: string
  wc_stripeToleranceMs :: int
  wc_paypalWebhookSecret :: "string option"
  wc_gopayWebhookSecret :: string

definition read_webhook_config :: "int \<Rightarrow> env \<Rightarrow> webhook_config" where
  "read_webhook_config maxBodyBytesFallback env =
     \<lparr>wc_maxBodyBytes =
        read_positive_int_env ''GATEWAY_WEBHOOK_MAX_BODY_BYTES'' maxBodyBytesFallback env,
      wc_shadowInvalid = (read_raw_env ''GATEWAY_WEBHOOK_SHADOW_INVALID'' env = Some ''1''),
      wc_stripeSecret = or_empty (read_raw_env ''STRIPE_WEBHOOK_SECRET'' env),
      wc_stripeToleranceMs =
        read_bounded_int_env ''STRIPE_WEBHOOK_TOLERANCE_MS'' 300000 1000 600000 env,
      wc_paypalWebhookSecret = or_else (read_raw_env ''PAYPAL_WEBHOOK_SECRET'' env) None,
      wc_gopayWebhookSecret = or_empty (read_raw_env ''GOPAY_WEBHOOK_SECRET'' env)\<rparr>"

record worker_notify_config =
  wn_target :: string
  wn_token :: string
  wn_hmacSecret :: string
  wn_breakerKey :: "string option"
  wn_breakerKeyStripe :: "string option"
  wn_breakerKeyPaypal :: "string option"
  wn_breakerKeyGopay :: "string option"

definition read_worker_notify_config :: "env \<Rightarrow> worker_notify_config" where
  "read_worker_notify_config env =
     \<lparr>wn_target = or_empty (or_else (read_raw_env ''WORKER_NOTIFY_URL'' env)
        (Some ''http://localhost:8787/notify'')),
      wn_token = or_empty (or_else (read_raw_env ''WORKER_AUTH_TOKEN'' env)
        (read_raw_env ''WORKER_NOTIFY_TOKEN'' env)),
      wn_hmacSecret = or_empty (read_raw_env ''WORKER_NOTIFY_HMAC'' env),
      wn_breakerKey = read_raw_env ''WORKER_NOTIFY_BREAKER_KEY'' env,
      wn_breakerKeyStripe = read_raw_env ''WORKER_NOTIFY_BREAKER_KEY_STRIPE'' env,
      wn_breakerKeyPaypal = read_raw_env ''WORKER_NOTIFY_BREAKER_KEY_PAYPAL'' env,
      wn_breakerKeyGopay = read_raw_env ''WORKER_NOTIFY_BREAKER_KEY_GOPAY'' env\<rparr>"

definition resolve_worker_notify_breaker_key ::
  "worker_notify_config \<Rightarrow> string option \<Rightarrow> string" where
  "resolve_worker_notify_breaker_key cfg provider =
     (if provider = Some ''stripe'' \<and> or_empty (wn_breakerKeyStripe cfg) \<noteq> []
        then or_empty (wn_breakerKeyStripe cfg)
      else if provider = Some ''paypal'' \<and> or_empty (wn_breakerKeyPaypal cfg) \<noteq> []
        then or_empty (wn_breakerKeyPaypal cfg)
      else if provider = Some ''gopay'' \<and> or_empty (wn_breakerKeyGopay cfg) \<noteq> []
        then or_empty (wn_breakerKeyGopay cfg)
      else or_empty (or_else (wn_breakerKey cfg) (or_else provider (Some ''gateway''))))"

section \<open>Properties\<close>

lemmas loader_defs =
  resolve_from_env_def config_success_def config_failure_def mk_source_def
  display_value_def normalize_env_raw_def

fun result_source :: "'a config_result \<Rightarrow> config_source" where
  "result_source (ConfigOk _ _ s) = s"
| "result_source (ConfigFail _ _ _ s) = s"

lemma resolve_redacts:
  assumes "lo_secret opts"
  shows "src_redacted (result_source (resolve_from_env sh env name parser opts))
    \<and> src_value (result_source (resolve_from_env sh env name parser opts))
       \<in> {None, Some redacted_value}"
  using assms
  by (auto simp: loader_defs Let_def split: option.splits if_splits)

lemma digits_val_nonneg: "list_all is_digit s \<Longrightarrow> 0 \<le> digits_val s"
proof -
  have "0 \<le> a \<Longrightarrow> list_all is_digit s \<Longrightarrow> 0 \<le> foldl (\<lambda>a c. 10 * a + digit_val c) a s" for a
    by (induction s arbitrary: a) (auto simp: digit_val_def is_digit_def Let_def)
  then show "list_all is_digit s \<Longrightarrow> ?thesis" by (simp add: digits_val_def)
qed

lemma parse_env_integer_safe: "parse_env_integer raw = Some v \<Longrightarrow> \<bar>v\<bar> \<le> max_safe_integer"
  by (auto simp: parse_env_integer_def Let_def split: if_splits)

lemma read_positive_int_env_pos: "0 < fallback \<Longrightarrow> 0 < read_positive_int_env name fallback env"
  by (auto simp: read_positive_int_env_def split: config_result.splits option.splits)

lemma read_positive_int_env_unset: "env name = None \<Longrightarrow> read_positive_int_env name fallback env = fallback"
  by (simp add: read_positive_int_env_def load_integer_config_def loader_defs with_fallback_def no_options_def Let_def)

lemma read_bounded_int_env_range:
  "lo \<le> fallback \<Longrightarrow> fallback \<le> hi \<Longrightarrow>
   lo \<le> read_bounded_int_env name fallback lo hi env
     \<and> read_bounded_int_env name fallback lo hi env \<le> hi"
  by (auto simp: read_bounded_int_env_def split: config_result.splits option.splits)

lemma read_env_string_trimmed: "read_env_string name env = Some s \<Longrightarrow> s \<noteq> [] \<and> trim s = s"
  by (auto simp: read_env_string_def Let_def split: config_result.splits option.splits if_splits)

lemma normalize_bounded_integer_range:
  "lo \<le> fallback \<Longrightarrow> fallback \<le> hi \<Longrightarrow>
   lo \<le> normalize_bounded_integer v fallback lo hi
     \<and> normalize_bounded_integer v fallback lo hi \<le> hi"
  by (auto simp: normalize_bounded_integer_def le_floor_iff not_less
      split: option.splits jnum.splits)

lemma split_refs_csv_trimmed: "r \<in> set (split_refs_csv raw) \<Longrightarrow> r \<noteq> [] \<and> trim r = r"
  by (auto simp: split_refs_csv_def split: option.splits if_splits)

end
