(* ===== verification/Cache.thy ===== *)
theory Cache
  imports Config
begin

text \<open>
  The envelope cache of \<open>src/src/cache.ts\<close>: a bounded store of byte buffers with a time to
  live, an index from data subjects to the keys that hold their data, and the operations of
  the module. The three \<open>Map\<close> objects of the module are the fields \<open>store\<close>, \<open>subjects\<close> and
  \<open>keySubject\<close>; a \<open>Set\<close> is a list without repetitions. Each reading of \<open>Date.now()\<close> is an
  argument.
\<close>

type_synonym bytes = "8 word list"

record cache_integrity =
  ci_verified :: bool
  ci_root :: "string option"
  ci_hash :: "string option"
  ci_verifiedAt :: "int option"

record cache_entry =
  ce_value :: bytes
  ce_expiresAt :: int
  ce_integrity :: "cache_integrity option"

datatype admission_mode = Reject | EvictLru

record cache_cfg =
  cc_ttl :: int
  cc_maxEntryBytes :: int
  cc_maxEntries :: int
  cc_maxKeysPerSubject :: int
  cc_mode :: admission_mode

fun read_first_positive :: "env \<Rightarrow> string list \<Rightarrow> int \<Rightarrow> int" where
  "read_first_positive env [] fallback = fallback"
| "read_first_positive env (name # names) fallback =
     (case load_integer_config env name no_options of
        ConfigOk _ (Some v) _ \<Rightarrow> if 0 < v then v else read_first_positive env names fallback
      | _ \<Rightarrow> read_first_positive env names fallback)"

definition read_admission_mode :: "env \<Rightarrow> admission_mode" where
  "read_admission_mode env =
     (case load_string_config env ''GATEWAY_CACHE_ADMISSION_MODE'' no_options of
        ConfigOk _ (Some v) _ \<Rightarrow> if to_lower (trim v) = ''evict_lru'' then EvictLru else Reject
      | _ \<Rightarrow> Reject)"

definition cache_config :: "env \<Rightarrow> cache_cfg" where
  "cache_config env =
     \<lparr>cc_ttl = read_first_positive env [''GATEWAY_CACHE_TTL_MS''] 300000,
      cc_maxEntryBytes = read_first_positive env
        [''GATEWAY_CACHE_MAX_ENTRY_BYTES'', ''GATEWAY_CACHE_ENTRY_MAX_BYTES''] (256 * 1024),
      cc_maxEntries = read_first_positive env
        [''GATEWAY_CACHE_MAX_ENTRIES'', ''GATEWAY_CACHE_MAX_COUNT'', ''GATEWAY_CACHE_ENTRY_LIMIT''] 256,
      cc_maxKeysPerSubject = read_first_positive env [''GATEWAY_CACHE_MAX_KEYS_PER_SUBJECT''] 64,
      cc_mode = read_admission_mode env\<rparr>"

record cache_state = mstate +
  store :: "cache_entry jmap"
  subjects :: "string list jmap"
  keySubject :: "string jmap"

definition cache_init :: "cache_cfg \<Rightarrow> metrics \<Rightarrow> cache_state" where
  "cache_init cfg m =
     mgauge ''gateway_cache_admission_mode'' (if cc_mode cfg = EvictLru then 1 else 0)
    (mgauge ''gateway_cache_max_keys_per_subject'' (cc_maxKeysPerSubject cfg)
    (mgauge ''gateway_cache_max_entries'' (cc_maxEntries cfg)
    (mgauge ''gateway_cache_max_entry_bytes'' (cc_maxEntryBytes cfg)
    (mgauge ''gateway_cache_ttl_ms'' (cc_ttl cfg)
      \<lparr>mx = m, store = [], subjects = [], keySubject = []\<rparr>))))"

section \<open>Operations\<close>

definition set_add :: "string \<Rightarrow> string list \<Rightarrow> string list" where
  "set_add k xs = (if k \<in> set xs then xs else xs @ [k])"

definition detach_key :: "string \<Rightarrow> cache_state \<Rightarrow> cache_state" where
  "detach_key k s =
     (case map_of (keySubject s) k of
        None \<Rightarrow> s
      | Some subj \<Rightarrow>
          if subj = [] then s
          else
            let s1 = (case map_of (subjects s) subj of
                        None \<Rightarrow> s
                      | Some ks \<Rightarrow>
                          let ks' = removeAll k ks
                          in if ks' = [] then s\<lparr>subjects := AList.delete subj (subjects s)\<rparr>
                             else s\<lparr>subjects := AList.update subj ks' (subjects s)\<rparr>)
            in s1\<lparr>keySubject := AList.delete k (keySubject s1)\<rparr>)"

definition add_key_to_subject :: "string \<Rightarrow> string \<Rightarrow> cache_state \<Rightarrow> cache_state" where
  "add_key_to_subject k subj s =
     (let ks = (case map_of (subjects s) subj of None \<Rightarrow> [] | Some ks \<Rightarrow> ks)
      in s\<lparr>subjects := AList.update subj (set_add k ks) (subjects s),
           keySubject := AList.update k subj (keySubject s)\<rparr>)"

definition attach_key :: "string \<Rightarrow> string \<Rightarrow> cache_state \<Rightarrow> cache_state" where
  "attach_key k subj s = add_key_to_subject k subj (detach_key k s)"

definition can_admit_subject_key :: "cache_cfg \<Rightarrow> string \<Rightarrow> string \<Rightarrow> cache_state \<Rightarrow> bool" where
  "can_admit_subject_key cfg k subj s =
     (case map_of (subjects s) subj of
        None \<Rightarrow> True
      | Some ks \<Rightarrow> k \<in> set ks \<or> int (length ks) < cc_maxKeysPerSubject cfg)"

definition touch_key :: "string \<Rightarrow> cache_state \<Rightarrow> cache_state" where
  "touch_key k s =
     (case map_of (store s) k of
        None \<Rightarrow> s
      | Some e \<Rightarrow> s\<lparr>store := AList.update k e (AList.delete k (store s))\<rparr>)"

definition delete_entry :: "string \<Rightarrow> cache_state \<Rightarrow> cache_state" where
  "delete_entry k s = detach_key k (s\<lparr>store := AList.delete k (store s)\<rparr>)"

definition evict_oldest_key :: "cache_state \<Rightarrow> bool \<times> cache_state" where
  "evict_oldest_key s =
     (case store s of
        [] \<Rightarrow> (False, s)
      | (oldest, _) # _ \<Rightarrow>
          if oldest = [] then (False, s)
          else (True, minc ''gateway_cache_evict_lru'' (delete_entry oldest s)))"

definition cache_size_gauge :: "cache_state \<Rightarrow> cache_state" where
  "cache_size_gauge s = mgauge ''gateway_cache_size'' (int (length (store s))) s"

definition expired_keys :: "int \<Rightarrow> cache_state \<Rightarrow> string list" where
  "expired_keys now s = map fst (filter (\<lambda>(k, e). ce_expiresAt e \<le> now) (store s))"

definition cache_sweep :: "int \<Rightarrow> cache_state \<Rightarrow> cache_state" where
  "cache_sweep now s =
     (let dead = expired_keys now s;
          s1 = fold delete_entry dead s
      in if dead \<noteq> [] then
           cache_size_gauge (minc_by ''gateway_cache_swept'' (int (length dead)) s1)
         else s1)"

datatype put_arg = NoArg | SubjectArg string | OptionsArg "string option" "cache_integrity option"

fun put_subject :: "put_arg \<Rightarrow> string" where
  "put_subject NoArg = []"
| "put_subject (SubjectArg subj) = subj"
| "put_subject (OptionsArg subj _) = or_empty subj"

fun put_integrity :: "put_arg \<Rightarrow> cache_integrity option" where
  "put_integrity (OptionsArg _ i) = i"
| "put_integrity _ = None"

definition reject_put :: "string \<Rightarrow> cache_state \<Rightarrow> bool \<times> cache_state" where
  "reject_put reason s = (False, minc reason (minc ''gateway_cache_store_reject'' s))"

text \<open>The last part of \<open>put\<close>: the entry is written and its subject recorded.\<close>

definition put_store :: "cache_cfg \<Rightarrow> int \<Rightarrow> string \<Rightarrow> bytes \<Rightarrow> put_arg \<Rightarrow> cache_state \<Rightarrow> cache_state" where
  "put_store cfg now k v arg s =
     (let existed = (map_of (store s) k \<noteq> None);
          m = (if existed then AList.delete k (store s) else store s);
          e = \<lparr>ce_value = v, ce_expiresAt = now + cc_ttl cfg, ce_integrity = put_integrity arg\<rparr>;
          s1 = s\<lparr>store := AList.update k e m\<rparr>;
          s2 = (if put_subject arg \<noteq> [] then attach_key k (put_subject arg) s1
                else if existed then
                  (case map_of (keySubject s1) k of
                     None \<Rightarrow> s1
                   | Some subj \<Rightarrow> if subj = [] then s1 else add_key_to_subject k subj s1)
                else s1)
      in cache_size_gauge s2)"

text \<open>\<open>put\<close>: \<open>t1\<close> is the clock read by the sweep, \<open>t2\<close> the one the expiry is taken from.\<close>

definition cache_put ::
  "cache_cfg \<Rightarrow> int \<Rightarrow> int \<Rightarrow> string \<Rightarrow> bytes \<Rightarrow> put_arg \<Rightarrow> cache_state \<Rightarrow> bool \<times> cache_state" where
  "cache_put cfg t1 t2 k v arg s0 =
     (let s = cache_sweep t1 s0 in
      if int (length v) > cc_maxEntryBytes cfg then
        reject_put ''gateway_cache_store_reject_size'' s
      else if put_subject arg \<noteq> [] \<and> \<not> can_admit_subject_key cfg k (put_subject arg) s then
        reject_put ''gateway_cache_store_reject_subject'' s
      else if map_of (store s) k = None \<and> int (length (store s)) \<ge> cc_maxEntries cfg then
        (if cc_mode cfg = EvictLru then
           (case evict_oldest_key s of
              (False, s') \<Rightarrow> reject_put ''gateway_cache_store_reject_capacity'' s'
            | (True, s') \<Rightarrow> (True, put_store cfg t2 k v arg s'))
         else reject_put ''gateway_cache_store_reject_capacity'' s)
      else (True, put_store cfg t2 k v arg s))"

datatype fetch_result = Hit bytes "cache_integrity option" | Miss | Expired | Unverified

definition cache_fetch_entry ::
  "int \<Rightarrow> string \<Rightarrow> bool \<Rightarrow> cache_state \<Rightarrow> fetch_result \<times> cache_state" where
  "cache_fetch_entry now k requireVerified s =
     (case map_of (store s) k of
        None \<Rightarrow> (Miss, minc ''gateway_cache_miss'' s)
      | Some e \<Rightarrow>
          if now > ce_expiresAt e then
            (Expired, cache_size_gauge (minc ''gateway_cache_expired'' (delete_entry k s)))
          else if requireVerified
              \<and> \<not> (case ce_integrity e of None \<Rightarrow> False | Some i \<Rightarrow> ci_verified i) then
            (Unverified, minc ''gateway_integrity_unverified_block'' s)
          else (Hit (ce_value e) (ce_integrity e), minc ''gateway_cache_hit'' (touch_key k s)))"

definition cache_get :: "int \<Rightarrow> string \<Rightarrow> cache_state \<Rightarrow> bytes option \<times> cache_state" where
  "cache_get now k s =
     (case cache_fetch_entry now k False s of
        (Hit v _, s') \<Rightarrow> (Some v, s')
      | (_, s') \<Rightarrow> (None, s'))"

fun forget_keys :: "string list \<Rightarrow> cache_state \<Rightarrow> int \<times> cache_state" where
  "forget_keys [] s = (0, s)"
| "forget_keys (k # ks) s =
     (if map_of (store s) k \<noteq> None then
        (let (n, s') = forget_keys ks
               (s\<lparr>store := AList.delete k (store s), keySubject := AList.delete k (keySubject s)\<rparr>)
         in (n + 1, s'))
      else forget_keys ks s)"

definition cache_forget_subject :: "string \<Rightarrow> cache_state \<Rightarrow> int \<times> cache_state" where
  "cache_forget_subject subj s =
     (case map_of (subjects s) subj of
        None \<Rightarrow> (0, s)
      | Some ks \<Rightarrow>
          (let (n, s1) = forget_keys ks s
           in (n, cache_size_gauge (s1\<lparr>subjects := AList.delete subj (subjects s1)\<rparr>))))"

definition cache_drop_key :: "string \<Rightarrow> cache_state \<Rightarrow> bool \<times> cache_state" where
  "cache_drop_key k s =
     (if map_of (store s) k = None then (False, s)
      else (True, cache_size_gauge (delete_entry k s)))"

text \<open>The calls the handler makes, with the clock readings each of them takes.\<close>

datatype cache_op =
    PutOp int int string bytes put_arg
  | FetchOp int string bool
  | GetOp int string
  | SweepOp int
  | ForgetOp string
  | DropOp string

fun cache_step :: "cache_cfg \<Rightarrow> cache_state \<Rightarrow> cache_op \<Rightarrow> cache_state" where
  "cache_step cfg s (PutOp t1 t2 k v arg) = snd (cache_put cfg t1 t2 k v arg s)"
| "cache_step cfg s (FetchOp t k r) = snd (cache_fetch_entry t k r s)"
| "cache_step cfg s (GetOp t k) = snd (cache_get t k s)"
| "cache_step cfg s (SweepOp t) = cache_sweep t s"
| "cache_step cfg s (ForgetOp subj) = snd (cache_forget_subject subj s)"
| "cache_step cfg s (DropOp k) = snd (cache_drop_key k s)"


section \<open>The invariant\<close>

definition keys_of :: "string \<Rightarrow> cache_state \<Rightarrow> string list" where
  "keys_of subj s = (case map_of (subjects s) subj of None \<Rightarrow> [] | Some ks \<Rightarrow> ks)"

text \<open>The two indexes describe the same relation between keys and subjects.\<close>

definition index_ok :: "cache_state \<Rightarrow> bool" where
  "index_ok s \<longleftrightarrow>
     jm_ok (subjects s) \<and> jm_ok (keySubject s)
     \<and> (\<forall>k subj. map_of (keySubject s) k = Some subj \<longleftrightarrow> k \<in> set (keys_of subj s))
     \<and> (\<forall>subj. distinct (keys_of subj s) \<and> map_of (subjects s) subj \<noteq> Some [])
     \<and> keys_of [] s = []"

definition cache_inv :: "cache_cfg \<Rightarrow> cache_state \<Rightarrow> bool" where
  "cache_inv cfg s \<longleftrightarrow>
     jm_ok (store s) \<and> index_ok s
     \<and> (\<forall>k. map_of (keySubject s) k \<noteq> None \<longrightarrow> map_of (store s) k \<noteq> None)
     \<and> int (length (store s)) \<le> cc_maxEntries cfg
     \<and> (\<forall>subj. int (length (keys_of subj s)) \<le> cc_maxKeysPerSubject cfg)
     \<and> (\<forall>k e. map_of (store s) k = Some e \<longrightarrow> int (length (ce_value e)) \<le> cc_maxEntryBytes cfg)"

lemma m_frame [simp]:
  "store (minc n s) = store s" "subjects (minc n s) = subjects s"
  "keySubject (minc n s) = keySubject s"
  "store (minc_by n v s) = store s" "subjects (minc_by n v s) = subjects s"
  "keySubject (minc_by n v s) = keySubject s"
  "store (mgauge n v s) = store s" "subjects (mgauge n v s) = subjects s"
  "keySubject (mgauge n v s) = keySubject s"
  by (simp_all add: m_defs)

lemma size_gauge_frame [simp]:
  "store (cache_size_gauge s) = store s" "subjects (cache_size_gauge s) = subjects s"
  "keySubject (cache_size_gauge s) = keySubject s"
  by (simp_all add: cache_size_gauge_def)

lemma in_keys_of:
  "k \<in> set (keys_of subj s) \<longleftrightarrow> (\<exists>ks. map_of (subjects s) subj = Some ks \<and> k \<in> set ks)"
  by (cases "map_of (subjects s) subj") (simp_all add: keys_of_def)

lemma keys_of_cong: "subjects s = subjects t \<Longrightarrow> keys_of subj s = keys_of subj t"
  by (simp add: keys_of_def)

lemma keys_of_frame [simp]:
  "keys_of subj (minc n s) = keys_of subj s" "keys_of subj (minc_by n v s) = keys_of subj s"
  "keys_of subj (mgauge n v s) = keys_of subj s" "keys_of subj (cache_size_gauge s) = keys_of subj s"
  "keys_of subj (s\<lparr>store := m\<rparr>) = keys_of subj s"
  "keys_of subj (s\<lparr>keySubject := j\<rparr>) = keys_of subj s"
  by (simp_all add: keys_of_def)

lemma index_ok_frame [simp]:
  "index_ok (minc n s) = index_ok s" "index_ok (minc_by n v s) = index_ok s"
  "index_ok (mgauge n v s) = index_ok s" "index_ok (cache_size_gauge s) = index_ok s"
  "index_ok (s\<lparr>store := m\<rparr>) = index_ok s"
  by (simp_all add: index_ok_def)

lemma cache_inv_frame [simp]:
  "cache_inv cfg (minc n s) = cache_inv cfg s" "cache_inv cfg (minc_by n v s) = cache_inv cfg s"
  "cache_inv cfg (mgauge n v s) = cache_inv cfg s"
  "cache_inv cfg (cache_size_gauge s) = cache_inv cfg s"
  by (simp_all add: cache_inv_def)

lemma index_okD:
  assumes "index_ok s"
  shows "map_of (keySubject s) k = Some subj \<longleftrightarrow> k \<in> set (keys_of subj s)"
    and "distinct (keys_of subj s)" and "map_of (subjects s) subj \<noteq> Some []" and "keys_of [] s = []"
    and "jm_ok (subjects s)" and "jm_ok (keySubject s)"
  using assms by (auto simp: index_ok_def)

lemma keySubject_not_empty: "index_ok s \<Longrightarrow> map_of (keySubject s) k \<noteq> Some []"
  using index_okD(1) [of s k "[]"] index_okD(4) [of s] by auto

subsection \<open>The indexes\<close>

lemma detach_store [simp]: "store (detach_key k s) = store s"
  by (simp add: detach_key_def Let_def split: option.splits)

lemma detach_keySubject:
  "index_ok s \<Longrightarrow> map_of (keySubject (detach_key k s)) k' =
     (if k' = k then None else map_of (keySubject s) k')"
  using keySubject_not_empty [of s k]
  by (auto simp: detach_key_def Let_def split: option.splits)

lemma detach_keys_of:
  assumes "index_ok s"
  shows "keys_of subj (detach_key k s) = removeAll k (keys_of subj s)"
proof (cases "map_of (keySubject s) k")
  case None
  then have "k \<notin> set (keys_of subj s)" using index_okD(1) [OF assms, of k subj] by auto
  with None show ?thesis by (simp add: detach_key_def)
next
  case (Some subj')
  then have ne: "subj' \<noteq> []" using keySubject_not_empty [OF assms, of k] by auto
  have k: "k \<in> set (keys_of subj' s)" using Some index_okD(1) [OF assms] by blast
  then obtain ks where ks: "map_of (subjects s) subj' = Some ks"
    by (auto simp: in_keys_of)
  have "k \<notin> set (keys_of subj s)" if "subj \<noteq> subj'"
    using that Some index_okD(1) [OF assms, of k subj] by auto
  then show ?thesis using Some ne ks
    by (cases "subj = subj'") (simp_all add: detach_key_def keys_of_def Let_def)
qed

lemma detach_subjects_not_empty:
  "index_ok s \<Longrightarrow> map_of (subjects (detach_key k s)) subj \<noteq> Some []"
  using index_okD(3) [of s subj]
  by (auto simp: detach_key_def Let_def split: option.splits if_splits)

lemma detach_index_ok [gw_intro]:
  assumes "index_ok s"
  shows "index_ok (detach_key k s)"
proof -
  have "jm_ok (subjects (detach_key k s))" "jm_ok (keySubject (detach_key k s))"
    using index_okD(5,6) [OF assms]
    by (auto simp: detach_key_def Let_def split: option.splits)
  with assms show ?thesis
    unfolding index_ok_def detach_keys_of [OF assms] detach_keySubject [OF assms]
    using detach_subjects_not_empty [OF assms]
    by (auto simp: distinct_removeAll)
qed

lemma add_key_store [simp]: "store (add_key_to_subject k subj s) = store s"
  by (simp add: add_key_to_subject_def Let_def)

lemma add_key_keySubject:
  "map_of (keySubject (add_key_to_subject k subj s)) k' =
     (if k' = k then Some subj else map_of (keySubject s) k')"
  by (simp add: add_key_to_subject_def Let_def)

lemma add_key_keys_of:
  "keys_of subj' (add_key_to_subject k subj s) =
     (if subj' = subj then set_add k (keys_of subj s) else keys_of subj' s)"
  by (simp add: add_key_to_subject_def Let_def keys_of_def)

lemma set_set_add [simp]: "set (set_add k ks) = insert k (set ks)"
  by (auto simp: set_add_def)

lemma distinct_set_add [simp]: "distinct ks \<Longrightarrow> distinct (set_add k ks)"
  by (simp add: set_add_def)

lemma length_set_add: "length (set_add k ks) = (if k \<in> set ks then length ks else Suc (length ks))"
  by (simp add: set_add_def)

lemma add_key_index_ok:
  assumes ok: "index_ok s" and subj: "subj \<noteq> []"
    and free: "map_of (keySubject s) k = None \<or> map_of (keySubject s) k = Some subj"
  shows "index_ok (add_key_to_subject k subj s)"
proof -
  have "jm_ok (subjects (add_key_to_subject k subj s))"
    "jm_ok (keySubject (add_key_to_subject k subj s))"
    using index_okD(5,6) [OF ok] by (auto simp: add_key_to_subject_def Let_def)
  moreover have "map_of (subjects (add_key_to_subject k subj s)) subj' \<noteq> Some []" for subj'
    using index_okD(3) [OF ok, of subj']
    by (cases "subj' = subj"; cases "map_of (subjects s) subj")
      (simp_all add: add_key_to_subject_def Let_def set_add_def)
  moreover have "k \<notin> set (keys_of subj' s)" if "subj' \<noteq> subj" for subj'
    using that free index_okD(1) [OF ok, of k subj'] by auto
  ultimately show ?thesis
    using ok subj free unfolding index_ok_def add_key_keys_of add_key_keySubject by auto
qed

lemma attach_store [simp]: "store (attach_key k subj s) = store s"
  by (simp add: attach_key_def)

lemma attach_keySubject:
  "index_ok s \<Longrightarrow> map_of (keySubject (attach_key k subj s)) k' =
     (if k' = k then Some subj else map_of (keySubject s) k')"
  by (simp add: attach_key_def add_key_keySubject detach_keySubject)

lemma attach_keys_of:
  "index_ok s \<Longrightarrow> keys_of subj' (attach_key k subj s) =
     (if subj' = subj then set_add k (removeAll k (keys_of subj s)) else removeAll k (keys_of subj' s))"
  by (simp add: attach_key_def add_key_keys_of detach_keys_of)

lemma attach_index_ok [gw_intro]: "index_ok s \<Longrightarrow> subj \<noteq> [] \<Longrightarrow> index_ok (attach_key k subj s)"
  unfolding attach_key_def
  by (rule add_key_index_ok) (simp_all add: detach_index_ok detach_keySubject)

subsection \<open>Operations that only remove\<close>

lemma delete_entry_store [simp]: "store (delete_entry k s) = AList.delete k (store s)"
  by (simp add: delete_entry_def)

lemma delete_entry_keySubject:
  "index_ok s \<Longrightarrow> map_of (keySubject (delete_entry k s)) k' =
     (if k' = k then None else map_of (keySubject s) k')"
  by (simp add: delete_entry_def detach_keySubject)

lemma delete_entry_keys_of:
  "index_ok s \<Longrightarrow> keys_of subj (delete_entry k s) = removeAll k (keys_of subj s)"
  by (simp add: delete_entry_def detach_keys_of)

lemma delete_entry_index_ok [gw_intro]: "index_ok s \<Longrightarrow> index_ok (delete_entry k s)"
  by (simp add: delete_entry_def detach_index_ok)

lemma length_removeAll_le_int: "int (length xs) \<le> n \<Longrightarrow> int (length (removeAll k xs)) \<le> n"
  by (rule order_trans [OF of_nat_mono [OF length_removeAll_less_eq]])

lemma length_delete_le_int: "int (length m) \<le> n \<Longrightarrow> int (length (AList.delete k m)) \<le> n"
  using length_delete_le [of k m] by simp

lemma delete_entry_inv [gw_intro]: "cache_inv cfg s \<Longrightarrow> cache_inv cfg (delete_entry k s)"
  unfolding cache_inv_def
  by (auto simp: delete_entry_keySubject delete_entry_keys_of delete_entry_index_ok
      intro: length_removeAll_le_int length_delete_le_int split: if_splits)

lemma fold_delete_entry_inv [gw_intro]:
  "cache_inv cfg s \<Longrightarrow> cache_inv cfg (fold delete_entry ks s)"
  by (induction ks arbitrary: s) (auto intro: delete_entry_inv)

lemma sweep_inv [gw_intro]: "cache_inv cfg s \<Longrightarrow> cache_inv cfg (cache_sweep now s)"
  by (simp add: cache_sweep_def Let_def fold_delete_entry_inv)

lemma length_move_to_end:
  "jm_ok m \<Longrightarrow> map_of m k = Some e \<Longrightarrow> length (AList.update k e (AList.delete k m)) = length m"
proof (induction m)
  case (Cons p m)
  obtain k' e' where p: "p = (k', e')" by (cases p)
  show ?case
  proof (cases "k' = k")
    case True
    with Cons.prems p have "AList.delete k m = m" and "k \<notin> fst ` set m"
      by (auto simp: delete_fresh)
    with True p show ?thesis by (simp add: length_update_jm)
  qed (use Cons p in auto)
qed simp

lemma touch_inv [gw_intro]: "cache_inv cfg s \<Longrightarrow> cache_inv cfg (touch_key k s)"
  by (auto simp: cache_inv_def touch_key_def length_move_to_end split: option.splits if_splits)

lemma fetch_inv [gw_intro]:
  "cache_inv cfg s \<Longrightarrow> cache_inv cfg (snd (cache_fetch_entry now k r s))"
  by (simp add: cache_fetch_entry_def delete_entry_inv touch_inv split: option.splits)

lemma snd_cache_get: "snd (cache_get now k s) = snd (cache_fetch_entry now k False s)"
  by (simp add: cache_get_def split_def split: fetch_result.splits)

lemma get_inv [gw_intro]: "cache_inv cfg s \<Longrightarrow> cache_inv cfg (snd (cache_get now k s))"
  by (simp add: snd_cache_get fetch_inv)

lemma drop_inv [gw_intro]: "cache_inv cfg s \<Longrightarrow> cache_inv cfg (snd (cache_drop_key k s))"
  by (simp add: cache_drop_key_def delete_entry_inv)


lemma forget_keys_subjects [simp]: "subjects (snd (forget_keys ks s)) = subjects s"
  by (induction ks s rule: forget_keys.induct) (auto simp: split_def Let_def)

lemma keys_of_forget_keys [simp]: "keys_of subj (snd (forget_keys ks s)) = keys_of subj s"
  by (rule keys_of_cong) simp

lemma forget_keys_store:
  "map_of (store (snd (forget_keys ks s))) k = (if k \<in> set ks then None else map_of (store s) k)"
  by (induction ks s rule: forget_keys.induct) (auto simp: split_def Let_def)

lemma forget_keys_keySubject:
  "map_of (keySubject (snd (forget_keys ks s))) k =
     (if k \<in> set ks \<and> map_of (store s) k \<noteq> None then None else map_of (keySubject s) k)"
  by (induction ks s rule: forget_keys.induct) (auto simp: split_def Let_def)

lemma forget_keys_jm:
  "jm_ok (store s) \<Longrightarrow> jm_ok (keySubject s) \<Longrightarrow>
   jm_ok (store (snd (forget_keys ks s))) \<and> jm_ok (keySubject (snd (forget_keys ks s)))
     \<and> length (store (snd (forget_keys ks s))) \<le> length (store s)"
proof (induction ks s rule: forget_keys.induct)
  case (2 k ks s)
  then show ?case using length_delete_le [of k "store s"] by (auto simp: split_def Let_def)
qed simp

lemma forget_keys_count:
  "distinct ks \<Longrightarrow> \<forall>k \<in> set ks. map_of (store s) k \<noteq> None \<Longrightarrow> fst (forget_keys ks s) = int (length ks)"
proof (induction ks s rule: forget_keys.induct)
  case (2 k ks s)
  let ?s' = "s\<lparr>store := AList.delete k (store s), keySubject := AList.delete k (keySubject s)\<rparr>"
  have "\<forall>k' \<in> set ks. map_of (store ?s') k' \<noteq> None" using 2 by auto
  with 2 show ?case by (auto simp: split_def Let_def)
qed simp

lemma keys_of_delete_subject:
  "keys_of subj' (s\<lparr>subjects := AList.delete subj (subjects s)\<rparr>)
     = (if subj' = subj then [] else keys_of subj' s)"
  by (simp add: keys_of_def)

lemma forget_effect:
  assumes inv: "cache_inv cfg s"
  shows "map_of (store (snd (cache_forget_subject subj s))) k =
           (if map_of (keySubject s) k = Some subj then None else map_of (store s) k)"
    and "map_of (keySubject (snd (cache_forget_subject subj s))) k =
           (if map_of (keySubject s) k = Some subj then None else map_of (keySubject s) k)"
    and "keys_of subj' (snd (cache_forget_subject subj s)) =
           (if subj' = subj then [] else keys_of subj' s)"
    and "fst (cache_forget_subject subj s) = int (length (keys_of subj s))"
proof -
  have idx: "index_ok s" and ins: "\<And>k. map_of (keySubject s) k \<noteq> None \<Longrightarrow> map_of (store s) k \<noteq> None"
    using inv by (auto simp: cache_inv_def)
  have mem: "map_of (keySubject s) k = Some subj \<longleftrightarrow> k \<in> set (keys_of subj s)" for k
    by (rule index_okD(1) [OF idx])
  have st: "k \<in> set (keys_of subj s) \<Longrightarrow> map_of (store s) k \<noteq> None" for k
    using mem [of k] ins [of k] by simp
  let ?f = "forget_keys (keys_of subj s) s"
  have eq: "cache_forget_subject subj s =
      (fst ?f, cache_size_gauge ((snd ?f)\<lparr>subjects := AList.delete subj (subjects s)\<rparr>))"
    if "map_of (subjects s) subj \<noteq> None"
    using that by (auto simp: cache_forget_subject_def keys_of_def split_def Let_def)
  have none: "keys_of subj s = []" if "map_of (subjects s) subj = None"
    using that by (simp add: keys_of_def)
  show "map_of (store (snd (cache_forget_subject subj s))) k =
      (if map_of (keySubject s) k = Some subj then None else map_of (store s) k)"
    using eq none by (cases "map_of (subjects s) subj")
      (auto simp: mem forget_keys_store cache_forget_subject_def)
  show "map_of (keySubject (snd (cache_forget_subject subj s))) k =
      (if map_of (keySubject s) k = Some subj then None else map_of (keySubject s) k)"
    using eq none st by (cases "map_of (subjects s) subj")
      (auto simp: mem forget_keys_keySubject cache_forget_subject_def)
  show "keys_of subj' (snd (cache_forget_subject subj s)) =
      (if subj' = subj then [] else keys_of subj' s)"
  proof (cases "map_of (subjects s) subj")
    case None
    then show ?thesis using none by (auto simp: cache_forget_subject_def)
  next
    case (Some ks)
    then show ?thesis using eq keys_of_delete_subject [of subj' subj "snd ?f"] by simp
  qed
  show "fst (cache_forget_subject subj s) = int (length (keys_of subj s))"
    using eq none st forget_keys_count [of "keys_of subj s" s] index_okD(2) [OF idx, of subj]
    by (cases "map_of (subjects s) subj") (auto simp: cache_forget_subject_def)
qed

lemma forget_jm:
  assumes "cache_inv cfg s"
  shows "jm_ok (store (snd (cache_forget_subject subj s)))"
    and "jm_ok (keySubject (snd (cache_forget_subject subj s)))"
    and "jm_ok (subjects (snd (cache_forget_subject subj s)))"
    and "length (store (snd (cache_forget_subject subj s))) \<le> length (store s)"
    and "map_of (subjects (snd (cache_forget_subject subj s))) subj' \<noteq> Some []"
  using assms forget_keys_jm [of s "keys_of subj s"] index_okD(3) [of s subj']
  by (auto simp: cache_inv_def index_ok_def cache_forget_subject_def split_def Let_def keys_of_def
      split: option.splits if_splits)

lemma forget_inv [gw_intro]:
  assumes inv: "cache_inv cfg s"
  shows "cache_inv cfg (snd (cache_forget_subject subj s))"
proof -
  let ?t = "snd (cache_forget_subject subj s)"
  have idx: "index_ok s" using inv by (simp add: cache_inv_def)
  have "map_of (keySubject ?t) k = Some subj' \<longleftrightarrow> k \<in> set (keys_of subj' ?t)" for k subj'
    using index_okD(1) [OF idx, of k subj'] by (auto simp: forget_effect [OF inv])
  moreover have "distinct (keys_of subj' ?t)" for subj'
    using index_okD(2) [OF idx] by (simp add: forget_effect [OF inv])
  ultimately have idx': "index_ok ?t"
    using forget_jm [OF inv] index_okD(4) [OF idx] by (auto simp: index_ok_def forget_effect [OF inv])
  moreover have "int (length (keys_of subj' ?t)) \<le> cc_maxKeysPerSubject cfg" for subj'
  proof -
    have "int (length (keys_of subj' s)) \<le> cc_maxKeysPerSubject cfg"
      using inv by (simp add: cache_inv_def)
    then show ?thesis by (simp add: forget_effect [OF inv])
  qed
  ultimately show ?thesis
    using inv forget_jm(1,4) [OF inv, of subj] forget_effect(1,2) [OF inv, of subj]
    unfolding cache_inv_def by (auto split: if_splits)
qed

subsection \<open>The put operation\<close>

lemma delete_absent: "map_of m k = None \<Longrightarrow> AList.delete k m = m"
  by (simp add: delete_fresh fst_set_map_of)

definition written :: "string \<Rightarrow> cache_entry \<Rightarrow> cache_state \<Rightarrow> cache_state" where
  "written k e s = s\<lparr>store := AList.update k e (AList.delete k (store s))\<rparr>"

lemma written_frame [simp]:
  "subjects (written k e s) = subjects s" "keySubject (written k e s) = keySubject s"
  by (simp_all add: written_def)

lemma put_store_eq:
  "put_store cfg now k v arg s =
     (let e = \<lparr>ce_value = v, ce_expiresAt = now + cc_ttl cfg, ce_integrity = put_integrity arg\<rparr>;
          s1 = written k e s
      in cache_size_gauge
           (if put_subject arg \<noteq> [] then attach_key k (put_subject arg) s1
            else (case map_of (keySubject s) k of
                    None \<Rightarrow> s1
                  | Some subj \<Rightarrow> if map_of (store s) k = None \<or> subj = [] then s1
                                 else add_key_to_subject k subj s1)))"
  by (auto simp: put_store_def written_def delete_absent Let_def split: option.splits)

lemma attach_length:
  assumes "index_ok s"
    and "k \<in> set (keys_of subj s) \<or> int (length (keys_of subj s)) < n"
    and "int (length (keys_of subj' s)) \<le> n"
  shows "int (length (keys_of subj' (attach_key k subj s))) \<le> n"
proof -
  have d: "distinct (keys_of subj s)" using assms(1) by (rule index_okD)
  have "length (set_add k (removeAll k xs)) = (if k \<in> set xs then length xs else Suc (length xs))"
    if "distinct xs" for xs
    using that length_pos_if_in_set [of k xs]
    by (auto simp: set_add_def distinct_remove1_removeAll [symmetric] length_remove1)
  with d assms show ?thesis
    by (auto simp: attach_keys_of intro: length_removeAll_le_int)
qed

lemma put_store_inv:
  assumes inv: "cache_inv cfg s"
    and size: "int (length v) \<le> cc_maxEntryBytes cfg"
    and room: "map_of (store s) k \<noteq> None \<or> int (length (store s)) < cc_maxEntries cfg"
    and admit: "put_subject arg = [] \<or> can_admit_subject_key cfg k (put_subject arg) s"
    and one: "0 < cc_maxKeysPerSubject cfg"
  shows "cache_inv cfg (put_store cfg now k v arg s)"
proof -
  define e where
    "e = \<lparr>ce_value = v, ce_expiresAt = now + cc_ttl cfg, ce_integrity = put_integrity arg\<rparr>"
  let ?s1 = "written k e s"
  have idx: "index_ok ?s1" and idx0: "index_ok s" using inv by (simp_all add: cache_inv_def written_def)
  have st: "map_of (store ?s1) k' = (if k' = k then Some e else map_of (store s) k')" for k'
    by (simp add: written_def)
  have len: "int (length (store ?s1)) \<le> cc_maxEntries cfg"
  proof (cases "map_of (store s) k")
    case None
    then show ?thesis using room by (simp add: written_def delete_absent length_update_jm fst_set_map_of)
  next
    case (Some e')
    have "length (AList.delete k (store s)) < length (store s)"
    proof -
      have "k \<in> fst ` set (store s)" using Some by (simp add: fst_set_map_of)
      then show ?thesis by (auto simp: AList.delete_eq intro: length_filter_less)
    qed
    with Some inv show ?thesis
      by (auto simp: written_def length_update_jm cache_inv_def split: if_splits)
  qed
  have ks: "keys_of subj ?s1 = keys_of subj s" for subj by (simp add: written_def)
  have kS: "keySubject ?s1 = keySubject s" by (simp add: written_def)
  have le: "int (length (keys_of subj s)) \<le> cc_maxKeysPerSubject cfg" for subj
    using inv by (simp add: cache_inv_def)
  have base: "cache_inv cfg ?s1"
    using inv idx st len size unfolding cache_inv_def ks kS by (auto simp: written_def e_def)
  have attach: "cache_inv cfg (attach_key k (put_subject arg) ?s1)" if "put_subject arg \<noteq> []"
  proof -
    have "k \<in> set (keys_of (put_subject arg) ?s1)
        \<or> int (length (keys_of (put_subject arg) ?s1)) < cc_maxKeysPerSubject cfg"
      using admit that one by (auto simp: can_admit_subject_key_def ks keys_of_def split: option.splits)
    with le have "int (length (keys_of subj (attach_key k (put_subject arg) ?s1))) \<le> cc_maxKeysPerSubject cfg"
      for subj by (intro attach_length [OF idx]) (simp_all add: ks)
    with base that show ?thesis
      unfolding cache_inv_def by (auto simp: attach_index_ok attach_keySubject idx st)
  qed
  have add: "cache_inv cfg (add_key_to_subject k subj ?s1)"
    if "map_of (keySubject s) k = Some subj" "subj \<noteq> []" for subj
  proof -
    have "k \<in> set (keys_of subj s)" using that(1) index_okD(1) [OF idx0] by blast
    then have "keys_of subj' (add_key_to_subject k subj ?s1) = keys_of subj' s" for subj'
      by (simp add: add_key_keys_of ks set_add_def)
    with base that show ?thesis
      unfolding cache_inv_def
      by (auto simp: add_key_index_ok add_key_keySubject idx st kS ks)
  qed
  show ?thesis
    unfolding put_store_eq e_def [symmetric] Let_def
    using base attach add by (auto split: option.splits)
qed

lemma evict_inv: "cache_inv cfg s \<Longrightarrow> cache_inv cfg (snd (evict_oldest_key s))"
  by (auto simp: evict_oldest_key_def delete_entry_inv split: list.splits)

lemma admission_room:
  assumes "cache_inv cfg s" and "evict_oldest_key s = (True, s')"
  shows "int (length (store s')) < cc_maxEntries cfg"
proof -
  from assms(2) obtain k e r where st: "store s = (k, e) # r"
      and s': "s' = minc ''gateway_cache_evict_lru'' (delete_entry k s)"
    by (auto simp: evict_oldest_key_def split: list.splits if_splits)
  have "length (AList.delete k r) \<le> length r" by (rule length_delete_le)
  then show ?thesis using assms(1) by (auto simp: s' st cache_inv_def)
qed

lemma evict_admit:
  assumes "cache_inv cfg s" and "evict_oldest_key s = (b, s')"
    and "can_admit_subject_key cfg k subj s" and "map_of (store s) k = None"
  shows "can_admit_subject_key cfg k subj s'"
proof -
  have idx: "index_ok s" using assms(1) by (simp add: cache_inv_def)
  have admit: "can_admit_subject_key cfg k subj t \<longleftrightarrow>
      map_of (subjects t) subj = None \<or> k \<in> set (keys_of subj t)
      \<or> int (length (keys_of subj t)) < cc_maxKeysPerSubject cfg" for t
    by (auto simp: can_admit_subject_key_def keys_of_def split: option.splits)
  have "k \<notin> set (keys_of subj s)"
    using assms(1,4) index_okD(1) [OF idx, of k subj] by (auto simp: cache_inv_def)
  with assms(3) have "map_of (subjects s) subj = None
      \<or> int (length (keys_of subj s)) < cc_maxKeysPerSubject cfg"
    by (simp add: admit)
  moreover have "map_of (subjects (delete_entry k' s)) subj = None"
    if "map_of (subjects s) subj = None" for k'
    using that by (auto simp: delete_entry_def detach_key_def Let_def split: option.splits if_splits)
  moreover have "length (keys_of subj (delete_entry k' s)) \<le> length (keys_of subj s)" for k'
    by (simp add: delete_entry_keys_of [OF idx] length_removeAll_less_eq)
  ultimately have *: "map_of (subjects (delete_entry k' s)) subj = None
      \<or> int (length (keys_of subj (delete_entry k' s))) < cc_maxKeysPerSubject cfg" for k'
    by (meson of_nat_mono order.strict_trans1)
  show ?thesis
  proof (cases "store s")
    case Nil
    with assms(2,3) show ?thesis by (simp add: evict_oldest_key_def)
  next
    case (Cons p r)
    with assms(2,3) * [of "fst p"] show ?thesis
      by (cases p) (auto simp: admit evict_oldest_key_def split: if_splits)
  qed
qed

lemma put_inv [gw_intro]:
  assumes inv: "cache_inv cfg s0" and one: "0 < cc_maxKeysPerSubject cfg"
  shows "cache_inv cfg (snd (cache_put cfg t1 t2 k v arg s0))"
proof -
  define s where "s = cache_sweep t1 s0"
  have s: "cache_inv cfg s" unfolding s_def by (rule sweep_inv [OF inv])
  obtain b s' where ev: "evict_oldest_key s = (b, s')" by fastforce
  have s': "cache_inv cfg s'" using evict_inv [OF s] ev by simp
  show ?thesis
    using s s' ev one put_store_inv [OF s, of v k arg t2] put_store_inv [OF s', of v k arg t2]
      admission_room [OF s, of s'] evict_admit [OF s ev, of k "put_subject arg"]
    by (cases b) (auto simp: cache_put_def s_def [symmetric] reject_put_def Let_def not_le)
qed


section \<open>Properties of the cache\<close>

lemma read_first_positive_pos: "0 < fallback \<Longrightarrow> 0 < read_first_positive env names fallback"
  by (induction env names fallback rule: read_first_positive.induct)
    (auto split: config_result.splits option.splits)

lemma cache_config_pos:
  "0 < cc_maxEntries (cache_config env)" "0 < cc_maxKeysPerSubject (cache_config env)"
  "0 < cc_maxEntryBytes (cache_config env)" "0 < cc_ttl (cache_config env)"
  by (simp_all add: cache_config_def read_first_positive_pos del: read_first_positive.simps)

lemma cache_init_inv: "cache_inv (cache_config env) (cache_init (cache_config env) m)"
  using cache_config_pos [of env]
  by (simp add: cache_inv_def cache_init_def index_ok_def keys_of_def)

lemma cache_step_inv:
  "cache_inv (cache_config env) s \<Longrightarrow> cache_inv (cache_config env) (cache_step (cache_config env) s x)"
  by (cases x)
    (simp_all add: put_inv fetch_inv get_inv sweep_inv forget_inv drop_inv cache_config_pos)

interpretation cache_run: run_invariant "cache_init (cache_config env) m"
  "cache_step (cache_config env)" "cache_inv (cache_config env)" for env m
  by unfold_locales (simp_all add: cache_init_inv cache_step_inv)

definition cache_after :: "env \<Rightarrow> metrics \<Rightarrow> cache_op list \<Rightarrow> cache_state" where
  "cache_after env m ops =
     foldl (cache_step (cache_config env)) (cache_init (cache_config env) m) ops"

lemma cache_after_inv: "cache_inv (cache_config env) (cache_after env m ops)"
  unfolding cache_after_def by (rule cache_run.inv_run)

text \<open>
  C20: whatever environment the module is loaded with and whatever calls the handler makes, the
  cache never holds more than its configured number of entries, no entry is larger than the
  configured size, no subject has more than its configured number of keys, and the two subject
  indexes agree with each other and name only keys that are stored.
\<close>
theorem cache_stays_bounded:
  "let s = cache_after env m ops; cfg = cache_config env in
     int (length (store s)) \<le> cc_maxEntries cfg
     \<and> list_all (\<lambda>(k, e). int (length (ce_value e)) \<le> cc_maxEntryBytes cfg) (store s)
     \<and> int (length (keys_of subj s)) \<le> cc_maxKeysPerSubject cfg
     \<and> (map_of (keySubject s) k = Some subj \<longleftrightarrow> k \<in> set (keys_of subj s))
     \<and> {k. map_of (keySubject s) k \<noteq> None} \<subseteq> {k. map_of (store s) k \<noteq> None}"
proof -
  have inv: "cache_inv (cache_config env) (cache_after env m ops)" by (rule cache_after_inv)
  then have "index_ok (cache_after env m ops)" by (simp add: cache_inv_def)
  with inv index_okD(1) [OF this, of k subj] show ?thesis
    by (auto simp: cache_inv_def Let_def list_all_iff dest: map_of_is_SomeI)
qed

text \<open>
  forgetting a subject, in any state the calls can reach, removes exactly the entries
  recorded for that subject, leaves every other entry as it was, drops the subject from both
  indexes and returns how many entries it removed.
\<close>
theorem forget_subject_exact:
  "let s = cache_after env m ops; (n, s') = cache_forget_subject subj s in
     map_of (store s') k = (if map_of (keySubject s) k = Some subj then None else map_of (store s) k)
     \<and> map_of (keySubject s') k \<noteq> Some subj \<and> keys_of subj s' = []
     \<and> n = int (card {k. map_of (keySubject s) k = Some subj})"
proof -
  let ?s = "cache_after env m ops"
  have inv: "cache_inv (cache_config env) ?s" by (rule cache_after_inv)
  then have idx: "index_ok ?s" by (simp add: cache_inv_def)
  have "{k. map_of (keySubject ?s) k = Some subj} = set (keys_of subj ?s)"
    using index_okD(1) [OF idx] by blast
  then have "card {k. map_of (keySubject ?s) k = Some subj} = length (keys_of subj ?s)"
    using index_okD(2) [OF idx] by (simp add: distinct_card)
  then show ?thesis
    by (auto simp: Let_def split_def forget_effect [OF inv])
qed

lemma put_True:
  assumes "cache_put cfg t1 t2 k v arg s0 = (True, s1)"
  obtains s where "s1 = put_store cfg t2 k v arg s" and "cache_inv cfg s0 \<Longrightarrow> cache_inv cfg s"
proof -
  obtain b s' where ev: "evict_oldest_key (cache_sweep t1 s0) = (b, s')" by fastforce
  from assms have "s1 = put_store cfg t2 k v arg (cache_sweep t1 s0) \<or> s1 = put_store cfg t2 k v arg s'"
    using ev by (cases b) (auto simp: cache_put_def reject_put_def Let_def split: if_splits)
  moreover have "cache_inv cfg s0 \<Longrightarrow> cache_inv cfg s'"
    using ev evict_inv [of cfg "cache_sweep t1 s0"] sweep_inv [of cfg s0 t1] by simp
  moreover have "cache_inv cfg s0 \<Longrightarrow> cache_inv cfg (cache_sweep t1 s0)" by (rule sweep_inv)
  ultimately show thesis using that by blast
qed

lemma put_store_lookup:
  "map_of (store (put_store cfg now k v arg s)) k' =
     (if k' = k then Some \<lparr>ce_value = v, ce_expiresAt = now + cc_ttl cfg, ce_integrity = put_integrity arg\<rparr>
      else map_of (store s) k')"
  by (simp add: put_store_eq Let_def written_def split: option.splits)

lemma put_store_subject:
  "cache_inv cfg s \<Longrightarrow> put_subject arg \<noteq> [] \<Longrightarrow>
   map_of (keySubject (put_store cfg now k v arg s)) k = Some (put_subject arg)"
  by (simp add: put_store_eq Let_def attach_keySubject cache_inv_def written_def)

text \<open>
  an accepted \<open>put\<close> is what the next fetch returns, up to and including the instant the
  entry expires, unless the caller asks for verified entries and the entry is not verified.
\<close>
theorem put_then_fetch:
  assumes "cache_put cfg t1 t2 k v arg s = (True, s1)" and "now \<le> t2 + cc_ttl cfg"
  shows "fst (cache_fetch_entry now k r s1) =
    (if r \<and> (case put_integrity arg of None \<Rightarrow> True | Some i \<Rightarrow> \<not> ci_verified i)
     then Unverified else Hit v (put_integrity arg))"
  using assms(1)
proof (rule put_True)
  fix s' assume "s1 = put_store cfg t2 k v arg s'"
  then show ?thesis using assms(2)
    by (auto simp: cache_fetch_entry_def put_store_lookup split: option.splits)
qed

text \<open>
  C19: data stored under a data subject is gone after that subject is forgotten: the key is
  reported as a miss, whatever the state it was stored into.
\<close>
theorem forget_after_put:
  assumes "cache_put (cache_config env) t1 t2 k v arg (cache_after env m ops) = (True, s1)"
    and "put_subject arg \<noteq> []"
  shows "fst (cache_fetch_entry now k r (snd (cache_forget_subject (put_subject arg) s1))) = Miss"
proof -
  have inv: "cache_inv (cache_config env) s1"
    using put_inv [OF cache_after_inv [of env m ops] cache_config_pos(2), of t1 t2 k v arg] assms(1)
    by simp
  have "map_of (keySubject s1) k = Some (put_subject arg)"
    by (rule put_True [OF assms(1)])
      (simp add: put_store_subject [where cfg = "cache_config env"] cache_after_inv assms(2))
  then show ?thesis
    by (simp add: cache_fetch_entry_def forget_effect [OF inv])
qed

text \<open>
  a fetch that requires verified entries never returns an entry whose integrity record is
  missing or unverified, and no fetch returns an entry after its expiry.
\<close>
theorem fetch_hit_is_verified_and_fresh:
  assumes "fst (cache_fetch_entry now k r s) = Hit v i"
  shows "\<exists>e. map_of (store s) k = Some e \<and> ce_value e = v \<and> now \<le> ce_expiresAt e
    \<and> (r \<longrightarrow> (\<exists>c. i = Some c \<and> ci_verified c))"
proof (cases "map_of (store s) k")
  case (Some e)
  with assms have "v = ce_value e" "i = ce_integrity e" "now \<le> ce_expiresAt e"
    "r \<longrightarrow> (case ce_integrity e of None \<Rightarrow> False | Some c \<Rightarrow> ci_verified c)"
    by (auto simp: cache_fetch_entry_def split: if_splits)
  with Some show ?thesis by (metis option.exhaust option.simps(4,5))
qed (use assms in \<open>simp add: cache_fetch_entry_def\<close>)

definition demo_env :: env where
  "demo_env = (\<lambda>_. None)"

lemma read_first_positive_demo: "read_first_positive demo_env names f = f"
  by (induction names) (simp_all add: demo_env_def load_integer_config_def loader_defs no_options_def)

lemma cache_config_demo:
  "cache_config demo_env = \<lparr>cc_ttl = 300000, cc_maxEntryBytes = 262144, cc_maxEntries = 256,
     cc_maxKeysPerSubject = 64, cc_mode = Reject\<rparr>"
  by (simp add: cache_config_def read_first_positive_demo del: read_first_positive.simps)
    (simp add: read_admission_mode_def demo_env_def load_string_config_def loader_defs no_options_def)

lemma put_demo:
  "cache_put (cache_config demo_env) 5 5 ''k'' [1, 2] (SubjectArg ''u'') (cache_after demo_env metrics_empty [])
     = (True, put_store (cache_config demo_env) 5 ''k'' [1, 2] (SubjectArg ''u'')
                (cache_after demo_env metrics_empty []))"
  by (simp add: cache_config_demo cache_put_def cache_sweep_def expired_keys_def cache_after_def
      cache_init_def can_admit_subject_key_def Let_def)

theorem put_then_fetch_witness:
  "fst (cache_fetch_entry 300005 ''k'' False
     (put_store (cache_config demo_env) 5 ''k'' [1, 2] (SubjectArg ''u'')
        (cache_after demo_env metrics_empty []))) = Hit [1, 2] None"
  using put_then_fetch [OF put_demo, of 300005 False] by (simp add: cache_config_demo)

theorem forget_after_put_witness:
  "fst (cache_fetch_entry 7 ''k'' False (snd (cache_forget_subject ''u''
     (put_store (cache_config demo_env) 5 ''k'' [1, 2] (SubjectArg ''u'')
        (cache_after demo_env metrics_empty []))))) = Miss"
  using forget_after_put [OF put_demo, of 7 False] by simp

theorem fetch_hit_witness:
  "\<exists>e. map_of (store (cache_init (cache_config demo_env) metrics_empty
          \<lparr>store := [(''k'', \<lparr>ce_value = [1], ce_expiresAt = 9,
             ce_integrity = Some \<lparr>ci_verified = True, ci_root = None, ci_hash = None,
               ci_verifiedAt = None\<rparr>\<rparr>)]\<rparr>)) ''k'' = Some e \<and> ce_value e = [1] \<and> 4 \<le> ce_expiresAt e
     \<and> (True \<longrightarrow> (\<exists>c. Some \<lparr>ci_verified = True, ci_root = None, ci_hash = None,
               ci_verifiedAt = None\<rparr> = Some c \<and> ci_verified c))"
  by (rule fetch_hit_is_verified_and_fresh) (simp add: cache_fetch_entry_def)

end
