(* ===== verification/RateLimit.thy ===== *)
theory RateLimit
  imports Config
begin

text \<open>
  The fixed-window rate limiter of \<open>src/src/ratelimit.ts\<close>: one bucket per key, a bounded number
  of buckets, per-prefix limits read from \<open>GATEWAY_RL_MAX_OVERRIDES\<close>. The module-level \<open>buckets\<close>
  map is the field \<open>buckets\<close>; the constants read when the module is loaded are a record.
\<close>

record bucket =
  bk_count :: int
  bk_reset :: int

record rl_cfg =
  rl_windowMs :: int
  rl_maxReq :: int
  rl_maxBuckets :: int
  rl_overrides :: "int jmap"

record rl_state = mstate +
  buckets :: "bucket jmap"

definition positive_int :: "string \<Rightarrow> int \<Rightarrow> int" where
  "positive_int v fallback =
     (case parse_int v of None \<Rightarrow> fallback | Some p \<Rightarrow> if 0 < p then p else fallback)"

definition override_entry :: "string \<Rightarrow> int jmap \<Rightarrow> int jmap" where
  "override_entry entry m =
     (let t = trim entry; sep = index_of CHR ''='' t in
      if t = [] \<or> sep \<le> 0 \<or> sep = int (length t) - 1 then m
      else
        let prefix = trim (take (nat sep) t);
            mx = positive_int (trim (drop (nat sep + 1) t)) 0
        in if prefix = [] \<or> mx \<le> 0 then m else AList.update prefix mx m)"

definition parse_overrides :: "string option \<Rightarrow> int jmap" where
  "parse_overrides raw =
     (case raw of None \<Rightarrow> []
      | Some r \<Rightarrow> if r = [] then [] else fold override_entry (split_on CHR '','' r) [])"

definition rl_config :: "env \<Rightarrow> rl_cfg" where
  "rl_config env =
     \<lparr>rl_windowMs = read_positive_int_env ''GATEWAY_RL_WINDOW_MS'' 60000 env,
      rl_maxReq = read_positive_int_env ''GATEWAY_RL_MAX'' 120 env,
      rl_maxBuckets = read_positive_int_env ''GATEWAY_RL_MAX_BUCKETS'' 10000 env,
      rl_overrides = parse_overrides (read_env_string ''GATEWAY_RL_MAX_OVERRIDES'' env)\<rparr>"

definition rl_init :: "rl_cfg \<Rightarrow> metrics \<Rightarrow> rl_state" where
  "rl_init cfg m =
     mgauge ''gateway_ratelimit_override_count'' (int (length (rl_overrides cfg)))
    (mgauge ''gateway_ratelimit_max_buckets'' (rl_maxBuckets cfg)
    (mgauge ''gateway_ratelimit_max'' (rl_maxReq cfg) \<lparr>mx = m, buckets = []\<rparr>))"

definition effective_max_for_key :: "rl_cfg \<Rightarrow> string \<Rightarrow> int" where
  "effective_max_for_key cfg key =
     (let sep = index_of CHR '':'' key in
      if sep \<le> 0 then rl_maxReq cfg
      else (case map_of (rl_overrides cfg) (take (nat sep) key) of
              None \<Rightarrow> rl_maxReq cfg
            | Some v \<Rightarrow> if v = 0 then rl_maxReq cfg else v))"

definition rl_prune :: "rl_cfg \<Rightarrow> int \<Rightarrow> rl_state \<Rightarrow> int \<times> rl_state" where
  "rl_prune cfg now s =
     (let live = filter (\<lambda>(k, b). \<not> bk_reset b \<le> now) (buckets s);
          gone = int (length (buckets s)) - int (length live);
          (n, kept) = evict_while (\<lambda>size. size > rl_maxBuckets cfg) live;
          removed = gone + n;
          s1 = s\<lparr>buckets := kept\<rparr>
      in (removed, if removed > 0 then minc_by ''gateway_ratelimit_pruned'' removed s1 else s1))"

definition rl_check :: "rl_cfg \<Rightarrow> int \<Rightarrow> string \<Rightarrow> rl_state \<Rightarrow> bool \<times> rl_state" where
  "rl_check cfg now key s0 =
     (let s1 = snd (rl_prune cfg now s0);
          mxr = effective_max_for_key cfg key;
          s2 = mgauge ''gateway_ratelimit_effective_max_last'' mxr s1;
          b0 = (case map_of (buckets s2) key of
                  None \<Rightarrow> \<lparr>bk_count = 0, bk_reset = now + rl_windowMs cfg\<rparr> | Some b \<Rightarrow> b);
          b1 = (if now \<ge> bk_reset b0 then \<lparr>bk_count = 0, bk_reset = now + rl_windowMs cfg\<rparr> else b0);
          b2 = b1\<lparr>bk_count := bk_count b1 + 1\<rparr>;
          s3 = s2\<lparr>buckets := AList.update key b2 (buckets s2)\<rparr>;
          s4 = snd (rl_prune cfg now s3);
          s5 = mgauge ''gateway_ratelimit_buckets'' (int (length (buckets s4))) s4
      in if bk_count b2 > mxr then (False, minc ''gateway_ratelimit_blocked'' s5) else (True, s5))"

definition rl_reset :: "rl_state \<Rightarrow> rl_state" where
  "rl_reset s = mgauge ''gateway_ratelimit_buckets'' 0 (s\<lparr>buckets := []\<rparr>)"

datatype rl_op = CheckOp int string | RlResetOp

fun rl_step :: "rl_cfg \<Rightarrow> rl_state \<Rightarrow> rl_op \<Rightarrow> rl_state" where
  "rl_step cfg s (CheckOp now key) = snd (rl_check cfg now key s)"
| "rl_step cfg s RlResetOp = rl_reset s"

text \<open>The answers of a sequence of checks, each at its own time.\<close>

fun rl_answers :: "rl_cfg \<Rightarrow> (string \<times> int) list \<Rightarrow> rl_state \<Rightarrow> bool list" where
  "rl_answers cfg [] s = []"
| "rl_answers cfg ((key, now) # calls) s =
     (let (b, s') = rl_check cfg now key s in b # rl_answers cfg calls s')"

section \<open>The number of buckets\<close>

definition rl_inv :: "rl_cfg \<Rightarrow> rl_state \<Rightarrow> bool" where
  "rl_inv cfg s \<longleftrightarrow> jm_ok (buckets s) \<and> int (length (buckets s)) \<le> rl_maxBuckets cfg"

lemma rl_frame [simp]:
  "buckets (minc n s) = buckets s" "buckets (minc_by n v s) = buckets s"
  "buckets (mgauge n v s) = buckets s"
  by (simp_all add: m_defs)

lemma prune_inv:
  assumes "jm_ok (buckets s)" and "0 \<le> rl_maxBuckets cfg"
  shows "rl_inv cfg (snd (rl_prune cfg now s))"
proof -
  let ?live = "filter (\<lambda>(k, b). \<not> bk_reset b \<le> now) (buckets s)"
  obtain n kept where e: "evict_while (\<lambda>size. size > rl_maxBuckets cfg) ?live = (n, kept)"
    by fastforce
  have "jm_ok ?live" using assms(1) by (rule jm_ok_filter)
  from evict_while_size [OF this e] assms(2) show ?thesis
    by (auto simp: rl_inv_def rl_prune_def e Let_def)
qed

lemma check_inv:
  "jm_ok (buckets s) \<Longrightarrow> 0 \<le> rl_maxBuckets cfg \<Longrightarrow> rl_inv cfg (snd (rl_check cfg now key s))"
proof -
  assume ok: "jm_ok (buckets s)" and cap: "0 \<le> rl_maxBuckets cfg"
  have "jm_ok (buckets (snd (rl_prune cfg now s)))"
    using prune_inv [OF ok cap] by (simp add: rl_inv_def)
  then have "rl_inv cfg (snd (rl_prune cfg now
      (mgauge ''gateway_ratelimit_effective_max_last'' mxr (snd (rl_prune cfg now s))\<lparr>buckets :=
         AList.update key b (buckets (mgauge ''gateway_ratelimit_effective_max_last'' mxr
           (snd (rl_prune cfg now s))))\<rparr>)))" for mxr b
    by (intro prune_inv [OF _ cap]) simp
  then show ?thesis by (simp add: rl_check_def rl_inv_def Let_def)
qed

lemma rl_config_pos:
  "0 < rl_maxBuckets (rl_config env)" "0 < rl_windowMs (rl_config env)"
  "0 < rl_maxReq (rl_config env)"
  by (simp_all add: rl_config_def read_positive_int_env_pos)

interpretation rl_run: run_invariant "rl_init (rl_config env) m" "rl_step (rl_config env)"
  "rl_inv (rl_config env)" for env m
proof unfold_locales
  show "rl_inv (rl_config env) (rl_init (rl_config env) m)"
    using rl_config_pos(1) [of env] by (simp add: rl_inv_def rl_init_def)
  fix s x assume "rl_inv (rl_config env) s"
  then show "rl_inv (rl_config env) (rl_step (rl_config env) s x)"
    using rl_config_pos(1) [of env] check_inv [of s "rl_config env"]
    by (cases x) (auto simp: rl_inv_def rl_reset_def)
qed


section \<open>One window\<close>

text \<open>While no bucket has expired and the keys in use fit, pruning leaves the buckets alone, so a
  check is: read the count, add one, compare.\<close>

definition in_window :: "rl_cfg \<Rightarrow> int \<Rightarrow> string set \<Rightarrow> rl_state \<Rightarrow> bool" where
  "in_window cfg stop ks s \<longleftrightarrow> jm_ok (buckets s) \<and> finite ks \<and> int (card ks) \<le> rl_maxBuckets cfg
     \<and> fst ` set (buckets s) \<subseteq> ks \<and> (\<forall>b \<in> snd ` set (buckets s). stop \<le> bk_reset b)"

definition count_of :: "string \<Rightarrow> rl_state \<Rightarrow> int" where
  "count_of key s = (case map_of (buckets s) key of None \<Rightarrow> 0 | Some b \<Rightarrow> bk_count b)"

lemma prune_in_window:
  assumes "in_window cfg stop ks s" and "now < stop"
  shows "snd (rl_prune cfg now s) = s"
proof -
  have "\<not> bk_reset b \<le> now" if "(k, b) \<in> set (buckets s)" for k b
  proof -
    from that have "b \<in> snd ` set (buckets s)" by force
    with assms show ?thesis by (auto simp: in_window_def)
  qed
  then have live: "filter (\<lambda>(k, b). \<not> bk_reset b \<le> now) (buckets s) = buckets s"
    by (auto simp: filter_id_conv)
  have "length (buckets s) = card (fst ` set (buckets s))"
    using assms(1) distinct_card [of "map fst (buckets s)"] by (simp add: in_window_def)
  also have "\<dots> \<le> card ks"
    using assms(1) by (auto simp: in_window_def intro: card_mono)
  finally have "int (length (buckets s)) \<le> rl_maxBuckets cfg"
    using assms(1) by (simp add: in_window_def)
  then show ?thesis by (simp add: rl_prune_def live Let_def)
qed

lemma in_window_mono:
  assumes "in_window cfg stop ks s" and "key \<in> ks" and "stop \<le> bk_reset b"
  shows "in_window cfg stop ks (s\<lparr>buckets := AList.update key b (buckets s)\<rparr>)"
proof -
  have "snd ` set (AList.update key b m) \<subseteq> insert b (snd ` set m)" for m :: "bucket jmap"
    by (induction m) auto
  with assms show ?thesis
    by (fastforce simp: in_window_def dom_update)
qed

lemma in_window_metrics [simp]:
  "in_window cfg stop ks (minc n s) = in_window cfg stop ks s"
  "in_window cfg stop ks (mgauge n v s) = in_window cfg stop ks s"
  by (simp_all add: in_window_def)

lemma check_in_window:
  assumes "in_window cfg (t0 + rl_windowMs cfg) ks s" and "key \<in> ks"
    and "t0 \<le> now" and "now < t0 + rl_windowMs cfg"
  shows "fst (rl_check cfg now key s) \<longleftrightarrow> count_of key s + 1 \<le> effective_max_for_key cfg key"
    and "in_window cfg (t0 + rl_windowMs cfg) ks (snd (rl_check cfg now key s))"
    and "count_of k (snd (rl_check cfg now key s)) = count_of k s + (if k = key then 1 else 0)"
proof -
  let ?stop = "t0 + rl_windowMs cfg"
  define b0 where "b0 = (case map_of (buckets s) key of
    None \<Rightarrow> \<lparr>bk_count = 0, bk_reset = now + rl_windowMs cfg\<rparr> | Some b \<Rightarrow> b)"
  define b2 where "b2 = b0\<lparr>bk_count := bk_count b0 + 1\<rparr>"
  define s3 where "s3 = (mgauge ''gateway_ratelimit_effective_max_last''
    (effective_max_for_key cfg key) s)\<lparr>buckets := AList.update key b2 (buckets s)\<rparr>"
  have reset: "?stop \<le> bk_reset b0"
  proof (cases "map_of (buckets s) key")
    case None
    then show ?thesis using assms(3) by (simp add: b0_def)
  next
    case (Some b)
    then have "b \<in> snd ` set (buckets s)" by (force dest: map_of_SomeD)
    with assms(1) have "?stop \<le> bk_reset b" unfolding in_window_def by blast
    with Some show ?thesis by (simp add: b0_def)
  qed
  have count: "bk_count b0 = count_of key s"
    by (simp add: b0_def count_of_def split: option.splits)
  have w3: "in_window cfg ?stop ks s3"
    using in_window_mono [OF assms(1,2), of b2] reset
    by (simp add: s3_def b2_def in_window_def)
  have res: "rl_check cfg now key s =
     (let s5 = mgauge ''gateway_ratelimit_buckets'' (int (length (buckets s3))) s3
      in if bk_count b2 > effective_max_for_key cfg key
         then (False, minc ''gateway_ratelimit_blocked'' s5) else (True, s5))"
    using reset assms(4) prune_in_window [OF assms(1,4)] prune_in_window [OF w3 assms(4)]
    by (simp add: rl_check_def Let_def b0_def [symmetric] b2_def [symmetric] s3_def [symmetric])
      (simp add: b2_def)
  show "fst (rl_check cfg now key s) \<longleftrightarrow> count_of key s + 1 \<le> effective_max_for_key cfg key"
    by (simp add: res Let_def b2_def count)
  show "in_window cfg ?stop ks (snd (rl_check cfg now key s))"
    using w3 by (simp add: res Let_def)
  show "count_of k (snd (rl_check cfg now key s)) = count_of k s + (if k = key then 1 else 0)"
    by (simp add: res Let_def count_of_def s3_def b2_def) (simp add: count [unfolded count_of_def])
qed

text \<open>The answers given to one key, and how many of them allow the call.\<close>

definition answers_for :: "string \<Rightarrow> (string \<times> int) list \<Rightarrow> bool list \<Rightarrow> bool list" where
  "answers_for key calls bs = map snd (filter (\<lambda>(c, b). fst c = key) (zip calls bs))"

definition allowed :: "bool list \<Rightarrow> nat" where
  "allowed bs = length (filter id bs)"

definition calls_of :: "string \<Rightarrow> (string \<times> int) list \<Rightarrow> nat" where
  "calls_of key calls = length (filter (\<lambda>c. fst c = key) calls)"

lemma answers_in_window:
  assumes "in_window cfg (t0 + rl_windowMs cfg) ks s" and "fst ` set calls \<subseteq> ks"
    and "\<forall>t \<in> snd ` set calls. t0 \<le> t \<and> t < t0 + rl_windowMs cfg"
  shows "allowed (answers_for key calls (rl_answers cfg calls s))
    = min (calls_of key calls) (nat (effective_max_for_key cfg key - count_of key s))"
  using assms
proof (induction calls arbitrary: s)
  case Nil
  then show ?case by (simp add: allowed_def answers_for_def calls_of_def)
next
  case (Cons c calls)
  obtain k now where c: "c = (k, now)" by (cases c)
  obtain b s' where r: "rl_check cfg now k s = (b, s')" by (cases "rl_check cfg now k s")
  from Cons.prems c have h: "k \<in> ks" "t0 \<le> now" "now < t0 + rl_windowMs cfg" by auto
  note chk = check_in_window [OF Cons.prems(1) h, unfolded r fst_conv snd_conv]
  have IH: "allowed (answers_for key calls (rl_answers cfg calls s'))
    = min (calls_of key calls) (nat (effective_max_for_key cfg key - count_of key s'))"
    using Cons.prems chk(2) by (intro Cons.IH) auto
  show ?case
    using IH chk(1) chk(3) [of key]
    by (auto simp: c r allowed_def answers_for_def calls_of_def)
qed

lemma init_in_window:
  "finite ks \<Longrightarrow> int (card ks) \<le> rl_maxBuckets cfg \<Longrightarrow> in_window cfg stop ks (rl_init cfg m)"
  by (simp add: in_window_def rl_init_def)

lemma count_of_init [simp]: "count_of key (rl_init cfg m) = 0"
  by (simp add: count_of_def rl_init_def)

section \<open>Properties\<close>

text \<open>
  Under every sequence of checks and resets, at any times, the limiter holds at most
  \<open>GATEWAY_RL_MAX_BUCKETS\<close> buckets, one per key.
\<close>

theorem limiter_stays_bounded:
  "rl_inv (rl_config env) (foldl (rl_step (rl_config env)) (rl_init (rl_config env) m) ops)"
  by (rule rl_run.inv_run)

text \<open>
  C30: Within one window the limiter is exact: as long as the keys in use fit the bucket limit,
  a fresh limiter allows a key exactly its effective maximum of calls (the override of its prefix,
  else \<open>GATEWAY_RL_MAX\<close>) and blocks the rest, whatever calls of other keys are interleaved and in
  whatever order the clock reads.
\<close>

theorem window_allows_exactly_max:
  assumes "int (card (fst ` set calls)) \<le> rl_maxBuckets cfg"
    and "\<forall>t \<in> snd ` set calls. lo \<le> t \<and> t < lo + rl_windowMs cfg"
  shows "allowed (answers_for key calls (rl_answers cfg calls (rl_init cfg m)))
    = min (calls_of key calls) (nat (effective_max_for_key cfg key))"
  using answers_in_window [OF init_in_window [of "fst ` set calls"], where calls = calls] assms
  by simp

definition demo_rl_env :: env where
  "demo_rl_env = [''GATEWAY_RL_MAX'' \<mapsto> ''3'', ''GATEWAY_RL_MAX_OVERRIDES'' \<mapsto> ''inbox=2, x=0'',
     ''GATEWAY_RL_WINDOW_MS'' \<mapsto> ''100'', ''GATEWAY_RL_MAX_BUCKETS'' \<mapsto> ''2'']"

lemma window_allows_witness:
  "rl_overrides (rl_config demo_rl_env) = [(''inbox'', 2)]
   \<and> allowed (answers_for ''inbox:a''
       [(''inbox:a'', 5), (''b'', 6), (''inbox:a'', 7), (''inbox:a'', 80)]
       (rl_answers (rl_config demo_rl_env)
         [(''inbox:a'', 5), (''b'', 6), (''inbox:a'', 7), (''inbox:a'', 80)]
         (rl_init (rl_config demo_rl_env) metrics_empty))) = 2"
proof
  show o: "rl_overrides (rl_config demo_rl_env) = [(''inbox'', 2)]"
    by code_simp
  have b: "rl_maxBuckets (rl_config demo_rl_env) = 2" "rl_windowMs (rl_config demo_rl_env) = 100"
    by code_simp+
  have e: "effective_max_for_key (rl_config demo_rl_env) ''inbox:a'' = 2"
    by code_simp
  show "allowed (answers_for ''inbox:a''
       [(''inbox:a'', 5), (''b'', 6), (''inbox:a'', 7), (''inbox:a'', 80)]
       (rl_answers (rl_config demo_rl_env)
         [(''inbox:a'', 5), (''b'', 6), (''inbox:a'', 7), (''inbox:a'', 80)]
         (rl_init (rl_config demo_rl_env) metrics_empty))) = 2"
    by (subst window_allows_exactly_max [where lo = 0]) (simp_all add: b e calls_of_def insert_commute)
qed

end
