(* ===== verification/Replay.thy ===== *)
theory Replay
  imports Config
begin

text \<open>
  The replay window of \<open>src/src/runtime/sessions/replayStore.ts\<close>, a bounded map from keys to the
  time until which they count as seen, and the module \<open>src/src/replay.ts\<close> that keeps one instance
  for webhooks and reports on it. The class's fields are the record \<open>rs_state\<close>, its options
  \<open>rs_cfg\<close>; \<open>options.now()\<close>, read once per call, is the argument \<open>now\<close>.
\<close>

record rs_cfg =
  rs_ttlMs :: int
  rs_maxKeys :: int
  rs_sweepIntervalMs :: int
  rs_keyMaxBytes :: int

record rs_state =
  seen :: "int jmap"
  lastSweepAt :: int

record mark_result =
  mr_replay :: bool
  mr_rejected :: bool
  mr_pruned :: int
  mr_size :: int

definition rs_new :: rs_state where
  "rs_new = \<lparr>seen = [], lastSweepAt = 0\<rparr>"

definition sweep_expired :: "int \<Rightarrow> int jmap \<Rightarrow> int \<times> int jmap" where
  "sweep_expired now m =
     (let kept = filter (\<lambda>(k, expiresAt). \<not> expiresAt \<le> now) m
      in (int (length m) - int (length kept), kept))"

definition rs_sweep :: "int \<Rightarrow> rs_state \<Rightarrow> int \<times> rs_state" where
  "rs_sweep now s =
     (let (removed, m) = sweep_expired now (seen s)
      in (removed, s\<lparr>lastSweepAt := now, seen := m\<rparr>))"

definition maybe_sweep :: "rs_cfg \<Rightarrow> int \<Rightarrow> rs_state \<Rightarrow> int \<times> rs_state" where
  "maybe_sweep cfg now s =
     (if int (length (seen s)) \<ge> rs_maxKeys cfg then rs_sweep now s
      else if now - lastSweepAt s < rs_sweepIntervalMs cfg then (0, s)
      else rs_sweep now s)"

definition prune_to_capacity :: "rs_cfg \<Rightarrow> int jmap \<Rightarrow> int \<times> int jmap" where
  "prune_to_capacity cfg m = evict_while (\<lambda>size. size \<ge> rs_maxKeys cfg) m"

text \<open>The last three lines of \<open>markAndCheck\<close>: make room, record the key, report it as new.\<close>

definition rs_accept :: "rs_cfg \<Rightarrow> int \<Rightarrow> string \<Rightarrow> int \<Rightarrow> rs_state \<Rightarrow> mark_result \<times> rs_state" where
  "rs_accept cfg now key pruned s =
     (let (n, m) = prune_to_capacity cfg (seen s);
          m' = AList.update key (now + rs_ttlMs cfg) m
      in (\<lparr>mr_replay = False, mr_rejected = False, mr_pruned = pruned + n,
           mr_size = int (length m')\<rparr>, s\<lparr>seen := m'\<rparr>))"

definition rs_mark :: "rs_cfg \<Rightarrow> int \<Rightarrow> string \<Rightarrow> rs_state \<Rightarrow> mark_result \<times> rs_state" where
  "rs_mark cfg now key s =
     (if int (utf8_len key) > rs_keyMaxBytes cfg then
        (\<lparr>mr_replay = True, mr_rejected = True, mr_pruned = 0, mr_size = int (length (seen s))\<rparr>, s)
      else
        let (pruned, s1) = maybe_sweep cfg now s
        in (case map_of (seen s1) key of
              Some prev \<Rightarrow>
                if prev > now then
                  let m = AList.update key (now + rs_ttlMs cfg) (seen s1)
                  in (\<lparr>mr_replay = True, mr_rejected = False, mr_pruned = pruned,
                       mr_size = int (length m)\<rparr>, s1\<lparr>seen := m\<rparr>)
                else rs_accept cfg now key pruned (s1\<lparr>seen := AList.delete key (seen s1)\<rparr>)
            | None \<Rightarrow> rs_accept cfg now key pruned s1))"

section \<open>The webhook instance\<close>

record rp_state = mstate +
  rp_store :: rs_state

definition rp_config :: "env \<Rightarrow> rs_cfg" where
  "rp_config env =
     \<lparr>rs_ttlMs = read_positive_int_env ''GATEWAY_WEBHOOK_REPLAY_TTL_MS'' 600000 env,
      rs_maxKeys = read_positive_int_env ''GATEWAY_WEBHOOK_REPLAY_MAX_KEYS'' 10000 env,
      rs_sweepIntervalMs = read_positive_int_env ''GATEWAY_WEBHOOK_REPLAY_SWEEP_INTERVAL_MS'' 1000 env,
      rs_keyMaxBytes = read_positive_int_env ''GATEWAY_WEBHOOK_REPLAY_KEY_MAX_BYTES'' 512 env\<rparr>"

definition rp_init :: "rs_cfg \<Rightarrow> metrics \<Rightarrow> rp_state" where
  "rp_init cfg m =
     mgauge ''gateway_webhook_replay_size'' 0
    (mgauge ''gateway_webhook_replay_key_max_bytes'' (rs_keyMaxBytes cfg)
    (mgauge ''gateway_webhook_replay_sweep_interval_ms'' (rs_sweepIntervalMs cfg)
    (mgauge ''gateway_webhook_replay_max_keys'' (rs_maxKeys cfg)
    (mgauge ''gateway_webhook_replay_ttl_ms'' (rs_ttlMs cfg)
      \<lparr>mx = m, rp_store = rs_new\<rparr>))))"

definition mark_and_check :: "rs_cfg \<Rightarrow> int \<Rightarrow> string \<Rightarrow> rp_state \<Rightarrow> bool \<times> rp_state" where
  "mark_and_check cfg now key s =
     (let (r, st) = rs_mark cfg now key (rp_store s);
          s1 = s\<lparr>rp_store := st\<rparr>;
          s2 = (if mr_rejected r then minc ''gateway_webhook_replay_key_reject'' s1 else s1);
          s3 = (if mr_pruned r > 0 then minc_by ''gateway_webhook_replay_pruned'' (mr_pruned r) s2 else s2);
          s4 = mgauge ''gateway_webhook_replay_size'' (mr_size r) s3;
          s5 = (if mr_replay r then minc ''gateway_webhook_replay'' s4 else s4)
      in (mr_replay r, s5))"

text \<open>The answers of a sequence of deliveries, each a key with the time it is checked at.\<close>

fun replay_answers :: "rs_cfg \<Rightarrow> (string \<times> int) list \<Rightarrow> rp_state \<Rightarrow> bool list" where
  "replay_answers cfg [] s = []"
| "replay_answers cfg ((key, now) # calls) s =
     (let (b, s') = mark_and_check cfg now key s in b # replay_answers cfg calls s')"

definition rp_step :: "rs_cfg \<Rightarrow> rp_state \<Rightarrow> string \<times> int \<Rightarrow> rp_state" where
  "rp_step cfg s c = snd (mark_and_check cfg (snd c) (fst c) s)"

section \<open>Bounds\<close>

definition rs_inv :: "rs_cfg \<Rightarrow> rs_state \<Rightarrow> bool" where
  "rs_inv cfg s \<longleftrightarrow> jm_ok (seen s) \<and> int (length (seen s)) \<le> rs_maxKeys cfg"

lemma maybe_sweep_seen:
  "seen (snd (maybe_sweep cfg now s)) = seen s
   \<or> seen (snd (maybe_sweep cfg now s)) = filter (\<lambda>(k, e). \<not> e \<le> now) (seen s)"
  by (auto simp: maybe_sweep_def rs_sweep_def sweep_expired_def Let_def)

lemma maybe_sweep_inv [gw_intro]: "rs_inv cfg s \<Longrightarrow> rs_inv cfg (snd (maybe_sweep cfg now s))"
  using maybe_sweep_seen [of cfg now s]
  by (elim disjE) (auto simp: rs_inv_def intro: order_trans [OF iffD2 [OF of_nat_le_iff length_filter_le]])

lemma update_length_inv:
  assumes "jm_ok m" and "map_of m key = Some v"
  shows "length (AList.update key w m) = length m"
  using assms fst_set_map_of [of key m] by (simp add: length_update_jm)

lemma prune_room:
  assumes "jm_ok m" and "0 < rs_maxKeys cfg"
  shows "jm_ok (snd (prune_to_capacity cfg m))"
    and "int (length (snd (prune_to_capacity cfg m))) < rs_maxKeys cfg"
  using evict_room [OF assms] by (simp_all add: prune_to_capacity_def)

lemma rs_accept_inv:
  assumes "jm_ok (seen s)" and "0 < rs_maxKeys cfg"
  shows "rs_inv cfg (snd (rs_accept cfg now key p s))"
  using prune_room [OF assms]
  by (auto simp: rs_accept_def rs_inv_def length_update_jm Let_def split: prod.splits)

lemma rs_mark_inv [gw_intro]:
  assumes inv: "rs_inv cfg s" and pos: "0 < rs_maxKeys cfg"
  shows "rs_inv cfg (snd (rs_mark cfg now key s))"
proof -
  obtain p s1 where ms: "maybe_sweep cfg now s = (p, s1)" by fastforce
  have i1: "rs_inv cfg s1" using maybe_sweep_inv [OF inv, of now] by (simp add: ms)
  have hit: "rs_inv cfg (s1\<lparr>seen := AList.update key v (seen s1)\<rparr>)" if "map_of (seen s1) key = Some w" for v w
    using i1 update_length_inv [OF _ that] by (auto simp: rs_inv_def)
  show ?thesis
    using inv i1 hit rs_accept_inv [OF _ pos]
    by (auto simp: rs_mark_def ms Let_def rs_inv_def split: option.splits)
qed

lemma rp_frame [simp]:
  "rp_store (minc n s) = rp_store s" "rp_store (minc_by n v s) = rp_store s"
  "rp_store (mgauge n v s) = rp_store s"
  by (simp_all add: m_defs)

lemma mark_and_check_store [simp]:
  "fst (mark_and_check cfg now key s) = mr_replay (fst (rs_mark cfg now key (rp_store s)))"
  "rp_store (snd (mark_and_check cfg now key s)) = snd (rs_mark cfg now key (rp_store s))"
  by (simp_all add: mark_and_check_def Let_def split: prod.splits)

lemma rp_config_pos:
  "0 < rs_maxKeys (rp_config env)" "0 < rs_ttlMs (rp_config env)"
  "0 < rs_keyMaxBytes (rp_config env)"
  by (simp_all add: rp_config_def read_positive_int_env_pos)

interpretation rp_run: run_invariant "rp_init (rp_config env) m" "rp_step (rp_config env)"
  "\<lambda>s. rs_inv (rp_config env) (rp_store s)" for env m
proof unfold_locales
  show "rs_inv (rp_config env) (rp_store (rp_init (rp_config env) m))"
    using rp_config_pos(1) [of env] by (simp add: rp_init_def rs_inv_def rs_new_def)
qed (simp add: rp_step_def rs_mark_inv rp_config_pos)

section \<open>The replay window\<close>

text \<open>
  What the store promises: a delivery is a replay iff the same key was delivered before and its
  latest delivery, accepted or not, is less than a time to live ago.
\<close>

type_synonym history = "string \<Rightarrow> int option"

definition spec_replay :: "int \<Rightarrow> history \<Rightarrow> string \<Rightarrow> int \<Rightarrow> bool" where
  "spec_replay ttl h key now = (case h key of None \<Rightarrow> False | Some t \<Rightarrow> now < t + ttl)"

fun spec_answers :: "int \<Rightarrow> (string \<times> int) list \<Rightarrow> history \<Rightarrow> bool list" where
  "spec_answers ttl [] h = []"
| "spec_answers ttl ((key, now) # calls) h =
     spec_replay ttl h key now # spec_answers ttl calls (h(key \<mapsto> now))"

text \<open>The store represents a history: what it still holds is what was delivered last, and what
  it does not hold has left the window.\<close>

definition represents :: "rs_cfg \<Rightarrow> int \<Rightarrow> string set \<Rightarrow> int jmap \<Rightarrow> history \<Rightarrow> bool" where
  "represents cfg now ks m h \<longleftrightarrow> jm_ok m \<and> fst ` set m \<subseteq> ks
     \<and> (\<forall>k. case map_of m k of
              Some e \<Rightarrow> h k = Some (e - rs_ttlMs cfg)
            | None \<Rightarrow> (case h k of None \<Rightarrow> True | Some t \<Rightarrow> t + rs_ttlMs cfg \<le> now))"

lemma representsD:
  assumes "represents cfg now ks m h"
  shows "jm_ok m" and "fst ` set m \<subseteq> ks"
    and "map_of m k = Some e \<Longrightarrow> h k = Some (e - rs_ttlMs cfg)"
    and "map_of m k = None \<Longrightarrow> h k = Some t \<Longrightarrow> t + rs_ttlMs cfg \<le> now"
proof -
  from assms have "case map_of m k of Some e \<Rightarrow> h k = Some (e - rs_ttlMs cfg)
      | None \<Rightarrow> (case h k of None \<Rightarrow> True | Some t \<Rightarrow> t + rs_ttlMs cfg \<le> now)"
    unfolding represents_def by blast
  then show "map_of m k = Some e \<Longrightarrow> h k = Some (e - rs_ttlMs cfg)"
    and "map_of m k = None \<Longrightarrow> h k = Some t \<Longrightarrow> t + rs_ttlMs cfg \<le> now" by auto
qed (use assms in \<open>simp_all add: represents_def\<close>)

lemma representsI:
  assumes "jm_ok m" and "fst ` set m \<subseteq> ks"
    and "\<And>k e. map_of m k = Some e \<Longrightarrow> h k = Some (e - rs_ttlMs cfg)"
    and "\<And>k t. map_of m k = None \<Longrightarrow> h k = Some t \<Longrightarrow> t + rs_ttlMs cfg \<le> now"
  shows "represents cfg now ks m h"
  using assms by (simp add: represents_def split: option.splits)

lemma represents_later: "represents cfg now ks m h \<Longrightarrow> now \<le> now' \<Longrightarrow> represents cfg now' ks m h"
  by (rule representsI) (blast dest: representsD representsD(4) order_trans)+

lemma represents_filter:
  assumes "represents cfg now ks m h"
  shows "represents cfg now ks (filter (\<lambda>(k, e). \<not> e \<le> now) m) h"
proof (rule representsI)
  note D = representsD [OF assms]
  show "jm_ok (filter (\<lambda>(k, e). \<not> e \<le> now) m)" by (rule jm_ok_filter [OF D(1)])
  show "fst ` set (filter (\<lambda>(k, e). \<not> e \<le> now) m) \<subseteq> ks" using D(2) by auto
  note mf = map_of_filter_jm [OF D(1), of "\<lambda>k e. \<not> e \<le> now"]
  show "h k = Some (e - rs_ttlMs cfg)"
    if "map_of (filter (\<lambda>(k, e). \<not> e \<le> now) m) k = Some e" for k e
    using that D(3) [of k e] by (auto simp: mf split: option.splits if_splits)
  show "t + rs_ttlMs cfg \<le> now"
    if "map_of (filter (\<lambda>(k, e). \<not> e \<le> now) m) k = None" and "h k = Some t" for k t
    using that D(3) [of k] D(4) [of k t] by (auto simp: mf split: option.splits if_splits)
qed

lemma represents_set:
  assumes "represents cfg now ks m h" and "key \<in> ks"
  shows "represents cfg now ks (AList.update key (now + rs_ttlMs cfg) m) (h(key \<mapsto> now))"
  using representsD [OF assms(1)] assms(2) by (intro representsI) (simp_all split: if_splits)

lemma represents_unset:
  assumes "represents cfg now ks m h"
  shows "represents cfg now ks (AList.delete key m) (h(key := None))"
  using representsD [OF assms] by (intro representsI jm_ok_delete) (simp_all split: if_splits, blast+)

lemma room_for_new:
  assumes "represents cfg now ks m h" and "finite ks" and "int (card ks) \<le> rs_maxKeys cfg"
    and "key \<in> ks" and "key \<notin> fst ` set m"
  shows "prune_to_capacity cfg m = (0, m)"
proof -
  have "length m = card (fst ` set m)"
    using representsD(1) [OF assms(1)] distinct_card [of "map fst m"] by simp
  also have "\<dots> < card ks"
    using assms representsD(2) [OF assms(1)] by (intro psubset_card_mono) auto
  finally show ?thesis using assms(3) by (simp add: prune_to_capacity_def)
qed

lemma rs_mark_represents:
  assumes rep: "represents cfg now ks (seen s) h" and fin: "finite ks"
    and cap: "int (card ks) \<le> rs_maxKeys cfg" and key: "key \<in> ks"
    and len: "int (utf8_len key) \<le> rs_keyMaxBytes cfg"
  shows "mr_replay (fst (rs_mark cfg now key s)) = spec_replay (rs_ttlMs cfg) h key now"
    and "represents cfg now ks (seen (snd (rs_mark cfg now key s))) (h(key \<mapsto> now))"
proof -
  obtain p s1 where ms: "maybe_sweep cfg now s = (p, s1)" by fastforce
  have rep1: "represents cfg now ks (seen s1) h"
    using maybe_sweep_seen [of cfg now s] rep represents_filter [OF rep] by (auto simp: ms)
  note D = representsD [OF rep1] and U = represents_unset [OF rep1, of key]
  note S = represents_set [OF rep1 key] represents_set [OF U key, unfolded fun_upd_upd]
  have goal: "mr_replay (fst (rs_mark cfg now key s)) = spec_replay (rs_ttlMs cfg) h key now
    \<and> represents cfg now ks (seen (snd (rs_mark cfg now key s))) (h(key \<mapsto> now))"
  proof (cases "map_of (seen s1) key")
    case None
    then have "prune_to_capacity cfg (seen s1) = (0, seen s1)"
      using fst_set_map_of [of key "seen s1"] by (intro room_for_new [OF rep1 fin cap key]) simp
    moreover have "\<not> spec_replay (rs_ttlMs cfg) h key now"
      using D(4) [OF None] by (auto simp: spec_replay_def split: option.splits)
    ultimately show ?thesis using None S(1) len by (simp add: rs_mark_def ms rs_accept_def Let_def)
  next
    case (Some e)
    have h: "h key = Some (e - rs_ttlMs cfg)" by (rule D(3) [OF Some])
    show ?thesis
    proof (cases "e > now")
      case True
      then show ?thesis using Some h S(1) len by (simp add: rs_mark_def ms spec_replay_def Let_def)
    next
      case False
      let ?m = "AList.delete key (seen s1)"
      have "prune_to_capacity cfg ?m = (0, ?m)"
        by (rule room_for_new [OF U fin cap key]) simp
      then show ?thesis using Some False h S(2) len
        by (simp add: rs_mark_def ms rs_accept_def spec_replay_def Let_def)
    qed
  qed
  then show "mr_replay (fst (rs_mark cfg now key s)) = spec_replay (rs_ttlMs cfg) h key now"
    and "represents cfg now ks (seen (snd (rs_mark cfg now key s))) (h(key \<mapsto> now))" by auto
qed

lemma replay_answers_spec:
  assumes "represents cfg now ks (seen (rp_store s)) h" and "finite ks"
    and "int (card ks) \<le> rs_maxKeys cfg" and "fst ` set calls \<subseteq> ks"
    and "\<forall>k \<in> fst ` set calls. int (utf8_len k) \<le> rs_keyMaxBytes cfg"
    and "sorted (map snd calls)" and "\<forall>t \<in> snd ` set calls. now \<le> t"
  shows "replay_answers cfg calls s = spec_answers (rs_ttlMs cfg) calls h"
  using assms
proof (induction calls arbitrary: now s h)
  case Nil
  show ?case by simp
next
  case (Cons c calls)
  obtain key t where c: "c = (key, t)" by (cases c)
  have rep: "represents cfg t ks (seen (rp_store s)) h"
    using Cons.prems(1,7) c by (intro represents_later [OF Cons.prems(1)]) auto
  have key: "key \<in> ks" "int (utf8_len key) \<le> rs_keyMaxBytes cfg" using Cons.prems(4,5) c by auto
  note M = rs_mark_represents [OF rep Cons.prems(2,3) key]
  obtain b s' where r: "mark_and_check cfg t key s = (b, s')" by fastforce
  have "represents cfg t ks (seen (rp_store s')) (h(key \<mapsto> t))"
    using M(2) mark_and_check_store(2) [of cfg t key s] by (simp add: r)
  then have "replay_answers cfg calls s' = spec_answers (rs_ttlMs cfg) calls (h(key \<mapsto> t))"
    using Cons.prems(2-6) c by (intro Cons.IH [of t s' "h(key \<mapsto> t)"]) (simp_all del: fun_upd_apply)
  then show ?case
    using M(1) mark_and_check_store(1) [of cfg t key s] by (simp add: c r)
qed

lemma represents_init: "represents cfg now ks (seen (rp_store (rp_init cfg m))) (\<lambda>_. None)"
  by (simp add: represents_def rp_init_def rs_new_def)

section \<open>Properties\<close>

text \<open>
  Under every sequence of deliveries the webhook replay store keeps at most
  \<open>GATEWAY_WEBHOOK_REPLAY_MAX_KEYS\<close> keys, each once.
\<close>

theorem replay_store_bounded:
  "rs_inv (rp_config env) (rp_store (foldl (rp_step (rp_config env)) (rp_init (rp_config env) m) calls))"
  by (rule rp_run.inv_run)



text \<open>
  An oversized key is refused as a replay and leaves the store untouched, whatever it holds,
  so a caller that sends long keys can neither evict nor refresh anyone's entry.
\<close>

theorem oversized_key_rejected:
  assumes "int (utf8_len key) > rs_keyMaxBytes cfg"
  shows "fst (mark_and_check cfg now key s)
    \<and> rp_store (snd (mark_and_check cfg now key s)) = rp_store s"
  using assms by (simp add: rs_mark_def)

definition demo_rs :: rs_cfg where
  "demo_rs = \<lparr>rs_ttlMs = 10, rs_maxKeys = 2, rs_sweepIntervalMs = 5, rs_keyMaxBytes = 1\<rparr>"

lemma oversized_key_witness:
  "fst (mark_and_check demo_rs 3 ''ab'' (rp_init demo_rs metrics_empty))"
  by (rule oversized_key_rejected [THEN conjunct1]) (simp add: utf8_len_def demo_rs_def)

end
