(* ===== verification/Crypto.thy ===== *)
theory Crypto
  imports Prelude
begin

text \<open>
  The verification helpers of \<open>src/src/runtime/crypto/\<close> (\<open>safeCompare.ts\<close>, \<open>hmac.ts\<close>,
  \<open>signatureRefs.ts\<close>) and the request authentication of \<open>src/src/runtime/auth/\<close> (\<open>httpAuth.ts\<close>,
  \<open>policy.ts\<close>). The keyed digest of Node's \<open>crypto\<close> module is the parameter
  \<open>hmac algorithm secret body\<close>, \<^term>\<open>None\<close> where it throws; the base64 decoding of \<open>Buffer\<close> is the
  parameter \<open>b64\<close>. A value of type \<open>unknown\<close> is a \<^typ>\<open>jsval\<close>.
\<close>

section \<open>Constant-time comparison\<close>

definition utf8_char :: "char \<Rightarrow> nat list" where
  "utf8_char c =
     (let n = of_char c in if n < 128 then [n] else [192 + n div 64, 128 + n mod 64])"

definition utf8_bytes :: "string \<Rightarrow> nat list" where
  "utf8_bytes s = concat (map utf8_char s)"

text \<open>\<open>timingSafeEqual\<close> accumulates the differences of all positions and tests the sum once.\<close>

definition timing_safe_equal :: "nat list \<Rightarrow> nat list \<Rightarrow> bool" where
  "timing_safe_equal xs ys = (foldl (\<lambda>acc (x, y). acc + (if x = y then 0 else 1)) 0 (zip xs ys) = (0 :: nat))"

definition compare_buffers :: "string \<Rightarrow> string \<Rightarrow> bool" where
  "compare_buffers left right =
     (let l = utf8_bytes left; r = utf8_bytes right
      in if length l \<noteq> length r then False else timing_safe_equal l r)"

definition safe_compare_ascii :: "string \<Rightarrow> string \<Rightarrow> bool" where
  "safe_compare_ascii left right = compare_buffers left right"

definition safe_compare_hex_or_ascii :: "string \<Rightarrow> string \<Rightarrow> bool" where
  "safe_compare_hex_or_ascii left right = compare_buffers left right"

definition token_equals :: "string \<Rightarrow> string \<Rightarrow> bool" where
  "token_equals expected presented =
     (if expected = [] \<or> presented = [] then False
      else let a = utf8_bytes expected; b = utf8_bytes presented
           in if length a \<noteq> length b then False else timing_safe_equal a b)"

lemma timing_safe_equal_iff: "length xs = length ys \<Longrightarrow> timing_safe_equal xs ys \<longleftrightarrow> xs = ys"
proof -
  have acc: "foldl (\<lambda>acc (x, y). acc + (if x = y then 0 else 1)) n ps
      = n + foldl (\<lambda>acc (x, y). acc + (if x = y then 0 else 1)) (0 :: nat) ps" for n and ps :: "(nat \<times> nat) list"
  proof (induction ps arbitrary: n)
    case (Cons p ps)
    show ?case
      using Cons.IH [of "n + (if fst p = snd p then 0 else 1)"]
        Cons.IH [of "if fst p = snd p then 0 else 1"] by (simp add: case_prod_beta)
  qed simp
  show "length xs = length ys \<Longrightarrow> timing_safe_equal xs ys \<longleftrightarrow> xs = ys"
  proof (induction xs ys rule: list_induct2)
    case (Cons x xs y ys)
    then show ?case using acc [of "if x = y then 0 else 1" "zip xs ys"]
      by (auto simp: timing_safe_equal_def)
  qed (simp add: timing_safe_equal_def)
qed

lemma utf8_char_split:
  "utf8_char c @ xs = utf8_char d @ ys \<Longrightarrow> c = d \<and> xs = ys"
proof -
  assume h: "utf8_char c @ xs = utf8_char d @ ys"
  have lt: "of_char c < (256 :: nat)" "of_char d < (256 :: nat)"
    using nat_of_char_less_256 by simp_all
  have eq: "(of_char c :: nat) = of_char d \<Longrightarrow> c = d"
    by (metis char_of_char)
  have dm: "n div 64 = m div 64 \<Longrightarrow> n mod 64 = m mod 64 \<Longrightarrow> n = m" for n m :: nat
    by (metis div_mult_mod_eq)
  show ?thesis
    using h lt by (auto simp: utf8_char_def Let_def eq split: if_splits intro: eq dm)
qed

lemma utf8_bytes_inject: "utf8_bytes s = utf8_bytes t \<Longrightarrow> s = t"
proof (induction s arbitrary: t)
  case Nil
  then show ?case by (cases t) (auto simp: utf8_bytes_def utf8_char_def Let_def split: if_splits)
next
  case (Cons c s)
  then show ?case
  proof (cases t)
    case Nil
    with Cons.prems show ?thesis by (auto simp: utf8_bytes_def utf8_char_def Let_def split: if_splits)
  next
    case (Cons d u)
    with Cons.prems utf8_char_split [of c "utf8_bytes s" d "utf8_bytes u"] Cons.IH [of u]
    show ?thesis by (auto simp: utf8_bytes_def)
  qed
qed

lemma compare_buffers_eq [simp]: "compare_buffers l r \<longleftrightarrow> l = r"
  by (auto simp: compare_buffers_def Let_def timing_safe_equal_iff dest: utf8_bytes_inject)

lemma token_equals_eq [simp]: "token_equals expected presented \<longleftrightarrow> expected \<noteq> [] \<and> expected = presented"
  by (auto simp: token_equals_def Let_def timing_safe_equal_iff dest: utf8_bytes_inject)

section \<open>HMAC signatures\<close>

record hmac_options =
  ho_algorithm :: string
  ho_encoding :: string
  ho_prefix :: string

definition normalize_presented_signature :: "jsval \<Rightarrow> string \<Rightarrow> string" where
  "normalize_presented_signature value pfx =
     (case value of
        JStr v \<Rightarrow>
          let trimmed = trim v in
          if trimmed = [] then []
          else if pfx = [] then trimmed
          else if starts_with trimmed pfx then trim (drop (length pfx) trimmed)
          else trimmed
      | _ \<Rightarrow> [])"

text \<open>\<open>options.x || default\<close> with the module's defaults.\<close>

definition verify_hmac_signature ::
  "(string \<Rightarrow> string \<Rightarrow> string \<Rightarrow> string \<Rightarrow> string option) \<Rightarrow> jsval \<Rightarrow> jsval \<Rightarrow> jsval \<Rightarrow> hmac_options \<Rightarrow> bool" where
  "verify_hmac_signature hmac body header secret opts =
     (case (body, secret) of
        (JStr b, JStr k) \<Rightarrow>
          if b = [] \<or> k = [] then False
          else
            let presented = normalize_presented_signature header (ho_prefix opts) in
            if presented = [] then False
            else (case hmac (if ho_algorithm opts = [] then ''sha256'' else ho_algorithm opts) k b
                         (if ho_encoding opts = [] then ''hex'' else ho_encoding opts) of
                    None \<Rightarrow> False
                  | Some expected \<Rightarrow> safe_compare_ascii expected presented)
      | _ \<Rightarrow> False)"

lemma verify_hmac_signature_iff:
  "verify_hmac_signature hmac body (JStr h) secret opts \<longleftrightarrow>
     (\<exists>b k. body = JStr b \<and> secret = JStr k \<and> b \<noteq> [] \<and> k \<noteq> []
        \<and> normalize_presented_signature (JStr h) (ho_prefix opts) \<noteq> []
        \<and> hmac (if ho_algorithm opts = [] then ''sha256'' else ho_algorithm opts) k b
            (if ho_encoding opts = [] then ''hex'' else ho_encoding opts)
          = Some (normalize_presented_signature (JStr h) (ho_prefix opts)))"
  by (auto simp: verify_hmac_signature_def safe_compare_ascii_def Let_def
      split: jsval.splits option.splits)

section \<open>Signature references\<close>

definition normalize_signature_ref :: "string \<Rightarrow> string" where
  "normalize_signature_ref ref = trim ref"

fun unique_refs_loop :: "string list \<Rightarrow> string list \<Rightarrow> string list \<Rightarrow> string list" where
  "unique_refs_loop [] seen normalized = normalized"
| "unique_refs_loop (ref # refs) seen normalized =
     (let trimmed = normalize_signature_ref ref in
      if trimmed = [] \<or> trimmed \<in> set seen then unique_refs_loop refs seen normalized
      else unique_refs_loop refs (trimmed # seen) (normalized @ [trimmed]))"

definition unique_signature_refs :: "string list \<Rightarrow> string list" where
  "unique_signature_refs refs = unique_refs_loop refs [] []"

definition normalize_signature_ref_list :: "string list \<Rightarrow> string list" where
  "normalize_signature_ref_list refs = unique_signature_refs refs"

text \<open>The first index of the list with an empty reference.\<close>

fun first_empty_ref :: "nat \<Rightarrow> string list \<Rightarrow> nat option" where
  "first_empty_ref i [] = None"
| "first_empty_ref i (r # rs) =
     (if normalize_signature_ref r = [] then Some i else first_empty_ref (Suc i) rs)"

fun all_strings :: "jsval list \<Rightarrow> string list option" where
  "all_strings [] = Some []"
| "all_strings (JStr s # vs) = map_option (Cons s) (all_strings vs)"
| "all_strings (_ # vs) = None"

definition validate_signature_ref_list :: "jsval \<Rightarrow> string + string list" where
  "validate_signature_ref_list value =
     (case value of
        JArr vs \<Rightarrow>
          if vs = [] then Inl ''signatureRef list must not be empty''
          else (case all_strings vs of
                  None \<Rightarrow> Inl ''signatureRef list must be an array of strings''
                | Some ss \<Rightarrow>
                    (case first_empty_ref 0 ss of
                       Some i \<Rightarrow> Inl (''signatureRef['' @ nat_str i @ ''] must not be empty'')
                     | None \<Rightarrow>
                         let refs = unique_signature_refs ss in
                         if refs = [] then Inl ''signatureRef list must not be empty'' else Inr refs))
      | _ \<Rightarrow> Inl ''signatureRef list must be an array of strings'')"

definition same_signature_ref_set :: "string list \<Rightarrow> string list \<Rightarrow> bool" where
  "same_signature_ref_set left right =
     (if length left \<noteq> length right then False else list_all (\<lambda>ref. ref \<in> set right) left)"

definition intersect_signature_refs :: "string list \<Rightarrow> string list \<Rightarrow> string list" where
  "intersect_signature_refs left right = filter (\<lambda>ref. ref \<in> set right) left"

definition validate_expected_signature_refs :: "jsval \<Rightarrow> jsval \<Rightarrow> bool \<Rightarrow> string + string list" where
  "validate_expected_signature_refs actual expected strict =
     (case validate_signature_ref_list actual of
        Inl e \<Rightarrow> Inl e
      | Inr a \<Rightarrow>
          (case validate_signature_ref_list expected of
             Inl e \<Rightarrow> Inl e
           | Inr x \<Rightarrow>
               if strict then
                 (if \<not> same_signature_ref_set a x then Inl ''signatureRef lists must match exactly''
                  else Inr a)
               else
                 let matched = intersect_signature_refs a x in
                 if matched = [] then Inl ''signatureRef lists do not overlap'' else Inr matched))"

definition signature_ref_lists_overlap :: "jsval \<Rightarrow> jsval \<Rightarrow> bool" where
  "signature_ref_lists_overlap left right =
     (case validate_expected_signature_refs left right False of Inl _ \<Rightarrow> False | Inr _ \<Rightarrow> True)"

lemma unique_refs_loop_spec:
  assumes "set seen = set normalized" and "distinct normalized"
  shows "set (unique_refs_loop refs seen normalized) = set normalized \<union> (trim ` set refs - {[]})"
    and "distinct (unique_refs_loop refs seen normalized)"
proof -
  have "set (unique_refs_loop refs seen normalized) = set normalized \<union> (trim ` set refs - {[]})
    \<and> distinct (unique_refs_loop refs seen normalized)"
    using assms
  proof (induction refs arbitrary: seen normalized)
    case (Cons r refs)
    show ?case
    proof (cases "trim r = [] \<or> trim r \<in> set seen")
      case True
      with Cons.IH [OF Cons.prems] Cons.prems show ?thesis
        by (auto simp: normalize_signature_ref_def Let_def)
    next
      case False
      with Cons.IH [of "trim r # seen" "normalized @ [trim r]"] Cons.prems show ?thesis
        by (auto simp: normalize_signature_ref_def Let_def)
    qed
  qed simp
  then show "set (unique_refs_loop refs seen normalized) = set normalized \<union> (trim ` set refs - {[]})"
    and "distinct (unique_refs_loop refs seen normalized)" by auto
qed

lemma unique_signature_refs_spec [simp]:
  "set (unique_signature_refs refs) = trim ` set refs - {[]}"
  "distinct (unique_signature_refs refs)"
  using unique_refs_loop_spec [of "[]" "[]" refs] by (simp_all add: unique_signature_refs_def)

lemma unique_signature_refs_empty [simp]: "unique_signature_refs ss = [] \<longleftrightarrow> trim ` set ss \<subseteq> {[]}"
  by (metis unique_signature_refs_spec(1) Diff_eq_empty_iff set_empty)

lemma all_strings_map [simp]: "all_strings (map JStr ss) = Some ss"
  by (induction ss) simp_all

lemma all_strings_SomeD: "all_strings vs = Some ss \<Longrightarrow> vs = map JStr ss"
proof (induction vs arbitrary: ss)
  case (Cons v vs)
  then show ?case by (cases v) auto
qed simp

lemma first_empty_ref_None: "first_empty_ref i ss = None \<longleftrightarrow> [] \<notin> trim ` set ss"
  by (induction ss arbitrary: i) (auto simp: normalize_signature_ref_def)

lemma valid_ref_list_iff:
  "validate_signature_ref_list v = Inr refs \<longleftrightarrow>
     (\<exists>ss. v = JArr (map JStr ss) \<and> ss \<noteq> [] \<and> [] \<notin> trim ` set ss \<and> refs = unique_signature_refs ss)"
proof -
  have ne: "\<not> trim ` set ss \<subseteq> {[]}" if "ss \<noteq> []" "[] \<notin> trim ` set ss" for ss
    using that by (cases ss) auto
  show ?thesis
    using ne first_empty_ref_None [of 0]
    by (fastforce simp: validate_signature_ref_list_def Let_def dest!: all_strings_SomeD
        split: jsval.splits option.splits if_splits)
qed

lemma valid_ref_list_spec:
  assumes "validate_signature_ref_list v = Inr refs"
  shows "distinct refs" and "refs \<noteq> []" and "[] \<notin> set refs"
proof -
  from assms obtain ss where ss: "ss \<noteq> []" "[] \<notin> trim ` set ss" "refs = unique_signature_refs ss"
    by (auto simp: valid_ref_list_iff)
  then show "distinct refs" and "refs \<noteq> []" and "[] \<notin> set refs" by (cases ss; force)+
qed

lemma same_signature_ref_set_iff:
  "distinct a \<Longrightarrow> distinct x \<Longrightarrow> same_signature_ref_set a x \<longleftrightarrow> set a = set x"
proof -
  assume d: "distinct a" "distinct x"
  have "set a = set x" if "length a = length x" "set a \<subseteq> set x"
    using that d by (intro card_subset_eq) (auto simp: distinct_card)
  moreover have "length a = length x" if "set a = set x"
    using that d by (metis distinct_card)
  ultimately show ?thesis by (auto simp: same_signature_ref_set_def list_all_iff)
qed

section \<open>Bearer, header and basic credentials\<close>

text \<open>\<open>request.headers.get\<close>, on lower-case names.\<close>

type_synonym headers = "string \<Rightarrow> string option"

definition header_or_empty :: "headers \<Rightarrow> string \<Rightarrow> string" where
  "header_or_empty hs name = (case hs (to_lower name) of None \<Rightarrow> [] | Some v \<Rightarrow> v)"

text \<open>\<open>s.replace(/^scheme\s+/i, '')\<close>, \<^term>\<open>None\<close> where the pattern does not match.\<close>

definition strip_scheme :: "string \<Rightarrow> string \<Rightarrow> string option" where
  "strip_scheme scheme s =
     (let rest = drop (length scheme) s in
      if to_lower (take (length scheme) s) = to_lower scheme \<and> rest \<noteq> [] \<and> js_ws (hd rest)
      then Some (dropWhile js_ws rest) else None)"

definition read_bearer_token :: "headers \<Rightarrow> string" where
  "read_bearer_token hs =
     (case strip_scheme ''Bearer'' (header_or_empty hs ''authorization'') of
        Some rest \<Rightarrow> trim rest
      | None \<Rightarrow> [])"

definition read_header_token :: "headers \<Rightarrow> string \<Rightarrow> string" where
  "read_header_token hs name = trim (header_or_empty hs name)"

definition check_token :: "headers \<Rightarrow> string \<Rightarrow> string \<Rightarrow> bool" where
  "check_token hs expected name =
     (let bearer = read_bearer_token hs; header = read_header_token hs name
      in token_equals expected bearer \<or> token_equals expected header)"

definition basic_credentials_match ::
  "(string \<Rightarrow> string) \<Rightarrow> string \<Rightarrow> string \<Rightarrow> string \<Rightarrow> bool" where
  "basic_credentials_match b64 user pass presented =
     (case strip_scheme ''Basic'' presented of
        None \<Rightarrow> False
      | Some rest \<Rightarrow>
          let decoded = b64 rest; colon = index_of CHR '':'' decoded in
          if colon \<le> 0 then False
          else token_equals user (take (nat colon) decoded)
             \<and> token_equals pass (drop (nat colon + 1) decoded))"

section \<open>Roles and signature references\<close>

datatype policy_input = NoValues | OneValue string | Values "jsval list"

fun to_iterable :: "policy_input \<Rightarrow> jsval list" where
  "to_iterable NoValues = []"
| "to_iterable (OneValue s) = [JStr s]"
| "to_iterable (Values vs) = vs"

definition default_normalize :: "string \<Rightarrow> string option" where
  "default_normalize value = (let t = trim value in if length t > 0 then Some t else None)"

definition normalize_role :: "string \<Rightarrow> string option" where
  "normalize_role value = map_option to_lower (default_normalize value)"

text \<open>A \<open>Set\<close> of the transformed strings, in insertion order.\<close>

fun normalize_policy_loop :: "(string \<Rightarrow> string option) \<Rightarrow> jsval list \<Rightarrow> string list \<Rightarrow> string list" where
  "normalize_policy_loop f [] acc = acc"
| "normalize_policy_loop f (JStr v # vs) acc =
     (case f v of
        None \<Rightarrow> normalize_policy_loop f vs acc
      | Some e \<Rightarrow> normalize_policy_loop f vs (if e = [] \<or> e \<in> set acc then acc else acc @ [e]))"
| "normalize_policy_loop f (_ # vs) acc = normalize_policy_loop f vs acc"

definition normalize_policy_values :: "policy_input \<Rightarrow> (string \<Rightarrow> string option) \<Rightarrow> string list" where
  "normalize_policy_values values f = normalize_policy_loop f (to_iterable values) []"

definition is_candidate_allowed :: "string option \<Rightarrow> string list \<Rightarrow> bool" where
  "is_candidate_allowed candidate allowed =
     (case candidate of None \<Rightarrow> False | Some c \<Rightarrow> c \<noteq> [] \<and> c \<in> set allowed)"

datatype auth_error = RoleForbidden | SignatureRefForbidden

definition require_allowed_role ::
  "policy_input \<Rightarrow> string option \<Rightarrow> string option \<Rightarrow> auth_error + unit" where
  "require_allowed_role required_roles presented public_role =
     (let required = normalize_policy_values required_roles normalize_role in
      if required = [] then Inr ()
      else
        let public = (case public_role of None \<Rightarrow> None
              | Some p \<Rightarrow> if p = [] then None else normalize_role p);
            role = normalize_role (case presented of None \<Rightarrow> [] | Some p \<Rightarrow> p)
        in if (case public of None \<Rightarrow> False | Some p \<Rightarrow> p \<noteq> [] \<and> p \<in> set required) then Inr ()
           else if is_candidate_allowed role required then Inr ()
           else Inl RoleForbidden)"

definition require_authorized_signature_ref ::
  "string option \<Rightarrow> policy_input \<Rightarrow> policy_input \<Rightarrow> auth_error + unit" where
  "require_authorized_signature_ref presented active overlap =
     (let allowed = normalize_policy_values active default_normalize
                  @ normalize_policy_values overlap default_normalize;
          candidate = default_normalize (case presented of None \<Rightarrow> [] | Some p \<Rightarrow> p)
      in (case candidate of
            None \<Rightarrow> Inl SignatureRefForbidden
          | Some c \<Rightarrow> if c \<in> set allowed then Inr () else Inl SignatureRefForbidden))"

lemma policy_loop_set:
  "set (normalize_policy_loop f vs acc)
     = set acc \<union> {e. e \<noteq> [] \<and> (\<exists>v. JStr v \<in> set vs \<and> f v = Some e)}"
proof (induction f vs acc rule: normalize_policy_loop.induct)
  case (2 f v vs acc)
  then show ?case by (cases "f v") auto
qed auto

lemma default_normalize_iff: "default_normalize v = Some e \<longleftrightarrow> e = trim v \<and> e \<noteq> []"
  by (auto simp: default_normalize_def Let_def)

lemma policy_values_set:
  "set (normalize_policy_values vs default_normalize)
     = trim ` {v. JStr v \<in> set (to_iterable vs)} - {[]}"
  by (auto simp: normalize_policy_values_def policy_loop_set default_normalize_iff)

section \<open>Properties\<close>

text \<open>What a list of references stands for: the set of its trimmed entries, when every entry is a
  non-blank string.\<close>

definition ref_set_of :: "jsval \<Rightarrow> string set option" where
  "ref_set_of v =
     (case v of
        JArr vs \<Rightarrow> (case all_strings vs of
            Some ss \<Rightarrow> if ss \<noteq> [] \<and> [] \<notin> trim ` set ss then Some (trim ` set ss) else None
          | None \<Rightarrow> None)
      | _ \<Rightarrow> None)"

lemma ref_set_of_valid:
  "ref_set_of v = (case validate_signature_ref_list v of Inl _ \<Rightarrow> None | Inr refs \<Rightarrow> Some (set refs))"
proof (cases "validate_signature_ref_list v")
  case (Inr refs)
  then obtain ss where "v = JArr (map JStr ss)" "ss \<noteq> []" "[] \<notin> trim ` set ss"
    "refs = unique_signature_refs ss" by (auto simp: valid_ref_list_iff)
  then have "ref_set_of v = Some (set refs)" by (auto simp: ref_set_of_def)
  with Inr show ?thesis by simp
next
  case (Inl e)
  then have "\<And>refs. validate_signature_ref_list v \<noteq> Inr refs" by simp
  then have "\<nexists>ss. v = JArr (map JStr ss) \<and> ss \<noteq> [] \<and> [] \<notin> trim ` set ss"
    by (auto simp: valid_ref_list_iff)
  then show ?thesis
    by (auto simp: Inl ref_set_of_def dest!: all_strings_SomeD split: jsval.splits option.splits)
qed

lemma validate_expected_strict:
  "validate_expected_signature_refs a x True = Inr m \<longleftrightarrow>
     validate_signature_ref_list a = Inr m \<and> ref_set_of a = ref_set_of x"
  by (auto simp: validate_expected_signature_refs_def ref_set_of_valid same_signature_ref_set_iff
      valid_ref_list_spec(1) split: sum.splits)

lemma overlap_iff:
  "signature_ref_lists_overlap l r \<longleftrightarrow>
     (case (ref_set_of l, ref_set_of r) of (Some a, Some b) \<Rightarrow> a \<inter> b \<noteq> {} | _ \<Rightarrow> False)"
  by (auto simp: signature_ref_lists_overlap_def validate_expected_signature_refs_def Let_def
      ref_set_of_valid intersect_signature_refs_def filter_empty_conv split: sum.splits)

text \<open>
  A strict signature-reference check succeeds iff both lists are well formed (non-empty arrays
  of non-blank strings) and denote the same set of references, so order, repetition and surrounding
  blanks never matter; and then it returns the distinct references of the actual list.
\<close>

theorem strict_signature_refs_exact:
  "(\<exists>m. validate_expected_signature_refs a x True = Inr m \<and> distinct m \<and> ref_set_of a = Some (set m))
     \<longleftrightarrow> ref_set_of a \<noteq> None \<and> ref_set_of a = ref_set_of x"
  by (auto simp: validate_expected_strict ref_set_of_valid valid_ref_list_spec(1) split: sum.splits)

text \<open>
  Two reference lists overlap iff both are well formed and share a reference; the check is
  symmetric although the code filters the left list.
\<close>

theorem signature_ref_overlap_symmetric:
  "signature_ref_lists_overlap l r = signature_ref_lists_overlap r l \<and>
   (signature_ref_lists_overlap l r =
      (case (ref_set_of l, ref_set_of r) of (Some a, Some b) \<Rightarrow> a \<inter> b \<noteq> {} | _ \<Rightarrow> False))"
  by (auto simp: overlap_iff Int_commute split: option.splits)

text \<open>
  Basic authentication is exact: for an expected user name without a colon, credentials are
  accepted iff the header has the \<open>Basic\<close> scheme and decodes to \<open>user:pass\<close> with neither part
  empty; a colon in the password is not a separator, and an unset expected value accepts nothing.
\<close>

theorem basic_credentials_exact:
  assumes "CHR '':'' \<notin> set user"
  shows "basic_credentials_match b64 user pass presented \<longleftrightarrow>
    user \<noteq> [] \<and> pass \<noteq> [] \<and> map_option b64 (strip_scheme ''Basic'' presented) = Some (user @ CHR '':'' # pass)"
proof (cases "strip_scheme ''Basic'' presented")
  case None
  then show ?thesis by (simp add: basic_credentials_match_def)
next
  case (Some rest)
  show ?thesis
    using index_from_split [of 0 "CHR '':''" "b64 rest"]
  proof
    assume h: "index_of CHR '':'' (b64 rest) = - 1 \<and> CHR '':'' \<notin> set (b64 rest)"
    then show ?thesis using Some by (auto simp: basic_credentials_match_def Let_def)
  next
    assume "\<exists>a b. b64 rest = a @ CHR '':'' # b \<and> CHR '':'' \<notin> set a \<and>
      index_of CHR '':'' (b64 rest) = int (0 + length a)"
    then obtain a b where d: "b64 rest = a @ CHR '':'' # b" "CHR '':'' \<notin> set a"
      "index_of CHR '':'' (b64 rest) = int (length a)" by auto
    have "a @ CHR '':'' # b = user @ CHR '':'' # pass \<longleftrightarrow> a = user \<and> b = pass"
      by (rule split_first_unique [OF d(2) assms])
    then show ?thesis using Some d by (auto simp: basic_credentials_match_def Let_def)
  qed
qed

lemma basic_credentials_witness:
  "basic_credentials_match (\<lambda>s. s) ''ops'' ''a:b'' ''basic  ops:a:b''"
  by (subst basic_credentials_exact) (simp, code_simp)

text \<open>
  The role policy grants access exactly when no role is required, the configured public role
  is among the required ones, or the presented role is, all compared after trimming and lower-casing.
\<close>

theorem role_policy_exact:
  "require_allowed_role req presented public = Inr () \<longleftrightarrow>
     (let roles = to_lower ` trim ` {v. JStr v \<in> set (to_iterable req)} - {[]};
          norm = (\<lambda>r. case r of None \<Rightarrow> [] | Some v \<Rightarrow> to_lower (trim v))
      in roles = {} \<or> norm public \<in> roles \<or> norm presented \<in> roles)"
proof -
  define roles where "roles = to_lower ` trim ` {v. JStr v \<in> set (to_iterable req)} - {[]}"
  have role: "normalize_role v = (if trim v = [] then None else Some (to_lower (trim v)))" for v
    by (simp add: normalize_role_def default_normalize_def Let_def)
  have set: "set (normalize_policy_values req normalize_role) = roles"
    by (auto simp: normalize_policy_values_def policy_loop_set role roles_def)
  then have empty: "normalize_policy_values req normalize_role = [] \<longleftrightarrow> roles = {}"
    by (metis set_empty)
  have "[] \<notin> roles" by (simp add: roles_def)
  then show ?thesis
    unfolding roles_def [symmetric]
    by (auto simp: require_allowed_role_def Let_def empty set role is_candidate_allowed_def
        split: option.splits if_splits)
qed

end
