(* ===== verification/Payments.thy ===== *)
theory Payments
  imports Config Crypto
begin

text \<open>
  The payment boundary of \<open>src/src/runtime/payments/\<close>: the idempotency store of webhook event ids
  (\<open>webhookIdempotency.ts\<close>), the GoPay instance of it with its signature check
  (\<open>gopayWebhook.ts\<close>), provider names (\<open>providers.ts\<close>) and the payload check of a payment intent
  (\<open>validators.ts\<close>). The two readings of \<open>this.now()\<close> in \<open>classify\<close> are two arguments.
\<close>

section \<open>Idempotency of webhook events\<close>

datatype idem_policy = Dedupe | RejectDup

datatype idem_status = Accepted | MissingId | Duplicate | Conflict

record idem_decision =
  id_status :: idem_status
  id_http :: int
  id_body :: string

record idem_entry =
  ie_fingerprint :: string
  ie_seenAt :: int

record idem_options =
  io_ttlMs :: jnum
  io_maxKeys :: jnum
  io_keyMaxBytes :: jnum

record idem_boundary =
  ib_ttlMs :: int
  ib_maxKeys :: int
  ib_keyMaxBytes :: int
  ib_entries :: "idem_entry jmap"

definition idem_positive_int :: "jnum \<Rightarrow> int \<Rightarrow> int" where
  "idem_positive_int value fallback =
     (case value of Fin q \<Rightarrow> if q > 0 then \<lfloor>q\<rfloor> else fallback | _ \<Rightarrow> fallback)"

definition idem_new :: "idem_options \<Rightarrow> idem_boundary" where
  "idem_new opts =
     \<lparr>ib_ttlMs = idem_positive_int (io_ttlMs opts) 600000,
      ib_maxKeys = idem_positive_int (io_maxKeys opts) 10000,
      ib_keyMaxBytes = idem_positive_int (io_keyMaxBytes opts) 512,
      ib_entries = []\<rparr>"

definition idem_prune_expired :: "int \<Rightarrow> idem_boundary \<Rightarrow> idem_boundary" where
  "idem_prune_expired now b =
     b\<lparr>ib_entries := filter (\<lambda>(k, e). \<not> now - ie_seenAt e > ib_ttlMs b) (ib_entries b)\<rparr>"

text \<open>The loop of \<open>pruneOldest\<close>: the first entry with the smallest time; the initial time is
  infinite, so the first entry is always taken.\<close>

fun oldest_entry :: "(string \<times> int) option \<Rightarrow> idem_entry jmap \<Rightarrow> string option" where
  "oldest_entry best [] = map_option fst best"
| "oldest_entry best ((k, e) # m) =
     (if (case best of None \<Rightarrow> True | Some (_, t) \<Rightarrow> ie_seenAt e < t)
      then oldest_entry (Some (k, ie_seenAt e)) m else oldest_entry best m)"

definition idem_prune_oldest :: "idem_boundary \<Rightarrow> idem_boundary" where
  "idem_prune_oldest b =
     (case oldest_entry None (ib_entries b) of
        None \<Rightarrow> b
      | Some k \<Rightarrow> if k = [] then b else b\<lparr>ib_entries := AList.delete k (ib_entries b)\<rparr>)"

definition idem_classify ::
  "int \<Rightarrow> int \<Rightarrow> string option \<Rightarrow> string \<Rightarrow> idem_policy \<Rightarrow> idem_boundary \<Rightarrow> idem_decision \<times> idem_boundary" where
  "idem_classify now1 now2 eventId fingerprint policy b =
     (let nid = (case eventId of None \<Rightarrow> [] | Some e \<Rightarrow> trim e) in
      if nid = [] then (\<lparr>id_status = MissingId, id_http = 400, id_body = ''missing event id''\<rparr>, b)
      else if int (utf8_len nid) > ib_keyMaxBytes b then
        (\<lparr>id_status = MissingId, id_http = 400, id_body = ''missing event id''\<rparr>, b)
      else
        let b1 = idem_prune_expired now1 b in
        (case map_of (ib_entries b1) nid of
           Some prior \<Rightarrow>
             if ie_fingerprint prior = fingerprint then
               (if policy = RejectDup
                then (\<lparr>id_status = Duplicate, id_http = 409, id_body = ''duplicate event id''\<rparr>, b1)
                else (\<lparr>id_status = Duplicate, id_http = 200, id_body = ''replay''\<rparr>, b1))
             else (\<lparr>id_status = Conflict, id_http = 409,
                    id_body = ''conflicting event payload for event id''\<rparr>, b1)
         | None \<Rightarrow>
             let b2 = (if int (length (ib_entries b1)) \<ge> ib_maxKeys b1 then idem_prune_oldest b1 else b1)
             in (\<lparr>id_status = Accepted, id_http = 200, id_body = ''ok''\<rparr>,
                 b2\<lparr>ib_entries := AList.update nid \<lparr>ie_fingerprint = fingerprint, ie_seenAt = now2\<rparr>
                      (ib_entries b2)\<rparr>)))"

section \<open>The GoPay instance\<close>

definition read_gopay_idempotency_policy :: "env \<Rightarrow> idem_policy" where
  "read_gopay_idempotency_policy env =
     (case read_env_string ''GOPAY_WEBHOOK_IDEMPOTENCY_POLICY'' env of
        None \<Rightarrow> Dedupe
      | Some v \<Rightarrow> if trim v = ''reject'' then RejectDup else Dedupe)"

definition gopay_idempotency :: "env \<Rightarrow> idem_boundary" where
  "gopay_idempotency env = idem_new
     \<lparr>io_ttlMs = Fin (of_int (read_positive_int_env ''GATEWAY_WEBHOOK_REPLAY_TTL_MS'' 600000 env)),
      io_maxKeys = Fin (of_int (read_positive_int_env ''GATEWAY_WEBHOOK_REPLAY_MAX_KEYS'' 10000 env)),
      io_keyMaxBytes = Fin (of_int (read_positive_int_env ''GATEWAY_WEBHOOK_REPLAY_KEY_MAX_BYTES'' 512 env))\<rparr>"

definition verify_gopay_webhook ::
  "(string \<Rightarrow> string \<Rightarrow> string \<Rightarrow> string \<Rightarrow> string option) \<Rightarrow> string \<Rightarrow> string option \<Rightarrow> string \<Rightarrow> bool" where
  "verify_gopay_webhook hmac body header secret =
     verify_hmac_signature hmac (JStr body)
       (case header of None \<Rightarrow> JNull | Some h \<Rightarrow> JStr h) (JStr secret)
       \<lparr>ho_algorithm = ''sha256'', ho_encoding = ''hex'', ho_prefix = ''sha256=''\<rparr>"

definition classify_gopay_webhook ::
  "(string \<Rightarrow> string) \<Rightarrow> int \<Rightarrow> int \<Rightarrow> string option \<Rightarrow> string \<Rightarrow> idem_policy
     \<Rightarrow> idem_boundary \<Rightarrow> idem_decision \<times> idem_boundary" where
  "classify_gopay_webhook sha256 now1 now2 eventId body policy b =
     idem_classify now1 now2 eventId (sha256 body) policy b"

section \<open>Providers and payment intents\<close>

definition supported_payment_providers :: "string list" where
  "supported_payment_providers = [''stripe'', ''paypal'', ''gopay'']"

definition normalize_payment_provider :: "jsval \<Rightarrow> string option" where
  "normalize_payment_provider value =
     (case value of
        JStr v \<Rightarrow> let n = to_lower (trim v) in if length n > 0 then Some n else None
      | _ \<Rightarrow> None)"

definition is_supported_payment_provider :: "jsval \<Rightarrow> bool" where
  "is_supported_payment_provider value =
     (case normalize_payment_provider value of
        None \<Rightarrow> False | Some n \<Rightarrow> n \<in> set supported_payment_providers)"

definition has_str :: "jobj \<Rightarrow> string \<Rightarrow> bool" where
  "has_str obj key = (case jprop obj key of JStr s \<Rightarrow> length (trim s) > 0 | _ \<Rightarrow> False)"

definition validate_create_payment_intent_payload :: "jsval \<Rightarrow> string + unit" where
  "validate_create_payment_intent_payload payload =
     (case as_obj payload of
        None \<Rightarrow> Inl ''payload must be an object''
      | Some obj \<Rightarrow>
          if \<not> has_str obj ''orderId'' then Inl ''payload.orderId is required''
          else if \<not> has_str obj ''provider'' then Inl ''payload.provider is required''
          else
            let provider = (case jprop obj ''provider'' of JStr s \<Rightarrow> s | _ \<Rightarrow> []) in
            if trim provider \<noteq> provider \<or> \<not> is_supported_payment_provider (JStr provider)
            then Inl ''payload.provider must be stripe|paypal|gopay''
            else Inr ())"

section \<open>Bounds\<close>

definition idem_inv :: "idem_boundary \<Rightarrow> bool" where
  "idem_inv b \<longleftrightarrow> jm_ok (ib_entries b) \<and> [] \<notin> fst ` set (ib_entries b)
     \<and> int (length (ib_entries b)) \<le> ib_maxKeys b"

lemma oldest_entry_in:
  "oldest_entry best m = Some k \<Longrightarrow> k \<in> fst ` set m \<union> (case best of None \<Rightarrow> {} | Some (b, _) \<Rightarrow> {b})"
proof (induction best m rule: oldest_entry.induct)
  case (2 best k' e m)
  then show ?case
    by (cases "case best of None \<Rightarrow> True | Some (_, t) \<Rightarrow> ie_seenAt e < t") auto
qed (auto split: option.splits)

lemma oldest_entry_some: "m \<noteq> [] \<or> best \<noteq> None \<Longrightarrow> oldest_entry best m \<noteq> None"
  by (induction best m rule: oldest_entry.induct) (auto split: option.splits)

lemma length_delete_present:
  assumes "jm_ok m" and "k \<in> fst ` set m"
  shows "Suc (length (AList.delete k m)) = length m"
proof -
  have "k \<in> set (map fst m)" using assms(2) by simp
  then have "length (remove1 k (map fst m)) = length (map fst m) - 1" "length (map fst m) > 0"
    by (auto simp: length_remove1)
  moreover have "map fst (AList.delete k m) = remove1 k (map fst m)"
    using assms(1) by (simp add: delete_keys distinct_remove1_removeAll)
  ultimately show ?thesis by (metis Suc_pred length_map One_nat_def)
qed

lemma prune_oldest_room:
  assumes "idem_inv b" and "0 < ib_maxKeys b"
  shows "idem_inv (idem_prune_oldest b)" and "ib_maxKeys (idem_prune_oldest b) = ib_maxKeys b"
    and "int (length (ib_entries (idem_prune_oldest b))) < ib_maxKeys b"
proof -
  have "idem_inv (idem_prune_oldest b) \<and> ib_maxKeys (idem_prune_oldest b) = ib_maxKeys b
    \<and> int (length (ib_entries (idem_prune_oldest b))) < ib_maxKeys b"
  proof (cases "oldest_entry None (ib_entries b)")
    case None
    then have "ib_entries b = []" using oldest_entry_some by blast
    then show ?thesis using None assms by (simp add: idem_prune_oldest_def)
  next
    case (Some k)
    then have k: "k \<in> fst ` set (ib_entries b)" using oldest_entry_in [OF Some] by simp
    then have "k \<noteq> []" using assms(1) unfolding idem_inv_def by blast
    moreover have "Suc (length (AList.delete k (ib_entries b))) = length (ib_entries b)"
      using assms(1) k by (intro length_delete_present) (simp_all add: idem_inv_def)
    ultimately show ?thesis using Some assms by (auto simp: idem_prune_oldest_def idem_inv_def)
  qed
  then show "idem_inv (idem_prune_oldest b)" and "ib_maxKeys (idem_prune_oldest b) = ib_maxKeys b"
    and "int (length (ib_entries (idem_prune_oldest b))) < ib_maxKeys b" by auto
qed

lemma prune_expired_inv: "idem_inv b \<Longrightarrow> idem_inv (idem_prune_expired now b)"
  by (auto simp: idem_prune_expired_def idem_inv_def
      intro: order_trans [OF iffD2 [OF of_nat_le_iff length_filter_le]])

lemma prune_expired_max [simp]:
  "ib_maxKeys (idem_prune_expired now b) = ib_maxKeys b"
  "ib_ttlMs (idem_prune_expired now b) = ib_ttlMs b"
  "ib_keyMaxBytes (idem_prune_expired now b) = ib_keyMaxBytes b"
  by (simp_all add: idem_prune_expired_def)

lemma prune_oldest_cfg [simp]:
  "ib_maxKeys (idem_prune_oldest b) = ib_maxKeys b"
  "ib_ttlMs (idem_prune_oldest b) = ib_ttlMs b"
  "ib_keyMaxBytes (idem_prune_oldest b) = ib_keyMaxBytes b"
  by (simp_all add: idem_prune_oldest_def split: option.splits)

lemma classify_cfg [simp]:
  "ib_maxKeys (snd (idem_classify n1 n2 eid fp pol b)) = ib_maxKeys b"
  "ib_ttlMs (snd (idem_classify n1 n2 eid fp pol b)) = ib_ttlMs b"
  "ib_keyMaxBytes (snd (idem_classify n1 n2 eid fp pol b)) = ib_keyMaxBytes b"
  by (simp_all add: idem_classify_def Let_def split: option.splits)

lemma classify_inv [gw_intro]:
  assumes "idem_inv b" and "0 < ib_maxKeys b"
  shows "idem_inv (snd (idem_classify n1 n2 eid fp pol b))"
proof -
  define b1 where "b1 = idem_prune_expired n1 b"
  define b2 where "b2 = (if int (length (ib_entries b1)) \<ge> ib_maxKeys b1 then idem_prune_oldest b1 else b1)"
  have i1: "idem_inv b1" "0 < ib_maxKeys b1" using prune_expired_inv assms by (simp_all add: b1_def)
  have "idem_inv b2 \<and> int (length (ib_entries b2)) < ib_maxKeys b2"
    using i1 prune_oldest_room [OF i1] by (auto simp: b2_def)
  then have "idem_inv (b2\<lparr>ib_entries := AList.update k e (ib_entries b2)\<rparr>)" if "k \<noteq> []" for k e
    using that by (auto simp: idem_inv_def length_update_jm)
  then show ?thesis
    using assms i1 unfolding b2_def b1_def
    by (auto simp: idem_classify_def Let_def split: option.splits if_splits)
qed

section \<open>What the store promises\<close>

text \<open>
  The reference: remember for each event id the fingerprint and time of its last acceptance; an id
  accepted at most a time to live ago is a duplicate or a conflict, any other is accepted.
\<close>

record event =
  ev_id :: string
  ev_fp :: string
  ev_now1 :: int
  ev_now2 :: int

definition spec_classify ::
  "int \<Rightarrow> idem_policy \<Rightarrow> event \<Rightarrow> (string \<Rightarrow> idem_entry option)
     \<Rightarrow> idem_status \<times> (string \<Rightarrow> idem_entry option)" where
  "spec_classify ttl pol ev h =
     (case h (trim (ev_id ev)) of
        Some p \<Rightarrow>
          if ev_now1 ev - ie_seenAt p \<le> ttl
          then (if ie_fingerprint p = ev_fp ev then Duplicate else Conflict, h)
          else (Accepted, h(trim (ev_id ev) \<mapsto> \<lparr>ie_fingerprint = ev_fp ev, ie_seenAt = ev_now2 ev\<rparr>))
      | None \<Rightarrow> (Accepted, h(trim (ev_id ev) \<mapsto> \<lparr>ie_fingerprint = ev_fp ev, ie_seenAt = ev_now2 ev\<rparr>)))"

fun spec_run :: "int \<Rightarrow> idem_policy \<Rightarrow> event list \<Rightarrow> (string \<Rightarrow> idem_entry option) \<Rightarrow> idem_status list" where
  "spec_run ttl pol [] h = []"
| "spec_run ttl pol (ev # evs) h =
     (let (st, h') = spec_classify ttl pol ev h in st # spec_run ttl pol evs h')"

fun idem_run :: "idem_policy \<Rightarrow> event list \<Rightarrow> idem_boundary \<Rightarrow> idem_status list" where
  "idem_run pol [] b = []"
| "idem_run pol (ev # evs) b =
     (let (d, b') = idem_classify (ev_now1 ev) (ev_now2 ev) (Some (ev_id ev)) (ev_fp ev) pol b
      in id_status d # idem_run pol evs b')"

definition clock_readings :: "event list \<Rightarrow> int list" where
  "clock_readings evs = concat (map (\<lambda>ev. [ev_now1 ev, ev_now2 ev]) evs)"

definition idem_rep :: "int \<Rightarrow> string set \<Rightarrow> idem_boundary \<Rightarrow> (string \<Rightarrow> idem_entry option) \<Rightarrow> bool" where
  "idem_rep now ks b h \<longleftrightarrow> jm_ok (ib_entries b) \<and> fst ` set (ib_entries b) \<subseteq> ks
     \<and> (\<forall>k e. map_of (ib_entries b) k = Some e \<longrightarrow> h k = Some e)
     \<and> (\<forall>k e. map_of (ib_entries b) k = None \<longrightarrow> h k = Some e \<longrightarrow> now - ie_seenAt e > ib_ttlMs b)"

lemma idem_rep_later: "idem_rep now ks b h \<Longrightarrow> now \<le> now' \<Longrightarrow> idem_rep now' ks b h"
  unfolding idem_rep_def by (smt (verit))

lemma idem_rep_prune:
  assumes "idem_rep now ks b h"
  shows "idem_rep now ks (idem_prune_expired now b) h"
    and "map_of (ib_entries (idem_prune_expired now b)) k
      = (case h k of Some e \<Rightarrow> if now - ie_seenAt e \<le> ib_ttlMs b then Some e else None | None \<Rightarrow> None)"
proof -
  have ok: "jm_ok (ib_entries b)" using assms by (simp add: idem_rep_def)
  have some: "map_of (ib_entries b) k = Some e \<Longrightarrow> h k = Some e"
    and none: "map_of (ib_entries b) k = None \<Longrightarrow> h k = Some e \<Longrightarrow> now - ie_seenAt e > ib_ttlMs b"
    for k e using assms by (auto simp: idem_rep_def)
  have mf: "map_of (ib_entries (idem_prune_expired now b)) k
      = (case h k of Some e \<Rightarrow> if now - ie_seenAt e \<le> ib_ttlMs b then Some e else None | None \<Rightarrow> None)" for k
    using map_of_filter_jm [OF ok, of "\<lambda>k e. \<not> now - ie_seenAt e > ib_ttlMs b" k] some [of k] none [of k]
    by (cases "map_of (ib_entries b) k") (auto simp: idem_prune_expired_def split: option.splits)
  then show "map_of (ib_entries (idem_prune_expired now b)) k
      = (case h k of Some e \<Rightarrow> if now - ie_seenAt e \<le> ib_ttlMs b then Some e else None | None \<Rightarrow> None)" .
  have "jm_ok (ib_entries (idem_prune_expired now b))"
    using ok by (simp add: idem_prune_expired_def)
  moreover have "fst ` set (ib_entries (idem_prune_expired now b)) \<subseteq> ks"
    using assms by (auto simp: idem_rep_def idem_prune_expired_def)
  ultimately show "idem_rep now ks (idem_prune_expired now b) h"
    by (auto simp: idem_rep_def mf split: option.splits if_splits)
qed

lemma idem_rep_accept:
  assumes "idem_rep now ks b h" and "k \<in> ks"
  shows "idem_rep now ks (b\<lparr>ib_entries := AList.update k e (ib_entries b)\<rparr>) (h(k \<mapsto> e))"
  using assms by (simp add: idem_rep_def)

lemma idem_room:
  assumes "idem_rep now ks b h" and "finite ks" and "int (card ks) \<le> ib_maxKeys b"
    and "k \<in> ks" and "map_of (ib_entries b) k = None"
  shows "\<not> int (length (ib_entries b)) \<ge> ib_maxKeys b"
proof -
  have "length (ib_entries b) = card (fst ` set (ib_entries b))"
    using assms(1) distinct_card [of "map fst (ib_entries b)"] by (simp add: idem_rep_def)
  also have "\<dots> < card ks"
    using assms fst_set_map_of [of k "ib_entries b"]
    by (intro psubset_card_mono) (auto simp: idem_rep_def)
  finally show ?thesis using assms(3) by simp
qed

lemma classify_spec:
  assumes rep: "idem_rep (ev_now1 ev) ks b h" and fin: "finite ks" and cap: "int (card ks) \<le> ib_maxKeys b"
    and key: "trim (ev_id ev) \<in> ks" "trim (ev_id ev) \<noteq> []"
    and len: "int (utf8_len (trim (ev_id ev))) \<le> ib_keyMaxBytes b"
    and res: "idem_classify (ev_now1 ev) (ev_now2 ev) (Some (ev_id ev)) (ev_fp ev) pol b = (d, b')"
  shows "id_status d = fst (spec_classify (ib_ttlMs b) pol ev h)"
    and "idem_rep (ev_now1 ev) ks b' (snd (spec_classify (ib_ttlMs b) pol ev h))"
proof -
  define b1 where "b1 = idem_prune_expired (ev_now1 ev) b"
  note P = idem_rep_prune [OF rep, folded b1_def]
  have cap1: "int (card ks) \<le> ib_maxKeys b1" using cap by (simp add: b1_def)
  note res' = res [unfolded idem_classify_def Let_def, folded b1_def]
  have "id_status d = fst (spec_classify (ib_ttlMs b) pol ev h)
    \<and> idem_rep (ev_now1 ev) ks b' (snd (spec_classify (ib_ttlMs b) pol ev h))"
  proof (cases "map_of (ib_entries b1) (trim (ev_id ev))")
    case None
    have st: "spec_classify (ib_ttlMs b) pol ev h = (Accepted,
       h(trim (ev_id ev) \<mapsto> \<lparr>ie_fingerprint = ev_fp ev, ie_seenAt = ev_now2 ev\<rparr>))"
      using None P(2) [of "trim (ev_id ev)"]
      by (auto simp: spec_classify_def split: option.splits if_splits)
    show ?thesis
      using res' None key len idem_room [OF P(1) fin cap1 key(1) None] idem_rep_accept [OF P(1) key(1)]
      by (auto simp: st)
  next
    case (Some e)
    then have h: "h (trim (ev_id ev)) = Some e" "ev_now1 ev - ie_seenAt e \<le> ib_ttlMs b"
      using P(2) [of "trim (ev_id ev)"] by (auto split: option.splits if_splits)
    show ?thesis
      using res' Some key len P(1) by (auto simp: spec_classify_def h split: if_splits)
  qed
  then show "id_status d = fst (spec_classify (ib_ttlMs b) pol ev h)"
    and "idem_rep (ev_now1 ev) ks b' (snd (spec_classify (ib_ttlMs b) pol ev h))" by auto
qed

lemma idem_run_spec:
  assumes "idem_rep now ks b h" and "finite ks" and "int (card ks) \<le> ib_maxKeys b"
    and "\<forall>ev \<in> set evs. trim (ev_id ev) \<in> ks \<and> trim (ev_id ev) \<noteq> []
          \<and> int (utf8_len (trim (ev_id ev))) \<le> ib_keyMaxBytes b"
    and "sorted (now # clock_readings evs)"
  shows "idem_run pol evs b = spec_run (ib_ttlMs b) pol evs h"
  using assms
proof (induction evs arbitrary: now b h)
  case Nil
  show ?case by simp
next
  case (Cons ev evs)
  obtain d b' where r: "idem_classify (ev_now1 ev) (ev_now2 ev) (Some (ev_id ev)) (ev_fp ev) pol b = (d, b')"
    by fastforce
  obtain st h' where sp: "spec_classify (ib_ttlMs b) pol ev h = (st, h')" by fastforce
  have rep: "idem_rep (ev_now1 ev) ks b h"
    using Cons.prems(5) by (intro idem_rep_later [OF Cons.prems(1)]) (simp add: clock_readings_def)
  have C: "id_status d = st" "idem_rep (ev_now1 ev) ks b' h'"
    using classify_spec [OF rep Cons.prems(2,3) _ _ _ r] Cons.prems(4) by (simp_all add: sp)
  have cfg: "ib_maxKeys b' = ib_maxKeys b" "ib_ttlMs b' = ib_ttlMs b" "ib_keyMaxBytes b' = ib_keyMaxBytes b"
    using classify_cfg [of "ev_now1 ev" "ev_now2 ev" "Some (ev_id ev)" "ev_fp ev" pol b] by (simp_all add: r)
  have "idem_run pol evs b' = spec_run (ib_ttlMs b') pol evs h'"
    using Cons.prems(2-5) C(2) cfg by (intro Cons.IH [of "ev_now1 ev"]) (auto simp: clock_readings_def)
  then show ?case using C(1) cfg by (simp add: r sp)
qed

section \<open>Properties\<close>

lemma gopay_start: "idem_inv (gopay_idempotency env) \<and> 0 < ib_maxKeys (gopay_idempotency env)"
  using read_positive_int_env_pos [of 10000 "''GATEWAY_WEBHOOK_REPLAY_MAX_KEYS''" env]
  by (simp add: gopay_idempotency_def idem_new_def idem_positive_int_def idem_inv_def)

definition gopay_step ::
  "(string \<Rightarrow> string) \<Rightarrow> idem_boundary \<Rightarrow> int \<times> int \<times> string option \<times> string \<times> idem_policy \<Rightarrow> idem_boundary" where
  "gopay_step sha256 b = (\<lambda>(n1, n2, eid, body, pol). snd (classify_gopay_webhook sha256 n1 n2 eid body pol b))"

interpretation gopay_run: run_invariant "gopay_idempotency env" "gopay_step sha256"
  "\<lambda>b. idem_inv b \<and> 0 < ib_maxKeys b" for env sha256
  by unfold_locales
    (auto simp: gopay_start gopay_step_def classify_gopay_webhook_def classify_inv split: prod.splits)

text \<open>
  Under every sequence of classified events the GoPay idempotency store keeps at most
  \<open>GATEWAY_WEBHOOK_REPLAY_MAX_KEYS\<close> event ids, each once.
\<close>

theorem gopay_store_bounded:
  "idem_inv (foldl (gopay_step sha256) (gopay_idempotency env) calls)"
  using gopay_run.inv_run by blast

text \<open>
  C29: Webhook idempotency is exact: as long as the event ids in use fit the store and the clock
  does not go back, the answers are those of an unbounded memory of acceptances - an id accepted at
  most the time to live ago is a duplicate if its payload fingerprint is the accepted one and a
  conflict otherwise, and every other id is accepted.
\<close>

theorem idempotency_exact:
  assumes "ib_entries b = []"
    and "int (card ((\<lambda>ev. trim (ev_id ev)) ` set evs)) \<le> ib_maxKeys b"
    and "\<forall>ev \<in> set evs. trim (ev_id ev) \<noteq> [] \<and> int (utf8_len (trim (ev_id ev))) \<le> ib_keyMaxBytes b"
    and "sorted (clock_readings evs)"
  shows "idem_run pol evs b = spec_run (ib_ttlMs b) pol evs (\<lambda>_. None)"
proof -
  obtain now where now: "sorted (now # clock_readings evs)"
  proof (cases evs)
    case (Cons ev r)
    then show ?thesis using assms(4) that [of "ev_now1 ev"] by (simp add: clock_readings_def)
  qed (use that [of 0] in \<open>simp add: clock_readings_def\<close>)
  have "idem_rep now ((\<lambda>ev. trim (ev_id ev)) ` set evs) b (\<lambda>_. None)"
    using assms(1) by (simp add: idem_rep_def)
  then show ?thesis
    using assms(2,3) now by (intro idem_run_spec) auto
qed

definition demo_boundary :: idem_boundary where
  "demo_boundary = idem_new \<lparr>io_ttlMs = Fin 10, io_maxKeys = Fin 2, io_keyMaxBytes = NaN\<rparr>"

definition demo_events :: "event list" where
  "demo_events =
     [\<lparr>ev_id = ''e1'', ev_fp = ''x'', ev_now1 = 1, ev_now2 = 2\<rparr>,
      \<lparr>ev_id = '' e1'', ev_fp = ''x'', ev_now1 = 12, ev_now2 = 12\<rparr>,
      \<lparr>ev_id = ''e1'', ev_fp = ''y'', ev_now1 = 12, ev_now2 = 12\<rparr>,
      \<lparr>ev_id = ''e1'', ev_fp = ''y'', ev_now1 = 13, ev_now2 = 13\<rparr>]"

lemma idempotency_witness:
  "idem_run Dedupe demo_events demo_boundary = [Accepted, Duplicate, Conflict, Accepted]"
proof -
  have b: "ib_entries demo_boundary = []" "ib_maxKeys demo_boundary = 2"
    "ib_keyMaxBytes demo_boundary = 512" "ib_ttlMs demo_boundary = 10"
    by (simp_all add: demo_boundary_def idem_new_def idem_positive_int_def)
  have ids: "(\<lambda>ev. trim (ev_id ev)) ` set demo_events = {''e1''}"
    by (simp add: demo_events_def) code_simp
  have "trim (ev_id ev) = ''e1''" if "ev \<in> set demo_events" for ev
    using that ids by blast
  moreover have "spec_run 10 Dedupe demo_events (\<lambda>_. None) = [Accepted, Duplicate, Conflict, Accepted]"
    by code_simp
  ultimately show ?thesis
    by (subst idempotency_exact)
      (simp_all add: b ids utf8_len_def, simp_all add: demo_events_def clock_readings_def)
qed

text \<open>
  A GoPay webhook signature is accepted exactly when the HMAC-SHA256 of a non-empty body under
  a non-empty secret is presented, bare or behind the \<open>sha256=\<close> prefix, up to surrounding blanks; no
  header, an empty one and a failing digest are all refused.
\<close>

theorem gopay_signature_exact:
  "verify_gopay_webhook hmac body header secret \<longleftrightarrow>
     body \<noteq> [] \<and> secret \<noteq> [] \<and>
     (\<exists>d. hmac ''sha256'' secret body ''hex'' = Some d \<and> d \<noteq> [] \<and>
        (case map_option trim header of
           None \<Rightarrow> False
         | Some t \<Rightarrow> if starts_with t ''sha256='' then d = trim (drop 7 t) else d = t))"
  by (auto simp: verify_gopay_webhook_def verify_hmac_signature_iff normalize_presented_signature_def Let_def
      verify_hmac_signature_def safe_compare_ascii_def eval_nat_numeral split: option.splits if_splits)

text \<open>
  A payment intent is accepted iff it is an object with a non-blank order id and a provider
  that is, without surrounding blanks and up to letter case, one of the three supported ones.
\<close>

theorem payment_intent_exact:
  "validate_create_payment_intent_payload payload = Inr () \<longleftrightarrow>
     (\<exists>obj orderId provider.
        payload = JObj obj \<and> jprop obj ''orderId'' = JStr orderId \<and> trim orderId \<noteq> []
        \<and> jprop obj ''provider'' = JStr provider \<and> trim provider = provider
        \<and> to_lower provider \<in> {''stripe'', ''paypal'', ''gopay''})"
  by (cases payload)
    (auto simp: validate_create_payment_intent_payload_def has_str_def is_supported_payment_provider_def
      normalize_payment_provider_def supported_payment_providers_def Let_def split: jsval.splits if_splits)

end
