(* ===== verification/Json.thy ===== *)
theory Json
  imports Config
begin

text \<open>
  JSON in the gateway's runtime core: parsing of bodies under a byte limit
  (\<open>src/src/runtime/core/json.ts\<close>), the canonical form that hashes are taken of
  (\<open>canonicalJson.ts\<close>, \<open>hash.ts\<close>). \<open>JSON.parse\<close> is the parameter \<open>parse\<close>, a message or the value;
  the decimal form \<open>JSON.stringify\<close> gives a finite number is the parameter \<open>show_num\<close>; SHA-256 is
  the parameter \<open>sha256\<close>. The quoting of strings is modelled.
\<close>

section \<open>Quoting\<close>

definition hex_digit :: "nat \<Rightarrow> char" where
  "hex_digit n = char_of (if n < 10 then 48 + n else 87 + n)"

lemma hex_digit_table:
  "hex_digit 0 = CHR ''0''" "hex_digit (Suc 0) = CHR ''1''" "hex_digit 2 = CHR ''2''" "hex_digit 3 = CHR ''3''"
  "hex_digit 4 = CHR ''4''" "hex_digit 5 = CHR ''5''" "hex_digit 6 = CHR ''6''" "hex_digit 7 = CHR ''7''"
  "hex_digit 8 = CHR ''8''" "hex_digit 9 = CHR ''9''" "hex_digit 10 = CHR ''a''" "hex_digit 11 = CHR ''b''"
  "hex_digit 12 = CHR ''c''" "hex_digit 13 = CHR ''d''" "hex_digit 14 = CHR ''e''" "hex_digit 15 = CHR ''f''"
  by code_simp+

lemma hex_digit_code [code]:
  "hex_digit n = (if n < 16 then ''0123456789abcdef'' ! n else char_of (87 + n))"
proof (cases "n < 16")
  case True
  then have "n \<in> {0, Suc 0, 2, 3, 4, 5, 6, 7, 8, 9, 10, 11, 12, 13, 14, 15}"
    by (simp only: insert_iff empty_iff) arith
  then show ?thesis by (elim insertE) (simp_all add: hex_digit_table)
qed (simp add: hex_digit_def)

text \<open>The value of a hexadecimal digit in either case.\<close>

definition hex_nat :: "char \<Rightarrow> nat" where
  "hex_nat c = (let n = of_char c in if n < 58 then n - 48 else if n < 71 then n - 55 else n - 87)"

definition esc_char :: "char \<Rightarrow> string" where
  "esc_char c =
     (let n = (of_char c :: nat) in
      if c = CHR 0x22 then [CHR 0x5C, CHR 0x22]
      else if c = CHR 0x5C then [CHR 0x5C, CHR 0x5C]
      else if c = CHR 0x08 then [CHR 0x5C, CHR ''b'']
      else if c = CHR 0x09 then [CHR 0x5C, CHR ''t'']
      else if c = CHR 0x0A then [CHR 0x5C, CHR ''n'']
      else if c = CHR 0x0C then [CHR 0x5C, CHR ''f'']
      else if c = CHR 0x0D then [CHR 0x5C, CHR ''r'']
      else if n < 32 then CHR 0x5C # ''u00'' @ [hex_digit (n div 16), hex_digit (n mod 16)]
      else [c])"

text \<open>\<open>JSON.stringify(s)\<close> of a string.\<close>

definition json_quote :: "string \<Rightarrow> string" where
  "json_quote s = CHR 0x22 # concat (map esc_char s) @ [CHR 0x22]"

text \<open>\<open>JSON.stringify(v)\<close>: \<open>undefined\<close> is left out of objects and printed \<open>null\<close> in arrays, as are the
  numbers that are not finite.\<close>

fun json_stringify :: "(rat \<Rightarrow> string) \<Rightarrow> jsval \<Rightarrow> string"
  and json_items :: "(rat \<Rightarrow> string) \<Rightarrow> jsval list \<Rightarrow> string list"
  and json_entries :: "(rat \<Rightarrow> string) \<Rightarrow> (string \<times> jsval) list \<Rightarrow> string list"
where
  "json_stringify show_num JUndef = ''null''"
| "json_stringify show_num JNull = ''null''"
| "json_stringify show_num (JBool b) = (if b then ''true'' else ''false'')"
| "json_stringify show_num (JNum n) = (case n of Fin q \<Rightarrow> show_num q | _ \<Rightarrow> ''null'')"
| "json_stringify show_num (JStr s) = json_quote s"
| "json_stringify show_num (JArr vs) = ''['' @ join_with '','' (json_items show_num vs) @ '']''"
| "json_stringify show_num (JObj kvs) = CHR 0x7B # join_with '','' (json_entries show_num kvs) @ [CHR 0x7D]"
| "json_items show_num [] = []"
| "json_items show_num (v # vs) = json_stringify show_num v # json_items show_num vs"
| "json_entries show_num [] = []"
| "json_entries show_num ((k, v) # kvs) =
     (if v = JUndef then json_entries show_num kvs
      else (json_quote k @ '':'' @ json_stringify show_num v) # json_entries show_num kvs)"

section \<open>Canonical JSON\<close>

text \<open>
  The values \<open>canonicalizeJson\<close> is applied to: \<open>COther t\<close> is a value whose \<open>typeof\<close> is \<open>t\<close>
  (\<open>undefined\<close>, \<open>function\<close>, ...), an array element may be missing, an object knows whether it is
  plain, and \<open>CBack n\<close> is an occurrence of the \<open>n\<close>-th enclosing object. Since \<open>seen\<close> holds exactly
  the enclosing objects (added on entry, deleted on exit), \<open>seen.has(value)\<close> is the test for
  \<open>CBack\<close>.
\<close>

datatype cval =
    CNull
  | CBool bool
  | CNum jnum
  | CStr string
  | COther string
  | CBack nat
  | CArr "cval option list"
  | CObj bool "(string \<times> cval) list"

datatype canon_code = CycleErr | InvalidNumber | InvalidType | NonPlainObject | SparseArray

record canon_error =
  cer_code :: canon_code
  cer_path :: string
  cer_message :: string

definition format_path_segment :: "string \<Rightarrow> string" where
  "format_path_segment key =
     (let start = (\<lambda>c. is_upper c \<or> is_lower c \<or> c = CHR ''_'' \<or> c = CHR ''$'') in
      if key \<noteq> [] \<and> start (hd key) \<and> list_all (\<lambda>c. start c \<or> is_digit c) (tl key)
      then CHR ''.'' # key else CHR ''['' # json_quote key @ '']'')"

definition index_path :: "string \<Rightarrow> nat \<Rightarrow> string" where
  "index_path path i = path @ ''['' @ nat_str i @ '']''"

definition canon_err :: "canon_code \<Rightarrow> string \<Rightarrow> string \<Rightarrow> canon_error + 'a" where
  "canon_err code path what =
     Inl \<lparr>cer_code = code, cer_path = path, cer_message = ''canonical json '' @ what @ '' at '' @ path\<rparr>"

lemma size_list_sort_key: "size_list f (sort_key g xs) = size_list f xs"
  by (simp add: size_list_conv_sum_list)
    (metis length_sort mset_map mset_sort sum_mset_sum_list)

lemma size_cval_sorted [simp]:
  "size_list (size_prod (\<lambda>x. 0) size) (sort_key fst kvs) = size_list (size_prod (\<lambda>x. 0) size) kvs"
  by (rule size_list_sort_key)

function encode_value :: "(rat \<Rightarrow> string) \<Rightarrow> string \<Rightarrow> cval \<Rightarrow> canon_error + string"
  and encode_items :: "(rat \<Rightarrow> string) \<Rightarrow> string \<Rightarrow> nat \<Rightarrow> cval option list \<Rightarrow> canon_error + string list"
  and encode_props :: "(rat \<Rightarrow> string) \<Rightarrow> string \<Rightarrow> (string \<times> cval) list \<Rightarrow> canon_error + string list"
where
  "encode_value show_num path CNull = Inr ''null''"
| "encode_value show_num path (CBool b) = Inr (if b then ''true'' else ''false'')"
| "encode_value show_num path (CNum n) =
     (case n of Fin q \<Rightarrow> Inr (show_num q)
      | _ \<Rightarrow> canon_err InvalidNumber path ''requires finite numbers'')"
| "encode_value show_num path (CStr s) = Inr (json_quote s)"
| "encode_value show_num path (COther t) =
     canon_err InvalidType path (''does not support '' @ t @ '' values'')"
| "encode_value show_num path (CBack n) = canon_err CycleErr path ''does not support cycles''"
| "encode_value show_num path (CArr xs) =
     (case encode_items show_num path 0 xs of
        Inl e \<Rightarrow> Inl e
      | Inr parts \<Rightarrow> Inr (''['' @ join_with '','' parts @ '']''))"
| "encode_value show_num path (CObj plain kvs) =
     (if \<not> plain then canon_err NonPlainObject path ''only supports plain objects''
      else (case encode_props show_num path (sort_key fst kvs) of
              Inl e \<Rightarrow> Inl e
            | Inr parts \<Rightarrow> Inr (CHR 0x7B # join_with '','' parts @ [CHR 0x7D])))"
| "encode_items show_num path i [] = Inr []"
| "encode_items show_num path i (None # xs) =
     canon_err SparseArray (index_path path i) ''does not support sparse arrays''"
| "encode_items show_num path i (Some v # xs) =
     (case encode_value show_num (index_path path i) v of
        Inl e \<Rightarrow> Inl e
      | Inr part \<Rightarrow> (case encode_items show_num path (Suc i) xs of
            Inl e \<Rightarrow> Inl e
          | Inr parts \<Rightarrow> Inr (part # parts)))"
| "encode_props show_num path [] = Inr []"
| "encode_props show_num path ((k, v) # kvs) =
     (case encode_value show_num (path @ format_path_segment k) v of
        Inl e \<Rightarrow> Inl e
      | Inr part \<Rightarrow> (case encode_props show_num path kvs of
            Inl e \<Rightarrow> Inl e
          | Inr parts \<Rightarrow> Inr ((json_quote k @ '':'' @ part) # parts)))"
  by pat_completeness auto
termination
  by (relation "measure (\<lambda>x. case x of
      Inl (_, _, v) \<Rightarrow> size v
    | Inr (Inl (_, _, _, xs)) \<Rightarrow> size_list (size_option size) xs
    | Inr (Inr (_, _, kvs)) \<Rightarrow> size_list (size_prod (\<lambda>x. 0) size) kvs)") auto

definition canonicalize_json :: "(rat \<Rightarrow> string) \<Rightarrow> cval \<Rightarrow> canon_error + string" where
  "canonicalize_json show_num v = encode_value show_num ''$'' v"

definition sha256_utf8 :: "(string \<Rightarrow> string) \<Rightarrow> string \<Rightarrow> string" where
  "sha256_utf8 sha256 text = sha256 text"

definition hash_json_canonical ::
  "(string \<Rightarrow> string) \<Rightarrow> (rat \<Rightarrow> string) \<Rightarrow> cval \<Rightarrow> canon_error + string" where
  "hash_json_canonical sha256 show_num v = map_sum id (sha256_utf8 sha256) (canonicalize_json show_num v)"

section \<open>Parsing under a limit\<close>

datatype json_code = InvalidLimit | BodyTooLarge | InvalidSyntax | NotObject | NotArray

record json_failure =
  jf_code :: json_code
  jf_message :: string
  jf_sizes :: "(int \<times> int) option"

datatype json_body_kind = ObjectBody | ArrayBody

definition json_fail :: "json_code \<Rightarrow> string \<Rightarrow> json_failure + 'a" where
  "json_fail code msg = Inl \<lparr>jf_code = code, jf_message = msg, jf_sizes = None\<rparr>"

definition parse_json_text :: "(string \<Rightarrow> string + jsval) \<Rightarrow> string \<Rightarrow> json_failure + jsval" where
  "parse_json_text parse raw =
     (case parse raw of
        Inr v \<Rightarrow> Inr v
      | Inl msg \<Rightarrow> json_fail InvalidSyntax (if msg = [] then ''invalid json text'' else msg))"

fun is_json_object :: "jsval \<Rightarrow> bool" where
  "is_json_object (JObj _) = True"
| "is_json_object _ = False"

fun is_json_array :: "jsval \<Rightarrow> bool" where
  "is_json_array (JArr _) = True"
| "is_json_array _ = False"

definition parse_json_body_with_limit ::
  "(string \<Rightarrow> string + jsval) \<Rightarrow> string \<Rightarrow> jnum \<Rightarrow> json_body_kind \<Rightarrow> json_failure + jsval" where
  "parse_json_body_with_limit parse raw limit kind =
     (if \<not> is_finite limit \<or> \<not> is_integer limit \<or> (case limit of Fin q \<Rightarrow> q < 0 | _ \<Rightarrow> False) then
        json_fail InvalidLimit ''limitBytes must be a non-negative integer''
      else
        let limitBytes = (case limit of Fin q \<Rightarrow> \<lfloor>q\<rfloor> | _ \<Rightarrow> 0);
            actualBytes = int (utf8_len raw) in
        if actualBytes > limitBytes then
          Inl \<lparr>jf_code = BodyTooLarge, jf_message = ''json body exceeds the configured byte limit'',
               jf_sizes = Some (limitBytes, actualBytes)\<rparr>
        else (case parse_json_text parse raw of
                Inl f \<Rightarrow> Inl f
              | Inr v \<Rightarrow>
                  (case kind of
                     ObjectBody \<Rightarrow> if \<not> is_json_object v then json_fail NotObject ''json value must be an object''
                                   else Inr v
                   | ArrayBody \<Rightarrow> if \<not> is_json_array v then json_fail NotArray ''json value must be an array''
                                  else Inr v)))"

definition parse_json_object :: "(string \<Rightarrow> string + jsval) \<Rightarrow> string \<Rightarrow> json_failure + jsval" where
  "parse_json_object parse raw =
     (case parse_json_text parse raw of
        Inl f \<Rightarrow> Inl f
      | Inr v \<Rightarrow> if \<not> is_json_object v then json_fail NotObject ''json value must be an object'' else Inr v)"

definition parse_json_array :: "(string \<Rightarrow> string + jsval) \<Rightarrow> string \<Rightarrow> json_failure + jsval" where
  "parse_json_array parse raw =
     (case parse_json_text parse raw of
        Inl f \<Rightarrow> Inl f
      | Inr v \<Rightarrow> if \<not> is_json_array v then json_fail NotArray ''json value must be an array'' else Inr v)"

definition parse_json_object_body :: "(string \<Rightarrow> string + jsval) \<Rightarrow> string \<Rightarrow> jnum \<Rightarrow> json_failure + jsval" where
  "parse_json_object_body parse raw limit = parse_json_body_with_limit parse raw limit ObjectBody"

definition parse_json_array_body :: "(string \<Rightarrow> string + jsval) \<Rightarrow> string \<Rightarrow> jnum \<Rightarrow> json_failure + jsval" where
  "parse_json_array_body parse raw limit = parse_json_body_with_limit parse raw limit ArrayBody"

section \<open>The canonical form decides equality of JSON values\<close>

text \<open>Sorting the keys at every level; two values are the same JSON when this makes them equal.\<close>

function cnorm :: "cval \<Rightarrow> cval"
  and cnorm_items :: "cval option list \<Rightarrow> cval option list"
  and cnorm_props :: "(string \<times> cval) list \<Rightarrow> (string \<times> cval) list"
where
  "cnorm CNull = CNull"
| "cnorm (CBool b) = CBool b"
| "cnorm (CNum n) = CNum n"
| "cnorm (CStr s) = CStr s"
| "cnorm (COther t) = COther t"
| "cnorm (CBack n) = CBack n"
| "cnorm (CArr xs) = CArr (cnorm_items xs)"
| "cnorm (CObj plain kvs) = CObj plain (cnorm_props (sort_key fst kvs))"
| "cnorm_items [] = []"
| "cnorm_items (None # xs) = None # cnorm_items xs"
| "cnorm_items (Some v # xs) = Some (cnorm v) # cnorm_items xs"
| "cnorm_props [] = []"
| "cnorm_props ((k, v) # kvs) = (k, cnorm v) # cnorm_props kvs"
  by pat_completeness auto
termination
  by (relation "measure (\<lambda>x. case x of
      Inl v \<Rightarrow> size v
    | Inr (Inl xs) \<Rightarrow> size_list (size_option size) xs
    | Inr (Inr kvs) \<Rightarrow> size_list (size_prod (\<lambda>x. 0) size) kvs)") auto

lemma map_fst_cnorm_props [simp]: "map fst (cnorm_props kvs) = map fst kvs"
  by (induction kvs) auto

lemma sort_cnorm_props: "sort_key fst (cnorm_props (sort_key fst kvs)) = cnorm_props (sort_key fst kvs)"
  by (rule sort_key_id_if_sorted) simp

lemma encode_cnorm:
  "encode_value show_num path (cnorm v) = encode_value show_num path v"
  "encode_items show_num path i (cnorm_items xs) = encode_items show_num path i xs"
  "encode_props show_num path (cnorm_props kvs) = encode_props show_num path kvs"
proof (induction show_num path v and show_num path i xs and show_num path kvs
    rule: encode_value_encode_items_encode_props.induct)
  case (8 show_num path plain kvs)
  then show ?case by (simp add: sort_cnorm_props)
qed (auto split: sum.splits)

lemma cnorm_permute:
  assumes "mset kvs = mset kvs'" and "distinct (map fst kvs)"
  shows "cnorm (CObj plain kvs) = cnorm (CObj plain kvs')"
proof -
  have keys: "distinct (map fst (sort_key fst xs))" if "distinct (map fst xs)" for xs :: "(string \<times> cval) list"
    using that by (simp add: distinct_map)
  have "mset (map fst kvs) = mset (map fst kvs')" using assms(1) by simp
  then have d': "distinct (map fst kvs')" using assms(2) mset_eq_imp_distinct_iff by blast
  have "set kvs = set kvs'" using assms(1) by (rule mset_eq_setD)
  then have "sort_key fst kvs = sort_key fst kvs'"
    using assms(2) d' keys by (intro map_sorted_distinct_set_unique [of fst])
      (auto simp: distinct_map)
  then show ?thesis by simp
qed

text \<open>What is needed of the printed form of numbers: it is injective and made of the characters of
  JSON numbers.\<close>

definition num_char :: "char \<Rightarrow> bool" where
  "num_char c \<longleftrightarrow> is_digit c \<or> c \<in> {CHR ''+'', CHR ''-'', CHR ''.'', CHR ''e''}"

definition number_format :: "(rat \<Rightarrow> string) \<Rightarrow> bool" where
  "number_format show_num \<longleftrightarrow> inj show_num
     \<and> (\<forall>q. show_num q \<noteq> [] \<and> list_all num_char (show_num q))"

definition delim :: "string \<Rightarrow> bool" where
  "delim r \<longleftrightarrow> r = [] \<or> hd r \<in> {CHR '','', CHR '']'', CHR 0x7D}"

definition comma_tail :: "string list \<Rightarrow> string" where
  "comma_tail ps = concat (map (Cons CHR '','') ps)"

definition hex_val :: "char \<Rightarrow> nat" where
  "hex_val c = (let n = of_char c in if n < 58 then n - 48 else n - 87)"

lemma hex_val_digit [simp]: "n < 16 \<Longrightarrow> hex_val (hex_digit n) = n"
  by (auto simp: hex_val_def hex_digit_def of_char_of)

text \<open>Reading one escaped character back.\<close>

definition unesc :: "string \<Rightarrow> char \<times> string" where
  "unesc s =
     (case s of
        a # b # t \<Rightarrow>
          if a \<noteq> CHR 0x5C then (a, b # t)
          else if b = CHR ''b'' then (CHR 0x08, t)
          else if b = CHR ''t'' then (CHR 0x09, t)
          else if b = CHR ''n'' then (CHR 0x0A, t)
          else if b = CHR ''f'' then (CHR 0x0C, t)
          else if b = CHR ''r'' then (CHR 0x0D, t)
          else if b = CHR ''u'' then (char_of (16 * hex_val (t ! 2) + hex_val (t ! 3)), drop 4 t)
          else (b, t)
      | _ \<Rightarrow> (hd s, tl s))"

lemma unesc_esc: "unesc (esc_char c @ x) = (c, x)"
proof -
  define n where "n = (of_char c :: nat)"
  have c: "c = char_of n" by (simp add: n_def)
  consider "c \<in> {CHR 0x22, CHR 0x5C, CHR 0x08, CHR 0x09, CHR 0x0A, CHR 0x0C, CHR 0x0D}" | "c \<notin> {CHR 0x22, CHR 0x5C, CHR 0x08, CHR 0x09, CHR 0x0A, CHR 0x0C, CHR 0x0D}" "n < 32"
    | "c \<notin> {CHR 0x22, CHR 0x5C, CHR 0x08, CHR 0x09, CHR 0x0A, CHR 0x0C, CHR 0x0D}" "\<not> n < 32" by blast
  then show ?thesis
  proof cases
    case 1
    then show ?thesis by (elim insertE) (simp_all add: esc_char_def unesc_def)
  next
    case 2
    then have "esc_char c = CHR 0x5C # ''u00'' @ [hex_digit (n div 16), hex_digit (n mod 16)]"
      by (simp add: esc_char_def n_def [symmetric] Let_def)
    moreover have "16 * (n div 16) + n mod 16 = n" by simp
    ultimately show ?thesis using 2 c by (simp add: unesc_def)
  next
    case 3
    then have "esc_char c = [c]" by (simp add: esc_char_def n_def [symmetric] Let_def)
    moreover have "c \<noteq> CHR 0x5C" using 3 by simp
    ultimately show ?thesis by (simp add: unesc_def split: list.splits)
  qed
qed

lemma esc_char_split: "esc_char c @ x = esc_char d @ y \<Longrightarrow> c = d \<and> x = y"
  by (metis unesc_esc prod.inject)

lemma esc_char_hd: "\<exists>a b. esc_char c = a # b \<and> a \<noteq> CHR 0x22"
  by (auto simp: esc_char_def Let_def)

lemma json_quote_split: "json_quote s @ r = json_quote t @ r' \<Longrightarrow> s = t \<and> r = r'"
proof -
  have "concat (map esc_char s) @ CHR 0x22 # r = concat (map esc_char t) @ CHR 0x22 # r' \<Longrightarrow> s = t \<and> r = r'"
  proof (induction s arbitrary: t)
    case Nil
    then show ?case using esc_char_hd by (cases t) (auto, metis list.inject append_Cons)
  next
    case (Cons c s)
    show ?case
    proof (cases t)
      case Nil
      with Cons.prems show ?thesis using esc_char_hd [of c] by auto
    next
      case (Cons d u)
      then show ?thesis
        using Cons.prems Cons.IH [of u] esc_char_split [of c _ d] by auto
    qed
  qed
  then show "json_quote s @ r = json_quote t @ r' \<Longrightarrow> s = t \<and> r = r'"
    by (simp add: json_quote_def)
qed

lemma number_split:
  assumes "number_format show_num" and "show_num a @ r = show_num b @ s" and "delim r" and "delim s"
  shows "a = b \<and> r = s"
proof -
  have tw: "takeWhile num_char (show_num q @ t) = show_num q" if "delim t" for q t
  proof -
    have "\<forall>c \<in> set (show_num q). num_char c"
      using assms(1) by (simp add: number_format_def list_all_iff)
    moreover have "takeWhile num_char t = []"
      using that by (cases t) (auto simp: delim_def num_char_def is_digit_def)
    ultimately show ?thesis by (simp add: takeWhile_append2)
  qed
  have "show_num a = show_num b" using tw [OF assms(3), of a] tw [OF assms(4), of b] assms(2) by simp
  then show ?thesis using assms(1,2) by (auto simp: number_format_def dest: injD)
qed

lemma number_hd:
  assumes "number_format show_num"
  shows "\<exists>a b. show_num q = a # b \<and> num_char a"
proof -
  have "show_num q \<noteq> []" "list_all num_char (show_num q)"
    using assms unfolding number_format_def by blast+
  then show ?thesis by (cases "show_num q") auto
qed

lemma num_char_hd: "num_char c \<Longrightarrow> c \<notin> set '',]ntf'' \<and> c \<noteq> CHR 0x7D \<and> c \<noteq> CHR 0x7B \<and> c \<noteq> CHR ''['' \<and> c \<noteq> CHR 0x22"
  by (auto simp: num_char_def is_digit_def)

lemma encode_hd:
  assumes "number_format show_num" and "encode_value show_num path v = Inr x"
  shows "\<exists>a b. x = a # b \<and> a \<notin> {CHR '','', CHR '']'', CHR 0x7D}"
proof (cases v)
  case (CNum n)
  then obtain q where "x = show_num q" using assms(2) by (auto simp: canon_err_def split: jnum.splits)
  with number_hd [OF assms(1), of q] show ?thesis by (auto dest: num_char_hd)
qed (use assms(2) in \<open>auto simp: canon_err_def json_quote_def split: sum.splits if_splits\<close>)

lemma comma_tail_simps [simp]:
  "comma_tail [] = []" "comma_tail (p # ps) = CHR '','' # p @ comma_tail ps"
  by (simp_all add: comma_tail_def)

lemma join_comma: "ps \<noteq> [] \<Longrightarrow> CHR '','' # join_with '','' ps = comma_tail ps"
  by (induction ps rule: induct_list012) auto

lemma delim_tail: "c \<in> {CHR '']'', CHR 0x7D} \<Longrightarrow> delim (comma_tail ps @ c # r)"
  by (cases ps) (auto simp: delim_def)

lemma join_split:
  assumes eq: "join_with '','' ps @ c # r = join_with '','' qs @ c # s"
    and c: "c \<in> {CHR '']'', CHR 0x7D}"
    and hd: "\<forall>p \<in> set ps \<union> set qs. \<exists>a b. p = a # b \<and> a \<notin> {CHR '','', CHR '']'', CHR 0x7D}"
  shows "comma_tail ps @ c # r = comma_tail qs @ c # s"
proof (cases "ps = [] \<longleftrightarrow> qs = []")
  case True
  then show ?thesis
    using eq join_comma [of ps, symmetric] join_comma [of qs, symmetric] by (cases "ps = []") auto
next
  case False
  have first: "\<exists>a b. join_with '','' ws @ t = a # b \<and> a \<notin> {CHR '','', CHR '']'', CHR 0x7D}"
    if "ws \<noteq> []" "\<forall>p \<in> set ws. \<exists>a b. p = a # b \<and> a \<notin> {CHR '','', CHR '']'', CHR 0x7D}" for ws t
    using that by (induction ws rule: induct_list012) auto
  have "False"
  proof (cases "ps = []")
    case True
    then show False using eq c hd first [of qs "c # s"] False by auto
  next
    case False
    then show False using eq c hd first [of ps "c # r"] \<open>(ps = []) \<noteq> (qs = [])\<close> by auto
  qed
  then show ?thesis ..
qed

lemma encode_items_hd:
  "number_format show_num \<Longrightarrow> encode_items show_num path i xs = Inr ps
     \<Longrightarrow> \<forall>p \<in> set ps. \<exists>a b. p = a # b \<and> a \<notin> {CHR '','', CHR '']'', CHR 0x7D}"
proof (induction xs arbitrary: i ps)
  case (Cons x xs)
  show ?case
  proof (cases x)
    case None
    with Cons.prems show ?thesis by (simp add: canon_err_def)
  next
    case (Some v)
    then obtain p ps' where p: "encode_value show_num (index_path path i) v = Inr p"
      "encode_items show_num path (Suc i) xs = Inr ps'" "ps = p # ps'"
      using Cons.prems by (auto split: sum.splits)
    then show ?thesis using encode_hd [OF Cons.prems(1) p(1)] Cons.IH [OF Cons.prems(1) p(2)] by simp
  qed
qed simp

lemma encode_props_hd:
  "encode_props show_num path kvs = Inr ps
     \<Longrightarrow> \<forall>p \<in> set ps. \<exists>a b. p = a # b \<and> a \<notin> {CHR '','', CHR '']'', CHR 0x7D}"
  by (induction kvs arbitrary: ps) (auto simp: json_quote_def split: sum.splits)

text \<open>The first character of an encoding tells the constructor.\<close>

fun value_kind :: "cval \<Rightarrow> nat" where
  "value_kind CNull = 0"
| "value_kind (CBool b) = (if b then 1 else 2)"
| "value_kind (CNum _) = 3"
| "value_kind (CStr _) = 4"
| "value_kind (CArr _) = 5"
| "value_kind (CObj _ _) = 6"
| "value_kind _ = 7"

definition char_kind :: "char \<Rightarrow> nat" where
  "char_kind c =
     (if num_char c then 3 else if c = CHR ''n'' then 0 else if c = CHR ''t'' then 1
      else if c = CHR ''f'' then 2 else if c = CHR 0x22 then 4 else if c = CHR ''['' then 5
      else if c = CHR 0x7B then 6 else 7)"

lemma char_kinds:
  "char_kind (CHR ''n'') = 0" "char_kind (CHR ''t'') = 1" "char_kind (CHR ''f'') = 2"
  "char_kind (CHR 0x22) = 4" "char_kind (CHR ''['') = 5" "char_kind (CHR 0x7B) = 6"
  by (simp_all add: char_kind_def num_char_def is_digit_def)

lemma encode_cases:
  assumes "encode_value show_num path v = Inr x"
  shows "(v = CNull \<and> x = ''null'') \<or> (v = CBool True \<and> x = ''true'') \<or> (v = CBool False \<and> x = ''false'')
    \<or> (\<exists>a. v = CNum (Fin a) \<and> x = show_num a) \<or> (\<exists>t. v = CStr t \<and> x = json_quote t)
    \<or> (\<exists>xs ps. v = CArr xs \<and> encode_items show_num path 0 xs = Inr ps
          \<and> x = CHR ''['' # join_with '','' ps @ [CHR '']''])
    \<or> (\<exists>kvs ps. v = CObj True kvs \<and> encode_props show_num path (sort_key fst kvs) = Inr ps
          \<and> x = CHR 0x7B # join_with '','' ps @ [CHR 0x7D])"
proof (cases v)
  case (CNum n)
  then show ?thesis using assms by (cases n) (simp_all add: canon_err_def)
next
  case (CArr xs)
  then show ?thesis using assms by (cases "encode_items show_num path 0 xs") simp_all
next
  case (CObj b kvs)
  then show ?thesis
    using assms by (cases "encode_props show_num path (sort_key fst kvs)") (simp_all add: canon_err_def split: if_splits)
qed (use assms in \<open>simp_all add: canon_err_def split: if_splits\<close>)

lemma encode_kind:
  assumes "number_format show_num" and "encode_value show_num path v = Inr x"
  shows "\<exists>a b. x = a # b \<and> char_kind a = value_kind v"
  using encode_cases [OF assms(2)]
proof (elim disjE exE conjE)
  fix a assume "v = CNum (Fin a)" and "x = show_num a"
  moreover obtain c d where "show_num a = c # d" "num_char c" using number_hd [OF assms(1), of a] by blast
  moreover from this(2) have "char_kind c = 3" by (simp add: char_kind_def)
  ultimately show ?thesis by simp
qed (simp_all add: json_quote_def char_kinds)

lemma same_kind:
  assumes "number_format show_num" and "encode_value show_num p v = Inr x"
    and "encode_value show_num q w = Inr y" and "x @ r = y @ s"
  shows "value_kind w = value_kind v"
  using encode_kind [OF assms(1,2)] encode_kind [OF assms(1,3)] assms(4) by auto

text \<open>Reading an encoding back: what follows it is determined, and so is the value up to key order.\<close>

lemma encode_split:
  assumes nf: "number_format show_num"
  shows "encode_value show_num p v = Inr x \<Longrightarrow> encode_value show_num q w = Inr y
      \<Longrightarrow> x @ r = y @ s \<Longrightarrow> delim r \<Longrightarrow> delim s \<Longrightarrow> cnorm v = cnorm w \<and> r = s"
    and "encode_items show_num p i xs = Inr ps \<Longrightarrow> encode_items show_num q j ys = Inr qs
      \<Longrightarrow> comma_tail ps @ CHR '']'' # r = comma_tail qs @ CHR '']'' # s
      \<Longrightarrow> cnorm_items xs = cnorm_items ys \<and> r = s"
    and "encode_props show_num p kvs = Inr ps \<Longrightarrow> encode_props show_num q kvs' = Inr qs
      \<Longrightarrow> comma_tail ps @ CHR 0x7D # r = comma_tail qs @ CHR 0x7D # s
      \<Longrightarrow> cnorm_props kvs = cnorm_props kvs' \<and> r = s"
  using nf
proof (induction show_num p v and show_num p i xs and show_num p kvs
    arbitrary: q w x y r s and q j ys ps qs r s and q kvs' ps qs r s
    rule: encode_value_encode_items_encode_props.induct)
  case (1 show_num path)
  with same_kind [OF 1(6,1-3)] show ?case by (cases w) (auto split: if_splits)
next
  case (2 show_num path b)
  with same_kind [OF 2(6,1-3)] show ?case by (cases w) (auto split: if_splits)
next
  case (3 show_num path n)
  obtain m where w: "w = CNum m" using same_kind [OF 3(6,1-3)] by (cases w) (auto split: if_splits)
  obtain a where a: "n = Fin a" "x = show_num a" using encode_cases [OF 3(1)] by auto
  obtain b where b: "m = Fin b" "y = show_num b" using encode_cases [OF 3(2)] w by auto
  show ?case using number_split [OF 3(6) 3(3) [unfolded a b] 3(4,5)] by (simp add: a b w)
next
  case (4 show_num path t)
  obtain u where w: "w = CStr u" using same_kind [OF 4(6,1-3)] by (cases w) (auto split: if_splits)
  then show ?case using 4 json_quote_split [of t r u s] by auto
next
  case (7 show_num path xs)
  obtain ys where w: "w = CArr ys" using same_kind [OF 7(7,2-4)] by (cases w) (auto split: if_splits)
  obtain ps qs where p: "encode_items show_num path 0 xs = Inr ps" "encode_items show_num q 0 ys = Inr qs"
    "x = ''['' @ join_with '','' ps @ '']''" "y = ''['' @ join_with '','' qs @ '']''"
    using 7(2,3) w by (auto split: sum.splits)
  have "comma_tail ps @ CHR '']'' # r = comma_tail qs @ CHR '']'' # s"
    using 7(4) p encode_items_hd [OF 7(7) p(1)] encode_items_hd [OF 7(7) p(2)]
    by (intro join_split) auto
  from 7(1) [OF p(1,2) this 7(7)] show ?case by (simp add: w)
next
  case (8 show_num path plain kvs)
  obtain b kvs' where w: "w = CObj b kvs'" using same_kind [OF 8(7,2-4)] by (cases w) (auto split: if_splits)
  have pl: "plain" "b" using 8(2,3) w by (auto simp: canon_err_def split: if_splits)
  obtain ps qs where p: "encode_props show_num path (sort_key fst kvs) = Inr ps"
    "encode_props show_num q (sort_key fst kvs') = Inr qs"
    "x = CHR 0x7B # join_with '','' ps @ [CHR 0x7D]" "y = CHR 0x7B # join_with '','' qs @ [CHR 0x7D]"
    using 8(2,3) w pl by (auto split: sum.splits)
  have "comma_tail ps @ CHR 0x7D # r = comma_tail qs @ CHR 0x7D # s"
    using 8(4) p encode_props_hd [OF p(1)] encode_props_hd [OF p(2)]
    by (intro join_split) auto
  from 8(1) [OF _ p(1,2) this 8(7)] show ?case by (simp add: w pl)
next
  case (9 show_num path i)
  then show ?case
    by (cases ys) (auto simp: canon_err_def split: option.splits sum.splits, (case_tac a; auto simp: canon_err_def split: sum.splits)+)
next
  case (11 show_num path i v xs)
  obtain p ps' where p: "encode_value show_num (index_path path i) v = Inr p"
    "encode_items show_num path (Suc i) xs = Inr ps'" "ps = p # ps'"
    using 11(3) by (auto split: sum.splits)
  obtain w zs u qs' where w: "ys = Some w # zs" "encode_value show_num (index_path q j) w = Inr u"
    "encode_items show_num q (Suc j) zs = Inr qs'" "qs = u # qs'"
  proof (cases ys)
    case Nil
    then show ?thesis using 11(4,5) p by auto
  next
    case (Cons o' zs)
    then show ?thesis
      using 11(4) that by (cases o') (auto simp: canon_err_def split: sum.splits)
  qed
  have "p @ (comma_tail ps' @ CHR '']'' # r) = u @ (comma_tail qs' @ CHR '']'' # s)"
    using 11(5) p w by simp
  from 11(1) [OF p(1) w(2) this _ _ 11(6)] delim_tail
  have "cnorm v = cnorm w \<and> comma_tail ps' @ CHR '']'' # r = comma_tail qs' @ CHR '']'' # s" by auto
  with 11(2) [OF p(1,2) w(3) _ 11(6)] show ?case by (auto simp: w)
next
  case (12 show_num path)
  then show ?case by (cases kvs') (auto split: sum.splits)
next
  case (13 show_num path k v kvs)
  obtain p ps' where p: "encode_value show_num (path @ format_path_segment k) v = Inr p"
    "encode_props show_num path kvs = Inr ps'" "ps = (json_quote k @ '':'' @ p) # ps'"
    using 13(3) by (auto split: sum.splits)
  obtain k' w zs u qs' where w: "kvs' = (k', w) # zs"
    "encode_value show_num (q @ format_path_segment k') w = Inr u"
    "encode_props show_num q zs = Inr qs'" "qs = (json_quote k' @ '':'' @ u) # qs'"
    using 13(4,5) p by (cases kvs') (auto split: sum.splits)
  have "json_quote k @ CHR '':'' # p @ (comma_tail ps' @ CHR 0x7D # r)
      = json_quote k' @ CHR '':'' # u @ (comma_tail qs' @ CHR 0x7D # s)"
    using 13(5) p w by simp
  from json_quote_split [OF this] have
    "k = k'" "p @ (comma_tail ps' @ CHR 0x7D # r) = u @ (comma_tail qs' @ CHR 0x7D # s)" by auto
  with 13(1) [OF p(1) w(2) this(2) _ _ 13(6)] delim_tail
  have "k = k'" "cnorm v = cnorm w" "comma_tail ps' @ CHR 0x7D # r = comma_tail qs' @ CHR 0x7D # s" by auto
  with 13(2) [OF p(1,2) w(3) _ 13(6)] show ?case by (auto simp: w)
qed (simp_all add: canon_err_def)

lemma canonical_text_iff:
  assumes "number_format show_num" and "canonicalize_json show_num v = Inr x"
  shows "canonicalize_json show_num w = Inr x \<longleftrightarrow> cnorm w = cnorm v"
proof
  assume "canonicalize_json show_num w = Inr x"
  then show "cnorm w = cnorm v"
    using encode_split(1) [OF assms(1), of "''$''" v x "''$''" w x "[]" "[]"] assms(2)
    by (simp add: canonicalize_json_def delim_def)
next
  assume "cnorm w = cnorm v"
  then show "canonicalize_json show_num w = Inr x"
    using assms(2) encode_cnorm(1) [of show_num "''$''" v] encode_cnorm(1) [of show_num "''$''" w]
    by (simp add: canonicalize_json_def)
qed

section \<open>Properties\<close>

text \<open>
  C17: Canonical JSON decides equality of JSON values: when one value has a canonical form, another
  has the same form exactly if the two are equal after sorting object keys at every depth. So the
  hashes the gateway compares never depend on the order in which keys arrive, and two different
  values never share a canonical form.
\<close>

theorem canonical_form_decides_equality:
  assumes "number_format show_num" and "canonicalize_json show_num v = Inr x"
  shows "canonicalize_json show_num w = Inr x \<longleftrightarrow> cnorm w = cnorm v"
  using assms by (rule canonical_text_iff)

text \<open>A concrete number format: numerator and denominator.\<close>

definition show_ratio :: "rat \<Rightarrow> string" where
  "show_ratio q = int_str (fst (quotient_of q)) @ ''e'' @ int_str (snd (quotient_of q))"

lemma number_format_ratio: "number_format show_ratio"
proof -
  have e: "CHR ''e'' \<notin> set (int_str i)" for i
    using int_str_chars [of i] by (auto simp: list_all_iff is_digit_def)
  have "inj show_ratio"
  proof
    fix a b assume "show_ratio a = show_ratio b"
    then have "fst (quotient_of a) = fst (quotient_of b)" "snd (quotient_of a) = snd (quotient_of b)"
      using split_first_unique [OF e e] by (auto simp: show_ratio_def dest: inj_int_str)
    then show "a = b" by (metis prod.expand quotient_of_inject)
  qed
  moreover have "list_all num_char (show_ratio q)" for q
    using int_str_chars by (auto simp: show_ratio_def list_all_iff num_char_def)
  ultimately show ?thesis by (simp add: number_format_def show_ratio_def)
qed

lemma canonical_form_witness:
  "canonicalize_json show_ratio
     (CObj True [(''b'', CArr [Some (CStr ''x'')]), (''a'', CObj True [(''d'', CNull), (''c'', CBool True)])])
   = canonicalize_json show_ratio
     (CObj True [(''a'', CObj True [(''c'', CBool True), (''d'', CNull)]), (''b'', CArr [Some (CStr ''x'')])])"
  (is "canonicalize_json _ ?v = canonicalize_json _ ?w")
proof -
  obtain x where x: "canonicalize_json show_ratio ?w = Inr x"
    by (simp add: canonicalize_json_def)
  have "cnorm ?v = cnorm ?w" by simp
  with canonical_form_decides_equality [OF number_format_ratio x, of ?v] x show ?thesis by simp
qed

text \<open>
  A body is handed on as an object exactly if the limit is a non-negative integer, the body's
  UTF-8 size is within it, and the body parses to an object; each failure has its own code, and an
  oversized body is refused before it is parsed.
\<close>

theorem object_body_exact:
  "parse_json_object_body parse raw limit = r \<longleftrightarrow>
     (if \<not> (\<exists>n. limit = Fin (of_nat n)) then
        r = Inl \<lparr>jf_code = InvalidLimit, jf_message = ''limitBytes must be a non-negative integer'', jf_sizes = None\<rparr>
      else (case limit of
          Fin q \<Rightarrow>
            if int (utf8_len raw) > \<lfloor>q\<rfloor> then
              r = Inl \<lparr>jf_code = BodyTooLarge, jf_message = ''json body exceeds the configured byte limit'',
                       jf_sizes = Some (\<lfloor>q\<rfloor>, int (utf8_len raw))\<rparr>
            else (case parse raw of
                Inl msg \<Rightarrow> r = Inl \<lparr>jf_code = InvalidSyntax,
                    jf_message = (if msg = [] then ''invalid json text'' else msg), jf_sizes = None\<rparr>
              | Inr (JObj obj) \<Rightarrow> r = Inr (JObj obj)
              | Inr v \<Rightarrow> r = Inl \<lparr>jf_code = NotObject, jf_message = ''json value must be an object'', jf_sizes = None\<rparr>)
        | _ \<Rightarrow> False))"
proof (cases limit)
  case (Fin q)
  have int: "(\<exists>n. q = of_nat n) \<longleftrightarrow> of_int \<lfloor>q\<rfloor> = q \<and> \<not> q < 0"
  proof
    assume h: "of_int \<lfloor>q\<rfloor> = q \<and> \<not> q < 0"
    then have e: "of_int \<lfloor>q\<rfloor> = q" and "0 \<le> \<lfloor>q\<rfloor>" by (blast, simp)
    from this(2) have "of_nat (nat \<lfloor>q\<rfloor>) = (of_int \<lfloor>q\<rfloor> :: rat)" by (rule of_nat_nat)
    with e have "q = of_nat (nat \<lfloor>q\<rfloor>)" by (metis)
    then show "\<exists>n. q = of_nat n" ..
  qed (metis floor_of_nat of_int_of_nat_eq of_nat_0_le_iff not_less)
  show ?thesis
    by (auto simp: Fin int parse_json_object_body_def parse_json_body_with_limit_def json_fail_def
        parse_json_text_def Let_def split: sum.splits jsval.splits)
qed (auto simp: parse_json_object_body_def parse_json_body_with_limit_def json_fail_def)

end
