(* ===== verification/Sessions.thy ===== *)
theory Sessions
  imports Json
begin

text \<open>
  The session lifecycle of \<open>src/src/runtime/sessions/lifecycle.ts\<close>. A session is a record with the
  code's fields; the interface \<open>SessionLifecycleStore\<close> is the record \<open>session_ops\<close> of the functions the
  service calls, its contract the locale \<open>session_store\<close>, and \<open>InMemorySessionLifecycleStore\<close> the
  instance. The service's \<open>nowFn()\<close> and \<open>idFactory()\<close> are arguments of each operation. The copies
  that \<open>cloneSession\<close> makes keep the stored claims and contexts apart from the returned ones; in a
  model of values a copy is the value itself.
\<close>

datatype session_status = Active | Revoked | Rotated

record session =
  ss_id :: string
  ss_subject :: string
  ss_createdAt :: int
  ss_expiresAt :: int
  ss_ttlMs :: int
  ss_status :: session_status
  ss_claims :: jobj
  ss_context :: jobj
  ss_revokedAt :: "int option"
  ss_rotatedAt :: "int option"
  ss_rotatedFrom :: "string option"
  ss_rotatedTo :: "string option"

record 's session_ops =
  op_get :: "'s \<Rightarrow> string \<Rightarrow> session option"
  op_set :: "session \<Rightarrow> 's \<Rightarrow> 's"
  op_delete :: "string \<Rightarrow> 's \<Rightarrow> 's"
  op_list :: "'s \<Rightarrow> string \<Rightarrow> session list"

datatype session_error =
    InvalidId | InvalidSubject | InvalidTtl | NotFound | Expired | RevokedErr | RotatedErr

record create_input =
  ci_subject :: jsval
  ci_ttlMs :: "jnum option"
  ci_claims :: jsval
  ci_context :: jsval

definition default_session_ttl_ms :: int where
  "default_session_ttl_ms = 14 * 24 * 60 * 60 * 1000"

definition normalize_subject :: "jsval \<Rightarrow> string" where
  "normalize_subject subject = (case subject of JStr s \<Rightarrow> trim s | _ \<Rightarrow> [])"

definition normalize_ttl_ms :: "jnum option \<Rightarrow> jnum \<Rightarrow> int option" where
  "normalize_ttl_ms ttl fallback =
     (case (case ttl of Some t \<Rightarrow> t | None \<Rightarrow> fallback) of
        Fin q \<Rightarrow> if q \<le> 0 then None else if \<lfloor>q\<rfloor> > 0 then Some \<lfloor>q\<rfloor> else None
      | _ \<Rightarrow> None)"

definition service_default_ttl :: "jnum option \<Rightarrow> int" where
  "service_default_ttl opt =
     (case normalize_ttl_ms opt (Fin (of_int default_session_ttl_ms)) of
        Some t \<Rightarrow> t | None \<Rightarrow> default_session_ttl_ms)"

text \<open>\<open>isPlainObject(v) ? cloneRecord(v) : {}\<close>\<close>

definition plain_record :: "jsval \<Rightarrow> jobj" where
  "plain_record v = (case as_obj v of Some obj \<Rightarrow> obj | None \<Rightarrow> [])"

definition normalize_session_id :: "jsval \<Rightarrow> string" where
  "normalize_session_id v = (case v of JStr s \<Rightarrow> trim s | _ \<Rightarrow> [])"

section \<open>The service\<close>

definition read_session :: "'s session_ops \<Rightarrow> int \<Rightarrow> jsval \<Rightarrow> 's \<Rightarrow> session_error + session" where
  "read_session ops now sessionId st =
     (let sid = normalize_session_id sessionId in
      if sid = [] then Inl InvalidId
      else (case op_get ops st sid of
              None \<Rightarrow> Inl NotFound
            | Some s \<Rightarrow>
                if ss_status s = Revoked then Inl RevokedErr
                else if ss_status s = Rotated then Inl RotatedErr
                else if ss_expiresAt s \<le> now then Inl Expired
                else Inr s))"

definition create_session ::
  "'s session_ops \<Rightarrow> int \<Rightarrow> int \<Rightarrow> string \<Rightarrow> create_input \<Rightarrow> 's \<Rightarrow> (session_error + session) \<times> 's" where
  "create_session ops defaultTtl now newId input st =
     (let subject = normalize_subject (ci_subject input) in
      if subject = [] then (Inl InvalidSubject, st)
      else (case normalize_ttl_ms (ci_ttlMs input) (Fin (of_int defaultTtl)) of
              None \<Rightarrow> (Inl InvalidTtl, st)
            | Some ttl \<Rightarrow>
                let s = \<lparr>ss_id = newId, ss_subject = subject, ss_createdAt = now,
                         ss_expiresAt = now + ttl, ss_ttlMs = ttl, ss_status = Active,
                         ss_claims = plain_record (ci_claims input),
                         ss_context = plain_record (ci_context input),
                         ss_revokedAt = None, ss_rotatedAt = None,
                         ss_rotatedFrom = None, ss_rotatedTo = None\<rparr>
                in (Inr s, op_set ops s st)))"

text \<open>The details of a rotation are the previous session's id.\<close>

definition rotate_session ::
  "'s session_ops \<Rightarrow> int \<Rightarrow> string \<Rightarrow> jsval \<Rightarrow> 's \<Rightarrow> (session_error + session \<times> string) \<times> 's" where
  "rotate_session ops now newId sessionId st =
     (let sid = normalize_session_id sessionId in
      if sid = [] then (Inl InvalidId, st)
      else (case op_get ops st sid of
              None \<Rightarrow> (Inl NotFound, st)
            | Some current \<Rightarrow>
                if ss_status current = Revoked then (Inl RevokedErr, st)
                else if ss_status current = Rotated then (Inl RotatedErr, st)
                else if ss_expiresAt current \<le> now then (Inl Expired, st)
                else
                  let successor = \<lparr>ss_id = newId, ss_subject = ss_subject current, ss_createdAt = now,
                        ss_expiresAt = now + ss_ttlMs current, ss_ttlMs = ss_ttlMs current,
                        ss_status = Active, ss_claims = ss_claims current,
                        ss_context = ss_context current, ss_revokedAt = None, ss_rotatedAt = None,
                        ss_rotatedFrom = Some (ss_id current), ss_rotatedTo = None\<rparr>;
                      rotated = current\<lparr>ss_status := Rotated, ss_rotatedAt := Some now,
                        ss_rotatedTo := Some (ss_id successor)\<rparr>
                  in (Inr (successor, ss_id rotated), op_set ops successor (op_set ops rotated st))))"

text \<open>The details of a revocation are the status before it.\<close>

definition revoke_session ::
  "'s session_ops \<Rightarrow> int \<Rightarrow> jsval \<Rightarrow> 's \<Rightarrow> (session_error + session \<times> session_status) \<times> 's" where
  "revoke_session ops now sessionId st =
     (let sid = normalize_session_id sessionId in
      if sid = [] then (Inl InvalidId, st)
      else (case op_get ops st sid of
              None \<Rightarrow> (Inl NotFound, st)
            | Some current \<Rightarrow>
                if ss_status current = Revoked then (Inl RevokedErr, st)
                else if ss_status current = Rotated then (Inl RotatedErr, st)
                else if ss_expiresAt current \<le> now then (Inl Expired, st)
                else
                  let revoked = current\<lparr>ss_status := Revoked, ss_revokedAt := Some now\<rparr>
                  in (Inr (revoked, ss_status current), op_set ops revoked st)))"

definition list_by_subject :: "'s session_ops \<Rightarrow> string \<Rightarrow> 's \<Rightarrow> session list" where
  "list_by_subject ops subject st = op_list ops st subject"

datatype session_op =
    CreateOp int string create_input
  | ReadOp int jsval
  | RotateOp int string jsval
  | RevokeOp int jsval

fun session_step :: "'s session_ops \<Rightarrow> int \<Rightarrow> 's \<Rightarrow> session_op \<Rightarrow> 's" where
  "session_step ops ttl st (CreateOp now newId input) = snd (create_session ops ttl now newId input st)"
| "session_step ops ttl st (ReadOp now sid) = st"
| "session_step ops ttl st (RotateOp now newId sid) = snd (rotate_session ops now newId sid st)"
| "session_step ops ttl st (RevokeOp now sid) = snd (revoke_session ops now sid st)"

text \<open>The ids the id factory hands out to an operation.\<close>

fun fresh_ids :: "session_op \<Rightarrow> string set" where
  "fresh_ids (CreateOp _ i _) = {i}"
| "fresh_ids (RotateOp _ i _) = {i}"
| "fresh_ids _ = {}"

text \<open>A well-formed session stored under the id \<open>i\<close>.\<close>

definition wf_session :: "string \<Rightarrow> session \<Rightarrow> bool" where
  "wf_session i s \<longleftrightarrow> ss_id s = i \<and> trim (ss_subject s) = ss_subject s \<and> ss_subject s \<noteq> []
     \<and> 0 < ss_ttlMs s \<and> ss_expiresAt s = ss_createdAt s + ss_ttlMs s
     \<and> (ss_status s = Revoked \<longleftrightarrow> ss_revokedAt s \<noteq> None)
     \<and> (ss_status s = Rotated \<longleftrightarrow> ss_rotatedTo s \<noteq> None)
     \<and> (ss_status s = Rotated \<longleftrightarrow> ss_rotatedAt s \<noteq> None)"

section \<open>What the service relies on\<close>

locale session_store =
  fixes ops :: "'s session_ops"
    and empty :: 's
  assumes get_empty: "op_get ops empty i = None"
    and get_set: "op_get ops (op_set ops s st) i = (if i = ss_id s then Some s else op_get ops st i)"
    and get_delete: "op_get ops (op_delete ops j st) i = (if i = j then None else op_get ops st i)"
begin

definition wf_store :: "'s \<Rightarrow> bool" where
  "wf_store st \<longleftrightarrow> (\<forall>i s. op_get ops st i = Some s \<longrightarrow> wf_session i s)"

lemma wf_empty: "wf_store empty"
  by (simp add: wf_store_def get_empty)

lemma wf_set: "wf_store st \<Longrightarrow> wf_session (ss_id s) s \<Longrightarrow> wf_store (op_set ops s st)"
  by (simp add: wf_store_def get_set)

lemma normalize_ttl_pos: "normalize_ttl_ms t f = Some n \<Longrightarrow> 0 < n"
  by (auto simp: normalize_ttl_ms_def split: option.splits jnum.splits if_splits)

lemma wf_create: "wf_store st \<Longrightarrow> wf_store (snd (create_session ops ttl now i input st))"
  by (auto simp: create_session_def Let_def normalize_subject_def split: option.splits jsval.splits
      intro!: wf_set dest!: normalize_ttl_pos) (simp_all add: wf_session_def)

lemma wf_rotate: "wf_store st \<Longrightarrow> wf_store (snd (rotate_session ops now i sid st))"
proof -
  assume wf: "wf_store st"
  show ?thesis
  proof (cases "op_get ops st (normalize_session_id sid)")
    case None
    then show ?thesis using wf by (simp add: rotate_session_def Let_def)
  next
    case (Some c)
    with wf have c: "wf_session (normalize_session_id sid) c" by (simp add: wf_store_def)
    show ?thesis
      using wf Some c
      by (auto simp: rotate_session_def Let_def intro!: wf_set)
        (cases "ss_status c"; auto simp: wf_session_def)+
  qed
qed

lemma wf_revoke: "wf_store st \<Longrightarrow> wf_store (snd (revoke_session ops now sid st))"
proof -
  assume wf: "wf_store st"
  show ?thesis
  proof (cases "op_get ops st (normalize_session_id sid)")
    case None
    then show ?thesis using wf by (simp add: revoke_session_def Let_def)
  next
    case (Some c)
    with wf have c: "wf_session (normalize_session_id sid) c" by (simp add: wf_store_def)
    show ?thesis
      using wf Some c
      by (auto simp: revoke_session_def Let_def intro!: wf_set)
        (cases "ss_status c"; auto simp: wf_session_def)
  qed
qed

lemma wf_step: "wf_store st \<Longrightarrow> wf_store (session_step ops ttl st x)"
  by (cases x) (simp_all add: wf_create wf_rotate wf_revoke)

text \<open>An operation that is not given the id as a fresh one leaves a session that is no longer active
  as it is.\<close>

lemma step_final:
  assumes "wf_store st" and "op_get ops st i = Some s" and "ss_status s \<noteq> Active"
    and "i \<notin> fresh_ids x"
  shows "op_get ops (session_step ops ttl st x) i = Some s"
proof (cases x)
  case (CreateOp now j input)
  then show ?thesis
    using assms by (auto simp: create_session_def Let_def get_set split: option.splits)
next
  case (RotateOp now j sid)
  show ?thesis
  proof (cases "op_get ops st (normalize_session_id sid)")
    case (Some c)
    then have "ss_id c = normalize_session_id sid"
      using assms(1) unfolding wf_store_def wf_session_def by blast
    with Some show ?thesis
      using assms RotateOp by (cases "ss_status c") (auto simp: rotate_session_def Let_def get_set)
  qed (use assms RotateOp in \<open>simp add: rotate_session_def Let_def\<close>)
next
  case (RevokeOp now sid)
  show ?thesis
  proof (cases "op_get ops st (normalize_session_id sid)")
    case (Some c)
    then have "ss_id c = normalize_session_id sid"
      using assms(1) unfolding wf_store_def wf_session_def by blast
    with Some show ?thesis
      using assms RevokeOp by (cases "ss_status c") (auto simp: revoke_session_def Let_def get_set)
  qed (use assms RevokeOp in \<open>simp add: revoke_session_def Let_def\<close>)
qed (use assms in simp)

lemma run_final:
  assumes "wf_store st" and "op_get ops st i = Some s" and "ss_status s \<noteq> Active"
    and "\<forall>x \<in> set xs. i \<notin> fresh_ids x"
  shows "op_get ops (foldl (session_step ops ttl) st xs) i = Some s"
  using assms
proof (induction xs arbitrary: st)
  case (Cons x xs)
  then have "op_get ops (session_step ops ttl st x) i = Some s" by (intro step_final) simp_all
  with Cons show ?case by (simp add: wf_step)
qed simp

lemma run_wf: "wf_store st \<Longrightarrow> wf_store (foldl (session_step ops ttl) st xs)"
  by (induction xs arbitrary: st) (simp_all add: wf_step)

lemma read_final:
  assumes "op_get ops st i = Some s" and "ss_status s \<noteq> Active" and "trim i = i" and "i \<noteq> []"
  shows "read_session ops now (JStr i) st = Inl (if ss_status s = Revoked then RevokedErr else RotatedErr)"
  using assms by (cases "ss_status s") (simp_all add: read_session_def normalize_session_id_def)

lemma create_then_read:
  assumes "create_session ops ttl now i input st = (Inr s, st')"
    and "trim i = i" and "i \<noteq> []" and "later < ss_expiresAt s"
  shows "read_session ops later (JStr i) st' = Inr s"
  using assms
  by (auto simp: create_session_def Let_def read_session_def normalize_session_id_def get_set
      split: option.splits if_splits)

lemma rotate_effect:
  assumes "wf_store st" and "rotate_session ops now j (JStr i) st = (Inr (s, p), st')"
    and "trim i = i" and "j \<noteq> i"
  shows "\<exists>c. op_get ops st i = Some c \<and> ss_status c = Active \<and> now < ss_expiresAt c \<and> p = i
    \<and> op_get ops st' j = Some s \<and> ss_status s = Active \<and> ss_subject s = ss_subject c
    \<and> ss_claims s = ss_claims c \<and> ss_context s = ss_context c
    \<and> ss_expiresAt s = now + ss_ttlMs c \<and> ss_rotatedFrom s = Some i \<and> ss_id s = j
    \<and> op_get ops st' i = Some (c\<lparr>ss_status := Rotated, ss_rotatedAt := Some now, ss_rotatedTo := Some j\<rparr>)"
proof -
  from assms obtain c where c: "op_get ops st i = Some c"
    by (auto simp: rotate_session_def Let_def normalize_session_id_def split: if_splits option.splits)
  then have "ss_id c = i" using assms(1) unfolding wf_store_def wf_session_def by blast
  then show ?thesis
    using assms(2-) c
    by (cases "ss_status c")
      (auto simp: rotate_session_def Let_def normalize_session_id_def get_set split: if_splits)
qed

lemma revoke_effect:
  assumes "wf_store st" and "revoke_session ops now (JStr i) st = (Inr (s, p), st')" and "trim i = i"
  shows "op_get ops st' i = Some s \<and> ss_status s = Revoked \<and> p = Active"
proof -
  from assms obtain c where c: "op_get ops st i = Some c"
    by (auto simp: revoke_session_def Let_def normalize_session_id_def split: if_splits option.splits)
  then have "ss_id c = i" using assms(1) unfolding wf_store_def wf_session_def by blast
  then show ?thesis
    using assms(2-) c
    by (cases "ss_status c")
      (auto simp: revoke_session_def Let_def normalize_session_id_def get_set split: if_splits)
qed

end

section \<open>The in-memory store\<close>

type_synonym session_map = "session jmap"

definition mem_get :: "session_map \<Rightarrow> string \<Rightarrow> session option" where
  "mem_get st i = map_of st i"

definition mem_set :: "session \<Rightarrow> session_map \<Rightarrow> session_map" where
  "mem_set s st = AList.update (ss_id s) s st"

definition mem_delete :: "string \<Rightarrow> session_map \<Rightarrow> session_map" where
  "mem_delete i st = AList.delete i st"

definition mem_list_by_subject :: "session_map \<Rightarrow> string \<Rightarrow> session list" where
  "mem_list_by_subject st subject =
     (let needle = normalize_subject (JStr subject) in
      if needle = [] then [] else filter (\<lambda>s. ss_subject s = needle) (map snd st))"

definition mem_new :: "session list \<Rightarrow> session_map" where
  "mem_new initial = fold mem_set initial []"

definition mem_ops :: "session_map session_ops" where
  "mem_ops = \<lparr>op_get = mem_get, op_set = mem_set, op_delete = mem_delete, op_list = mem_list_by_subject\<rparr>"

interpretation mem: session_store mem_ops "mem_new []"
  by unfold_locales (simp_all add: mem_ops_def mem_get_def mem_set_def mem_delete_def mem_new_def)

section \<open>Forwarding forget events\<close>

text \<open>\<open>src/src/runtime/sessions/forgetForward.ts\<close>. \<open>fetchImpl\<close> is a function from the request to its
  outcome, or absent.\<close>

record forget_config =
  ff_url :: "string option"
  ff_token :: "string option"
  ff_timeoutMs :: int

record forget_payload =
  fp_subject :: "string option"
  fp_key :: "string option"
  fp_removed :: int
  fp_ts :: string

record forget_result =
  fr_forwarded :: bool
  fr_attempted :: bool

definition read_forget_forward_config :: "env \<Rightarrow> forget_config" where
  "read_forget_forward_config env =
     \<lparr>ff_url = read_env_string ''GATEWAY_FORGET_FORWARD_URL'' env,
      ff_token = read_env_string ''GATEWAY_FORGET_FORWARD_TOKEN'' env,
      ff_timeoutMs = read_positive_int_env ''GATEWAY_FORGET_FORWARD_TIMEOUT_MS'' 3000 env\<rparr>"

text \<open>\<open>JSON.stringify(payload)\<close>; absent properties are left out.\<close>

definition forget_body :: "forget_payload \<Rightarrow> string" where
  "forget_body p =
     (let opt = (\<lambda>k v. case v of None \<Rightarrow> [] | Some s \<Rightarrow> [json_quote k @ '':'' @ json_quote s])
      in CHR 0x7B # join_with '',''
           (opt ''subject'' (fp_subject p) @ opt ''key'' (fp_key p)
            @ [json_quote ''removed'' @ '':'' @ int_str (fp_removed p),
               json_quote ''ts'' @ '':'' @ json_quote (fp_ts p)]) @ [CHR 0x7D])"

definition forget_request :: "forget_config \<Rightarrow> string \<Rightarrow> forget_payload \<Rightarrow> http_request" where
  "forget_request cfg url p =
     \<lparr>rq_url = url, rq_method = ''POST'',
      rq_headers = (''content-type'', ''application/json'')
        # (case ff_token cfg of
             None \<Rightarrow> []
           | Some t \<Rightarrow> if t = [] then [] else [(''authorization'', ''Bearer '' @ t)]),
      rq_body = Some (forget_body p)\<rparr>"

definition forward_forget_event ::
  "forget_payload \<Rightarrow> forget_config \<Rightarrow> (http_request \<Rightarrow> fetch_outcome) option \<Rightarrow> 'a mstate_scheme
     \<Rightarrow> forget_result \<times> 'a mstate_scheme" where
  "forward_forget_event payload cfg fetchImpl s =
     (let url = (case ff_url cfg of None \<Rightarrow> [] | Some u \<Rightarrow> trim u) in
      if url = [] then
        (\<lparr>fr_forwarded = False, fr_attempted = False\<rparr>, minc ''gateway_cache_forget_forward_skipped'' s)
      else (case fetchImpl of
          None \<Rightarrow> (\<lparr>fr_forwarded = False, fr_attempted = True\<rparr>, minc ''gateway_cache_forget_forward_failed'' s)
        | Some call \<Rightarrow>
            let s1 = minc ''gateway_cache_forget_forward_attempt'' s in
            (case call (forget_request cfg url payload) of
               Responded r \<Rightarrow>
                 if rp_ok r then
                   (\<lparr>fr_forwarded = True, fr_attempted = True\<rparr>, minc ''gateway_cache_forget_forward_success'' s1)
                 else
                   (\<lparr>fr_forwarded = False, fr_attempted = True\<rparr>, minc ''gateway_cache_forget_forward_failed'' s1)
             | Threw aborted \<Rightarrow>
                 (\<lparr>fr_forwarded = False, fr_attempted = True\<rparr>,
                  minc (if aborted then ''gateway_cache_forget_forward_timeout''
                        else ''gateway_cache_forget_forward_failed'') s1))))"

section \<open>Properties\<close>

lemma mem_get_ops [simp]: "op_get mem_ops = mem_get"
  by (simp add: mem_ops_def)

text \<open>The sessions of the gateway after a sequence of operations on a new store.\<close>

definition sessions_after :: "int \<Rightarrow> session_op list \<Rightarrow> session_map" where
  "sessions_after ttl xs = foldl (session_step mem_ops ttl) (mem_new []) xs"

lemma wf_after: "mem.wf_store (sessions_after ttl xs)"
  unfolding sessions_after_def by (rule mem.run_wf [OF mem.wf_empty])

text \<open>
  C35: After every sequence of creations, rotations and revocations each stored session is filed under
  its own id, has a trimmed non-empty subject, a positive time to live that determines its expiry,
  and the time stamps and links that its status says it has.
\<close>

theorem stored_sessions_well_formed:
  "case mem_get (sessions_after ttl xs) i of None \<Rightarrow> True | Some s \<Rightarrow> wf_session i s"
  using wf_after [of ttl xs] by (auto simp: mem.wf_store_def split: option.splits)

text \<open>
  C21: Revocation and rotation are final: once a session has left the active state, no sequence of
  operations that does not reuse its id brings it back, and reading it fails with the reason.
\<close>

theorem ended_session_stays_ended:
  assumes "mem_get (sessions_after ttl xs) i = Some s" and "ss_status s \<noteq> Active"
    and "\<forall>x \<in> set ys. i \<notin> fresh_ids x" and "trim i = i" and "i \<noteq> []"
  shows "read_session mem_ops now (JStr i) (sessions_after ttl (xs @ ys))
    = Inl (if ss_status s = Revoked then RevokedErr else RotatedErr)"
proof (rule mem.read_final)
  show "op_get mem_ops (sessions_after ttl (xs @ ys)) i = Some s"
    using mem.run_final [OF wf_after, of ttl xs i s ys] assms(1-3) by (simp add: sessions_after_def)
qed (use assms in simp_all)

definition demo_input :: create_input where
  "demo_input = \<lparr>ci_subject = JStr '' u '', ci_ttlMs = Some (Fin 50), ci_claims = JNull, ci_context = JUndef\<rparr>"

definition demo_ops :: "session_op list" where
  "demo_ops = [CreateOp 1 ''a'' demo_input, RevokeOp 2 (JStr ''a'')]"

lemma ended_session_witness:
  "read_session mem_ops 3 (JStr ''a'')
     (sessions_after 100 (demo_ops @ [RotateOp 3 ''b'' (JStr ''a''), CreateOp 4 ''c'' demo_input]))
   = Inl RevokedErr"
proof -
  obtain s where s: "mem_get (sessions_after 100 demo_ops) ''a'' = Some s" "ss_status s = Revoked"
    by (simp add: sessions_after_def demo_ops_def demo_input_def create_session_def revoke_session_def
        normalize_subject_def normalize_session_id_def normalize_ttl_ms_def mem_ops_def mem_get_def
        mem_set_def mem_new_def trim_def js_ws_def Let_def)
  have t: "trim ''a'' = ''a''" by code_simp
  show ?thesis
    using ended_session_stays_ended [OF s(1) _ _ t,
        of "[RotateOp 3 ''b'' (JStr ''a''), CreateOp 4 ''c'' demo_input]" 3] s(2) by simp
qed

text \<open>
  A successful rotation is a hand-over: it succeeds only for a session that could be read at that
  moment; afterwards the old id answers that it was rotated, and the new id is an active session
  with the old subject, claims and context and a fresh expiry.
\<close>

theorem rotation_hands_over:
  assumes "rotate_session mem_ops now j (JStr i) (sessions_after ttl xs) = (Inr (s, p), st')"
    and "trim i = i" and "trim j = j" and "j \<noteq> []" and "j \<noteq> i" and "later < ss_expiresAt s"
  shows "\<exists>c. read_session mem_ops now (JStr i) (sessions_after ttl xs) = Inr c
    \<and> read_session mem_ops later (JStr j) st' = Inr s
    \<and> read_session mem_ops later (JStr i) st' = Inl RotatedErr
    \<and> ss_subject s = ss_subject c \<and> ss_claims s = ss_claims c \<and> ss_context s = ss_context c
    \<and> ss_expiresAt s = now + ss_ttlMs c \<and> p = i"
proof -
  obtain c where c: "mem_get (sessions_after ttl xs) i = Some c" "ss_status c = Active" "now < ss_expiresAt c"
    "p = i" "mem_get st' j = Some s" "ss_status s = Active" "ss_subject s = ss_subject c"
    "ss_claims s = ss_claims c" "ss_context s = ss_context c" "ss_expiresAt s = now + ss_ttlMs c"
    "mem_get st' i = Some (c\<lparr>ss_status := Rotated, ss_rotatedAt := Some now, ss_rotatedTo := Some j\<rparr>)"
    using mem.rotate_effect [OF wf_after assms(1,2,5)] by auto
  have "i \<noteq> []" using assms(1,2) by (auto simp: rotate_session_def normalize_session_id_def)
  with c assms show ?thesis
    by (intro exI [of _ c]) (simp add: read_session_def normalize_session_id_def)
qed

lemma rotation_witness:
  "\<exists>c. read_session mem_ops 3 (JStr ''a'') (sessions_after 100 [CreateOp 1 ''a'' demo_input]) = Inr c"
proof -
  obtain s p st' where r: "rotate_session mem_ops 3 ''b'' (JStr ''a'')
      (sessions_after 100 [CreateOp 1 ''a'' demo_input]) = (Inr (s, p), st')" "ss_expiresAt s = 53"
    by (simp add: sessions_after_def demo_input_def create_session_def rotate_session_def
        normalize_subject_def normalize_session_id_def normalize_ttl_ms_def mem_ops_def mem_get_def
        mem_set_def mem_new_def trim_def js_ws_def Let_def)
  have t: "trim ''a'' = ''a''" "trim ''b'' = ''b''" by code_simp+
  show ?thesis
    using rotation_hands_over [OF r(1) t, of 4] r(2) by auto
qed

text \<open>
  A forget event is forwarded at most once and the outcome is reported truthfully: without a URL
  nothing is sent; otherwise one POST goes to the trimmed URL and the event counts as forwarded
  exactly when the response is ok, a timeout being told apart from other failures in the metrics.
\<close>

theorem forget_forward_exact:
  "forward_forget_event payload cfg (Some call) s =
     (if map_option trim (ff_url cfg) \<in> {None, Some []} then
        (\<lparr>fr_forwarded = False, fr_attempted = False\<rparr>, minc ''gateway_cache_forget_forward_skipped'' s)
      else
        let answer = call (forget_request cfg (trim (the (ff_url cfg))) payload);
            good = (case answer of Responded r \<Rightarrow> rp_ok r | Threw _ \<Rightarrow> False);
            name = (if good then ''gateway_cache_forget_forward_success''
                    else if answer = Threw True then ''gateway_cache_forget_forward_timeout''
                    else ''gateway_cache_forget_forward_failed'')
        in (\<lparr>fr_forwarded = good, fr_attempted = True\<rparr>,
            minc name (minc ''gateway_cache_forget_forward_attempt'' s)))"
  by (auto simp: forward_forget_event_def Let_def split: option.splits fetch_outcome.splits)

end
