(* ===== verification/Webhooks.thy ===== *)
theory Webhooks
  imports Json Crypto
begin

text \<open>
  Webhook verification, \<open>src/src/webhooks.ts\<close>: the Stripe signature header and its check, the PayPal
  check in its HMAC and its remote mode, and the certificate cache. HMAC-SHA256 in hex is the
  parameter \<open>hmac256 secret payload\<close>; \<open>new URL\<close> is the parameter \<open>parse_url\<close>, \<^term>\<open>None\<close> where it throws;
  \<open>fetch\<close> is the parameter \<open>fetch\<close>, from a request to its outcome.
\<close>

datatype js_exn = TypeError

record wh_cfg =
  wh_certTtl :: int
  wh_certCacheMax :: int
  wh_stripeHeaderMax :: int
  wh_allowPrefixes :: "string list"
  wh_pins :: "string list"

record wh_state = mstate +
  certCache :: "int jmap"

definition split_list :: "string option \<Rightarrow> string list" where
  "split_list raw = filter (\<lambda>s. length s > 0) (map trim (split_on CHR '','' (case raw of None \<Rightarrow> [] | Some r \<Rightarrow> r)))"

definition wh_config :: "env \<Rightarrow> wh_cfg" where
  "wh_config env =
     \<lparr>wh_certTtl = read_bounded_int_env ''GW_CERT_CACHE_TTL_MS'' (6 * 60 * 60 * 1000) (60 * 1000)
        (24 * 60 * 60 * 1000) env,
      wh_certCacheMax = read_bounded_int_env ''GW_CERT_CACHE_MAX_SIZE'' 256 1 4096 env,
      wh_stripeHeaderMax = read_bounded_int_env ''GW_STRIPE_SIGNATURE_HEADER_MAX_BYTES'' 4096 256 16384 env,
      wh_allowPrefixes = split_list (read_env_string ''PAYPAL_CERT_ALLOW_PREFIXES'' env),
      wh_pins = split_list (read_env_string ''GW_CERT_PIN_SHA256'' env)\<rparr>"

definition wh_init :: "metrics \<Rightarrow> wh_state" where
  "wh_init m = \<lparr>mx = m, certCache = []\<rparr>"

section \<open>The Stripe signature header\<close>

definition max_stripe_signature_parts :: int where
  "max_stripe_signature_parts = 32"

definition bucket_push :: "string \<Rightarrow> string \<Rightarrow> string list jmap \<Rightarrow> js_exn + string list jmap" where
  "bucket_push key value buckets =
     (case map_of buckets key of
        Some vs \<Rightarrow> Inr (AList.update key (vs @ [value]) buckets)
      | None \<Rightarrow> if key \<in> set object_prototype_keys then Inl TypeError
               else Inr (AList.update key [value] buckets))"

text \<open>The part's key and value, \<^term>\<open>None\<close> where the loop continues with the next part.\<close>

definition stripe_part :: "string \<Rightarrow> (string \<times> string) option" where
  "stripe_part rawPart =
     (let part = trim rawPart in
      if part = [] then None
      else
        let eq = index_of CHR ''='' part in
        if eq \<le> 0 then None
        else
          let key = trim (take (nat eq) part); value = trim (drop (nat eq + 1) part)
          in if key = [] \<or> value = [] then None else Some (key, value))"

fun stripe_loop :: "string list \<Rightarrow> int \<Rightarrow> string list jmap \<Rightarrow> js_exn + string list jmap option" where
  "stripe_loop [] seenParts buckets = Inr (Some buckets)"
| "stripe_loop (rawPart # parts) seenParts buckets =
     (if seenParts + 1 > max_stripe_signature_parts then Inr None
      else (case stripe_part rawPart of
              None \<Rightarrow> stripe_loop parts (seenParts + 1) buckets
            | Some (key, value) \<Rightarrow>
                (case bucket_push key value buckets of
                   Inl e \<Rightarrow> Inl e
                 | Inr buckets' \<Rightarrow> stripe_loop parts (seenParts + 1) buckets')))"

record stripe_signature =
  sg_timestamp :: "string option"
  sg_signatures :: "string list"

definition parse_stripe_signature_header :: "wh_cfg \<Rightarrow> string \<Rightarrow> js_exn + stripe_signature option" where
  "parse_stripe_signature_header cfg sigHeader =
     (let header = trim sigHeader in
      if header = [] \<or> int (length header) > wh_stripeHeaderMax cfg then Inr None
      else (case stripe_loop (split_on CHR '','' header) 0 [] of
              Inl e \<Rightarrow> Inl e
            | Inr None \<Rightarrow> Inr None
            | Inr (Some buckets) \<Rightarrow>
                Inr (Some
                  \<lparr>sg_timestamp = (case map_of buckets ''t'' of
                       None \<Rightarrow> None | Some ts \<Rightarrow> if ts = [] then None else Some (last ts)),
                   sg_signatures = (case map_of buckets ''v1'' of None \<Rightarrow> [] | Some vs \<Rightarrow> vs)\<rparr>)))"

definition verify_stripe ::
  "(string \<Rightarrow> string \<Rightarrow> string) \<Rightarrow> wh_cfg \<Rightarrow> int \<Rightarrow> string \<Rightarrow> string option \<Rightarrow> string \<Rightarrow> jnum \<Rightarrow> js_exn + bool" where
  "verify_stripe hmac256 cfg now body sigHeader secret toleranceMs =
     (case sigHeader of
        None \<Rightarrow> Inr False
      | Some header \<Rightarrow>
          if body = [] \<or> header = [] \<or> secret = [] then Inr False
          else (case parse_stripe_signature_header cfg header of
              Inl e \<Rightarrow> Inl e
            | Inr None \<Rightarrow> Inr False
            | Inr (Some parsed) \<Rightarrow>
                (case sg_timestamp parsed of
                   None \<Rightarrow> Inr False
                 | Some timestamp \<Rightarrow>
                     if timestamp = [] \<or> sg_signatures parsed = [] then Inr False
                     else (case parse_int timestamp of
                         None \<Rightarrow> Inr False
                       | Some ts \<Rightarrow>
                           let tol = (case toleranceMs of Fin q \<Rightarrow> q | _ \<Rightarrow> 300000) in
                           if of_int \<bar>now - ts * 1000\<bar> > tol then Inr False
                           else
                             let expected = hmac256 secret (timestamp @ ''.'' @ body)
                             in Inr (list_ex (\<lambda>candidate. safe_compare_hex_or_ascii expected candidate)
                                  (sg_signatures parsed))))))"

section \<open>PayPal\<close>

definition is_valid_cert_url :: "(string \<Rightarrow> url_parts option) \<Rightarrow> string option \<Rightarrow> bool" where
  "is_valid_cert_url parse_url rawUrl =
     (case rawUrl of
        None \<Rightarrow> False
      | Some raw \<Rightarrow>
          if raw = [] then False
          else
            let url = trim raw in
            if url = [] \<or> length url > 2048 then False
            else (case parse_url url of
                None \<Rightarrow> False
              | Some p \<Rightarrow>
                  if up_protocol p \<noteq> ''https:'' then False
                  else if up_username p \<noteq> [] \<or> up_password p \<noteq> [] then False
                  else True))"

definition parse_paypal_api_allow_hosts :: "string option \<Rightarrow> string list" where
  "parse_paypal_api_allow_hosts raw =
     filter (\<lambda>v. length v > 0)
       (map (\<lambda>v. to_lower (trim v)) (split_on CHR '','' (case raw of None \<Rightarrow> [] | Some r \<Rightarrow> r)))"

definition resolve_paypal_api_base :: "(string \<Rightarrow> url_parts option) \<Rightarrow> env \<Rightarrow> url_parts option" where
  "resolve_paypal_api_base parse_url env =
     (let rawBase = (case read_env_string ''PAYPAL_API_BASE'' env of
            None \<Rightarrow> ''https://api-m.sandbox.paypal.com'' | Some v \<Rightarrow> v)
      in (case parse_url rawBase of
            None \<Rightarrow> None
          | Some base \<Rightarrow>
              if up_protocol base \<noteq> ''https:'' then None
              else if up_username base \<noteq> [] \<or> up_password base \<noteq> [] then None
              else
                let allowHosts = parse_paypal_api_allow_hosts (read_env_string ''PAYPAL_API_ALLOW_HOSTS'' env)
                in if allowHosts \<noteq> [] \<and> to_lower (up_hostname base) \<notin> set allowHosts then None
                   else Some base))"

definition get_paypal_http_timeout_ms :: "env \<Rightarrow> int" where
  "get_paypal_http_timeout_ms env = read_bounded_int_env ''PAYPAL_HTTP_TIMEOUT_MS'' 7000 1000 60000 env"

definition read_required_header_value :: "headers \<Rightarrow> string \<Rightarrow> string option" where
  "read_required_header_value hs name =
     (case hs (to_lower name) of
        None \<Rightarrow> None
      | Some raw \<Rightarrow> if raw = [] then None else let v = trim raw in if length v > 0 then Some v else None)"

definition trace_id_char :: "char \<Rightarrow> bool" where
  "trace_id_char c \<longleftrightarrow> is_alnum c \<or> c \<in> set (CHR 0x27 # CHR 0x60 # ''!#$%&*+-.^_|~'')"

definition resolve_trace_id :: "string option \<Rightarrow> string option" where
  "resolve_trace_id raw =
     (let traceId = (case raw of None \<Rightarrow> [] | Some r \<Rightarrow> trim r)
      in if matches_class trace_id_char 1 128 traceId then Some traceId else None)"

definition build_paypal_hmac_payload :: "string \<Rightarrow> string \<Rightarrow> string \<Rightarrow> string" where
  "build_paypal_hmac_payload transmissionId transmissionTime body =
     transmissionId @ ''.'' @ transmissionTime @ ''.'' @ body"

definition parse_paypal_body :: "(string \<Rightarrow> string + jsval) \<Rightarrow> string \<Rightarrow> jobj option" where
  "parse_paypal_body parse body = (case parse body of Inl _ \<Rightarrow> None | Inr v \<Rightarrow> as_obj v)"

text \<open>The libraries the remote mode calls: base64 and JSON printing, \<open>fetch\<close>, \<open>JSON.parse\<close>.\<close>

record wh_env =
  we_fetch :: "http_request \<Rightarrow> fetch_outcome"
  we_parse :: "string \<Rightarrow> string + jsval"
  we_parse_url :: "string \<Rightarrow> url_parts option"
  we_base64 :: "string \<Rightarrow> string"
  we_hmac256 :: "string \<Rightarrow> string \<Rightarrow> string"
  we_show_num :: "rat \<Rightarrow> string"
  we_to_string :: "jsval \<Rightarrow> string"
  we_uuid :: string

definition paypal_token :: "wh_env \<Rightarrow> env \<Rightarrow> url_parts \<Rightarrow> string option \<Rightarrow> jsval option" where
  "paypal_token we env base traceId =
     (case (read_env_string ''PAYPAL_CLIENT_ID'' env, read_env_string ''PAYPAL_CLIENT_SECRET'' env) of
        (Some cid, Some sec) \<Rightarrow>
          let req = \<lparr>rq_url = up_href base @ ''/v1/oauth2/token'', rq_method = ''POST'',
                rq_headers = [(''Authorization'', ''Basic '' @ we_base64 we (cid @ '':'' @ sec)),
                    (''Content-Type'', ''application/x-www-form-urlencoded'')]
                  @ (case resolve_trace_id traceId of None \<Rightarrow> [] | Some t \<Rightarrow> [(''x-trace-id'', t)]),
                rq_body = Some ''grant_type=client_credentials''\<rparr>
          in (case we_fetch we req of
                Threw _ \<Rightarrow> None
              | Responded resp \<Rightarrow>
                  if \<not> rp_ok resp then None
                  else (case we_parse we (rp_body resp) of
                      Inl _ \<Rightarrow> None
                    | Inr (JObj data) \<Rightarrow>
                        if truthy (jprop data ''access_token'') then Some (jprop data ''access_token'') else None
                    | Inr _ \<Rightarrow> None))
      | _ \<Rightarrow> None)"

definition header_json :: "headers \<Rightarrow> string \<Rightarrow> jsval" where
  "header_json hs name = (case hs (to_lower name) of None \<Rightarrow> JNull | Some v \<Rightarrow> JStr v)"

definition verify_request ::
  "wh_env \<Rightarrow> url_parts \<Rightarrow> jsval \<Rightarrow> string \<Rightarrow> headers \<Rightarrow> string \<Rightarrow> jobj \<Rightarrow> http_request" where
  "verify_request we base token traceId hs webhookId event =
     \<lparr>rq_url = up_href base @ ''/v1/notifications/verify-webhook-signature'', rq_method = ''POST'',
      rq_headers = [(''Content-Type'', ''application/json''),
          (''Authorization'', ''Bearer '' @ (case token of JStr t \<Rightarrow> t | v \<Rightarrow> we_to_string we v))]
        @ (if traceId = [] then [] else [(''x-trace-id'', traceId)]),
      rq_body = Some (json_stringify (we_show_num we) (JObj
        [(''auth_algo'', header_json hs ''PayPal-Auth-Algo''),
         (''cert_url'', header_json hs ''PayPal-Cert-Url''),
         (''transmission_id'', header_json hs ''PayPal-Transmission-Id''),
         (''transmission_sig'',
            if truthy (header_json hs ''PayPal-Transmission-Sig'') then header_json hs ''PayPal-Transmission-Sig''
            else header_json hs ''PayPal-Transmission-Signature''),
         (''transmission_time'', header_json hs ''PayPal-Transmission-Time''),
         (''webhook_id'', JStr webhookId),
         (''webhook_event'', JObj event)]))\<rparr>"

definition verify_paypal ::
  "wh_env \<Rightarrow> env \<Rightarrow> string \<Rightarrow> headers \<Rightarrow> string option \<Rightarrow> string option \<Rightarrow> bool" where
  "verify_paypal we env body hs secret traceId =
     (if body = [] then False
      else (case parse_paypal_body (we_parse we) body of
          None \<Rightarrow> False
        | Some parsedBody \<Rightarrow>
            let resolvedTraceId = (case resolve_trace_id traceId of Some t \<Rightarrow> t | None \<Rightarrow> we_uuid we) in
            if (case secret of None \<Rightarrow> False | Some k \<Rightarrow> k \<noteq> []) then
              (let sig = (case read_required_header_value hs ''PayPal-Transmission-Sig'' of
                     Some v \<Rightarrow> Some v | None \<Rightarrow> read_required_header_value hs ''PP-Signature'')
               in (case (sig, read_required_header_value hs ''PayPal-Transmission-Id'',
                        read_required_header_value hs ''PayPal-Transmission-Time'') of
                     (Some sg, Some tid, Some tt) \<Rightarrow>
                       let expected = we_hmac256 we (the secret) (build_paypal_hmac_payload tid tt body)
                       in safe_compare_hex_or_ascii expected sg
                   | _ \<Rightarrow> False))
            else if \<not> is_valid_cert_url (we_parse_url we) (hs ''paypal-cert-url'') then False
            else (case read_env_string ''PAYPAL_WEBHOOK_ID'' env of
                None \<Rightarrow> False
              | Some webhookId \<Rightarrow>
                  (case resolve_paypal_api_base (we_parse_url we) env of
                     None \<Rightarrow> False
                   | Some base \<Rightarrow>
                       (case paypal_token we env base (Some resolvedTraceId) of
                          None \<Rightarrow> False
                        | Some token \<Rightarrow>
                            (case we_fetch we (verify_request we base token resolvedTraceId hs webhookId parsedBody) of
                               Threw _ \<Rightarrow> False
                             | Responded resp \<Rightarrow>
                                 if \<not> rp_ok resp then False
                                 else (case we_parse we (rp_body resp) of
                                     Inl _ \<Rightarrow> False
                                   | Inr (JObj data) \<Rightarrow> jprop data ''verification_status'' = JStr ''SUCCESS''
                                   | Inr _ \<Rightarrow> False)))))))"

section \<open>The certificate cache\<close>

definition sweep_certs :: "int \<Rightarrow> wh_state \<Rightarrow> wh_state" where
  "sweep_certs now s =
     (let kept = filter (\<lambda>(u, e). \<not> e \<le> now) (certCache s);
          removed = length (certCache s) - length kept;
          s1 = s\<lparr>certCache := kept\<rparr>
      in if removed > 0 then mgauge ''gateway_webhook_cert_cache_size'' (int (length kept)) s1 else s1)"

definition trim_cert_cache :: "wh_cfg \<Rightarrow> wh_state \<Rightarrow> wh_state" where
  "trim_cert_cache cfg s =
     s\<lparr>certCache := snd (evict_while (\<lambda>size. size \<ge> wh_certCacheMax cfg) (certCache s))\<rparr>"

definition cert_allowed :: "wh_cfg \<Rightarrow> string \<Rightarrow> bool" where
  "cert_allowed cfg url =
     (if wh_allowPrefixes cfg = [] then True
      else list_ex (\<lambda>p. starts_with url p) (wh_allowPrefixes cfg))"

definition cert_pinned_ok :: "wh_cfg \<Rightarrow> string option \<Rightarrow> bool" where
  "cert_pinned_ok cfg fingerprint =
     (if wh_pins cfg = [] then True
      else (case fingerprint of None \<Rightarrow> False | Some f \<Rightarrow> f \<noteq> [] \<and> f \<in> set (wh_pins cfg)))"

definition note_cert ::
  "(string \<Rightarrow> url_parts option) \<Rightarrow> wh_cfg \<Rightarrow> int \<Rightarrow> string option \<Rightarrow> string option \<Rightarrow> wh_state \<Rightarrow> bool \<times> wh_state" where
  "note_cert parse_url cfg now url fingerprint s =
     (if (case url of None \<Rightarrow> True | Some u \<Rightarrow> u = []) then (True, s)
      else if \<not> is_valid_cert_url parse_url url then (False, minc ''gateway_webhook_cert_allow_fail'' s)
      else
        let u = the url; s1 = sweep_certs now s in
        if \<not> cert_allowed cfg u then (False, minc ''gateway_webhook_cert_allow_fail'' s1)
        else if \<not> cert_pinned_ok cfg fingerprint then (False, minc ''gateway_webhook_cert_pin_fail'' s1)
        else
          let s2 = s1\<lparr>certCache := AList.delete u (certCache s1)\<rparr>;
              s3 = trim_cert_cache cfg s2;
              s4 = s3\<lparr>certCache := AList.update u (now + wh_certTtl cfg) (certCache s3)\<rparr>;
              s5 = minc ''gateway_webhook_cert_seen'' s4
          in (True, mgauge ''gateway_webhook_cert_cache_size'' (int (length (certCache s5))) s5))"

section \<open>The header as a list of entries\<close>

definition stripe_values :: "string \<Rightarrow> string list \<Rightarrow> string list" where
  "stripe_values key parts = map snd (filter (\<lambda>kv. fst kv = key) (List.map_filter stripe_part parts))"

definition names_inherited :: "string list \<Rightarrow> bool" where
  "names_inherited parts =
     list_ex (\<lambda>kv. fst kv \<in> set object_prototype_keys) (List.map_filter stripe_part parts)"

definition opt_list :: "'a list option \<Rightarrow> 'a list" where
  "opt_list x = (case x of None \<Rightarrow> [] | Some xs \<Rightarrow> xs)"

lemma stripe_values_simps [simp]:
  "stripe_values key [] = []"
  "stripe_part p = None \<Longrightarrow> stripe_values key (p # ps) = stripe_values key ps"
  "stripe_part p = Some (k, v) \<Longrightarrow> stripe_values key (p # ps) = (if k = key then [v] else []) @ stripe_values key ps"
  by (simp_all add: stripe_values_def map_filter_simps)

lemma names_inherited_simps [simp]:
  "\<not> names_inherited []"
  "stripe_part p = None \<Longrightarrow> names_inherited (p # ps) = names_inherited ps"
  "stripe_part p = Some (k, v) \<Longrightarrow> names_inherited (p # ps) \<longleftrightarrow> k \<in> set object_prototype_keys \<or> names_inherited ps"
  by (simp_all add: names_inherited_def map_filter_simps)

lemma take_pos: "n < 32 \<Longrightarrow> 0 \<le> n \<Longrightarrow> take (nat (32 - n)) (p # ps) = p # take (nat (32 - (n + 1))) ps"
proof -
  assume "n < 32" "0 \<le> n"
  then have "nat (32 - n) = Suc (nat (32 - (n + 1)))" by simp
  then show ?thesis by simp
qed

text \<open>The bucket loop computes the values of every key, unless it meets an inherited name among the
  parts it looks at, or too many parts.\<close>

lemma stripe_loop_spec:
  assumes "0 \<le> n" and "n \<le> 32" and "\<forall>k \<in> set object_prototype_keys. map_of b k = None"
  shows "(names_inherited (take (nat (32 - n)) parts) \<longrightarrow> stripe_loop parts n b = Inl TypeError)
    \<and> (\<not> names_inherited (take (nat (32 - n)) parts) \<longrightarrow>
        (if int (length parts) + n > 32 then stripe_loop parts n b = Inr None
         else \<exists>b'. stripe_loop parts n b = Inr (Some b')
           \<and> (\<forall>k. opt_list (map_of b' k) = opt_list (map_of b k) @ stripe_values k parts)))"
  using assms
proof (induction parts n b rule: stripe_loop.induct)
  case (1 n b)
  then show ?case by simp
next
  case (2 p ps n b)
  show ?case
  proof (cases "n = 32")
    case True
    then show ?thesis by (simp add: max_stripe_signature_parts_def)
  next
    case False
    with "2.prems" have n: "n < 32" "0 \<le> n" "\<not> n + 1 > max_stripe_signature_parts"
      by (simp_all add: max_stripe_signature_parts_def)
    have len: "int (length (p # ps)) + n = int (length ps) + (n + 1)" by simp
    show ?thesis
    proof (cases "stripe_part p")
      case None
      have step: "stripe_loop (p # ps) n b = stripe_loop ps (n + 1) b" using n(3) None by simp
      show ?thesis
        using "2.IH"(1) [OF n(3) None] "2.prems" n None
        unfolding step take_pos [OF n(1,2)] len by simp
    next
      case (Some kv)
      obtain k v where kv: "kv = (k, v)" by (cases kv)
      show ?thesis
      proof (cases "k \<in> set object_prototype_keys")
        case True
        then have "bucket_push k v b = Inl TypeError"
          using "2.prems"(3) by (simp add: bucket_push_def)
        with True Some kv n show ?thesis by (simp add: take_pos)
      next
        case False
        obtain b' where b': "bucket_push k v b = Inr b'"
          "\<And>k'. map_of b' k' = (if k' = k then Some (opt_list (map_of b k) @ [v]) else map_of b k')"
          using False by (cases "map_of b k") (simp_all add: bucket_push_def opt_list_def)
        have "\<forall>k \<in> set object_prototype_keys. map_of b' k = None"
          using "2.prems"(3) False by (auto simp: b'(2))
        with "2.IH"(2) [OF n(3) Some kv [symmetric] b'(1)] n
        have IH: "(names_inherited (take (nat (32 - (n + 1))) ps) \<longrightarrow> stripe_loop ps (n + 1) b' = Inl TypeError)
          \<and> (\<not> names_inherited (take (nat (32 - (n + 1))) ps) \<longrightarrow>
            (if int (length ps) + (n + 1) > 32 then stripe_loop ps (n + 1) b' = Inr None
             else \<exists>b''. stripe_loop ps (n + 1) b' = Inr (Some b'')
               \<and> (\<forall>k. opt_list (map_of b'' k) = opt_list (map_of b' k) @ stripe_values k ps)))"
          by simp
        have step: "stripe_loop (p # ps) n b = stripe_loop ps (n + 1) b'"
          using n(3) Some kv b'(1) by simp
        have vals: "opt_list (map_of b' k') @ stripe_values k' ps
            = opt_list (map_of b k') @ stripe_values k' (p # ps)" for k'
          using Some kv by (simp add: b'(2) opt_list_def)
        have names: "names_inherited (p # qs) = names_inherited qs" for qs
          using Some kv False by simp
        show ?thesis
          using IH [unfolded vals] unfolding step take_pos [OF n(1,2)] len names .
      qed
    qed
  qed
qed

text \<open>The header's parts, if it is within the size limit.\<close>

definition stripe_parts :: "wh_cfg \<Rightarrow> string \<Rightarrow> string list option" where
  "stripe_parts cfg h =
     (if trim h = [] \<or> int (length (trim h)) > wh_stripeHeaderMax cfg then None
      else Some (split_on CHR '','' (trim h)))"

lemma parse_stripe_spec:
  "parse_stripe_signature_header cfg h =
     (case stripe_parts cfg h of
        None \<Rightarrow> Inr None
      | Some ps \<Rightarrow>
          if names_inherited (take 32 ps) then Inl TypeError
          else if length ps > 32 then Inr None
          else Inr (Some \<lparr>sg_timestamp = (let ts = stripe_values ''t'' ps in if ts = [] then None else Some (last ts)),
                          sg_signatures = stripe_values ''v1'' ps\<rparr>))"
proof (cases "stripe_parts cfg h")
  case None
  then show ?thesis by (auto simp: stripe_parts_def parse_stripe_signature_header_def split: if_splits)
next
  case (Some ps)
  then have ps: "ps = split_on CHR '','' (trim h)" "trim h \<noteq> []"
    "\<not> int (length (trim h)) > wh_stripeHeaderMax cfg"
    by (auto simp: stripe_parts_def split: if_splits)
  note L = stripe_loop_spec [of 0 "[]" ps, simplified]
  show ?thesis
  proof (cases "names_inherited (take 32 ps) \<or> length ps > 32")
    case True
    with L Some ps show ?thesis
      by (cases "names_inherited (take 32 ps)") (auto simp: parse_stripe_signature_header_def Let_def)
  next
    case False
    then have few: "\<not> names_inherited ps" "\<not> 32 < length ps" by auto
    from False L obtain b where b: "stripe_loop ps 0 [] = Inr (Some b)"
      "\<And>k. opt_list (map_of b k) = stripe_values k ps" by (auto simp: opt_list_def)
    have "(case map_of b ''t'' of None \<Rightarrow> None | Some ts \<Rightarrow> if ts = [] then None else Some (last ts))
        = (let ts = stripe_values ''t'' ps in if ts = [] then None else Some (last ts))"
      using b(2) [of "''t''"] by (cases "map_of b ''t''") (auto simp: opt_list_def)
    moreover have "(case map_of b ''v1'' of None \<Rightarrow> [] | Some vs \<Rightarrow> vs) = stripe_values ''v1'' ps"
      using b(2) [of "''v1''"] by (simp add: opt_list_def)
    ultimately show ?thesis
      using few Some ps(2,3) b(1)
      unfolding parse_stripe_signature_header_def Let_def ps(1) [symmetric] by simp
  qed
qed

lemma stripe_part_value: "stripe_part p = Some (k, v) \<Longrightarrow> v \<noteq> []"
  by (auto simp: stripe_part_def Let_def split: if_splits)

lemma stripe_values_ne: "[] \<notin> set (stripe_values k ps)"
proof (induction ps)
  case (Cons p ps)
  then show ?case
    using stripe_part_value [of p] by (cases "stripe_part p") (auto split: if_splits)
qed simp

lemma last_stripe_value: "stripe_values k ps \<noteq> [] \<Longrightarrow> last (stripe_values k ps) \<noteq> []"
  using stripe_values_ne [of k ps] last_in_set by metis

section \<open>The certificate cache under runs\<close>

definition wh_inv :: "wh_cfg \<Rightarrow> wh_state \<Rightarrow> bool" where
  "wh_inv cfg s \<longleftrightarrow> jm_ok (certCache s) \<and> int (length (certCache s)) \<le> wh_certCacheMax cfg"

lemma wh_frame [simp]:
  "certCache (minc n s) = certCache s" "certCache (mgauge n v s) = certCache s"
  by (simp_all add: m_defs)

lemma wh_inv_metrics [simp]:
  "wh_inv cfg (minc n s) = wh_inv cfg s" "wh_inv cfg (mgauge n v s) = wh_inv cfg s"
  by (simp_all add: wh_inv_def)

lemma sweep_certs_cache [simp]:
  "certCache (sweep_certs now s) = filter (\<lambda>(u, e). \<not> e \<le> now) (certCache s)"
  by (simp add: sweep_certs_def Let_def)

lemma note_cert_inv:
  assumes inv: "wh_inv cfg s" and pos: "0 < wh_certCacheMax cfg"
  shows "wh_inv cfg (snd (note_cert parse_url cfg now url fp s))"
proof -
  have ok: "jm_ok (AList.delete u (certCache (sweep_certs now s)))" for u
    using inv by (simp add: wh_inv_def)
  have grow: "wh_inv cfg (s'\<lparr>certCache := AList.update u e
      (snd (evict_while (\<lambda>size. size \<ge> wh_certCacheMax cfg) m))\<rparr>)" if "jm_ok m" for u e s' m
    using evict_room [OF that pos] by (simp add: wh_inv_def length_update_jm)
  have swept: "wh_inv cfg (sweep_certs now s)"
    using inv by (auto simp: wh_inv_def intro: order_trans [OF iffD2 [OF of_nat_le_iff length_filter_le]])
  show ?thesis
    using inv swept grow [OF ok]
    by (simp add: note_cert_def Let_def trim_cert_cache_def)
qed

interpretation cert_run: run_invariant "wh_init m"
  "\<lambda>s (now, url, fp). snd (note_cert parse_url (wh_config env) now url fp s)" "wh_inv (wh_config env)"
  for m parse_url env
proof unfold_locales
  have pos: "0 < wh_certCacheMax (wh_config env)"
    using read_bounded_int_env_range [of 1 256 4096 "''GW_CERT_CACHE_MAX_SIZE''" env]
    by (simp add: wh_config_def)
  show "wh_inv (wh_config env) (wh_init m)" using pos by (simp add: wh_inv_def wh_init_def)
  fix s x assume "wh_inv (wh_config env) s"
  then show "wh_inv (wh_config env) ((\<lambda>(now, url, fp). snd (note_cert parse_url (wh_config env) now url fp s)) x)"
    using note_cert_inv [OF _ pos] by (cases x) simp
qed

section \<open>Properties\<close>

text \<open>
  C32: The Stripe check accepts exactly the deliveries that Stripe's scheme defines: body and secret
  are non-empty, the header is within its size and part limits and names no inherited property, its
  last \<open>t\<close> entry is a time within the tolerance of the clock, and one of its \<open>v1\<close> entries is the HMAC
  of that time, a dot and the body.
\<close>

theorem stripe_accepts_exactly:
  "verify_stripe hmac256 cfg now body sigHeader secret (Fin tol) = Inr True \<longleftrightarrow>
     body \<noteq> [] \<and> secret \<noteq> [] \<and>
     (\<exists>h ps. sigHeader = Some h \<and> stripe_parts cfg h = Some ps \<and> length ps \<le> 32
       \<and> \<not> names_inherited ps \<and> stripe_values ''t'' ps \<noteq> []
       \<and> (\<exists>ts. parse_int (last (stripe_values ''t'' ps)) = Some ts \<and> of_int \<bar>now - ts * 1000\<bar> \<le> tol)
       \<and> hmac256 secret (last (stripe_values ''t'' ps) @ ''.'' @ body) \<in> set (stripe_values ''v1'' ps))"
proof (cases sigHeader)
  case None
  then show ?thesis by (simp add: verify_stripe_def)
next
  case (Some h)
  show ?thesis
  proof (cases "stripe_parts cfg h")
    case None
    with Some show ?thesis by (auto simp: verify_stripe_def parse_stripe_spec)
  next
    case ps: (Some ps)
    then have "h \<noteq> []" by (auto simp: stripe_parts_def)
    moreover have "length ps \<le> 32 \<Longrightarrow> take 32 ps = ps" by simp
    ultimately show ?thesis
      using Some ps last_stripe_value [of "''t''" ps]
      by (auto simp: verify_stripe_def parse_stripe_spec Let_def safe_compare_hex_or_ascii_def list_ex_iff
          not_less split: option.splits if_splits)
  qed
qed


text \<open>
  Under every sequence of reported certificates the cache keeps at most
  \<open>GW_CERT_CACHE_MAX_SIZE\<close> URLs, each once.
\<close>

theorem cert_cache_bounded:
  "wh_inv (wh_config env)
     (foldl (\<lambda>s (now, url, fp). snd (note_cert parse_url (wh_config env) now url fp s)) (wh_init m) certs)"
  by (rule cert_run.inv_run)

text \<open>
  A certificate is let through exactly when no URL is given, or the URL is a plain \<open>https\<close> URL that
  starts with an allowed prefix, if any are configured, and its fingerprint is one of the pins, if
  any are configured; and then the URL is in the cache until a time to live later.
\<close>

theorem note_cert_exact:
  "fst (note_cert parse_url cfg now (Some u) fp s) \<longleftrightarrow>
     u = [] \<or> (is_valid_cert_url parse_url (Some u)
       \<and> (wh_allowPrefixes cfg = [] \<or> (\<exists>p \<in> set (wh_allowPrefixes cfg). starts_with u p))
       \<and> (wh_pins cfg = [] \<or> (\<exists>f. fp = Some f \<and> f \<noteq> [] \<and> f \<in> set (wh_pins cfg)))
       \<and> map_of (certCache (snd (note_cert parse_url cfg now (Some u) fp s))) u = Some (now + wh_certTtl cfg))"
  by (auto simp: note_cert_def Let_def cert_allowed_def cert_pinned_ok_def list_ex_iff split: option.splits)

text \<open>
  Without a shared secret a PayPal delivery is accepted only on PayPal's word: the certificate
  URL is a plain \<open>https\<close> URL, a webhook id and client credentials are configured, the API base is
  \<open>https\<close> and on the list of allowed hosts when there is one, and the verification service there
  answered \<open>SUCCESS\<close> for this event and webhook id.
\<close>

theorem paypal_remote_sound:
  assumes "verify_paypal we env body hs None traceId"
  shows "is_valid_cert_url (we_parse_url we) (hs ''paypal-cert-url'')
    \<and> (\<exists>base webhookId event token trace resp data.
         resolve_paypal_api_base (we_parse_url we) env = Some base \<and> up_protocol base = ''https:''
       \<and> (parse_paypal_api_allow_hosts (read_env_string ''PAYPAL_API_ALLOW_HOSTS'' env) = []
          \<or> to_lower (up_hostname base) \<in> set (parse_paypal_api_allow_hosts (read_env_string ''PAYPAL_API_ALLOW_HOSTS'' env)))
       \<and> read_env_string ''PAYPAL_WEBHOOK_ID'' env = Some webhookId
       \<and> paypal_token we env base (Some trace) = Some token
       \<and> parse_paypal_body (we_parse we) body = Some event
       \<and> we_fetch we (verify_request we base token trace hs webhookId event) = Responded resp \<and> rp_ok resp
       \<and> we_parse we (rp_body resp) = Inr (JObj data) \<and> jprop data ''verification_status'' = JStr ''SUCCESS'')"
proof -
  have base: "up_protocol b = ''https:'' \<and> (parse_paypal_api_allow_hosts (read_env_string ''PAYPAL_API_ALLOW_HOSTS'' env) = []
      \<or> to_lower (up_hostname b) \<in> set (parse_paypal_api_allow_hosts (read_env_string ''PAYPAL_API_ALLOW_HOSTS'' env)))"
    if "resolve_paypal_api_base (we_parse_url we) env = Some b" for b
    using that by (auto simp: resolve_paypal_api_base_def Let_def split: option.splits if_splits)
  define trace where "trace = (case resolve_trace_id traceId of Some t \<Rightarrow> t | None \<Rightarrow> we_uuid we)"
  note V = assms [unfolded verify_paypal_def Let_def, folded trace_def]
  from V obtain event where ev: "parse_paypal_body (we_parse we) body = Some event"
    by (auto split: option.splits if_splits)
  note V1 = V [unfolded ev option.case if_False, simplified]
  from V1 obtain wid where wid: "read_env_string ''PAYPAL_WEBHOOK_ID'' env = Some wid"
    by (auto split: option.splits if_splits)
  from V1 wid obtain b where b: "resolve_paypal_api_base (we_parse_url we) env = Some b"
    by (auto split: option.splits if_splits)
  from V1 wid b obtain token where tok: "paypal_token we env b (Some trace) = Some token"
    by (auto split: option.splits if_splits)
  obtain resp where
    r: "we_fetch we (verify_request we b token trace hs wid event) = Responded resp" "rp_ok resp"
    using V1 wid b tok
    by (cases "we_fetch we (verify_request we b token trace hs wid event)") (auto split: if_splits)
  obtain data where
    d: "we_parse we (rp_body resp) = Inr (JObj data)" "jprop data ''verification_status'' = JStr ''SUCCESS''"
    using V1 wid b tok r
    by (cases "we_parse we (rp_body resp)") (auto split: jsval.splits if_splits)
  have "is_valid_cert_url (we_parse_url we) (hs ''paypal-cert-url'')" using V1 by (auto split: if_splits)
  then show ?thesis using base [OF b] b wid tok ev r d by blast
qed

definition demo_url :: "string \<Rightarrow> url_parts option" where
  "demo_url s = (if starts_with s ''https:'' then
     Some \<lparr>up_protocol = ''https:'', up_username = [], up_password = [], up_hostname = ''api'', up_href = s\<rparr>
   else None)"

definition demo_fetch :: "http_request \<Rightarrow> fetch_outcome" where
  "demo_fetch req = Responded \<lparr>rp_ok = True, rp_status = 200,
     rp_body = (if ends_with (rq_url req) ''token'' then ''T'' else ''V'')\<rparr>"

definition demo_parse :: "string \<Rightarrow> string + jsval" where
  "demo_parse s =
     (if s = ''T'' then Inr (JObj [(''access_token'', JStr ''t'')])
      else if s = ''V'' then Inr (JObj [(''verification_status'', JStr ''SUCCESS'')])
      else Inr (JObj []))"

definition demo_we :: wh_env where
  "demo_we = \<lparr>we_fetch = demo_fetch, we_parse = demo_parse, we_parse_url = demo_url,
     we_base64 = (\<lambda>s. s), we_hmac256 = (\<lambda>k b. k @ b), we_show_num = (\<lambda>q. ''0''),
     we_to_string = (\<lambda>v. []), we_uuid = ''u''\<rparr>"

definition demo_paypal_env :: env where
  "demo_paypal_env = [''PAYPAL_WEBHOOK_ID'' \<mapsto> ''w'', ''PAYPAL_CLIENT_ID'' \<mapsto> ''c'',
     ''PAYPAL_CLIENT_SECRET'' \<mapsto> ''s'']"

lemma paypal_remote_witness:
  "is_valid_cert_url demo_url (Some ''https://c'')"
proof -
  have "verify_paypal demo_we demo_paypal_env ''b'' [''paypal-cert-url'' \<mapsto> ''https://c''] None None"
    by code_simp
  from paypal_remote_sound [OF this] show ?thesis by (simp add: demo_we_def)
qed

end
