(* ===== verification/DmConfig.thy ===== *)
theory DmConfig
  imports Json
begin

text \<open>
  Onboarding of a domain in the async worker: the DNS TXT record
  (\<open>src/workers/async-worker/src/dnsTxtParser.ts\<close>), the config it names
  (\<open>configValidator.ts\<close>) and the config's signature (\<open>configSignatureVerifier.ts\<close>). URL parsing,
  \<open>atob\<close> and the signature primitives of WebCrypto are parameters.
\<close>

record 'c dm_error =
  de_code :: 'c
  de_message :: string
  de_field :: "string option"

definition dm_fail :: "'c \<Rightarrow> string \<Rightarrow> string option \<Rightarrow> 'c dm_error + 'a" where
  "dm_fail code msg field = Inl \<lparr>de_code = code, de_message = msg, de_field = field\<rparr>"

section \<open>The TXT record\<close>

datatype txt_code =
    TxtInvalidType | TxtEmpty | TxtInvalidPair | TxtDuplicateKey | TxtUnknownKey | TxtMissingField
  | TxtInvalidVersion | TxtInvalidCfg | TxtInvalidKid | TxtInvalidTtl

record dm_txt_envelope =
  te_cfg :: string
  te_kid :: string
  te_ttl :: int

definition id_char :: "char \<Rightarrow> bool" where
  "id_char c \<longleftrightarrow> is_alnum c \<or> c = CHR ''_'' \<or> c = CHR ''-''"

definition cfg_tx_re :: "string \<Rightarrow> bool" where
  "cfg_tx_re s = matches_class id_char 32 128 s"

definition kid_re :: "string \<Rightarrow> bool" where
  "kid_re s = matches_class id_char 32 128 s"

definition txt_keys :: "string list" where
  "txt_keys = [''v'', ''cfg'', ''kid'', ''ttl'']"

definition min_ttl_seconds :: int where
  "min_ttl_seconds = 60"

definition max_ttl_seconds :: int where
  "max_ttl_seconds = 86400"

fun parse_pairs_loop :: "string list \<Rightarrow> string jmap \<Rightarrow> txt_code dm_error + string jmap" where
  "parse_pairs_loop [] result = Inr result"
| "parse_pairs_loop (segment # segments) result =
     (let trimmed = trim segment in
      if trimmed = [] then parse_pairs_loop segments result
      else
        let eqIdx = index_of CHR ''='' trimmed in
        if eqIdx \<le> 0 \<or> eqIdx = int (length trimmed) - 1 then
          dm_fail TxtInvalidPair ''TXT segment must be key=value.'' (Some ''txt'')
        else
          let key = to_lower (trim (take (nat eqIdx) trimmed));
              value = trim (drop (nat eqIdx + 1) trimmed) in
          if key \<notin> set txt_keys then
            dm_fail TxtUnknownKey (''Unsupported TXT key: '' @ key @ ''.'') (Some key)
          else if map_of result key \<noteq> None then
            dm_fail TxtDuplicateKey (''Duplicate TXT key: '' @ key @ ''.'') (Some key)
          else parse_pairs_loop segments (AList.update key value result))"

definition parse_pairs :: "string \<Rightarrow> txt_code dm_error + string jmap" where
  "parse_pairs rawTxt = parse_pairs_loop (split_on CHR '';'' rawTxt) []"

text \<open>The first required key without a value.\<close>

fun missing_field :: "string list \<Rightarrow> string jmap \<Rightarrow> string option" where
  "missing_field [] m = None"
| "missing_field (key # keys) m =
     (if (case map_of m key of None \<Rightarrow> True | Some v \<Rightarrow> v = []) then Some key else missing_field keys m)"

definition parse_dm_txt_payload :: "jsval \<Rightarrow> txt_code dm_error + string jmap" where
  "parse_dm_txt_payload raw =
     (case raw of
        JStr r \<Rightarrow>
          let txt = trim r in
          if txt = [] then dm_fail TxtEmpty ''TXT payload cannot be empty.'' (Some ''txt'')
          else (case parse_pairs txt of
              Inl e \<Rightarrow> Inl e
            | Inr pairs \<Rightarrow>
                (case missing_field txt_keys pairs of
                   Some key \<Rightarrow> dm_fail TxtMissingField (''Missing TXT field: '' @ key @ ''.'') (Some key)
                 | None \<Rightarrow> Inr pairs))
      | _ \<Rightarrow> dm_fail TxtInvalidType ''TXT payload must be a string.'' (Some ''txt''))"

definition pair_of :: "string jmap \<Rightarrow> string \<Rightarrow> string" where
  "pair_of m key = (case map_of m key of None \<Rightarrow> [] | Some v \<Rightarrow> v)"

definition validate_dm_txt_envelope :: "string jmap \<Rightarrow> txt_code dm_error + dm_txt_envelope" where
  "validate_dm_txt_envelope parsed =
     (let v = pair_of parsed ''v''; cfg = pair_of parsed ''cfg''; kid = pair_of parsed ''kid'';
          ttlRaw = pair_of parsed ''ttl'' in
      if v \<noteq> ''dm1'' then
        dm_fail TxtInvalidVersion ''Unsupported TXT version. Expected dm1.'' (Some ''v'')
      else if \<not> cfg_tx_re cfg then
        dm_fail TxtInvalidCfg ''cfg must be a valid Arweave transaction id.'' (Some ''cfg'')
      else if \<not> kid_re kid then
        dm_fail TxtInvalidKid ''kid must be a valid Arweave address format.'' (Some ''kid'')
      else if \<not> (ttlRaw \<noteq> [] \<and> list_all is_digit ttlRaw) then
        dm_fail TxtInvalidTtl ''ttl must be an integer in seconds.'' (Some ''ttl'')
      else
        let ttl = (case parse_int ttlRaw of None \<Rightarrow> 0 | Some n \<Rightarrow> n) in
        if ttl < min_ttl_seconds \<or> ttl > max_ttl_seconds then
          dm_fail TxtInvalidTtl (''ttl must be between '' @ int_str min_ttl_seconds @ '' and ''
            @ int_str max_ttl_seconds @ '' seconds.'') (Some ''ttl'')
        else Inr \<lparr>te_cfg = cfg, te_kid = kid, te_ttl = ttl\<rparr>)"

definition parse_and_validate_dm_txt_envelope :: "jsval \<Rightarrow> txt_code dm_error + dm_txt_envelope" where
  "parse_and_validate_dm_txt_envelope raw =
     (case parse_dm_txt_payload raw of Inl e \<Rightarrow> Inl e | Inr parsed \<Rightarrow> validate_dm_txt_envelope parsed)"

section \<open>The config\<close>

datatype config_code =
    DomainInvalid | ConfigInvalidType | ConfigMissingField | ConfigInvalidField
  | ConfigInvalidTimeWindow | ConfigKidMismatch
  | SigInvalidPayload | SigInvalidPublicKey | SigInvalidSignatureEncoding | SigUnsupportedAlgorithm
  | SigWindowNotStarted | SigWindowExpired | SigVerificationFailed

type_synonym 'a cfg_result = "config_code dm_error + 'a"

record dm_config =
  dc_domain :: string
  dc_siteProcess :: string
  dc_writeProcess :: string
  dc_entryPath :: string
  dc_validFrom :: int
  dc_validTo :: int
  dc_sigAlg :: string
  dc_sig :: string
  dc_nonce :: string
  dc_owner :: string
  dc_kid :: "string option"

definition process_id_re :: "string \<Rightarrow> bool" where
  "process_id_re s = matches_class id_char 20 128 s"

definition sig_char :: "char \<Rightarrow> bool" where
  "sig_char c \<longleftrightarrow> is_alnum c \<or> c \<in> set ''+/_=-''"

definition sig_re :: "string \<Rightarrow> bool" where
  "sig_re s = matches_class sig_char 32 8192 s"

definition read_required_string :: "jobj \<Rightarrow> string \<Rightarrow> string cfg_result" where
  "read_required_string obj field =
     (case jprop obj field of
        JStr v \<Rightarrow>
          if trim v = [] then
            dm_fail ConfigMissingField (''Missing or invalid string field: '' @ field @ ''.'') (Some field)
          else Inr (trim v)
      | _ \<Rightarrow> dm_fail ConfigMissingField (''Missing or invalid string field: '' @ field @ ''.'') (Some field))"

definition read_required_integer :: "jobj \<Rightarrow> string \<Rightarrow> int cfg_result" where
  "read_required_integer obj field =
     (case jprop obj field of
        JNum n \<Rightarrow>
          if \<not> is_finite n \<or> \<not> is_integer n then
            dm_fail ConfigInvalidField (''Field '' @ field @ '' must be an integer.'') (Some field)
          else
            let v = (case n of Fin q \<Rightarrow> \<lfloor>q\<rfloor> | _ \<Rightarrow> 0) in
            if v \<le> 0 then
              dm_fail ConfigInvalidField (''Field '' @ field @ '' must be greater than zero.'') (Some field)
            else Inr v
      | _ \<Rightarrow> dm_fail ConfigInvalidField (''Field '' @ field @ '' must be an integer.'') (Some field))"

definition label_ok :: "string \<Rightarrow> bool" where
  "label_ok label \<longleftrightarrow>
     list_all (\<lambda>c. is_lower c \<or> is_digit c \<or> c = CHR ''-'') label
     \<and> \<not> starts_with label ''-'' \<and> \<not> ends_with label ''-''"

fun check_labels :: "string list \<Rightarrow> unit cfg_result" where
  "check_labels [] = Inr ()"
| "check_labels (label # labels) =
     (if label = [] \<or> length label > 63 then
        dm_fail DomainInvalid ''Domain label length is invalid.'' (Some ''domain'')
      else if \<not> label_ok label then
        dm_fail DomainInvalid ''Domain contains invalid characters.'' (Some ''domain'')
      else check_labels labels)"

definition strip_trailing_dots :: "string \<Rightarrow> string" where
  "strip_trailing_dots s = rev (dropWhile (\<lambda>c. c = CHR ''.'') (rev s))"

definition canonicalize_domain :: "(string \<Rightarrow> url_parts option) \<Rightarrow> jsval \<Rightarrow> string cfg_result" where
  "canonicalize_domain parse_url input =
     (case input of
        JStr raw \<Rightarrow>
          let trimmed = to_lower (trim raw) in
          if trimmed = [] then dm_fail DomainInvalid ''Domain cannot be empty.'' (Some ''domain'')
          else if includes_str trimmed ''://'' \<or> includes_str trimmed ''/'' \<or> includes_str trimmed ''?''
               \<or> includes_str trimmed ''#'' then
            dm_fail DomainInvalid ''Domain must be a host only, without scheme or path.'' (Some ''domain'')
          else
            let bare = strip_trailing_dots trimmed in
            if bare = [] then dm_fail DomainInvalid ''Domain cannot be only dots.'' (Some ''domain'')
            else (case parse_url (''http://'' @ bare) of
                None \<Rightarrow> dm_fail DomainInvalid ''Domain is not parseable as a valid hostname.'' (Some ''domain'')
              | Some u \<Rightarrow>
                  let canonicalHost = to_lower (up_hostname u) in
                  if canonicalHost = [] \<or> length canonicalHost > 253 \<or> \<not> includes_str canonicalHost ''.'' then
                    dm_fail DomainInvalid ''Domain must be a valid FQDN.'' (Some ''domain'')
                  else (case check_labels (split_on CHR ''.'' canonicalHost) of
                      Inl e \<Rightarrow> Inl e
                    | Inr _ \<Rightarrow> Inr canonicalHost))
      | _ \<Rightarrow> dm_fail DomainInvalid ''Domain must be a string.'' (Some ''domain''))"

text \<open>\<open>if (!r.ok) return r\<close>, then the rest with its value.\<close>

definition cfg_bind :: "'a cfg_result \<Rightarrow> ('a \<Rightarrow> 'b cfg_result) \<Rightarrow> 'b cfg_result" where
  "cfg_bind r k = (case r of Inl e \<Rightarrow> Inl e | Inr v \<Rightarrow> k v)"

definition require :: "bool \<Rightarrow> config_code \<Rightarrow> string \<Rightarrow> string \<Rightarrow> 'b cfg_result \<Rightarrow> 'b cfg_result" where
  "require ok code msg field k = (if \<not> ok then dm_fail code msg (Some field) else k)"

definition validate_dm_config_json :: "(string \<Rightarrow> url_parts option) \<Rightarrow> jsval \<Rightarrow> dm_config cfg_result" where
  "validate_dm_config_json parse_url input =
     (case as_obj input of
        None \<Rightarrow> dm_fail ConfigInvalidType ''Config payload must be a JSON object.'' (Some ''config'')
      | Some obj \<Rightarrow>
          cfg_bind (read_required_string obj ''v'') (\<lambda>version.
          require (version = ''dm1'') ConfigInvalidField ''Config v must be dm1.'' ''v'' (
          cfg_bind (read_required_string obj ''domain'') (\<lambda>domainField.
          cfg_bind (canonicalize_domain parse_url (JStr domainField)) (\<lambda>domain.
          cfg_bind (read_required_string obj ''siteProcess'') (\<lambda>siteProcess.
          require (process_id_re siteProcess) ConfigInvalidField ''siteProcess format is invalid.'' ''siteProcess'' (
          cfg_bind (read_required_string obj ''writeProcess'') (\<lambda>writeProcess.
          require (process_id_re writeProcess) ConfigInvalidField ''writeProcess format is invalid.'' ''writeProcess'' (
          cfg_bind (read_required_string obj ''entryPath'') (\<lambda>entryPath.
          require (starts_with entryPath ''/'') ConfigInvalidField ''entryPath must start with \"/\".'' ''entryPath'' (
          cfg_bind (read_required_integer obj ''validFrom'') (\<lambda>validFrom.
          cfg_bind (read_required_integer obj ''validTo'') (\<lambda>validTo.
          require (\<not> validTo \<le> validFrom) ConfigInvalidTimeWindow ''validTo must be greater than validFrom.'' ''validTo'' (
          cfg_bind (read_required_string obj ''sigAlg'') (\<lambda>sigAlg.
          require (sigAlg = ''ed25519'' \<or> sigAlg = ''rsa-pss-sha256'') ConfigInvalidField
            ''sigAlg must be ed25519 or rsa-pss-sha256.'' ''sigAlg'' (
          cfg_bind (read_required_string obj ''sig'') (\<lambda>sig.
          require (sig_re sig) ConfigInvalidField ''sig must be a base64/base64url-like string.'' ''sig'' (
          cfg_bind (read_required_string obj ''owner'') (\<lambda>owner.
          cfg_bind (read_required_string obj ''nonce'') (\<lambda>nonce.
          require (case jprop obj ''kid'' of JUndef \<Rightarrow> True | JStr k \<Rightarrow> trim k \<noteq> [] | _ \<Rightarrow> False)
            ConfigInvalidField ''kid must be a non-empty string when provided.'' ''kid'' (
          Inr \<lparr>dc_domain = domain, dc_siteProcess = siteProcess, dc_writeProcess = writeProcess,
               dc_entryPath = entryPath, dc_validFrom = validFrom, dc_validTo = validTo,
               dc_sigAlg = sigAlg, dc_sig = sig, dc_nonce = nonce, dc_owner = owner,
               dc_kid = (case jprop obj ''kid'' of JStr k \<Rightarrow> Some (trim k) | _ \<Rightarrow> None)\<rparr>)))))))))))))))))))))"

definition validate_config_kid_against_txt :: "dm_config \<Rightarrow> dm_txt_envelope \<Rightarrow> dm_config cfg_result" where
  "validate_config_kid_against_txt config env =
     (let candidate = (case dc_kid config of Some k \<Rightarrow> k | None \<Rightarrow> dc_owner config) in
      if candidate \<noteq> [] \<and> candidate \<noteq> te_kid env then
        dm_fail ConfigKidMismatch ''Config kid/owner does not match TXT kid.'' (Some ''kid'')
      else Inr config)"

section \<open>The signature\<close>

text \<open>What the verifier calls: \<open>atob\<close> and the two WebCrypto verifications, each of them \<^term>\<open>False\<close> where
  the call fails or throws.\<close>

record dm_crypto =
  dy_atob :: "string \<Rightarrow> nat list option"
  dy_ed25519 :: "nat list \<Rightarrow> nat list \<Rightarrow> nat list \<Rightarrow> bool"
  dy_rsa_pss :: "nat list \<Rightarrow> nat list \<Rightarrow> nat list \<Rightarrow> bool"

datatype public_key = KeyText string | KeyBytes "nat list"

definition base64_url_to_bytes :: "dm_crypto \<Rightarrow> string \<Rightarrow> nat list option" where
  "base64_url_to_bytes cy input =
     (if input = [] \<or> \<not> list_all sig_char input then None
      else
        let normalized = map (\<lambda>c. if c = CHR ''-'' then CHR ''+'' else if c = CHR ''_'' then CHR ''/'' else c) input;
            r = length normalized mod 4;
            paddingLength = (4 - (if r = 0 then 4 else r)) mod 4
        in dy_atob cy (normalized @ replicate paddingLength CHR ''=''))"

definition normalize_public_key :: "dm_crypto \<Rightarrow> public_key \<Rightarrow> nat list option" where
  "normalize_public_key cy key =
     (case key of
        KeyBytes bs \<Rightarrow> if length bs > 0 then Some bs else None
      | KeyText t \<Rightarrow> base64_url_to_bytes cy t)"

definition resolve_public_key :: "dm_crypto \<Rightarrow> public_key option \<Rightarrow> public_key option \<Rightarrow> nat list option" where
  "resolve_public_key cy configKey optionKey =
     (case (case optionKey of Some k \<Rightarrow> Some k | None \<Rightarrow> configKey) of
        None \<Rightarrow> None
      | Some k \<Rightarrow> if k = KeyText [] then None else normalize_public_key cy k)"

definition build_dm1_signature_payload :: "dm_config \<Rightarrow> string cfg_result" where
  "build_dm1_signature_payload config =
     (if dc_domain config = [] \<or> dc_owner config = [] \<or> dc_nonce config = [] then
        dm_fail SigInvalidPayload ''domain, owner and nonce are required in signature payload.'' None
      else Inr (CHR 0x7B # json_quote ''domain'' @ '':'' @ json_quote (dc_domain config) @ '',''
        @ json_quote ''nonce'' @ '':'' @ json_quote (dc_nonce config) @ '',''
        @ json_quote ''owner'' @ '':'' @ json_quote (dc_owner config) @ '',''
        @ json_quote ''sigAlg'' @ '':'' @ json_quote (dc_sigAlg config) @ '',''
        @ json_quote ''v'' @ '':'' @ json_quote ''dm1'' @ '',''
        @ json_quote ''validFrom'' @ '':'' @ int_str (dc_validFrom config) @ '',''
        @ json_quote ''validTo'' @ '':'' @ int_str (dc_validTo config) @ [CHR 0x7D]))"

text \<open>
  \<open>SUPPORTED_SIGNATURE_VERIFIERS[config.sigAlg]\<close> and the awaited call. The table is a plain object, so
  an inherited name finds an inherited function: \<open>constructor\<close> and \<open>toString\<close> return something
  truthy whatever they are given, the others throw. \<^term>\<open>None\<close>: no verifier;
  \<open>Some None\<close>: the call throws.
\<close>

definition signature_verifier ::
  "dm_crypto \<Rightarrow> string \<Rightarrow> (nat list \<Rightarrow> nat list \<Rightarrow> nat list \<Rightarrow> bool option) option" where
  "signature_verifier cy alg =
     (if alg = ''ed25519'' then Some (\<lambda>p s k. Some (dy_ed25519 cy p s k))
      else if alg = ''rsa-pss-sha256'' then Some (\<lambda>p s k. Some (dy_rsa_pss cy p s k))
      else if alg \<in> {''constructor'', ''toString''} then Some (\<lambda>p s k. Some True)
      else if alg \<in> set object_prototype_keys then Some (\<lambda>p s k. None)
      else None)"

definition utf8_nats :: "string \<Rightarrow> nat list" where
  "utf8_nats s = concat (map (\<lambda>c. let n = of_char c in if n < 128 then [n] else [192 + n div 64, 128 + n mod 64]) s)"

text \<open>The result is \<^term>\<open>None\<close> where an exception escapes.\<close>

definition verify_dm_config_signature ::
  "dm_crypto \<Rightarrow> int \<Rightarrow> dm_config \<Rightarrow> public_key option \<Rightarrow> public_key option \<Rightarrow> string cfg_result option" where
  "verify_dm_config_signature cy now config configKey optionKey =
     (case signature_verifier cy (dc_sigAlg config) of
        None \<Rightarrow> Some (dm_fail SigUnsupportedAlgorithm
          (''Unsupported signature algorithm: '' @ dc_sigAlg config @ ''.'') (Some ''sigAlg''))
      | Some verifier \<Rightarrow>
          if now < dc_validFrom config then
            Some (dm_fail SigWindowNotStarted ''Config is not yet valid.'' (Some ''validFrom''))
          else if now > dc_validTo config then
            Some (dm_fail SigWindowExpired ''Config validity window has expired.'' (Some ''validTo''))
          else (case build_dm1_signature_payload config of
              Inl e \<Rightarrow> Some (Inl e)
            | Inr payload \<Rightarrow>
                (case resolve_public_key cy configKey optionKey of
                   None \<Rightarrow> Some (dm_fail SigInvalidPublicKey
                     ''Public key is invalid, empty, or missing in config/options.'' (Some ''publicKey''))
                 | Some key \<Rightarrow>
                     (case base64_url_to_bytes cy (dc_sig config) of
                        None \<Rightarrow> Some (dm_fail SigInvalidSignatureEncoding
                          ''Signature must be a base64/base64url-encoded string.'' (Some ''sig''))
                      | Some sigBytes \<Rightarrow>
                          (case verifier (utf8_nats payload) sigBytes key of
                             None \<Rightarrow> None
                           | Some verified \<Rightarrow>
                               Some (if \<not> verified then
                                   dm_fail SigVerificationFailed ''Signature verification failed.'' (Some ''sig'')
                                 else Inr payload))))))"

definition verify_validated_dm_config_signature ::
  "dm_crypto \<Rightarrow> int \<Rightarrow> dm_config \<Rightarrow> public_key \<Rightarrow> dm_config cfg_result option" where
  "verify_validated_dm_config_signature cy now config key =
     map_option (\<lambda>r. case r of Inl e \<Rightarrow> Inl e | Inr _ \<Rightarrow> Inr config)
       (verify_dm_config_signature cy now config None (Some key))"

definition validate_and_verify_dm_config ::
  "(string \<Rightarrow> url_parts option) \<Rightarrow> dm_crypto \<Rightarrow> int \<Rightarrow> jsval \<Rightarrow> public_key \<Rightarrow> dm_config cfg_result option" where
  "validate_and_verify_dm_config parse_url cy now input key =
     (case validate_dm_config_json parse_url input of
        Inl e \<Rightarrow> Some (Inl e)
      | Inr config \<Rightarrow> verify_validated_dm_config_signature cy now config key)"

section \<open>Properties\<close>

definition valid_envelope :: "dm_txt_envelope \<Rightarrow> bool" where
  "valid_envelope e \<longleftrightarrow> cfg_tx_re (te_cfg e) \<and> kid_re (te_kid e)
     \<and> min_ttl_seconds \<le> te_ttl e \<and> te_ttl e \<le> max_ttl_seconds"

text \<open>The record as the onboarding documentation writes it.\<close>

definition render_txt :: "dm_txt_envelope \<Rightarrow> string" where
  "render_txt e = join_with '';''
     [''v=dm1'', ''cfg='' @ te_cfg e, ''kid='' @ te_kid e, ''ttl='' @ nat_str (nat (te_ttl e))]"

lemma id_charD: "id_char c \<Longrightarrow> \<not> js_ws c \<and> c \<noteq> CHR '';'' \<and> c \<noteq> CHR ''=''"
  using alnum_not_ws [of c] alnum_ne [of c] by (auto simp: id_char_def js_ws_def)

lemma pair_segment:
  assumes "list_all (\<lambda>c. \<not> js_ws c) v" and "v \<noteq> []" and "k \<in> set txt_keys" and "map_of result k = None"
  shows "parse_pairs_loop ((k @ CHR ''='' # v) # segs) result = parse_pairs_loop segs (AList.update k v result)"
proof -
  have k: "list_all (\<lambda>c. \<not> js_ws c) k" "to_lower k = k" "k \<noteq> []" "CHR ''='' \<notin> set k"
    using assms(3) by (auto simp: txt_keys_def js_ws_def lower_char_def)
  have t: "trim (k @ CHR ''='' # v) = k @ CHR ''='' # v"
    using k(1) assms(1) by (intro trim_no_ws) (simp add: js_ws_def)
  have i: "index_of CHR ''='' (k @ CHR ''='' # v) = int (length k)"
    using index_of_first [OF k(4), of 0 v] by simp
  show ?thesis
    using k assms trim_no_ws [OF k(1)] trim_no_ws [OF assms(1)]
    by (simp add: t i Let_def)
qed

lemma parse_render:
  assumes "valid_envelope e"
  shows "parse_and_validate_dm_txt_envelope (JStr (render_txt e)) = Inr e"
proof -
  define ttl where "ttl = nat_str (nat (te_ttl e))"
  have ids: "list_all id_char (te_cfg e)" "list_all id_char (te_kid e)" "te_cfg e \<noteq> []" "te_kid e \<noteq> []"
    using assms by (auto simp: valid_envelope_def cfg_tx_re_def kid_re_def matches_class_def)
  have ws: "list_all (\<lambda>c. \<not> js_ws c) (te_cfg e)" "list_all (\<lambda>c. \<not> js_ws c) (te_kid e)"
    "list_all (\<lambda>c. \<not> js_ws c) ttl" "list_all (\<lambda>c. \<not> js_ws c) ''dm1''"
    using ids id_charD nat_str_no_ws by (auto simp: list_all_iff ttl_def js_ws_def)
  let ?segs = "[''v'' @ CHR ''='' # ''dm1'', ''cfg'' @ CHR ''='' # te_cfg e, ''kid'' @ CHR ''='' # te_kid e,
    ''ttl'' @ CHR ''='' # ttl]"
  have semi: "\<forall>w \<in> set ?segs. CHR '';'' \<notin> set w"
    using ids id_charD nat_str_digits [of "nat (te_ttl e)"] by (auto simp: list_all_iff ttl_def is_digit_def)
  have r: "render_txt e = join_with '';'' ?segs" by (simp add: render_txt_def ttl_def)
  have tr: "trim (render_txt e) = render_txt e"
    unfolding r using ws by (intro trim_no_ws) (simp add: js_ws_def)
  have ttl: "ttl \<noteq> []" "list_all is_digit ttl" "parse_int ttl = Some (te_ttl e)"
    using assms by (simp_all add: ttl_def valid_envelope_def min_ttl_seconds_def)
  have pairs: "parse_pairs (render_txt e)
    = Inr [(''v'', ''dm1''), (''cfg'', te_cfg e), (''kid'', te_kid e), (''ttl'', ttl)]"
    unfolding parse_pairs_def r split_on_join [OF list.distinct(2) semi]
    by (subst pair_segment [OF ws(4)], simp, simp add: txt_keys_def, simp)
      (subst pair_segment [OF ws(1) ids(3)], simp add: txt_keys_def, simp,
        subst pair_segment [OF ws(2) ids(4)], simp add: txt_keys_def, simp,
        subst pair_segment [OF ws(3) ttl(1)], simp add: txt_keys_def, simp, simp)
  show ?thesis
    using assms ids ttl
    by (simp add: parse_and_validate_dm_txt_envelope_def parse_dm_txt_payload_def Let_def tr pairs
        txt_keys_def validate_dm_txt_envelope_def pair_of_def valid_envelope_def not_less)
      (simp add: r)
qed

lemma parse_valid: "parse_and_validate_dm_txt_envelope raw = Inr e \<Longrightarrow> valid_envelope e"
  by (auto simp: parse_and_validate_dm_txt_envelope_def validate_dm_txt_envelope_def Let_def dm_fail_def
      valid_envelope_def split: sum.splits if_splits)

text \<open>
  C37: A TXT record is accepted into exactly the envelopes with a well-formed transaction id and key id
  and a time to live between a minute and a day, and every such envelope is read back from the
  record that announces it.
\<close>

theorem txt_record_exact:
  "((\<exists>raw. parse_and_validate_dm_txt_envelope raw = Inr e) \<longleftrightarrow> valid_envelope e)
   \<and> (valid_envelope e \<longleftrightarrow> parse_and_validate_dm_txt_envelope (JStr (render_txt e)) = Inr e)"
  using parse_render parse_valid by blast

lemma int_str_split:
  assumes "int_str i @ c # r = int_str j @ c # s" and "c \<in> {CHR '','', CHR 0x7D}"
  shows "i = j \<and> r = s"
proof -
  have "c \<notin> set (int_str n)" for n
    using int_str_chars [of n] assms(2) by (auto simp: list_all_iff is_digit_def)
  then show ?thesis using split_first_unique [of c "int_str i" "int_str j" r s] assms(1) by (auto dest: inj_int_str)
qed

text \<open>The signed fields of a config.\<close>

definition signed_fields :: "dm_config \<Rightarrow> string \<times> string \<times> string \<times> string \<times> int \<times> int" where
  "signed_fields c = (dc_domain c, dc_nonce c, dc_owner c, dc_sigAlg c, dc_validFrom c, dc_validTo c)"

lemma payload_inject:
  assumes "build_dm1_signature_payload c = Inr p" and "build_dm1_signature_payload d = Inr p"
  shows "signed_fields c = signed_fields d"
proof -
  note u = assms [unfolded build_dm1_signature_payload_def]
  have eq: "json_quote (dc_domain c) @ '','' @ json_quote ''nonce'' @ '':'' @ json_quote (dc_nonce c) @ '',''
        @ json_quote ''owner'' @ '':'' @ json_quote (dc_owner c) @ '',''
        @ json_quote ''sigAlg'' @ '':'' @ json_quote (dc_sigAlg c) @ '',''
        @ json_quote ''v'' @ '':'' @ json_quote ''dm1'' @ '',''
        @ json_quote ''validFrom'' @ '':'' @ int_str (dc_validFrom c) @ '',''
        @ json_quote ''validTo'' @ '':'' @ int_str (dc_validTo c) @ [CHR 0x7D]
    = json_quote (dc_domain d) @ '','' @ json_quote ''nonce'' @ '':'' @ json_quote (dc_nonce d) @ '',''
        @ json_quote ''owner'' @ '':'' @ json_quote (dc_owner d) @ '',''
        @ json_quote ''sigAlg'' @ '':'' @ json_quote (dc_sigAlg d) @ '',''
        @ json_quote ''v'' @ '':'' @ json_quote ''dm1'' @ '',''
        @ json_quote ''validFrom'' @ '':'' @ int_str (dc_validFrom d) @ '',''
        @ json_quote ''validTo'' @ '':'' @ int_str (dc_validTo d) @ [CHR 0x7D]"
    using u by (auto simp: dm_fail_def split: if_splits)
  note e1 = json_quote_split [OF eq]
  note e2 = json_quote_split [OF e1 [THEN conjunct2, unfolded append_same_eq append.assoc same_append_eq]]
  note e3 = json_quote_split [OF e2 [THEN conjunct2, unfolded append_same_eq append.assoc same_append_eq]]
  note e4 = json_quote_split [OF e3 [THEN conjunct2, unfolded append_same_eq append.assoc same_append_eq]]
  note e5 = e4 [THEN conjunct2, unfolded append_same_eq append.assoc same_append_eq]
  note e6 = int_str_split [OF e5 [unfolded append_Cons append_Nil], simplified]
  note e7 = inj_int_str [OF e6 [THEN conjunct2, unfolded append_same_eq append.assoc same_append_eq]]
  show ?thesis using e1 e2 e3 e4 e6 e7 by (simp add: signed_fields_def)
qed

text \<open>
  The signature of a config binds exactly its domain, nonce, owner, algorithm and validity
  window: two configs with those filled in have the same signed payload iff they agree on these
  six fields. In particular the site process, the write process, the entry path and the key id
  are not covered: a signature for one config is a signature for every config that differs only
  in where it sends the traffic.
\<close>

theorem signature_binds_exactly:
  assumes "build_dm1_signature_payload c = Inr p" and "dc_domain d \<noteq> []"
    and "dc_owner d \<noteq> []" and "dc_nonce d \<noteq> []"
  shows "build_dm1_signature_payload d = Inr p \<longleftrightarrow> signed_fields c = signed_fields d"
proof
  assume "signed_fields c = signed_fields d"
  then show "build_dm1_signature_payload d = Inr p"
    using assms by (simp add: build_dm1_signature_payload_def signed_fields_def split: if_splits)
qed (rule payload_inject [OF assms(1)])

definition demo_dm :: dm_config where
  "demo_dm = \<lparr>dc_domain = ''a.b'', dc_siteProcess = ''site'', dc_writeProcess = ''write'', dc_entryPath = ''/'',
     dc_validFrom = 1, dc_validTo = 9, dc_sigAlg = ''ed25519'', dc_sig = ''AAAA'', dc_nonce = ''n'',
     dc_owner = ''o'', dc_kid = None\<rparr>"

lemma signature_binds_witness:
  "\<exists>p. build_dm1_signature_payload demo_dm = Inr p
     \<and> build_dm1_signature_payload (demo_dm\<lparr>dc_siteProcess := ''evil'', dc_entryPath := ''/x''\<rparr>) = Inr p"
proof -
  obtain p where p: "build_dm1_signature_payload demo_dm = Inr p"
    by (simp add: build_dm1_signature_payload_def demo_dm_def)
  have "build_dm1_signature_payload (demo_dm\<lparr>dc_siteProcess := ''evil'', dc_entryPath := ''/x''\<rparr>) = Inr p"
    using signature_binds_exactly [OF p, of "demo_dm\<lparr>dc_siteProcess := ''evil'', dc_entryPath := ''/x''\<rparr>"]
    by (simp add: demo_dm_def signed_fields_def)
  with p show ?thesis by blast
qed

lemma cfg_bind_Inr: "cfg_bind r k = Inr v \<longleftrightarrow> (\<exists>x. r = Inr x \<and> k x = Inr v)"
  by (cases r) (auto simp: cfg_bind_def)

lemma require_Inr: "require ok code msg field k = Inr v \<longleftrightarrow> ok \<and> k = Inr v"
  by (simp add: require_def dm_fail_def)

lemma validated_config:
  assumes "validate_dm_config_json parse_url input = Inr config"
  shows "dc_sigAlg config \<in> {''ed25519'', ''rsa-pss-sha256''}" and "dc_validFrom config < dc_validTo config"
    and "process_id_re (dc_siteProcess config)" and "process_id_re (dc_writeProcess config)"
    and "starts_with (dc_entryPath config) ''/''"
  using assms
  by (auto simp: validate_dm_config_json_def cfg_bind_Inr require_Inr dm_fail_def split: option.splits)

lemma verify_validated_Inr:
  "verify_validated_dm_config_signature cy now c key = Some (Inr d) \<longleftrightarrow>
     d = c \<and> (\<exists>p. verify_dm_config_signature cy now c None (Some key) = Some (Inr p))"
proof (cases "verify_dm_config_signature cy now c None (Some key)")
  case (Some r)
  then show ?thesis by (cases r) (auto simp: verify_validated_dm_config_signature_def)
qed (simp add: verify_validated_dm_config_signature_def)

text \<open>
  C31: A config is accepted only with a genuine signature in force: if validation and verification
  succeed, the algorithm is one of the two supported ones, its primitive accepted the decoded
  signature of the config's payload under the decoded key, and the current second lies in the
  validity window.
\<close>

theorem accepted_config_is_signed:
  assumes "validate_and_verify_dm_config parse_url cy now input key = Some (Inr config)"
  shows "validate_dm_config_json parse_url input = Inr config
    \<and> dc_validFrom config \<le> now \<and> now \<le> dc_validTo config
    \<and> (\<exists>payload k s. build_dm1_signature_payload config = Inr payload
         \<and> normalize_public_key cy key = Some k \<and> base64_url_to_bytes cy (dc_sig config) = Some s
         \<and> ((dc_sigAlg config = ''ed25519'' \<and> dy_ed25519 cy (utf8_nats payload) s k)
            \<or> (dc_sigAlg config = ''rsa-pss-sha256'' \<and> dy_rsa_pss cy (utf8_nats payload) s k)))"
proof -
  from assms have v: "validate_dm_config_json parse_url input = Inr config"
    by (auto simp: validate_and_verify_dm_config_def verify_validated_Inr split: sum.splits)
  note alg = validated_config(1) [OF v]
  obtain payload where s: "verify_dm_config_signature cy now config None (Some key) = Some (Inr payload)"
    using assms v by (auto simp: validate_and_verify_dm_config_def verify_validated_Inr)
  obtain ver where ver: "signature_verifier cy (dc_sigAlg config) = Some ver"
    "(dc_sigAlg config = ''ed25519'' \<and> ver = (\<lambda>p s k. Some (dy_ed25519 cy p s k)))
     \<or> (dc_sigAlg config = ''rsa-pss-sha256'' \<and> ver = (\<lambda>p s k. Some (dy_rsa_pss cy p s k)))"
    using alg by (auto simp: signature_verifier_def)
  have key: "resolve_public_key cy None (Some key) = Some k \<Longrightarrow> normalize_public_key cy key = Some k" for k
    by (auto simp: resolve_public_key_def split: if_splits)
  from s ver(1) obtain k b where
    "dc_validFrom config \<le> now" "now \<le> dc_validTo config" "build_dm1_signature_payload config = Inr payload"
    "resolve_public_key cy None (Some key) = Some k" "base64_url_to_bytes cy (dc_sig config) = Some b"
    "ver (utf8_nats payload) b k = Some True"
    by (auto simp: verify_dm_config_signature_def dm_fail_def split: if_splits sum.splits option.splits)
  then show ?thesis using v ver(2) key by auto
qed

definition demo_crypto :: dm_crypto where
  "demo_crypto = \<lparr>dy_atob = (\<lambda>s. Some (map of_char s)), dy_ed25519 = (\<lambda>p s k. k = [65]),
     dy_rsa_pss = (\<lambda>p s k. False)\<rparr>"

definition demo_host :: "string \<Rightarrow> url_parts option" where
  "demo_host s = Some \<lparr>up_protocol = ''http:'', up_username = [], up_password = [],
     up_hostname = drop 7 s, up_href = s\<rparr>"

definition demo_payload :: jsval where
  "demo_payload = JObj
     [(''v'', JStr ''dm1''), (''domain'', JStr ''A.b.''), (''siteProcess'', JStr (replicate 20 CHR ''s'')),
      (''writeProcess'', JStr (replicate 20 CHR ''w'')), (''entryPath'', JStr ''/''),
      (''validFrom'', JNum (Fin 1)), (''validTo'', JNum (Fin 9)), (''sigAlg'', JStr ''ed25519''),
      (''sig'', JStr (replicate 32 CHR ''A'')), (''owner'', JStr ''o''), (''nonce'', JStr ''n'')]"

lemma accepted_config_witness:
  "\<exists>config. validate_dm_config_json demo_host demo_payload = Inr config \<and> dc_domain config = ''a.b''"
proof -
  have d: "map_option (map_sum id dc_domain)
      (validate_and_verify_dm_config demo_host demo_crypto 5 demo_payload (KeyBytes [65])) = Some (Inr ''a.b'')"
    by code_simp
  then obtain config where c: "validate_and_verify_dm_config demo_host demo_crypto 5 demo_payload (KeyBytes [65])
      = Some (Inr config)" "dc_domain config = ''a.b''"
    by (cases "validate_and_verify_dm_config demo_host demo_crypto 5 demo_payload (KeyBytes [65])")
      (auto simp: map_sum_def split: sum.splits)
  from accepted_config_is_signed [OF c(1)] c(2) show ?thesis by blast
qed

text \<open>Called on a config that was not validated first, the verifier does not protect: an algorithm name
  that objects inherit is taken for a supported one, and nothing is verified.\<close>

lemma inherited_algorithm_accepted:
  assumes "dc_sigAlg config = ''constructor''" and "dc_validFrom config \<le> now" and "now \<le> dc_validTo config"
    and "build_dm1_signature_payload config = Inr p" and "resolve_public_key cy ck ok = Some k"
    and "base64_url_to_bytes cy (dc_sig config) = Some s"
  shows "verify_dm_config_signature cy now config ck ok = Some (Inr p)"
  using assms by (simp add: verify_dm_config_signature_def signature_verifier_def)

end
