(* ===== verification/DomainMap.thy ===== *)
theory DomainMap
  imports Json
begin

text \<open>
  The domain map of the async worker: the persisted entries
  (\<open>src/workers/async-worker/src/domainMapStore.ts\<close>) and the state machine that refreshes and probes
  drive (\<open>domainStateMachine.ts\<close>). The key-value adapter is the record \<open>kv_ops\<close>, its contract the
  locale \<open>domain_kv\<close> and \<open>InMemoryDomainMapKvAdapter\<close> the instance. Times are rationals: what is
  persisted is any JSON number. A thrown \<open>Error\<close> is its message, on the left of a sum.
\<close>

datatype dm_status = Valid | Stale | Invalid

record dmap_error =
  er_code :: string
  er_message :: string
  er_at :: rat

record dm_entry =
  en_schemaVersion :: rat
  en_host :: string
  en_status :: dm_status
  en_cfgTx :: "string option"
  en_resolvedTarget :: "string option"
  en_writeProcess :: "string option"
  en_configHash :: "string option"
  en_verifiedAt :: "rat option"
  en_expiresAt :: "rat option"
  en_hbVerifiedAt :: "rat option"
  en_hardExpiresAt :: "rat option"
  en_lastError :: "dmap_error option"
  en_lastSuccessAt :: "rat option"
  en_lastErrorAt :: "rat option"
  en_lastErrorCode :: "string option"
  en_refreshAttempts :: rat
  en_updatedAt :: rat

section \<open>The store\<close>

record 's kv_ops =
  kv_put :: "string \<Rightarrow> string \<Rightarrow> 's \<Rightarrow> 's"
  kv_get :: "'s \<Rightarrow> string \<Rightarrow> string option"
  kv_list :: "'s \<Rightarrow> string \<Rightarrow> string list"
  kv_delete :: "string \<Rightarrow> 's \<Rightarrow> 's"

definition mem_kv_list :: "string jmap \<Rightarrow> string \<Rightarrow> string list" where
  "mem_kv_list st pfx = sort (filter (\<lambda>key. starts_with key pfx) (map fst st))"

definition mem_kv :: "string jmap kv_ops" where
  "mem_kv = \<lparr>kv_put = AList.update, kv_get = map_of, kv_list = mem_kv_list, kv_delete = AList.delete\<rparr>"

definition domain_key_prefix :: string where
  "domain_key_prefix = ''domain:''"

definition fallback_host :: string where
  "fallback_host = ''invalid.local''"

definition domain_map_schema_version :: int where
  "domain_map_schema_version = 2"

definition drop_trailing_dot :: "string \<Rightarrow> string" where
  "drop_trailing_dot s = (if s \<noteq> [] \<and> last s = CHR ''.'' then butlast s else s)"

definition normalize_domain_host :: "string \<Rightarrow> string + string" where
  "normalize_domain_host host =
     (let normalized = drop_trailing_dot (to_lower (trim host))
      in if normalized = [] then Inl ''domain_host_required'' else Inr normalized)"

definition domain_map_key :: "string \<Rightarrow> string + string" where
  "domain_map_key host = map_sum id (\<lambda>h. domain_key_prefix @ h) (normalize_domain_host host)"

definition empty_entry :: "string \<Rightarrow> rat \<Rightarrow> dm_entry" where
  "empty_entry normalizedHost nowMs =
     \<lparr>en_schemaVersion = of_int domain_map_schema_version, en_host = normalizedHost, en_status = Invalid,
      en_cfgTx = None, en_resolvedTarget = None, en_writeProcess = None, en_configHash = None,
      en_verifiedAt = None, en_expiresAt = None, en_hbVerifiedAt = None, en_hardExpiresAt = None,
      en_lastError = None, en_lastSuccessAt = None, en_lastErrorAt = None, en_lastErrorCode = None,
      en_refreshAttempts = 0, en_updatedAt = nowMs\<rparr>"

definition create_empty_domain_map_entry :: "string \<Rightarrow> rat \<Rightarrow> string + dm_entry" where
  "create_empty_domain_map_entry host nowMs =
     map_sum id (\<lambda>h. empty_entry h nowMs) (normalize_domain_host host)"

fun as_nullable_string :: "jsval \<Rightarrow> string option" where
  "as_nullable_string (JStr s) = Some s"
| "as_nullable_string _ = None"

fun as_nullable_number :: "jsval \<Rightarrow> rat option" where
  "as_nullable_number (JNum (Fin q)) = Some q"
| "as_nullable_number _ = None"

definition as_non_negative_int :: "jsval \<Rightarrow> int \<Rightarrow> int" where
  "as_non_negative_int value fallback =
     (case value of JNum (Fin q) \<Rightarrow> if q < 0 then fallback else \<lfloor>q\<rfloor> | _ \<Rightarrow> fallback)"

definition as_status :: "jsval \<Rightarrow> dm_status" where
  "as_status value =
     (if value = JStr ''valid'' then Valid else if value = JStr ''stale'' then Stale else Invalid)"

definition safe_normalize_domain_host :: "jsval \<Rightarrow> string option \<Rightarrow> string" where
  "safe_normalize_domain_host host hostHint =
     (let candidate = (case host of JStr h \<Rightarrow> h
            | _ \<Rightarrow> (case hostHint of Some h \<Rightarrow> h | None \<Rightarrow> fallback_host))
      in (case normalize_domain_host candidate of Inl _ \<Rightarrow> fallback_host | Inr h \<Rightarrow> h))"

definition or_default :: "'a option \<Rightarrow> 'a \<Rightarrow> 'a" where
  "or_default x d = (case x of None \<Rightarrow> d | Some v \<Rightarrow> v)"

definition parse_domain_map_error :: "jsval \<Rightarrow> rat \<Rightarrow> dmap_error option" where
  "parse_domain_map_error value nowMs =
     (case as_obj value of
        None \<Rightarrow> None
      | Some obj \<Rightarrow> Some
          \<lparr>er_code = or_default (as_nullable_string (jprop obj ''code'')) ''error'',
           er_message = or_default (as_nullable_string (jprop obj ''message'')) ''unknown_error'',
           er_at = or_default (as_nullable_number (jprop obj ''at'')) nowMs\<rparr>)"

definition make_corrupted_domain_map_entry ::
  "string option \<Rightarrow> rat \<Rightarrow> string \<Rightarrow> string \<Rightarrow> string + dm_entry" where
  "make_corrupted_domain_map_entry hostHint nowMs code message =
     map_sum id (\<lambda>e. e\<lparr>en_status := Invalid,
        en_lastError := Some \<lparr>er_code = code, er_message = message, er_at = nowMs\<rparr>,
        en_lastErrorAt := Some nowMs, en_lastErrorCode := Some code, en_updatedAt := nowMs\<rparr>)
       (create_empty_domain_map_entry (or_default hostHint fallback_host) nowMs)"

definition migrate_persisted_record :: "jobj \<Rightarrow> int \<Rightarrow> string option \<Rightarrow> rat \<Rightarrow> string + dm_entry" where
  "migrate_persisted_record parsed version hostHint nowMs =
     map_sum id (\<lambda>entry.
       let lastError = parse_domain_map_error (jprop parsed ''lastError'') nowMs;
           lastErrorAt = as_nullable_number (jprop parsed ''lastErrorAt'');
           lastErrorCode = as_nullable_string (jprop parsed ''lastErrorCode'');
           verifiedAt = as_nullable_number (jprop parsed ''verifiedAt'');
           lastSuccessAt = as_nullable_number (jprop parsed ''lastSuccessAt'') in
       entry\<lparr>en_schemaVersion := of_int domain_map_schema_version,
         en_status := as_status (jprop parsed ''status''),
         en_cfgTx := as_nullable_string (jprop parsed ''cfgTx''),
         en_resolvedTarget := as_nullable_string (jprop parsed ''resolvedTarget''),
         en_writeProcess := as_nullable_string (jprop parsed ''writeProcess''),
         en_configHash := as_nullable_string (jprop parsed ''configHash''),
         en_verifiedAt := verifiedAt,
         en_expiresAt := as_nullable_number (jprop parsed ''expiresAt''),
         en_hbVerifiedAt := as_nullable_number (jprop parsed ''hbVerifiedAt''),
         en_hardExpiresAt := as_nullable_number (jprop parsed ''hardExpiresAt''),
         en_lastError := lastError,
         en_lastSuccessAt := (if version \<le> 1 \<and> lastSuccessAt = None then verifiedAt else lastSuccessAt),
         en_lastErrorAt := (case (lastError, lastErrorAt) of
             (Some e, None) \<Rightarrow> Some (er_at e) | _ \<Rightarrow> lastErrorAt),
         en_lastErrorCode := (case (lastError, lastErrorCode) of
             (Some e, None) \<Rightarrow> Some (er_code e) | _ \<Rightarrow> lastErrorCode),
         en_refreshAttempts := of_int (as_non_negative_int (jprop parsed ''refreshAttempts'') 0),
         en_updatedAt := or_default (as_nullable_number (jprop parsed ''updatedAt'')) nowMs\<rparr>)
     (create_empty_domain_map_entry (safe_normalize_domain_host (jprop parsed ''host'') hostHint) nowMs)"

definition parse_domain_map_entry ::
  "(string \<Rightarrow> string + jsval) \<Rightarrow> rat \<Rightarrow> string \<Rightarrow> string option \<Rightarrow> string + dm_entry" where
  "parse_domain_map_entry parse nowMs raw hostHint =
     (case parse raw of
        Inl _ \<Rightarrow> make_corrupted_domain_map_entry hostHint nowMs ''corrupt_json''
          ''Failed to parse persisted domain record JSON.''
      | Inr v \<Rightarrow>
          (case as_obj v of
             None \<Rightarrow> make_corrupted_domain_map_entry hostHint nowMs ''invalid_shape''
               ''Persisted domain record is not an object.''
           | Some parsed \<Rightarrow>
               let versionRaw = jprop parsed ''schemaVersion'';
                   version = (if versionRaw = JUndef then 0 else as_non_negative_int versionRaw (- 1)) in
               if version < 0 then
                 make_corrupted_domain_map_entry hostHint nowMs ''invalid_schema_version''
                   ''Persisted domain record has invalid schemaVersion.''
               else if version > domain_map_schema_version then
                 make_corrupted_domain_map_entry
                   (Some (safe_normalize_domain_host (jprop parsed ''host'') hostHint)) nowMs
                   ''unsupported_schema_version''
                   (''Persisted domain record schemaVersion '' @ int_str version
                     @ '' is newer than supported '' @ int_str domain_map_schema_version @ ''.'')
               else migrate_persisted_record parsed version hostHint nowMs))"

definition opt_json :: "('a \<Rightarrow> jsval) \<Rightarrow> 'a option \<Rightarrow> jsval" where
  "opt_json f x = (case x of None \<Rightarrow> JNull | Some v \<Rightarrow> f v)"

definition num_json :: "rat \<Rightarrow> jsval" where
  "num_json q = JNum (Fin q)"

fun status_str :: "dm_status \<Rightarrow> string" where
  "status_str Valid = ''valid''"
| "status_str Stale = ''stale''"
| "status_str Invalid = ''invalid''"

definition error_json :: "dmap_error \<Rightarrow> jsval" where
  "error_json e = JObj [(''code'', JStr (er_code e)), (''message'', JStr (er_message e)), (''at'', num_json (er_at e))]"

text \<open>The entry as the value \<open>JSON.stringify\<close> prints.\<close>

definition entry_json :: "dm_entry \<Rightarrow> jsval" where
  "entry_json e = JObj
     [(''schemaVersion'', num_json (en_schemaVersion e)), (''host'', JStr (en_host e)),
      (''status'', JStr (status_str (en_status e))), (''cfgTx'', opt_json JStr (en_cfgTx e)),
      (''resolvedTarget'', opt_json JStr (en_resolvedTarget e)),
      (''writeProcess'', opt_json JStr (en_writeProcess e)), (''configHash'', opt_json JStr (en_configHash e)),
      (''verifiedAt'', opt_json num_json (en_verifiedAt e)), (''expiresAt'', opt_json num_json (en_expiresAt e)),
      (''hbVerifiedAt'', opt_json num_json (en_hbVerifiedAt e)),
      (''hardExpiresAt'', opt_json num_json (en_hardExpiresAt e)),
      (''lastError'', opt_json error_json (en_lastError e)),
      (''lastSuccessAt'', opt_json num_json (en_lastSuccessAt e)),
      (''lastErrorAt'', opt_json num_json (en_lastErrorAt e)),
      (''lastErrorCode'', opt_json JStr (en_lastErrorCode e)),
      (''refreshAttempts'', num_json (en_refreshAttempts e)), (''updatedAt'', num_json (en_updatedAt e))]"

definition get_domain_map_entry ::
  "'s kv_ops \<Rightarrow> (string \<Rightarrow> string + jsval) \<Rightarrow> rat \<Rightarrow> string \<Rightarrow> 's \<Rightarrow> string + dm_entry option" where
  "get_domain_map_entry kv parse nowMs host st =
     (case domain_map_key host of
        Inl e \<Rightarrow> Inl e
      | Inr key \<Rightarrow>
          (case kv_get kv st key of
             None \<Rightarrow> Inr None
           | Some raw \<Rightarrow> if raw = [] then Inr None
                         else map_sum id Some (parse_domain_map_entry parse nowMs raw (Some host))))"

definition put_domain_map_entry ::
  "'s kv_ops \<Rightarrow> (rat \<Rightarrow> string) \<Rightarrow> dm_entry \<Rightarrow> 's \<Rightarrow> string + 's" where
  "put_domain_map_entry kv show_num entry st =
     map_sum id (\<lambda>key. kv_put kv key (json_stringify show_num (entry_json entry)) st)
       (domain_map_key (en_host entry))"

definition delete_domain_map_entry :: "'s kv_ops \<Rightarrow> string \<Rightarrow> 's \<Rightarrow> string + 's" where
  "delete_domain_map_entry kv host st = map_sum id (\<lambda>key. kv_delete kv key st) (domain_map_key host)"

fun collect_entries :: "(string \<Rightarrow> string + dm_entry option) \<Rightarrow> string list \<Rightarrow> string + dm_entry list" where
  "collect_entries f [] = Inr []"
| "collect_entries f (key # keys) =
     (case f key of
        Inl e \<Rightarrow> Inl e
      | Inr x \<Rightarrow> (case collect_entries f keys of
            Inl e \<Rightarrow> Inl e
          | Inr es \<Rightarrow> Inr (case x of None \<Rightarrow> es | Some v \<Rightarrow> v # es)))"

definition list_domain_map_entries ::
  "'s kv_ops \<Rightarrow> (string \<Rightarrow> string + jsval) \<Rightarrow> rat \<Rightarrow> string option \<Rightarrow> 's \<Rightarrow> string + dm_entry list" where
  "list_domain_map_entries kv parse nowMs hostPrefix st =
     (case (case hostPrefix of None \<Rightarrow> Inr [] | Some p \<Rightarrow> if p = [] then Inr [] else normalize_domain_host p) of
        Inl e \<Rightarrow> Inl e
      | Inr normalizedPrefix \<Rightarrow>
          collect_entries (\<lambda>key.
              case kv_get kv st key of
                None \<Rightarrow> Inr None
              | Some raw \<Rightarrow>
                  if raw = [] then Inr None
                  else map_sum id Some (parse_domain_map_entry parse nowMs raw
                    (Some (if starts_with key domain_key_prefix then drop (length domain_key_prefix) key
                           else fallback_host))))
            (kv_list kv st (domain_key_prefix @ normalizedPrefix)))"

text \<open>A field of a patch is absent, or present with a value or \<open>null\<close>.\<close>

record dm_patch =
  pt_status :: "dm_status option option"
  pt_verifiedAt :: "rat option option"
  pt_expiresAt :: "rat option option"
  pt_hbVerifiedAt :: "rat option option"
  pt_hardExpiresAt :: "rat option option"
  pt_lastError :: "dmap_error option option"
  pt_lastSuccessAt :: "rat option option"
  pt_lastErrorAt :: "rat option option"
  pt_lastErrorCode :: "string option option"
  pt_refreshAttempts :: "rat option option"

definition apply_patch :: "dm_patch \<Rightarrow> rat \<Rightarrow> dm_entry \<Rightarrow> dm_entry" where
  "apply_patch p nowMs e =
     (let e1 = e\<lparr>en_status := (case pt_status p of None \<Rightarrow> en_status e | Some x \<Rightarrow> or_default x Invalid),
            en_verifiedAt := or_default (pt_verifiedAt p) (en_verifiedAt e),
            en_expiresAt := or_default (pt_expiresAt p) (en_expiresAt e),
            en_hbVerifiedAt := or_default (pt_hbVerifiedAt p) (en_hbVerifiedAt e),
            en_hardExpiresAt := or_default (pt_hardExpiresAt p) (en_hardExpiresAt e),
            en_lastError := or_default (pt_lastError p) (en_lastError e),
            en_lastSuccessAt := or_default (pt_lastSuccessAt p) (en_lastSuccessAt e),
            en_lastErrorAt := or_default (pt_lastErrorAt p) (en_lastErrorAt e),
            en_lastErrorCode := or_default (pt_lastErrorCode p) (en_lastErrorCode e),
            en_refreshAttempts := (case pt_refreshAttempts p of
                None \<Rightarrow> en_refreshAttempts e | Some x \<Rightarrow> or_default x 0)\<rparr>;
          e2 = (case pt_lastError p of
                  Some (Some err) \<Rightarrow> e1\<lparr>en_lastErrorAt := Some (er_at err), en_lastErrorCode := Some (er_code err)\<rparr>
                | _ \<Rightarrow> e1)
      in e2\<lparr>en_updatedAt := nowMs\<rparr>)"

definition upsert_domain_status_metadata ::
  "'s kv_ops \<Rightarrow> (string \<Rightarrow> string + jsval) \<Rightarrow> (rat \<Rightarrow> string) \<Rightarrow> rat \<Rightarrow> rat \<Rightarrow> string \<Rightarrow> dm_patch \<Rightarrow> 's
     \<Rightarrow> string + dm_entry \<times> 's" where
  "upsert_domain_status_metadata kv parse show_num clock nowMs host patch st =
     (case normalize_domain_host host of
        Inl e \<Rightarrow> Inl e
      | Inr normalizedHost \<Rightarrow>
          (case domain_map_key normalizedHost of
             Inl e \<Rightarrow> Inl e
           | Inr key \<Rightarrow>
               (case (case kv_get kv st key of
                        None \<Rightarrow> create_empty_domain_map_entry normalizedHost nowMs
                      | Some raw \<Rightarrow>
                          if raw = [] then create_empty_domain_map_entry normalizedHost nowMs
                          else parse_domain_map_entry parse clock raw (Some normalizedHost)) of
                  Inl e \<Rightarrow> Inl e
                | Inr entry \<Rightarrow>
                    let nxt = apply_patch patch nowMs entry
                    in Inr (nxt, kv_put kv key (json_stringify show_num (entry_json nxt)) st))))"

section \<open>The state machine\<close>

record sm_options =
  so_staleIfErrorMs :: "rat option"
  so_minTtlMs :: "rat option"
  so_maxTtlMs :: "rat option"

datatype dm_error_arg = ErrText string | ErrObj string string "rat option"

record refresh_success =
  rf_cfgTx :: string
  rf_resolvedTarget :: string
  rf_ttlMs :: rat
  rf_writeProcess :: "string option"
  rf_configHash :: "string option"
  rf_hbVerifiedAt :: "rat option"

datatype refresh_outcome = RefreshSuccess refresh_success | RefreshFailure dm_error_arg

datatype probe_outcome = ProbeSuccess | ProbeFailure dm_error_arg

definition stale_if_error_ms :: "sm_options \<Rightarrow> rat" where
  "stale_if_error_ms opts = or_default (so_staleIfErrorMs opts) (5 * 60 * 1000)"

definition clamp_ttl :: "rat \<Rightarrow> sm_options \<Rightarrow> rat" where
  "clamp_ttl ttlMs opts =
     (let minTtlMs = or_default (so_minTtlMs opts) 30000;
          maxTtlMs = or_default (so_maxTtlMs opts) (24 * 60 * 60 * 1000)
      in max minTtlMs (min ttlMs maxTtlMs))"

fun as_error :: "dm_error_arg \<Rightarrow> rat \<Rightarrow> dmap_error" where
  "as_error (ErrText msg) at' = \<lparr>er_code = ''error'', er_message = msg, er_at = at'\<rparr>"
| "as_error (ErrObj code msg t) at' =
     \<lparr>er_code = (if code = [] then ''error'' else code),
      er_message = (if msg = [] then ''unknown_error'' else msg), er_at = or_default t at'\<rparr>"

definition should_invalidate :: "dm_entry \<Rightarrow> rat \<Rightarrow> bool" where
  "should_invalidate e nowMs = (case en_hardExpiresAt e of None \<Rightarrow> False | Some h \<Rightarrow> nowMs > h)"

definition non_empty :: "string option \<Rightarrow> bool" where
  "non_empty x = (case x of None \<Rightarrow> False | Some s \<Rightarrow> s \<noteq> [])"

definition has_serveable_target :: "dm_entry \<Rightarrow> bool" where
  "has_serveable_target e \<longleftrightarrow> non_empty (en_cfgTx e) \<and> non_empty (en_resolvedTarget e)"

definition can_use_stale_if_error :: "dm_entry \<Rightarrow> rat \<Rightarrow> bool" where
  "can_use_stale_if_error e nowMs \<longleftrightarrow> has_serveable_target e
     \<and> (case en_hardExpiresAt e of None \<Rightarrow> False | Some h \<Rightarrow> nowMs \<le> h)"

definition with_status :: "dm_entry \<Rightarrow> dm_status \<Rightarrow> rat \<Rightarrow> dm_entry" where
  "with_status e st nowMs = e\<lparr>en_status := st, en_updatedAt := nowMs\<rparr>"

definition apply_hard_expiry :: "dm_entry \<Rightarrow> rat \<Rightarrow> dm_entry" where
  "apply_hard_expiry e nowMs =
     (if \<not> should_invalidate e nowMs then e
      else e\<lparr>en_status := Invalid,
             en_lastErrorCode := (case en_lastErrorCode e of None \<Rightarrow> Some ''hard_expired'' | c \<Rightarrow> c),
             en_updatedAt := nowMs\<rparr>)"

text \<open>\<open>current ?? createEmptyDomainMapEntry(host, nowMs)\<close>\<close>

definition current_or_empty :: "dm_entry option \<Rightarrow> string \<Rightarrow> rat \<Rightarrow> string + dm_entry" where
  "current_or_empty current host nowMs =
     (case current of Some e \<Rightarrow> Inr e | None \<Rightarrow> create_empty_domain_map_entry host nowMs)"

definition refresh_entry :: "refresh_outcome \<Rightarrow> rat \<Rightarrow> sm_options \<Rightarrow> dm_entry \<Rightarrow> dm_entry" where
  "refresh_entry outcome nowMs opts entry =
     (case outcome of
        RefreshSuccess r \<Rightarrow>
          let ttlMs = clamp_ttl (rf_ttlMs r) opts;
              expiresAt = nowMs + ttlMs;
              hardExpiresAt = expiresAt + stale_if_error_ms opts
          in entry\<lparr>en_status := Valid, en_cfgTx := Some (rf_cfgTx r),
               en_resolvedTarget := Some (rf_resolvedTarget r),
               en_writeProcess := (case rf_writeProcess r of None \<Rightarrow> en_writeProcess entry | w \<Rightarrow> w),
               en_configHash := (case rf_configHash r of None \<Rightarrow> en_configHash entry | c \<Rightarrow> c),
               en_verifiedAt := Some nowMs, en_expiresAt := Some expiresAt,
               en_hbVerifiedAt := (case rf_hbVerifiedAt r of None \<Rightarrow> en_hbVerifiedAt entry | t \<Rightarrow> t),
               en_hardExpiresAt := Some hardExpiresAt, en_lastError := None,
               en_lastSuccessAt := Some nowMs, en_lastErrorAt := None, en_lastErrorCode := None,
               en_refreshAttempts := 0, en_updatedAt := nowMs\<rparr>
      | RefreshFailure err \<Rightarrow>
          let lastError = as_error err nowMs;
              st = (if can_use_stale_if_error entry nowMs then Stale else Invalid)
          in (with_status entry st nowMs)\<lparr>en_lastError := Some lastError, en_lastErrorAt := Some nowMs,
               en_lastErrorCode := Some (er_code lastError),
               en_refreshAttempts := en_refreshAttempts entry + 1\<rparr>)"

definition apply_refresh_outcome ::
  "dm_entry option \<Rightarrow> refresh_outcome \<Rightarrow> string \<Rightarrow> rat \<Rightarrow> sm_options \<Rightarrow> string + dm_entry" where
  "apply_refresh_outcome current outcome host nowMs opts =
     map_sum id (\<lambda>e. refresh_entry outcome nowMs opts (apply_hard_expiry e nowMs))
       (current_or_empty current host nowMs)"

definition probe_entry :: "probe_outcome \<Rightarrow> rat \<Rightarrow> dm_entry \<Rightarrow> dm_entry" where
  "probe_entry outcome nowMs entry =
     (case outcome of
        ProbeSuccess \<Rightarrow>
          if en_status entry = Invalid then
            entry\<lparr>en_hbVerifiedAt := Some nowMs, en_updatedAt := nowMs\<rparr>
          else entry\<lparr>en_hbVerifiedAt := Some nowMs, en_lastError := None, en_lastErrorAt := None,
                 en_lastErrorCode := None, en_updatedAt := nowMs\<rparr>
      | ProbeFailure err \<Rightarrow>
          let lastError = as_error err nowMs;
              st = (if can_use_stale_if_error entry nowMs then Stale else Invalid)
          in (with_status entry st nowMs)\<lparr>en_lastError := Some lastError, en_lastErrorAt := Some nowMs,
               en_lastErrorCode := Some (er_code lastError)\<rparr>)"

definition apply_probe_outcome ::
  "dm_entry option \<Rightarrow> probe_outcome \<Rightarrow> string \<Rightarrow> rat \<Rightarrow> string + dm_entry" where
  "apply_probe_outcome current outcome host nowMs =
     map_sum id (\<lambda>e. probe_entry outcome nowMs (apply_hard_expiry e nowMs))
       (current_or_empty current host nowMs)"

section \<open>Scheduling\<close>

datatype schedule_reason = Initial | ValidRefresh | StaleRetry | InvalidRetry | HardExpired

record scheduling =
  sc_validLeadMs :: rat
  sc_staleRetryMs :: rat
  sc_invalidRetryMs :: rat
  sc_jitterRatio :: rat

definition default_scheduling :: scheduling where
  "default_scheduling = \<lparr>sc_validLeadMs = 30000, sc_staleRetryMs = 15000, sc_invalidRetryMs = 30000,
     sc_jitterRatio = 1 / 10\<rparr>"

definition get_base_refresh_plan :: "dm_entry option \<Rightarrow> rat \<Rightarrow> scheduling \<Rightarrow> schedule_reason \<times> rat" where
  "get_base_refresh_plan current nowMs sched =
     (case current of
        None \<Rightarrow> (Initial, nowMs)
      | Some cur \<Rightarrow>
          let entry = apply_hard_expiry cur nowMs in
          (case en_status entry of
             Valid \<Rightarrow>
               (case en_expiresAt entry of
                  None \<Rightarrow> (InvalidRetry, nowMs + sc_invalidRetryMs sched)
                | Some x \<Rightarrow> (ValidRefresh, max nowMs (x - sc_validLeadMs sched)))
           | Stale \<Rightarrow>
               let staleAt = nowMs + sc_staleRetryMs sched;
                   cappedAt = (case en_hardExpiresAt entry of None \<Rightarrow> staleAt | Some h \<Rightarrow> min staleAt h)
               in (if should_invalidate entry nowMs then HardExpired else StaleRetry, cappedAt)
           | Invalid \<Rightarrow>
               (if should_invalidate entry nowMs then HardExpired else InvalidRetry,
                nowMs + sc_invalidRetryMs sched)))"

definition stable_hash :: "string \<Rightarrow> 32 word" where
  "stable_hash s = foldl (\<lambda>h c. (xor h (of_nat (of_char c))) * 16777619) 2166136261 s"

definition compute_jitter_offset :: "string \<Rightarrow> rat \<Rightarrow> int" where
  "compute_jitter_offset host windowMs =
     (if windowMs \<le> 0 then 0
      else
        let normalized = of_int (uint (stable_hash host)) / 4294967295;
            signed = normalized * 2 - 1
        in \<lfloor>windowMs * signed + 1 / 2\<rfloor>)"

definition compute_next_refresh_at :: "dm_entry option \<Rightarrow> rat \<Rightarrow> scheduling \<Rightarrow> rat" where
  "compute_next_refresh_at current nowMs sched = snd (get_base_refresh_plan current nowMs sched)"

record scheduling_hint =
  sh_reason :: schedule_reason
  sh_baseRefreshAt :: rat
  sh_nextRefreshAt :: rat
  sh_jitterOffsetMs :: int
  sh_isDue :: bool

definition compute_refresh_scheduling_hint ::
  "dm_entry option \<Rightarrow> string \<Rightarrow> rat \<Rightarrow> scheduling \<Rightarrow> scheduling_hint" where
  "compute_refresh_scheduling_hint current host nowMs sched =
     (let (reason, baseRefreshAt) = get_base_refresh_plan current nowMs sched;
          distance = max 0 (baseRefreshAt - nowMs);
          jitterWindowMs = of_int \<lfloor>distance * sc_jitterRatio sched\<rfloor>;
          jitterOffsetMs = compute_jitter_offset host jitterWindowMs;
          nextRefreshAt = max nowMs (baseRefreshAt + of_int jitterOffsetMs)
      in \<lparr>sh_reason = reason, sh_baseRefreshAt = baseRefreshAt, sh_nextRefreshAt = nextRefreshAt,
          sh_jitterOffsetMs = jitterOffsetMs, sh_isDue = (nextRefreshAt \<le> nowMs)\<rparr>)"

section \<open>The adapter's contract\<close>

locale domain_kv = key_store "kv_get kv" "kv_put kv" "kv_delete kv"
  for kv :: "'s kv_ops" +
  assumes list_keys: "set (kv_list kv st p) = {k. kv_get kv st k \<noteq> None \<and> prefix p k}"
    and list_sorted: "sorted (kv_list kv st p)"
begin

lemma listed_key_found: "k \<in> set (kv_list kv st p) \<Longrightarrow> \<exists>raw. kv_get kv st k = Some raw"
  by (auto simp: list_keys)

lemma put_get:
  assumes "put_domain_map_entry kv show_num e st = Inr st'"
    and "domain_map_key host = domain_map_key (en_host e)"
    and "json_stringify show_num (entry_json e) \<noteq> []"
  shows "get_domain_map_entry kv parse now host st'
    = map_sum id Some (parse_domain_map_entry parse now (json_stringify show_num (entry_json e)) (Some host))"
  using assms by (auto simp: put_domain_map_entry_def get_domain_map_entry_def map_sum_def split: sum.splits)

lemma delete_get:
  assumes "delete_domain_map_entry kv host st = Inr st'"
  shows "get_domain_map_entry kv parse now host st' = Inr None"
  using assms by (auto simp: delete_domain_map_entry_def get_domain_map_entry_def map_sum_def split: sum.splits)

lemma upsert_stored:
  assumes "upsert_domain_status_metadata kv parse show_num clock now host p st = Inr (e, st')"
  shows "\<exists>h key. normalize_domain_host host = Inr h \<and> domain_map_key h = Inr key
    \<and> kv_get kv st' key = Some (json_stringify show_num (entry_json e))
    \<and> (\<forall>k. k \<noteq> key \<longrightarrow> kv_get kv st' k = kv_get kv st k)"
  using assms
  by (auto simp: upsert_domain_status_metadata_def Let_def insert_frame split: sum.splits)

end

interpretation mem_kv: domain_kv mem_kv
proof unfold_locales
  fix st :: "string jmap" and p
  show "set (kv_list mem_kv st p) = {k. kv_get mem_kv st k \<noteq> None \<and> prefix p k}"
    using fst_set_map_of [of _ st] by (auto simp: mem_kv_def mem_kv_list_def)
qed (simp_all add: mem_kv_def mem_kv_list_def)

section \<open>Persisted entries\<close>

text \<open>The entries the code itself builds: current schema, a host that normalization leaves alone, whole
  non-negative attempts, and an error's time and code filled in.\<close>

definition storable :: "dm_entry \<Rightarrow> bool" where
  "storable e \<longleftrightarrow> en_schemaVersion e = of_int domain_map_schema_version
     \<and> normalize_domain_host (en_host e) = Inr (en_host e)
     \<and> (\<exists>n. en_refreshAttempts e = of_nat n)
     \<and> (en_lastError e \<noteq> None \<longrightarrow> en_lastErrorAt e \<noteq> None \<and> en_lastErrorCode e \<noteq> None)"

lemma opt_json_back [simp]:
  "as_nullable_string (opt_json JStr x) = x" "as_nullable_number (opt_json num_json y) = y"
  by (cases x; simp add: opt_json_def) (cases y; simp add: opt_json_def num_json_def)

lemma num_json_back [simp]: "as_nullable_number (num_json q) = Some q"
  by (simp add: num_json_def)

lemma error_json_back [simp]: "parse_domain_map_error (opt_json error_json x) now = x"
  by (cases x) (simp_all add: opt_json_def error_json_def parse_domain_map_error_def jprop_def or_default_def)

lemma status_back [simp]: "as_status (JStr (status_str s)) = s"
  by (cases s) (simp_all add: as_status_def)

lemma parse_stored:
  assumes "storable e" and "parse raw = Inr (entry_json e)"
  shows "parse_domain_map_entry parse now raw hint = Inr e"
proof -
  obtain obj where obj: "entry_json e = JObj obj" by (simp add: entry_json_def)
  have p: "jprop obj ''schemaVersion'' = num_json (en_schemaVersion e)" "jprop obj ''host'' = JStr (en_host e)"
    "jprop obj ''status'' = JStr (status_str (en_status e))" "jprop obj ''cfgTx'' = opt_json JStr (en_cfgTx e)"
    "jprop obj ''resolvedTarget'' = opt_json JStr (en_resolvedTarget e)"
    "jprop obj ''writeProcess'' = opt_json JStr (en_writeProcess e)"
    "jprop obj ''configHash'' = opt_json JStr (en_configHash e)"
    "jprop obj ''verifiedAt'' = opt_json num_json (en_verifiedAt e)"
    "jprop obj ''expiresAt'' = opt_json num_json (en_expiresAt e)"
    "jprop obj ''hbVerifiedAt'' = opt_json num_json (en_hbVerifiedAt e)"
    "jprop obj ''hardExpiresAt'' = opt_json num_json (en_hardExpiresAt e)"
    "jprop obj ''lastError'' = opt_json error_json (en_lastError e)"
    "jprop obj ''lastSuccessAt'' = opt_json num_json (en_lastSuccessAt e)"
    "jprop obj ''lastErrorAt'' = opt_json num_json (en_lastErrorAt e)"
    "jprop obj ''lastErrorCode'' = opt_json JStr (en_lastErrorCode e)"
    "jprop obj ''refreshAttempts'' = num_json (en_refreshAttempts e)"
    "jprop obj ''updatedAt'' = num_json (en_updatedAt e)"
    using obj by (auto simp: entry_json_def jprop_def)
  obtain n where n: "en_refreshAttempts e = of_nat n" using assms(1) by (auto simp: storable_def)
  have att: "as_non_negative_int (num_json (of_nat n)) 0 = int n"
    by (simp add: as_non_negative_int_def num_json_def)
  have ver: "as_non_negative_int (num_json (en_schemaVersion e)) (- 1) = 2" "num_json q \<noteq> JUndef" for q
    using assms(1) by (simp_all add: storable_def as_non_negative_int_def num_json_def domain_map_schema_version_def)
  have host: "safe_normalize_domain_host (JStr (en_host e)) hint = en_host e"
    "create_empty_domain_map_entry (en_host e) now = Inr (empty_entry (en_host e) now)"
    using assms(1) by (simp_all add: storable_def safe_normalize_domain_host_def create_empty_domain_map_entry_def)
  have "migrate_persisted_record obj 2 hint now = Inr e"
    using assms(1)
    by (simp add: migrate_persisted_record_def p host att n or_default_def Let_def empty_entry_def storable_def
        split: option.splits)
  then show ?thesis
    by (simp add: parse_domain_map_entry_def assms(2) obj p(1) ver domain_map_schema_version_def)
qed

section \<open>Reachable states\<close>

text \<open>One step of the machine at a time that is not before the previous one.\<close>

inductive dm_step :: "sm_options \<Rightarrow> string \<Rightarrow> rat \<times> dm_entry option \<Rightarrow> rat \<times> dm_entry option \<Rightarrow> bool"
  for opts host where
  refresh: "now \<le> t \<Longrightarrow> apply_refresh_outcome cur out host t opts = Inr e
    \<Longrightarrow> dm_step opts host (now, cur) (t, Some e)"
| probe: "now \<le> t \<Longrightarrow> apply_probe_outcome cur out host t = Inr e
    \<Longrightarrow> dm_step opts host (now, cur) (t, Some e)"

inductive dm_reachable :: "sm_options \<Rightarrow> string \<Rightarrow> rat \<times> dm_entry option \<Rightarrow> bool"
  for opts host where
  start: "dm_reachable opts host (now, None)"
| step: "dm_reachable opts host s \<Longrightarrow> dm_step opts host s s' \<Longrightarrow> dm_reachable opts host s'"

inductive_cases dm_stepE: "dm_step opts host (now, cur) s'"

text \<open>The largest time to live an entry can be given.\<close>

definition max_ttl :: "sm_options \<Rightarrow> rat" where
  "max_ttl opts = max (or_default (so_minTtlMs opts) 30000) (or_default (so_maxTtlMs opts) (24 * 60 * 60 * 1000))"

lemma clamp_bounds: "clamp_ttl ttl opts \<le> max_ttl opts" "or_default (so_minTtlMs opts) 30000 \<le> clamp_ttl ttl opts"
  by (auto simp: clamp_ttl_def max_ttl_def Let_def)

definition dm_inv :: "sm_options \<Rightarrow> rat \<Rightarrow> dm_entry \<Rightarrow> bool" where
  "dm_inv opts now e \<longleftrightarrow>
     (case en_hardExpiresAt e of
        None \<Rightarrow> en_status e = Invalid
      | Some h \<Rightarrow> (\<exists>s x. en_lastSuccessAt e = Some s \<and> en_expiresAt e = Some x \<and> s \<le> now
           \<and> x \<le> s + max_ttl opts \<and> h = x + stale_if_error_ms opts)
         \<and> (en_status e \<noteq> Invalid \<longrightarrow> now \<le> h))"

lemma hard_expiry_inv:
  assumes "dm_inv opts now e" and "now \<le> t"
  shows "dm_inv opts t (apply_hard_expiry e t)"
  using assms by (cases "en_hardExpiresAt e")
    (auto simp: dm_inv_def apply_hard_expiry_def should_invalidate_def not_less)

lemma empty_inv: "dm_inv opts now (empty_entry h now)"
  by (simp add: dm_inv_def empty_entry_def)

lemma refresh_inv:
  assumes "dm_inv opts t e" and "0 \<le> or_default (so_minTtlMs opts) 30000" and "0 \<le> stale_if_error_ms opts"
  shows "dm_inv opts t (refresh_entry out t opts e)"
proof (cases out)
  case (RefreshSuccess r)
  then show ?thesis
    using clamp_bounds [where ttl = "rf_ttlMs r" and opts = opts] assms(2,3)
    by (simp add: dm_inv_def refresh_entry_def Let_def)
next
  case (RefreshFailure err)
  then show ?thesis
    using assms(1) by (cases "en_hardExpiresAt e")
      (auto simp: dm_inv_def refresh_entry_def Let_def with_status_def can_use_stale_if_error_def)
qed

lemma probe_inv: "dm_inv opts t e \<Longrightarrow> dm_inv opts t (probe_entry out t e)"
  by (cases out; cases "en_hardExpiresAt e")
    (auto simp: dm_inv_def probe_entry_def Let_def with_status_def can_use_stale_if_error_def)

lemma current_inv:
  assumes "\<And>e. cur = Some e \<Longrightarrow> dm_inv opts now e" and "now \<le> t" and "current_or_empty cur host t = Inr e"
  shows "dm_inv opts t (apply_hard_expiry e t)"
proof (cases cur)
  case None
  then have "\<exists>h. e = empty_entry h t"
    using assms(3) by (auto simp: current_or_empty_def create_empty_domain_map_entry_def map_sum_def split: sum.splits)
  then show ?thesis using hard_expiry_inv [OF empty_inv order_refl] by blast
next
  case (Some c)
  then show ?thesis using assms hard_expiry_inv by (auto simp: current_or_empty_def)
qed

lemma reachable_inv:
  assumes "dm_reachable opts host s" and "0 \<le> or_default (so_minTtlMs opts) 30000" and "0 \<le> stale_if_error_ms opts"
  shows "\<And>e. snd s = Some e \<Longrightarrow> dm_inv opts (fst s) e"
  using assms(1)
proof (induction rule: dm_reachable.induct)
  case (start now)
  then show ?case by simp
next
  case (step s s')
  from step.hyps(2) show ?case
  proof (cases rule: dm_step.cases)
    case (refresh now t cur out e')
    then obtain c where "current_or_empty cur host t = Inr c"
      "e' = refresh_entry out t opts (apply_hard_expiry c t)"
      by (auto simp: apply_refresh_outcome_def map_sum_def split: sum.splits)
    then show ?thesis
      using refresh step.prems step.IH current_inv [of cur opts now t host c] refresh_inv [OF _ assms(2,3)] by auto
  next
    case (probe now t cur out e')
    then obtain c where "current_or_empty cur host t = Inr c" "e' = probe_entry out t (apply_hard_expiry c t)"
      by (auto simp: apply_probe_outcome_def map_sum_def split: sum.splits)
    then show ?thesis
      using probe step.prems step.IH current_inv [of cur opts now t host c] probe_inv by auto
  qed
qed

lemma step_time: "dm_step opts host (now, cur) s' \<Longrightarrow> now \<le> fst s' \<and> snd s' \<noteq> None"
  by (auto elim!: dm_stepE)

lemma reachable_apply:
  assumes "dm_reachable opts host (now, cur)" and "now \<le> t" and "apply_refresh_outcome cur out host t opts = Inr e"
  shows "dm_reachable opts host (t, Some e)"
  using dm_reachable.step [OF assms(1) dm_step.refresh [OF assms(2,3)]] .

section \<open>Properties\<close>


definition no_sm_options :: sm_options where
  "no_sm_options = \<lparr>so_staleIfErrorMs = None, so_minTtlMs = None, so_maxTtlMs = None\<rparr>"

definition demo_refresh :: "rat \<Rightarrow> refresh_outcome" where
  "demo_refresh ttl = RefreshSuccess \<lparr>rf_cfgTx = ''tx'', rf_resolvedTarget = ''hb'', rf_ttlMs = ttl,
     rf_writeProcess = None, rf_configHash = None, rf_hbVerifiedAt = None\<rparr>"

definition demo_valid :: "string \<Rightarrow> rat \<Rightarrow> dm_entry" where
  "demo_valid host ttl = refresh_entry (demo_refresh ttl) 0 no_sm_options (empty_entry host 0)"

lemma normalize_xorg: "normalize_domain_host ''x.org'' = Inr ''x.org''"
  by code_simp

lemma demo_reachable: "dm_reachable no_sm_options ''x.org'' (0, Some (demo_valid ''x.org'' ttl))"
proof (rule reachable_apply [OF dm_reachable.start order_refl])
  show "apply_refresh_outcome None (demo_refresh ttl) ''x.org'' 0 no_sm_options = Inr (demo_valid ''x.org'' ttl)"
    by (simp add: apply_refresh_outcome_def current_or_empty_def create_empty_domain_map_entry_def
        normalize_xorg demo_valid_def apply_hard_expiry_def should_invalidate_def empty_entry_def)
qed


text \<open>
  Entries survive persistence: an entry the code builds, put into the in-memory adapter and read
  back under any spelling of its host, at any later time, is the same entry, provided \<open>JSON.parse\<close>
  undoes \<open>JSON.stringify\<close> on it; and the write touches no other key.
\<close>

theorem entry_roundtrip:
  assumes "put_domain_map_entry mem_kv show_num e st = Inr st'" and "storable e"
    and "normalize_domain_host host = Inr (en_host e)"
    and "parse (json_stringify show_num (entry_json e)) = Inr (entry_json e)"
  shows "get_domain_map_entry mem_kv parse now host st' = Inr (Some e)
    \<and> (\<forall>k. k = domain_key_prefix @ en_host e \<or> map_of st' k = map_of st k)"
proof
  have ne: "json_stringify show_num (entry_json e) \<noteq> []" by (simp add: entry_json_def)
  have key: "domain_map_key host = domain_map_key (en_host e)"
    using assms(2,3) by (simp add: domain_map_key_def storable_def)
  show "get_domain_map_entry mem_kv parse now host st' = Inr (Some e)"
    using mem_kv.put_get [OF assms(1) key ne, of parse now] parse_stored [where parse = parse, OF assms(2,4)] by simp
  show "\<forall>k. k = domain_key_prefix @ en_host e \<or> map_of st' k = map_of st k"
    using assms(1,2) by (auto simp: put_domain_map_entry_def domain_map_key_def storable_def mem_kv_def split: if_splits)
qed

definition demo_entry_parse :: "string \<Rightarrow> string + jsval" where
  "demo_entry_parse s =
     (if s = json_stringify show_ratio (entry_json (demo_valid ''x.org'' 60000))
      then Inr (entry_json (demo_valid ''x.org'' 60000)) else Inl ''other'')"

lemma entry_roundtrip_witness:
  "\<exists>st'. put_domain_map_entry mem_kv show_ratio (demo_valid ''x.org'' 60000) [] = Inr st'
     \<and> get_domain_map_entry mem_kv demo_entry_parse 7 '' X.ORG. '' st' = Inr (Some (demo_valid ''x.org'' 60000))"
proof -
  have host: "en_host (demo_valid ''x.org'' 60000) = ''x.org''"
    by (simp add: demo_valid_def refresh_entry_def demo_refresh_def Let_def empty_entry_def)
  have sto: "storable (demo_valid ''x.org'' 60000)"
    using normalize_xorg
    by (auto simp: storable_def demo_valid_def refresh_entry_def demo_refresh_def Let_def empty_entry_def
        intro: exI [of _ 0])
  obtain st' where put: "put_domain_map_entry mem_kv show_ratio (demo_valid ''x.org'' 60000) [] = Inr st'"
    by (simp add: put_domain_map_entry_def domain_map_key_def host normalize_xorg)
  have norm: "normalize_domain_host '' X.ORG. '' = Inr ''x.org''" by code_simp
  have spell: "normalize_domain_host '' X.ORG. '' = Inr (en_host (demo_valid ''x.org'' 60000))"
    by (simp only: host norm)
  have undo: "demo_entry_parse (json_stringify show_ratio (entry_json (demo_valid ''x.org'' 60000)))
      = Inr (entry_json (demo_valid ''x.org'' 60000))"
    by (simp add: demo_entry_parse_def)
  show ?thesis
    using entry_roundtrip [where parse = demo_entry_parse and host = "'' X.ORG. ''" and now = 7,
        OF put sto spell undo] put by blast
qed

lemma jitter_bound:
  assumes "0 \<le> w"
  shows "\<bar>compute_jitter_offset host (of_int w)\<bar> \<le> w"
proof (cases "w \<le> 0")
  case True
  with assms show ?thesis by (simp add: compute_jitter_offset_def)
next
  case False
  define n where "n = uint (stable_hash host)"
  define x :: rat where "x = of_int n / 4294967295"
  have n: "0 \<le> n" "n \<le> 4294967295"
    using uint_bounded [of "stable_hash host"] by (simp_all add: n_def)
  from n(2) have "(of_int n :: rat) \<le> of_int 4294967295"
    unfolding of_int_le_iff .
  then have x: "0 \<le> x" "x \<le> 1" using n(1) by (simp_all add: x_def)
  have w: "(0 :: rat) \<le> of_int w" using assms by simp
  have up: "of_int w * (x * 2 - 1) \<le> of_int w"
    using mult_left_mono [OF _ w, of "x * 2 - 1" 1] x by simp
  have lo: "- of_int w \<le> of_int w * (x * 2 - 1)"
    using mult_left_mono [OF _ w, of "- 1" "x * 2 - 1"] x by simp
  have "\<lfloor>of_int w * (x * 2 - 1) + 1 / 2\<rfloor> \<le> w"
    using up by (simp add: floor_le_iff)
  moreover have "- w \<le> \<lfloor>of_int w * (x * 2 - 1) + 1 / 2\<rfloor>"
    using lo by (simp add: le_floor_iff)
  ultimately show ?thesis using False by (simp add: compute_jitter_offset_def x_def n_def Let_def)
qed

text \<open>
  The jitter is bounded: for a ratio between 0 and 1 the next refresh is never in the past and at
  most the ratio times the distance away from the planned time, and it is due exactly when it is
  planned for now.
\<close>

theorem jitter_is_bounded:
  assumes "0 \<le> sc_jitterRatio sched" and "sc_jitterRatio sched \<le> 1"
    and "nowMs \<le> compute_next_refresh_at current nowMs sched"
  shows "nowMs \<le> sh_nextRefreshAt (compute_refresh_scheduling_hint current host nowMs sched)
    \<and> \<bar>sh_nextRefreshAt (compute_refresh_scheduling_hint current host nowMs sched)
        - compute_next_refresh_at current nowMs sched\<bar>
      \<le> sc_jitterRatio sched * (compute_next_refresh_at current nowMs sched - nowMs)
    \<and> (sh_isDue (compute_refresh_scheduling_hint current host nowMs sched)
        \<longleftrightarrow> sh_nextRefreshAt (compute_refresh_scheduling_hint current host nowMs sched) = nowMs)"
proof -
  obtain reason base where p: "get_base_refresh_plan current nowMs sched = (reason, base)" by fastforce
  have base: "nowMs \<le> base" using assms(3) by (simp add: compute_next_refresh_at_def p)
  define w where "w = \<lfloor>(base - nowMs) * sc_jitterRatio sched\<rfloor>"
  have w: "0 \<le> w" "of_int w \<le> (base - nowMs) * sc_jitterRatio sched"
    using base assms(1) by (simp_all add: w_def)
  have "(base - nowMs) * sc_jitterRatio sched \<le> base - nowMs"
    using mult_left_mono [OF assms(2), of "base - nowMs"] base by simp
  moreover have "\<bar>of_int (compute_jitter_offset host (of_int w)) :: rat\<bar> \<le> of_int w"
    using jitter_bound [OF w(1), of host] by (metis of_int_abs of_int_le_iff)
  moreover define off where "off = compute_jitter_offset host (of_int w)"
  ultimately have off: "\<bar>of_int off :: rat\<bar> \<le> (base - nowMs) * sc_jitterRatio sched"
    "(base - nowMs) * sc_jitterRatio sched \<le> base - nowMs"
    using w by simp_all
  have d: "max 0 (base - nowMs) = base - nowMs" using base by simp
  have "nowMs \<le> base + of_int off" using off by linarith
  then have "sh_nextRefreshAt (compute_refresh_scheduling_hint current host nowMs sched) = base + of_int off"
    "sh_isDue (compute_refresh_scheduling_hint current host nowMs sched) \<longleftrightarrow> base + of_int off = nowMs"
    by (auto simp: compute_refresh_scheduling_hint_def p Let_def d w_def [symmetric] off_def [symmetric])
  then show ?thesis
    using off \<open>nowMs \<le> base + of_int off\<close>
    by (simp add: compute_next_refresh_at_def p mult.commute)
qed

lemma demo_hint:
  "sh_nextRefreshAt (compute_refresh_scheduling_hint (Some (demo_valid ''x.org'' 86400000)) ''x.org'' 0 default_scheduling)
     = 93871021"
  by code_simp

lemma jitter_witness:
  "\<bar>sh_nextRefreshAt (compute_refresh_scheduling_hint (Some (demo_valid ''x.org'' 86400000)) ''x.org'' 0 default_scheduling)
     - 86370000\<bar> \<le> 8637000"
proof -
  have b: "compute_next_refresh_at (Some (demo_valid ''x.org'' 86400000)) 0 default_scheduling = 86370000"
    by code_simp
  show ?thesis
    using jitter_is_bounded [of default_scheduling 0 "Some (demo_valid ''x.org'' 86400000)" "''x.org''"] b
    by (simp add: default_scheduling_def)
qed

text \<open>The jitter is not capped by the expiry: a domain with a time to live of a day can be scheduled more
  than an hour after the moment from which its entry may not be served at all.\<close>

lemma jitter_passes_hard_expiry:
  "en_hardExpiresAt (demo_valid ''x.org'' 86400000) = Some 86700000
   \<and> 86700000 < sh_nextRefreshAt (compute_refresh_scheduling_hint
        (Some (demo_valid ''x.org'' 86400000)) ''x.org'' 0 default_scheduling)"
  unfolding demo_hint
  by (simp add: demo_valid_def refresh_entry_def demo_refresh_def Let_def clamp_ttl_def no_sm_options_def
      or_default_def stale_if_error_ms_def)

text \<open>Normalizing twice is not normalizing once: an upsert for a host with two trailing dots stores under a
  key that a lookup of the same host does not read.\<close>

lemma upsert_misses_own_host:
  assumes "upsert_domain_status_metadata mem_kv parse show_num clock nowMs ''a..'' p [] = Inr (e, st')"
  shows "get_domain_map_entry mem_kv parse later ''a..'' st' = Inr None"
proof -
  have n: "normalize_domain_host ''a..'' = Inr ''a.''" "normalize_domain_host ''a.'' = Inr ''a''"
    by code_simp+
  have k: "domain_map_key ''a..'' = Inr ''domain:a.''" "domain_map_key ''a.'' = Inr ''domain:a''"
    by (simp_all add: domain_map_key_def n domain_key_prefix_def)
  obtain raw where "st' = AList.update ''domain:a'' raw []"
    using assms by (auto simp: upsert_domain_status_metadata_def n k mem_kv_def Let_def split: sum.splits)
  then show ?thesis by (simp add: get_domain_map_entry_def k mem_kv_def)
qed

end
