(* ===== verification/WorkerKv.thy ===== *)
theory WorkerKv
  imports Config
begin

text \<open>
  The key-value namespace of the secrets worker as its handlers see it
  (\<open>kvFor\<close> in \<open>src/workers/secrets-worker/src/index.ts\<close>): the in-memory shim, entry by entry, and the
  contract \<open>expiring_store\<close> that a KV binding with \<open>expirationTtl\<close> promises its clients. The shim is an
  instance of the contract. \<open>nowSeconds()\<close> is the argument \<open>now\<close>.
\<close>

section \<open>The in-memory shim\<close>

record shim_entry =
  sh_value :: string
  sh_exp :: "int option"

type_synonym shim = "shim_entry jmap"

text \<open>\<open>entry.exp && entry.exp < nowSeconds()\<close>: an absent or zero expiry never runs out.\<close>

definition shim_expired :: "int \<Rightarrow> shim_entry \<Rightarrow> bool" where
  "shim_expired now e \<longleftrightarrow> (case sh_exp e of None \<Rightarrow> False | Some x \<Rightarrow> x \<noteq> 0 \<and> x < now)"

definition clean_expired :: "int \<Rightarrow> string \<Rightarrow> shim \<Rightarrow> shim_entry option \<times> shim" where
  "clean_expired now key m =
     (case map_of m key of
        None \<Rightarrow> (None, m)
      | Some e \<Rightarrow> if shim_expired now e then (None, AList.delete key m) else (Some e, m))"

definition shim_get :: "int \<Rightarrow> string \<Rightarrow> shim \<Rightarrow> string option \<times> shim" where
  "shim_get now key m = (let (e, m') = clean_expired now key m in (map_option sh_value e, m'))"

text \<open>\<open>put(key, value, opts)\<close>: zero counts as absent in both options.\<close>

definition shim_put :: "int \<Rightarrow> string \<Rightarrow> string \<Rightarrow> int option \<Rightarrow> int option \<Rightarrow> shim \<Rightarrow> shim" where
  "shim_put now key val expiration expirationTtl m =
     (let no_exp = (case expiration of None \<Rightarrow> True | Some x \<Rightarrow> x = 0) in
      AList.update key
        \<lparr>sh_value = val,
         sh_exp = (if no_exp then
             (case expirationTtl of
                Some ttl \<Rightarrow> if ttl \<noteq> 0 then Some (now + ttl) else expiration
              | None \<Rightarrow> expiration)
           else expiration)\<rparr> m)"

definition shim_delete :: "string \<Rightarrow> shim \<Rightarrow> shim" where
  "shim_delete key m = AList.delete key m"

text \<open>\<open>Array.prototype.slice(a, b)\<close>, with the negative positions counted from the end.\<close>

definition slice_pos :: "int \<Rightarrow> nat \<Rightarrow> nat" where
  "slice_pos i n = (if i < 0 then nat (max 0 (int n + i)) else min (nat i) n)"

definition js_slice :: "int \<Rightarrow> int \<Rightarrow> 'a list \<Rightarrow> 'a list" where
  "js_slice a b xs =
     (let i = slice_pos a (length xs); j = slice_pos b (length xs) in take (j - i) (drop i xs))"

fun shim_scan :: "int \<Rightarrow> string \<Rightarrow> string list \<Rightarrow> shim \<Rightarrow> string list \<times> shim" where
  "shim_scan now pfx [] m = ([], m)"
| "shim_scan now pfx (key # keys) m =
     (if \<not> starts_with key pfx then shim_scan now pfx keys m
      else
        let (e, m1) = clean_expired now key m;
            (found, m2) = shim_scan now pfx keys m1
        in (if e = None then found else key # found, m2))"

record shim_page =
  sp_keys :: "string list"
  sp_complete :: bool
  sp_cursor :: "string option"

definition shim_list :: "int \<Rightarrow> string \<Rightarrow> int option \<Rightarrow> string option \<Rightarrow> shim \<Rightarrow> shim_page \<times> shim" where
  "shim_list now pfx limit cursor m =
     (let lim = (case limit of None \<Rightarrow> int (length m) | Some l \<Rightarrow> l);
          start = (case cursor of
              None \<Rightarrow> 0
            | Some c \<Rightarrow> if c = [] then 0 else (case parse_int c of None \<Rightarrow> 0 | Some i \<Rightarrow> i));
          (filtered, m') = shim_scan now pfx (map fst m) m;
          slice = js_slice start (start + lim) filtered;
          nxt = start + int (length slice);
          nextCursor = (if nxt < int (length filtered) then Some (int_str nxt) else None)
      in (\<lparr>sp_keys = slice, sp_complete = (nextCursor = None \<or> nextCursor = Some []),
           sp_cursor = nextCursor\<rparr>, m'))"

section \<open>The contract of a store with expiry\<close>

text \<open>
  \<open>reads s t k\<close> is what a \<open>get\<close> at time \<open>t\<close> returns, \<open>writes t k v ttl s\<close> the store after a
  \<open>put\<close> at \<open>t\<close>: the value stays readable until the time to live has passed, and other keys are not
  touched.
\<close>

locale expiring_store =
  fixes reads :: "'s \<Rightarrow> int \<Rightarrow> string \<Rightarrow> string option"
    and writes :: "int \<Rightarrow> string \<Rightarrow> string \<Rightarrow> int \<Rightarrow> 's \<Rightarrow> 's"
  assumes read_written: "0 < ttl \<Longrightarrow> now \<le> t \<Longrightarrow> t < now + ttl \<Longrightarrow> reads (writes now k v ttl s) t k = Some v"
    and write_frame: "k' \<noteq> k \<Longrightarrow> reads (writes now k v ttl s) t k' = reads s t k'"
begin

lemma read_fold_frame:
  "k \<notin> fst ` set kvs \<Longrightarrow> reads (fold (\<lambda>(k, v). writes now k v ttl) kvs s) t k = reads s t k"
  by (induction kvs arbitrary: s) (auto simp: write_frame)

lemma live_key_stays:
  assumes "0 < ttl" and "now \<le> t" and "t < now + ttl" and "k' \<noteq> k"
  shows "reads (writes later k' w d (writes now k v ttl s)) t k = Some v"
  using assms by (simp add: write_frame read_written)

end

definition shim_read :: "shim \<Rightarrow> int \<Rightarrow> string \<Rightarrow> string option" where
  "shim_read m t k = fst (shim_get t k m)"

definition shim_write :: "int \<Rightarrow> string \<Rightarrow> string \<Rightarrow> int \<Rightarrow> shim \<Rightarrow> shim" where
  "shim_write now k v ttl m = shim_put now k v None (Some ttl) m"

lemma shim_read_alt:
  "shim_read m t k = (case map_of m k of None \<Rightarrow> None
     | Some e \<Rightarrow> if shim_expired t e then None else Some (sh_value e))"
  by (simp add: shim_read_def shim_get_def clean_expired_def split: option.split)

interpretation shim_kv: expiring_store shim_read shim_write
  by unfold_locales
    (auto simp: shim_read_alt shim_write_def shim_put_def shim_expired_def Let_def split: option.splits)

text \<open>A \<open>get\<close> changes the table, but nothing that can be read from it, then or later.\<close>

lemma shim_get_invisible:
  assumes "now \<le> t" shows "shim_read (snd (shim_get now key m)) t k = shim_read m t k"
  using assms
  by (auto simp: shim_read_alt shim_get_def clean_expired_def shim_expired_def split: option.splits)

lemma shim_scan_invisible:
  assumes "now \<le> t" shows "shim_read (snd (shim_scan now pfx keys m)) t k = shim_read m t k"
proof (induction keys arbitrary: m)
  case (Cons key keys)
  have "snd (clean_expired now key m) = snd (shim_get now key m)"
    by (simp add: shim_get_def split_def Let_def)
  with shim_get_invisible [OF assms, of key m k] Cons.IH show ?case
    by (simp add: split_def Let_def)
qed simp

lemma shim_scan_keys:
  assumes "distinct keys"
  shows "fst (shim_scan now pfx keys m) = filter (\<lambda>k. starts_with k pfx \<and> shim_read m now k \<noteq> None) keys"
  using assms
proof (induction keys arbitrary: m)
  case (Cons key keys)
  have s: "snd (clean_expired now key m) = snd (shim_get now key m)"
    by (simp add: shim_get_def split_def Let_def)
  have f: "fst (clean_expired now key m) = None \<longleftrightarrow> shim_read m now key = None"
    by (simp add: shim_read_def shim_get_def split_def Let_def)
  show ?case using Cons by (auto simp: split_def Let_def s f shim_get_invisible)
qed simp

end
