(* ===== verification/RouteReplay.thy ===== *)
theory RouteReplay
  imports WorkerKv
begin

text \<open>
  The replay claim of a verified route assertion
  (\<open>src/workers/secrets-worker/src/routeAssertionReplay.ts\<close>): the in-memory map, and the claim in
  the KV namespace behind the locks of one isolate. The asynchronous claim is cut at its two
  \<open>await\<close>s into the steps \<open>claim_start\<close>, \<open>claim_got\<close> and \<open>claim_put\<close>; \<open>claim_step\<close> interleaves the
  claims of many requests over one store, and the store is any \<open>expiring_store\<close>.
\<close>

section \<open>The environment\<close>

text \<open>The worker's bindings are an object of unknown values.\<close>

definition clean_env :: "jsval \<Rightarrow> string" where
  "clean_env v = (case v of JStr s \<Rightarrow> trim s | _ \<Rightarrow> [])"

definition parse_boolean_like :: "jsval \<Rightarrow> bool" where
  "parse_boolean_like v =
     (case v of
        JBool b \<Rightarrow> b
      | JNum n \<Rightarrow> n = Fin 1
      | JStr s \<Rightarrow> to_lower (trim s) \<in> {''1'', ''true'', ''yes''}
      | _ \<Rightarrow> False)"

text \<open>\<open>Number.parseInt(s, 10)\<close> where it is finite: a longer run of digits is \<open>Infinity\<close>.\<close>

definition js_finite :: "int \<Rightarrow> bool" where
  "js_finite n \<longleftrightarrow> \<bar>n\<bar> < 2 ^ 1024 - 2 ^ 970"

lemma js_finite_code [code]:
  "js_finite n \<longleftrightarrow> (if \<bar>n\<bar> < 1000000000000000 then True else \<bar>n\<bar> < 2 ^ 1024 - 2 ^ 970)"
proof -
  have small: "(1000000000000000 :: int) \<le> 2 ^ 1024 - 2 ^ 970" by simp
  have "\<bar>n\<bar> < m \<longleftrightarrow> (if \<bar>n\<bar> < 1000000000000000 then True else \<bar>n\<bar> < m)"
    if "1000000000000000 \<le> m" for m using that by auto
  from this [OF small] show ?thesis by (simp only: js_finite_def)
qed

definition finite_parse_int :: "string \<Rightarrow> int option" where
  "finite_parse_int s = (case parse_int s of Some n \<Rightarrow> if js_finite n then Some n else None | None \<Rightarrow> None)"

definition replay_enabled :: "jobj \<Rightarrow> bool" where
  "replay_enabled env = parse_boolean_like (jprop env ''ROUTE_ASSERT_VERIFY_REPLAY_ENABLED'')"

definition use_in_memory_replay :: "jobj \<Rightarrow> bool" where
  "use_in_memory_replay env = parse_boolean_like (jprop env ''TEST_IN_MEMORY_KV'')"

definition max_replay_ttl_sec :: int where
  "max_replay_ttl_sec = 86400"

definition configured_replay_ttl :: "jobj \<Rightarrow> int option" where
  "configured_replay_ttl env =
     (case finite_parse_int (clean_env (jprop env ''ROUTE_ASSERT_VERIFY_REPLAY_TTL_SEC'')) of
        Some n \<Rightarrow> if n > 0 then Some n else None
      | None \<Rightarrow> None)"

definition replay_ttl :: "jobj \<Rightarrow> int \<Rightarrow> int \<Rightarrow> int" where
  "replay_ttl env now assertionExp =
     (case configured_replay_ttl env of
        Some configured \<Rightarrow> min max_replay_ttl_sec (max 1 configured)
      | None \<Rightarrow> min max_replay_ttl_sec (max 1 (assertionExp - now)))"

definition replay_key :: "string \<Rightarrow> string \<Rightarrow> string \<Rightarrow> string" where
  "replay_key nonce domain cfgTx = ''route-assert:verify:'' @ domain @ '':'' @ cfgTx @ '':'' @ nonce"

section \<open>One claim\<close>

record claim_subject =
  cj_challengeNonce :: string
  cj_domain :: string
  cj_cfgTx :: string
  cj_exp :: int

definition claim_key :: "claim_subject \<Rightarrow> string" where
  "claim_key a = replay_key (cj_challengeNonce a) (cj_domain a) (cj_cfgTx a)"

datatype claim_result = Claimed | Replayed | ClaimError string

text \<open>The module state: the in-memory map and the locks of the claims that are under way.\<close>

record replay_state =
  rr_memory :: "int jmap"
  rr_locks :: "string list"

definition clear_expired_memory_replay :: "int \<Rightarrow> int jmap \<Rightarrow> int jmap" where
  "clear_expired_memory_replay now m = filter (\<lambda>(k, x). \<not> x \<le> now) m"

definition claim_memory :: "int \<Rightarrow> int \<Rightarrow> string \<Rightarrow> int jmap \<Rightarrow> claim_result \<times> int jmap" where
  "claim_memory now ttl key m =
     (let m1 = clear_expired_memory_replay now m in
      case map_of m1 key of
        Some seenUntil \<Rightarrow>
          if seenUntil > now then (Replayed, m1) else (Claimed, AList.update key (now + ttl) m1)
      | None \<Rightarrow> (Claimed, AList.update key (now + ttl) m1))"

text \<open>A claim has not come, waits for \<open>kv.get\<close> or for \<open>kv.put\<close>, or has returned.\<close>

datatype claim_pc = Waiting | Getting string int | Putting string int | Finished claim_result

definition unlock :: "string \<Rightarrow> replay_state \<Rightarrow> replay_state" where
  "unlock key st = st\<lparr>rr_locks := filter (\<lambda>k. k \<noteq> key) (rr_locks st)\<rparr>"

text \<open>\<open>now'\<close> is the second reading of the clock, in \<open>replayTtl\<close>.\<close>

definition claim_start ::
  "jobj \<Rightarrow> int \<Rightarrow> int \<Rightarrow> claim_subject \<Rightarrow> replay_state \<Rightarrow> claim_pc \<times> replay_state" where
  "claim_start env now now' a st =
     (if \<not> replay_enabled env then (Finished Claimed, st)
      else
        let key = claim_key a; ttl = replay_ttl env now' (cj_exp a) in
        if ttl \<le> 0 then (Finished (ClaimError ''replay_ttl_invalid''), st)
        else if use_in_memory_replay env \<or> \<not> truthy (jprop env ''INBOX_KV'') then
          (let (r, m) = claim_memory now ttl key (rr_memory st) in (Finished r, st\<lparr>rr_memory := m\<rparr>))
        else if key \<in> set (rr_locks st) then (Finished Replayed, st)
        else (Getting key ttl, st\<lparr>rr_locks := rr_locks st @ [key]\<rparr>))"

text \<open>The outcome of \<open>kv.get\<close>: \<^term>\<open>None\<close> where it throws, else the value or \<open>null\<close>.\<close>

definition claim_got ::
  "string \<Rightarrow> int \<Rightarrow> string option option \<Rightarrow> replay_state \<Rightarrow> claim_pc \<times> replay_state" where
  "claim_got key ttl outcome st =
     (case outcome of
        None \<Rightarrow> (Finished (ClaimError ''replay_store_error''), unlock key st)
      | Some existing \<Rightarrow>
          if existing \<noteq> None \<and> existing \<noteq> Some [] then (Finished Replayed, unlock key st)
          else (Putting key ttl, st))"

definition claim_put :: "string \<Rightarrow> bool \<Rightarrow> replay_state \<Rightarrow> claim_pc \<times> replay_state" where
  "claim_put key ok st =
     (Finished (if ok then Claimed else ClaimError ''replay_store_error''), unlock key st)"

text \<open>The KV calls of one claim as functions: \<open>get\<close> with its outcome, \<open>put\<close> with whether it succeeds.\<close>

record replay_kv =
  rk_get :: "string \<Rightarrow> string option option"
  rk_put :: "string \<Rightarrow> string \<Rightarrow> int \<Rightarrow> bool"

definition finish_claim :: "replay_kv \<Rightarrow> claim_pc \<times> replay_state \<Rightarrow> claim_result \<times> replay_state" where
  "finish_claim kv s =
     (case fst s of
        Finished r \<Rightarrow> (r, snd s)
      | Getting key ttl \<Rightarrow>
          (case claim_got key ttl (rk_get kv key) (snd s) of
             (Putting k n, st) \<Rightarrow>
               (case claim_put k (rk_put kv k ''1'' n) st of
                  (Finished r, st') \<Rightarrow> (r, st')
                | (_, st') \<Rightarrow> (ClaimError [], st'))
           | (Finished r, st) \<Rightarrow> (r, st)
           | (_, st) \<Rightarrow> (ClaimError [], st))
      | _ \<Rightarrow> (ClaimError [], snd s))"

text \<open>A whole claim that no other request interrupts.\<close>

definition claim_route_assertion_replay ::
  "jobj \<Rightarrow> replay_kv \<Rightarrow> int \<Rightarrow> int \<Rightarrow> claim_subject \<Rightarrow> replay_state \<Rightarrow> claim_result \<times> replay_state" where
  "claim_route_assertion_replay env kv now now' a st = finish_claim kv (claim_start env now now' a st)"


section \<open>Interleaved claims\<close>

text \<open>
  One isolate: the clock, the module state, the KV store, the claims by request number, and the
  successful claims, latest first, each with the time and the time to live it was recorded with.
\<close>

record 's claim_system =
  cs_now :: int
  cs_state :: replay_state
  cs_kv :: 's
  cs_threads :: "nat \<Rightarrow> claim_pc"
  cs_log :: "(string \<times> int \<times> int) list"

definition log_claim :: "claim_pc \<Rightarrow> string \<times> int \<times> int \<Rightarrow> (string \<times> int \<times> int) list \<Rightarrow> (string \<times> int \<times> int) list" where
  "log_claim pc e es = (if pc = Finished Claimed then e # es else es)"

text \<open>A failed \<open>put\<close> may have written or not.\<close>

inductive claim_step ::
  "jobj \<Rightarrow> ('s \<Rightarrow> int \<Rightarrow> string \<Rightarrow> string option) \<Rightarrow> (int \<Rightarrow> string \<Rightarrow> string \<Rightarrow> int \<Rightarrow> 's \<Rightarrow> 's)
    \<Rightarrow> 's claim_system \<Rightarrow> 's claim_system \<Rightarrow> bool"
  for env reads writes
where
  Tick: "cs_now s \<le> t \<Longrightarrow> claim_step env reads writes s (s\<lparr>cs_now := t\<rparr>)"
| Arrive: "cs_threads s i = Waiting \<Longrightarrow> cs_now s \<le> t \<Longrightarrow>
    claim_start env (cs_now s) t a (cs_state s) = (pc, st) \<Longrightarrow>
    claim_step env reads writes s
      (s\<lparr>cs_now := t, cs_state := st, cs_threads := (cs_threads s)(i := pc),
         cs_log := log_claim pc (claim_key a, cs_now s, replay_ttl env t (cj_exp a)) (cs_log s)\<rparr>)"
| Got: "cs_threads s i = Getting k n \<Longrightarrow>
    r = None \<or> r = Some (reads (cs_kv s) (cs_now s) k) \<Longrightarrow>
    claim_got k n r (cs_state s) = (pc, st) \<Longrightarrow>
    claim_step env reads writes s
      (s\<lparr>cs_state := st, cs_threads := (cs_threads s)(i := pc)\<rparr>)"
| Put: "cs_threads s i = Putting k n \<Longrightarrow>
    (if ok then kv = writes (cs_now s) k ''1'' n (cs_kv s)
     else kv = cs_kv s \<or> kv = writes (cs_now s) k ''1'' n (cs_kv s)) \<Longrightarrow>
    claim_put k ok (cs_state s) = (pc, st) \<Longrightarrow>
    claim_step env reads writes s
      (s\<lparr>cs_state := st, cs_kv := kv, cs_threads := (cs_threads s)(i := pc),
         cs_log := log_claim pc (k, cs_now s, n) (cs_log s)\<rparr>)"

definition claim_start_system :: "int \<Rightarrow> 's \<Rightarrow> 's claim_system" where
  "claim_start_system now kv =
     \<lparr>cs_now = now, cs_state = \<lparr>rr_memory = [], rr_locks = []\<rparr>, cs_kv = kv,
      cs_threads = (\<lambda>_. Waiting), cs_log = []\<rparr>"

inductive claim_reachable ::
  "jobj \<Rightarrow> ('s \<Rightarrow> int \<Rightarrow> string \<Rightarrow> string option) \<Rightarrow> (int \<Rightarrow> string \<Rightarrow> string \<Rightarrow> int \<Rightarrow> 's \<Rightarrow> 's)
    \<Rightarrow> 's claim_system \<Rightarrow> 's claim_system \<Rightarrow> bool"
  for env reads writes s0
where
  Start: "claim_reachable env reads writes s0 s0"
| Step: "claim_reachable env reads writes s0 s \<Longrightarrow> claim_step env reads writes s s'
    \<Longrightarrow> claim_reachable env reads writes s0 s'"

inductive_cases claim_stepE: "claim_step env reads writes s s'"

text \<open>No two successful claims of one key have overlapping lifetimes.\<close>

fun disjoint_windows :: "(string \<times> int \<times> int) list \<Rightarrow> bool" where
  "disjoint_windows [] = True"
| "disjoint_windows ((k, t, n) # es) \<longleftrightarrow>
     (\<forall>(k', t', n') \<in> set es. k' = k \<longrightarrow> t' + n' \<le> t) \<and> disjoint_windows es"

definition holds_key :: "claim_pc \<Rightarrow> string option" where
  "holds_key pc = (case pc of Getting k n \<Rightarrow> Some k | Putting k n \<Rightarrow> Some k | _ \<Rightarrow> None)"

lemma holds_key_simps [simp]:
  "holds_key Waiting = None" "holds_key (Getting k n) = Some k" "holds_key (Putting k n) = Some k"
  "holds_key (Finished r) = None"
  by (simp_all add: holds_key_def)

definition in_memory :: "jobj \<Rightarrow> bool" where
  "in_memory env \<longleftrightarrow> use_in_memory_replay env \<or> \<not> truthy (jprop env ''INBOX_KV'')"

lemma replay_ttl_pos: "0 < replay_ttl env now x"
  by (auto simp: replay_ttl_def max_replay_ttl_sec_def split: option.split)

text \<open>What a logged claim leaves behind in the store as long as it lives.\<close>

definition remembered ::
  "jobj \<Rightarrow> ('s \<Rightarrow> int \<Rightarrow> string \<Rightarrow> string option) \<Rightarrow> int \<Rightarrow> int jmap \<Rightarrow> 's \<Rightarrow> string \<times> int \<times> int \<Rightarrow> bool" where
  "remembered env reads now m kv e =
     (case e of (k, t, n) \<Rightarrow>
        t \<le> now \<and>
        (if in_memory env then now < t + n \<longrightarrow> (\<exists>x. map_of m k = Some x \<and> t + n \<le> x)
         else \<forall>u \<ge> now. u < t + n \<longrightarrow> reads kv u k = Some ''1''))"

definition claim_inv :: "jobj \<Rightarrow> ('s \<Rightarrow> int \<Rightarrow> string \<Rightarrow> string option) \<Rightarrow> 's claim_system \<Rightarrow> bool" where
  "claim_inv env reads s \<longleftrightarrow>
     jm_ok (rr_memory (cs_state s))
     \<and> (\<forall>i k. holds_key (cs_threads s i) = Some k \<longrightarrow> k \<in> set (rr_locks (cs_state s)) \<and> \<not> in_memory env)
     \<and> (\<forall>i j k. holds_key (cs_threads s i) = Some k \<longrightarrow> holds_key (cs_threads s j) = Some k \<longrightarrow> i = j)
     \<and> (\<forall>i k n. cs_threads s i = Getting k n \<or> cs_threads s i = Putting k n \<longrightarrow> 0 < n)
     \<and> (\<forall>i k n. cs_threads s i = Putting k n \<longrightarrow>
          (\<forall>(k', t', n') \<in> set (cs_log s). k' = k \<longrightarrow> t' + n' \<le> cs_now s))
     \<and> list_all (remembered env reads (cs_now s) (rr_memory (cs_state s)) (cs_kv s)) (cs_log s)
     \<and> disjoint_windows (cs_log s)"

lemma claim_invI:
  assumes "jm_ok (rr_memory (cs_state s))"
    and "\<And>i k. holds_key (cs_threads s i) = Some k \<Longrightarrow> k \<in> set (rr_locks (cs_state s)) \<and> \<not> in_memory env"
    and "\<And>i j k. holds_key (cs_threads s i) = Some k \<Longrightarrow> holds_key (cs_threads s j) = Some k \<Longrightarrow> i = j"
    and "\<And>i k n. cs_threads s i = Getting k n \<or> cs_threads s i = Putting k n \<Longrightarrow> 0 < n"
    and "\<And>i k n. cs_threads s i = Putting k n \<Longrightarrow>
      \<forall>(k', t', n') \<in> set (cs_log s). k' = k \<longrightarrow> t' + n' \<le> cs_now s"
    and "list_all (remembered env reads (cs_now s) (rr_memory (cs_state s)) (cs_kv s)) (cs_log s)"
    and "disjoint_windows (cs_log s)"
  shows "claim_inv env reads s"
  using assms unfolding claim_inv_def by blast

lemma remembered_tick:
  assumes "remembered env reads now m kv e" and "now \<le> t"
  shows "remembered env reads t m kv e"
  using assms by (auto simp: remembered_def split: prod.splits if_splits)

lemma remembered_clear:
  assumes "remembered env reads now m kv e" and "jm_ok m" and "now \<le> t"
  shows "remembered env reads t (clear_expired_memory_replay now m) kv e"
proof (cases e)
  case (fields k u n)
  show ?thesis
  proof (cases "in_memory env \<and> t < u + n")
    case True
    with assms fields obtain x where "map_of m k = Some x" "u + n \<le> x"
      by (auto simp: remembered_def)
    moreover from this True assms(3) have "\<not> x \<le> now" by simp
    ultimately show ?thesis
      using True assms fields
      by (auto simp: remembered_def clear_expired_memory_replay_def map_of_filter_jm)
  next
    case False
    then show ?thesis using assms fields by (auto simp: remembered_def)
  qed
qed

lemma claim_memory_spec:
  assumes "jm_ok m"
  shows "claim_memory now ttl key m =
    (let m1 = clear_expired_memory_replay now m in
     if map_of m1 key = None then (Claimed, AList.update key (now + ttl) m1) else (Replayed, m1))"
  using assms
  by (auto simp: claim_memory_def clear_expired_memory_replay_def map_of_filter_jm Let_def split: option.splits)

text \<open>The steps of the code keep the invariant, one lemma for each kind of step.\<close>

lemma arrive_memory_inv:
  assumes inv: "claim_inv env reads s" and mem: "in_memory env" and t: "cs_now s \<le> t" and n: "0 < n"
    and c: "claim_memory (cs_now s) n key (rr_memory (cs_state s)) = (r, m)"
    and w: "cs_threads s i = Waiting"
  shows "claim_inv env reads (s\<lparr>cs_now := t, cs_state := (cs_state s)\<lparr>rr_memory := m\<rparr>,
     cs_threads := (cs_threads s)(i := Finished r), cs_log := log_claim (Finished r) (key, cs_now s, n) (cs_log s)\<rparr>)"
proof -
  let ?m = "clear_expired_memory_replay (cs_now s) (rr_memory (cs_state s))"
  have jm: "jm_ok (rr_memory (cs_state s))" and none: "holds_key (cs_threads s j) = None" for j
    using inv mem by (auto simp: claim_inv_def)
  then have put: "cs_threads s j \<noteq> Putting k n" for j k n by (metis holds_key_simps(3) option.distinct(1))
  have get: "cs_threads s j \<noteq> Getting k n" for j k n by (metis none holds_key_simps(2) option.distinct(1))
  have rem: "\<forall>e \<in> set (cs_log s). remembered env reads (cs_now s) ?m (cs_kv s) e
      \<and> remembered env reads t ?m (cs_kv s) e"
    using inv jm t by (auto simp: claim_inv_def list_all_iff intro: remembered_clear)
  have jm': "jm_ok ?m" using jm by (simp add: clear_expired_memory_replay_def)
  show ?thesis
  proof (cases "map_of ?m key")
    case None
    then have r: "r = Claimed" "m = AList.update key (cs_now s + n) ?m"
      using c by (simp_all add: claim_memory_spec [OF jm] Let_def)
    have old: "t' + n' \<le> cs_now s" if "(key, t', n') \<in> set (cs_log s)" for t' n'
      using rem that None mem by (fastforce simp: remembered_def)
    then have keep: "\<forall>e \<in> set (cs_log s). remembered env reads t m (cs_kv s) e"
      using rem r(2) mem t by (fastforce simp: remembered_def)
    show ?thesis
      using inv r jm' none put get keep old t mem
      by (auto simp: claim_inv_def log_claim_def list_all_iff remembered_def)
  next
    case (Some x)
    then have r: "r = Replayed" "m = ?m" using c by (simp_all add: claim_memory_spec [OF jm] Let_def)
    then show ?thesis
      using inv jm' none put get rem
      by (auto simp: claim_inv_def log_claim_def list_all_iff)
  qed
qed

lemma claim_inv_arrive:
  assumes "claim_inv env reads s" and "replay_enabled env" and "cs_threads s i = Waiting" and "cs_now s \<le> t"
    and c: "claim_start env (cs_now s) t a (cs_state s) = (pc, st)"
  shows "claim_inv env reads
    (s\<lparr>cs_now := t, cs_state := st, cs_threads := (cs_threads s)(i := pc),
       cs_log := log_claim pc (claim_key a, cs_now s, replay_ttl env t (cj_exp a)) (cs_log s)\<rparr>)"
proof (cases "in_memory env")
  case True
  obtain r m where rm: "claim_memory (cs_now s) (replay_ttl env t (cj_exp a)) (claim_key a)
      (rr_memory (cs_state s)) = (r, m)" by fastforce
  have "pc = Finished r" "st = (cs_state s)\<lparr>rr_memory := m\<rparr>"
    using c assms(2) True rm replay_ttl_pos [of env t "cj_exp a"]
    by (auto simp: claim_start_def Let_def in_memory_def not_less)
  with arrive_memory_inv [OF assms(1) True assms(4) replay_ttl_pos rm assms(3)] show ?thesis by simp
next
  case False
  have rem: "\<forall>e \<in> set (cs_log s). remembered env reads t (rr_memory (cs_state s)) (cs_kv s) e"
    using assms(1,4) by (auto simp: claim_inv_def list_all_iff intro: remembered_tick)
  have n: "\<not> replay_ttl env t (cj_exp a) \<le> 0" using replay_ttl_pos [of env t "cj_exp a"] by simp
  show ?thesis
  proof (cases "claim_key a \<in> set (rr_locks (cs_state s))")
    case True
    then have "pc = Finished Replayed" "st = cs_state s"
      using c assms(2) False n by (auto simp: claim_start_def Let_def in_memory_def)
    then show ?thesis
      using assms(1,4) rem by (fastforce simp: claim_inv_def log_claim_def list_all_iff)
  next
    case lock: False
    then have r: "pc = Getting (claim_key a) (replay_ttl env t (cj_exp a))"
        "st = (cs_state s)\<lparr>rr_locks := rr_locks (cs_state s) @ [claim_key a]\<rparr>"
      using c assms(2) False n by (auto simp: claim_start_def Let_def in_memory_def)
    have "holds_key (cs_threads s j) \<noteq> Some (claim_key a)" for j
      using assms(1) lock by (auto simp: claim_inv_def)
    then show ?thesis
      using assms(1,4) rem r False n
      by (fastforce simp: claim_inv_def log_claim_def list_all_iff)
  qed
qed

lemma claim_inv_got:
  assumes inv: "claim_inv env reads s" and w: "cs_threads s i = Getting k n"
    and r: "r = None \<or> r = Some (reads (cs_kv s) (cs_now s) k)"
    and c: "claim_got k n r (cs_state s) = (pc, st)"
  shows "claim_inv env reads (s\<lparr>cs_state := st, cs_threads := (cs_threads s)(i := pc)\<rparr>)"
proof -
  have h: "holds_key (cs_threads s i) = Some k" and n: "0 < n" using inv w by (auto simp: claim_inv_def)
  then have only: "holds_key (cs_threads s j) = Some k \<longrightarrow> j = i" for j
    using inv by (auto simp: claim_inv_def)
  have mem: "\<not> in_memory env" using inv h by (auto simp: claim_inv_def)
  show ?thesis
  proof (cases "r = None \<or> (\<exists>x. r = Some x \<and> x \<noteq> None \<and> x \<noteq> Some [])")
    case True
    then have "\<exists>q. pc = Finished q" "st = unlock k (cs_state s)"
      using c by (auto simp: claim_got_def split: if_splits)
    then show ?thesis
      using inv only by (fastforce simp: claim_inv_def unlock_def)
  next
    case False
    then obtain x where x: "r = Some x" "x = None \<or> x = Some []" by auto
    then have pc: "pc = Putting k n" "st = cs_state s" using c by (auto simp: claim_got_def)
    have "reads (cs_kv s) (cs_now s) k \<noteq> Some ''1''" using r x by auto
    then have old: "t' + n' \<le> cs_now s" if "(k, t', n') \<in> set (cs_log s)" for t' n'
      using inv that mem by (fastforce simp: claim_inv_def list_all_iff remembered_def)
    show ?thesis
      using inv pc old n h only mem by (fastforce simp: claim_inv_def)
  qed
qed

lemma remembered_write:
  assumes "expiring_store reads writes" and "\<not> in_memory env" and "0 < n"
    and "remembered env reads now m kv (k', t', n')" and "k' = k \<longrightarrow> t' + n' \<le> now"
  shows "remembered env reads now m (writes now k ''1'' n kv) (k', t', n')"
  using assms(2-) expiring_store.write_frame [OF assms(1)] by (auto simp: remembered_def)

lemma claim_inv_put:
  assumes inv: "claim_inv env reads s" and ex: "expiring_store reads writes"
    and w: "cs_threads s i = Putting k n"
    and kv: "if ok then kv = writes (cs_now s) k ''1'' n (cs_kv s)
       else kv = cs_kv s \<or> kv = writes (cs_now s) k ''1'' n (cs_kv s)"
    and c: "claim_put k ok (cs_state s) = (pc, st)"
  shows "claim_inv env reads
    (s\<lparr>cs_state := st, cs_kv := kv, cs_threads := (cs_threads s)(i := pc),
       cs_log := log_claim pc (k, cs_now s, n) (cs_log s)\<rparr>)"
proof -
  have h: "holds_key (cs_threads s i) = Some k" and n: "0 < n" using inv w by (auto simp: claim_inv_def)
  then have only: "holds_key (cs_threads s j) = Some k \<longrightarrow> j = i" for j
    using inv by (auto simp: claim_inv_def)
  have mem: "\<not> in_memory env" using inv h by (auto simp: claim_inv_def)
  have old: "t' + n' \<le> cs_now s" if "(k, t', n') \<in> set (cs_log s)" for t' n'
    using inv w that by (fastforce simp: claim_inv_def)
  have rem: "\<forall>e \<in> set (cs_log s). remembered env reads (cs_now s) (rr_memory (cs_state s)) kv e"
  proof
    fix e assume e: "e \<in> set (cs_log s)"
    obtain k' t' n' where e': "e = (k', t', n')" by (cases e)
    have r: "remembered env reads (cs_now s) (rr_memory (cs_state s)) (cs_kv s) (k', t', n')"
      using inv e e' by (auto simp: claim_inv_def list_all_iff)
    have "kv = cs_kv s \<or> kv = writes (cs_now s) k ''1'' n (cs_kv s)"
      using kv by (cases ok) auto
    with r remembered_write [OF ex mem n r, of k] old e e'
    show "remembered env reads (cs_now s) (rr_memory (cs_state s)) kv e" by blast
  qed
  have new: "ok \<Longrightarrow> remembered env reads (cs_now s) (rr_memory (cs_state s)) kv (k, cs_now s, n)"
    using kv mem n expiring_store.read_written [OF ex n] by (auto simp: remembered_def)
  have pc: "pc = Finished (if ok then Claimed else ClaimError ''replay_store_error'')"
    "st = unlock k (cs_state s)" using c by (auto simp: claim_put_def)
  have log: "disjoint_windows (log_claim pc (k, cs_now s, n) (cs_log s))"
    using inv old by (auto simp: claim_inv_def log_claim_def)
  have all: "list_all (remembered env reads (cs_now s) (rr_memory (cs_state s)) kv)
      (log_claim pc (k, cs_now s, n) (cs_log s))"
    using rem new pc by (auto simp: log_claim_def list_all_iff)
  have put: "t' + m \<le> cs_now s"
    if j: "j \<noteq> i" "cs_threads s j = Putting k' n'" and e: "(k', t', m) \<in> set (log_claim pc (k, cs_now s, n) (cs_log s))"
    for j k' n' t' m
  proof -
    have "k' \<noteq> k" using only [of j] j by auto
    then have "(k', t', m) \<in> set (cs_log s)" using e by (auto simp: log_claim_def split: if_splits)
    moreover have "\<forall>(k'', t', m) \<in> set (cs_log s). k'' = k' \<longrightarrow> t' + m \<le> cs_now s"
      using inv j(2) unfolding claim_inv_def by blast
    ultimately show ?thesis by auto
  qed
  have held: "k' \<in> set (rr_locks st) \<and> \<not> in_memory env"
    if "holds_key (((cs_threads s)(i := pc)) j) = Some k'" for j k'
    using that inv only [of j] pc by (cases "j = i") (auto simp: claim_inv_def unlock_def)
  have "holds_key pc = None" using pc by simp
  then have same: "j = j'"
    if "holds_key (((cs_threads s)(i := pc)) j) = Some k'" "holds_key (((cs_threads s)(i := pc)) j') = Some k'"
    for j j' k'
    using that inv by (cases "j = i"; cases "j' = i") (auto simp: claim_inv_def)
  have jm: "rr_memory st = rr_memory (cs_state s)" "jm_ok (rr_memory st)"
    using inv pc by (simp_all add: claim_inv_def unlock_def)
  have pos: "0 < n'" if "((cs_threads s)(i := pc)) j = Getting k' n' \<or> ((cs_threads s)(i := pc)) j = Putting k' n'"
    for j k' n' using that inv pc by (cases "j = i") (auto simp: claim_inv_def)
  have put': "\<forall>(k'', t', m) \<in> set (log_claim pc (k, cs_now s, n) (cs_log s)). k'' = k' \<longrightarrow> t' + m \<le> cs_now s"
    if "((cs_threads s)(i := pc)) j = Putting k' n'" for j k' n'
    using that pc put [of j k' n'] by (cases "j = i") auto
  show ?thesis
  proof (rule claim_invI, goal_cases)
    case 1
    then show ?case using jm by simp
  next
    case (2 j k')
    then show ?case using held [of j k'] by simp
  next
    case (3 j j' k')
    then show ?case using same [of j k' j'] by simp
  next
    case (4 j k' n')
    then show ?case using pos [of j k' n'] by simp
  next
    case (5 j k' n')
    then show ?case using put' [of j k' n'] by simp
  next
    case 6
    then show ?case using all jm by simp
  next
    case 7
    then show ?case using log by simp
  qed
qed

lemma claim_inv_step:
  assumes "claim_step env reads writes s s'" and "claim_inv env reads s"
    and "expiring_store reads writes" and "replay_enabled env"
  shows "claim_inv env reads s'"
  using assms(1)
proof cases
  case (Tick t)
  then show ?thesis using assms(2) by (fastforce simp: claim_inv_def list_all_iff intro: remembered_tick)
next
  case (Arrive i t a pc st)
  with claim_inv_arrive [OF assms(2,4)] show ?thesis by simp
next
  case (Got i k n r pc st)
  with claim_inv_got [OF assms(2)] show ?thesis by simp
next
  case (Put i k n ok kv pc st)
  with claim_inv_put [OF assms(2,3)] show ?thesis by simp
qed

lemma claim_inv_reachable:
  assumes "claim_reachable env reads writes (claim_start_system now kv) s"
    and "expiring_store reads writes" and "replay_enabled env"
  shows "claim_inv env reads s"
  using assms(1)
proof induction
  case Start
  then show ?case by (simp add: claim_inv_def claim_start_system_def)
next
  case (Step s s')
  then show ?case using claim_inv_step assms(2,3) by blast
qed

section \<open>Properties\<close>


definition demo_kv_env :: jobj where
  "demo_kv_env = [(''ROUTE_ASSERT_VERIFY_REPLAY_ENABLED'', JStr ''true''), (''INBOX_KV'', JObj [])]"

definition demo_subject :: claim_subject where
  "demo_subject = \<lparr>cj_challengeNonce = ''nonce-01'', cj_domain = ''a.io'', cj_cfgTx = ''tx'', cj_exp = 1100\<rparr>"


text \<open>Without a configured lifetime a claim is remembered until the assertion has run out; a configured
  lifetime can be shorter, and then the same assertion is claimed twice.\<close>

lemma unconfigured_ttl_covers:
  assumes "configured_replay_ttl env = None" and "now < x" and "x \<le> now + max_replay_ttl_sec"
  shows "now + replay_ttl env now x = x"
  using assms by (simp add: replay_ttl_def)

lemma short_replay_ttl_admits_replay:
  assumes "replay_enabled env" and "in_memory env" and "configured_replay_ttl env = Some 1"
    and "later > now" and "cj_exp a > later"
  shows "fst (claim_route_assertion_replay env kv later later a
    (snd (claim_route_assertion_replay env kv now now a \<lparr>rr_memory = [], rr_locks = []\<rparr>))) = Claimed"
  using assms
  by (auto simp: claim_route_assertion_replay_def claim_start_def finish_claim_def in_memory_def
      replay_ttl_def max_replay_ttl_sec_def claim_memory_def clear_expired_memory_replay_def Let_def)

text \<open>A KV namespace refuses an \<open>expirationTtl\<close> below its minimum of 60 seconds; the claim of an
  assertion with less than that left then always fails.\<close>

lemma short_lived_claim_fails:
  assumes "replay_enabled env" and "\<not> in_memory env" and "configured_replay_ttl env = None"
    and "cj_exp a - now < 60" and "rk_get kv (claim_key a) = Some None"
    and "\<And>k v n. n < 60 \<Longrightarrow> \<not> rk_put kv k v n" and "claim_key a \<notin> set (rr_locks st)"
  shows "fst (claim_route_assertion_replay env kv now now a st) = ClaimError ''replay_store_error''"
  using assms
  by (simp add: claim_route_assertion_replay_def claim_start_def finish_claim_def in_memory_def
      replay_ttl_def max_replay_ttl_sec_def claim_got_def claim_put_def Let_def not_le)

end
