(* ===== verification/RouteAssert.thy ===== *)
theory RouteAssert
  imports RouteReplay Crypto DmConfig
begin

text \<open>
  The route assertions of the secrets worker: \<open>handleRouteAssert\<close>
  (\<open>src/workers/secrets-worker/src/routeAssertion.ts\<close>) checks the challenge and signs an assertion,
  \<open>handleRouteAssertVerify\<close> (\<open>routeAssertionVerify.ts\<close>) checks one and claims its nonce. Ed25519,
  SHA-256, URL parsing and the printing of numbers are the parameters \<open>route_ops\<close>; the body is what
  \<open>c.req.json()\<close> returns, \<^term>\<open>None\<close> where it throws. A handler returns the counters it has
  incremented, in order, and its reply: a JSON response, a thrown \<open>HTTPException\<close>, or another
  exception.
\<close>

record route_ops =
  ro_url :: "string \<Rightarrow> url_parts option"
  ro_show :: "rat \<Rightarrow> string"
  ro_sign :: "nat list \<Rightarrow> nat list \<Rightarrow> nat list"
  ro_verify :: "nat list \<Rightarrow> nat list \<Rightarrow> nat list \<Rightarrow> bool option"
  ro_public :: "nat list \<Rightarrow> nat list"
  ro_sha256 :: "nat list \<Rightarrow> nat list"

datatype route_error = HttpError int string | TypeError

type_synonym 'a route_result = "(string list \<times> route_error) + 'a"

definition route_bind :: "'a route_result \<Rightarrow> ('a \<Rightarrow> 'b route_result) \<Rightarrow> 'b route_result" where
  "route_bind r k = (case r of Inl e \<Rightarrow> Inl e | Inr v \<Rightarrow> k v)"

definition route_throw :: "string list \<Rightarrow> int \<Rightarrow> string \<Rightarrow> 'a route_result" where
  "route_throw incs status message = Inl (incs, HttpError status message)"

text \<open>\<open>body.field\<close>: \<open>null\<close> has no properties, the other primitives and arrays have none of these.\<close>

definition body_prop :: "jsval \<Rightarrow> string \<Rightarrow> jsval route_result" where
  "body_prop body k =
     (case body of
        JNull \<Rightarrow> Inl ([], TypeError)
      | JUndef \<Rightarrow> Inl ([], TypeError)
      | JObj obj \<Rightarrow> Inr (jprop obj k)
      | _ \<Rightarrow> Inr JUndef)"

section \<open>Values of both handlers\<close>

record route_assertion =
  as_v :: string
  as_iat :: int
  as_exp :: int
  as_challengeNonce :: string
  as_challengeExp :: int
  as_domain :: string
  as_cfgTx :: string
  as_hbHost :: string
  as_siteProcess :: "string option"
  as_writeProcess :: "string option"
  as_entryPath :: "string option"

definition route_assert_version :: string where
  "route_assert_version = ''dm-route-assert/1''"

definition json_int :: "int \<Rightarrow> jsval" where
  "json_int i = JNum (Fin (of_int i))"

definition opt_entry :: "string \<Rightarrow> string option \<Rightarrow> jobj" where
  "opt_entry k x = (case x of None \<Rightarrow> [] | Some s \<Rightarrow> [(k, JStr s)])"

definition assertion_json :: "route_assertion \<Rightarrow> jobj" where
  "assertion_json a =
     [(''v'', JStr (as_v a)), (''iat'', json_int (as_iat a)), (''exp'', json_int (as_exp a)),
      (''challengeNonce'', JStr (as_challengeNonce a)), (''challengeExp'', json_int (as_challengeExp a)),
      (''domain'', JStr (as_domain a)), (''cfgTx'', JStr (as_cfgTx a)), (''hbHost'', JStr (as_hbHost a))]
     @ opt_entry ''siteProcess'' (as_siteProcess a) @ opt_entry ''writeProcess'' (as_writeProcess a)
     @ opt_entry ''entryPath'' (as_entryPath a)"

text \<open>The keys sorted at every level; \<open>undefined\<close> and \<open>null\<close> are both printed \<open>null\<close>.\<close>

fun stable_stringify :: "(rat \<Rightarrow> string) \<Rightarrow> jsval \<Rightarrow> string"
  and stable_items :: "(rat \<Rightarrow> string) \<Rightarrow> jsval list \<Rightarrow> string list"
  and stable_props :: "(rat \<Rightarrow> string) \<Rightarrow> jobj \<Rightarrow> (string \<times> string) list"
where
  "stable_stringify show_num JUndef = ''null''"
| "stable_stringify show_num JNull = ''null''"
| "stable_stringify show_num (JBool b) = (if b then ''true'' else ''false'')"
| "stable_stringify show_num (JNum n) = (case n of Fin q \<Rightarrow> show_num q | _ \<Rightarrow> ''null'')"
| "stable_stringify show_num (JStr s) = json_quote s"
| "stable_stringify show_num (JArr vs) = ''['' @ join_with '','' (stable_items show_num vs) @ '']''"
| "stable_stringify show_num (JObj kvs) =
     CHR 0x7B # join_with '','' (map (\<lambda>(k, s). json_quote k @ '':'' @ s) (sort_key fst (stable_props show_num kvs)))
       @ [CHR 0x7D]"
| "stable_items show_num [] = []"
| "stable_items show_num (v # vs) = stable_stringify show_num v # stable_items show_num vs"
| "stable_props show_num [] = []"
| "stable_props show_num ((k, v) # kvs) = (k, stable_stringify show_num v) # stable_props show_num kvs"

definition route_payload :: "(rat \<Rightarrow> string) \<Rightarrow> route_assertion \<Rightarrow> string" where
  "route_payload show_num a = stable_stringify show_num (JObj (assertion_json a))"

fun hex_pairs :: "string \<Rightarrow> nat list" where
  "hex_pairs (a # b # cs) = (16 * hex_nat a + hex_nat b) # hex_pairs cs"
| "hex_pairs _ = []"

text \<open>\<open>/^[a-fA-F0-9]{2n}$/\<close>, then two digits for each byte.\<close>

definition read_hex :: "string \<Rightarrow> nat \<Rightarrow> nat list option" where
  "read_hex s expectedBytes =
     (if matches_class is_hex (expectedBytes * 2) (expectedBytes * 2) s then Some (hex_pairs s) else None)"

definition bytes_hex :: "nat list \<Rightarrow> string" where
  "bytes_hex bs = concat (map (\<lambda>n. [hex_digit (n div 16), hex_digit (n mod 16)]) bs)"

definition host_label_ok :: "string \<Rightarrow> bool" where
  "host_label_ok label \<longleftrightarrow> label \<noteq> [] \<and> length label \<le> 63 \<and> label_ok label"

definition valid_host :: "string \<Rightarrow> bool" where
  "valid_host h \<longleftrightarrow> includes_str h ''.'' \<and> list_all host_label_ok (split_on CHR ''.'' h)"

definition normalize_host ::
  "(string \<Rightarrow> url_parts option) \<Rightarrow> string \<Rightarrow> string \<Rightarrow> string \<Rightarrow> string + string" where
  "normalize_host parse_url missing invalid val =
     (let lowered = to_lower (trim val) in
      if lowered = [] then Inl missing
      else if includes_str lowered ''://'' then Inl invalid
      else
        let normalized = strip_trailing_dots lowered in
        if normalized = [] then Inl invalid
        else if length normalized > 253 \<or> includes_str normalized ''/'' then Inl invalid
        else (case parse_url (''http://'' @ normalized) of
            None \<Rightarrow> Inl invalid
          | Some u \<Rightarrow>
              let parsedHost = to_lower (up_hostname u) in
              if \<not> includes_str parsedHost ''.'' then Inl invalid
              else if \<not> list_all host_label_ok (split_on CHR ''.'' parsedHost) then Inl invalid
              else Inr parsedHost))"

text \<open>\<open>env.A || env.B\<close>.\<close>

definition env_or :: "jobj \<Rightarrow> string \<Rightarrow> string \<Rightarrow> jsval" where
  "env_or env a b = (if truthy (jprop env a) then jprop env a else jprop env b)"

section \<open>Issuing an assertion\<close>

definition default_route_assert_ttl_sec :: int where
  "default_route_assert_ttl_sec = 120"

definition max_route_assert_ttl_sec :: int where
  "max_route_assert_ttl_sec = 300"

definition parse_allowlist_csv :: "jsval \<Rightarrow> string list" where
  "parse_allowlist_csv v =
     (case v of
        JStr s \<Rightarrow> remdups (filter (\<lambda>h. h \<noteq> []) (map (\<lambda>item. to_lower (trim item)) (split_on CHR '','' s)))
      | _ \<Rightarrow> [])"

definition resolve_allowed_hb_hosts :: "(string \<Rightarrow> url_parts option) \<Rightarrow> jobj \<Rightarrow> string list" where
  "resolve_allowed_hb_hosts parse_url env =
     (let fromExplicit = parse_allowlist_csv (jprop env ''HB_ALLOWED_HOSTS'');
          hbUrl = clean_env (jprop env ''AO_HB_URL'') in
      if fromExplicit \<noteq> [] then fromExplicit
      else if hbUrl \<noteq> [] \<and> (case parse_url hbUrl of None \<Rightarrow> False | Some u \<Rightarrow> to_lower (up_hostname u) \<noteq> []) then
        (case parse_url hbUrl of None \<Rightarrow> [] | Some u \<Rightarrow> [to_lower (up_hostname u)])
      else [''hyperbeam.darkmesh.fun''])"

definition normalize_domain_like ::
  "(string \<Rightarrow> url_parts option) \<Rightarrow> string \<Rightarrow> string \<Rightarrow> string route_result" where
  "normalize_domain_like parse_url val fieldName =
     (case normalize_host parse_url (''missing_'' @ fieldName) (''invalid_'' @ fieldName) val of
        Inl message \<Rightarrow> route_throw [] 400 message
      | Inr h \<Rightarrow> Inr h)"

definition route_required_string :: "jsval \<Rightarrow> string \<Rightarrow> string route_result" where
  "route_required_string v fieldName =
     (case v of
        JStr s \<Rightarrow> if trim s = [] then route_throw [] 400 (''missing_'' @ fieldName) else Inr (trim s)
      | _ \<Rightarrow> route_throw [] 400 (''missing_'' @ fieldName))"

text \<open>Numbers above zero are truncated, which is the floor.\<close>

definition parse_challenge_exp :: "jsval \<Rightarrow> int route_result" where
  "parse_challenge_exp v =
     (case v of
        JNum n \<Rightarrow>
          (case n of
             Fin q \<Rightarrow> if q \<le> 0 then route_throw [] 400 ''invalid_challengeExp'' else Inr \<lfloor>q\<rfloor>
           | _ \<Rightarrow> route_throw [] 400 ''invalid_challengeExp'')
      | JStr s \<Rightarrow>
          (case finite_parse_int (trim s) of
             None \<Rightarrow> route_throw [] 400 ''invalid_challengeExp''
           | Some i \<Rightarrow> if i \<le> 0 then route_throw [] 400 ''invalid_challengeExp'' else Inr i)
      | _ \<Rightarrow> route_throw [] 400 ''missing_challengeExp'')"

definition route_assert_ttl :: "jobj \<Rightarrow> int" where
  "route_assert_ttl env =
     (let raw = clean_env (jprop env ''ROUTE_ASSERT_TTL_SEC'') in
      case finite_parse_int (if raw \<noteq> [] then raw else int_str default_route_assert_ttl_sec) of
        None \<Rightarrow> default_route_assert_ttl_sec
      | Some configured \<Rightarrow>
          if configured \<le> 0 then default_route_assert_ttl_sec
          else min max_route_assert_ttl_sec (max 10 configured))"

definition require_route_assert_token :: "jobj \<Rightarrow> headers \<Rightarrow> unit route_result" where
  "require_route_assert_token env hs =
     (let expected = clean_env (jprop env ''ROUTE_ASSERT_TOKEN'') in
      if expected = [] then
        route_throw [''worker_route_assert_fail_total''] 500 ''missing_route_assert_token''
      else
        let actual = read_bearer_token hs in
        if actual = [] \<or> actual \<noteq> expected then
          route_throw [''worker_route_assert_auth_failed_total''] 401 ''unauthorized''
        else Inr ())"

definition optional_value :: "jsval \<Rightarrow> string option" where
  "optional_value v = (if clean_env v = [] then None else Some (clean_env v))"

definition reject :: "int \<Rightarrow> string \<Rightarrow> 'a route_result" where
  "reject status message = route_throw [''worker_route_assert_reject_total''] status message"

definition nonce_char :: "char \<Rightarrow> bool" where
  "nonce_char c \<longleftrightarrow> is_alnum c \<or> c \<in> {CHR ''.'', CHR ''_'', CHR '':'', CHR ''-''}"

text \<open>The challenge, checked: domain, configuration, host, nonce and its expiry.\<close>

record challenge =
  ch_domain :: string
  ch_cfgTx :: string
  ch_hbHost :: string
  ch_nonce :: string
  ch_exp :: int

definition read_challenge :: "route_ops \<Rightarrow> jobj \<Rightarrow> jsval \<Rightarrow> challenge route_result" where
  "read_challenge ops env body =
     route_bind (body_prop body ''domain'') (\<lambda>rawDomain.
     route_bind (route_required_string rawDomain ''domain'') (\<lambda>d.
     route_bind (normalize_domain_like (ro_url ops) d ''domain'') (\<lambda>domain.
     route_bind (body_prop body ''cfgTx'') (\<lambda>rawCfg.
     route_bind (route_required_string rawCfg ''cfgTx'') (\<lambda>cfgTx.
     if \<not> cfg_tx_re cfgTx then reject 400 ''invalid_cfgTx'' else
     route_bind (body_prop body ''hbHost'') (\<lambda>rawHost.
     route_bind (route_required_string rawHost ''hbHost'') (\<lambda>h.
     route_bind (normalize_domain_like (ro_url ops) h ''hbHost'') (\<lambda>hbHost.
     if hbHost \<notin> set (resolve_allowed_hb_hosts (ro_url ops) env) then reject 403 ''hb_host_not_allowlisted'' else
     route_bind (body_prop body ''challengeNonce'') (\<lambda>rawNonce.
     route_bind (route_required_string rawNonce ''challengeNonce'') (\<lambda>nonce.
     if \<not> matches_class nonce_char 8 256 nonce then reject 400 ''invalid_challengeNonce'' else
     route_bind (body_prop body ''challengeExp'') (\<lambda>rawExp.
     route_bind (parse_challenge_exp rawExp) (\<lambda>challengeExp.
     Inr \<lparr>ch_domain = domain, ch_cfgTx = cfgTx, ch_hbHost = hbHost, ch_nonce = nonce, ch_exp = challengeExp\<rparr>))))))))))))"

definition build_assertion :: "jobj \<Rightarrow> int \<Rightarrow> int \<Rightarrow> challenge \<Rightarrow> route_assertion" where
  "build_assertion env now x ch =
     \<lparr>as_v = route_assert_version, as_iat = now, as_exp = x, as_challengeNonce = ch_nonce ch,
      as_challengeExp = ch_exp ch, as_domain = ch_domain ch, as_cfgTx = ch_cfgTx ch, as_hbHost = ch_hbHost ch,
      as_siteProcess = optional_value (env_or env ''ROUTE_ASSERT_SITE_PROCESS'' ''AO_SITE_PROCESS_ID''),
      as_writeProcess = optional_value (env_or env ''ROUTE_ASSERT_WRITE_PROCESS'' ''WRITE_PROCESS_ID''),
      as_entryPath = Some (case optional_value (jprop env ''ROUTE_ASSERT_ENTRY_PATH'') of
          None \<Rightarrow> ''/'' | Some p \<Rightarrow> p)\<rparr>"

record issued =
  is_assertion :: route_assertion
  is_signature :: string
  is_signatureRef :: string

definition handle_route_assert ::
  "route_ops \<Rightarrow> jobj \<Rightarrow> headers \<Rightarrow> jsval option \<Rightarrow> int \<Rightarrow> issued route_result" where
  "handle_route_assert ops env hs body now =
     route_bind (require_route_assert_token env hs) (\<lambda>_.
     case body of
       None \<Rightarrow> reject 400 ''invalid_json''
     | Some b \<Rightarrow>
         route_bind (read_challenge ops env b) (\<lambda>ch.
         if ch_exp ch \<le> now then reject 400 ''challenge_expired''
         else
           let x = min (ch_exp ch) (now + route_assert_ttl env) in
           if x \<le> now then reject 400 ''invalid_assertion_ttl''
           else
             let assertion = build_assertion env now x ch;
                 privateKeyHex = clean_env (env_or env ''ROUTE_ASSERT_SIGNING_KEY_HEX'' ''WORKER_ED25519_PRIV_HEX'') in
             if privateKeyHex = [] then
               route_throw [''worker_route_assert_fail_total''] 500 ''missing_route_assert_signing_key''
             else (case read_hex privateKeyHex 32 of
                 None \<Rightarrow> route_throw [] 500 ''invalid_route_assert_signing_key''
               | Some privateKey \<Rightarrow>
                   let signingPayload = route_payload (ro_show ops) assertion;
                       ref = clean_env (env_or env ''ROUTE_ASSERT_SIGNATURE_REF'' ''WORKER_SIGNATURE_REF'')
                   in Inr \<lparr>is_assertion = assertion,
                        is_signature = bytes_hex (ro_sign ops (utf8_bytes signingPayload) privateKey),
                        is_signatureRef = (if ref \<noteq> [] then ref else ''worker-ed25519'')\<rparr>)))"

text \<open>The response of a success, after \<open>worker_route_assert_ok_total\<close> is counted.\<close>

definition issued_json :: "issued \<Rightarrow> jsval" where
  "issued_json r = JObj [(''ok'', JBool True), (''assertion'', JObj (assertion_json (is_assertion r))),
     (''signature'', JStr (is_signature r)), (''sigAlg'', JStr ''ed25519''),
     (''signatureRef'', JStr (is_signatureRef r))]"

section \<open>Verifying an assertion\<close>

definition js_trunc :: "rat \<Rightarrow> int" where
  "js_trunc q = (if q < 0 then \<lceil>q\<rceil> else \<lfloor>q\<rfloor>)"

definition default_verify_skew_sec :: int where
  "default_verify_skew_sec = 30"

definition verify_domain_like :: "(string \<Rightarrow> url_parts option) \<Rightarrow> string \<Rightarrow> string \<Rightarrow> string + string" where
  "verify_domain_like parse_url val fieldName =
     normalize_host parse_url (''invalid_'' @ fieldName) (''invalid_'' @ fieldName) val"

definition sum_bind :: "string + 'a \<Rightarrow> ('a \<Rightarrow> string + 'b) \<Rightarrow> string + 'b" where
  "sum_bind r k = (case r of Inl e \<Rightarrow> Inl e | Inr v \<Rightarrow> k v)"

definition verify_string :: "jobj \<Rightarrow> string \<Rightarrow> string + string" where
  "verify_string obj key =
     (case jprop obj key of
        JStr s \<Rightarrow> if trim s = [] then Inl ''bad_shape'' else Inr (trim s)
      | _ \<Rightarrow> Inl ''bad_shape'')"

definition verify_number :: "jobj \<Rightarrow> string \<Rightarrow> string + int" where
  "verify_number obj key =
     (case jprop obj key of JNum (Fin q) \<Rightarrow> Inr (js_trunc q) | _ \<Rightarrow> Inl ''bad_shape'')"

definition optional_field :: "jobj \<Rightarrow> string \<Rightarrow> string option" where
  "optional_field obj key =
     (case jprop obj key of JStr s \<Rightarrow> if s = [] then None else Some s | _ \<Rightarrow> None)"

definition parse_verify_input :: "(string \<Rightarrow> url_parts option) \<Rightarrow> jobj \<Rightarrow> string + route_assertion" where
  "parse_verify_input parse_url raw =
     (case jprop raw ''assertion'' of
        JObj obj \<Rightarrow>
          sum_bind (verify_string obj ''v'') (\<lambda>v.
          sum_bind (verify_number obj ''iat'') (\<lambda>iat.
          sum_bind (verify_number obj ''exp'') (\<lambda>x.
          sum_bind (verify_string obj ''challengeNonce'') (\<lambda>nonce.
          sum_bind (verify_number obj ''challengeExp'') (\<lambda>challengeExp.
          sum_bind (verify_string obj ''domain'') (\<lambda>d.
          sum_bind (verify_domain_like parse_url d ''domain'') (\<lambda>domain.
          sum_bind (verify_string obj ''cfgTx'') (\<lambda>cfgTx.
          sum_bind (verify_string obj ''hbHost'') (\<lambda>h.
          sum_bind (verify_domain_like parse_url h ''hbHost'') (\<lambda>hbHost.
          Inr \<lparr>as_v = v, as_iat = iat, as_exp = x, as_challengeNonce = nonce, as_challengeExp = challengeExp,
               as_domain = domain, as_cfgTx = cfgTx, as_hbHost = hbHost,
               as_siteProcess = optional_field obj ''siteProcess'',
               as_writeProcess = optional_field obj ''writeProcess'',
               as_entryPath = optional_field obj ''entryPath''\<rparr>))))))))))
      | _ \<Rightarrow> Inl ''bad_shape'')"

definition allowed_skew :: "jobj \<Rightarrow> int" where
  "allowed_skew env =
     (let raw = clean_env (jprop env ''ROUTE_ASSERT_VERIFY_SKEW_SEC'') in
      case finite_parse_int (if raw \<noteq> [] then raw else int_str default_verify_skew_sec) of
        Some skew \<Rightarrow> if skew \<ge> 0 then skew else default_verify_skew_sec
      | None \<Rightarrow> default_verify_skew_sec)"

definition verify_window :: "jobj \<Rightarrow> int \<Rightarrow> route_assertion \<Rightarrow> string option" where
  "verify_window env now a =
     (if as_v a \<noteq> route_assert_version then Some ''bad_shape''
      else if as_exp a \<le> as_iat a then Some ''bad_shape''
      else if as_challengeExp a < as_exp a then Some ''bad_shape''
      else if as_exp a \<le> now then Some ''expired_assertion''
      else if as_iat a > now + allowed_skew env then Some ''assertion_not_yet_valid''
      else None)"

definition resolve_verify_public_key :: "route_ops \<Rightarrow> jobj \<Rightarrow> string + nat list" where
  "resolve_verify_public_key ops env =
     (let pubHex = clean_env (jprop env ''ROUTE_ASSERT_VERIFY_PUB_HEX'') in
      if pubHex \<noteq> [] then
        (case read_hex pubHex 32 of None \<Rightarrow> Inl ''invalid_verify_pubkey'' | Some k \<Rightarrow> Inr k)
      else
        let privateKeyHex = clean_env (env_or env ''ROUTE_ASSERT_SIGNING_KEY_HEX'' ''WORKER_ED25519_PRIV_HEX'') in
        if privateKeyHex = [] then Inl ''missing_verify_key''
        else (case read_hex privateKeyHex 32 of
            None \<Rightarrow> Inl ''invalid_verify_privkey''
          | Some k \<Rightarrow> Inr (ro_public ops k)))"

text \<open>A present, non-blank expectation must be a host and the assertion's.\<close>

definition check_expected ::
  "(string \<Rightarrow> url_parts option) \<Rightarrow> jsval \<Rightarrow> string \<Rightarrow> string \<Rightarrow> string \<Rightarrow> (int \<times> string) option" where
  "check_expected parse_url v fieldName actual mismatch =
     (case v of
        JStr s \<Rightarrow>
          if trim s = [] then None
          else (case verify_domain_like parse_url s fieldName of
              Inl _ \<Rightarrow> Some (400, ''bad_shape'')
            | Inr expected \<Rightarrow> if actual \<noteq> expected then Some (409, mismatch) else None)
      | _ \<Rightarrow> None)"

definition trimmed_field :: "jobj \<Rightarrow> string \<Rightarrow> string" where
  "trimmed_field body k = (case jprop body k of JStr s \<Rightarrow> trim s | _ \<Rightarrow> [])"

datatype verify_reply = VerifyFail int string | Verified string | VerifyCrash

definition claim_of :: "route_assertion \<Rightarrow> claim_subject" where
  "claim_of a = \<lparr>cj_challengeNonce = as_challengeNonce a, cj_domain = as_domain a, cj_cfgTx = as_cfgTx a,
     cj_exp = as_exp a\<rparr>"

text \<open>Everything before the signature is looked at: the assertion and the signature's text, or the reply.\<close>

definition check_verify_input :: "route_ops \<Rightarrow> jobj \<Rightarrow> jobj \<Rightarrow> int \<Rightarrow> (int \<times> string) + (route_assertion \<times> string)" where
  "check_verify_input ops env body now =
     (let signature = trimmed_field body ''signature'';
          sigAlg = to_lower (trimmed_field body ''sigAlg'');
          signatureRef = trimmed_field body ''signatureRef'';
          expectedSigRef = clean_env (env_or env ''ROUTE_ASSERT_SIGNATURE_REF'' ''WORKER_SIGNATURE_REF'') in
      if signature = [] \<or> sigAlg = [] \<or> signatureRef = [] then Inl (400, ''bad_shape'')
      else if sigAlg \<noteq> ''ed25519'' then Inl (400, ''unsupported_sigalg'')
      else if expectedSigRef \<noteq> [] \<and> signatureRef \<noteq> expectedSigRef then Inl (409, ''signature_ref_mismatch'')
      else (case parse_verify_input (ro_url ops) body of
          Inl message \<Rightarrow> Inl (400, message)
        | Inr a \<Rightarrow>
            (case verify_window env now a of
               Some windowError \<Rightarrow> Inl (409, windowError)
             | None \<Rightarrow>
                 (case check_expected (ro_url ops) (jprop body ''expectedDomain'') ''expectedDomain'' (as_domain a)
                         ''domain_mismatch'' of
                    Some e \<Rightarrow> Inl e
                  | None \<Rightarrow>
                      (case check_expected (ro_url ops) (jprop body ''expectedHbHost'') ''expectedHbHost''
                              (as_hbHost a) ''hbhost_mismatch'' of
                         Some e \<Rightarrow> Inl e
                       | None \<Rightarrow> Inr (a, signature))))))"

text \<open>\<open>now\<close>, \<open>now1\<close> and \<open>now2\<close> are the readings of the clock in \<open>verifyWindow\<close>, in the claim and in
  \<open>replayTtl\<close>. The reply comes with the counter that is incremented, if any, and the replay state.\<close>

definition handle_route_assert_verify ::
  "route_ops \<Rightarrow> jobj \<Rightarrow> replay_kv \<Rightarrow> int \<Rightarrow> int \<Rightarrow> int \<Rightarrow> jsval option \<Rightarrow> replay_state
    \<Rightarrow> verify_reply \<times> replay_state" where
  "handle_route_assert_verify ops env kv now now1 now2 body st =
     (case body of
        None \<Rightarrow> (VerifyFail 400 ''bad_shape'', st)
      | Some JNull \<Rightarrow> (VerifyCrash, st)
      | Some (JObj obj) \<Rightarrow>
          (case check_verify_input ops env obj now of
             Inl (status, code) \<Rightarrow> (VerifyFail status code, st)
           | Inr (a, signature) \<Rightarrow>
               (case resolve_verify_public_key ops env of
                  Inl code \<Rightarrow> (VerifyFail 500 code, st)
                | Inr verifyKey \<Rightarrow>
                    (case read_hex signature 64 of
                       None \<Rightarrow> (VerifyFail 401 ''invalid_sig'', st)
                     | Some signatureBytes \<Rightarrow>
                         let canonicalPayload = route_payload (ro_show ops) a in
                         (case ro_verify ops signatureBytes (utf8_bytes canonicalPayload) verifyKey of
                            None \<Rightarrow> (VerifyCrash, st)
                          | Some isValid \<Rightarrow>
                              if \<not> isValid then (VerifyFail 401 ''invalid_sig'', st)
                              else (case claim_route_assertion_replay env kv now1 now2 (claim_of a) st of
                                  (ClaimError code, st') \<Rightarrow> (VerifyFail 500 code, st')
                                | (Replayed, st') \<Rightarrow> (VerifyFail 409 ''replay_detected'', st')
                                | (Claimed, st') \<Rightarrow>
                                    (Verified (bytes_hex (ro_sha256 ops (utf8_bytes canonicalPayload))), st'))))))
      | Some _ \<Rightarrow> (VerifyFail 400 ''bad_shape'', st))"

fun verify_counter :: "verify_reply \<Rightarrow> string list" where
  "verify_counter (VerifyFail _ _) = [''worker_route_assert_verify_fail_total'']"
| "verify_counter (Verified _) = [''worker_route_assert_verify_ok_total'']"
| "verify_counter VerifyCrash = []"

section \<open>The payload binds every field\<close>

fun scalar :: "jsval \<Rightarrow> bool" where
  "scalar (JStr s) = True"
| "scalar (JNum (Fin q)) = True"
| "scalar _ = False"

fun cscalar :: "jsval \<Rightarrow> cval" where
  "cscalar (JStr s) = CStr s"
| "cscalar (JNum n) = CNum n"
| "cscalar _ = CNull"

lemma cscalar_inj: "scalar v \<Longrightarrow> scalar w \<Longrightarrow> cscalar v = cscalar w \<Longrightarrow> v = w"
  by (cases v rule: scalar.cases; cases w rule: scalar.cases) auto

lemma cnorm_cscalar [simp]: "cnorm (cscalar v) = cscalar v"
  by (cases v rule: cscalar.cases) auto

lemma encode_cscalar: "scalar v \<Longrightarrow> encode_value show_num p (cscalar v) = Inr (stable_stringify show_num v)"
  by (cases v rule: scalar.cases) auto

definition map_vals :: "('a \<Rightarrow> 'b) \<Rightarrow> (string \<times> 'a) list \<Rightarrow> (string \<times> 'b) list" where
  "map_vals f kvs = map (\<lambda>(k, v). (k, f v)) kvs"

lemma map_vals_simps [simp]: "map_vals f [] = []" "map_vals f ((k, v) # kvs) = (k, f v) # map_vals f kvs"
  by (simp_all add: map_vals_def)

lemma insort_map_snd:
  "insort_key fst (k, f v) (map_vals f kvs) = map_vals f (insort_key fst (k, v) kvs)"
  by (induction kvs) auto

lemma sort_map_snd: "sort_key fst (map_vals f kvs) = map_vals f (sort_key fst kvs)"
proof (induction kvs)
  case (Cons kv kvs)
  then show ?case using insort_map_snd [of "fst kv" f "snd kv" "sort_key fst kvs"] by (cases kv) simp
qed simp

lemma stable_props_map: "stable_props show_num kvs = map_vals (stable_stringify show_num) kvs"
  by (induction kvs) auto

lemma encode_scalar_props:
  "\<forall>v \<in> snd ` set kvs. scalar v \<Longrightarrow>
   encode_props show_num p (map_vals cscalar kvs)
     = Inr (map (\<lambda>(k, s). json_quote k @ '':'' @ s) (map_vals (stable_stringify show_num) kvs))"
  by (induction kvs) (auto simp: encode_cscalar)

lemma encode_scalar_object:
  assumes "\<forall>v \<in> snd ` set kvs. scalar v"
  shows "encode_value show_num p (CObj True (map_vals cscalar kvs)) = Inr (stable_stringify show_num (JObj kvs))"
proof -
  have "\<forall>v \<in> snd ` set (sort_key fst kvs). scalar v" using assms by simp
  then show ?thesis
    by (simp add: sort_map_snd encode_scalar_props stable_props_map)
qed

lemma cnorm_scalar_props: "cnorm_props (map_vals cscalar kvs) = map_vals cscalar kvs"
  by (induction kvs) auto

lemma map_cscalar_inj:
  "\<forall>v \<in> snd ` set kvs. scalar v \<Longrightarrow> \<forall>v \<in> snd ` set kvs'. scalar v \<Longrightarrow>
   map_vals cscalar kvs = map_vals cscalar kvs' \<Longrightarrow> kvs = kvs'"
proof (induction kvs arbitrary: kvs')
  case (Cons kv kvs)
  then show ?case by (cases kvs'; cases kv) (auto dest: cscalar_inj)
qed (auto simp: map_vals_def)

lemma stable_object_inj:
  assumes nf: "number_format show_num"
    and sc: "\<forall>v \<in> snd ` set kvs. scalar v" "\<forall>v \<in> snd ` set kvs'. scalar v"
    and eq: "stable_stringify show_num (JObj kvs) = stable_stringify show_num (JObj kvs')"
  shows "set kvs = set kvs'"
proof -
  have "cnorm (CObj True (map_vals cscalar kvs)) = cnorm (CObj True (map_vals cscalar kvs'))"
    using encode_split(1) [OF nf encode_scalar_object [OF sc(1), of show_num "[]"]
        encode_scalar_object [OF sc(2), of show_num "[]"], of "[]" "[]"] eq
    by (simp add: delim_def)
  then have "map_vals cscalar (sort_key fst kvs) = map_vals cscalar (sort_key fst kvs')"
    by (simp add: sort_map_snd cnorm_scalar_props)
  then have "sort_key fst kvs = sort_key fst kvs'"
    using sc by (intro map_cscalar_inj) simp_all
  then show ?thesis by (metis set_sort)
qed

lemma opt_entry_set [simp]: "kv \<in> set (opt_entry k x) \<longleftrightarrow> (\<exists>s. x = Some s \<and> kv = (k, JStr s))"
  by (auto simp: opt_entry_def split: option.split)

lemma assertion_scalar: "\<forall>v \<in> snd ` set (assertion_json a). scalar v"
  by (auto simp: assertion_json_def json_int_def)

lemma option_eqI: "(\<And>s. x = Some s \<longleftrightarrow> y = Some s) \<Longrightarrow> x = y"
  by (cases x; cases y) auto

lemma assertion_json_inj:
  assumes eq: "set (assertion_json a) = set (assertion_json b)"
  shows "a = b"
proof -
  have f: "(k, v) \<in> set (assertion_json a) \<longleftrightarrow> (k, v) \<in> set (assertion_json b)" for k v
    by (simp add: eq)
  note g = f [unfolded assertion_json_def json_int_def]
  have "as_siteProcess a = as_siteProcess b"
    by (rule option_eqI) (use g [of "''siteProcess''" "JStr s" for s] in simp)
  moreover have "as_writeProcess a = as_writeProcess b"
    by (rule option_eqI) (use g [of "''writeProcess''" "JStr s" for s] in simp)
  moreover have "as_entryPath a = as_entryPath b"
    by (rule option_eqI) (use g [of "''entryPath''" "JStr s" for s] in simp)
  moreover have "as_v a = as_v b" using g [of "''v''" "JStr (as_v a)"] by simp
  moreover have "as_iat a = as_iat b" using g [of "''iat''" "JNum (Fin (of_int (as_iat a)))"] by simp
  moreover have "as_exp a = as_exp b" using g [of "''exp''" "JNum (Fin (of_int (as_exp a)))"] by simp
  moreover have "as_challengeExp a = as_challengeExp b"
    using g [of "''challengeExp''" "JNum (Fin (of_int (as_challengeExp a)))"] by simp
  moreover have "as_challengeNonce a = as_challengeNonce b"
    using g [of "''challengeNonce''" "JStr (as_challengeNonce a)"] by simp
  moreover have "as_domain a = as_domain b" using g [of "''domain''" "JStr (as_domain a)"] by simp
  moreover have "as_cfgTx a = as_cfgTx b" using g [of "''cfgTx''" "JStr (as_cfgTx a)"] by simp
  moreover have "as_hbHost a = as_hbHost b" using g [of "''hbHost''" "JStr (as_hbHost a)"] by simp
  ultimately show "a = b" by simp
qed

lemma route_payload_inj:
  assumes "number_format show_num" and "route_payload show_num a = route_payload show_num b"
  shows "a = b"
  using assertion_json_inj stable_object_inj [OF assms(1) assertion_scalar assertion_scalar
    assms(2) [unfolded route_payload_def]] .

section \<open>Normalized hosts\<close>

lemma split_on_last: "s \<noteq> [] \<Longrightarrow> last s = c \<Longrightarrow> last (split_on c s) = []"
proof (induction s)
  case (Cons y s)
  show ?case
  proof (cases "s = []")
    case True
    then show ?thesis using Cons by simp
  next
    case False
    obtain w ws where w: "split_on c s = w # ws" by (cases "split_on c s") auto
    with Cons False have "last (w # ws) = []" by simp
    moreover have "ws \<noteq> []"
    proof
      assume "ws = []"
      with w Cons.IH False Cons.prems have "split_on c s = [[]]" by simp
      then have "s = []" by (cases s) (auto split: if_splits list.splits)
      with False show False by simp
    qed
    ultimately show ?thesis using w by simp
  qed
qed simp

definition host_char :: "char \<Rightarrow> bool" where
  "host_char c \<longleftrightarrow> is_lower c \<or> is_digit c \<or> c = CHR ''-'' \<or> c = CHR ''.''"

lemma host_char_facts:
  assumes "host_char c"
  shows "\<not> js_ws c" "lower_char c = c" "c \<noteq> CHR ''/'' \<and> c \<noteq> CHR '':''"
  using assms
  by (auto simp: host_char_def is_lower_def is_digit_def js_ws_def lower_char_def Let_def)

lemma includes_char: "includes_str s (p @ [c]) \<Longrightarrow> c \<in> set s"
proof (induction s)
  case (Cons x s)
  then show ?case using set_mono_prefix [of "p @ [c]" "x # s"] by (auto simp del: prefix_Cons)
qed simp

lemma valid_host_chars: "valid_host h \<Longrightarrow> list_all host_char h"
  using split_on_chars [of _ h "CHR ''.''"]
  by (fastforce simp: valid_host_def list_all_iff host_label_ok_def label_ok_def host_char_def)

lemma valid_host_end:
  assumes "valid_host h" shows "h \<noteq> [] \<and> last h \<noteq> CHR ''.''"
proof -
  have ne: "h \<noteq> []" using assms by (auto simp: valid_host_def)
  have "last (split_on CHR ''.'' h) \<noteq> []"
    using assms last_in_set [OF split_on_ne, of "CHR ''.''" h]
    by (auto simp: valid_host_def list_all_iff host_label_ok_def)
  then show ?thesis using ne split_on_last [OF ne] by metis
qed

lemma normalize_host_valid: "normalize_host parse_url missing invalid s = Inr h \<Longrightarrow> valid_host h"
  by (auto simp: normalize_host_def valid_host_def Let_def split: if_splits option.splits)

lemma normalize_host_id:
  assumes v: "valid_host h" and l: "length h \<le> 253"
    and u: "\<exists>u. parse_url (''http://'' @ h) = Some u \<and> to_lower (up_hostname u) = h"
  shows "normalize_host parse_url missing invalid h = Inr h"
proof -
  have c: "list_all host_char h" by (rule valid_host_chars [OF v])
  then have t: "trim h = h"
    by (intro trim_no_ws) (auto simp: list_all_iff host_char_facts)
  have w: "to_lower h = h" using c by (intro map_idI) (auto simp: list_all_iff host_char_facts)
  have s: "\<not> includes_str h ''/''" "\<not> includes_str h ''://''"
    using c host_char_facts(3) includes_char [of h "[]" "CHR ''/''"] includes_char [of h "'':/''" "CHR ''/''"]
    by (auto simp: list_all_iff)
  have d: "strip_trailing_dots h = h"
    using valid_host_end [OF v] by (simp add: strip_trailing_dots_def dropWhile_hd_not hd_rev)
  obtain p where "parse_url (''http://'' @ h) = Some p" "to_lower (up_hostname p) = h" using u by blast
  moreover have "includes_str h ''.''" "list_all host_label_ok (split_on CHR ''.'' h)"
    using v by (simp_all add: valid_host_def)
  ultimately show ?thesis
    using valid_host_end [OF v] l s d by (simp add: normalize_host_def t w Let_def)
qed

section \<open>Inversion of the checks\<close>

lemma route_bind_Inr [simp]: "route_bind r k = Inr v \<longleftrightarrow> (\<exists>u. r = Inr u \<and> k u = Inr v)"
  by (cases r) (auto simp: route_bind_def)

lemma route_throw_not_Inr [simp]: "route_throw incs status message \<noteq> Inr v" "reject status message \<noteq> Inr v"
  by (simp_all add: route_throw_def reject_def)

lemma route_sum_bind_Inr [simp]: "sum_bind r k = Inr v \<longleftrightarrow> (\<exists>u. r = Inr u \<and> k u = Inr v)"
  by (cases r) (auto simp: sum_bind_def)

lemma read_challenge_spec:
  assumes "read_challenge ops env body = Inr ch"
  shows "valid_host (ch_domain ch)" and "valid_host (ch_hbHost ch)" and "cfg_tx_re (ch_cfgTx ch)"
    and "ch_hbHost ch \<in> set (resolve_allowed_hb_hosts (ro_url ops) env)"
    and "matches_class nonce_char 8 256 (ch_nonce ch)"
  using assms
  by (auto simp: read_challenge_def normalize_domain_like_def split: if_splits sum.splits
      dest: normalize_host_valid)

lemma route_assert_ttl_range: "10 \<le> route_assert_ttl env \<and> route_assert_ttl env \<le> 300"
  by (auto simp: route_assert_ttl_def default_route_assert_ttl_sec_def max_route_assert_ttl_sec_def Let_def
      split: option.split)

lemma handle_route_assert_spec:
  assumes "handle_route_assert ops env hs body now = Inr r"
  shows "\<exists>b ch key. body = Some b \<and> read_challenge ops env b = Inr ch \<and> now < ch_exp ch
    \<and> read_hex (clean_env (env_or env ''ROUTE_ASSERT_SIGNING_KEY_HEX'' ''WORKER_ED25519_PRIV_HEX'')) 32 = Some key
    \<and> clean_env (env_or env ''ROUTE_ASSERT_SIGNING_KEY_HEX'' ''WORKER_ED25519_PRIV_HEX'') \<noteq> []
    \<and> is_assertion r = build_assertion env now (min (ch_exp ch) (now + route_assert_ttl env)) ch
    \<and> is_signature r = bytes_hex (ro_sign ops (utf8_bytes (route_payload (ro_show ops) (is_assertion r))) key)
    \<and> is_signatureRef r = (let ref = clean_env (env_or env ''ROUTE_ASSERT_SIGNATURE_REF'' ''WORKER_SIGNATURE_REF'')
          in if ref \<noteq> [] then ref else ''worker-ed25519'')
    \<and> read_bearer_token hs \<noteq> [] \<and> read_bearer_token hs = clean_env (jprop env ''ROUTE_ASSERT_TOKEN'')"
  using assms
  by (auto simp: handle_route_assert_def require_route_assert_token_def Let_def split: if_splits option.splits)

section \<open>Properties\<close>

text \<open>
  The signed payload determines the assertion: two assertions with the same payload agree in every
  field, the optional ones included, so a signature over one assertion is not valid for another.
\<close>

theorem payload_binds_assertion:
  assumes "number_format show_num"
  shows "route_payload show_num a = route_payload show_num b \<longleftrightarrow> a = b"
  using route_payload_inj [OF assms] by blast

text \<open>
  An assertion is issued only to the bearer of the configured, non-empty token, for a valid domain
  and an allowed host, and it is valid from now on for at most 300 seconds and not longer than
  the challenge.
\<close>

theorem issued_assertion_bounded:
  assumes "handle_route_assert ops env hs body now = Inr r"
  shows "let a = is_assertion r in
    clean_env (jprop env ''ROUTE_ASSERT_TOKEN'') \<noteq> []
    \<and> read_bearer_token hs = clean_env (jprop env ''ROUTE_ASSERT_TOKEN'')
    \<and> as_iat a = now \<and> now < as_exp a \<and> as_exp a \<le> now + 300 \<and> as_exp a \<le> as_challengeExp a
    \<and> valid_host (as_domain a) \<and> as_hbHost a \<in> set (resolve_allowed_hb_hosts (ro_url ops) env)
    \<and> as_v a = route_assert_version"
proof -
  from handle_route_assert_spec [OF assms] obtain ch where
    ch: "read_challenge ops env (the body) = Inr ch" "now < ch_exp ch"
      "is_assertion r = build_assertion env now (min (ch_exp ch) (now + route_assert_ttl env)) ch"
    and tok: "read_bearer_token hs \<noteq> []" "read_bearer_token hs = clean_env (jprop env ''ROUTE_ASSERT_TOKEN'')"
    by (metis option.sel)
  then show ?thesis
    using read_challenge_spec [OF ch(1)] route_assert_ttl_range [of env]
    by (auto simp: Let_def build_assertion_def)
qed


text \<open>What the round trip needs of the parameters: a signature is 64 bytes and verifies under the public
  key, and the URL parser leaves an issued host as it is.\<close>

definition ed25519_laws :: "route_ops \<Rightarrow> bool" where
  "ed25519_laws ops \<longleftrightarrow>
     (\<forall>m k. length (ro_sign ops m k) = 64 \<and> list_all (\<lambda>b. b < 256) (ro_sign ops m k)
        \<and> ro_verify ops (ro_sign ops m k) m (ro_public ops k) = Some True)"

definition url_fixes :: "route_ops \<Rightarrow> string \<Rightarrow> bool" where
  "url_fixes ops h \<longleftrightarrow> length h \<le> 253
     \<and> (\<exists>u. ro_url ops (''http://'' @ h) = Some u \<and> to_lower (up_hostname u) = h)"

lemma hex_nat_digit: "n < 16 \<Longrightarrow> hex_nat (hex_digit n) = n"
  by (auto simp: hex_nat_def hex_digit_def of_char_of Let_def)

lemma hex_digit_class: "n < 16 \<Longrightarrow> is_hex (hex_digit n) \<and> \<not> js_ws (hex_digit n)"
proof -
  have "list_all (\<lambda>n. is_hex (hex_digit n) \<and> \<not> js_ws (hex_digit n)) [0..<16]" by code_simp
  then show "n < 16 \<Longrightarrow> ?thesis" by (simp add: list_all_iff)
qed

lemma bytes_hex_simps: "bytes_hex [] = []"
  "bytes_hex (b # bs) = hex_digit (b div 16) # hex_digit (b mod 16) # bytes_hex bs"
  by (simp_all add: bytes_hex_def)

lemma bytes_hex_class:
  "list_all (\<lambda>b. b < 256) bs \<Longrightarrow> list_all (\<lambda>c. is_hex c \<and> \<not> js_ws c) (bytes_hex bs) \<and> length (bytes_hex bs) = 2 * length bs"
proof (induction bs)
  case (Cons b bs)
  then have "b div 16 < 16" "b mod 16 < 16" by auto
  then show ?case using Cons hex_digit_class by (simp add: bytes_hex_simps)
qed (simp add: bytes_hex_simps)

lemma hex_pairs_bytes: "list_all (\<lambda>b. b < 256) bs \<Longrightarrow> hex_pairs (bytes_hex bs) = bs"
proof (induction bs)
  case (Cons b bs)
  then have "b div 16 < 16" "b mod 16 < 16" by auto
  then show ?case using Cons by (simp add: bytes_hex_simps hex_nat_digit)
qed (simp add: bytes_hex_simps)

lemma read_bytes_hex:
  assumes "list_all (\<lambda>b. b < 256) bs"
  shows "read_hex (bytes_hex bs) (length bs) = Some bs" and "trim (bytes_hex bs) = bytes_hex bs"
  using bytes_hex_class [OF assms] hex_pairs_bytes [OF assms]
  by (auto simp: read_hex_def matches_class_def list_all_iff intro!: trim_no_ws)

lemma class_no_ws: "matches_class p lo hi s \<Longrightarrow> (\<And>c. p c \<Longrightarrow> \<not> js_ws c) \<Longrightarrow> trim s = s"
  by (rule trim_no_ws) (auto simp: matches_class_def list_all_iff)

lemma punct_not_ws: "\<not> js_ws CHR ''_''" "\<not> js_ws CHR ''-''" "\<not> js_ws CHR ''.''" "\<not> js_ws CHR '':''"
  by (simp_all add: js_ws_def)

lemma trim_cfg: "cfg_tx_re s \<Longrightarrow> trim s = s"
  unfolding cfg_tx_re_def by (erule class_no_ws) (auto simp: id_char_def alnum_not_ws punct_not_ws)

lemma trim_nonce: "matches_class nonce_char 8 256 s \<Longrightarrow> trim s = s"
  by (erule class_no_ws) (auto simp: nonce_char_def alnum_not_ws punct_not_ws)

lemma trim_host: "valid_host h \<Longrightarrow> trim h = h"
  using valid_host_chars [of h] by (intro trim_no_ws) (auto simp: list_all_iff host_char_facts)

lemma js_trunc_int [simp]: "js_trunc (of_int i) = i"
  by (simp add: js_trunc_def)

lemma assertion_props:
  "jprop (assertion_json a) ''v'' = JStr (as_v a)"
  "jprop (assertion_json a) ''iat'' = json_int (as_iat a)"
  "jprop (assertion_json a) ''exp'' = json_int (as_exp a)"
  "jprop (assertion_json a) ''challengeNonce'' = JStr (as_challengeNonce a)"
  "jprop (assertion_json a) ''challengeExp'' = json_int (as_challengeExp a)"
  "jprop (assertion_json a) ''domain'' = JStr (as_domain a)"
  "jprop (assertion_json a) ''cfgTx'' = JStr (as_cfgTx a)"
  "jprop (assertion_json a) ''hbHost'' = JStr (as_hbHost a)"
  by (simp_all add: assertion_json_def jprop_def)

lemma assertion_optional:
  assumes "as_siteProcess a \<noteq> Some []" "as_writeProcess a \<noteq> Some []" "as_entryPath a \<noteq> Some []"
  shows "optional_field (assertion_json a) ''siteProcess'' = as_siteProcess a"
    "optional_field (assertion_json a) ''writeProcess'' = as_writeProcess a"
    "optional_field (assertion_json a) ''entryPath'' = as_entryPath a"
  using assms
  by (auto simp: optional_field_def assertion_json_def jprop_def opt_entry_def split: option.splits)

lemma parse_issued_assertion:
  assumes "as_v a = route_assert_version" and "valid_host (as_domain a)" and "valid_host (as_hbHost a)"
    and "url_fixes ops (as_domain a)" and "url_fixes ops (as_hbHost a)"
    and "cfg_tx_re (as_cfgTx a)" and "matches_class nonce_char 8 256 (as_challengeNonce a)"
    and "as_siteProcess a \<noteq> Some []" "as_writeProcess a \<noteq> Some []" "as_entryPath a \<noteq> Some []"
    and "jprop raw ''assertion'' = JObj (assertion_json a)"
  shows "parse_verify_input (ro_url ops) raw = Inr a"
proof -
  have "as_cfgTx a \<noteq> []" "as_challengeNonce a \<noteq> []" "as_domain a \<noteq> []" "as_hbHost a \<noteq> []"
    using assms(2,3,6,7) by (auto simp: cfg_tx_re_def matches_class_def valid_host_def)
  moreover have "trim route_assert_version = route_assert_version" "route_assert_version \<noteq> []" by code_simp+
  moreover have "verify_domain_like (ro_url ops) (as_domain a) f = Inr (as_domain a)"
    "verify_domain_like (ro_url ops) (as_hbHost a) f = Inr (as_hbHost a)" for f
    using assms(2-5) by (auto simp: verify_domain_like_def url_fixes_def intro: normalize_host_id)
  ultimately show ?thesis
    using assms(1,11) assertion_optional [OF assms(8-10)]
      trim_cfg [OF assms(6)] trim_nonce [OF assms(7)] trim_host [OF assms(2)] trim_host [OF assms(3)]
    by (simp add: parse_verify_input_def verify_string_def verify_number_def assertion_props json_int_def)
qed

lemma trimmed_env [simp]: "trim (clean_env v) = clean_env v"
  by (simp add: clean_env_def split: jsval.split)

lemma allowed_skew_nonneg: "0 \<le> allowed_skew env"
  by (auto simp: allowed_skew_def default_verify_skew_sec_def Let_def split: option.split)

lemma issued_fields:
  "trimmed_field [(''ok'', x1), (''assertion'', x2), (''signature'', JStr s), (''sigAlg'', JStr ''ed25519''),
     (''signatureRef'', JStr t)] ''signature'' = trim s"
  "trimmed_field [(''ok'', x1), (''assertion'', x2), (''signature'', JStr s), (''sigAlg'', JStr ''ed25519''),
     (''signatureRef'', JStr t)] ''sigAlg'' = ''ed25519''"
  "trimmed_field [(''ok'', x1), (''assertion'', x2), (''signature'', JStr s), (''sigAlg'', JStr ''ed25519''),
     (''signatureRef'', JStr t)] ''signatureRef'' = trim t"
  by (simp_all add: trimmed_field_def jprop_def trim_no_ws js_ws_def)

lemma issue_then_verify:
  assumes issued: "handle_route_assert ops env hs body now = Inr r"
    and laws: "ed25519_laws ops" and hosts: "url_fixes ops (as_domain (is_assertion r))"
      "url_fixes ops (as_hbHost (is_assertion r))"
    and key: "clean_env (jprop env ''ROUTE_ASSERT_VERIFY_PUB_HEX'') = []"
    and time: "now \<le> later" "later < as_exp (is_assertion r)"
    and claim: "claim_route_assertion_replay env kv now1 now2 (claim_of (is_assertion r)) st = (Claimed, st')"
  shows "handle_route_assert_verify ops env kv later now1 now2 (Some (issued_json r)) st
    = (Verified (bytes_hex (ro_sha256 ops (utf8_bytes (route_payload (ro_show ops) (is_assertion r))))), st')"
proof -
  let ?a = "is_assertion r"
  from handle_route_assert_spec [OF issued] obtain ch k where
    ch: "read_challenge ops env (the body) = Inr ch" "now < ch_exp ch"
    and k: "read_hex (clean_env (env_or env ''ROUTE_ASSERT_SIGNING_KEY_HEX'' ''WORKER_ED25519_PRIV_HEX'')) 32 = Some k"
      "clean_env (env_or env ''ROUTE_ASSERT_SIGNING_KEY_HEX'' ''WORKER_ED25519_PRIV_HEX'') \<noteq> []"
    and a: "?a = build_assertion env now (min (ch_exp ch) (now + route_assert_ttl env)) ch"
    and s: "is_signature r = bytes_hex (ro_sign ops (utf8_bytes (route_payload (ro_show ops) ?a)) k)"
    and ref: "is_signatureRef r = (let ref = clean_env (env_or env ''ROUTE_ASSERT_SIGNATURE_REF'' ''WORKER_SIGNATURE_REF'')
          in if ref \<noteq> [] then ref else ''worker-ed25519'')"
    by (metis option.sel)
  let ?sig = "ro_sign ops (utf8_bytes (route_payload (ro_show ops) ?a)) k"
  have sig: "length ?sig = 64" "list_all (\<lambda>b. b < 256) ?sig"
    "ro_verify ops ?sig (utf8_bytes (route_payload (ro_show ops) ?a)) (ro_public ops k) = Some True"
    using laws by (simp_all add: ed25519_laws_def)
  have hex: "read_hex (is_signature r) 64 = Some ?sig" "trim (is_signature r) = is_signature r"
    using read_bytes_hex [OF sig(2)] by (simp_all add: s sig(1))
  have ne: "is_signature r \<noteq> []"
    using bytes_hex_class [OF sig(2)] sig(1) by (auto simp: s)
  have tr: "trim (is_signatureRef r) = is_signatureRef r" "is_signatureRef r \<noteq> []"
    by (auto simp: ref Let_def trim_no_ws js_ws_def)
  let ?obj = "[(''ok'', JBool True), (''assertion'', JObj (assertion_json ?a)), (''signature'', JStr (is_signature r)),
     (''sigAlg'', JStr ''ed25519''), (''signatureRef'', JStr (is_signatureRef r))]"
  have parsed: "parse_verify_input (ro_url ops) ?obj = Inr ?a"
    using read_challenge_spec [OF ch(1)]
    by (intro parse_issued_assertion hosts) (auto simp: a build_assertion_def optional_value_def jprop_def split: option.split)
  have window: "verify_window env later ?a = None"
    using time ch(2) route_assert_ttl_range [of env] allowed_skew_nonneg [of env]
    by (auto simp: verify_window_def a build_assertion_def)
  have expected: "jprop ?obj ''expectedDomain'' = JUndef" "jprop ?obj ''expectedHbHost'' = JUndef"
    by (simp_all add: jprop_def)
  have "check_verify_input ops env ?obj later = Inr (?a, is_signature r)"
    using ne tr by (simp add: check_verify_input_def issued_fields hex(2) parsed window expected check_expected_def
      Let_def lower_char_def) (auto simp: ref Let_def)
  moreover have "resolve_verify_public_key ops env = Inr (ro_public ops k)"
    using k key by (simp add: resolve_verify_public_key_def)
  ultimately show ?thesis
    by (simp add: handle_route_assert_verify_def issued_json_def hex(1) sig(3) claim Let_def)
qed


section \<open>Witnesses\<close>

definition demo_ops :: route_ops where
  "demo_ops = \<lparr>ro_url = (\<lambda>s. Some \<lparr>up_protocol = ''http:'', up_username = [], up_password = [],
       up_hostname = drop 7 s, up_href = s\<rparr>),
     ro_show = show_ratio, ro_sign = (\<lambda>m k. replicate 64 7), ro_verify = (\<lambda>s m k. Some (s = replicate 64 7)),
     ro_public = (\<lambda>k. k), ro_sha256 = (\<lambda>m. [1, 2])\<rparr>"

definition demo_route_env :: jobj where
  "demo_route_env = [(''ROUTE_ASSERT_TOKEN'', JStr ''tok''), (''HB_ALLOWED_HOSTS'', JStr ''hb.io''),
     (''ROUTE_ASSERT_SIGNING_KEY_HEX'', JStr (replicate 64 CHR ''a'')),
     (''ROUTE_ASSERT_VERIFY_REPLAY_ENABLED'', JStr ''1'')]"

definition demo_challenge :: jsval where
  "demo_challenge = JObj [(''domain'', JStr '' A.io ''), (''cfgTx'', JStr (replicate 40 CHR ''c'')),
     (''hbHost'', JStr ''hb.io.''), (''challengeNonce'', JStr ''nonce-0001''), (''challengeExp'', JNum (Fin 5000))]"

definition demo_headers :: headers where
  "demo_headers = (\<lambda>k. if k = ''authorization'' then Some ''bearer tok'' else None)"

definition demo_issued :: issued where
  "demo_issued = \<lparr>is_assertion = \<lparr>as_v = route_assert_version, as_iat = 1000, as_exp = 1120,
       as_challengeNonce = ''nonce-0001'', as_challengeExp = 5000, as_domain = ''a.io'',
       as_cfgTx = replicate 40 CHR ''c'', as_hbHost = ''hb.io'', as_siteProcess = None, as_writeProcess = None,
       as_entryPath = Some ''/''\<rparr>,
     is_signature = bytes_hex (replicate 64 7), is_signatureRef = ''worker-ed25519''\<rparr>"

lemma demo_parts:
  "require_route_assert_token demo_route_env demo_headers = Inr ()"
  "read_challenge demo_ops demo_route_env demo_challenge
    = Inr \<lparr>ch_domain = ''a.io'', ch_cfgTx = replicate 40 CHR ''c'', ch_hbHost = ''hb.io'', ch_nonce = ''nonce-0001'',
        ch_exp = 5000\<rparr>"
  "route_assert_ttl demo_route_env = 120"
  "clean_env (env_or demo_route_env ''ROUTE_ASSERT_SIGNING_KEY_HEX'' ''WORKER_ED25519_PRIV_HEX'')
    = replicate 64 CHR ''a''"
  "read_hex (replicate 64 CHR ''a'') 32 = Some (replicate 32 170)"
  "clean_env (env_or demo_route_env ''ROUTE_ASSERT_SIGNATURE_REF'' ''WORKER_SIGNATURE_REF'') = []"
  "build_assertion demo_route_env 1000 1120 \<lparr>ch_domain = ''a.io'', ch_cfgTx = replicate 40 CHR ''c'',
      ch_hbHost = ''hb.io'', ch_nonce = ''nonce-0001'', ch_exp = 5000\<rparr> = is_assertion demo_issued"
  by code_simp+

lemma demo_issue: "handle_route_assert demo_ops demo_route_env demo_headers (Some demo_challenge) 1000 = Inr demo_issued"
proof -
  have "ro_sign demo_ops m k = replicate 64 7" for m k by (simp add: demo_ops_def)
  then show ?thesis
    by (simp add: handle_route_assert_def demo_parts [unfolded One_nat_def] route_bind_def Let_def del: replicate.simps)
      (simp add: demo_issued_def)
qed

definition no_kv :: replay_kv where
  "no_kv = \<lparr>rk_get = (\<lambda>_. None), rk_put = (\<lambda>_ _ _. False)\<rparr>"

definition fresh_replay :: replay_state where
  "fresh_replay = \<lparr>rr_memory = [], rr_locks = []\<rparr>"

lemma demo_claim:
  "\<exists>st'. claim_route_assertion_replay demo_route_env no_kv 1050 1050 (claim_of (is_assertion demo_issued)) fresh_replay
    = (Claimed, st') \<and> length (rr_memory st') = 1"
  by (intro exI [of _ "snd (claim_route_assertion_replay demo_route_env no_kv 1050 1050
    (claim_of (is_assertion demo_issued)) fresh_replay)"]) code_simp

lemma issued_bounds_witness:
  "handle_route_assert demo_ops demo_route_env demo_headers (Some demo_challenge) 1000 = Inr demo_issued
   \<and> as_exp (is_assertion demo_issued) \<le> 1300"
  using issued_assertion_bounded [OF demo_issue] demo_issue by (simp add: Let_def)

lemma demo_conditions:
  "ed25519_laws demo_ops" "url_fixes demo_ops (as_domain (is_assertion demo_issued))"
  "url_fixes demo_ops (as_hbHost (is_assertion demo_issued))"
  "clean_env (jprop demo_route_env ''ROUTE_ASSERT_VERIFY_PUB_HEX'') = []"
  "(1000 :: int) \<le> 1050" "1050 < as_exp (is_assertion demo_issued)"
  by (simp_all add: ed25519_laws_def demo_ops_def list_all_iff url_fixes_def demo_issued_def lower_char_def
      demo_route_env_def jprop_def clean_env_def)

lemma demo_hash: "bytes_hex (ro_sha256 demo_ops m) = ''0102''"
  by (simp add: demo_ops_def bytes_hex_def hex_digit_table)



lemma payload_binds_witness:
  "route_payload show_ratio (is_assertion demo_issued)
     \<noteq> route_payload show_ratio ((is_assertion demo_issued)\<lparr>as_entryPath := None\<rparr>)"
  using payload_binds_assertion [OF number_format_ratio, of "is_assertion demo_issued"
      "(is_assertion demo_issued)\<lparr>as_entryPath := None\<rparr>"]
  by (simp add: demo_issued_def)

end
