(* ===== verification/Mailing.thy ===== *)
theory Mailing
  imports Json
begin

text \<open>
  The mailing runtime (\<open>src/src/runtime/mailing\<close>): the payload policy and the sanitizers, the bounded
  queue with its retry schedule, the transport and the delivery of one mail. The asynchronous delivery
  is cut at its \<open>await\<close> into taking the mail and booking the transport's answer; \<open>mail_step\<close>
  interleaves several deliveries and enqueuings. Reading and printing of timestamps
  (\<open>Date.parse\<close>, \<open>toISOString\<close>) and \<open>fetch\<close> are parameters; a queue has the capacity
  \<open>createMailQueue\<close> gives it, at least one.
\<close>

section \<open>Payload policy\<close>

text \<open>\<open>payloadPolicy.ts\<close>: a result is the error text or the value.\<close>

definition email_local_char :: "char \<Rightarrow> bool" where
  "email_local_char c \<longleftrightarrow> is_alnum c \<or> c \<in> set ''!#$%&*+/=?^_`|~.-'' \<or> c \<in> {CHR 0x27, CHR 0x7B, CHR 0x7D}"

definition email_label_char :: "char \<Rightarrow> bool" where
  "email_label_char c \<longleftrightarrow> is_alnum c \<or> c = CHR ''-''"

fun check_email_labels :: "string list \<Rightarrow> string option" where
  "check_email_labels [] = None"
| "check_email_labels (label # labels) =
     (if length label = 0 \<or> length label > 63 then Some ''email domain label length is invalid''
      else if \<not> list_all email_label_char label then Some ''email domain contains invalid characters''
      else if starts_with label ''-'' \<or> ends_with label ''-'' then
        Some ''email domain labels cannot start or end with a hyphen''
      else check_email_labels labels)"

definition validate_email_domain :: "string \<Rightarrow> string + string" where
  "validate_email_domain domain =
     (if length domain > 253 then Inl ''email domain is too long''
      else if starts_with domain ''.'' \<or> ends_with domain ''.'' \<or> includes_str domain ''..'' then
        Inl ''email domain is malformed''
      else
        let labels = split_on CHR ''.'' domain in
        if length labels < 2 then Inl ''email domain must include a dot''
        else (case check_email_labels labels of Some e \<Rightarrow> Inl e | None \<Rightarrow> Inr domain))"

definition validate_email_local_part :: "string \<Rightarrow> string + string" where
  "validate_email_local_part loc =
     (if length loc = 0 \<or> length loc > 64 then Inl ''email local part length is invalid''
      else if starts_with loc ''.'' \<or> ends_with loc ''.'' \<or> includes_str loc ''..'' then
        Inl ''email local part is malformed''
      else if \<not> list_all email_local_char loc then Inl ''email local part contains invalid characters''
      else Inr loc)"

definition last_index_of :: "char \<Rightarrow> string \<Rightarrow> int" where
  "last_index_of c s = (let i = index_of c (rev s) in if i = - 1 then - 1 else int (length s) - 1 - i)"

definition validate_email_address :: "jsval \<Rightarrow> string + string" where
  "validate_email_address v =
     (case v of
        JStr raw \<Rightarrow>
          let normalized = trim raw in
          if normalized = [] then Inl ''email address must not be empty''
          else if length normalized > 254 then Inl ''email address is too long''
          else if list_ex is_control normalized \<or> list_ex js_ws normalized then
            Inl ''email address cannot contain whitespace or control characters''
          else
            let atIndex = index_of CHR ''@'' normalized in
            if atIndex \<le> 0 \<or> atIndex \<noteq> last_index_of CHR ''@'' normalized
               \<or> atIndex = int (length normalized) - 1 then
              Inl ''email address must contain a single @ separator''
            else
              let loc = take (nat atIndex) normalized;
                  domain = to_lower (drop (nat atIndex + 1) normalized) in
              (case validate_email_local_part loc of
                 Inl e \<Rightarrow> Inl e
               | Inr l \<Rightarrow>
                   (case validate_email_domain domain of
                      Inl e \<Rightarrow> Inl e
                    | Inr d \<Rightarrow> Inr (l @ ''@'' @ d)))
      | _ \<Rightarrow> Inl ''email address must be a string'')"

fun check_recipients :: "nat \<Rightarrow> jsval list \<Rightarrow> string + string list" where
  "check_recipients index [] = Inr []"
| "check_recipients index (v # vs) =
     (case validate_email_address v of
        Inl e \<Rightarrow> Inl (''payload.to['' @ nat_str index @ ''] is invalid: '' @ e)
      | Inr r \<Rightarrow> (case check_recipients (Suc index) vs of Inl e \<Rightarrow> Inl e | Inr rs \<Rightarrow> Inr (r # rs)))"

definition normalize_recipients :: "jsval \<Rightarrow> string + string list" where
  "normalize_recipients v =
     (case (case v of JStr s \<Rightarrow> JArr [JStr s] | _ \<Rightarrow> v) of
        JArr rawRecipients \<Rightarrow>
          if rawRecipients = [] then Inl ''payload.to must be a string or non-empty array of email addresses''
          else check_recipients 0 rawRecipients
      | _ \<Rightarrow> Inl ''payload.to must be a string or non-empty array of email addresses'')"

record mail_payload =
  mp_to :: "string list"
  mp_subject :: string
  mp_body :: string

definition validate_mail_payload :: "jsval \<Rightarrow> string + mail_payload" where
  "validate_mail_payload payload =
     (case as_obj payload of
        None \<Rightarrow> Inl ''payload must be an object''
      | Some obj \<Rightarrow>
          (case normalize_recipients (jprop obj ''to'') of
             Inl e \<Rightarrow> Inl e
           | Inr rs \<Rightarrow>
               (case (as_str (jprop obj ''subject''), as_str (jprop obj ''body'')) of
                  (None, _) \<Rightarrow> Inl ''payload.subject must be a string''
                | (_, None) \<Rightarrow> Inl ''payload.body must be a string''
                | (Some rawSubject, Some rawBody) \<Rightarrow>
                    if trim rawSubject = [] then Inl ''payload.subject must not be empty''
                    else if trim rawBody = [] then Inl ''payload.body must not be empty''
                    else Inr \<lparr>mp_to = rs, mp_subject = trim rawSubject, mp_body = trim rawBody\<rparr>)))"

section \<open>Sanitizers\<close>

definition body_control :: "char \<Rightarrow> bool" where
  "body_control c \<longleftrightarrow> (let n = (of_char c :: nat) in n \<le> 8 \<or> (11 \<le> n \<and> n \<le> 31) \<or> n = 127)"

definition sanitize_mail_subject :: "jsval \<Rightarrow> string + string" where
  "sanitize_mail_subject v =
     (case v of
        JStr s \<Rightarrow>
          let sanitized = trim (filter (\<lambda>c. \<not> is_control c) s)
          in if sanitized = [] then Inl ''subject is empty after sanitization'' else Inr sanitized
      | _ \<Rightarrow> Inl ''subject must be a string'')"

definition sanitize_mail_body :: "jsval \<Rightarrow> string + string" where
  "sanitize_mail_body v =
     (case v of
        JStr s \<Rightarrow>
          let sanitized = filter (\<lambda>c. \<not> body_control c) s
          in if length (trim sanitized) = 0 then Inl ''body is empty after sanitization'' else Inr sanitized
      | _ \<Rightarrow> Inl ''body must be a string'')"

section \<open>The queue\<close>

record mail_request =
  mr_to :: "string list"
  mr_subject :: string
  mr_body :: string
  mr_requestId :: "string option"

record mail_item =
  mi_request :: mail_request
  mi_queuedAt :: string
  mi_attempts :: "int option"
  mi_nextAttemptAt :: "string option"

record mail_queue =
  mq_maxItems :: int
  mq_items :: "mail_item list"

record retry_schedule =
  sc_attempt :: int
  sc_delayMs :: int
  sc_nextAttemptAt :: string

definition default_retry_backoff_ms :: jnum where
  "default_retry_backoff_ms = Fin 100"

definition max_retry_backoff_ms :: jnum where
  "max_retry_backoff_ms = Fin 5000"

definition normalize_queue_cap :: "jnum \<Rightarrow> int" where
  "normalize_queue_cap maxItems = (case maxItems of Fin q \<Rightarrow> if q < 1 then 1 else \<lfloor>q\<rfloor> | _ \<Rightarrow> 1)"

text \<open>How timestamps are read and printed: \<open>Date.parse\<close> and \<open>new Date(n).toISOString()\<close>.\<close>

record date_ops =
  dt_parse :: "string \<Rightarrow> int option"
  dt_iso :: "int \<Rightarrow> string"

definition add_milliseconds :: "date_ops \<Rightarrow> string \<Rightarrow> int \<Rightarrow> string" where
  "add_milliseconds dt isoTimestamp delayMs =
     (case dt_parse dt isoTimestamp of None \<Rightarrow> isoTimestamp | Some t \<Rightarrow> dt_iso dt (t + delayMs))"

definition create_mail_queue :: "jnum \<Rightarrow> mail_queue" where
  "create_mail_queue maxItems = \<lparr>mq_maxItems = normalize_queue_cap maxItems, mq_items = []\<rparr>"

text \<open>\<open>while (queue.items.length > queue.maxItems) queue.items.shift()\<close>.\<close>

fun shift_over :: "int \<Rightarrow> 'a list \<Rightarrow> 'a list" where
  "shift_over cap [] = []"
| "shift_over cap (x # xs) = (if int (length (x # xs)) > cap then shift_over cap xs else x # xs)"

definition enqueue_mail ::
  "mail_queue \<Rightarrow> mail_request \<Rightarrow> int option \<Rightarrow> string option \<Rightarrow> string \<Rightarrow> mail_item \<times> mail_queue" where
  "enqueue_mail queue request attempts nextAttemptAt queuedAt =
     (let item = \<lparr>mi_request = request, mi_queuedAt = queuedAt, mi_attempts = attempts,
                  mi_nextAttemptAt = nextAttemptAt\<rparr>
      in (item, queue\<lparr>mq_items := shift_over (mq_maxItems queue) (mq_items queue @ [item])\<rparr>))"

definition dequeue_mail :: "mail_queue \<Rightarrow> mail_item option \<times> mail_queue" where
  "dequeue_mail queue =
     (case mq_items queue of
        [] \<Rightarrow> (None, queue)
      | item # rest \<Rightarrow> (Some item, queue\<lparr>mq_items := rest\<rparr>))"

definition peek_mail_queue :: "mail_queue \<Rightarrow> mail_item list" where
  "peek_mail_queue queue = mq_items queue"

text \<open>The default arguments stand for an absent value; \<open>attempt\<close> is the integer its callers give.\<close>

definition num_arg :: "jnum option \<Rightarrow> jnum \<Rightarrow> jnum" where
  "num_arg x d = (case x of None \<Rightarrow> d | Some n \<Rightarrow> n)"

definition get_mail_retry_delay_ms :: "jnum option \<Rightarrow> int \<Rightarrow> jnum option \<Rightarrow> int" where
  "get_mail_retry_delay_ms retryBackoffMs attempt maxRetryBackoffMs =
     (case num_arg retryBackoffMs default_retry_backoff_ms of
        Fin q \<Rightarrow>
          if q \<le> 0 then 0
          else if attempt < 1 then 0
          else
            let cappedBackoffMs = (case num_arg maxRetryBackoffMs max_retry_backoff_ms of
                  Fin m \<Rightarrow> if m > 0 then \<lfloor>m\<rfloor> else 5000
                | _ \<Rightarrow> 5000)
            in min (\<lfloor>q\<rfloor> * 2 ^ nat (attempt - 1)) cappedBackoffMs
      | _ \<Rightarrow> 0)"

definition get_mail_retry_schedule ::
  "date_ops \<Rightarrow> jnum option \<Rightarrow> int \<Rightarrow> string \<Rightarrow> jnum option \<Rightarrow> retry_schedule" where
  "get_mail_retry_schedule dt retryBackoffMs attempt scheduledAt maxRetryBackoffMs =
     (let delayMs = get_mail_retry_delay_ms retryBackoffMs attempt maxRetryBackoffMs
      in \<lparr>sc_attempt = attempt, sc_delayMs = delayMs,
          sc_nextAttemptAt = add_milliseconds dt scheduledAt delayMs\<rparr>)"

section \<open>The transport\<close>

datatype mail_outcome = MailSuccess | MailRetry | MailPermanent

record mail_result =
  ms_ok :: bool
  ms_status :: int
  ms_outcome :: mail_outcome
  ms_error :: "string option"

record mail_transport =
  mt_endpoint :: string
  mt_token :: "string option"
  mt_timeoutMs :: int

definition normalize_timeout_ms :: "jnum option \<Rightarrow> int" where
  "normalize_timeout_ms v = (case v of Some (Fin q) \<Rightarrow> if q < 1 then 5000 else \<lfloor>q\<rfloor> | _ \<Rightarrow> 5000)"

definition classify_mail_delivery_outcome :: "int \<Rightarrow> mail_outcome" where
  "classify_mail_delivery_outcome status =
     (if status \<ge> 200 \<and> status < 300 then MailSuccess
      else if status \<in> {0, 408, 425, 429, 500, 502, 503, 504} then MailRetry
      else MailPermanent)"

text \<open>\<open>has_fetch\<close>: a \<open>fetch\<close> is given or global.\<close>

definition create_mail_transport :: "jsval \<Rightarrow> jsval \<Rightarrow> jnum option \<Rightarrow> bool \<Rightarrow> string + mail_transport" where
  "create_mail_transport endpoint token timeoutMs has_fetch =
     (let e = (case endpoint of JStr s \<Rightarrow> trim s | _ \<Rightarrow> []) in
      if e = [] then Inl ''mail transport endpoint is required''
      else if \<not> has_fetch then Inl ''mail transport fetch implementation is required''
      else Inr \<lparr>mt_endpoint = e,
          mt_token = (case token of JStr s \<Rightarrow> if trim s \<noteq> [] then Some (trim s) else None | _ \<Rightarrow> None),
          mt_timeoutMs = normalize_timeout_ms timeoutMs\<rparr>)"

text \<open>The fields \<open>JSON.stringify\<close> prints of the request, an absent one left out.\<close>

definition mail_json :: "mail_item \<Rightarrow> jsval" where
  "mail_json item =
     (let r = mi_request item in JObj
       ([(''to'', JArr (map JStr (mr_to r))), (''subject'', JStr (mr_subject r)), (''body'', JStr (mr_body r))]
        @ (case mr_requestId r of None \<Rightarrow> [] | Some s \<Rightarrow> [(''requestId'', JStr s)])
        @ [(''queuedAt'', JStr (mi_queuedAt item))]
        @ (case mi_attempts item of None \<Rightarrow> [] | Some n \<Rightarrow> [(''attempts'', JNum (Fin (of_int n)))])
        @ (case mi_nextAttemptAt item of None \<Rightarrow> [] | Some s \<Rightarrow> [(''nextAttemptAt'', JStr s)])))"

definition mail_http_request :: "(rat \<Rightarrow> string) \<Rightarrow> mail_transport \<Rightarrow> mail_item \<Rightarrow> http_request" where
  "mail_http_request show_num t item =
     \<lparr>rq_url = mt_endpoint t, rq_method = ''POST'',
      rq_headers = (''content-type'', ''application/json'')
        # (case mt_token t of None \<Rightarrow> [] | Some tok \<Rightarrow> [(''authorization'', ''Bearer '' @ tok)]),
      rq_body = Some (json_stringify show_num (mail_json item))\<rparr>"

text \<open>\<open>fetch\<close> responds, or throws: an \<open>AbortError\<close> or not, with the message of an \<open>Error\<close>.\<close>

datatype mail_fetch = MailResponded http_response | MailThrew bool "string option"

definition mail_send_result :: "mail_fetch \<Rightarrow> mail_result" where
  "mail_send_result f =
     (case f of
        MailResponded resp \<Rightarrow>
          if rp_ok resp then
            \<lparr>ms_ok = True, ms_status = rp_status resp, ms_outcome = MailSuccess, ms_error = None\<rparr>
          else
            let outcome = classify_mail_delivery_outcome (rp_status resp) in
            \<lparr>ms_ok = (outcome = MailSuccess), ms_status = rp_status resp, ms_outcome = outcome,
             ms_error = Some (''mail transport failed with status '' @ int_str (rp_status resp))\<rparr>
      | MailThrew isAbort message \<Rightarrow>
          if isAbort then
            \<lparr>ms_ok = False, ms_status = 408, ms_outcome = MailRetry,
             ms_error = Some ''mail transport request timed out''\<rparr>
          else
            \<lparr>ms_ok = False, ms_status = 0, ms_outcome = MailRetry,
             ms_error = Some (case message of Some m \<Rightarrow> m | None \<Rightarrow> ''mail transport request failed'')\<rparr>)"

definition mail_send :: "(rat \<Rightarrow> string) \<Rightarrow> (http_request \<Rightarrow> mail_fetch) \<Rightarrow> mail_transport \<Rightarrow> mail_item \<Rightarrow> mail_result" where
  "mail_send show_num fetch t item = mail_send_result (fetch (mail_http_request show_num t item))"

section \<open>Delivery\<close>

datatype mail_action =
    Delivered mail_item mail_result
  | Requeued mail_item mail_item mail_result retry_schedule
  | DroppedEmpty
  | DroppedPermanent mail_item mail_result

record delivery_report =
  dr_action :: mail_action
  dr_sizeBefore :: int
  dr_sizeAfter :: int

record delivery_options =
  do_retryBackoffMs :: "jnum option"
  do_maxRetryBackoffMs :: "jnum option"
  do_scheduledAt :: "string option"

text \<open>\<open>deliverNextMail\<close> after the answer of the transport, on the queue as it is then.\<close>

definition book_delivery ::
  "date_ops \<Rightarrow> delivery_options \<Rightarrow> int \<Rightarrow> mail_item \<Rightarrow> mail_result \<Rightarrow> mail_queue \<Rightarrow> delivery_report \<times> mail_queue" where
  "book_delivery dt opts queueSizeBefore item result queue =
     (case ms_outcome result of
        MailSuccess \<Rightarrow>
          (\<lparr>dr_action = Delivered item result, dr_sizeBefore = queueSizeBefore,
            dr_sizeAfter = int (length (mq_items queue))\<rparr>, queue)
      | MailRetry \<Rightarrow>
          let attempt = max 1 ((case mi_attempts item of None \<Rightarrow> 0 | Some n \<Rightarrow> n) + 1);
              scheduledAt = (case do_scheduledAt opts of Some s \<Rightarrow> s
                | None \<Rightarrow> (case mi_nextAttemptAt item of Some s \<Rightarrow> s | None \<Rightarrow> mi_queuedAt item));
              retrySchedule = get_mail_retry_schedule dt (do_retryBackoffMs opts) attempt scheduledAt
                (do_maxRetryBackoffMs opts);
              (requeuedItem, queue') = enqueue_mail queue (mi_request item) (Some attempt)
                (Some (sc_nextAttemptAt retrySchedule)) (sc_nextAttemptAt retrySchedule)
          in (\<lparr>dr_action = Requeued item requeuedItem result retrySchedule, dr_sizeBefore = queueSizeBefore,
               dr_sizeAfter = int (length (mq_items queue'))\<rparr>, queue')
      | MailPermanent \<Rightarrow>
          (\<lparr>dr_action = DroppedPermanent item result, dr_sizeBefore = queueSizeBefore,
            dr_sizeAfter = int (length (mq_items queue))\<rparr>, queue))"

text \<open>A whole delivery that nothing interrupts.\<close>

definition deliver_next_mail ::
  "date_ops \<Rightarrow> (mail_item \<Rightarrow> mail_result) \<Rightarrow> delivery_options \<Rightarrow> mail_queue \<Rightarrow> delivery_report \<times> mail_queue" where
  "deliver_next_mail dt send opts queue =
     (let queueSizeBefore = int (length (mq_items queue)) in
      case dequeue_mail queue of
        (None, q) \<Rightarrow>
          (\<lparr>dr_action = DroppedEmpty, dr_sizeBefore = queueSizeBefore, dr_sizeAfter = int (length (mq_items q))\<rparr>, q)
      | (Some item, q) \<Rightarrow> book_delivery dt opts queueSizeBefore item (send item) q)"

section \<open>Interleaved deliveries\<close>

text \<open>
  The queue with the deliveries that wait for the transport, and what has become of the mails: the ones
  handed over, refused for good, and pushed out by an overflow.
\<close>

record mail_system =
  my_queue :: mail_queue
  my_inflight :: "(nat \<times> mail_item) list"
  my_accepted :: "mail_request list"
  my_delivered :: "mail_request list"
  my_refused :: "mail_request list"
  my_overflowed :: "mail_request list"

datatype mail_event = Enqueue mail_request string | Take nat | Answer nat mail_result

text \<open>What \<open>shift\<close> pushes out when an item is appended.\<close>

definition pushed_out :: "mail_queue \<Rightarrow> mail_item \<Rightarrow> mail_request list" where
  "pushed_out queue item =
     map mi_request (take (nat (int (Suc (length (mq_items queue))) - mq_maxItems queue)) (mq_items queue @ [item]))"

definition mail_step :: "date_ops \<Rightarrow> delivery_options \<Rightarrow> mail_system \<Rightarrow> mail_event \<Rightarrow> mail_system" where
  "mail_step dt opts s ev =
     (case ev of
        Enqueue r stamp \<Rightarrow>
          let (item, q) = enqueue_mail (my_queue s) r None None stamp in
          s\<lparr>my_queue := q, my_accepted := r # my_accepted s,
            my_overflowed := pushed_out (my_queue s) item @ my_overflowed s\<rparr>
      | Take n \<Rightarrow>
          (if map_of (my_inflight s) n \<noteq> None then s
           else (case dequeue_mail (my_queue s) of
               (None, q) \<Rightarrow> s
             | (Some item, q) \<Rightarrow> s\<lparr>my_queue := q, my_inflight := (n, item) # my_inflight s\<rparr>))
      | Answer n result \<Rightarrow>
          (case map_of (my_inflight s) n of
             None \<Rightarrow> s
           | Some item \<Rightarrow>
               let (report, q) = book_delivery dt opts 0 item result (my_queue s);
                   s1 = s\<lparr>my_queue := q, my_inflight := AList.delete n (my_inflight s)\<rparr> in
               (case dr_action report of
                  Delivered i _ \<Rightarrow> s1\<lparr>my_delivered := mi_request i # my_delivered s\<rparr>
                | Requeued _ i _ _ \<Rightarrow> s1\<lparr>my_overflowed := pushed_out (my_queue s) i @ my_overflowed s\<rparr>
                | DroppedPermanent i _ \<Rightarrow> s1\<lparr>my_refused := mi_request i # my_refused s\<rparr>
                | DroppedEmpty \<Rightarrow> s1)))"

definition mail_start :: "jnum \<Rightarrow> mail_system" where
  "mail_start cap = \<lparr>my_queue = create_mail_queue cap, my_inflight = [], my_accepted = [], my_delivered = [],
     my_refused = [], my_overflowed = []\<rparr>"

definition mail_inv :: "mail_system \<Rightarrow> bool" where
  "mail_inv s \<longleftrightarrow>
     1 \<le> mq_maxItems (my_queue s)
     \<and> int (length (mq_items (my_queue s))) \<le> mq_maxItems (my_queue s)
     \<and> distinct (map fst (my_inflight s))
     \<and> mset (my_accepted s) =
         mset (map mi_request (mq_items (my_queue s))) + mset (map (mi_request \<circ> snd) (my_inflight s))
         + mset (my_delivered s) + mset (my_refused s) + mset (my_overflowed s)"

lemma shift_over_drop: "shift_over cap xs = drop (nat (int (length xs) - cap)) xs" if "0 \<le> cap"
proof (induction xs)
  case (Cons x xs)
  show ?case
  proof (cases "int (length (x # xs)) > cap")
    case True
    then have "nat (int (length (x # xs)) - cap) = Suc (nat (int (length xs) - cap))" by simp
    then show ?thesis using True Cons by simp
  qed simp
qed simp

lemma enqueue_items:
  assumes "0 \<le> mq_maxItems q"
  shows "enqueue_mail q r a n stamp =
    (let item = \<lparr>mi_request = r, mi_queuedAt = stamp, mi_attempts = a, mi_nextAttemptAt = n\<rparr> in
     (item, q\<lparr>mq_items := drop (nat (int (Suc (length (mq_items q))) - mq_maxItems q)) (mq_items q @ [item])\<rparr>))"
  using assms by (simp add: enqueue_mail_def shift_over_drop Let_def)

lemma enqueue_bounded:
  assumes "1 \<le> mq_maxItems q" and "enqueue_mail q r a n stamp = (item, q')"
  shows "int (length (mq_items q')) \<le> mq_maxItems q'" and "mq_maxItems q' = mq_maxItems q"
    and "mi_request item = r"
    and "mset (map mi_request (mq_items q')) + mset (pushed_out q item)
      = add_mset r (mset (map mi_request (mq_items q)))"
proof -
  let ?n = "nat (int (Suc (length (mq_items q))) - mq_maxItems q)"
  have item: "item = \<lparr>mi_request = r, mi_queuedAt = stamp, mi_attempts = a, mi_nextAttemptAt = n\<rparr>"
    and q': "q' = q\<lparr>mq_items := drop ?n (mq_items q @ [item])\<rparr>"
    using assms by (auto simp: enqueue_items Let_def)
  show "int (length (mq_items q')) \<le> mq_maxItems q'" "mq_maxItems q' = mq_maxItems q" "mi_request item = r"
    using assms(1) by (auto simp: q' item)
  have "mset (take ?n (mq_items q @ [item])) + mset (drop ?n (mq_items q @ [item])) = mset (mq_items q @ [item])"
    by (metis append_take_drop_id mset_append)
  then have "image_mset mi_request (mset (take ?n (mq_items q @ [item])) + mset (drop ?n (mq_items q @ [item])))
      = image_mset mi_request (mset (mq_items q @ [item]))"
    by (rule arg_cong)
  then show "mset (map mi_request (mq_items q')) + mset (pushed_out q item)
      = add_mset r (mset (map mi_request (mq_items q)))"
    by (simp add: q' pushed_out_def item union_commute del: take_append drop_append)
qed

lemma inflight_delete:
  assumes "distinct (map fst xs)" and "map_of xs n = Some x"
  shows "mset (map (f \<circ> snd) xs) = add_mset (f x) (mset (map (f \<circ> snd) (AList.delete n xs)))"
  using assms
proof (induction xs)
  case (Cons y ys)
  obtain k v where y: "y = (k, v)" by (cases y)
  show ?case
  proof (cases "k = n")
    case True
    then have "AList.delete n ys = ys" using Cons.prems(1) y by (intro delete_fresh) auto
    then show ?thesis using True Cons.prems y by simp
  next
    case False
    then show ?thesis using Cons y by simp
  qed
qed simp

lemma mail_step_inv:
  assumes inv: "mail_inv s" shows "mail_inv (mail_step dt opts s ev)"
proof (cases ev)
  case (Enqueue r stamp)
  obtain item q where e: "enqueue_mail (my_queue s) r None None stamp = (item, q)" by fastforce
  have "1 \<le> mq_maxItems (my_queue s)" using inv by (simp add: mail_inv_def)
  note b = enqueue_bounded [OF this e]
  have "mset (my_accepted s) + {#r#} = mset (map mi_request (mq_items q)) + mset (pushed_out (my_queue s) item)
      + mset (map (mi_request \<circ> snd) (my_inflight s)) + mset (my_delivered s) + mset (my_refused s)
      + mset (my_overflowed s)"
    using inv b(4) by (simp add: mail_inv_def)
  then show ?thesis
    using inv b(1,2) by (simp add: Enqueue mail_step_def e mail_inv_def ac_simps)
next
  case (Take n)
  then show ?thesis
    using inv by (auto simp: mail_step_def dequeue_mail_def mail_inv_def map_of_eq_None_iff split: list.splits)
next
  case (Answer n result)
  show ?thesis
  proof (cases "map_of (my_inflight s) n")
    case None
    then show ?thesis using inv by (simp add: Answer mail_step_def)
  next
    case (Some item)
    have d: "distinct (map fst (my_inflight s))" using inv by (simp add: mail_inv_def)
    have m: "mset (map (mi_request \<circ> snd) (my_inflight s))
        = add_mset (mi_request item) (mset (map (mi_request \<circ> snd) (AList.delete n (my_inflight s))))"
      by (rule inflight_delete [OF d Some])
    show ?thesis
    proof (cases "ms_outcome result")
      case MailRetry
      define attempt where "attempt = max 1 ((case mi_attempts item of None \<Rightarrow> 0 | Some n \<Rightarrow> n) + 1)"
      define stamp where "stamp = sc_nextAttemptAt (get_mail_retry_schedule dt (do_retryBackoffMs opts) attempt
        (case do_scheduledAt opts of Some s \<Rightarrow> s
          | None \<Rightarrow> (case mi_nextAttemptAt item of Some s \<Rightarrow> s | None \<Rightarrow> mi_queuedAt item)) (do_maxRetryBackoffMs opts))"
      obtain i q where e: "enqueue_mail (my_queue s) (mi_request item) (Some attempt) (Some stamp) stamp = (i, q)"
        by fastforce
      have "1 \<le> mq_maxItems (my_queue s)" using inv by (simp add: mail_inv_def)
      note b = enqueue_bounded [OF this e]
      have st: "mail_step dt opts s ev = s\<lparr>my_queue := q, my_inflight := AList.delete n (my_inflight s),
          my_overflowed := pushed_out (my_queue s) i @ my_overflowed s\<rparr>"
        using e by (simp add: Answer mail_step_def Some book_delivery_def MailRetry Let_def attempt_def stamp_def)
      have "mset (my_accepted s) = mset (map mi_request (mq_items q)) + mset (pushed_out (my_queue s) i)
          + mset (map (mi_request \<circ> snd) (AList.delete n (my_inflight s))) + mset (my_delivered s)
          + mset (my_refused s) + mset (my_overflowed s)"
        using inv b(4) m by (simp add: mail_inv_def)
      then show ?thesis using inv b(1,2) d by (simp add: st mail_inv_def ac_simps distinct_delete)
    qed (use inv m d in \<open>simp_all add: Answer mail_step_def Some book_delivery_def mail_inv_def distinct_delete\<close>)
  qed
qed

interpretation mail_run: run_invariant "mail_start cap" "mail_step dt opts" mail_inv
proof unfold_locales
  show "mail_inv (mail_start cap)"
    by (auto simp: mail_inv_def mail_start_def create_mail_queue_def normalize_queue_cap_def split: jnum.split)
qed (rule mail_step_inv)

section \<open>Properties\<close>

text \<open>
  C18: However deliveries and enqueuings interleave, the queue stays within its capacity and no mail
  disappears or is doubled: the accepted mails are exactly those queued, under way, delivered, refused for
  good, or pushed out by an overflow.
\<close>

theorem mail_is_conserved:
  "let s = foldl (mail_step dt opts) (mail_start cap) evs in
     int (length (mq_items (my_queue s))) \<le> mq_maxItems (my_queue s)
     \<and> mset (my_accepted s) =
         mset (map mi_request (mq_items (my_queue s))) + mset (map (mi_request \<circ> snd) (my_inflight s))
         + mset (my_delivered s) + mset (my_refused s) + mset (my_overflowed s)"
  using mail_run.inv_run [where dt = dt and opts = opts and cap = cap and xs = evs]
  unfolding Let_def mail_inv_def by blast

text \<open>How many answers a mail may still need when the transport stops asking for a retry at attempt \<open>limit\<close>.\<close>

definition attempts_of :: "mail_item \<Rightarrow> int" where
  "attempts_of item = (case mi_attempts item of None \<Rightarrow> 0 | Some n \<Rightarrow> n)"

definition answers_left :: "int \<Rightarrow> mail_item \<Rightarrow> nat" where
  "answers_left limit item = nat (max 1 (limit - attempts_of item))"

fun deliver_times ::
  "date_ops \<Rightarrow> (mail_item \<Rightarrow> mail_result) \<Rightarrow> delivery_options \<Rightarrow> nat \<Rightarrow> mail_queue \<Rightarrow> mail_queue" where
  "deliver_times dt send opts 0 q = q"
| "deliver_times dt send opts (Suc n) q = deliver_times dt send opts n (snd (deliver_next_mail dt send opts q))"

lemma sum_list_drop_le: "sum_list (map f (drop n xs)) \<le> sum_list (map (f :: 'a \<Rightarrow> nat) xs)"
  by (metis append_take_drop_id map_append sum_list_append le_add2)

lemma deliver_progress:
  assumes cap: "1 \<le> mq_maxItems q" and ne: "mq_items q \<noteq> []"
    and stops: "\<forall>item. limit \<le> max 1 (attempts_of item + 1) \<longrightarrow> ms_outcome (send item) \<noteq> MailRetry"
  shows "sum_list (map (answers_left limit) (mq_items (snd (deliver_next_mail dt send opts q))))
      < sum_list (map (answers_left limit) (mq_items q))"
    and "mq_maxItems (snd (deliver_next_mail dt send opts q)) = mq_maxItems q"
proof -
  obtain item rest where items: "mq_items q = item # rest" using ne by (cases "mq_items q") auto
  have pos: "0 < answers_left limit item" by (simp add: answers_left_def)
  have "sum_list (map (answers_left limit) (mq_items (snd (deliver_next_mail dt send opts q))))
      < sum_list (map (answers_left limit) (mq_items q))
    \<and> mq_maxItems (snd (deliver_next_mail dt send opts q)) = mq_maxItems q"
  proof (cases "ms_outcome (send item)")
    case MailRetry
    define attempt where "attempt = max 1 (attempts_of item + 1)"
    define stamp where "stamp = sc_nextAttemptAt (get_mail_retry_schedule dt (do_retryBackoffMs opts) attempt
        (case do_scheduledAt opts of Some s \<Rightarrow> s
          | None \<Rightarrow> (case mi_nextAttemptAt item of Some s \<Rightarrow> s | None \<Rightarrow> mi_queuedAt item)) (do_maxRetryBackoffMs opts))"
    define new where "new = \<lparr>mi_request = mi_request item, mi_queuedAt = stamp, mi_attempts = Some attempt,
        mi_nextAttemptAt = Some stamp\<rparr>"
    have cap': "0 \<le> mq_maxItems (q\<lparr>mq_items := rest\<rparr>)" using cap by simp
    obtain k where q': "snd (deliver_next_mail dt send opts q) = q\<lparr>mq_items := drop k (rest @ [new])\<rparr>"
      using enqueue_items [OF cap', of "mi_request item" "Some attempt" "Some stamp" stamp]
      by (simp add: deliver_next_mail_def dequeue_mail_def items book_delivery_def MailRetry Let_def new_def
          attempt_def stamp_def attempts_of_def)
    have "attempt < limit" using stops MailRetry by (metis attempt_def not_le)
    then have "answers_left limit new < answers_left limit item"
      by (auto simp: answers_left_def new_def attempts_of_def [of new] attempt_def) (auto simp: attempts_of_def)
    then show ?thesis
      using sum_list_drop_le [of "answers_left limit" k "rest @ [new]"] by (simp add: q' items)
  qed (use pos in \<open>simp_all add: deliver_next_mail_def dequeue_mail_def items book_delivery_def\<close>)
  then show "sum_list (map (answers_left limit) (mq_items (snd (deliver_next_mail dt send opts q))))
      < sum_list (map (answers_left limit) (mq_items q))"
    and "mq_maxItems (snd (deliver_next_mail dt send opts q)) = mq_maxItems q" by blast+
qed

lemma deliver_empty: "mq_items q = [] \<Longrightarrow> deliver_times dt send opts n q = q"
  by (induction n) (simp_all add: deliver_next_mail_def dequeue_mail_def)

text \<open>
  C34: If the transport asks for no further retry once a mail has been tried often enough, repeated
  delivery empties the queue, after at most the sum of the answers its mails may still need.
\<close>

theorem queue_drains:
  assumes "1 \<le> mq_maxItems q"
    and "\<forall>item. limit \<le> max 1 (attempts_of item + 1) \<longrightarrow> ms_outcome (send item) \<noteq> MailRetry"
    and "sum_list (map (answers_left limit) (mq_items q)) \<le> n"
  shows "mq_items (deliver_times dt send opts n q) = []"
  using assms(1,3)
proof (induction n arbitrary: q)
  case 0
  then show ?case by (cases "mq_items q") (auto simp: answers_left_def)
next
  case (Suc n)
  show ?case
  proof (cases "mq_items q = []")
    case True
    then show ?thesis by (simp only: deliver_empty)
  next
    case False
    have "sum_list (map (answers_left limit) (mq_items (snd (deliver_next_mail dt send opts q)))) \<le> n"
      using deliver_progress(1) [OF Suc.prems(1) False assms(2), of dt opts] Suc.prems(2) by simp
    moreover have "1 \<le> mq_maxItems (snd (deliver_next_mail dt send opts q))"
      using deliver_progress(2) [OF Suc.prems(1) False assms(2), of dt opts] Suc.prems(1) by simp
    ultimately show ?thesis using Suc.IH by simp
  qed
qed

definition demo_dates :: date_ops where
  "demo_dates = \<lparr>dt_parse = (\<lambda>s. parse_int s), dt_iso = int_str\<rparr>"

definition demo_send :: "mail_item \<Rightarrow> mail_result" where
  "demo_send item = mail_send_result (if attempts_of item < 2 then MailThrew True None
     else MailResponded \<lparr>rp_ok = True, rp_status = 202, rp_body = []\<rparr>)"

definition demo_queue :: mail_queue where
  "demo_queue = snd (enqueue_mail (create_mail_queue (Fin 2))
     \<lparr>mr_to = [''a@b.io''], mr_subject = ''s'', mr_body = ''b'', mr_requestId = None\<rparr> None None ''1000'')"

definition demo_delivery :: delivery_options where
  "demo_delivery = \<lparr>do_retryBackoffMs = None, do_maxRetryBackoffMs = None, do_scheduledAt = None\<rparr>"

lemma queue_drains_witness:
  "length (mq_items demo_queue) = 1 \<and> mq_items (deliver_times demo_dates demo_send demo_delivery 3 demo_queue) = []
   \<and> map mi_nextAttemptAt (mq_items (deliver_times demo_dates demo_send demo_delivery 2 demo_queue)) = [Some ''1300'']"
proof (intro conjI)
  have "\<forall>item. 3 \<le> max 1 (attempts_of item + 1) \<longrightarrow> ms_outcome (demo_send item) \<noteq> MailRetry"
    by (auto simp: demo_send_def mail_send_result_def max_def)
  moreover have "1 \<le> mq_maxItems demo_queue" "sum_list (map (answers_left 3) (mq_items demo_queue)) \<le> 3"
    by code_simp+
  ultimately show "mq_items (deliver_times demo_dates demo_send demo_delivery 3 demo_queue) = []"
    by (intro queue_drains)
qed code_simp+

section \<open>Addresses\<close>

lemma index_single:
  assumes "index_of c s = last_index_of c s" and "0 \<le> index_of c s"
  shows "c \<notin> set (drop (Suc (nat (index_of c s))) s)"
proof -
  from index_from_split [of 0 c s] assms(2) obtain a b where
    ab: "s = a @ c # b" "c \<notin> set a" "index_of c s = int (length a)" by auto
  from index_from_split [of 0 c "rev s"] ab obtain d e where
    de: "rev s = d @ c # e" "c \<notin> set d" "index_of c (rev s) = int (length d)" by auto
  then have "length d + length a + 1 = length s"
    using assms(1) ab(1,3) by (simp add: last_index_of_def Let_def)
  then have "length d = length b" using ab(1) by simp
  moreover have "rev b @ c # rev a = d @ c # e" using ab(1) de(1) by simp
  ultimately have "d = rev b" by simp
  then show ?thesis using de(2) ab by simp
qed

lemma local_char_facts: "email_local_char c \<Longrightarrow> \<not> js_ws c \<and> \<not> is_control c \<and> c \<noteq> CHR ''@''"
  by (auto simp: email_local_char_def is_alnum_def is_digit_def is_upper_def is_lower_def js_ws_def is_control_def Let_def)

lemma label_char_facts: "email_label_char c \<Longrightarrow> \<not> js_ws c \<and> \<not> is_control c \<and> c \<noteq> CHR ''@''"
  by (auto simp: email_label_char_def is_alnum_def is_digit_def is_upper_def is_lower_def js_ws_def is_control_def Let_def)

lemma checked_labels: "check_email_labels labels = None \<Longrightarrow> w \<in> set labels \<Longrightarrow> list_all email_label_char w"
  by (induction labels) (auto split: if_splits)

lemma domain_chars:
  assumes "validate_email_domain d = Inr d'" and "c \<in> set d"
  shows "\<not> js_ws c \<and> \<not> is_control c \<and> c \<noteq> CHR ''@''"
proof -
  have "check_email_labels (split_on CHR ''.'' d) = None"
    using assms(1) by (auto simp: validate_email_domain_def Let_def split: if_splits option.splits)
  then have "c = CHR ''.'' \<or> email_label_char c"
    using split_on_chars [OF assms(2), of "CHR ''.''"] checked_labels by (fastforce simp: list_all_iff)
  moreover have "\<not> js_ws CHR ''.'' \<and> \<not> is_control CHR ''.'' \<and> CHR ''.'' \<noteq> CHR ''@''" by code_simp
  ultimately show ?thesis using label_char_facts by blast
qed

lemma validated_parts:
  "validate_email_domain d = Inr d' \<Longrightarrow> d' = d" "validate_email_local_part l = Inr l' \<Longrightarrow> l' = l"
  "validate_email_local_part l = Inr l' \<Longrightarrow> l \<noteq> [] \<and> list_all email_local_char l"
  by (auto simp: validate_email_domain_def validate_email_local_part_def Let_def split: if_splits option.splits)

text \<open>
  An accepted address is normal: it has exactly one \<open>@\<close>, no white space and no control
  character, its domain is in lower case, and validating it again accepts it unchanged.
\<close>

theorem accepted_address_is_normal:
  assumes "validate_email_address v = Inr e"
  shows "validate_email_address (JStr e) = Inr e
    \<and> (\<exists>l d. e = l @ ''@'' @ d \<and> to_lower d = d \<and> CHR ''@'' \<notin> set l \<union> set d)
    \<and> list_all (\<lambda>c. \<not> js_ws c \<and> \<not> is_control c) e"
proof -
  obtain raw where v: "v = JStr raw" using assms by (cases v) (auto simp: validate_email_address_def)
  define n where "n = trim raw"
  define k where "k = index_of CHR ''@'' n"
  define l where "l = take (nat k) n"
  define d where "d = to_lower (drop (nat k + 1) n)"
  have len: "length n \<le> 254" and k: "0 < k" "k = last_index_of CHR ''@'' n" "k \<noteq> int (length n) - 1"
    and l: "validate_email_local_part l = Inr l" and d: "validate_email_domain d = Inr d" and e: "e = l @ ''@'' @ d"
    using assms validated_parts
    by (auto simp: v validate_email_address_def Let_def n_def k_def l_def d_def split: if_splits sum.splits)
  from index_from_split [of 0 "CHR ''@''" n] k(1) obtain a b where
    ab: "n = a @ CHR ''@'' # b" "k = int (length a)" by (auto simp: k_def)
  then have la: "l = a" "d = to_lower b" by (simp_all add: l_def d_def)
  have bne: "b \<noteq> []" using k(3) ab by auto
  have lc: "list_all email_local_char l" "l \<noteq> []" using validated_parts(3) [OF l] by auto
  have dc: "\<forall>c \<in> set d. \<not> js_ws c \<and> \<not> is_control c \<and> c \<noteq> CHR ''@''" using domain_chars [OF d] by blast
  have low: "to_lower d = d" by (simp add: d_def)
  have single: "CHR ''@'' \<notin> set l" "CHR ''@'' \<notin> set d" using lc dc local_char_facts by (auto simp: list_all_iff)
  have all: "list_all (\<lambda>c. \<not> js_ws c \<and> \<not> is_control c) e"
    using lc dc local_char_facts by (auto simp: e list_all_iff js_ws_def is_control_def)
  have t: "trim e = e" using all by (intro trim_no_ws) (simp add: list_all_iff)
  have i: "index_of CHR ''@'' e = int (length l)" using single index_of_first [of "CHR ''@''" l 0 d] by (simp add: e)
  have "index_of CHR ''@'' (rev e) = int (length d)"
    using single index_of_first [of "CHR ''@''" "rev d" 0 "rev l"] by (simp add: e)
  then have j: "last_index_of CHR ''@'' e = int (length l)" by (simp add: last_index_of_def e)
  have "d \<noteq> []" using bne la by simp
  then have gap: "int (length l) \<noteq> int (length e) - 1" by (simp add: e)
  have le: "length e \<le> 254" "e \<noteq> []" using len ab la by (simp_all add: e)
  have ctl: "\<not> list_ex is_control e" "\<not> list_ex js_ws e" using all by (auto simp: list_all_iff list_ex_iff)
  have tk: "take (length l) e = l" "drop (Suc (length l)) e = d" by (simp_all add: e)
  have "validate_email_address (JStr e) = Inr (l @ ''@'' @ d)"
    using le ctl gap lc(2) l d low
    by (simp add: validate_email_address_def t i j Let_def tk)
  then have "validate_email_address (JStr e) = Inr e" by (simp add: e)
  then show ?thesis using all single low by (auto simp: e)
qed

lemma accepted_address_witness:
  "validate_email_address (JStr '' Ann@Shop.IO '') = Inr ''Ann@shop.io''
   \<and> validate_email_address (JStr ''Ann@shop.io'') = Inr ''Ann@shop.io''"
proof -
  have "validate_email_address (JStr '' Ann@Shop.IO '') = Inr ''Ann@shop.io''" by code_simp
  from accepted_address_is_normal [OF this] this show ?thesis by blast
qed

lemma sanitized_subject_clean:
  "sanitize_mail_subject v = Inr s \<Longrightarrow> s \<noteq> [] \<and> list_all (\<lambda>c. \<not> is_control c) s \<and> trim s = s"
  using set_trim [of "filter (\<lambda>c. \<not> is_control c) (case v of JStr x \<Rightarrow> x)"]
  by (auto simp: sanitize_mail_subject_def Let_def list_all_iff split: jsval.splits if_splits)

end
