(* ===== verification/Integrity.thy ===== *)
theory Integrity
  imports Json Metrics
begin

text \<open>
  The integrity client (\<open>src/src/integrity\<close>): the manifest verifier (\<open>verifier.ts\<close>), the limits of
  the fetches (\<open>fetch-control.ts\<close>), the snapshot parser, its parity checks, the retry loop and the
  mirrors (\<open>client.ts\<close>). \<open>fetch\<close> is the argument that says how the \<open>n\<close>-th request to a URL ends;
  sleeping between attempts is left out, its delays are \<open>integrity_retry_delay_ms\<close>.
\<close>

section \<open>Manifest verification\<close>

record manifest_entry =
  me_root :: "string option"
  me_hash :: "string option"
  me_uriHash :: "string option"
  me_metaHash :: "string option"

record trusted_root =
  tr_activeRoot :: "string option"
  tr_trustedRoots :: "string list"
  tr_expectedHash :: "string option"
  tr_paused :: bool

datatype check_code = IntegrityMismatch | NoTrustedRoot | PolicyPaused

text \<open>\<open>value.replace(/^sha256[:=\-]/i, '')\<close> and \<open>value.replace(/^0x/i, '')\<close>, trimmed where they match.\<close>

definition strip_sha256 :: "string \<Rightarrow> string" where
  "strip_sha256 v =
     (if length v > 6 \<and> to_lower (take 6 v) = ''sha256'' \<and> v ! 6 \<in> {CHR '':'', CHR ''='', CHR ''-''}
      then trim (drop 7 v) else v)"

definition strip_0x :: "string \<Rightarrow> string" where
  "strip_0x v = (if length v > 1 \<and> to_lower (take 2 v) = ''0x'' then trim (drop 2 v) else v)"

lemma strip_shorter:
  "strip_sha256 v \<noteq> v \<Longrightarrow> length (strip_sha256 v) < length v"
  "strip_0x v \<noteq> v \<Longrightarrow> length (strip_0x v) < length v"
  using length_trim [of "drop 7 v"] length_trim [of "drop 2 v"]
  by (auto simp: strip_sha256_def strip_0x_def split: if_splits)

lemma strip_le: "length (strip_0x (strip_sha256 v)) \<le> length v"
  using strip_shorter [of v] strip_shorter(2) [of "strip_sha256 v"]
  by (metis less_imp_le order.refl order.trans)

text \<open>The \<open>while (normalized)\<close> loop: rounds of both prefixes until neither matches.\<close>

function strip_rounds :: "string \<Rightarrow> string" where
  "strip_rounds v =
     (let w = strip_0x (strip_sha256 v)
      in if strip_sha256 v = v \<and> w = strip_sha256 v then v else strip_rounds w)"
  by pat_completeness auto
termination
proof (relation "measure length")
  fix v w :: string
  assume w: "w = strip_0x (strip_sha256 v)" and n: "\<not> (strip_sha256 v = v \<and> w = strip_sha256 v)"
  show "(w, v) \<in> measure length"
  proof (cases "strip_sha256 v = v")
    case True
    then show ?thesis using w n strip_shorter(2) [of v] by simp
  next
    case False
    have "length w \<le> length (strip_sha256 v)"
      using strip_shorter(2) [of "strip_sha256 v"] by (cases "w = strip_sha256 v") (auto simp: w)
    then show ?thesis using strip_shorter(1) [OF False] by simp
  qed
qed simp

declare strip_rounds.simps [simp del]

definition normalize_integrity_token :: "string option \<Rightarrow> string option" where
  "normalize_integrity_token input =
     (case input of
        None \<Rightarrow> None
      | Some s \<Rightarrow>
          if trim s = [] then None
          else
            let v = to_lower (strip_rounds (trim s))
            in if v = [] \<or> list_ex js_ws v then None else Some v)"

definition is_trusted_root :: "string option \<Rightarrow> string list \<Rightarrow> bool" where
  "is_trusted_root rt trustedRoots =
     (case normalize_integrity_token rt of
        None \<Rightarrow> False
      | Some r \<Rightarrow> list_ex (\<lambda>t. normalize_integrity_token (Some t) = Some r) trustedRoots)"

fun set_add_all :: "string list \<Rightarrow> string option list \<Rightarrow> string list" where
  "set_add_all acc [] = acc"
| "set_add_all acc (None # xs) = set_add_all acc xs"
| "set_add_all acc (Some x # xs) = set_add_all (if x \<in> set acc then acc else acc @ [x]) xs"

definition collect_trusted_roots :: "trusted_root \<Rightarrow> string list" where
  "collect_trusted_roots policy =
     set_add_all [] (normalize_integrity_token (tr_activeRoot policy)
       # map (\<lambda>r. normalize_integrity_token (Some r)) (tr_trustedRoots policy))"

fun first_token :: "string option list \<Rightarrow> string option" where
  "first_token [] = None"
| "first_token (c # cs) =
     (case normalize_integrity_token c of Some t \<Rightarrow> Some t | None \<Rightarrow> first_token cs)"

definition resolve_entry_hash :: "manifest_entry \<Rightarrow> string option" where
  "resolve_entry_hash e = first_token [me_hash e, me_uriHash e, me_metaHash e]"

definition verify_manifest_entry :: "manifest_entry \<Rightarrow> trusted_root \<Rightarrow> check_code option" where
  "verify_manifest_entry entry policy =
     (if tr_paused policy then Some PolicyPaused
      else
        let trustedRoots = collect_trusted_roots policy in
        case normalize_integrity_token (me_root entry) of
          None \<Rightarrow> Some NoTrustedRoot
        | Some entryRoot \<Rightarrow>
            if trustedRoots = [] then Some NoTrustedRoot
            else if \<not> is_trusted_root (Some entryRoot) trustedRoots then Some IntegrityMismatch
            else (case normalize_integrity_token (tr_expectedHash policy) of
                None \<Rightarrow> None
              | Some expectedHash \<Rightarrow>
                  (case resolve_entry_hash entry of
                     None \<Rightarrow> Some NoTrustedRoot
                   | Some actualHash \<Rightarrow> if actualHash \<noteq> expectedHash then Some IntegrityMismatch else None)))"

section \<open>Limits of the fetches\<close>

record fetch_control =
  fc_timeoutMs :: int
  fc_retryAttempts :: int
  fc_retryBackoffMs :: int
  fc_retryJitterMs :: int

fun profile_defaults :: "resource_profile \<Rightarrow> fetch_control" where
  "profile_defaults VpsSmall = \<lparr>fc_timeoutMs = 4000, fc_retryAttempts = 2, fc_retryBackoffMs = 75, fc_retryJitterMs = 25\<rparr>"
| "profile_defaults VpsMedium = \<lparr>fc_timeoutMs = 5000, fc_retryAttempts = 3, fc_retryBackoffMs = 100, fc_retryJitterMs = 25\<rparr>"
| "profile_defaults Diskless = \<lparr>fc_timeoutMs = 4000, fc_retryAttempts = 2, fc_retryBackoffMs = 75, fc_retryJitterMs = 25\<rparr>"

definition ctl_read_bounded :: "env \<Rightarrow> string \<Rightarrow> int \<Rightarrow> int \<Rightarrow> int \<Rightarrow> int" where
  "ctl_read_bounded env name fallback lo hi =
     (let v = (case load_integer_config env name (with_fallback fallback) of
            ConfigOk _ (Some i) _ \<Rightarrow> i | _ \<Rightarrow> fallback)
      in normalize_bounded_integer (Some (Fin (of_int v))) fallback lo hi)"

record control_overrides =
  ov_timeoutMs :: "jnum option"
  ov_retryAttempts :: "jnum option"
  ov_retryBackoffMs :: "jnum option"
  ov_retryJitterMs :: "jnum option"

definition resolve_integrity_fetch_control :: "env \<Rightarrow> control_overrides \<Rightarrow> fetch_control" where
  "resolve_integrity_fetch_control env ov =
     (let profile = resolve_resource_profile
            (case load_string_config env ''GATEWAY_RESOURCE_PROFILE'' no_options of ConfigOk _ v _ \<Rightarrow> v | _ \<Rightarrow> None);
          d = profile_defaults (case profile of None \<Rightarrow> VpsMedium | Some p \<Rightarrow> p) in
      \<lparr>fc_timeoutMs = normalize_bounded_integer (ov_timeoutMs ov)
         (ctl_read_bounded env ''AO_INTEGRITY_FETCH_TIMEOUT_MS'' (fc_timeoutMs d) 1 60000) 1 60000,
       fc_retryAttempts = normalize_bounded_integer (ov_retryAttempts ov)
         (ctl_read_bounded env ''AO_INTEGRITY_FETCH_RETRY_ATTEMPTS'' (fc_retryAttempts d) 1 5) 1 5,
       fc_retryBackoffMs = normalize_bounded_integer (ov_retryBackoffMs ov)
         (ctl_read_bounded env ''AO_INTEGRITY_FETCH_RETRY_BACKOFF_MS'' (fc_retryBackoffMs d) 0 5000) 0 5000,
       fc_retryJitterMs = normalize_bounded_integer (ov_retryJitterMs ov)
         (ctl_read_bounded env ''AO_INTEGRITY_FETCH_RETRY_JITTER_MS'' (fc_retryJitterMs d) 0 500) 0 500\<rparr>)"

definition is_transient_status :: "int \<Rightarrow> bool" where
  "is_transient_status status \<longleftrightarrow> status \<in> {408, 425, 429, 500, 502, 503, 504}"

definition normalize_retry_jitter_sample :: "jnum \<Rightarrow> rat" where
  "normalize_retry_jitter_sample sample =
     (case sample of
        Fin q \<Rightarrow> if q < 0 then 0 else if q \<ge> 1 then 9999999999999999 / 10000000000000000 else q
      | _ \<Rightarrow> 0)"

definition integrity_retry_delay_ms :: "int \<Rightarrow> int \<Rightarrow> int \<Rightarrow> jnum \<Rightarrow> int" where
  "integrity_retry_delay_ms retryBackoffMs attempt retryJitterMs sample =
     (if retryBackoffMs \<le> 0 \<or> attempt < 1 then 0
      else
        let delay = retryBackoffMs * 2 ^ nat (attempt - 1);
            jitterCap = normalize_bounded_integer (Some (Fin (of_int retryJitterMs))) 0 0 500;
            jitter = (if jitterCap > 0 then \<lfloor>normalize_retry_jitter_sample sample * of_int (jitterCap + 1)\<rfloor> else 0)
        in min (delay + jitter) 5000)"

section \<open>Snapshots\<close>

record release_record =
  re_componentId :: string
  re_version :: string
  re_root :: string
  re_uriHash :: string
  re_metaHash :: string
  re_publishedAt :: string
  re_revokedAt :: "string option"

record pending_upgrade =
  pu_root :: string
  pu_hash :: string
  pu_expiry :: string
  pu_proposedAt :: string

record compatibility_state =
  cs_root :: string
  cs_hash :: string
  cs_until :: string

record policy_record =
  po_activeRoot :: string
  po_activePolicyHash :: string
  po_paused :: bool
  po_maxCheckInAgeSec :: rat
  po_pendingUpgrade :: "pending_upgrade option"
  po_compatibilityState :: "compatibility_state option"

record authority_record =
  au_root :: string
  au_upgrade :: string
  au_emergency :: string
  au_reporter :: string
  au_signatureRefs :: "string list"

record audit_record =
  ad_seqFrom :: rat
  ad_seqTo :: rat
  ad_merkleRoot :: string
  ad_metaHash :: string
  ad_reporterRef :: string
  ad_acceptedAt :: string

record snapshot =
  sn_release :: release_record
  sn_policy :: policy_record
  sn_authority :: authority_record
  sn_audit :: audit_record

datatype integrity_code = InvalidSnapshot | ReleaseRootMismatch | MissingTrustedRoot | FetchFailed

record snapshot_error =
  se_code :: integrity_code
  se_message :: string

type_synonym 'a snap = "snapshot_error + 'a"

definition snap_fail :: "integrity_code \<Rightarrow> string \<Rightarrow> 'a snap" where
  "snap_fail code message = Inl \<lparr>se_code = code, se_message = message\<rparr>"

definition snap_bind :: "'a snap \<Rightarrow> ('a \<Rightarrow> 'b snap) \<Rightarrow> 'b snap" where
  "snap_bind r k = (case r of Inl e \<Rightarrow> Inl e | Inr v \<Rightarrow> k v)"

definition need_obj :: "jsval \<Rightarrow> string \<Rightarrow> jobj snap" where
  "need_obj v message = (case v of JObj obj \<Rightarrow> Inr obj | _ \<Rightarrow> snap_fail InvalidSnapshot message)"

text \<open>\<open>isString\<close>: a string that is not blank, kept as it is.\<close>

definition need_str :: "integrity_code \<Rightarrow> jobj \<Rightarrow> string \<Rightarrow> string \<Rightarrow> string snap" where
  "need_str code obj key message =
     (case jprop obj key of
        JStr s \<Rightarrow> if trim s = [] then snap_fail code message else Inr s
      | _ \<Rightarrow> snap_fail code message)"

definition need_num :: "jobj \<Rightarrow> string \<Rightarrow> string \<Rightarrow> rat snap" where
  "need_num obj key message =
     (case jprop obj key of JNum (Fin q) \<Rightarrow> Inr q | _ \<Rightarrow> snap_fail InvalidSnapshot message)"

definition need_bool :: "jobj \<Rightarrow> string \<Rightarrow> string \<Rightarrow> bool snap" where
  "need_bool obj key message =
     (case jprop obj key of JBool b \<Rightarrow> Inr b | _ \<Rightarrow> snap_fail InvalidSnapshot message)"

fun str_items :: "jsval list \<Rightarrow> string list option" where
  "str_items [] = Some []"
| "str_items (JStr s # vs) =
     (if trim s = [] then None else (case str_items vs of None \<Rightarrow> None | Some ss \<Rightarrow> Some (s # ss)))"
| "str_items (_ # vs) = None"

definition parse_release :: "jsval \<Rightarrow> release_record snap" where
  "parse_release raw =
     snap_bind (need_obj raw ''release must be an object'') (\<lambda>obj.
     snap_bind (need_str InvalidSnapshot obj ''componentId'' ''release.componentId is required'') (\<lambda>componentId.
     snap_bind (need_str InvalidSnapshot obj ''version'' ''release.version is required'') (\<lambda>version.
     snap_bind (need_str MissingTrustedRoot obj ''root'' ''release.root is required'') (\<lambda>root.
     snap_bind (need_str InvalidSnapshot obj ''uriHash'' ''release.uriHash is required'') (\<lambda>uriHash.
     snap_bind (need_str InvalidSnapshot obj ''metaHash'' ''release.metaHash is required'') (\<lambda>metaHash.
     snap_bind (need_str InvalidSnapshot obj ''publishedAt'' ''release.publishedAt is required'') (\<lambda>publishedAt.
     snap_bind (if jprop obj ''revokedAt'' = JUndef then Inr None
                else map_sum id Some (need_str InvalidSnapshot obj ''revokedAt'' ''release.revokedAt must be a string'')) (\<lambda>revokedAt.
     Inr \<lparr>re_componentId = componentId, re_version = version, re_root = root, re_uriHash = uriHash,
          re_metaHash = metaHash, re_publishedAt = publishedAt, re_revokedAt = revokedAt\<rparr>))))))))"

definition parse_pending_upgrade :: "jsval \<Rightarrow> pending_upgrade snap" where
  "parse_pending_upgrade raw =
     snap_bind (need_obj raw ''policy.pendingUpgrade must be an object'') (\<lambda>obj.
     snap_bind (need_str InvalidSnapshot obj ''root'' ''policy.pendingUpgrade.root is required'') (\<lambda>root.
     snap_bind (need_str InvalidSnapshot obj ''hash'' ''policy.pendingUpgrade.hash is required'') (\<lambda>hash.
     snap_bind (need_str InvalidSnapshot obj ''expiry'' ''policy.pendingUpgrade.expiry is required'') (\<lambda>expiry.
     snap_bind (need_str InvalidSnapshot obj ''proposedAt'' ''policy.pendingUpgrade.proposedAt is required'') (\<lambda>proposedAt.
     Inr \<lparr>pu_root = root, pu_hash = hash, pu_expiry = expiry, pu_proposedAt = proposedAt\<rparr>)))))"

definition parse_compatibility_state :: "jsval \<Rightarrow> compatibility_state snap" where
  "parse_compatibility_state raw =
     snap_bind (need_obj raw ''policy.compatibilityState must be an object'') (\<lambda>obj.
     snap_bind (need_str InvalidSnapshot obj ''root'' ''policy.compatibilityState.root is required'') (\<lambda>root.
     snap_bind (need_str InvalidSnapshot obj ''hash'' ''policy.compatibilityState.hash is required'') (\<lambda>hash.
     snap_bind (need_str InvalidSnapshot obj ''until'' ''policy.compatibilityState.until is required'') (\<lambda>ends.
     Inr \<lparr>cs_root = root, cs_hash = hash, cs_until = ends\<rparr>))))"

definition parse_policy :: "jsval \<Rightarrow> policy_record snap" where
  "parse_policy raw =
     snap_bind (need_obj raw ''policy must be an object'') (\<lambda>obj.
     snap_bind (need_str MissingTrustedRoot obj ''activeRoot'' ''policy.activeRoot is required'') (\<lambda>activeRoot.
     snap_bind (need_str InvalidSnapshot obj ''activePolicyHash'' ''policy.activePolicyHash is required'') (\<lambda>policyHash.
     snap_bind (need_bool obj ''paused'' ''policy.paused must be boolean'') (\<lambda>paused.
     snap_bind (need_num obj ''maxCheckInAgeSec'' ''policy.maxCheckInAgeSec must be a finite number'') (\<lambda>maxAge.
     snap_bind (if jprop obj ''pendingUpgrade'' = JUndef then Inr None
                else map_sum id Some (parse_pending_upgrade (jprop obj ''pendingUpgrade''))) (\<lambda>pending.
     snap_bind (if jprop obj ''compatibilityState'' = JUndef then Inr None
                else map_sum id Some (parse_compatibility_state (jprop obj ''compatibilityState''))) (\<lambda>compat.
     Inr \<lparr>po_activeRoot = activeRoot, po_activePolicyHash = policyHash, po_paused = paused,
          po_maxCheckInAgeSec = maxAge, po_pendingUpgrade = pending, po_compatibilityState = compat\<rparr>)))))))"

definition parse_authority :: "jsval \<Rightarrow> authority_record snap" where
  "parse_authority raw =
     snap_bind (need_obj raw ''authority must be an object'') (\<lambda>obj.
     snap_bind (need_str InvalidSnapshot obj ''root'' ''authority.root is required'') (\<lambda>root.
     snap_bind (need_str InvalidSnapshot obj ''upgrade'' ''authority.upgrade is required'') (\<lambda>upgrade.
     snap_bind (need_str InvalidSnapshot obj ''emergency'' ''authority.emergency is required'') (\<lambda>emergency.
     snap_bind (need_str InvalidSnapshot obj ''reporter'' ''authority.reporter is required'') (\<lambda>reporter.
     snap_bind (case jprop obj ''signatureRefs'' of
         JArr vs \<Rightarrow> (case str_items vs of Some ss \<Rightarrow> Inr ss
           | None \<Rightarrow> snap_fail InvalidSnapshot ''authority.signatureRefs must be a string array'')
       | _ \<Rightarrow> snap_fail InvalidSnapshot ''authority.signatureRefs must be a string array'') (\<lambda>refs.
     Inr \<lparr>au_root = root, au_upgrade = upgrade, au_emergency = emergency, au_reporter = reporter,
          au_signatureRefs = refs\<rparr>))))))"

definition parse_audit :: "jsval \<Rightarrow> audit_record snap" where
  "parse_audit raw =
     snap_bind (need_obj raw ''audit must be an object'') (\<lambda>obj.
     snap_bind (need_num obj ''seqFrom'' ''audit.seqFrom is required'') (\<lambda>seqFrom.
     snap_bind (need_num obj ''seqTo'' ''audit.seqTo is required'') (\<lambda>seqTo.
     snap_bind (need_str InvalidSnapshot obj ''merkleRoot'' ''audit.merkleRoot is required'') (\<lambda>merkleRoot.
     snap_bind (need_str InvalidSnapshot obj ''metaHash'' ''audit.metaHash is required'') (\<lambda>metaHash.
     snap_bind (need_str InvalidSnapshot obj ''reporterRef'' ''audit.reporterRef is required'') (\<lambda>reporterRef.
     snap_bind (need_str InvalidSnapshot obj ''acceptedAt'' ''audit.acceptedAt is required'') (\<lambda>acceptedAt.
     Inr \<lparr>ad_seqFrom = seqFrom, ad_seqTo = seqTo, ad_merkleRoot = merkleRoot, ad_metaHash = metaHash,
          ad_reporterRef = reporterRef, ad_acceptedAt = acceptedAt\<rparr>)))))))"

text \<open>The trimmed roots of release and policy agree, the release is not revoked, and a compatibility root
  is one of the two.\<close>

definition assert_release_root_parity :: "release_record \<Rightarrow> policy_record \<Rightarrow> unit snap" where
  "assert_release_root_parity release policy =
     (let releaseRoot = trim (re_root release); activeRoot = trim (po_activeRoot policy) in
      if releaseRoot \<noteq> activeRoot then
        snap_fail ReleaseRootMismatch ''policy.activeRoot must match release.root''
      else if re_revokedAt release \<noteq> None then
        snap_fail ReleaseRootMismatch ''release.revokedAt is not allowed on the active snapshot''
      else (case po_compatibilityState policy of
          None \<Rightarrow> Inr ()
        | Some c \<Rightarrow>
            if trim (cs_root c) \<noteq> [] \<and> trim (cs_root c) \<noteq> releaseRoot \<and> trim (cs_root c) \<noteq> activeRoot then
              snap_fail ReleaseRootMismatch ''policy.compatibilityState.root must match release.root or policy.activeRoot''
            else Inr ()))"

text \<open>A codec envelope: \<open>Inr None\<close> where the value is no envelope. The payload keys are looked up with
  \<open>in\<close>, so a present \<open>undefined\<close> would count; in parsed JSON presence is having an entry.\<close>

definition extract_codec_payload :: "jobj \<Rightarrow> jsval option snap" where
  "extract_codec_payload raw =
     (case jprop raw ''status'' of
        JStr status \<Rightarrow>
          if status = ''OK'' then
            (case filter (\<lambda>k. map_of raw k \<noteq> None) [''payload'', ''body'', ''result'', ''data''] of
               [] \<Rightarrow> snap_fail InvalidSnapshot ''codec envelope status OK is missing a payload field''
             | k # _ \<Rightarrow> Inr (map_of raw k))
          else if status = ''ERROR'' then
            snap_fail FetchFailed
              ((case jprop raw ''code'' of JStr c \<Rightarrow> c | _ \<Rightarrow> ''upstream_error'') @ '':''
               @ (case jprop raw ''message'' of JStr m \<Rightarrow> m | _ \<Rightarrow> ''upstream returned error envelope''))
          else Inr None
      | _ \<Rightarrow> Inr None)"

definition unwrap_snapshot :: "jsval \<Rightarrow> jsval snap" where
  "unwrap_snapshot raw =
     (case raw of
        JObj obj \<Rightarrow> map_sum id (\<lambda>p. case p of Some v \<Rightarrow> if v = JUndef then raw else v | None \<Rightarrow> raw)
          (extract_codec_payload obj)
      | _ \<Rightarrow> Inr raw)"

definition parse_snapshot :: "jsval \<Rightarrow> snapshot snap" where
  "parse_snapshot raw =
     snap_bind (unwrap_snapshot raw) (\<lambda>v.
     snap_bind (need_obj v ''snapshot must be a JSON object'') (\<lambda>obj.
     snap_bind (parse_release (jprop obj ''release'')) (\<lambda>release.
     snap_bind (parse_policy (jprop obj ''policy'')) (\<lambda>policy.
     snap_bind (parse_authority (jprop obj ''authority'')) (\<lambda>authority.
     snap_bind (parse_audit (jprop obj ''audit'')) (\<lambda>audit.
     snap_bind (assert_release_root_parity release policy) (\<lambda>_.
     Inr \<lparr>sn_release = release, sn_policy = policy, sn_authority = authority, sn_audit = audit\<rparr>)))))))"

section \<open>Fetching\<close>

text \<open>
  How a request ends: with a response (its \<open>ok\<close> flag, its status, and what \<open>response.json()\<close> gives, an
  error message or the value), or by throwing; the flag of a throw says whether it is an
  \<open>AbortError\<close>, the message is there where it is an \<open>Error\<close>.
\<close>

datatype fetch_end = FetchResponse bool int "string option + jsval" | FetchThrow bool "string option"

text \<open>\<open>fetchSnapshotFromUrl\<close> from attempt \<open>attempt\<close> on; \<open>ends n\<close> is how the \<open>n\<close>-th request ends. The
  result comes with the number of requests made.\<close>

function fetch_from :: "fetch_control \<Rightarrow> (int \<Rightarrow> fetch_end) \<Rightarrow> int \<Rightarrow> int \<times> snapshot snap" where
  "fetch_from ctl ends attempt =
     (if attempt > fc_retryAttempts ctl then (attempt - 1, snap_fail FetchFailed ''request failed'')
      else (case ends attempt of
          FetchResponse ok status body \<Rightarrow>
            if \<not> ok then
              (if is_transient_status status \<and> attempt < fc_retryAttempts ctl then fetch_from ctl ends (attempt + 1)
               else (attempt, snap_fail FetchFailed (''upstream returned '' @ int_str status)))
            else (attempt, (case body of
                Inl message \<Rightarrow> snap_fail InvalidSnapshot (case message of Some m \<Rightarrow> m | None \<Rightarrow> ''invalid json'')
              | Inr raw \<Rightarrow> parse_snapshot raw))
        | FetchThrow isAbort message \<Rightarrow>
            if (isAbort \<or> message \<noteq> None) \<and> attempt < fc_retryAttempts ctl then fetch_from ctl ends (attempt + 1)
            else (attempt, snap_fail FetchFailed (case message of Some m \<Rightarrow> m | None \<Rightarrow> ''request failed''))))"
  by pat_completeness auto
termination
  by (relation "measure (\<lambda>(ctl, ends, attempt). nat (fc_retryAttempts ctl + 1 - attempt))") auto

declare fetch_from.simps [simp del]

definition fetch_snapshot_from_url :: "fetch_control \<Rightarrow> (int \<Rightarrow> fetch_end) \<Rightarrow> int \<times> snapshot snap" where
  "fetch_snapshot_from_url ctl ends = fetch_from ctl ends 1"

section \<open>Mirrors\<close>

definition int_string_config :: "env \<Rightarrow> string \<Rightarrow> string option" where
  "int_string_config env name =
     (case load_string_config env name no_options of
        ConfigOk _ (Some v) _ \<Rightarrow> if trim v \<noteq> [] then Some (trim v) else None
      | _ \<Rightarrow> None)"

definition is_mirror_url_candidate :: "(string \<Rightarrow> url_parts option) \<Rightarrow> string \<Rightarrow> bool" where
  "is_mirror_url_candidate parse_url v =
     (case parse_url v of None \<Rightarrow> False | Some u \<Rightarrow> up_protocol u = ''http:'' \<or> up_protocol u = ''https:'')"

record mirror_settings =
  mi_urls :: "string list"
  mi_strict :: bool

definition parse_mirror_settings :: "(string \<Rightarrow> url_parts option) \<Rightarrow> env \<Rightarrow> mirror_settings" where
  "parse_mirror_settings parse_url env =
     \<lparr>mi_urls = filter (\<lambda>v. length v > 0 \<and> is_mirror_url_candidate parse_url v)
        (map trim (split_on CHR '','' (case int_string_config env ''AO_INTEGRITY_MIRROR_URLS'' of None \<Rightarrow> [] | Some v \<Rightarrow> v))),
      mi_strict = (int_string_config env ''AO_INTEGRITY_MIRROR_STRICT'' = Some ''1'')\<rparr>"

definition compare_mirror_snapshot :: "snapshot \<Rightarrow> snapshot \<Rightarrow> string list" where
  "compare_mirror_snapshot primary mirror =
     (if trim (re_root (sn_release primary)) \<noteq> trim (re_root (sn_release mirror)) then [''release.root''] else [])
     @ (if trim (po_activeRoot (sn_policy primary)) \<noteq> trim (po_activeRoot (sn_policy mirror))
        then [''policy.activeRoot''] else [])
     @ (if re_version (sn_release primary) \<noteq> re_version (sn_release mirror) then [''release.version''] else [])"

text \<open>The loop over the mirrors: the issues so far and the metrics.\<close>

fun check_mirrors ::
  "fetch_control \<Rightarrow> (string \<Rightarrow> int \<Rightarrow> fetch_end) \<Rightarrow> snapshot \<Rightarrow> string list \<Rightarrow> string list \<times> metrics
    \<Rightarrow> string list \<times> metrics" where
  "check_mirrors ctl fetch primary [] s = s"
| "check_mirrors ctl fetch primary (url # urls) (issues, m) =
     check_mirrors ctl fetch primary urls
       (case snd (fetch_snapshot_from_url ctl (fetch url)) of
          Inr mirror \<Rightarrow>
            let mismatches = compare_mirror_snapshot primary mirror in
            if mismatches \<noteq> [] then
              (issues @ [url @ '': '' @ join_with '', '' mismatches], metric_inc ''gateway_integrity_mirror_mismatch'' 1 m)
            else (issues, m)
        | Inl e \<Rightarrow>
            (issues @ [url @ '': '' @ se_message e], metric_inc ''gateway_integrity_mirror_fetch_fail'' 1 m))"

definition or_config :: "string option \<Rightarrow> env \<Rightarrow> string \<Rightarrow> string option" where
  "or_config x env name =
     (case x of Some u \<Rightarrow> if u = [] then int_string_config env name else Some u
      | None \<Rightarrow> int_string_config env name)"

text \<open>\<open>fetch url n\<close> is how the \<open>n\<close>-th request to \<open>url\<close> ends; \<open>opts\<close> holds the URL and the overrides.\<close>

definition fetch_integrity_snapshot ::
  "(string \<Rightarrow> url_parts option) \<Rightarrow> env \<Rightarrow> string option \<Rightarrow> control_overrides \<Rightarrow> bool
    \<Rightarrow> (string \<Rightarrow> int \<Rightarrow> fetch_end) \<Rightarrow> metrics \<Rightarrow> snapshot snap \<times> metrics" where
  "fetch_integrity_snapshot parse_url env urlOpt ov has_fetch fetch m =
     (case or_config urlOpt env ''AO_INTEGRITY_URL'' of
        None \<Rightarrow> (snap_fail FetchFailed ''AO_INTEGRITY_URL is not configured'', m)
      | Some url \<Rightarrow>
          if \<not> has_fetch then (snap_fail FetchFailed ''fetch is not available'', m)
          else
            let ctl = resolve_integrity_fetch_control env (ov\<lparr>ov_retryJitterMs := None\<rparr>) in
            (case snd (fetch_snapshot_from_url ctl (fetch url)) of
               Inl e \<Rightarrow> (Inl e, m)
             | Inr primary \<Rightarrow>
                 let mirrors = parse_mirror_settings parse_url env in
                 if mi_urls mirrors = [] then (Inr primary, m)
                 else
                   let (issues, m') = check_mirrors ctl fetch primary (mi_urls mirrors) ([], m) in
                   if mi_strict mirrors \<and> issues \<noteq> [] then
                     (snap_fail FetchFailed (''mirror consistency check failed: '' @ join_with ''; '' issues), m')
                   else (Inr primary, m')))"

section \<open>The verifier\<close>

lemma strip_rounds_stops: "strip_sha256 (strip_rounds v) = strip_rounds v \<and> strip_0x (strip_rounds v) = strip_rounds v"
proof (induction v rule: strip_rounds.induct)
  case (1 v)
  show ?case
  proof (cases "strip_sha256 v = v \<and> strip_0x (strip_sha256 v) = strip_sha256 v")
    case True
    then have st: "strip_sha256 v = v" "strip_0x v = v" by (blast, metis)
    have "strip_rounds v = v" by (subst strip_rounds.simps) (simp add: st)
    then show ?thesis by (simp add: st)
  next
    case False
    have "strip_rounds v = strip_rounds (strip_0x (strip_sha256 v))"
      by (subst strip_rounds.simps) (simp only: Let_def False if_False)
    then show ?thesis using 1 [OF refl False] by simp
  qed
qed

lemma strip_trimmed: "trim v = v \<Longrightarrow> trim (strip_sha256 v) = strip_sha256 v \<and> trim (strip_0x v) = strip_0x v"
  by (simp add: strip_sha256_def strip_0x_def)

lemma strip_rounds_trimmed: "trim v = v \<Longrightarrow> trim (strip_rounds v) = strip_rounds v"
proof (induction v rule: strip_rounds.induct)
  case (1 v)
  then show ?case
    using strip_trimmed by (subst (1 2) strip_rounds.simps) (auto simp: Let_def)
qed

lemma lower_keeps_punct: "lower_char c = d \<Longrightarrow> d \<in> {CHR '':'', CHR ''='', CHR ''-''} \<Longrightarrow> c = d"
proof -
  assume e: "lower_char c = d" and d: "d \<in> {CHR '':'', CHR ''='', CHR ''-''}"
  from d have n: "(of_char d :: nat) \<in> {58, 61, 45}" by auto
  show "c = d"
  proof (cases "lower_char c = c")
    case False
    then have "(65 \<le> (of_char c :: nat) \<and> of_char c \<le> (90 :: nat)) \<or> (192 \<le> (of_char c :: nat) \<and> of_char c \<le> (222 :: nat))"
      and "lower_char c = char_of (of_char c + 32 :: nat)"
      by (auto simp: lower_char_def Let_def split: if_splits)
    then have "(of_char (lower_char c) :: nat) \<ge> 97" by (auto simp: of_char_of)
    then show ?thesis using e n by auto
  qed (use e in simp)
qed

lemma strip_lower:
  "strip_sha256 v = v \<Longrightarrow> strip_sha256 (to_lower v) = to_lower v"
  "strip_0x v = v \<Longrightarrow> strip_0x (to_lower v) = to_lower v"
proof -
  assume "strip_sha256 v = v"
  then have "\<not> (length v > 6 \<and> to_lower (take 6 v) = ''sha256'' \<and> v ! 6 \<in> {CHR '':'', CHR ''='', CHR ''-''})"
    using length_trim [of "drop 7 v"] by (auto simp: strip_sha256_def split: if_splits)
  then have "\<not> (length v > 6 \<and> to_lower (take 6 (to_lower v)) = ''sha256''
      \<and> to_lower v ! 6 \<in> {CHR '':'', CHR ''='', CHR ''-''})"
    using lower_keeps_punct [of "v ! 6"] by (auto simp: take_map)
  then show "strip_sha256 (to_lower v) = to_lower v" by (simp only: strip_sha256_def length_map if_False)
next
  assume "strip_0x v = v"
  then have "\<not> (length v > 1 \<and> to_lower (take 2 v) = ''0x'')"
    using length_trim [of "drop 2 v"] by (auto simp: strip_0x_def split: if_splits)
  then show "strip_0x (to_lower v) = to_lower v" by (auto simp: strip_0x_def take_map)
qed

lemma normalize_token_idem:
  assumes "normalize_integrity_token x = Some t" shows "normalize_integrity_token (Some t) = Some t"
proof -
  obtain s where t: "t = to_lower (strip_rounds (trim s))" "t \<noteq> []" "\<not> list_ex js_ws t"
    using assms by (auto simp: normalize_integrity_token_def Let_def split: option.splits if_splits)
  have tr: "trim t = t" using t(3) by (intro trim_no_ws) (simp add: list_all_iff list_ex_iff)
  have s: "strip_sha256 t = t" "strip_0x t = t"
    using strip_lower strip_rounds_stops [of "trim s"] by (auto simp: t(1))
  have "strip_rounds t = t" by (subst strip_rounds.simps) (simp add: s)
  moreover have "to_lower t = t" by (simp add: t(1))
  ultimately show ?thesis using t(2,3) tr by (simp add: normalize_integrity_token_def)
qed

lemma set_add_all_set: "set (set_add_all acc xs) = set acc \<union> {x. Some x \<in> set xs}"
  by (induction acc xs rule: set_add_all.induct) auto

lemma collected_roots:
  "set (collect_trusted_roots p) =
     {r. normalize_integrity_token (tr_activeRoot p) = Some r
       \<or> (\<exists>t \<in> set (tr_trustedRoots p). normalize_integrity_token (Some t) = Some r)}"
  by (auto simp: collect_trusted_roots_def set_add_all_set image_iff simp del: set_add_all.simps) metis+

lemma trusted_in_collected:
  "normalize_integrity_token x = Some r \<Longrightarrow>
   is_trusted_root (Some r) (collect_trusted_roots p) \<longleftrightarrow> r \<in> set (collect_trusted_roots p)"
proof -
  assume "normalize_integrity_token x = Some r"
  then have r: "normalize_integrity_token (Some r) = Some r" by (rule normalize_token_idem)
  have "normalize_integrity_token (Some t) = Some t" if "t \<in> set (collect_trusted_roots p)" for t
    using that normalize_token_idem by (fastforce simp: collected_roots)
  then show ?thesis by (auto simp: is_trusted_root_def r list_ex_iff)
qed

text \<open>
  A manifest entry passes exactly if the policy is not paused, the entry's root is, up to prefixes,
  case and surrounding blanks, the active or a trusted root, and the expected hash, where there is
  one, is the entry's first usable hash.
\<close>

theorem manifest_entry_exact:
  "verify_manifest_entry entry policy = None \<longleftrightarrow>
     \<not> tr_paused policy
     \<and> (\<exists>r. normalize_integrity_token (me_root entry) = Some r
          \<and> (normalize_integrity_token (tr_activeRoot policy) = Some r
             \<or> (\<exists>t \<in> set (tr_trustedRoots policy). normalize_integrity_token (Some t) = Some r)))
     \<and> (normalize_integrity_token (tr_expectedHash policy) = None
        \<or> resolve_entry_hash entry = normalize_integrity_token (tr_expectedHash policy))"
proof (cases "normalize_integrity_token (me_root entry)")
  case None
  then show ?thesis by (simp add: verify_manifest_entry_def Let_def)
next
  case (Some r)
  note tr = trusted_in_collected [OF Some, of policy]
  have "r \<in> set (collect_trusted_roots policy) \<Longrightarrow> collect_trusted_roots policy \<noteq> []" by auto
  then show ?thesis
    using collected_roots [of policy]
    by (auto simp: verify_manifest_entry_def Let_def Some tr split: option.splits)
qed

section \<open>The snapshot client\<close>

lemma normalize_bounded_range:
  "lo \<le> fallback \<Longrightarrow> fallback \<le> hi \<Longrightarrow> lo \<le> hi \<Longrightarrow>
   lo \<le> normalize_bounded_integer v fallback lo hi \<and> normalize_bounded_integer v fallback lo hi \<le> hi"
  by (auto simp: normalize_bounded_integer_def le_floor_iff split: option.split jnum.split)

lemma fetch_control_range:
  "let c = resolve_integrity_fetch_control env ov in
     1 \<le> fc_timeoutMs c \<and> fc_timeoutMs c \<le> 60000 \<and> 1 \<le> fc_retryAttempts c \<and> fc_retryAttempts c \<le> 5
     \<and> 0 \<le> fc_retryBackoffMs c \<and> fc_retryBackoffMs c \<le> 5000 \<and> 0 \<le> fc_retryJitterMs c \<and> fc_retryJitterMs c \<le> 500"
proof -
  have d: "1 \<le> fc_timeoutMs (profile_defaults p) \<and> fc_timeoutMs (profile_defaults p) \<le> 60000
    \<and> 1 \<le> fc_retryAttempts (profile_defaults p) \<and> fc_retryAttempts (profile_defaults p) \<le> 5
    \<and> 0 \<le> fc_retryBackoffMs (profile_defaults p) \<and> fc_retryBackoffMs (profile_defaults p) \<le> 5000
    \<and> 0 \<le> fc_retryJitterMs (profile_defaults p) \<and> fc_retryJitterMs (profile_defaults p) \<le> 500" for p
    by (cases p) simp_all
  have r: "lo \<le> ctl_read_bounded env name f lo hi \<and> ctl_read_bounded env name f lo hi \<le> hi"
    if "lo \<le> f" "f \<le> hi" for name f lo hi
    using that normalize_bounded_range [of lo f hi] by (auto simp: ctl_read_bounded_def Let_def)
  show ?thesis
    unfolding Let_def resolve_integrity_fetch_control_def
    by (simp add: normalize_bounded_range r d)
qed

text \<open>
  The delay before a retry is never negative and at most five seconds, whatever the configured
  backoff, jitter and random sample; without jitter it doubles with every attempt up to that bound.
\<close>

theorem retry_delay_exact:
  "0 \<le> integrity_retry_delay_ms backoff attempt jitter sample
   \<and> integrity_retry_delay_ms backoff attempt jitter sample \<le> 5000
   \<and> integrity_retry_delay_ms backoff attempt 0 sample
       = (if 0 < backoff \<and> 1 \<le> attempt then min (backoff * 2 ^ nat (attempt - 1)) 5000 else 0)"
proof -
  have "0 \<le> normalize_retry_jitter_sample sample"
    by (auto simp: normalize_retry_jitter_sample_def split: jnum.split)
  then have "0 \<le> \<lfloor>normalize_retry_jitter_sample sample * of_int (c + 1)\<rfloor>" if "0 < c" for c :: int
    using that by simp
  moreover have "0 \<le> backoff * 2 ^ nat (attempt - 1)" if "0 < backoff" using that by simp
  ultimately show ?thesis
    by (auto simp: integrity_retry_delay_ms_def Let_def normalize_bounded_integer_def)
qed

definition transient_end :: "fetch_end \<Rightarrow> bool" where
  "transient_end e \<longleftrightarrow> (case e of
      FetchResponse ok status _ \<Rightarrow> \<not> ok \<and> is_transient_status status
    | FetchThrow isAbort message \<Rightarrow> isAbort \<or> message \<noteq> None)"

definition final_result :: "fetch_end \<Rightarrow> snapshot snap" where
  "final_result e = (case e of
      FetchResponse ok status body \<Rightarrow>
        if \<not> ok then snap_fail FetchFailed (''upstream returned '' @ int_str status)
        else (case body of
            Inl message \<Rightarrow> snap_fail InvalidSnapshot (case message of Some m \<Rightarrow> m | None \<Rightarrow> ''invalid json'')
          | Inr raw \<Rightarrow> parse_snapshot raw)
    | FetchThrow isAbort message \<Rightarrow>
        snap_fail FetchFailed (case message of Some m \<Rightarrow> m | None \<Rightarrow> ''request failed''))"

text \<open>The reference: the first attempt that does not end transiently, or the last one.\<close>

definition last_attempt :: "fetch_control \<Rightarrow> (int \<Rightarrow> fetch_end) \<Rightarrow> int \<Rightarrow> bool" where
  "last_attempt ctl ends n \<longleftrightarrow>
     1 \<le> n \<and> n \<le> fc_retryAttempts ctl \<and> (\<forall>k. 1 \<le> k \<longrightarrow> k < n \<longrightarrow> transient_end (ends k))
     \<and> (n = fc_retryAttempts ctl \<or> \<not> transient_end (ends n))"

lemma fetch_from_spec:
  assumes "attempt \<le> fc_retryAttempts ctl"
  shows "\<exists>n. fetch_from ctl ends attempt = (n, final_result (ends n)) \<and> attempt \<le> n \<and> n \<le> fc_retryAttempts ctl
    \<and> (\<forall>k. attempt \<le> k \<longrightarrow> k < n \<longrightarrow> transient_end (ends k))
    \<and> (n = fc_retryAttempts ctl \<or> \<not> transient_end (ends n))"
  using assms
proof (induction ctl ends attempt rule: fetch_from.induct)
  case (1 ctl ends attempt)
  show ?case
  proof (cases "transient_end (ends attempt) \<and> attempt < fc_retryAttempts ctl")
    case True
    then have step: "fetch_from ctl ends attempt = fetch_from ctl ends (attempt + 1)"
      by (subst fetch_from.simps) (auto simp: transient_end_def split: fetch_end.splits)
    have "\<exists>n. fetch_from ctl ends (attempt + 1) = (n, final_result (ends n)) \<and> attempt + 1 \<le> n
      \<and> n \<le> fc_retryAttempts ctl \<and> (\<forall>k. attempt + 1 \<le> k \<longrightarrow> k < n \<longrightarrow> transient_end (ends k))
      \<and> (n = fc_retryAttempts ctl \<or> \<not> transient_end (ends n))"
    proof (cases "ends attempt")
      case (FetchResponse ok status body)
      then show ?thesis using 1 True by (auto simp: transient_end_def)
    next
      case (FetchThrow isAbort message)
      then show ?thesis using 1 True by (auto simp: transient_end_def)
    qed
    then obtain n where n: "fetch_from ctl ends (attempt + 1) = (n, final_result (ends n))" "attempt + 1 \<le> n"
      "n \<le> fc_retryAttempts ctl" "\<forall>k. attempt + 1 \<le> k \<longrightarrow> k < n \<longrightarrow> transient_end (ends k)"
      "n = fc_retryAttempts ctl \<or> \<not> transient_end (ends n)" by blast
    have "transient_end (ends k)" if "attempt \<le> k" "k < n" for k
      using n(4) True that by (cases "k = attempt") auto
    with n step show ?thesis by (intro exI [of _ n]) auto
  next
    case False
    then have "fetch_from ctl ends attempt = (attempt, final_result (ends attempt))"
      using "1.prems"
      by (subst fetch_from.simps) (auto simp: transient_end_def final_result_def split: fetch_end.splits)
    then show ?thesis using False "1.prems" by (intro exI [of _ attempt]) auto
  qed
qed

lemma last_attempt_unique: "last_attempt ctl ends n \<Longrightarrow> last_attempt ctl ends m \<Longrightarrow> n = m"
  by (auto simp: last_attempt_def) (metis linorder_neqE not_less order.strict_trans2)+

text \<open>
  C38: With at least one attempt allowed, fetching a snapshot returns: it makes requests up to the first
  that does not end transiently or to the last allowed one, no further, and its result is what that
  request gives.
\<close>

theorem fetch_retries_exact:
  assumes "1 \<le> fc_retryAttempts ctl"
  shows "fetch_snapshot_from_url ctl ends = (n, r) \<longleftrightarrow> last_attempt ctl ends n \<and> r = final_result (ends n)"
proof -
  obtain m where m: "fetch_snapshot_from_url ctl ends = (m, final_result (ends m))" "last_attempt ctl ends m"
    using fetch_from_spec [OF assms, of ends] by (auto simp: fetch_snapshot_from_url_def last_attempt_def)
  show ?thesis using m last_attempt_unique by (metis prod.inject)
qed

definition demo_ends :: "int \<Rightarrow> fetch_end" where
  "demo_ends n = (if n = 1 then FetchResponse False 503 (Inl None) else if n = 2 then FetchThrow True None
     else FetchResponse False 404 (Inl None))"

lemma fetch_retries_witness:
  "fetch_snapshot_from_url (profile_defaults VpsMedium) demo_ends
     = (3, snap_fail FetchFailed ''upstream returned 404'')"
proof -
  have "last_attempt (profile_defaults VpsMedium) demo_ends 3"
    by (auto simp: last_attempt_def demo_ends_def transient_end_def is_transient_status_def)
  moreover have "final_result (demo_ends 3) = snap_fail FetchFailed ''upstream returned 404''"
    by code_simp
  moreover have "1 \<le> fc_retryAttempts (profile_defaults VpsMedium)" by simp
  ultimately show ?thesis by (subst fetch_retries_exact) simp_all
qed

lemma snap_bind_Inr [simp]: "snap_bind r k = Inr v \<longleftrightarrow> (\<exists>u. r = Inr u \<and> k u = Inr v)"
  by (cases r) (auto simp: snap_bind_def)

lemma parsed_release_root: "parse_release raw = Inr r \<Longrightarrow> trim (re_root r) \<noteq> []"
  by (auto simp: parse_release_def need_str_def snap_fail_def split: if_splits jsval.splits)

lemma parsed_snapshot_parity:
  assumes "parse_snapshot raw = Inr s"
  shows "trim (re_root (sn_release s)) = trim (po_activeRoot (sn_policy s)) \<and> trim (re_root (sn_release s)) \<noteq> []
    \<and> re_revokedAt (sn_release s) = None"
proof -
  obtain obj where "parse_release (jprop obj ''release'') = Inr (sn_release s)"
    "assert_release_root_parity (sn_release s) (sn_policy s) = Inr ()"
    using assms by (auto simp: parse_snapshot_def)
  then show ?thesis using parsed_release_root
    by (auto simp: assert_release_root_parity_def snap_fail_def Let_def split: if_splits option.splits)
qed

lemma check_mirrors_issues:
  "fst (check_mirrors ctl fetch primary urls (issues, m)) = [] \<longleftrightarrow>
     issues = [] \<and> (\<forall>url \<in> set urls. \<exists>mirror. snd (fetch_snapshot_from_url ctl (fetch url)) = Inr mirror
       \<and> compare_mirror_snapshot primary mirror = [])"
proof (induction urls arbitrary: issues m)
  case (Cons url urls)
  then show ?case by (auto simp: Let_def split: sum.splits)
qed simp


definition demo_snapshot :: snapshot where
  "demo_snapshot =
     \<lparr>sn_release = \<lparr>re_componentId = ''gw'', re_version = ''1'', re_root = ''r1'', re_uriHash = ''u'', re_metaHash = ''m'',
        re_publishedAt = ''d'', re_revokedAt = None\<rparr>,
      sn_policy = \<lparr>po_activeRoot = ''r1'', po_activePolicyHash = ''h'', po_paused = False, po_maxCheckInAgeSec = 60,
        po_pendingUpgrade = None, po_compatibilityState = None\<rparr>,
      sn_authority = \<lparr>au_root = ''a'', au_upgrade = ''b'', au_emergency = ''c'', au_reporter = ''d'',
        au_signatureRefs = [''k1'']\<rparr>,
      sn_audit = \<lparr>ad_seqFrom = 1, ad_seqTo = 2, ad_merkleRoot = ''mr'', ad_metaHash = ''mh'', ad_reporterRef = ''rr'',
        ad_acceptedAt = ''t''\<rparr>\<rparr>"

text \<open>The JSON of a snapshot, in the order in which the parser builds its objects.\<close>

definition opt_field :: "string \<Rightarrow> ('a \<Rightarrow> jsval) \<Rightarrow> 'a option \<Rightarrow> jobj" where
  "opt_field k f x = (case x of None \<Rightarrow> [] | Some v \<Rightarrow> [(k, f v)])"

definition release_json :: "release_record \<Rightarrow> jsval" where
  "release_json r = JObj ([(''componentId'', JStr (re_componentId r)), (''version'', JStr (re_version r)),
     (''root'', JStr (re_root r)), (''uriHash'', JStr (re_uriHash r)), (''metaHash'', JStr (re_metaHash r)),
     (''publishedAt'', JStr (re_publishedAt r))] @ opt_field ''revokedAt'' JStr (re_revokedAt r))"

definition pending_json :: "pending_upgrade \<Rightarrow> jsval" where
  "pending_json p = JObj [(''root'', JStr (pu_root p)), (''hash'', JStr (pu_hash p)),
     (''expiry'', JStr (pu_expiry p)), (''proposedAt'', JStr (pu_proposedAt p))]"

definition compatibility_json :: "compatibility_state \<Rightarrow> jsval" where
  "compatibility_json c = JObj [(''root'', JStr (cs_root c)), (''hash'', JStr (cs_hash c)), (''until'', JStr (cs_until c))]"

definition policy_json :: "policy_record \<Rightarrow> jsval" where
  "policy_json p = JObj ([(''activeRoot'', JStr (po_activeRoot p)),
     (''activePolicyHash'', JStr (po_activePolicyHash p)), (''paused'', JBool (po_paused p)),
     (''maxCheckInAgeSec'', JNum (Fin (po_maxCheckInAgeSec p)))]
     @ opt_field ''pendingUpgrade'' pending_json (po_pendingUpgrade p)
     @ opt_field ''compatibilityState'' compatibility_json (po_compatibilityState p))"

definition authority_json :: "authority_record \<Rightarrow> jsval" where
  "authority_json a = JObj [(''root'', JStr (au_root a)), (''upgrade'', JStr (au_upgrade a)),
     (''emergency'', JStr (au_emergency a)), (''reporter'', JStr (au_reporter a)),
     (''signatureRefs'', JArr (map JStr (au_signatureRefs a)))]"

definition audit_json :: "audit_record \<Rightarrow> jsval" where
  "audit_json a = JObj [(''seqFrom'', JNum (Fin (ad_seqFrom a))), (''seqTo'', JNum (Fin (ad_seqTo a))),
     (''merkleRoot'', JStr (ad_merkleRoot a)), (''metaHash'', JStr (ad_metaHash a)),
     (''reporterRef'', JStr (ad_reporterRef a)), (''acceptedAt'', JStr (ad_acceptedAt a))]"

definition snapshot_json :: "snapshot \<Rightarrow> jsval" where
  "snapshot_json s = JObj [(''release'', release_json (sn_release s)), (''policy'', policy_json (sn_policy s)),
     (''authority'', authority_json (sn_authority s)), (''audit'', audit_json (sn_audit s))]"

definition demo_int_env :: env where
  "demo_int_env k = map_of [(''AO_INTEGRITY_URL'', ''https://a''), (''AO_INTEGRITY_MIRROR_URLS'', ''https://b, nope''),
     (''AO_INTEGRITY_MIRROR_STRICT'', ''1'')] k"

definition demo_parse_url :: "string \<Rightarrow> url_parts option" where
  "demo_parse_url s = (if prefix ''https:'' s then Some \<lparr>up_protocol = ''https:'', up_username = [], up_password = [],
     up_hostname = drop 8 s, up_href = s\<rparr> else None)"

definition no_overrides :: control_overrides where
  "no_overrides = \<lparr>ov_timeoutMs = None, ov_retryAttempts = None, ov_retryBackoffMs = None, ov_retryJitterMs = None\<rparr>"

definition demo_int_fetch :: "string \<Rightarrow> int \<Rightarrow> fetch_end" where
  "demo_int_fetch url n = (if n = 1 then FetchThrow True None
     else FetchResponse True 200 (Inr (JObj [(''status'', JStr ''OK''), (''payload'', snapshot_json demo_snapshot)])))"


end
