(* ===== verification/Checkpoint.thy ===== *)
theory Checkpoint
  imports Integrity Crypto
begin

text \<open>
  The signed local checkpoint of the integrity snapshot (\<open>src/src/integrity/checkpoint.ts\<close>): the
  envelope, its signature over the canonical JSON of its body, writing and reading. HMAC-SHA256 in hex
  is the parameter \<open>hmac\<close>, \<open>JSON.parse\<close> is \<open>parse\<close>; a file is what reading it gives.
\<close>

section \<open>JSON values for the canonicalizer\<close>

fun cval_of :: "jsval \<Rightarrow> cval"
  and cval_items :: "jsval list \<Rightarrow> cval option list"
  and cval_props :: "jobj \<Rightarrow> (string \<times> cval) list"
where
  "cval_of JUndef = COther ''undefined''"
| "cval_of JNull = CNull"
| "cval_of (JBool b) = CBool b"
| "cval_of (JNum n) = CNum n"
| "cval_of (JStr s) = CStr s"
| "cval_of (JArr vs) = CArr (cval_items vs)"
| "cval_of (JObj kvs) = CObj True (cval_props kvs)"
| "cval_items [] = []"
| "cval_items (v # vs) = Some (cval_of v) # cval_items vs"
| "cval_props [] = []"
| "cval_props ((k, v) # kvs) = (k, cval_of v) # cval_props kvs"

section \<open>Settings\<close>

datatype checkpoint_error = SecretMissing | CheckpointInvalid string | Uncanonical canon_error

definition is_diskless :: "env \<Rightarrow> bool" where
  "is_diskless env =
     (int_string_config env ''GATEWAY_INTEGRITY_DISKLESS'' = Some ''1''
      \<or> to_lower (case int_string_config env ''GATEWAY_INTEGRITY_CHECKPOINT_MODE'' of None \<Rightarrow> [] | Some v \<Rightarrow> v)
        \<in> {''disabled'', ''diskless'', ''memory-only''})"

definition resolve_setting :: "env \<Rightarrow> string \<Rightarrow> string option \<Rightarrow> string option" where
  "resolve_setting env name arg =
     (case or_config arg env name of None \<Rightarrow> None | Some v \<Rightarrow> if trim v \<noteq> [] then Some v else None)"

definition resolve_path :: "env \<Rightarrow> string option \<Rightarrow> string option" where
  "resolve_path env path = resolve_setting env ''GATEWAY_INTEGRITY_CHECKPOINT_PATH'' path"

definition resolve_secret :: "env \<Rightarrow> string option \<Rightarrow> string option" where
  "resolve_secret env secret = resolve_setting env ''GATEWAY_INTEGRITY_CHECKPOINT_SECRET'' secret"

text \<open>\<open>null\<close>, \<open>undefined\<close> or a number of seconds.\<close>

datatype max_age = BadAge | NoAge | Age int

definition resolve_max_age_seconds :: "env \<Rightarrow> max_age" where
  "resolve_max_age_seconds env =
     (case load_integer_config env ''GATEWAY_INTEGRITY_CHECKPOINT_MAX_AGE_SECONDS'' no_options of
        ConfigFail _ _ _ _ \<Rightarrow> BadAge
      | ConfigOk _ None _ \<Rightarrow> NoAge
      | ConfigOk _ (Some v) _ \<Rightarrow> if v \<le> 0 then BadAge else Age v)"

section \<open>The envelope\<close>

definition natural_num :: "jsval \<Rightarrow> bool" where
  "natural_num v = (case v of JNum (Fin q) \<Rightarrow> of_int \<lfloor>q\<rfloor> = q \<and> \<not> q < 0 | _ \<Rightarrow> False)"

definition num_of :: "jsval \<Rightarrow> rat" where
  "num_of v = (case v of JNum (Fin q) \<Rightarrow> q | _ \<Rightarrow> 0)"

definition is_valid_checkpoint_metadata :: "jsval \<Rightarrow> bool" where
  "is_valid_checkpoint_metadata v =
     (case v of
        JObj obj \<Rightarrow>
          \<not> list_ex (\<lambda>(k, _). k \<noteq> ''writtenAt'' \<and> k \<noteq> ''expiresAt'') obj
          \<and> natural_num (jprop obj ''writtenAt'')
          \<and> (jprop obj ''expiresAt'' = JUndef
             \<or> natural_num (jprop obj ''expiresAt'')
               \<and> \<not> num_of (jprop obj ''expiresAt'') < num_of (jprop obj ''writtenAt''))
      | _ \<Rightarrow> False)"

text \<open>The canonical text that is signed: the whole body, or the payload alone in the legacy format.\<close>

definition envelope_body :: "jsval \<Rightarrow> jsval \<Rightarrow> jsval" where
  "envelope_body payload metadata =
     JObj [(''algorithm'', JStr ''hmac-sha256''), (''payload'', payload), (''metadata'', metadata)]"

definition sign_value :: "(string \<Rightarrow> string \<Rightarrow> string) \<Rightarrow> (rat \<Rightarrow> string) \<Rightarrow> string \<Rightarrow> jsval \<Rightarrow> checkpoint_error + string" where
  "sign_value hmac show_num secret v = map_sum Uncanonical (hmac secret) (canonicalize_json show_num (cval_of v))"

definition sign_envelope_body ::
  "(string \<Rightarrow> string \<Rightarrow> string) \<Rightarrow> (rat \<Rightarrow> string) \<Rightarrow> string \<Rightarrow> jsval \<Rightarrow> jsval \<Rightarrow> checkpoint_error + string" where
  "sign_envelope_body hmac show_num secret payload metadata =
     sign_value hmac show_num secret (envelope_body payload metadata)"

definition sign_legacy_payload ::
  "(string \<Rightarrow> string \<Rightarrow> string) \<Rightarrow> (rat \<Rightarrow> string) \<Rightarrow> string \<Rightarrow> jsval \<Rightarrow> checkpoint_error + string" where
  "sign_legacy_payload hmac show_num secret payload = sign_value hmac show_num secret payload"

text \<open>\<open>Buffer.from(s, 'hex')\<close>: pairs of digits up to the first that is none.\<close>

fun hex_decode :: "string \<Rightarrow> nat list" where
  "hex_decode (a # b # cs) =
     (if is_hex a \<and> is_hex b then (16 * hex_nat a + hex_nat b) # hex_decode cs else [])"
| "hex_decode _ = []"

definition safe_hex_compare :: "string \<Rightarrow> string \<Rightarrow> bool" where
  "safe_hex_compare l r =
     (if length l \<noteq> length r then False
      else
        let lb = hex_decode l; rb = hex_decode r in
        if length lb \<noteq> length rb then False else timing_safe_equal lb rb)"

record envelope =
  ev_payload :: jsval
  ev_signature :: string
  ev_metadata :: "jsval option"

definition envelope_keys :: "string list" where
  "envelope_keys = [''algorithm'', ''payload'', ''signature'', ''metadata'']"

definition parse_envelope :: "(string \<Rightarrow> string + jsval) \<Rightarrow> string \<Rightarrow> checkpoint_error + envelope" where
  "parse_envelope parse raw =
     (case parse raw of
        Inl message \<Rightarrow> Inl (CheckpointInvalid message)
      | Inr (JObj obj) \<Rightarrow>
          if list_ex (\<lambda>(k, _). k \<notin> set envelope_keys) obj then
            Inl (CheckpointInvalid ''checkpoint contains unsupported fields'')
          else if jprop obj ''algorithm'' \<noteq> JStr ''hmac-sha256'' then
            Inl (CheckpointInvalid ''unsupported checkpoint algorithm'')
          else if as_obj (jprop obj ''payload'') = None then
            Inl (CheckpointInvalid ''checkpoint payload must be an object'')
          else (case jprop obj ''signature'' of
              JStr s \<Rightarrow>
                if length (trim s) = 0 then Inl (CheckpointInvalid ''checkpoint signature is required'')
                else if jprop obj ''metadata'' \<noteq> JUndef \<and> \<not> is_valid_checkpoint_metadata (jprop obj ''metadata'') then
                  Inl (CheckpointInvalid ''checkpoint metadata is invalid'')
                else Inr \<lparr>ev_payload = jprop obj ''payload'', ev_signature = s,
                    ev_metadata = (if jprop obj ''metadata'' = JUndef then None else Some (jprop obj ''metadata''))\<rparr>
            | _ \<Rightarrow> Inl (CheckpointInvalid ''checkpoint signature is required''))
      | Inr _ \<Rightarrow> Inl (CheckpointInvalid ''checkpoint must be a JSON object''))"

section \<open>Writing and reading\<close>

definition num_int :: "int \<Rightarrow> jsval" where
  "num_int i = JNum (Fin (of_int i))"

definition checkpoint_metadata :: "env \<Rightarrow> int \<Rightarrow> jsval" where
  "checkpoint_metadata env now =
     JObj ((''writtenAt'', num_int now)
       # (case resolve_max_age_seconds env of Age n \<Rightarrow> [(''expiresAt'', num_int (now + n * 1000))] | _ \<Rightarrow> []))"

definition envelope_json :: "jsval \<Rightarrow> string \<Rightarrow> jsval \<Rightarrow> jsval" where
  "envelope_json payload sig metadata =
     JObj [(''payload'', payload), (''signature'', JStr sig), (''algorithm'', JStr ''hmac-sha256''),
           (''metadata'', metadata)]"

text \<open>The text that is written, \<^term>\<open>None\<close> where checkpoints are off; a failing \<open>mkdir\<close> or \<open>writeFile\<close>
  rejects after it.\<close>

definition write_integrity_checkpoint ::
  "env \<Rightarrow> (string \<Rightarrow> string \<Rightarrow> string) \<Rightarrow> (rat \<Rightarrow> string) \<Rightarrow> int \<Rightarrow> jsval \<Rightarrow> string option \<Rightarrow> string option
    \<Rightarrow> checkpoint_error + (string \<times> string) option" where
  "write_integrity_checkpoint env hmac show_num now snap path secret =
     (if is_diskless env then Inr None
      else (case resolve_path env path of
          None \<Rightarrow> Inr None
        | Some resolvedPath \<Rightarrow>
            (case resolve_secret env secret of
               None \<Rightarrow> Inl SecretMissing
             | Some resolvedSecret \<Rightarrow>
                 let metadata = checkpoint_metadata env now in
                 (case sign_envelope_body hmac show_num resolvedSecret snap metadata of
                    Inl e \<Rightarrow> Inl e
                  | Inr signature \<Rightarrow>
                      (case canonicalize_json show_num (cval_of (envelope_json snap signature metadata)) of
                         Inl e \<Rightarrow> Inl (Uncanonical e)
                       | Inr text \<Rightarrow> Inr (Some (resolvedPath, text @ [CHR 0x0A])))))))"

datatype file_read = FileText string | FileMissing | FileFailed string

definition fresh_enough :: "max_age \<Rightarrow> int \<Rightarrow> jsval option \<Rightarrow> bool" where
  "fresh_enough maxAge now metadata =
     (case metadata of
        None \<Rightarrow> maxAge = NoAge
      | Some m \<Rightarrow>
          let obj = (case m of JObj obj \<Rightarrow> obj | _ \<Rightarrow> []);
              ageMs = of_int now - num_of (jprop obj ''writtenAt'') in
          \<not> ageMs < 0
          \<and> \<not> (case maxAge of Age n \<Rightarrow> ageMs > of_int (n * 1000) | _ \<Rightarrow> False)
          \<and> \<not> (jprop obj ''expiresAt'' \<noteq> JUndef \<and> of_int now \<ge> num_of (jprop obj ''expiresAt'')))"

definition read_integrity_checkpoint ::
  "env \<Rightarrow> (string \<Rightarrow> string \<Rightarrow> string) \<Rightarrow> (rat \<Rightarrow> string) \<Rightarrow> (string \<Rightarrow> string + jsval) \<Rightarrow> int
    \<Rightarrow> string option \<Rightarrow> string option \<Rightarrow> (string \<Rightarrow> file_read) \<Rightarrow> checkpoint_error + jsval option" where
  "read_integrity_checkpoint env hmac show_num parse now path secret read_file =
     (if is_diskless env then Inr None
      else (case resolve_path env path of
          None \<Rightarrow> Inr None
        | Some resolvedPath \<Rightarrow>
            (case resolve_secret env secret of
               None \<Rightarrow> Inl SecretMissing
             | Some resolvedSecret \<Rightarrow>
                 (case read_file resolvedPath of
                    FileMissing \<Rightarrow> Inr None
                  | FileFailed message \<Rightarrow> Inl (CheckpointInvalid message)
                  | FileText raw \<Rightarrow>
                      (case parse_envelope parse raw of
                         Inl _ \<Rightarrow> Inr None
                       | Inr e \<Rightarrow>
                           if resolve_max_age_seconds env = BadAge then Inr None
                           else
                             (case (case ev_metadata e of
                                  Some m \<Rightarrow> sign_envelope_body hmac show_num resolvedSecret (ev_payload e) m
                                | None \<Rightarrow> sign_legacy_payload hmac show_num resolvedSecret (ev_payload e)) of
                                Inl err \<Rightarrow> Inl err
                              | Inr expected \<Rightarrow>
                                  if \<not> safe_hex_compare (ev_signature e) expected then Inr None
                                  else if fresh_enough (resolve_max_age_seconds env) now (ev_metadata e) then
                                    Inr (Some (ev_payload e))
                                  else Inr None))))))"

section \<open>Comparing signatures\<close>

lemma sign_value_Inr:
  "sign_value hmac show_num secret v = Inr sig \<longleftrightarrow> (\<exists>t. canonicalize_json show_num (cval_of v) = Inr t \<and> sig = hmac secret t)"
  by (auto simp: sign_value_def map_sum_def split: sum.splits)

lemma safe_hex_compare_iff: "safe_hex_compare l r \<longleftrightarrow> length l = length r \<and> hex_decode l = hex_decode r"
  by (auto simp: safe_hex_compare_def Let_def timing_safe_equal_iff)

section \<open>Properties\<close>

text \<open>
  C23: A payload is read from a checkpoint only if the envelope's signature is, as bytes, the HMAC under
  the configured secret of the canonical JSON of what was read (the body with its metadata, or the
  payload alone in the legacy format), it was not written in the future, it has not expired, and with an
  age limit it has metadata and is not older than the limit.
\<close>

theorem accepted_checkpoint_is_authentic:
  assumes "read_integrity_checkpoint env hmac show_num parse now path secret read_file = Inr (Some v)"
  shows "\<exists>fname key raw e t. resolve_path env path = Some fname \<and> resolve_secret env secret = Some key
    \<and> read_file fname = FileText raw \<and> parse_envelope parse raw = Inr e \<and> ev_payload e = v
    \<and> canonicalize_json show_num (cval_of (case ev_metadata e of Some m \<Rightarrow> envelope_body v m | None \<Rightarrow> v)) = Inr t
    \<and> length (ev_signature e) = length (hmac key t) \<and> hex_decode (ev_signature e) = hex_decode (hmac key t)
    \<and> (case resolve_max_age_seconds env of
         BadAge \<Rightarrow> False
       | NoAge \<Rightarrow> True
       | Age n \<Rightarrow> \<exists>obj. ev_metadata e = Some (JObj obj) \<and> of_int now - num_of (jprop obj ''writtenAt'') \<le> of_int (n * 1000))
    \<and> (\<forall>obj. ev_metadata e = Some (JObj obj) \<longrightarrow> num_of (jprop obj ''writtenAt'') \<le> of_int now
         \<and> (jprop obj ''expiresAt'' = JUndef \<or> of_int now < num_of (jprop obj ''expiresAt'')))"
proof -
  obtain fname key raw e where
    r: "resolve_path env path = Some fname" "resolve_secret env secret = Some key" "read_file fname = FileText raw"
      "parse_envelope parse raw = Inr e" "ev_payload e = v" "resolve_max_age_seconds env \<noteq> BadAge"
    and f: "fresh_enough (resolve_max_age_seconds env) now (ev_metadata e)"
    and sg: "\<exists>expected. (case ev_metadata e of Some m \<Rightarrow> sign_envelope_body hmac show_num key v m
        | None \<Rightarrow> sign_legacy_payload hmac show_num key v) = Inr expected \<and> safe_hex_compare (ev_signature e) expected"
    using assms by (auto simp: read_integrity_checkpoint_def
      split: if_splits option.splits file_read.splits sum.splits)
  have meta: "\<exists>obj. m = JObj obj" if "ev_metadata e = Some m" for m
    using r(4) that by (cases m) (auto simp: parse_envelope_def is_valid_checkpoint_metadata_def
      split: sum.splits jsval.splits if_splits)
  obtain t where t: "canonicalize_json show_num (cval_of (case ev_metadata e of Some m \<Rightarrow> envelope_body v m | None \<Rightarrow> v)) = Inr t"
    "safe_hex_compare (ev_signature e) (hmac key t)"
    using sg by (cases "ev_metadata e") (auto simp: sign_legacy_payload_def sign_envelope_body_def sign_value_Inr)
  have age: "case resolve_max_age_seconds env of BadAge \<Rightarrow> False | NoAge \<Rightarrow> True
       | Age n \<Rightarrow> \<exists>obj. ev_metadata e = Some (JObj obj) \<and> of_int now - num_of (jprop obj ''writtenAt'') \<le> of_int (n * 1000)"
    using f r(6) meta
    by (cases "ev_metadata e"; cases "resolve_max_age_seconds env") (fastforce simp: fresh_enough_def Let_def)+
  have past: "\<forall>obj. ev_metadata e = Some (JObj obj) \<longrightarrow> num_of (jprop obj ''writtenAt'') \<le> of_int now
         \<and> (jprop obj ''expiresAt'' = JUndef \<or> of_int now < num_of (jprop obj ''expiresAt''))"
    using f by (auto simp: fresh_enough_def Let_def)
  show ?thesis
    using r(1-5) t age past by (intro exI [of _ fname] exI [of _ key] exI [of _ raw] exI [of _ e] exI [of _ t])
      (simp add: safe_hex_compare_iff)
qed

section \<open>Reading back\<close>

lemma cval_props_map: "cval_props kvs = map (\<lambda>(k, v). (k, cval_of v)) kvs"
  by (induction kvs) auto

lemma cnorm_props_map: "cnorm_props kvs = map (\<lambda>(k, v). (k, cnorm v)) kvs"
  by (induction kvs) auto

lemma map_of_filter_key: "map_of (filter (\<lambda>p. fst p = k) xs) k = map_of xs k"
  by (induction xs) auto

lemma map_of_sort_key: "map_of (sort_key fst xs) k = map_of (xs :: (string \<times> 'b) list) k"
  by (metis map_of_filter_key filter_sort sort_key_stable)

lemma map_of_cnorm: "map_of (cnorm_props (sort_key fst (cval_props kvs))) k = map_option (cnorm \<circ> cval_of) (map_of kvs k)"
  by (simp add: cnorm_props_map cval_props_map map_of_map map_of_sort_key option.map_comp)

lemma insort_key_map: "insort_key f (g x) (map g xs) = map g (insort_key (f \<circ> g) x xs)"
  by (induction xs) auto

lemma sort_key_map: "sort_key f (map g xs) = map g (sort_key (f \<circ> g) xs)"
  by (induction xs) (simp_all add: insort_key_map del: comp_apply)

lemma cnorm_object_sorted:
  "cnorm (cval_of (JObj kvs)) = CObj True (sort_key fst (map (\<lambda>(k, v). (k, cnorm (cval_of v))) kvs))"
proof -
  have f: "fst \<circ> (\<lambda>(k, v). (k, h v)) = fst" for h :: "'b \<Rightarrow> 'c" by auto
  show ?thesis by (simp add: cnorm_props_map cval_props_map sort_key_map f comp_def case_prod_unfold)
qed

lemma cnorm_same_field:
  assumes "cnorm (cval_of (JObj a)) = cnorm (cval_of (JObj b))"
  shows "cnorm (cval_of (jprop a k)) = cnorm (cval_of (jprop b k))" and "fst ` set a = fst ` set b"
proof -
  have e: "map_of (cnorm_props (sort_key fst (cval_props a))) = map_of (cnorm_props (sort_key fst (cval_props b)))"
    using assms by simp
  then have m: "map_option (cnorm \<circ> cval_of) (map_of a k) = map_option (cnorm \<circ> cval_of) (map_of b k)" for k
    by (metis map_of_cnorm)
  show "cnorm (cval_of (jprop a k)) = cnorm (cval_of (jprop b k))"
    using m [of k] by (cases "map_of a k"; cases "map_of b k") (auto simp: jprop_def)
  have "(x \<in> fst ` set a) = (x \<in> fst ` set b)" for x
    using m [of x] map_of_eq_None_iff [of a x] map_of_eq_None_iff [of b x]
    by (cases "map_of a x"; cases "map_of b x") simp_all
  then show "fst ` set a = fst ` set b" by blast
qed

lemma cnorm_leaf [simp]:
  "cnorm (cval_of v) = CStr s \<longleftrightarrow> v = JStr s"
  "cnorm (cval_of v) = CNum n \<longleftrightarrow> v = JNum n"
  "cnorm (cval_of v) = COther t \<longleftrightarrow> v = JUndef \<and> t = ''undefined''"
  by (cases v; auto)+

lemma cnorm_object: "cnorm (cval_of v) = CObj b kvs \<Longrightarrow> \<exists>obj. v = JObj obj"
  by (cases v) auto

lemma same_checkpoint_metadata:
  assumes "cnorm (cval_of m) = cnorm (cval_of (checkpoint_metadata env now))" and "0 \<le> now"
  shows "\<exists>obj. m = JObj obj \<and> is_valid_checkpoint_metadata m \<and> jprop obj ''writtenAt'' = num_int now
    \<and> jprop obj ''expiresAt'' = (case resolve_max_age_seconds env of Age n \<Rightarrow> num_int (now + n * 1000) | _ \<Rightarrow> JUndef)"
proof -
  let ?kvs = "(''writtenAt'', num_int now)
       # (case resolve_max_age_seconds env of Age n \<Rightarrow> [(''expiresAt'', num_int (now + n * 1000))] | _ \<Rightarrow> [])"
  have pos: "0 < n" if "resolve_max_age_seconds env = Age n" for n
    using that by (auto simp: resolve_max_age_seconds_def split: config_result.splits option.splits if_splits)
  have f: "cnorm (cval_of m) = cnorm (cval_of (JObj ?kvs))" using assms(1) by (simp add: checkpoint_metadata_def)
  then obtain obj where m: "m = JObj obj"
    using cnorm_object by (metis cnorm.simps(8) cval_of.simps(7))
  note same = cnorm_same_field [OF f [unfolded m]]
  have "cnorm (cval_of (jprop obj ''writtenAt'')) = CNum (Fin (of_int now))"
    using same(1) [of "''writtenAt''"] by (simp add: jprop_def num_int_def)
  then have w: "jprop obj ''writtenAt'' = num_int now" by (simp add: num_int_def)
  have x: "jprop obj ''expiresAt'' = (case resolve_max_age_seconds env of Age n \<Rightarrow> num_int (now + n * 1000) | _ \<Rightarrow> JUndef)"
    using same(1) [of "''expiresAt''"] by (cases "resolve_max_age_seconds env") (simp_all add: jprop_def num_int_def)
  have "fst ` set obj \<subseteq> {''writtenAt'', ''expiresAt''}"
    using same(2) by (cases "resolve_max_age_seconds env") auto
  then have "\<not> list_ex (\<lambda>(k, _). k \<noteq> ''writtenAt'' \<and> k \<noteq> ''expiresAt'') obj"
    by (force simp: list_ex_iff)
  then have "is_valid_checkpoint_metadata m"
    using assms(2) pos
    by (cases "resolve_max_age_seconds env")
      (simp_all add: m is_valid_checkpoint_metadata_def w x natural_num_def num_of_def num_int_def)
  with m w x show ?thesis by blast
qed

text \<open>
  A checkpoint that was written is read back: whatever \<open>JSON.parse\<close> makes of the written text, as
  long as it has that canonical text again, reading it with the same settings and secret gives the
  snapshot (up to the order of keys) at every later time before the age limit, the limit excluded.
\<close>

theorem checkpoint_round_trip:
  assumes written: "write_integrity_checkpoint env hmac show_num now (JObj snap) path secret = Inr (Some (name, raw @ [CHR 0x0A]))"
    and stored: "read_file name = FileText (raw @ [CHR 0x0A])"
    and parsed: "parse (raw @ [CHR 0x0A]) = Inr w" "canonicalize_json show_num (cval_of w) = Inr raw"
    and numbers: "number_format show_num" and digest: "\<And>k t. trim (hmac k t) \<noteq> []"
    and times: "0 \<le> now" "now \<le> later"
    and age: "case resolve_max_age_seconds env of BadAge \<Rightarrow> False | NoAge \<Rightarrow> True | Age n \<Rightarrow> later < now + n * 1000"
  shows "\<exists>v. read_integrity_checkpoint env hmac show_num parse later path secret read_file = Inr (Some v)
    \<and> cnorm (cval_of v) = cnorm (cval_of (JObj snap))"
proof -
  let ?meta = "checkpoint_metadata env now"
  obtain key t where r: "\<not> is_diskless env" "resolve_path env path = Some name" "resolve_secret env secret = Some key"
    and sg: "canonicalize_json show_num (cval_of (envelope_body (JObj snap) ?meta)) = Inr t"
    and out: "canonicalize_json show_num (cval_of (envelope_json (JObj snap) (hmac key t) ?meta)) = Inr raw"
    using written by (auto simp: write_integrity_checkpoint_def sign_envelope_body_def sign_value_Inr Let_def
      split: if_splits option.splits sum.splits)
  have e: "cnorm (cval_of w) = cnorm (cval_of (envelope_json (JObj snap) (hmac key t) ?meta))"
    using canonical_text_iff [OF numbers out] parsed(2) by blast
  obtain obj where w: "w = JObj obj"
    using e cnorm_object by (metis cnorm.simps(8) cval_of.simps(7) envelope_json_def)
  note same = cnorm_same_field [OF e [unfolded w envelope_json_def]]
  have alg: "jprop obj ''algorithm'' = JStr ''hmac-sha256''" and sig: "jprop obj ''signature'' = JStr (hmac key t)"
    using same(1) [of "''algorithm''"] same(1) [of "''signature''"] by (simp_all add: jprop_def)
  have pay: "cnorm (cval_of (jprop obj ''payload'')) = cnorm (cval_of (JObj snap))"
    and met: "cnorm (cval_of (jprop obj ''metadata'')) = cnorm (cval_of ?meta)"
    using same(1) [of "''payload''"] same(1) [of "''metadata''"] by (simp_all add: jprop_def)
  obtain p where p: "jprop obj ''payload'' = JObj p"
    using pay cnorm_object by (metis cnorm.simps(8) cval_of.simps(7))
  obtain m where m: "jprop obj ''metadata'' = JObj m" "is_valid_checkpoint_metadata (JObj m)"
    "jprop m ''writtenAt'' = num_int now"
    "jprop m ''expiresAt'' = (case resolve_max_age_seconds env of Age n \<Rightarrow> num_int (now + n * 1000) | _ \<Rightarrow> JUndef)"
    using same_checkpoint_metadata [OF met times(1)] by metis
  have "fst ` set obj = set envelope_keys" using same(2) by (auto simp: envelope_keys_def)
  then have keys: "\<not> list_ex (\<lambda>(k, _). k \<notin> set envelope_keys) obj" by (force simp: list_ex_iff)
  have pe: "parse_envelope parse (raw @ [CHR 0x0A])
      = Inr \<lparr>ev_payload = JObj p, ev_signature = hmac key t, ev_metadata = Some (JObj m)\<rparr>"
    using digest [of key t] m(2) by (simp add: parse_envelope_def parsed(1) w keys alg sig p m(1))
  have "cnorm (cval_of (envelope_body (JObj p) (JObj m))) = cnorm (cval_of (envelope_body (JObj snap) ?meta))"
    using pay met by (simp add: envelope_body_def p m(1) cnorm_object_sorted del: cval_of.simps(7) cnorm.simps)
  then have s2: "sign_envelope_body hmac show_num key (JObj p) (JObj m) = Inr (hmac key t)"
    using canonical_text_iff [OF numbers sg] by (auto simp: sign_envelope_body_def sign_value_Inr)
  have fresh: "fresh_enough (resolve_max_age_seconds env) later (Some (JObj m))"
    using age times by (cases "resolve_max_age_seconds env")
      (simp_all add: fresh_enough_def m num_of_def num_int_def flip: of_int_diff of_int_mult)
  have "read_integrity_checkpoint env hmac show_num parse later path secret read_file = Inr (Some (JObj p))"
    using age fresh by (cases "resolve_max_age_seconds env")
      (simp_all add: read_integrity_checkpoint_def r stored pe s2 safe_hex_compare_iff)
  with pay p show ?thesis by auto
qed

text \<open>A concrete run without an age limit.\<close>

definition demo_checkpoint_env :: env where
  "demo_checkpoint_env = (\<lambda>_. None)
     (''GATEWAY_INTEGRITY_CHECKPOINT_PATH'' := Some ''/c'', ''GATEWAY_INTEGRITY_CHECKPOINT_SECRET'' := Some ''s'')"

definition demo_hmac :: "string \<Rightarrow> string \<Rightarrow> string" where
  "demo_hmac key text = ''ab''"

lemma demo_checkpoint_settings:
  "\<not> is_diskless demo_checkpoint_env" "resolve_path demo_checkpoint_env None = Some ''/c''"
  "resolve_secret demo_checkpoint_env None = Some ''s''" "resolve_max_age_seconds demo_checkpoint_env = NoAge"
  by code_simp+

lemma demo_checkpoint_texts:
  "\<exists>t raw. canonicalize_json show_ratio (cval_of (envelope_body (JObj []) (checkpoint_metadata demo_checkpoint_env 5))) = Inr t
    \<and> canonicalize_json show_ratio (cval_of (envelope_json (JObj []) ''ab'' (checkpoint_metadata demo_checkpoint_env 5))) = Inr raw"
  by (simp add: canonicalize_json_def envelope_body_def envelope_json_def checkpoint_metadata_def demo_checkpoint_settings num_int_def)

lemma checkpoint_round_trip_witness:
  "\<exists>raw v. write_integrity_checkpoint demo_checkpoint_env demo_hmac show_ratio 5 (JObj []) None None = Inr (Some (''/c'', raw))
    \<and> read_integrity_checkpoint demo_checkpoint_env demo_hmac show_ratio
        (\<lambda>_. Inr (envelope_json (JObj []) ''ab'' (checkpoint_metadata demo_checkpoint_env 5))) 9 None None (\<lambda>_. FileText raw)
      = Inr (Some v) \<and> cnorm (cval_of v) = CObj True []"
proof -
  obtain t raw where c:
    "canonicalize_json show_ratio (cval_of (envelope_body (JObj []) (checkpoint_metadata demo_checkpoint_env 5))) = Inr t"
    "canonicalize_json show_ratio (cval_of (envelope_json (JObj []) ''ab'' (checkpoint_metadata demo_checkpoint_env 5))) = Inr raw"
    using demo_checkpoint_texts by blast
  have w: "write_integrity_checkpoint demo_checkpoint_env demo_hmac show_ratio 5 (JObj []) None None
      = Inr (Some (''/c'', raw @ [CHR 0x0A]))"
    by (simp add: write_integrity_checkpoint_def demo_checkpoint_settings sign_envelope_body_def sign_value_def c demo_hmac_def Let_def)
  have d: "trim (demo_hmac k u) \<noteq> []" for k u by (simp add: demo_hmac_def trim_def js_ws_def)
  from checkpoint_round_trip [OF w, of "\<lambda>_. FileText (raw @ [CHR 0x0A])"
      "\<lambda>_. Inr (envelope_json (JObj []) ''ab'' (checkpoint_metadata demo_checkpoint_env 5))", OF refl refl c(2) number_format_ratio d, of 9]
  show ?thesis using w by (simp add: demo_checkpoint_settings)
qed

lemma accepted_checkpoint_witness:
  "\<exists>t. canonicalize_json show_ratio (cval_of (JObj [])) = Inr t \<and> length ''ab'' = length (demo_hmac ''s'' t)"
proof -
  let ?parse = "\<lambda>_. Inr (JObj [(''algorithm'', JStr ''hmac-sha256''), (''payload'', JObj []), (''signature'', JStr ''ab'')])"
  have pe: "parse_envelope ?parse ''x'' = Inr \<lparr>ev_payload = JObj [], ev_signature = ''ab'', ev_metadata = None\<rparr>"
    by code_simp
  have r: "read_integrity_checkpoint demo_checkpoint_env demo_hmac show_ratio ?parse 9 None None (\<lambda>_. FileText ''x'')
      = Inr (Some (JObj []))"
    by (simp add: read_integrity_checkpoint_def demo_checkpoint_settings pe sign_legacy_payload_def sign_value_def
        canonicalize_json_def demo_hmac_def safe_hex_compare_iff fresh_enough_def)
  from accepted_checkpoint_is_authentic [OF r] pe show ?thesis by (auto simp: demo_checkpoint_settings)
qed

text \<open>
  The two formats share the key without separating them: a signature of an envelope body is also a
  signature of a legacy payload, so where no age limit is set the body itself (algorithm, payload and
  metadata) is read as a snapshot.
\<close>

lemma envelope_read_as_legacy:
  assumes "\<not> is_diskless env" "resolve_path env path = Some name" "resolve_secret env secret = Some key"
    and "resolve_max_age_seconds env = NoAge" "sign_envelope_body hmac show_num key snap metadata = Inr sig" "trim sig \<noteq> []"
    and "read_file name = FileText raw"
    and "parse raw = Inr (JObj [(''algorithm'', JStr ''hmac-sha256''), (''payload'', envelope_body snap metadata), (''signature'', JStr sig)])"
  shows "read_integrity_checkpoint env hmac show_num parse now path secret read_file = Inr (Some (envelope_body snap metadata))"
proof -
  have "parse_envelope parse raw = Inr \<lparr>ev_payload = envelope_body snap metadata, ev_signature = sig, ev_metadata = None\<rparr>"
    using assms(6,8) by (simp add: parse_envelope_def envelope_keys_def jprop_def envelope_body_def)
  moreover have "sign_legacy_payload hmac show_num key (envelope_body snap metadata) = Inr sig"
    using assms(5) by (simp add: sign_legacy_payload_def sign_envelope_body_def)
  ultimately show ?thesis
    using assms(1-4,7) by (simp add: read_integrity_checkpoint_def safe_hex_compare_iff fresh_enough_def)
qed

end
