(* ===== verification/Template.thy ===== *)
theory Template
  imports Payments Json
begin

text \<open>
  The template gateway's contract, action table, payload validators and secret guard
  (\<open>src/src/templateContract.ts\<close>, \<open>src/src/runtime/template/actions.ts\<close>, \<open>validators.ts\<close>,
  \<open>secretGuard.ts\<close>). Payloads are JSON trees, so the guard's set of visited objects never matters;
  the order of \<open>localeCompare\<close>, \<open>JSON.parse\<close>, path resolution and the contract file are parameters.
\<close>

section \<open>The backend contract\<close>

datatype idempotency_mode = IdemRequired | IdemOptional | IdemForbidden

record contract_action =
  ca_name :: string
  ca_path :: string
  ca_requiredRole :: string
  ca_requestSchemaRef :: string
  ca_responseSchemaRef :: string
  ca_ratelimitProfile :: string
  ca_mode :: idempotency_mode
  ca_keyHeader :: "string option"

record template_contract =
  tc_schemaVersion :: string
  tc_templateId :: string
  tc_templateVersion :: string
  tc_allowedActions :: "contract_action list"

definition as_string :: "jsval \<Rightarrow> string" where
  "as_string v = (case v of JStr s \<Rightarrow> trim s | _ \<Rightarrow> [])"

text \<open>\<open>toUpperCase() === 'POST'\<close>, by comparing in lower case.\<close>

definition is_post :: "string \<Rightarrow> bool" where
  "is_post m \<longleftrightarrow> to_lower m = ''post''"

definition parse_contract_action :: "jsval \<Rightarrow> contract_action option" where
  "parse_contract_action v =
     (case v of
        JObj obj \<Rightarrow>
          let name = as_string (jprop obj ''name'');
              path = as_string (jprop obj ''path'');
              requiredRole = (case jprop obj ''auth'' of JObj auth \<Rightarrow> as_string (jprop auth ''requiredRole'') | _ \<Rightarrow> []);
              requestSchemaRef = as_string (jprop obj ''requestSchemaRef'');
              responseSchemaRef = as_string (jprop obj ''responseSchemaRef'');
              ratelimitProfile = as_string (jprop obj ''ratelimitProfile'');
              idem = (case jprop obj ''idempotency'' of JObj i \<Rightarrow> i | _ \<Rightarrow> []);
              modeText = to_lower (as_string (jprop idem ''mode''));
              keyHeader = as_string (jprop idem ''keyHeader'');
              mode = (if modeText = ''required'' then Some IdemRequired
                      else if modeText = ''optional'' then Some IdemOptional
                      else if modeText = ''forbidden'' then Some IdemForbidden else None)
          in if name = [] \<or> \<not> is_post (as_string (jprop obj ''method'')) \<or> \<not> starts_with path ''/'' \<or> requiredRole = []
             then None
             else if requestSchemaRef = [] \<or> responseSchemaRef = [] \<or> ratelimitProfile = [] then None
             else map_option (\<lambda>m. \<lparr>ca_name = name, ca_path = path, ca_requiredRole = requiredRole,
                    ca_requestSchemaRef = requestSchemaRef, ca_responseSchemaRef = responseSchemaRef,
                    ca_ratelimitProfile = ratelimitProfile, ca_mode = m,
                    ca_keyHeader = (if keyHeader \<noteq> [] then Some keyHeader else None)\<rparr>) mode
      | _ \<Rightarrow> None)"

fun parse_contract_actions :: "jsval list \<Rightarrow> contract_action list option" where
  "parse_contract_actions [] = Some []"
| "parse_contract_actions (v # vs) =
     (case parse_contract_action v of
        None \<Rightarrow> None
      | Some a \<Rightarrow> map_option ((#) a) (parse_contract_actions vs))"

definition parse_contract :: "jsval \<Rightarrow> template_contract option" where
  "parse_contract raw =
     (case raw of
        JObj obj \<Rightarrow>
          let schemaVersion = as_string (jprop obj ''schemaVersion'');
              templateId = as_string (jprop obj ''templateId'');
              templateVersion = as_string (jprop obj ''templateVersion'');
              actionsRaw = (case jprop obj ''allowedActions'' of JArr vs \<Rightarrow> vs | _ \<Rightarrow> [])
          in if schemaVersion = [] \<or> templateId = [] \<or> templateVersion = [] \<or> actionsRaw = [] then None
             else map_option (\<lambda>as. \<lparr>tc_schemaVersion = schemaVersion, tc_templateId = templateId,
                    tc_templateVersion = templateVersion, tc_allowedActions = as\<rparr>) (parse_contract_actions actionsRaw)
      | _ \<Rightarrow> None)"

text \<open>The contract read last and the path it was read from; a failed read is retried at every call.\<close>

record contract_cache =
  cc_path :: string
  cc_contract :: "template_contract option"

definition contract_cache_init :: contract_cache where
  "contract_cache_init = \<lparr>cc_path = [], cc_contract = None\<rparr>"

definition read_contract_path :: "(string \<Rightarrow> string) \<Rightarrow> env \<Rightarrow> string" where
  "read_contract_path resolve env =
     resolve (case read_raw_env ''GATEWAY_TEMPLATE_CONTRACT_FILE'' env of
        Some p \<Rightarrow> if length p > 0 then p else ''config/template-backend-contract.json''
      | None \<Rightarrow> ''config/template-backend-contract.json'')"

text \<open>\<open>read_file\<close> gives nothing where \<open>readFileSync\<close> throws.\<close>

definition load_contract ::
  "(string \<Rightarrow> string) \<Rightarrow> (string \<Rightarrow> string option) \<Rightarrow> (string \<Rightarrow> string + jsval) \<Rightarrow> env \<Rightarrow> contract_cache
    \<Rightarrow> template_contract option \<times> contract_cache" where
  "load_contract resolve read_file parse env cache =
     (let path = read_contract_path resolve env in
      if cc_contract cache \<noteq> None \<and> cc_path cache = path then (cc_contract cache, cache)
      else
        let parsed = (case read_file path of
              None \<Rightarrow> None
            | Some text \<Rightarrow> (case parse text of Inl _ \<Rightarrow> None | Inr v \<Rightarrow> parse_contract v))
        in (parsed, \<lparr>cc_path = path, cc_contract = parsed\<rparr>))"

definition get_template_contract_action ::
  "(string \<Rightarrow> string) \<Rightarrow> (string \<Rightarrow> string option) \<Rightarrow> (string \<Rightarrow> string + jsval) \<Rightarrow> env \<Rightarrow> string \<Rightarrow> contract_cache
    \<Rightarrow> contract_action option \<times> contract_cache" where
  "get_template_contract_action resolve read_file parse env actionName cache =
     (case load_contract resolve read_file parse env cache of
        (contract, cache') \<Rightarrow>
          (case contract of None \<Rightarrow> None
            | Some c \<Rightarrow> find (\<lambda>a. ca_name a = actionName) (tc_allowedActions c), cache'))"

section \<open>Payload validators\<close>

definition validate_resolve_route :: "jsval \<Rightarrow> string + unit" where
  "validate_resolve_route payload =
     (case payload of
        JObj obj \<Rightarrow>
          if \<not> has_str obj ''path'' then Inl ''payload.path is required''
          else if \<not> has_str obj ''siteId'' \<and> \<not> has_str obj ''host'' then Inl ''payload.siteId or payload.host is required''
          else Inr ()
      | _ \<Rightarrow> Inl ''payload must be an object'')"

definition validate_get_page :: "jsval \<Rightarrow> string + unit" where
  "validate_get_page payload =
     (case payload of
        JObj obj \<Rightarrow>
          if \<not> has_str obj ''siteId'' then Inl ''payload.siteId is required''
          else if \<not> has_str obj ''slug'' \<and> \<not> has_str obj ''pageId'' then Inl ''payload.slug or payload.pageId is required''
          else Inr ()
      | _ \<Rightarrow> Inl ''payload must be an object'')"

definition validate_site_by_host :: "jsval \<Rightarrow> string + unit" where
  "validate_site_by_host payload =
     (case payload of
        JObj obj \<Rightarrow> if \<not> has_str obj ''host'' then Inl ''payload.host is required'' else Inr ()
      | _ \<Rightarrow> Inl ''payload must be an object'')"

definition validate_create_order :: "jsval \<Rightarrow> string + unit" where
  "validate_create_order payload =
     (case payload of
        JObj obj \<Rightarrow>
          if \<not> has_str obj ''siteId'' then Inl ''payload.siteId is required''
          else (case jprop obj ''items'' of
              JArr (_ # _) \<Rightarrow> Inr ()
            | _ \<Rightarrow> Inl ''payload.items must be a non-empty array'')
      | _ \<Rightarrow> Inl ''payload must be an object'')"

definition validate_create_payment_intent :: "jsval \<Rightarrow> string + unit" where
  "validate_create_payment_intent payload = validate_create_payment_intent_payload payload"

section \<open>The action table\<close>

datatype backend_target = ToAo | ToWrite | ToWorker

datatype action_kind = ReadAction | WriteAction

record action_policy =
  ap_action :: string
  ap_kind :: action_kind
  ap_target :: backend_target
  ap_path :: string
  ap_validate :: "jsval \<Rightarrow> string + unit"

definition template_action_policies :: "action_policy list" where
  "template_action_policies =
    [\<lparr>ap_action = ''public.resolve-route'', ap_kind = ReadAction, ap_target = ToAo,
       ap_path = ''/api/public/resolve-route'', ap_validate = validate_resolve_route\<rparr>,
     \<lparr>ap_action = ''public.site-by-host'', ap_kind = ReadAction, ap_target = ToAo,
       ap_path = ''/api/public/site-by-host'', ap_validate = validate_site_by_host\<rparr>,
     \<lparr>ap_action = ''public.get-page'', ap_kind = ReadAction, ap_target = ToAo,
       ap_path = ''/api/public/page'', ap_validate = validate_get_page\<rparr>,
     \<lparr>ap_action = ''checkout.create-order'', ap_kind = WriteAction, ap_target = ToWrite,
       ap_path = ''/api/checkout/order'', ap_validate = validate_create_order\<rparr>,
     \<lparr>ap_action = ''checkout.create-payment-intent'', ap_kind = WriteAction, ap_target = ToWrite,
       ap_path = ''/api/checkout/payment-intent'', ap_validate = validate_create_payment_intent\<rparr>]"

definition get_template_action_policy :: "string \<Rightarrow> action_policy option" where
  "get_template_action_policy action = find (\<lambda>p. ap_action p = action) template_action_policies"

section \<open>The secret guard\<close>

definition default_allowed_keys :: "string list" where
  "default_allowed_keys = [''paymentId'', ''provider'', ''siteId'']"

definition suspicious_key_tokens :: "string list" where
  "suspicious_key_tokens =
     [''password'', ''secret'', ''privatekey'', ''apikey'', ''token'', ''smtp'', ''bearer'', ''signingkey'', ''walletjwk'']"

definition secret_guard_strict :: "env \<Rightarrow> bool" where
  "secret_guard_strict env =
     (case read_env_string ''GATEWAY_TEMPLATE_SECRET_GUARD_STRICT'' env of
        None \<Rightarrow> True
      | Some raw \<Rightarrow> to_lower raw \<notin> {''0'', ''false'', ''no'', ''off''})"

definition read_guard_allowlist :: "env \<Rightarrow> string list" where
  "read_guard_allowlist env =
     (case read_env_string ''GATEWAY_TEMPLATE_SECRET_GUARD_ALLOWLIST'' env of
        None \<Rightarrow> []
      | Some raw \<Rightarrow> filter (\<lambda>v. length v > 0) (map trim (split_on CHR '','' raw)))"

definition normalize_key :: "string \<Rightarrow> string" where
  "normalize_key key = filter (\<lambda>c. is_lower c \<or> is_digit c) (to_lower key)"

definition is_suspicious_key :: "string \<Rightarrow> bool" where
  "is_suspicious_key key =
     (let normalized = normalize_key key in
      normalized \<noteq> [] \<and> list_ex (includes_str normalized) suspicious_key_tokens)"

definition is_allowed_key :: "string list \<Rightarrow> string \<Rightarrow> bool" where
  "is_allowed_key allowlist key \<longleftrightarrow> key \<in> set default_allowed_keys \<or> key \<in> set allowlist"

fun walk_payload :: "string list \<Rightarrow> string \<Rightarrow> jsval \<Rightarrow> (string \<times> string) list"
  and walk_items :: "string list \<Rightarrow> string \<Rightarrow> nat \<Rightarrow> jsval list \<Rightarrow> (string \<times> string) list"
  and walk_entries :: "string list \<Rightarrow> string \<Rightarrow> jobj \<Rightarrow> (string \<times> string) list"
where
  "walk_payload allow path (JArr vs) = walk_items allow path 0 vs"
| "walk_payload allow path (JObj kvs) = walk_entries allow path kvs"
| "walk_payload allow path _ = []"
| "walk_items allow path i [] = []"
| "walk_items allow path i (v # vs) =
     walk_payload allow (path @ ''['' @ nat_str i @ '']'') v @ walk_items allow path (Suc i) vs"
| "walk_entries allow path [] = []"
| "walk_entries allow path ((key, child) # kvs) =
     (let childPath = (if path \<noteq> [] then path @ ''.'' @ key else key)
      in (if \<not> is_allowed_key allow key \<and> is_suspicious_key key then [(childPath, key)] else [])
         @ walk_payload allow childPath child @ walk_entries allow path kvs)"

text \<open>\<^term>\<open>None\<close> where the payload passes, else the forbidden paths, each once, in the order of
  \<open>localeCompare\<close>.\<close>

definition inspect_template_secret_payload :: "(string list \<Rightarrow> string list) \<Rightarrow> env \<Rightarrow> jsval \<Rightarrow> string list option" where
  "inspect_template_secret_payload locale_sort env payload =
     (if \<not> secret_guard_strict env then None
      else (case payload of
          JObj _ \<Rightarrow>
            let hits = walk_payload (read_guard_allowlist env) ''payload'' payload
            in if hits = [] then None else Some (locale_sort (remdups (map fst hits)))
        | JArr _ \<Rightarrow>
            let hits = walk_payload (read_guard_allowlist env) ''payload'' payload
            in if hits = [] then None else Some (locale_sort (remdups (map fst hits)))
        | _ \<Rightarrow> None))"

section \<open>What the guard finds\<close>

text \<open>The keys that occur in a JSON tree, at any depth.\<close>

inductive key_in :: "string \<Rightarrow> jsval \<Rightarrow> bool" where
  here: "(k, v) \<in> set kvs \<Longrightarrow> key_in k (JObj kvs)"
| below: "(k', v) \<in> set kvs \<Longrightarrow> key_in k v \<Longrightarrow> key_in k (JObj kvs)"
| item: "v \<in> set vs \<Longrightarrow> key_in k v \<Longrightarrow> key_in k (JArr vs)"

inductive_simps key_in_simps [simp]:
  "key_in k (JObj kvs)" "key_in k (JArr vs)" "key_in k JUndef" "key_in k JNull" "key_in k (JBool b)"
  "key_in k (JNum n)" "key_in k (JStr s)"

lemma walk_keys:
  "snd ` set (walk_payload allow path v) = {k. key_in k v \<and> \<not> is_allowed_key allow k \<and> is_suspicious_key k}"
  "snd ` set (walk_items allow path i vs) = {k. (\<exists>v \<in> set vs. key_in k v) \<and> \<not> is_allowed_key allow k \<and> is_suspicious_key k}"
  "snd ` set (walk_entries allow path kvs) = {k. key_in k (JObj kvs) \<and> \<not> is_allowed_key allow k \<and> is_suspicious_key k}"
  by (induction allow path v and allow path i vs and allow path kvs rule: walk_payload_walk_items_walk_entries.induct)
    (auto simp: Let_def image_Un)

section \<open>Properties\<close>

text \<open>
  In its strict mode the secret guard lets a payload pass exactly if no key at any depth, in objects
  or in arrays, contains one of the suspicious words (whatever its case and punctuation) unless the key
  is on an allow list.
\<close>

theorem secret_guard_exact:
  "inspect_template_secret_payload locale_sort env payload = None \<longleftrightarrow>
     \<not> secret_guard_strict env
     \<or> (\<nexists>k. key_in k payload \<and> is_suspicious_key k \<and> \<not> is_allowed_key (read_guard_allowlist env) k)"
proof -
  have "walk_payload allow path payload = [] \<longleftrightarrow> (\<nexists>k. key_in k payload \<and> is_suspicious_key k \<and> \<not> is_allowed_key allow k)"
    for allow path
  proof -
    have "walk_payload allow path payload = [] \<longleftrightarrow> snd ` set (walk_payload allow path payload) = {}" by simp
    then show ?thesis unfolding walk_keys(1) by blast
  qed
  then show ?thesis
    by (cases payload) (auto simp: inspect_template_secret_payload_def Let_def)
qed

end
