(* ===== verification/SiteResolver.thy ===== *)
theory SiteResolver
  imports Config Json
begin

text \<open>
  Binding a request's host to a site (\<open>src/src/runtime/template/siteResolver.ts\<close>): the configured host
  map, the lookup at the AO resolver with its caches and its circuit breaker. The lookup is split where
  the code awaits the response, so that requests interleave there; \<open>JSON.parse\<close>, \<open>new URL\<close> and the
  printing of numbers are parameters, the clock is a sequence of readings. Objects from \<open>JSON.parse\<close> list
  their properties in enumeration order.
\<close>

section \<open>Settings\<close>

datatype resolve_mode = MapMode | AoMode | HybridMode

definition normalize_resolver_host :: "string \<Rightarrow> string" where
  "normalize_resolver_host hostRaw =
     (let normalized = to_lower (trim hostRaw);
          port = takeWhile is_digit (rev normalized);
          rest = dropWhile is_digit (rev normalized)
      in if port \<noteq> [] \<and> rest \<noteq> [] \<and> hd rest = CHR '':'' then rev (tl rest) else normalized)"

definition read_resolve_mode :: "env \<Rightarrow> resolve_mode" where
  "read_resolve_mode env =
     (let raw = to_lower (trim (or_empty (or_else (read_env_string ''GATEWAY_SITE_RESOLVE_MODE'' env) (Some ''hybrid''))))
      in if raw = ''map'' then MapMode else if raw = ''ao'' then AoMode else HybridMode)"

definition read_resolver_base_url :: "env \<Rightarrow> string option" where
  "read_resolver_base_url env = read_env_string ''GATEWAY_SITE_RESOLVE_AO_URL'' env"

definition resolver_cache_ttl_ms :: "env \<Rightarrow> int" where
  "resolver_cache_ttl_ms env = read_positive_int_env ''GATEWAY_SITE_RESOLVE_CACHE_TTL_MS'' 30000 env"

definition resolver_unavailable_ttl_ms :: "env \<Rightarrow> int" where
  "resolver_unavailable_ttl_ms env = read_positive_int_env ''GATEWAY_SITE_RESOLVE_UNAVAILABLE_CACHE_TTL_MS'' 5000 env"

definition resolver_global_ttl_ms :: "env \<Rightarrow> int" where
  "resolver_global_ttl_ms env = read_positive_int_env ''GATEWAY_SITE_RESOLVE_GLOBAL_UNAVAILABLE_CACHE_TTL_MS'' 0 env"

definition resolver_breaker_threshold :: "env \<Rightarrow> int" where
  "resolver_breaker_threshold env = read_positive_int_env ''GATEWAY_SITE_RESOLVE_BREAKER_THRESHOLD'' 3 env"

definition resolver_breaker_window_ms :: "env \<Rightarrow> int" where
  "resolver_breaker_window_ms env = read_positive_int_env ''GATEWAY_SITE_RESOLVE_BREAKER_WINDOW_MS'' 20000 env"

definition resolver_breaker_open_ms :: "env \<Rightarrow> int" where
  "resolver_breaker_open_ms env = read_positive_int_env ''GATEWAY_SITE_RESOLVE_BREAKER_OPEN_MS'' 15000 env"

definition allow_fallback :: "env \<Rightarrow> bool" where
  "allow_fallback env = read_strict_enabled_flag ''GATEWAY_SITE_RESOLVE_ALLOW_BODY_FALLBACK'' env"

section \<open>The host map\<close>

fun host_map_of :: "jobj \<Rightarrow> string jmap \<Rightarrow> string jmap option" where
  "host_map_of [] m = Some m"
| "host_map_of ((keyRaw, valueRaw) # entries) m =
     (let k = normalize_resolver_host keyRaw;
          v = (case valueRaw of JStr s \<Rightarrow> trim s | _ \<Rightarrow> [])
      in if k = [] \<or> v = [] then None
         else host_map_of entries (table_set k v m))"

definition parse_host_map :: "(string \<Rightarrow> string + jsval) \<Rightarrow> string \<Rightarrow> string jmap option" where
  "parse_host_map parse raw =
     (case parse raw of Inr (JObj entries) \<Rightarrow> host_map_of entries [] | _ \<Rightarrow> None)"

text \<open>
  \<open>parsedHostMap[host] || parsedHostMap.default\<close>: the map is a plain object, so for a host whose name
  objects inherit the first operand is the inherited value.
\<close>

definition mapped_site :: "string jmap \<Rightarrow> string \<Rightarrow> string table_value option" where
  "mapped_site m host =
     (case table_lookup m host of
        Some v \<Rightarrow> Some v
      | None \<Rightarrow> map_option Own (map_of m ''default''))"

section \<open>Runtime hints\<close>

record runtime_hints =
  rh_runtime :: "jobj option"
  rh_runtimePointers :: "jobj option"

text \<open>\<open>{ ...a, ...b }\<close>\<close>

definition spread :: "jobj \<Rightarrow> jobj \<Rightarrow> jobj" where
  "spread a b = foldl (\<lambda>o' (k, v). AList.update k v o') a b"

definition runtime_pointer_fields :: "string list" where
  "runtime_pointer_fields =
    [''processId'', ''siteProcessId'', ''readProcessId'', ''writeProcessId'', ''catalogProcessId'',
     ''accessProcessId'', ''ingestProcessId'', ''registryProcessId'', ''workerId'', ''workerUrl'',
     ''updatedAt'', ''sitePid'', ''readPid'', ''writePid'', ''catalogPid'', ''accessPid'', ''ingestPid'',
     ''registryPid'', ''workerPid'', ''site_process_id'', ''read_process_id'', ''write_process_id'',
     ''catalog_process_id'', ''access_process_id'', ''ingest_process_id'', ''registry_process_id'',
     ''worker_id'', ''worker_url'', ''ProcessId'', ''Process-Id'', ''process_id'', ''UpdatedAt'',
     ''Updated-At'', ''updated_at'', ''moduleId'', ''ModuleId'', ''Module-Id'', ''module_id'', ''scheduler'',
     ''Scheduler'', ''Scheduler-Id'', ''schedulerId'', ''scheduler_id'', ''templateTxId'', ''TemplateTxId'',
     ''Template-Tx-Id'', ''template_tx_id'', ''manifestTxId'', ''ManifestTxId'', ''Manifest-Tx-Id'',
     ''manifest_tx_id'', ''templateSha256'', ''TemplateSha256'', ''Template-Sha256'', ''template_sha256'',
     ''templateVariant'', ''TemplateVariant'', ''Template-Variant'', ''template_variant'']"

definition trim_string :: "jsval \<Rightarrow> string" where
  "trim_string v = (case v of JStr s \<Rightarrow> trim s | _ \<Rightarrow> [])"

definition collect_scalar_runtime_pointers :: "jobj \<Rightarrow> jobj option" where
  "collect_scalar_runtime_pointers source =
     (let out = concat (map (\<lambda>k. let v = trim_string (jprop source k) in if v \<noteq> [] then [(k, JStr v)] else [])
                 runtime_pointer_fields)
      in if out \<noteq> [] then Some out else None)"

fun first_some :: "'a option list \<Rightarrow> 'a option" where
  "first_some [] = None"
| "first_some (Some x # _) = Some x"
| "first_some (None # xs) = first_some xs"

definition collect_runtime_hints :: "jobj option \<Rightarrow> runtime_hints option" where
  "collect_runtime_hints r =
     (case r of None \<Rightarrow> None
      | Some obj \<Rightarrow>
          let runtime = first_some (map (as_obj \<circ> jprop obj) [''runtime'', ''Runtime'']);
              pointers = first_some (map (as_obj \<circ> jprop obj)
                [''runtimePointers'', ''RuntimePointers'', ''runtimePointer'', ''RuntimePointer'']);
              scalars = collect_scalar_runtime_pointers obj;
              merged = (if pointers = None \<and> scalars = None then None
                        else Some (spread (case pointers of None \<Rightarrow> [] | Some p \<Rightarrow> p)
                                          (case scalars of None \<Rightarrow> [] | Some p \<Rightarrow> p)))
          in if runtime = None \<and> merged = None then None
             else Some \<lparr>rh_runtime = runtime, rh_runtimePointers = merged\<rparr>)"

definition merge_objects :: "jobj option \<Rightarrow> jobj option \<Rightarrow> jobj option" where
  "merge_objects primary secondary =
     (if primary = None \<and> secondary = None then None
      else Some (spread (case secondary of None \<Rightarrow> [] | Some s \<Rightarrow> s) (case primary of None \<Rightarrow> [] | Some p \<Rightarrow> p)))"

definition merge_runtime_hints :: "runtime_hints option \<Rightarrow> runtime_hints option \<Rightarrow> runtime_hints option" where
  "merge_runtime_hints primary secondary =
     (let part = (\<lambda>f. merge_objects (Option.bind primary f) (Option.bind secondary f));
          runtime = part rh_runtime; pointers = part rh_runtimePointers
      in if runtime = None \<and> pointers = None then None
         else Some \<lparr>rh_runtime = runtime, rh_runtimePointers = pointers\<rparr>)"

definition parse_resolver_body :: "jsval \<Rightarrow> string option \<times> runtime_hints option" where
  "parse_resolver_body body =
     (case as_obj body of
        None \<Rightarrow> (None, None)
      | Some obj \<Rightarrow>
          let payload = as_obj (jprop obj ''payload''); data = as_obj (jprop obj ''data'');
              field = (\<lambda>r. case r of None \<Rightarrow> [] | Some q \<Rightarrow> trim_string (jprop q ''siteId''));
              siteId = (if field (Some obj) \<noteq> [] then field (Some obj)
                        else if field payload \<noteq> [] then field payload else field data)
          in (if siteId \<noteq> [] then Some siteId else None,
              merge_runtime_hints (collect_runtime_hints (if payload \<noteq> None then payload else data))
                (collect_runtime_hints (Some obj))))"

section \<open>The caches and the circuit breaker\<close>

record cached_resolution =
  ca_siteId :: "string option"
  ca_runtimeHints :: "runtime_hints option"
  ca_expiresAt :: int

record cached_unavailable =
  cu_error :: string
  cu_status :: int
  cu_expiresAt :: int

record resolver_state =
  sr_resolutions :: "cached_resolution jmap"
  sr_unavailable :: "cached_unavailable jmap"
  sr_global :: "cached_unavailable option"
  sr_failures :: int
  sr_windowStart :: int
  sr_openUntil :: int

definition resolver_init :: resolver_state where
  "resolver_init = \<lparr>sr_resolutions = [], sr_unavailable = [], sr_global = None, sr_failures = 0,
     sr_windowStart = 0, sr_openUntil = 0\<rparr>"

definition cached_ao_lookup :: "string \<Rightarrow> int \<Rightarrow> resolver_state \<Rightarrow> cached_resolution option \<times> resolver_state" where
  "cached_ao_lookup host now st =
     (case map_of (sr_resolutions st) host of
        None \<Rightarrow> (None, st)
      | Some c \<Rightarrow> if ca_expiresAt c \<le> now then (None, st\<lparr>sr_resolutions := AList.delete host (sr_resolutions st)\<rparr>)
                  else (Some c, st))"

definition cached_ao_unavailable :: "string \<Rightarrow> int \<Rightarrow> resolver_state \<Rightarrow> cached_unavailable option \<times> resolver_state" where
  "cached_ao_unavailable host now st =
     (case map_of (sr_unavailable st) host of
        None \<Rightarrow> (None, st)
      | Some c \<Rightarrow> if cu_expiresAt c \<le> now then (None, st\<lparr>sr_unavailable := AList.delete host (sr_unavailable st)\<rparr>)
                  else (Some c, st))"

definition cached_global_ao_unavailable :: "int \<Rightarrow> resolver_state \<Rightarrow> cached_unavailable option \<times> resolver_state" where
  "cached_global_ao_unavailable now st =
     (case sr_global st of
        None \<Rightarrow> (None, st)
      | Some c \<Rightarrow> if cu_expiresAt c \<le> now then (None, st\<lparr>sr_global := None\<rparr>) else (Some c, st))"

definition store_ao_lookup ::
  "env \<Rightarrow> int \<Rightarrow> string \<Rightarrow> string option \<Rightarrow> runtime_hints option \<Rightarrow> resolver_state \<Rightarrow> resolver_state" where
  "store_ao_lookup env now host siteId hints st =
     st\<lparr>sr_resolutions := AList.update host
          \<lparr>ca_siteId = siteId, ca_runtimeHints = hints, ca_expiresAt = now + resolver_cache_ttl_ms env\<rparr> (sr_resolutions st),
        sr_unavailable := AList.delete host (sr_unavailable st), sr_global := None\<rparr>"

definition store_ao_unavailable ::
  "env \<Rightarrow> int \<Rightarrow> int \<Rightarrow> string \<Rightarrow> string \<Rightarrow> int \<Rightarrow> resolver_state \<Rightarrow> resolver_state" where
  "store_ao_unavailable env now now' host err status st =
     (let st1 = st\<lparr>sr_unavailable := AList.update host
            \<lparr>cu_error = err, cu_status = status, cu_expiresAt = now + resolver_unavailable_ttl_ms env\<rparr> (sr_unavailable st)\<rparr>
      in if resolver_global_ttl_ms env > 0
         then st1\<lparr>sr_global := Some \<lparr>cu_error = err, cu_status = status,
                cu_expiresAt = now' + resolver_global_ttl_ms env\<rparr>\<rparr>
         else st1)"

definition resolver_circuit_open :: "int \<Rightarrow> resolver_state \<Rightarrow> bool" where
  "resolver_circuit_open now st \<longleftrightarrow> sr_openUntil st > now"

definition note_resolver_success :: "int \<Rightarrow> resolver_state \<Rightarrow> resolver_state" where
  "note_resolver_success now st = st\<lparr>sr_failures := 0, sr_windowStart := now, sr_openUntil := 0\<rparr>"

definition note_resolver_failure :: "env \<Rightarrow> int \<Rightarrow> resolver_state \<Rightarrow> resolver_state" where
  "note_resolver_failure env now st =
     (let st1 = (if sr_windowStart st \<le> 0 \<or> now - sr_windowStart st > resolver_breaker_window_ms env
                 then st\<lparr>sr_windowStart := now, sr_failures := 0\<rparr> else st);
          st2 = st1\<lparr>sr_failures := sr_failures st1 + 1\<rparr>
      in if sr_failures st2 \<ge> resolver_breaker_threshold env
         then st2\<lparr>sr_openUntil := now + resolver_breaker_open_ms env\<rparr> else st2)"

section \<open>The lookup at the resolver\<close>

datatype ao_lookup =
    AoResolved string "runtime_hints option"
  | AoNotFound
  | AoUnavailable string int

text \<open>Up to \<open>await fetch\<close>: an answer, the request that is sent, or \<open>new URL\<close> throws (outside the \<open>try\<close>).
  \<open>clk i\<close> is the \<open>i\<close>-th reading of the clock.\<close>

datatype lookup_phase = Answered ao_lookup | Fetching http_request | BadBaseUrl

definition lookup_start ::
  "(string \<Rightarrow> string \<Rightarrow> string option) \<Rightarrow> (rat \<Rightarrow> string) \<Rightarrow> env \<Rightarrow> (nat \<Rightarrow> int) \<Rightarrow> string \<Rightarrow> resolver_state
    \<Rightarrow> lookup_phase \<times> resolver_state" where
  "lookup_start new_url show_num env clk host st0 =
     (if resolver_circuit_open (clk 0) st0 then (Answered (AoUnavailable ''site_resolver_circuit_open'' 503), st0)
      else
        (case cached_global_ao_unavailable (clk 1) st0 of
           (Some c, st1) \<Rightarrow> (Answered (AoUnavailable (cu_error c) (cu_status c)), st1)
         | (None, st1) \<Rightarrow>
             (case cached_ao_unavailable host (clk 2) st1 of
                (Some c, st2) \<Rightarrow> (Answered (AoUnavailable (cu_error c) (cu_status c)), st2)
              | (None, st2) \<Rightarrow>
                  (case cached_ao_lookup host (clk 3) st2 of
                     (Some c, st3) \<Rightarrow>
                       (Answered (case ca_siteId c of
                            Some s \<Rightarrow> if s \<noteq> [] then AoResolved s (ca_runtimeHints c) else AoNotFound
                          | None \<Rightarrow> AoNotFound), st3)
                   | (None, st3) \<Rightarrow>
                       (case read_resolver_base_url env of
                          None \<Rightarrow> (Answered (AoUnavailable ''site_resolver_not_configured'' 503), st3)
                        | Some base \<Rightarrow>
                            (case new_url ''/api/public/site-by-host'' base of
                               None \<Rightarrow> (BadBaseUrl, st3)
                             | Some endpoint \<Rightarrow>
                                 (Fetching \<lparr>rq_url = endpoint, rq_method = ''POST'',
                                    rq_headers = [(''content-type'', ''application/json'')],
                                    rq_body = Some (json_stringify show_num (JObj [(''host'', JStr host)]))\<rparr>, st3)))))))"

text \<open>What the awaited \<open>fetch\<close> gives: a response with what its \<open>json()\<close> gives (nothing where that
  rejects), or an exception, after the time limit or not.\<close>

datatype resolver_outcome = SrResponse int "jsval option" | SrThrew bool

definition lookup_finish ::
  "env \<Rightarrow> (nat \<Rightarrow> int) \<Rightarrow> string \<Rightarrow> resolver_outcome \<Rightarrow> resolver_state \<Rightarrow> ao_lookup \<times> resolver_state" where
  "lookup_finish env clk host outcome st =
     (let fail = (\<lambda>err status. (AoUnavailable err status,
            store_ao_unavailable env (clk 1) (clk 2) host err status (note_resolver_failure env (clk 0) st)));
          found = (\<lambda>siteId hints. note_resolver_success (clk 1) (store_ao_lookup env (clk 0) host siteId hints st))
      in (case outcome of
            SrResponse status body \<Rightarrow>
              if status = 404 then (AoNotFound, found None None)
              else if \<not> (200 \<le> status \<and> status < 300) then fail ''site_resolver_unavailable'' 503
              else (case parse_resolver_body (case body of None \<Rightarrow> JNull | Some v \<Rightarrow> v) of
                      (None, _) \<Rightarrow> (AoNotFound, found None None)
                    | (Some siteId, hints) \<Rightarrow> (AoResolved siteId hints, found (Some siteId) hints))
          | SrThrew timedOut \<Rightarrow>
              if timedOut then fail ''site_resolver_timeout'' 504 else fail ''site_resolver_unavailable'' 503))"

section \<open>Binding a host\<close>

datatype host_resolution = SiteOk "string table_value option" "runtime_hints option" | SiteFail int string

definition fail_or_fallback :: "bool \<Rightarrow> int \<Rightarrow> string \<Rightarrow> host_resolution" where
  "fail_or_fallback fallbackAllowed status err =
     (if fallbackAllowed then SiteOk None None else SiteFail status err)"

definition fallback_allowed :: "env \<Rightarrow> bool \<Rightarrow> bool" where
  "fallback_allowed env productionLike =
     (allow_fallback env \<or> \<not> productionLike \<and> read_env_string ''GATEWAY_SITE_ID_BY_HOST_MAP'' env = None)"

text \<open>The part before the lookup: \<open>Inr\<close> the answer, or \<open>Inl\<close> the host to look up.\<close>

definition resolve_locally ::
  "(string \<Rightarrow> string + jsval) \<Rightarrow> env \<Rightarrow> string \<Rightarrow> bool \<Rightarrow> string + host_resolution" where
  "resolve_locally parse env hostRaw productionLike =
     (let mode = read_resolve_mode env;
          host = normalize_resolver_host hostRaw;
          mapRaw = read_env_string ''GATEWAY_SITE_ID_BY_HOST_MAP'' env;
          giveUp = (\<lambda>status err. Inr (fail_or_fallback (fallback_allowed env productionLike) status err));
          remote = (\<lambda>hasMap.
            if mode = MapMode then (if \<not> hasMap then giveUp 503 ''site_resolver_not_configured'' else Inr (SiteOk None None))
            else if read_resolver_base_url env = None then
              (if mode = AoMode then giveUp 503 ''site_resolver_not_configured''
               else if \<not> hasMap then
                 (if \<not> productionLike then Inr (SiteOk None None) else giveUp 503 ''site_resolver_not_configured'')
               else giveUp 403 ''site_host_not_allowed'')
            else Inl host)
      in (case (if mode = AoMode then None else mapRaw) of
            None \<Rightarrow> remote False
          | Some raw \<Rightarrow>
              (case parse_host_map parse raw of
                 None \<Rightarrow> Inr (SiteFail 500 ''site_host_map_invalid'')
               | Some m \<Rightarrow>
                   (case mapped_site m host of
                      Some site \<Rightarrow> Inr (SiteOk (Some site) None)
                    | None \<Rightarrow> if mode = MapMode then giveUp 403 ''site_host_not_allowed'' else remote True))))"

definition host_answer :: "env \<Rightarrow> bool \<Rightarrow> ao_lookup \<Rightarrow> host_resolution" where
  "host_answer env productionLike r =
     (case r of
        AoResolved siteId hints \<Rightarrow> SiteOk (Some (Own siteId)) hints
      | AoNotFound \<Rightarrow> fail_or_fallback (fallback_allowed env productionLike) 403 ''site_host_not_allowed''
      | AoUnavailable err status \<Rightarrow> fail_or_fallback (fallback_allowed env productionLike) status err)"

text \<open>One call that is not interleaved with others: \<^term>\<open>None\<close> where \<open>new URL\<close> throws.\<close>

definition resolve_template_site_id_from_host ::
  "(string \<Rightarrow> string + jsval) \<Rightarrow> (string \<Rightarrow> string \<Rightarrow> string option) \<Rightarrow> (rat \<Rightarrow> string) \<Rightarrow> env \<Rightarrow> (nat \<Rightarrow> int) \<Rightarrow> (nat \<Rightarrow> int)
    \<Rightarrow> (http_request \<Rightarrow> resolver_outcome) \<Rightarrow> string \<Rightarrow> bool \<Rightarrow> resolver_state \<Rightarrow> host_resolution option \<times> resolver_state" where
  "resolve_template_site_id_from_host parse new_url show_num env clk clk' fetch hostRaw productionLike st =
     (case resolve_locally parse env hostRaw productionLike of
        Inr r \<Rightarrow> (Some r, st)
      | Inl host \<Rightarrow>
          (case lookup_start new_url show_num env clk host st of
             (BadBaseUrl, st1) \<Rightarrow> (None, st1)
           | (Answered a, st1) \<Rightarrow> (Some (host_answer env productionLike a), st1)
           | (Fetching req, st1) \<Rightarrow>
               let (a, st2) = lookup_finish env clk' host (fetch req) st1
               in (Some (host_answer env productionLike a), st2)))"

definition reset_resolver_cache :: "resolver_state \<Rightarrow> resolver_state" where
  "reset_resolver_cache st = resolver_init"

section \<open>Requests in flight\<close>

text \<open>
  Any number of lookups interleave where they await the resolver. The log holds what the resolver
  answered, for which host and when it was booked, the latest first.
\<close>

type_synonym site_log = "(string \<times> int \<times> resolver_outcome) list"

record site_system =
  sy_state :: resolver_state
  sy_now :: int
  sy_pending :: "nat \<Rightarrow> string option"
  sy_log :: site_log

inductive site_step ::
  "(string \<Rightarrow> string \<Rightarrow> string option) \<Rightarrow> (rat \<Rightarrow> string) \<Rightarrow> env \<Rightarrow> site_system \<Rightarrow> site_system \<Rightarrow> bool"
  for new_url show_num env
where
  Begin: "sy_pending s i = None \<Longrightarrow> \<forall>n. sy_now s \<le> clk n \<and> clk n \<le> t \<Longrightarrow>
    lookup_start new_url show_num env clk host (sy_state s) = (ph, st) \<Longrightarrow>
    site_step new_url show_num env s
      (s\<lparr>sy_state := st, sy_now := t,
         sy_pending := (sy_pending s)(i := (case ph of Fetching _ \<Rightarrow> Some host | _ \<Rightarrow> None))\<rparr>)"
| Finish: "sy_pending s i = Some host \<Longrightarrow> \<forall>n. sy_now s \<le> clk n \<and> clk n \<le> t \<Longrightarrow>
    lookup_finish env clk host outcome (sy_state s) = (a, st) \<Longrightarrow>
    site_step new_url show_num env s
      (s\<lparr>sy_state := st, sy_now := t, sy_pending := (sy_pending s)(i := None),
         sy_log := (host, clk 0, outcome) # sy_log s\<rparr>)"

inductive site_reachable ::
  "(string \<Rightarrow> string \<Rightarrow> string option) \<Rightarrow> (rat \<Rightarrow> string) \<Rightarrow> env \<Rightarrow> site_system \<Rightarrow> bool"
  for new_url show_num env
where
  Start: "site_reachable new_url show_num env
     \<lparr>sy_state = resolver_init, sy_now = now, sy_pending = (\<lambda>_. None), sy_log = []\<rparr>"
| Step: "site_reachable new_url show_num env s \<Longrightarrow> site_step new_url show_num env s s'
    \<Longrightarrow> site_reachable new_url show_num env s'"

inductive_cases site_stepE: "site_step new_url show_num env s s'"

section \<open>Cached sites were answered by the resolver\<close>

definition answered_site :: "env \<Rightarrow> site_log \<Rightarrow> string \<Rightarrow> string \<Rightarrow> runtime_hints option \<Rightarrow> int \<Rightarrow> bool" where
  "answered_site env evs host site hints until \<longleftrightarrow>
     (\<exists>t status body. (host, t, SrResponse status (Some body)) \<in> set evs \<and> 200 \<le> status \<and> status < 300
        \<and> parse_resolver_body body = (Some site, hints) \<and> until = t + resolver_cache_ttl_ms env)"

definition cache_justified :: "env \<Rightarrow> site_log \<Rightarrow> resolver_state \<Rightarrow> bool" where
  "cache_justified env evs st \<longleftrightarrow>
     (\<forall>host c site. map_of (sr_resolutions st) host = Some c \<and> ca_siteId c = Some site
        \<longrightarrow> answered_site env evs host site (ca_runtimeHints c) (ca_expiresAt c))"

lemma parse_resolver_body_null [simp]: "parse_resolver_body JNull = (None, None)"
  by (simp add: parse_resolver_body_def)

text \<open>What \<open>lookup_start\<close> leaves of the caches.\<close>

lemma lookup_start_state:
  assumes "lookup_start new_url show_num env clk host st = (ph, st')"
  shows "(sr_resolutions st' = sr_resolutions st
      \<or> sr_resolutions st' = AList.delete host (sr_resolutions st))
    \<and> sr_failures st' = sr_failures st \<and> sr_windowStart st' = sr_windowStart st \<and> sr_openUntil st' = sr_openUntil st"
  using assms
  by (auto simp: lookup_start_def cached_global_ao_unavailable_def cached_ao_unavailable_def cached_ao_lookup_def
      split: if_splits option.splits)

lemma cache_justified_start:
  assumes "cache_justified env evs st" and "lookup_start new_url show_num env clk host st = (ph, st')"
  shows "cache_justified env evs st'"
  using assms(1) lookup_start_state [OF assms(2)]
  by (auto simp: cache_justified_def delete_conv split: if_splits)

lemma answered_site_mono: "answered_site env evs host site hints until \<Longrightarrow> answered_site env (e # evs) host site hints until"
  by (auto simp: answered_site_def)

lemma cache_justified_mono: "cache_justified env evs st \<Longrightarrow> cache_justified env (e # evs) st"
  by (auto simp: cache_justified_def intro: answered_site_mono)

lemma cache_justified_store:
  assumes "cache_justified env evs st"
    and "\<And>site. siteId = Some site \<Longrightarrow> answered_site env evs host site hints (now + resolver_cache_ttl_ms env)"
  shows "cache_justified env evs (store_ao_lookup env now host siteId hints st)"
  using assms by (auto simp: cache_justified_def store_ao_lookup_def update_conv split: if_splits)

lemma cache_justified_frame:
  "sr_resolutions st' = sr_resolutions st \<Longrightarrow> cache_justified env evs st' = cache_justified env evs st"
  by (simp add: cache_justified_def)

lemma note_frame [simp]:
  "sr_resolutions (note_resolver_success now st) = sr_resolutions st"
  "sr_resolutions (note_resolver_failure env now st) = sr_resolutions st"
  "sr_resolutions (store_ao_unavailable env now now' host err status st) = sr_resolutions st"
  by (simp_all add: note_resolver_success_def note_resolver_failure_def store_ao_unavailable_def Let_def)

lemma lookup_finish_cases:
  assumes "lookup_finish env clk host outcome st = (a, st')"
  obtains (fail) err status where "st' = store_ao_unavailable env (clk 1) (clk 2) host err status (note_resolver_failure env (clk 0) st)"
      "a = AoUnavailable err status" "err \<in> {''site_resolver_unavailable'', ''site_resolver_timeout''}"
  | (missing) "st' = note_resolver_success (clk 1) (store_ao_lookup env (clk 0) host None None st)" "a = AoNotFound"
  | (found) status body site hints where "outcome = SrResponse status (Some body)" "200 \<le> status" "status < 300"
      "parse_resolver_body body = (Some site, hints)" "a = AoResolved site hints"
      "st' = note_resolver_success (clk 1) (store_ao_lookup env (clk 0) host (Some site) hints st)"
  using assms
  by (cases outcome) (auto simp: lookup_finish_def Let_def split: if_splits option.splits prod.splits)

lemma cache_justified_finish:
  assumes "cache_justified env evs st" and "lookup_finish env clk host outcome st = (a, st')"
  shows "cache_justified env ((host, clk 0, outcome) # evs) st'"
  using assms(2)
proof (cases rule: lookup_finish_cases)
  case fail
  then show ?thesis using cache_justified_mono [OF assms(1)] cache_justified_frame by (metis note_frame(2,3))
next
  case missing
  have "cache_justified env ((host, clk 0, outcome) # evs) (store_ao_lookup env (clk 0) host None None st)"
    using cache_justified_mono [OF assms(1)] by (rule cache_justified_store) simp
  then show ?thesis using missing cache_justified_frame by (metis note_frame(1))
next
  case (found status body site hints)
  have "cache_justified env ((host, clk 0, outcome) # evs) (store_ao_lookup env (clk 0) host (Some site) hints st)"
    using cache_justified_mono [OF assms(1)]
    by (rule cache_justified_store) (use found in \<open>auto simp: answered_site_def\<close>)
  then show ?thesis using found cache_justified_frame by (metis note_frame(1))
qed

lemma site_reachable_justified: "site_reachable new_url show_num env s \<Longrightarrow> cache_justified env (sy_log s) (sy_state s)"
proof (induction rule: site_reachable.induct)
  case (Start now)
  then show ?case by (simp add: cache_justified_def resolver_init_def)
next
  case (Step s s')
  from Step.hyps(2) show ?case
    by (cases rule: site_step.cases) (use Step.IH cache_justified_start cache_justified_finish in auto)
qed

section \<open>The breaker opens after repeated failures only\<close>

fun failed_outcome :: "resolver_outcome \<Rightarrow> bool" where
  "failed_outcome (SrResponse status _) \<longleftrightarrow> status \<noteq> 404 \<and> \<not> (200 \<le> status \<and> status < 300)"
| "failed_outcome (SrThrew _) \<longleftrightarrow> True"

text \<open>The answers \<open>i .. i + n\<close> of the log are failures booked within the window.\<close>

definition failure_burst :: "env \<Rightarrow> site_log \<Rightarrow> nat \<Rightarrow> nat \<Rightarrow> int \<Rightarrow> bool" where
  "failure_burst env evs i n start \<longleftrightarrow> i + n \<le> length evs \<and>
     (\<forall>(_, t, outcome) \<in> set (take n (drop i evs)).
        failed_outcome outcome \<and> start \<le> t \<and> t \<le> start + resolver_breaker_window_ms env)"

definition breaker_inv :: "env \<Rightarrow> site_log \<Rightarrow> int \<Rightarrow> resolver_state \<Rightarrow> bool" where
  "breaker_inv env evs now st \<longleftrightarrow>
     0 \<le> sr_failures st \<and> sr_windowStart st \<le> max 0 now
     \<and> failure_burst env evs 0 (nat (sr_failures st)) (sr_windowStart st)
     \<and> (0 < sr_openUntil st \<longrightarrow>
          (\<exists>k start. failure_burst env evs k (nat (resolver_breaker_threshold env)) start
             \<and> (\<forall>(_, _, outcome) \<in> set (take k evs). failed_outcome outcome)
             \<and> sr_openUntil st = fst (snd (evs ! k)) + resolver_breaker_open_ms env))"

lemma threshold_pos: "0 < resolver_breaker_threshold env"
  by (simp add: resolver_breaker_threshold_def read_positive_int_env_pos)

lemma window_pos: "0 < resolver_breaker_window_ms env"
  by (simp add: resolver_breaker_window_ms_def read_positive_int_env_pos)

lemma failure_burst_shift: "failure_burst env evs i n start \<Longrightarrow> failure_burst env (e # evs) (Suc i) n start"
  by (simp add: failure_burst_def)

lemma failure_burst_shorter: "failure_burst env evs i n start \<Longrightarrow> m \<le> n \<Longrightarrow> failure_burst env evs i m start"
  unfolding failure_burst_def by (auto dest: set_take_subset_set_take [THEN subsetD])

lemma failure_burst_more:
  "failure_burst env evs 0 n start \<Longrightarrow> failed_outcome outcome \<Longrightarrow> start \<le> t \<Longrightarrow> t \<le> start + resolver_breaker_window_ms env
    \<Longrightarrow> failure_burst env ((host, t, outcome) # evs) 0 (Suc n) start"
  by (auto simp: failure_burst_def)

lemma breaker_inv_failure:
  assumes inv: "breaker_inv env evs now st" and bad: "failed_outcome outcome" and "now \<le> t"
  shows "breaker_inv env ((host, t, outcome) # evs) t (note_resolver_failure env t st)"
proof -
  let ?evs = "(host, t, outcome) # evs"
  define fresh where "fresh \<longleftrightarrow> sr_windowStart st \<le> 0 \<or> t - sr_windowStart st > resolver_breaker_window_ms env"
  define n where "n = (if fresh then 1 else sr_failures st + 1)"
  define start where "start = (if fresh then t else sr_windowStart st)"
  let ?st = "note_resolver_failure env t st"
  have st: "sr_failures ?st = n" "sr_windowStart ?st = start"
    "sr_openUntil ?st = (if resolver_breaker_threshold env \<le> n then t + resolver_breaker_open_ms env else sr_openUntil st)"
    by (simp_all add: note_resolver_failure_def Let_def n_def start_def fresh_def)
  have old: "0 \<le> sr_failures st" "failure_burst env evs 0 (nat (sr_failures st)) (sr_windowStart st)"
    using inv by (simp_all add: breaker_inv_def)
  have burst: "failure_burst env ?evs 0 (nat n) start"
  proof (cases fresh)
    case True
    then show ?thesis using bad window_pos [of env] by (simp add: failure_burst_def n_def start_def)
  next
    case False
    have "sr_windowStart st \<le> max 0 now" using inv by (simp add: breaker_inv_def)
    with False have "sr_windowStart st \<le> t" using \<open>now \<le> t\<close> by (auto simp: fresh_def)
    with False failure_burst_more [OF old(2) bad] show ?thesis
      using old(1) by (simp add: n_def start_def fresh_def Suc_nat_eq_nat_zadd1 add.commute)
  qed
  have opened: "\<exists>k start. failure_burst env ?evs k (nat (resolver_breaker_threshold env)) start
      \<and> (\<forall>(_, _, outcome) \<in> set (take k ?evs). failed_outcome outcome)
      \<and> sr_openUntil ?st = fst (snd (?evs ! k)) + resolver_breaker_open_ms env" if "0 < sr_openUntil ?st"
  proof (cases "resolver_breaker_threshold env \<le> n")
    case True
    with failure_burst_shorter [OF burst] have "failure_burst env ?evs 0 (nat (resolver_breaker_threshold env)) start"
      by (simp add: nat_mono)
    then show ?thesis using True by (intro exI [of _ 0] exI [of _ start]) (simp add: st)
  next
    case False
    then have "sr_openUntil ?st = sr_openUntil st" by (simp add: st)
    with that inv obtain k s0 where k: "failure_burst env evs k (nat (resolver_breaker_threshold env)) s0"
      "\<forall>(_, _, outcome) \<in> set (take k evs). failed_outcome outcome"
      "sr_openUntil ?st = fst (snd (evs ! k)) + resolver_breaker_open_ms env"
      by (auto simp: breaker_inv_def)
    then show ?thesis using bad failure_burst_shift [OF k(1)] by (intro exI [of _ "Suc k"] exI [of _ s0]) auto
  qed
  have "start \<le> max 0 t" using inv \<open>now \<le> t\<close> by (auto simp: start_def breaker_inv_def)
  with burst opened old(1) show ?thesis by (simp add: breaker_inv_def st n_def)
qed

lemma breaker_inv_success:
  assumes "breaker_inv env evs now st" and "t \<le> t'"
  shows "breaker_inv env (e # evs) t' (note_resolver_success t st)"
  using assms by (simp add: breaker_inv_def note_resolver_success_def failure_burst_def)

lemma breaker_inv_frame:
  "sr_failures st' = sr_failures st \<Longrightarrow> sr_windowStart st' = sr_windowStart st \<Longrightarrow> sr_openUntil st' = sr_openUntil st
    \<Longrightarrow> breaker_inv env evs now st' = breaker_inv env evs now st"
  by (simp add: breaker_inv_def)

lemma breaker_inv_later: "breaker_inv env evs now st \<Longrightarrow> now \<le> t \<Longrightarrow> breaker_inv env evs t st"
  by (auto simp: breaker_inv_def)

lemma store_breaker_frame [simp]:
  "sr_failures (store_ao_lookup env now host siteId hints st) = sr_failures st"
  "sr_failures (store_ao_unavailable env now now' host err status st) = sr_failures st"
  "sr_windowStart (store_ao_unavailable env now now' host err status st) = sr_windowStart st"
  "sr_openUntil (store_ao_unavailable env now now' host err status st) = sr_openUntil st"
  by (simp_all add: store_ao_lookup_def store_ao_unavailable_def Let_def)

lemma lookup_finish_failed:
  assumes "lookup_finish env clk host outcome st = (AoUnavailable err status, st')"
  shows "failed_outcome outcome"
  using assms by (cases outcome) (auto simp: lookup_finish_def Let_def split: if_splits option.splits prod.splits)

lemma breaker_inv_finish:
  assumes inv: "breaker_inv env evs now st" and clk: "\<forall>n. now \<le> clk n \<and> clk n \<le> t"
    and fin: "lookup_finish env clk host outcome st = (a, st')"
  shows "breaker_inv env ((host, clk 0, outcome) # evs) t st'"
  using fin
proof (cases rule: lookup_finish_cases)
  case (fail err status)
  have "breaker_inv env ((host, clk 0, outcome) # evs) (clk 0) (note_resolver_failure env (clk 0) st)"
    using inv clk lookup_finish_failed fin fail(2) by (intro breaker_inv_failure [where now = now]) auto
  then have "breaker_inv env ((host, clk 0, outcome) # evs) t (note_resolver_failure env (clk 0) st)"
    by (rule breaker_inv_later) (use clk in blast)
  then show ?thesis by (simp add: fail(1) breaker_inv_def)
next
  case missing
  then show ?thesis using clk breaker_inv_success [where evs = evs and now = now] inv
    by (simp add: breaker_inv_def note_resolver_success_def failure_burst_def)
next
  case (found status body site hints)
  then show ?thesis using clk breaker_inv_success [where evs = evs and now = now] inv
    by (simp add: breaker_inv_def note_resolver_success_def failure_burst_def)
qed

lemma site_reachable_breaker: "site_reachable new_url show_num env s \<Longrightarrow> breaker_inv env (sy_log s) (sy_now s) (sy_state s)"
proof (induction rule: site_reachable.induct)
  case (Start now)
  then show ?case by (simp add: breaker_inv_def resolver_init_def failure_burst_def)
next
  case (Step s s')
  from Step.hyps(2) show ?case
  proof (cases rule: site_step.cases)
    case (Begin i clk t host ph st)
    from lookup_start_state [OF Begin(4)] Begin(1,3) Step.IH show ?thesis
      using breaker_inv_frame [of st "sy_state s"] breaker_inv_later [of env "sy_log s" "sy_now s" _ t]
      by (metis (no_types, lifting) order_trans site_system.select_convs site_system.surjective site_system.update_convs)
  next
    case (Finish i host clk t outcome a st)
    then show ?thesis using breaker_inv_finish [OF Step.IH Finish(3,4)] by simp
  qed
qed

section \<open>Properties\<close>

text \<open>
  C39: A host is bound to a site only on authority: with any requests in flight, the site comes from the
  host map (the host's own entry, the default entry, or, where the host has the name of an inherited
  property, that property), or the resolver answered this very host with this site, now or less than
  the cache's time to live before the clock reading that finds the entry.
\<close>

theorem site_binding_is_authorised:
  assumes "site_reachable new_url show_num env s"
    and "resolve_template_site_id_from_host parse new_url show_num env clk clk' fetch hostRaw productionLike (sy_state s)
      = (Some (SiteOk (Some site) hints), st')"
  shows "(\<exists>raw m. read_resolve_mode env \<noteq> AoMode \<and> read_env_string ''GATEWAY_SITE_ID_BY_HOST_MAP'' env = Some raw
      \<and> parse_host_map parse raw = Some m \<and> mapped_site m (normalize_resolver_host hostRaw) = Some site)
    \<or> (\<exists>name. site = Own name \<and>
        ((\<exists>t status body. (normalize_resolver_host hostRaw, t, SrResponse status (Some body)) \<in> set (sy_log s)
            \<and> 200 \<le> status \<and> status < 300 \<and> parse_resolver_body body = (Some name, hints)
            \<and> clk 3 < t + resolver_cache_ttl_ms env)
         \<or> (\<exists>req status body. fetch req = SrResponse status (Some body) \<and> 200 \<le> status \<and> status < 300
            \<and> parse_resolver_body body = (Some name, hints)
            \<and> rq_body req = Some (json_stringify show_num (JObj [(''host'', JStr (normalize_resolver_host hostRaw))])))))"
proof (cases "resolve_locally parse env hostRaw productionLike")
  case (Inr r)
  then have "r = SiteOk (Some site) hints" using assms(2) by (simp add: resolve_template_site_id_from_host_def)
  with Inr have "\<exists>raw m. read_resolve_mode env \<noteq> AoMode \<and> read_env_string ''GATEWAY_SITE_ID_BY_HOST_MAP'' env = Some raw
      \<and> parse_host_map parse raw = Some m \<and> mapped_site m (normalize_resolver_host hostRaw) = Some site"
    by (auto simp: resolve_locally_def fail_or_fallback_def Let_def split: if_splits option.splits)
  then show ?thesis ..
next
  case (Inl host)
  then have host: "host = normalize_resolver_host hostRaw"
    by (auto simp: resolve_locally_def Let_def split: if_splits option.splits)
  obtain ph st1 where start: "lookup_start new_url show_num env clk host (sy_state s) = (ph, st1)" by fastforce
  show ?thesis
  proof (cases ph)
    case (Answered a)
    have a: "host_answer env productionLike a = SiteOk (Some site) hints"
      using assms(2) by (simp add: resolve_template_site_id_from_host_def Inl start Answered)
    then obtain name where n: "a = AoResolved name hints" "site = Own name"
      by (auto simp: host_answer_def fail_or_fallback_def split: ao_lookup.splits if_splits)
    obtain c where c: "map_of (sr_resolutions (sy_state s)) host = Some c" "clk 3 < ca_expiresAt c"
      "ca_siteId c = Some name" "ca_runtimeHints c = hints"
      using start unfolding Answered n(1)
      by (auto simp: lookup_start_def cached_global_ao_unavailable_def cached_ao_unavailable_def cached_ao_lookup_def
          split: if_splits option.splits)
    then have "answered_site env (sy_log s) host name hints (ca_expiresAt c)"
      using site_reachable_justified [OF assms(1)] by (auto simp: cache_justified_def)
    with c(2) n(2) host show ?thesis by (auto simp: answered_site_def)
  next
    case (Fetching req)
    obtain a st2 where fin: "lookup_finish env clk' host (fetch req) st1 = (a, st2)" by fastforce
    have "host_answer env productionLike a = SiteOk (Some site) hints"
      using assms(2) by (simp add: resolve_template_site_id_from_host_def Inl start Fetching fin)
    then obtain name where n: "a = AoResolved name hints" "site = Own name"
      by (auto simp: host_answer_def fail_or_fallback_def split: ao_lookup.splits if_splits)
    have "rq_body req = Some (json_stringify show_num (JObj [(''host'', JStr host)]))"
      using start unfolding Fetching
      by (auto simp: lookup_start_def cached_global_ao_unavailable_def cached_ao_unavailable_def cached_ao_lookup_def
          split: if_splits option.splits)
    with fin show ?thesis unfolding n host by (cases rule: lookup_finish_cases) (auto simp: host)
  next
    case BadBaseUrl
    then show ?thesis using assms(2) by (simp add: resolve_template_site_id_from_host_def Inl start)
  qed
qed

text \<open>
  The breaker holds back requests only after a burst of failures: when it is open, the answers
  booked last include as many consecutive failures as the threshold says, within one window of time,
  all later answers were failures too, and the last of the burst is less than the opening time ago.
\<close>

theorem breaker_opens_on_failures_only:
  assumes "site_reachable new_url show_num env s" and "0 \<le> now" and "resolver_circuit_open now (sy_state s)"
  shows "\<exists>k start. let burst = take (nat (resolver_breaker_threshold env)) (drop k (sy_log s)) in
      length burst = nat (resolver_breaker_threshold env)
      \<and> (\<forall>(_, t, outcome) \<in> set burst. failed_outcome outcome \<and> start \<le> t \<and> t \<le> start + resolver_breaker_window_ms env)
      \<and> (\<forall>(_, _, outcome) \<in> set (take k (sy_log s)). failed_outcome outcome)
      \<and> now < fst (snd (hd burst)) + resolver_breaker_open_ms env"
proof -
  have "0 < sr_openUntil (sy_state s)" using assms(2,3) by (simp add: resolver_circuit_open_def)
  with site_reachable_breaker [OF assms(1)] obtain k start where k:
    "failure_burst env (sy_log s) k (nat (resolver_breaker_threshold env)) start"
    "\<forall>(_, _, outcome) \<in> set (take k (sy_log s)). failed_outcome outcome"
    "sr_openUntil (sy_state s) = fst (snd (sy_log s ! k)) + resolver_breaker_open_ms env"
    by (auto simp: breaker_inv_def)
  have "hd (take (nat (resolver_breaker_threshold env)) (drop k (sy_log s))) = sy_log s ! k"
    using k(1) threshold_pos [of env] by (subst hd_take, simp, subst hd_drop_conv_nth) (auto simp: failure_burst_def)
  moreover have "length (take (nat (resolver_breaker_threshold env)) (drop k (sy_log s))) = nat (resolver_breaker_threshold env)"
    using k(1) by (auto simp: failure_burst_def)
  ultimately show ?thesis using k assms(3)
    by (intro exI [of _ k] exI [of _ start]) (simp add: failure_burst_def resolver_circuit_open_def Let_def)
qed

section \<open>Witnesses\<close>

definition demo_resolver_env :: env where
  "demo_resolver_env = (\<lambda>_. None)
     (''GATEWAY_SITE_RESOLVE_AO_URL'' := Some ''https://ao'', ''GATEWAY_SITE_RESOLVE_BREAKER_THRESHOLD'' := Some ''1'')"

definition demo_new_url :: "string \<Rightarrow> string \<Rightarrow> string option" where
  "demo_new_url path base = Some (base @ path)"

lemma demo_settings:
  "read_resolver_base_url demo_resolver_env = Some ''https://ao''" "resolver_breaker_threshold demo_resolver_env = 1"
  "read_env_string ''GATEWAY_SITE_ID_BY_HOST_MAP'' demo_resolver_env = None"
  "resolve_locally (\<lambda>_. Inl []) demo_resolver_env ''X.org:443'' True = Inl ''x.org''"
  "parse_resolver_body (JObj [(''siteId'', JStr ''s1'')]) = (Some ''s1'', None)"
  by code_simp+

lemma demo_start:
  "lookup_start demo_new_url show_ratio demo_resolver_env (\<lambda>_. 5) ''x.org'' resolver_init
    = (Fetching \<lparr>rq_url = ''https://ao/api/public/site-by-host'', rq_method = ''POST'',
        rq_headers = [(''content-type'', ''application/json'')],
        rq_body = Some (json_stringify show_ratio (JObj [(''host'', JStr ''x.org'')]))\<rparr>, resolver_init)"
  by (simp add: lookup_start_def resolver_circuit_open_def cached_global_ao_unavailable_def cached_ao_unavailable_def
      cached_ao_lookup_def resolver_init_def demo_settings demo_new_url_def del: json_stringify.simps)

lemma demo_resolve:
  "fst (resolve_template_site_id_from_host (\<lambda>_. Inl []) demo_new_url show_ratio demo_resolver_env (\<lambda>_. 5) (\<lambda>_. 6)
      (\<lambda>_. SrResponse 200 (Some (JObj [(''siteId'', JStr ''s1'')]))) ''X.org:443'' True resolver_init)
    = Some (SiteOk (Some (Own ''s1'')) None)"
  by (simp add: resolve_template_site_id_from_host_def demo_settings demo_start lookup_finish_def host_answer_def)

lemma site_binding_witness:
  "\<exists>body. parse_resolver_body body = (Some ''s1'', None) \<and> read_env_string ''GATEWAY_SITE_ID_BY_HOST_MAP'' demo_resolver_env = None"
proof -
  have r: "site_reachable demo_new_url show_ratio demo_resolver_env
      \<lparr>sy_state = resolver_init, sy_now = 0, sy_pending = (\<lambda>_. None), sy_log = []\<rparr>" by (rule site_reachable.Start)
  let ?run = "resolve_template_site_id_from_host (\<lambda>_. Inl []) demo_new_url show_ratio demo_resolver_env (\<lambda>_. 5) (\<lambda>_. 6)
      (\<lambda>_. SrResponse 200 (Some (JObj [(''siteId'', JStr ''s1'')]))) ''X.org:443'' True resolver_init"
  have "?run = (Some (SiteOk (Some (Own ''s1'')) None), snd ?run)" using demo_resolve by (simp add: prod_eq_iff)
  with site_binding_is_authorised [OF r, of "\<lambda>_. Inl []" "\<lambda>_. 5" "\<lambda>_. 6"
      "\<lambda>_. SrResponse 200 (Some (JObj [(''siteId'', JStr ''s1'')]))" "''X.org:443''" True "Own ''s1''" None]
  show ?thesis using demo_settings(3) by auto
qed

lemma demo_finish: "sr_openUntil (snd (lookup_finish demo_resolver_env (\<lambda>_. 6) ''x.org'' (SrThrew True) resolver_init)) = 15006"
proof -
  have "resolver_breaker_open_ms demo_resolver_env = 15000"
    by (simp add: resolver_breaker_open_ms_def read_positive_int_env_unset demo_resolver_env_def)
  then show ?thesis
    by (simp add: lookup_finish_def store_ao_unavailable_def note_resolver_failure_def demo_settings resolver_init_def Let_def)
qed

lemma breaker_witness:
  "\<exists>t. (\<forall>(_, t', outcome) \<in> set [(''x.org'', 6, SrThrew True)]. failed_outcome outcome) \<and> 100 < t + resolver_breaker_open_ms demo_resolver_env"
proof -
  let ?s0 = "\<lparr>sy_state = resolver_init, sy_now = 0, sy_pending = (\<lambda>_. None), sy_log = []\<rparr>"
  let ?s1 = "\<lparr>sy_state = resolver_init, sy_now = 5, sy_pending = (\<lambda>_. None)(0 := Some ''x.org''), sy_log = []\<rparr>"
  let ?st = "snd (lookup_finish demo_resolver_env (\<lambda>_. 6) ''x.org'' (SrThrew True) resolver_init)"
  let ?s2 = "\<lparr>sy_state = ?st, sy_now = 6, sy_pending = ((\<lambda>_. None)(0 := Some ''x.org''))(0 := None),
      sy_log = [(''x.org'', 6, SrThrew True)]\<rparr>"
  have s1: "site_step demo_new_url show_ratio demo_resolver_env ?s0 ?s1"
    using site_step.Begin [of ?s0 0 "\<lambda>_. 5" 5 demo_new_url show_ratio demo_resolver_env "''x.org''" _ resolver_init]
    by (simp add: demo_start)
  have s2: "site_step demo_new_url show_ratio demo_resolver_env ?s1 ?s2"
    using site_step.Finish [of ?s1 0 "''x.org''" "\<lambda>_. 6" 6 demo_resolver_env "SrThrew True"
        "fst (lookup_finish demo_resolver_env (\<lambda>_. 6) ''x.org'' (SrThrew True) resolver_init)" ?st]
    by simp
  from breaker_opens_on_failures_only [OF site_reachable.Step [OF site_reachable.Step [OF site_reachable.Start s1] s2], of 100] show ?thesis
    by (auto simp: resolver_circuit_open_def demo_finish Let_def)
qed

section \<open>Unusable answers\<close>

text \<open>
  A successful response whose body cannot be read or holds no site is booked like a 404: the host counts
  as unknown for the cache's time to live, and the failures counted so far are forgotten.
\<close>

lemma unreadable_answer_is_not_found:
  assumes "200 \<le> status" and "status < 300"
  shows "fst (lookup_finish env clk host (SrResponse status None) st) = AoNotFound
    \<and> sr_failures (snd (lookup_finish env clk host (SrResponse status None) st)) = 0
    \<and> map_of (sr_resolutions (snd (lookup_finish env clk host (SrResponse status None) st))) host
        = Some \<lparr>ca_siteId = None, ca_runtimeHints = None, ca_expiresAt = clk 0 + resolver_cache_ttl_ms env\<rparr>"
  using assms by (simp add: lookup_finish_def note_resolver_success_def store_ao_lookup_def)

text \<open>A host with the name of an inherited property is bound to that property whatever the map says.\<close>

lemma inherited_host_is_mapped:
  assumes "parse raw = Inr (JObj [(''a.org'', JStr ''s1'')])" and "read_env_string ''GATEWAY_SITE_ID_BY_HOST_MAP'' env = Some raw"
    and "read_resolve_mode env = MapMode"
  shows "resolve_locally parse env ''constructor'' productionLike = Inr (SiteOk (Some (Inherited ''constructor'')) None)"
proof -
  have "host_map_of [(''a.org'', JStr ''s1'')] [] = Some [(''a.org'', ''s1'')]"
    and "mapped_site [(''a.org'', ''s1'')] (normalize_resolver_host ''constructor'') = Some (Inherited ''constructor'')"
    by code_simp+
  then show ?thesis using assms by (simp add: resolve_locally_def parse_host_map_def Let_def)
qed

end
