(* ===== verification/TemplateApi.thy ===== *)
theory TemplateApi
  imports Template SiteResolver Crypto
begin

text \<open>
  Forwarding a template call to its backend (\<open>src/src/templateApi.ts\<close>): admission by the action table, the
  contract, roles, validators and the secret guard; the variant and runtime overrides; signing of writes
  by the site's worker; the upstream request and its answer. A call that stops early is a value on the
  left with the metrics it counted, so the steps compose with \<^const>\<open>sum_bind\<close>. Random values, clock
  readings, HMAC, URL parsing, \<open>JSON.parse\<close> and the two fetches are fields of the record \<open>tpl_world\<close>.
\<close>

section \<open>Input, surroundings and results\<close>

record tpl_input =
  ti_action :: string
  ti_payload :: jsval
  ti_requestId :: "string option"
  ti_siteId :: "string table_value option"
  ti_runtimeHints :: "runtime_hints option"
  ti_runtimeHintsTrusted :: bool
  ti_actor :: "string option"
  ti_role :: "string option"
  ti_traceId :: "string option"

text \<open>The signer's answer: status and what \<open>json()\<close> gives; the upstream's: status, content type and text
  (nothing where \<open>text()\<close> rejects). An exception is a timeout or an abort, or not.\<close>

datatype sign_outcome = SignResponse int "jsval option" | SignThrew bool

datatype upstream_outcome = UpResponse int "string option" "string option" | UpThrew bool

record tpl_world =
  tw_parse :: "string \<Rightarrow> string + jsval"
  tw_show :: "rat \<Rightarrow> string"
  tw_new_url :: "string \<Rightarrow> string \<Rightarrow> string option"
  tw_url :: "string \<Rightarrow> url_parts option"
  tw_hmac :: "string \<Rightarrow> string \<Rightarrow> string"
  tw_locale_sort :: "string list \<Rightarrow> string list"
  tw_resolve :: "string \<Rightarrow> string"
  tw_read_file :: "string \<Rightarrow> string option"
  tw_traceId :: string
  tw_nonceHex :: string
  tw_requestHex :: string
  tw_requestNow :: int
  tw_envelopeNow :: int
  tw_sign :: "http_request \<Rightarrow> sign_outcome"
  tw_upstream :: "http_request \<Rightarrow> upstream_outcome"

record tpl_response =
  tr_status :: int
  tr_headers :: "(string \<times> string) list"
  tr_body :: string

text \<open>\<open>Rejected\<close>: the promise rejects.\<close>

datatype tpl_result = Reply tpl_response | Rejected

type_synonym tpl_stop = "tpl_result \<times> string list"

definition json_error :: "tpl_world \<Rightarrow> string \<Rightarrow> int \<Rightarrow> string \<Rightarrow> jobj \<Rightarrow> tpl_result" where
  "json_error w traceId status err detail =
     Reply \<lparr>tr_status = status,
       tr_headers = (''content-type'', ''application/json'')
         # (if traceId \<noteq> [] then [(''x-trace-id'', traceId)] else []),
       tr_body = json_stringify (tw_show w) (JObj (spread [(''error'', JStr err)] detail))\<rparr>"

definition stop :: "tpl_world \<Rightarrow> string \<Rightarrow> string list \<Rightarrow> int \<Rightarrow> string \<Rightarrow> jobj \<Rightarrow> tpl_stop + 'a" where
  "stop w traceId incs status err detail = Inl (json_error w traceId status err detail, incs)"

section \<open>Small readers\<close>

definition as_non_empty_string :: "jsval \<Rightarrow> string option" where
  "as_non_empty_string v = (case v of JStr s \<Rightarrow> if length (trim s) > 0 then Some (trim s) else None | _ \<Rightarrow> None)"

definition non_empty :: "string option \<Rightarrow> string option" where
  "non_empty v = (case v of None \<Rightarrow> None | Some s \<Rightarrow> as_non_empty_string (JStr s))"

definition explicit_site_id :: "tpl_input \<Rightarrow> string option" where
  "explicit_site_id inp = (case ti_siteId inp of Some (Own s) \<Rightarrow> non_empty (Some s) | _ \<Rightarrow> None)"

definition trace_char :: "char \<Rightarrow> bool" where
  "trace_char c \<longleftrightarrow> is_alnum c \<or> c \<in> set ''!#$%&*+-.^_`|~'' \<or> c = CHR 0x27"

definition resolve_trace_id :: "string \<Rightarrow> string option \<Rightarrow> string" where
  "resolve_trace_id random raw =
     (let traceId = trim (or_empty raw) in if matches_class trace_char 1 128 traceId then traceId else random)"

definition resolve_payload_site_id :: "jsval \<Rightarrow> string option" where
  "resolve_payload_site_id payload = (case payload of JObj obj \<Rightarrow> as_non_empty_string (jprop obj ''siteId'') | _ \<Rightarrow> None)"

definition resolve_site_id :: "tpl_input \<Rightarrow> string option" where
  "resolve_site_id inp =
     (case explicit_site_id inp of Some s \<Rightarrow> Some s | None \<Rightarrow> resolve_payload_site_id (ti_payload inp))"

definition resolve_runtime_hint_value :: "runtime_hints option \<Rightarrow> string list \<Rightarrow> string option" where
  "resolve_runtime_hint_value hints keys =
     (case hints of None \<Rightarrow> None
      | Some h \<Rightarrow> first_some (concat (map (\<lambda>r. case r of None \<Rightarrow> []
            | Some obj \<Rightarrow> map (as_non_empty_string \<circ> jprop obj) keys) [rh_runtime h, rh_runtimePointers h])))"

definition resolve_runtime_write_pid :: "runtime_hints option \<Rightarrow> string option" where
  "resolve_runtime_write_pid hints =
     resolve_runtime_hint_value hints [''writeProcessId'', ''writePid'', ''write_process_id'']"

definition resolve_runtime_worker_url :: "runtime_hints option \<Rightarrow> string option" where
  "resolve_runtime_worker_url hints = resolve_runtime_hint_value hints [''workerUrl'', ''worker_url'']"

definition normalize_sha256 :: "string \<Rightarrow> string" where
  "normalize_sha256 v =
     (let t = to_lower (trim v) in
      if starts_with t ''sha256-'' then drop 7 t else if starts_with t ''0x'' then drop 2 t else t)"

definition is_valid_http_url :: "tpl_world \<Rightarrow> string \<Rightarrow> bool" where
  "is_valid_http_url w v =
     (case tw_url w v of None \<Rightarrow> False | Some u \<Rightarrow> up_protocol u = ''http:'' \<or> up_protocol u = ''https:'')"

definition tx_char :: "char \<Rightarrow> bool" where
  "tx_char c \<longleftrightarrow> is_alnum c \<or> c = CHR ''_'' \<or> c = CHR ''-''"

definition safe_template_variant :: "string \<Rightarrow> bool" where
  "safe_template_variant v \<longleftrightarrow> v \<noteq> [] \<and> is_alnum (hd v)
     \<and> matches_class (\<lambda>c. tx_char c \<or> c = CHR ''.'' \<or> c = CHR ''/'') 0 63 (tl v)"

section \<open>Maps in the environment\<close>

fun string_map_of :: "string \<Rightarrow> jobj \<Rightarrow> string jmap \<Rightarrow> string + string jmap" where
  "string_map_of envName [] m = Inr m"
| "string_map_of envName ((keyRaw, valueRaw) # entries) m =
     (case as_non_empty_string valueRaw of
        Some v \<Rightarrow> if trim keyRaw = [] then Inl (envName @ '' keys and values must be non-empty strings'')
                  else string_map_of envName entries (table_set (trim keyRaw) v m)
      | None \<Rightarrow> Inl (envName @ '' keys and values must be non-empty strings''))"

definition parse_string_map :: "(string \<Rightarrow> string + jsval) \<Rightarrow> string \<Rightarrow> string \<Rightarrow> string + string jmap" where
  "parse_string_map parse raw envName =
     (case parse raw of
        Inl _ \<Rightarrow> Inl (envName @ '' must be valid JSON'')
      | Inr (JObj entries) \<Rightarrow> string_map_of envName entries []
      | Inr _ \<Rightarrow> Inl (envName @ '' must be an object''))"

record variant_metadata =
  vm_variant :: string
  vm_templateTxId :: string
  vm_manifestTxId :: string

definition variant_json :: "variant_metadata \<Rightarrow> jsval" where
  "variant_json m = JObj [(''variant'', JStr (vm_variant m)), (''templateTxId'', JStr (vm_templateTxId m)),
     (''manifestTxId'', JStr (vm_manifestTxId m))]"

text \<open>The own entries and, where an entry is named \<open>__proto__\<close>, the object that became the prototype.\<close>

type_synonym variant_map = "variant_metadata jmap \<times> variant_metadata option"

fun variant_map_of :: "string \<Rightarrow> jobj \<Rightarrow> variant_map \<Rightarrow> string + variant_map" where
  "variant_map_of envName [] m = Inr m"
| "variant_map_of envName ((siteIdRaw, entryRaw) # entries) (own, proto) =
     (if trim siteIdRaw = [] then Inl (envName @ '' keys must be non-empty strings'')
      else (case entryRaw of
          JObj e \<Rightarrow>
            (case (as_non_empty_string (jprop e ''variant''), as_non_empty_string (jprop e ''templateTxId''),
                   as_non_empty_string (jprop e ''manifestTxId'')) of
               (Some v, Some t, Some m) \<Rightarrow>
                 let meta = \<lparr>vm_variant = v, vm_templateTxId = t, vm_manifestTxId = m\<rparr> in
                 variant_map_of envName entries
                   (if trim siteIdRaw = ''__proto__'' then (own, Some meta) else (AList.update (trim siteIdRaw) meta own, proto))
             | _ \<Rightarrow> Inl (envName @ '' entries must include non-empty variant, templateTxId, and manifestTxId''))
        | _ \<Rightarrow> Inl (envName @ '' entries must be objects with variant, templateTxId, and manifestTxId'')))"

definition parse_template_variant_map :: "(string \<Rightarrow> string + jsval) \<Rightarrow> string \<Rightarrow> string \<Rightarrow> string + variant_map" where
  "parse_template_variant_map parse raw envName =
     (case parse raw of
        Inl _ \<Rightarrow> Inl (envName @ '' must be valid JSON'')
      | Inr (JObj entries) \<Rightarrow> variant_map_of envName entries ([], None)
      | Inr _ \<Rightarrow> Inl (envName @ '' must be an object''))"

text \<open>\<open>parsed.map[siteId]\<close> as the value that \<open>JSON.stringify\<close> sees, with what is inherited.\<close>

definition variant_lookup :: "variant_map \<Rightarrow> string \<Rightarrow> jsval option" where
  "variant_lookup vm siteId =
     (case vm of (own, proto) \<Rightarrow>
        (case map_of own siteId of
           Some meta \<Rightarrow> Some (variant_json meta)
         | None \<Rightarrow>
             (case proto of
                Some p \<Rightarrow>
                  if siteId = ''__proto__'' then Some (variant_json p)
                  else if siteId = ''variant'' then Some (JStr (vm_variant p))
                  else if siteId = ''templateTxId'' then Some (JStr (vm_templateTxId p))
                  else if siteId = ''manifestTxId'' then Some (JStr (vm_manifestTxId p))
                  else if siteId \<in> set object_prototype_keys then Some (inherited_json siteId) else None
              | None \<Rightarrow> if siteId \<in> set object_prototype_keys then Some (inherited_json siteId) else None)))"

section \<open>Policy, backends and credentials\<close>

definition get_resolved_policy ::
  "tpl_world \<Rightarrow> env \<Rightarrow> string \<Rightarrow> contract_cache \<Rightarrow> (action_policy \<times> contract_action) option \<times> contract_cache" where
  "get_resolved_policy w env action cache =
     (case get_template_action_policy action of
        None \<Rightarrow> (None, cache)
      | Some local \<Rightarrow>
          (case get_template_contract_action (tw_resolve w) (tw_read_file w) (tw_parse w) env action cache of
             (None, cache') \<Rightarrow> (None, cache')
           | (Some contract, cache') \<Rightarrow>
               (if ca_path contract \<noteq> ap_path local then None else Some (local, contract), cache')))"

text \<open>A value, or status, code and detail of the error.\<close>

type_synonym 'a resolve_result = "(int \<times> string \<times> jobj) + 'a"

definition resolve_backend_base_url :: "env \<Rightarrow> backend_target \<Rightarrow> string resolve_result" where
  "resolve_backend_base_url env target =
     (let missing = (\<lambda>name. Inl (503, ''target_not_configured'', [(''target'', JStr name)]));
          need = (\<lambda>v name. case v of Some url \<Rightarrow> Inr url | None \<Rightarrow> missing name)
      in (case target of
            ToAo \<Rightarrow> need (or_else (read_env_string ''AO_PUBLIC_API_URL'' env) (read_env_string ''AO_READ_URL'' env)) ''ao''
          | ToWrite \<Rightarrow> need (read_env_string ''WRITE_API_URL'' env) ''write''
          | ToWorker \<Rightarrow> need (read_env_string ''WORKER_API_URL'' env) ''worker''))"

definition site_detail :: "string \<Rightarrow> jobj" where
  "site_detail siteId = [(''siteId'', JStr siteId)]"

definition resolve_signer_base_url ::
  "tpl_world \<Rightarrow> env \<Rightarrow> string \<Rightarrow> string option \<Rightarrow> string table_value resolve_result" where
  "resolve_signer_base_url w env siteId runtimeWorkerUrl =
     (case runtimeWorkerUrl of
        Some url \<Rightarrow> Inr (Own url)
      | None \<Rightarrow>
          (case read_env_string ''GATEWAY_TEMPLATE_WORKER_URL_MAP'' env of
             Some raw \<Rightarrow>
               (case parse_string_map (tw_parse w) raw ''GATEWAY_TEMPLATE_WORKER_URL_MAP'' of
                  Inl message \<Rightarrow> Inl (500, ''worker_route_map_invalid'', [(''message'', JStr message)])
                | Inr m \<Rightarrow> (case table_lookup m siteId of
                      None \<Rightarrow> Inl (503, ''worker_target_not_configured'', site_detail siteId)
                    | Some url \<Rightarrow> Inr url))
           | None \<Rightarrow>
               (case or_else (read_env_string ''WORKER_API_URL'' env) (read_env_string ''WORKER_SIGN_URL'' env) of
                  None \<Rightarrow> Inl (503, ''signer_not_configured'', site_detail siteId)
                | Some url \<Rightarrow> Inr (Own url))))"

definition signer_production_like :: "env \<Rightarrow> bool" where
  "signer_production_like env =
     (to_lower (trim (or_empty (or_else (read_env_string ''GATEWAY_RUNTIME_MODE'' env)
        (or_else (read_env_string ''NODE_ENV'' env) (read_env_string ''ENVIRONMENT'' env)))))
      \<in> {''production'', ''staging'', ''prod-like''})"

definition resolve_signer_token :: "tpl_world \<Rightarrow> env \<Rightarrow> string \<Rightarrow> string table_value resolve_result" where
  "resolve_signer_token w env siteId =
     (let productionLike = signer_production_like env;
          mapRaw = read_env_string ''GATEWAY_TEMPLATE_WORKER_TOKEN_MAP'' env;
          fallback =
            (if productionLike \<and> mapRaw = None then Inl (503, ''worker_token_map_required'', site_detail siteId)
             else (case or_else (read_env_string ''WORKER_SIGN_TOKEN'' env)
                      (if productionLike then None else read_env_string ''WORKER_AUTH_TOKEN'' env) of
                 None \<Rightarrow> Inl (503, ''signer_auth_not_configured'', site_detail siteId)
               | Some t \<Rightarrow> Inr (Own t)))
      in (case mapRaw of
            None \<Rightarrow> fallback
          | Some raw \<Rightarrow>
              (case parse_string_map (tw_parse w) raw ''GATEWAY_TEMPLATE_WORKER_TOKEN_MAP'' of
                 Inl message \<Rightarrow> Inl (500, ''worker_token_map_invalid'', [(''message'', JStr message)])
               | Inr m \<Rightarrow>
                   (case table_lookup m siteId of
                      Some t \<Rightarrow> Inr t
                    | None \<Rightarrow> if productionLike then Inl (503, ''worker_token_not_configured'', site_detail siteId)
                              else fallback))))"

text \<open>\<^term>\<open>None\<close> is the empty string: nothing is expected.\<close>

definition resolve_expected_signature_ref ::
  "tpl_world \<Rightarrow> env \<Rightarrow> string \<Rightarrow> string list \<times> string table_value option resolve_result" where
  "resolve_expected_signature_ref w env siteId =
     (case read_env_string ''GATEWAY_TEMPLATE_WORKER_SIGNATURE_REF_MAP'' env of
        None \<Rightarrow>
          ([], if signer_production_like env then Inl (503, ''worker_signature_ref_map_required'', site_detail siteId)
               else Inr None)
      | Some raw \<Rightarrow>
          (case parse_string_map (tw_parse w) raw ''GATEWAY_TEMPLATE_WORKER_SIGNATURE_REF_MAP'' of
             Inl message \<Rightarrow> ([''gateway_template_signer_ref_map_invalid''],
               Inl (500, ''worker_signature_ref_map_invalid'', [(''message'', JStr message)]))
           | Inr m \<Rightarrow>
               (case table_lookup m siteId of
                  Some expected \<Rightarrow> ([], Inr (Some expected))
                | None \<Rightarrow> ([], if signer_production_like env
                      then Inl (503, ''worker_signature_ref_not_configured'', site_detail siteId) else Inr None))))"

definition variant_hint_error :: "string \<Rightarrow> 'a resolve_result" where
  "variant_hint_error field = Inl (502, ''invalid_runtime_template_variant_hints'', [(''field'', JStr field)])"

definition resolve_variant_from_hints :: "runtime_hints option \<Rightarrow> variant_metadata option resolve_result" where
  "resolve_variant_from_hints hints =
     (case (resolve_runtime_hint_value hints [''templateVariant'', ''template_variant''],
            resolve_runtime_hint_value hints [''templateTxId'', ''template_tx_id''],
            resolve_runtime_hint_value hints [''manifestTxId'', ''manifest_tx_id'']) of
        (None, None, None) \<Rightarrow> Inr None
      | (Some v, Some t, Some m) \<Rightarrow>
          if \<not> safe_template_variant v then variant_hint_error ''templateVariant''
          else if \<not> matches_class tx_char 8 128 t then variant_hint_error ''templateTxId''
          else if \<not> matches_class tx_char 8 128 m then variant_hint_error ''manifestTxId''
          else if (case resolve_runtime_hint_value hints [''templateSha256'', ''template_sha256''] of
                None \<Rightarrow> False
              | Some sha \<Rightarrow> \<not> matches_class (\<lambda>c. is_digit c \<or> c \<in> set ''abcdef'') 64 64 (normalize_sha256 sha))
            then variant_hint_error ''templateSha256''
          else Inr (Some \<lparr>vm_variant = v, vm_templateTxId = t, vm_manifestTxId = m\<rparr>)
      | _ \<Rightarrow> Inl (502, ''invalid_runtime_template_variant_hints'',
                 [(''required'', JArr [JStr ''templateVariant'', JStr ''templateTxId'', JStr ''manifestTxId''])]))"

definition resolve_template_variant_metadata ::
  "tpl_world \<Rightarrow> env \<Rightarrow> string option \<Rightarrow> runtime_hints option \<Rightarrow> jsval option resolve_result" where
  "resolve_template_variant_metadata w env siteId hints =
     (case resolve_variant_from_hints hints of
        Inl e \<Rightarrow> Inl e
      | Inr (Some meta) \<Rightarrow> Inr (Some (variant_json meta))
      | Inr None \<Rightarrow>
          (case (siteId, read_env_string ''GATEWAY_TEMPLATE_VARIANT_MAP'' env) of
             (Some site, Some raw) \<Rightarrow>
               (case parse_template_variant_map (tw_parse w) raw ''GATEWAY_TEMPLATE_VARIANT_MAP'' of
                  Inl message \<Rightarrow> Inl (500, ''template_variant_map_invalid'', [(''message'', JStr message)])
                | Inr vm \<Rightarrow> Inr (variant_lookup vm site))
           | _ \<Rightarrow> Inr None))"

datatype upstream_auth_mode = AuthNone | AuthBearer | AuthTemplateToken

definition read_upstream_auth_mode :: "env \<Rightarrow> upstream_auth_mode" where
  "read_upstream_auth_mode env =
     (let raw = to_lower (or_empty (read_env_string ''GATEWAY_TEMPLATE_UPSTREAM_AUTH_MODE'' env)) in
      if raw = ''bearer'' then AuthBearer else if raw = ''x-template-token'' then AuthTemplateToken else AuthNone)"

definition resolve_upstream_token ::
  "tpl_world \<Rightarrow> env \<Rightarrow> string option \<Rightarrow> string table_value option resolve_result" where
  "resolve_upstream_token w env siteId =
     (let fallback = map_option Own (read_env_string ''GATEWAY_TEMPLATE_UPSTREAM_TOKEN'' env) in
      case read_env_string ''GATEWAY_TEMPLATE_UPSTREAM_TOKEN_MAP'' env of
        None \<Rightarrow> Inr fallback
      | Some raw \<Rightarrow>
          (case parse_string_map (tw_parse w) raw ''GATEWAY_TEMPLATE_UPSTREAM_TOKEN_MAP'' of
             Inl message \<Rightarrow> Inl (500, ''upstream_token_map_invalid'', [(''message'', JStr message)])
           | Inr m \<Rightarrow> Inr (case siteId of None \<Rightarrow> fallback
               | Some s \<Rightarrow> (case table_lookup m s of Some t \<Rightarrow> Some t | None \<Rightarrow> fallback))))"

definition hmac_body :: "tpl_world \<Rightarrow> env \<Rightarrow> string \<Rightarrow> string option" where
  "hmac_body w env body =
     map_option (\<lambda>secret. tw_hmac w secret body) (read_env_string ''GATEWAY_TEMPLATE_HMAC_SECRET'' env)"

definition template_max_body_bytes :: "env \<Rightarrow> int" where
  "template_max_body_bytes env = read_positive_int_env ''GATEWAY_TEMPLATE_MAX_BODY_BYTES'' 32768 env"

definition template_upstream_timeout_ms :: "env \<Rightarrow> action_kind \<Rightarrow> int" where
  "template_upstream_timeout_ms env kind =
     (let fallback = read_positive_int_env ''GATEWAY_TEMPLATE_UPSTREAM_TIMEOUT_MS'' 7000 env in
      (case kind of
         ReadAction \<Rightarrow> read_positive_int_env ''GATEWAY_TEMPLATE_UPSTREAM_TIMEOUT_MS_READ'' fallback env
       | WriteAction \<Rightarrow> read_positive_int_env ''GATEWAY_TEMPLATE_UPSTREAM_TIMEOUT_MS_WRITE'' fallback env))"

definition template_sign_timeout_ms :: "env \<Rightarrow> int" where
  "template_sign_timeout_ms env = read_positive_int_env ''GATEWAY_TEMPLATE_SIGN_TIMEOUT_MS'' 5000 env"

definition template_target_allowlist :: "env \<Rightarrow> string list option" where
  "template_target_allowlist env =
     map_option (\<lambda>raw. filter (\<lambda>v. length v > 0) (map (to_lower \<circ> trim) (split_on CHR '','' raw)))
       (read_env_string ''GATEWAY_TEMPLATE_TARGET_HOST_ALLOWLIST'' env)"

definition runtime_overrides_enabled :: "env \<Rightarrow> bool" where
  "runtime_overrides_enabled env = (read_env_string ''GATEWAY_TEMPLATE_ALLOW_RUNTIME_HINTS'' env = Some ''1'')"

definition runtime_write_pid_override_enabled :: "env \<Rightarrow> bool" where
  "runtime_write_pid_override_enabled env =
     (case read_env_string ''GATEWAY_TEMPLATE_ALLOW_RUNTIME_WRITE_PID_OVERRIDE'' env of
        Some explicit \<Rightarrow> explicit = ''1'' | None \<Rightarrow> runtime_overrides_enabled env)"

definition runtime_worker_url_override_enabled :: "env \<Rightarrow> bool" where
  "runtime_worker_url_override_enabled env =
     (case read_env_string ''GATEWAY_TEMPLATE_ALLOW_RUNTIME_WORKER_URL_OVERRIDE'' env of
        Some explicit \<Rightarrow> explicit = ''1'' | None \<Rightarrow> runtime_overrides_enabled env)"

text \<open>An inherited function or object is no URL: \<open>new URL\<close> throws on its text.\<close>

definition target_hostname :: "tpl_world \<Rightarrow> string table_value \<Rightarrow> string option" where
  "target_hostname w base =
     (case base of Own url \<Rightarrow> map_option (to_lower \<circ> up_hostname) (tw_url w url) | Inherited _ \<Rightarrow> None)"

definition value_json :: "string table_value \<Rightarrow> jsval" where
  "value_json v = (case v of Own s \<Rightarrow> JStr s | Inherited n \<Rightarrow> inherited_json n)"

definition value_text :: "string table_value \<Rightarrow> string" where
  "value_text v = (case v of Own s \<Rightarrow> s | Inherited n \<Rightarrow> inherited_text n)"

definition validate_allowlist ::
  "tpl_world \<Rightarrow> string table_value \<Rightarrow> string list option \<Rightarrow> string \<Rightarrow> tpl_stop + unit" where
  "validate_allowlist w baseUrl allowlist traceId =
     (case allowlist of
        None \<Rightarrow> Inr ()
      | Some hosts \<Rightarrow>
          (case target_hostname w baseUrl of
             None \<Rightarrow> stop w traceId [''gateway_template_target_blocked''] 403 ''template_target_forbidden''
               [(''detail'', JStr ''upstream target is invalid''), (''target'', value_json baseUrl)]
           | Some host \<Rightarrow>
               if host \<in> set hosts then Inr ()
               else stop w traceId [''gateway_template_target_blocked''] 403 ''template_target_forbidden''
                 [(''detail'', JStr ''upstream host is not in the allowlist''), (''host'', JStr host),
                  (''allowlist'', JArr (map JStr hosts))]))"

section \<open>The steps of a call\<close>

definition resolved :: "tpl_world \<Rightarrow> string \<Rightarrow> string list \<Rightarrow> 'a resolve_result \<Rightarrow> tpl_stop + 'a" where
  "resolved w traceId incs r =
     (case r of Inr v \<Rightarrow> Inr v | Inl (status, err, detail) \<Rightarrow> stop w traceId incs status err detail)"

text \<open>Role, payload, secrets and idempotency; the request id is the result.\<close>

definition admit_call ::
  "tpl_world \<Rightarrow> env \<Rightarrow> string \<Rightarrow> tpl_input \<Rightarrow> action_policy \<Rightarrow> contract_action \<Rightarrow> tpl_stop + string option" where
  "admit_call w env traceId inp local contract =
     (let enforcedRole = (if ap_kind local = WriteAction then Some (ca_requiredRole contract) else ti_role inp) in
      if ap_kind local = WriteAction \<and> read_env_string ''GATEWAY_TEMPLATE_ALLOW_MUTATIONS'' env \<noteq> Some ''1'' then
        stop w traceId [] 403 ''write_actions_disabled'' []
      else if require_allowed_role (OneValue (ca_requiredRole contract)) enforcedRole (Some ''public'') \<noteq> Inr () then
        stop w traceId [] 403 ''forbidden_role''
          [(''requiredRole'', JStr (ca_requiredRole contract)),
           (''providedRole'', case enforcedRole of
              Some r \<Rightarrow> if length (trim r) > 0 then JStr r else JNull | None \<Rightarrow> JNull)]
      else (case ap_validate local (ti_payload inp) of
          Inl message \<Rightarrow> stop w traceId [] 400 ''invalid_payload'' [(''detail'', JStr message)]
        | Inr _ \<Rightarrow>
            (case inspect_template_secret_payload (tw_locale_sort w) env (ti_payload inp) of
               Some paths \<Rightarrow> stop w traceId [''gateway_template_secret_guard_blocked''] 400
                 ''payload_contains_forbidden_secret_fields'' [(''forbiddenFields'', JArr (map JStr paths))]
             | None \<Rightarrow>
                 if ca_mode contract = IdemRequired \<and> non_empty (ti_requestId inp) = None then
                   stop w traceId [] 400 ''missing_request_id''
                     [(''detail'', JStr ''x-request-id is required for this action'')]
                 else Inr (non_empty (ti_requestId inp)))))"

definition inject_template_variant :: "jsval \<Rightarrow> jsval option \<Rightarrow> jsval" where
  "inject_template_variant payload variant =
     (case (variant, payload) of
        (Some v, JObj obj) \<Rightarrow> JObj (spread obj [(''templateVariant'', v)])
      | _ \<Rightarrow> payload)"

text \<open>The runtime overrides: the first check that fails.\<close>

definition runtime_override_error :: "tpl_world \<Rightarrow> env \<Rightarrow> tpl_input \<Rightarrow> (int \<times> string \<times> jobj) option" where
  "runtime_override_error w env inp =
     (let writePid = resolve_runtime_write_pid (ti_runtimeHints inp);
          workerUrl = resolve_runtime_worker_url (ti_runtimeHints inp);
          trusted = ti_runtimeHintsTrusted inp
      in if (case writePid of None \<Rightarrow> False | Some p \<Rightarrow> \<not> matches_class tx_char 20 128 p) then
           Some (502, ''invalid_runtime_write_process_id'', [(''value'', JStr (or_empty writePid))])
         else if (case workerUrl of None \<Rightarrow> False | Some u \<Rightarrow> \<not> is_valid_http_url w u) then
           Some (502, ''invalid_runtime_worker_url'', [(''value'', JStr (or_empty workerUrl))])
         else if writePid \<noteq> None \<and> \<not> runtime_write_pid_override_enabled env \<and> \<not> trusted then
           Some (403, ''runtime_write_process_id_override_disabled'', [])
         else if workerUrl \<noteq> None \<and> \<not> runtime_worker_url_override_enabled env \<and> \<not> trusted then
           Some (403, ''runtime_worker_url_override_disabled'', [])
         else if (writePid \<noteq> None \<or> workerUrl \<noteq> None) \<and> template_target_allowlist env = None then
           Some (503, ''template_target_allowlist_required_for_runtime_overrides'',
             [(''detail'', JStr ''set GATEWAY_TEMPLATE_TARGET_HOST_ALLOWLIST before enabling runtime overrides'')])
         else None)"

text \<open>The payload with its variant, the backend's address and the runtime overrides.\<close>

record tpl_route =
  ro_payload :: jsval
  ro_baseUrl :: string
  ro_writePid :: "string option"
  ro_workerUrl :: "string option"

definition route_call ::
  "tpl_world \<Rightarrow> env \<Rightarrow> string \<Rightarrow> tpl_input \<Rightarrow> action_policy \<Rightarrow> tpl_stop + tpl_route" where
  "route_call w env traceId inp local =
     sum_bind (resolved w traceId [] (resolve_template_variant_metadata w env (resolve_site_id inp) (ti_runtimeHints inp)))
       (\<lambda>variant.
     sum_bind (resolved w traceId [] (resolve_backend_base_url env (ap_target local))) (\<lambda>baseUrl.
     sum_bind (validate_allowlist w (Own baseUrl) (template_target_allowlist env) traceId) (\<lambda>_.
     sum_bind (resolved w traceId [] (case runtime_override_error w env inp of Some e \<Rightarrow> Inl e | None \<Rightarrow> Inr ())) (\<lambda>_.
     Inr \<lparr>ro_payload = (if ti_action inp = ''public.site-by-host'' then ti_payload inp
                        else inject_template_variant (ti_payload inp) variant),
          ro_baseUrl = baseUrl, ro_writePid = resolve_runtime_write_pid (ti_runtimeHints inp),
          ro_workerUrl = resolve_runtime_worker_url (ti_runtimeHints inp)\<rparr>))))"

definition template_to_write_action :: "string \<Rightarrow> string" where
  "template_to_write_action action =
     (if action = ''checkout.create-order'' then ''CreateOrder''
      else if action = ''checkout.create-payment-intent'' then ''CreatePaymentIntent'' else action)"

definition build_write_sign_envelope ::
  "tpl_world \<Rightarrow> tpl_input \<Rightarrow> string \<Rightarrow> string \<Rightarrow> string \<Rightarrow> jsval \<Rightarrow> jobj" where
  "build_write_sign_envelope w inp siteId requestId role payload =
     [(''action'', JStr (template_to_write_action (ti_action inp))), (''requestId'', JStr requestId),
      (''actor'', JStr (case non_empty (ti_actor inp) of Some a \<Rightarrow> a | None \<Rightarrow> ''gateway-template'')),
      (''tenant'', JStr siteId), (''role'', JStr role), (''siteId'', JStr siteId),
      (''timestamp'', JNum (Fin (of_int (tw_envelopeNow w div 1000)))),
      (''nonce'', JStr (''gw-'' @ tw_nonceHex w)), (''payload'', payload)]"

definition sign_request :: "tpl_world \<Rightarrow> string \<Rightarrow> string table_value \<Rightarrow> jobj \<Rightarrow> string \<Rightarrow> http_request" where
  "sign_request w url token envelope traceId =
     \<lparr>rq_url = url, rq_method = ''POST'',
      rq_headers = [(''authorization'', ''Bearer '' @ value_text token), (''content-type'', ''application/json'')]
        @ (if traceId \<noteq> [] then [(''x-trace-id'', traceId)] else []),
      rq_body = Some (json_stringify (tw_show w) (JObj envelope))\<rparr>"

definition sign_write_envelope ::
  "tpl_world \<Rightarrow> env \<Rightarrow> string table_value \<Rightarrow> string table_value \<Rightarrow> jobj \<Rightarrow> string \<Rightarrow> tpl_stop + string \<times> string" where
  "sign_write_envelope w env base token envelope traceId =
     (case (case base of Own b \<Rightarrow> tw_new_url w ''/sign'' b | Inherited _ \<Rightarrow> None) of
        None \<Rightarrow> Inl (Rejected, [])
      | Some url \<Rightarrow>
          (case tw_sign w (sign_request w url token envelope traceId) of
             SignResponse status body \<Rightarrow>
               if \<not> (200 \<le> status \<and> status < 300) then
                 stop w traceId [] (if status \<ge> 500 then 502 else 401) ''worker_sign_failed''
                   [(''upstreamStatus'', JNum (Fin (of_int status)))]
               else
                 let field = (\<lambda>k. case body of Some (JObj obj) \<Rightarrow> as_non_empty_string (jprop obj k) | _ \<Rightarrow> None) in
                 (case (field ''signature'', field ''signatureRef'') of
                    (Some s, Some r) \<Rightarrow> Inr (s, r)
                  | _ \<Rightarrow> stop w traceId [] 502 ''worker_sign_invalid_response'' [])
           | SignThrew timedOut \<Rightarrow>
               if timedOut then stop w traceId [] 504 ''worker_sign_timeout''
                 [(''timeoutMs'', JNum (Fin (of_int (template_sign_timeout_ms env))))]
               else stop w traceId [] 502 ''worker_sign_unreachable'' []))"

text \<open>The signed envelope of a write, with its site and request id.\<close>

definition sign_with ::
  "tpl_world \<Rightarrow> env \<Rightarrow> string \<Rightarrow> tpl_input \<Rightarrow> string \<Rightarrow> string \<Rightarrow> string \<Rightarrow> jsval
    \<Rightarrow> string table_value \<Rightarrow> string table_value \<Rightarrow> string table_value option \<Rightarrow> tpl_stop + (jobj \<times> string \<times> string)" where
  "sign_with w env traceId inp role siteId effectiveId payload signerBase token expected =
     (let envelope = build_write_sign_envelope w inp siteId effectiveId role payload in
      sum_bind (sign_write_envelope w env signerBase token envelope traceId) (\<lambda>(signature, signatureRef).
        if expected \<noteq> None \<and> expected \<noteq> Some (Own signatureRef) then
          stop w traceId [''gateway_template_signer_ref_mismatch''] 502 ''worker_sign_signature_ref_mismatch''
            [(''siteId'', JStr siteId), (''expectedSignatureRef'', value_json (the expected)),
             (''actualSignatureRef'', JStr signatureRef)]
        else Inr (spread envelope [(''signature'', JStr signature), (''signatureRef'', JStr signatureRef),
               (''siteId'', JStr siteId), (''role'', JStr role), (''templateAction'', JStr (ti_action inp))],
             siteId, effectiveId)))"

definition sign_for_site ::
  "tpl_world \<Rightarrow> env \<Rightarrow> string \<Rightarrow> tpl_input \<Rightarrow> contract_action \<Rightarrow> tpl_route \<Rightarrow> string option \<Rightarrow> string
    \<Rightarrow> tpl_stop + (jobj \<times> string \<times> string)" where
  "sign_for_site w env traceId inp contract route requestId siteId =
     sum_bind (resolved w traceId [] (resolve_signer_base_url w env siteId (ro_workerUrl route))) (\<lambda>signerBase.
     sum_bind (validate_allowlist w signerBase (template_target_allowlist env) traceId) (\<lambda>_.
     sum_bind (resolved w traceId [] (resolve_signer_token w env siteId)) (\<lambda>token.
     sum_bind (resolved w traceId (fst (resolve_expected_signature_ref w env siteId))
         (snd (resolve_expected_signature_ref w env siteId))) (\<lambda>expected.
     sign_with w env traceId inp (ca_requiredRole contract) siteId
       (case requestId of Some r \<Rightarrow> r | None \<Rightarrow> ''req-'' @ int_str (tw_requestNow w) @ ''-'' @ tw_requestHex w)
       (ro_payload route) signerBase token expected))))"

definition sign_call ::
  "tpl_world \<Rightarrow> env \<Rightarrow> string \<Rightarrow> tpl_input \<Rightarrow> contract_action \<Rightarrow> tpl_route \<Rightarrow> string option
    \<Rightarrow> tpl_stop + (jobj \<times> string \<times> string)" where
  "sign_call w env traceId inp contract route requestId =
     (let explicit = explicit_site_id inp;
          payloadSite = resolve_payload_site_id (ro_payload route)
      in if explicit \<noteq> None \<and> payloadSite \<noteq> None \<and> explicit \<noteq> payloadSite then
           stop w traceId [] 400 ''site_id_mismatch''
             [(''detail'', JStr ''siteId and payload.siteId must match for write actions'')]
         else (case first_some [explicit, payloadSite, resolve_site_id inp] of
             None \<Rightarrow> stop w traceId [] 400 ''site_id_required''
               [(''detail'', JStr ''payload.siteId is required for write actions'')]
           | Some siteId \<Rightarrow> sign_for_site w env traceId inp contract route requestId siteId))"

section \<open>The upstream request\<close>

definition build_site_by_host_body :: "jsval \<Rightarrow> string option \<Rightarrow> string \<Rightarrow> jobj option" where
  "build_site_by_host_body payload requestId traceId =
     (case payload of
        JObj obj \<Rightarrow>
          (let pick = (\<lambda>a b d. first_some [as_non_empty_string (jprop obj a), as_non_empty_string (jprop obj b), d]);
               field = (\<lambda>k v. case v of Some s \<Rightarrow> [(k, JStr s)] | None \<Rightarrow> [])
           in (case pick ''host'' ''Host'' None of
                 None \<Rightarrow> None
               | Some host \<Rightarrow> Some ([(''host'', JStr host)]
                   @ field ''requestId'' (or_else (pick ''requestId'' ''Request-Id'' requestId) None)
                   @ field ''traceId'' (or_else (pick ''traceId'' ''Trace-Id'' (Some traceId)) None))))
      | _ \<Rightarrow> None)"

definition opt_str :: "string option \<Rightarrow> jsval" where
  "opt_str v = (case v of None \<Rightarrow> JUndef | Some s \<Rightarrow> JStr s)"

definition upstream_body ::
  "tpl_input \<Rightarrow> action_policy \<Rightarrow> tpl_route \<Rightarrow> jobj option \<Rightarrow> string option \<Rightarrow> string option \<Rightarrow> string \<Rightarrow> jsval" where
  "upstream_body inp local route writeEnvelope requestId siteId traceId =
     (case (if ap_kind local = ReadAction \<and> ti_action inp = ''public.site-by-host''
            then build_site_by_host_body (ro_payload route) requestId traceId else None) of
        Some b \<Rightarrow> JObj b
      | None \<Rightarrow>
          (case writeEnvelope of
             Some e \<Rightarrow> JObj e
           | None \<Rightarrow> JObj [(''action'', JStr (ti_action inp)), (''payload'', ro_payload route), (''requestId'', opt_str requestId),
               (''siteId'', opt_str siteId), (''actor'', opt_str (ti_actor inp)), (''role'', opt_str (ti_role inp))]))"

definition upstream_headers ::
  "tpl_world \<Rightarrow> env \<Rightarrow> string \<Rightarrow> tpl_input \<Rightarrow> action_policy \<Rightarrow> tpl_route \<Rightarrow> string option \<Rightarrow> string option \<Rightarrow> string
    \<Rightarrow> string table_value option \<Rightarrow> (string \<times> string) list" where
  "upstream_headers w env traceId inp local route requestId siteId body token =
     (let opt = (\<lambda>name v. case v of Some s \<Rightarrow> if s \<noteq> [] then [(name, s)] else [] | None \<Rightarrow> []) in
      [(''content-type'', ''application/json''), (''x-template-action'', ti_action inp)]
        @ opt ''x-request-id'' requestId @ opt ''x-site-id'' siteId
        @ opt ''x-template-signature'' (hmac_body w env body)
        @ (if ap_kind local = WriteAction then opt ''x-write-process-id'' (ro_writePid route) else [])
        @ (case token of None \<Rightarrow> [] | Some t \<Rightarrow>
             (if read_upstream_auth_mode env = AuthBearer then [(''authorization'', ''Bearer '' @ value_text t)]
              else if read_upstream_auth_mode env = AuthTemplateToken then [(''x-template-token'', value_text t)] else []))
        @ opt ''x-trace-id'' (Some traceId))"

definition upstream_request ::
  "tpl_world \<Rightarrow> env \<Rightarrow> string \<Rightarrow> tpl_input \<Rightarrow> action_policy \<Rightarrow> tpl_route \<Rightarrow> jobj option \<Rightarrow> string option \<Rightarrow> string option
    \<Rightarrow> tpl_stop + http_request" where
  "upstream_request w env traceId inp local route writeEnvelope requestId siteId =
     (case tw_new_url w (ap_path local) (ro_baseUrl route) of
        None \<Rightarrow> Inl (Rejected, [])
      | Some url \<Rightarrow>
          let body = json_stringify (tw_show w) (upstream_body inp local route writeEnvelope requestId siteId traceId);
              maxBodyBytes = template_max_body_bytes env
          in if body_exceeds_utf8_limit body maxBodyBytes then
               stop w traceId [''gateway_template_reject_size''] 413 ''template_body_too_large''
                 [(''detail'', JStr ''template call body exceeds the configured byte limit''),
                  (''maxBodyBytes'', JNum (Fin (of_int maxBodyBytes))), (''actualBytes'', JNum (Fin (of_nat (utf8_len body))))]
             else
               sum_bind (resolved w traceId [] (resolve_upstream_token w env siteId)) (\<lambda>token.
                 if read_upstream_auth_mode env \<noteq> AuthNone \<and> token = None then
                   stop w traceId [] 503 ''template_upstream_auth_not_configured''
                     [(''mode'', JStr (if read_upstream_auth_mode env = AuthBearer then ''bearer'' else ''x-template-token'')),
                      (''siteId'', opt_str siteId)]
                 else Inr \<lparr>rq_url = url, rq_method = ''POST'',
                   rq_headers = upstream_headers w env traceId inp local route requestId siteId body token,
                   rq_body = Some body\<rparr>))"

text \<open>Everything before the upstream fetch: the request that is sent.\<close>

definition prepare_call ::
  "tpl_world \<Rightarrow> env \<Rightarrow> string \<Rightarrow> tpl_input \<Rightarrow> action_policy \<Rightarrow> contract_action \<Rightarrow> tpl_stop + http_request" where
  "prepare_call w env traceId inp local contract =
     sum_bind (admit_call w env traceId inp local contract) (\<lambda>requestId.
     sum_bind (route_call w env traceId inp local) (\<lambda>route.
     if ap_kind local = WriteAction then
       sum_bind (sign_call w env traceId inp contract route requestId) (\<lambda>(envelope, siteId, effectiveId).
         upstream_request w env traceId inp local route (Some envelope) (Some effectiveId) (Some siteId))
     else upstream_request w env traceId inp local route None requestId (explicit_site_id inp)))"

text \<open>\<open>new Response(text, { status })\<close> throws for a status outside 200 to 599 and, a body being
  present, for the statuses that have none.\<close>

definition response_status_ok :: "int \<Rightarrow> bool" where
  "response_status_ok status \<longleftrightarrow> 200 \<le> status \<and> status \<le> 599 \<and> status \<notin> {204, 205, 304}"

definition relay_upstream ::
  "tpl_world \<Rightarrow> env \<Rightarrow> string \<Rightarrow> action_kind \<Rightarrow> upstream_outcome \<Rightarrow> tpl_result \<times> string list" where
  "relay_upstream w env traceId kind outcome =
     (case outcome of
        UpThrew timedOut \<Rightarrow>
          if timedOut then (json_error w traceId 504 ''template_upstream_timeout''
              [(''detail'', JStr ''template upstream request exceeded the configured timeout''),
               (''timeoutMs'', JNum (Fin (of_int (template_upstream_timeout_ms env kind))))], [''gateway_template_upstream_timeout''])
          else (json_error w traceId 502 ''template_upstream_error''
              [(''detail'', JStr ''template upstream request failed'')], [''gateway_template_call_backend_fail''])
      | UpResponse status contentType text \<Rightarrow>
          (case text of
             None \<Rightarrow> (Rejected, [])
           | Some t \<Rightarrow>
               if response_status_ok status then
                 (Reply \<lparr>tr_status = status,
                    tr_headers = [(''content-type'', or_empty (or_else contentType (Some ''application/json''))), (''x-trace-id'', traceId)],
                    tr_body = t\<rparr>, [])
               else (Rejected, [])))"

definition proxy_template_call ::
  "tpl_world \<Rightarrow> env \<Rightarrow> tpl_input \<Rightarrow> metrics \<Rightarrow> contract_cache \<Rightarrow> tpl_result \<times> metrics \<times> contract_cache" where
  "proxy_template_call w env inp m cache =
     (let traceId = resolve_trace_id (tw_traceId w) (ti_traceId inp);
          (policy, cache') = get_resolved_policy w env (ti_action inp) cache;
          (result, incs) =
            (case policy of
               None \<Rightarrow> (json_error w traceId 403 ''action_not_allowed'' [], [])
             | Some (local, contract) \<Rightarrow>
                 (case prepare_call w env traceId inp local contract of
                    Inl s \<Rightarrow> s
                  | Inr req \<Rightarrow> relay_upstream w env traceId (ap_kind local) (tw_upstream w req)))
      in (result, foldl (\<lambda>m name. metric_inc name 1 m) m incs, cache'))"

section \<open>What a sent request went through\<close>

lemma stop_not_Inr [simp]: "stop w traceId incs status err detail \<noteq> Inr v"
  by (simp add: stop_def)

lemma resolved_Inr [simp]: "resolved w traceId incs r = Inr v \<longleftrightarrow> r = Inr v"
  by (auto simp: resolved_def split: sum.splits prod.splits)

lemma validate_allowlist_Inr:
  "validate_allowlist w base allowlist traceId = Inr u \<longleftrightarrow>
     (case allowlist of None \<Rightarrow> True | Some hosts \<Rightarrow> \<exists>host. target_hostname w base = Some host \<and> host \<in> set hosts)"
  by (auto simp: validate_allowlist_def split: option.splits)

lemma admit_call_Inr:
  assumes "admit_call w env traceId inp local contract = Inr requestId"
  shows "ap_kind local = WriteAction \<longrightarrow> read_env_string ''GATEWAY_TEMPLATE_ALLOW_MUTATIONS'' env = Some ''1''"
    and "ap_kind local = ReadAction \<longrightarrow> require_allowed_role (OneValue (ca_requiredRole contract)) (ti_role inp) (Some ''public'') = Inr ()"
    and "ap_validate local (ti_payload inp) = Inr ()"
    and "inspect_template_secret_payload (tw_locale_sort w) env (ti_payload inp) = None"
    and "ca_mode contract = IdemRequired \<longrightarrow> non_empty (ti_requestId inp) \<noteq> None" and "requestId = non_empty (ti_requestId inp)"
  using assms by (auto simp: admit_call_def Let_def split: if_splits sum.splits option.splits)

lemma runtime_override_None:
  assumes "runtime_override_error w env inp = None"
  shows "resolve_runtime_write_pid (ti_runtimeHints inp) \<noteq> None \<longrightarrow> runtime_write_pid_override_enabled env \<or> ti_runtimeHintsTrusted inp"
    and "resolve_runtime_worker_url (ti_runtimeHints inp) \<noteq> None \<longrightarrow> runtime_worker_url_override_enabled env \<or> ti_runtimeHintsTrusted inp"
    and "resolve_runtime_write_pid (ti_runtimeHints inp) \<noteq> None \<or> resolve_runtime_worker_url (ti_runtimeHints inp) \<noteq> None
      \<longrightarrow> template_target_allowlist env \<noteq> None"
  using assms unfolding runtime_override_error_def Let_def by (auto split: if_splits)

lemma route_call_Inr:
  assumes "route_call w env traceId inp local = Inr route"
  shows "validate_allowlist w (Own (ro_baseUrl route)) (template_target_allowlist env) traceId = Inr ()
    \<and> runtime_override_error w env inp = None
    \<and> ro_writePid route = resolve_runtime_write_pid (ti_runtimeHints inp)
    \<and> ro_workerUrl route = resolve_runtime_worker_url (ti_runtimeHints inp)"
  using assms unfolding route_call_def sum_bind_Inr resolved_Inr
  by (elim exE conjE) (auto split: option.splits)

lemma sign_write_envelope_Inr:
  assumes "sign_write_envelope w env base token envelope traceId = Inr (signature, signatureRef)"
  shows "\<exists>b url status obj. base = Own b \<and> tw_new_url w ''/sign'' b = Some url
    \<and> tw_sign w (sign_request w url token envelope traceId) = SignResponse status (Some (JObj obj))
    \<and> 200 \<le> status \<and> status < 300 \<and> as_non_empty_string (jprop obj ''signature'') = Some signature
    \<and> as_non_empty_string (jprop obj ''signatureRef'') = Some signatureRef"
  using assms
  by (auto simp: sign_write_envelope_def Let_def split: table_value.splits option.splits sign_outcome.splits if_splits jsval.splits)

lemma signed_envelope:
  "spread (build_write_sign_envelope w inp siteId requestId role payload)
     [(''signature'', s), (''signatureRef'', r), (''siteId'', JStr siteId), (''role'', JStr role), (''templateAction'', a)]
   = build_write_sign_envelope w inp siteId requestId role payload
     @ [(''signature'', s), (''signatureRef'', r), (''templateAction'', a)]"
  by (simp add: spread_def build_write_sign_envelope_def)

text \<open>What a signed body shows.\<close>

definition signed_write ::
  "tpl_world \<Rightarrow> env \<Rightarrow> string \<Rightarrow> tpl_input \<Rightarrow> string \<Rightarrow> string option \<Rightarrow> jsval \<Rightarrow> string \<Rightarrow> string \<Rightarrow> jobj \<Rightarrow> bool" where
  "signed_write w env traceId inp role workerUrl payload siteId requestId body \<longleftrightarrow>
     (\<exists>b url token expected status obj signature signatureRef.
        resolve_signer_base_url w env siteId workerUrl = Inr (Own b)
        \<and> validate_allowlist w (Own b) (template_target_allowlist env) traceId = Inr ()
        \<and> resolve_signer_token w env siteId = Inr token
        \<and> snd (resolve_expected_signature_ref w env siteId) = Inr expected
        \<and> tw_new_url w ''/sign'' b = Some url
        \<and> tw_sign w (sign_request w url token (build_write_sign_envelope w inp siteId requestId role payload) traceId)
            = SignResponse status (Some (JObj obj))
        \<and> 200 \<le> status \<and> status < 300 \<and> as_non_empty_string (jprop obj ''signature'') = Some signature
        \<and> as_non_empty_string (jprop obj ''signatureRef'') = Some signatureRef
        \<and> expected \<in> {None, Some (Own signatureRef)}
        \<and> body = build_write_sign_envelope w inp siteId requestId role payload
            @ [(''signature'', JStr signature), (''signatureRef'', JStr signatureRef), (''templateAction'', JStr (ti_action inp))])"

lemma sign_with_Inr:
  assumes "sign_with w env traceId inp role siteId requestId payload base token expected = Inr (body, site, effectiveId)"
  shows "\<exists>b url status obj signature signatureRef. site = siteId \<and> effectiveId = requestId \<and> base = Own b
    \<and> tw_new_url w ''/sign'' b = Some url
    \<and> tw_sign w (sign_request w url token (build_write_sign_envelope w inp siteId requestId role payload) traceId)
        = SignResponse status (Some (JObj obj))
    \<and> 200 \<le> status \<and> status < 300 \<and> as_non_empty_string (jprop obj ''signature'') = Some signature
    \<and> as_non_empty_string (jprop obj ''signatureRef'') = Some signatureRef \<and> expected \<in> {None, Some (Own signatureRef)}
    \<and> body = build_write_sign_envelope w inp siteId requestId role payload
        @ [(''signature'', JStr signature), (''signatureRef'', JStr signatureRef), (''templateAction'', JStr (ti_action inp))]"
proof -
  obtain signature signatureRef where s:
    "sign_write_envelope w env base token (build_write_sign_envelope w inp siteId requestId role payload) traceId
       = Inr (signature, signatureRef)"
    using assms by (cases "sign_write_envelope w env base token (build_write_sign_envelope w inp siteId requestId role payload) traceId")
      (auto simp: sign_with_def Let_def)
  then have "expected \<in> {None, Some (Own signatureRef)} \<and> site = siteId \<and> effectiveId = requestId
    \<and> body = build_write_sign_envelope w inp siteId requestId role payload
        @ [(''signature'', JStr signature), (''signatureRef'', JStr signatureRef), (''templateAction'', JStr (ti_action inp))]"
    using assms by (auto simp: sign_with_def signed_envelope Let_def split: if_splits)
  with sign_write_envelope_Inr [OF s] show ?thesis by blast
qed

lemma sign_for_site_Inr:
  assumes "sign_for_site w env traceId inp contract route requestId siteId = Inr (body, site, effectiveId)"
  shows "site = siteId
    \<and> signed_write w env traceId inp (ca_requiredRole contract) (ro_workerUrl route) (ro_payload route) siteId effectiveId body"
proof -
  obtain base u token expected where s:
    "resolve_signer_base_url w env siteId (ro_workerUrl route) = Inr base"
    "validate_allowlist w base (template_target_allowlist env) traceId = Inr u"
    "resolve_signer_token w env siteId = Inr token"
    "snd (resolve_expected_signature_ref w env siteId) = Inr expected"
    "sign_with w env traceId inp (ca_requiredRole contract) siteId
       (case requestId of Some r \<Rightarrow> r | None \<Rightarrow> ''req-'' @ int_str (tw_requestNow w) @ ''-'' @ tw_requestHex w)
       (ro_payload route) base token expected = Inr (body, site, effectiveId)"
    using assms unfolding sign_for_site_def sum_bind_Inr resolved_Inr by blast
  from sign_with_Inr [OF s(5)] s(1-4) show ?thesis unfolding signed_write_def by (metis (full_types) old.unit.exhaust)
qed

lemma sign_call_Inr:
  assumes "sign_call w env traceId inp contract route requestId = Inr (body, siteId, effectiveId)"
  shows "signed_write w env traceId inp (ca_requiredRole contract) (ro_workerUrl route) (ro_payload route) siteId effectiveId body"
    and "explicit_site_id inp \<in> {None, Some siteId}"
    and "explicit_site_id inp = None \<or> resolve_payload_site_id (ro_payload route) \<in> {None, Some siteId}"
proof -
  obtain site where site: "first_some [explicit_site_id inp, resolve_payload_site_id (ro_payload route), resolve_site_id inp] = Some site"
    "sign_for_site w env traceId inp contract route requestId site = Inr (body, siteId, effectiveId)"
    and eq: "explicit_site_id inp = None \<or> resolve_payload_site_id (ro_payload route) = None
      \<or> explicit_site_id inp = resolve_payload_site_id (ro_payload route)"
    using assms unfolding sign_call_def Let_def by (auto split: if_splits option.splits)
  have s: "siteId = site" "signed_write w env traceId inp (ca_requiredRole contract) (ro_workerUrl route) (ro_payload route) site effectiveId body"
    using sign_for_site_Inr [OF site(2)] by blast+
  show "signed_write w env traceId inp (ca_requiredRole contract) (ro_workerUrl route) (ro_payload route) siteId effectiveId body"
    using s by simp
  show "explicit_site_id inp \<in> {None, Some siteId}"
    using site(1) s(1) by (cases "explicit_site_id inp") auto
  then show "explicit_site_id inp = None \<or> resolve_payload_site_id (ro_payload route) \<in> {None, Some siteId}"
    using eq by auto
qed

lemma upstream_request_Inr:
  assumes "upstream_request w env traceId inp local route envelope requestId siteId = Inr req"
  shows "tw_new_url w (ap_path local) (ro_baseUrl route) = Some (rq_url req)
    \<and> rq_body req = Some (json_stringify (tw_show w) (upstream_body inp local route envelope requestId siteId traceId))
    \<and> \<not> body_exceeds_utf8_limit (json_stringify (tw_show w) (upstream_body inp local route envelope requestId siteId traceId))
          (template_max_body_bytes env)"
proof -
  obtain url where url: "tw_new_url w (ap_path local) (ro_baseUrl route) = Some url"
    using assms by (cases "tw_new_url w (ap_path local) (ro_baseUrl route)") (auto simp: upstream_request_def)
  define body where "body = json_stringify (tw_show w) (upstream_body inp local route envelope requestId siteId traceId)"
  have ok: "\<not> body_exceeds_utf8_limit body (template_max_body_bytes env)"
    using assms url by (cases "body_exceeds_utf8_limit body (template_max_body_bytes env)")
      (simp_all add: upstream_request_def body_def Let_def)
  obtain token where "req = \<lparr>rq_url = url, rq_method = ''POST'',
      rq_headers = upstream_headers w env traceId inp local route requestId siteId body token, rq_body = Some body\<rparr>"
    using assms url ok
    by (auto simp: upstream_request_def Let_def sum_bind_Inr simp flip: body_def simp del: if_split split: if_split_asm)
  with url ok show ?thesis by (simp add: body_def)
qed

section \<open>Properties\<close>

text \<open>
  A request leaves for a backend only after every gate: the action is in the table and in the contract
  with the same path, writes are enabled, the role of a read is allowed (or the action is public), the
  validator and the secret guard accept the payload, a required request id is there, the backend's host
  is on the target allow list if there is one, runtime overrides are enabled or trusted and need such a
  list, and the body is within the limit.
\<close>

theorem forwarded_call_is_admitted:
  assumes "get_resolved_policy w env (ti_action inp) cache = (Some (local, contract), cache')"
    and "prepare_call w env traceId inp local contract = Inr req"
  shows "local \<in> set template_action_policies \<and> ap_action local = ti_action inp \<and> ca_path contract = ap_path local
    \<and> (ap_kind local = WriteAction \<longrightarrow> read_env_string ''GATEWAY_TEMPLATE_ALLOW_MUTATIONS'' env = Some ''1'')
    \<and> (ap_kind local = ReadAction \<longrightarrow>
         require_allowed_role (OneValue (ca_requiredRole contract)) (ti_role inp) (Some ''public'') = Inr ())
    \<and> ap_validate local (ti_payload inp) = Inr ()
    \<and> inspect_template_secret_payload (tw_locale_sort w) env (ti_payload inp) = None
    \<and> (ca_mode contract = IdemRequired \<longrightarrow> non_empty (ti_requestId inp) \<noteq> None)
    \<and> (\<exists>base. tw_new_url w (ap_path local) base = Some (rq_url req)
         \<and> (\<forall>hosts. template_target_allowlist env = Some hosts \<longrightarrow>
               (\<exists>host. target_hostname w (Own base) = Some host \<and> host \<in> set hosts)))
    \<and> (resolve_runtime_write_pid (ti_runtimeHints inp) \<noteq> None \<or> resolve_runtime_worker_url (ti_runtimeHints inp) \<noteq> None
         \<longrightarrow> template_target_allowlist env \<noteq> None)
    \<and> (\<exists>body. rq_body req = Some body \<and> \<not> body_exceeds_utf8_limit body (template_max_body_bytes env))"
proof -
  have find: "get_template_action_policy (ti_action inp) = Some local" "ca_path contract = ap_path local"
    using assms(1) by (auto simp: get_resolved_policy_def split: option.splits prod.splits if_splits)
  obtain requestId route where r: "admit_call w env traceId inp local contract = Inr requestId"
    "route_call w env traceId inp local = Inr route"
    using assms(2) by (auto simp: prepare_call_def sum_bind_Inr)
  obtain envelope rid sid where u: "upstream_request w env traceId inp local route envelope rid sid = Inr req"
    using assms(2) r by (auto simp: prepare_call_def sum_bind_Inr split: if_splits prod.splits)
  show ?thesis
    using find admit_call_Inr [OF r(1)] route_call_Inr [OF r(2)] runtime_override_None(3) [of w env inp] upstream_request_Inr [OF u]
    by (auto simp: get_template_action_policy_def validate_allowlist_Inr find_Some_iff in_set_conv_nth split: option.splits)
qed

text \<open>
  C15: Every write that is sent was signed for its site: the signer of that site (on the allow list if there
  is one) was asked, with the site's token, to sign exactly the envelope that is sent, answered with a
  signature and with the signature reference that is expected for the site if one is, and the envelope
  carries the contract's role (never the caller's), the site as tenant and the payload. Where the host
  was bound to a site, it is that site, and a site named in the payload is the same.
\<close>

theorem forwarded_write_is_signed:
  assumes "prepare_call w env traceId inp local contract = Inr req" and "ap_kind local = WriteAction"
  shows "\<exists>payload siteId requestId body.
      rq_body req = Some (json_stringify (tw_show w) (JObj body))
      \<and> signed_write w env traceId inp (ca_requiredRole contract) (resolve_runtime_worker_url (ti_runtimeHints inp))
            payload siteId requestId body
      \<and> jprop body ''role'' = JStr (ca_requiredRole contract) \<and> jprop body ''tenant'' = JStr siteId
      \<and> jprop body ''payload'' = payload
      \<and> explicit_site_id inp \<in> {None, Some siteId}
      \<and> (explicit_site_id inp = None \<or> resolve_payload_site_id payload \<in> {None, Some siteId})"
proof -
  obtain requestId route body siteId rid where r: "route_call w env traceId inp local = Inr route"
    and s: "sign_call w env traceId inp contract route requestId = Inr (body, siteId, rid)"
      "upstream_request w env traceId inp local route (Some body) (Some rid) (Some siteId) = Inr req"
    using assms by (auto simp: prepare_call_def sum_bind_Inr)
  have sw: "signed_write w env traceId inp (ca_requiredRole contract) (resolve_runtime_worker_url (ti_runtimeHints inp))
      (ro_payload route) siteId rid body"
    using sign_call_Inr(1) [OF s(1)] route_call_Inr [OF r] by simp
  then have "jprop body ''role'' = JStr (ca_requiredRole contract) \<and> jprop body ''tenant'' = JStr siteId
      \<and> jprop body ''payload'' = ro_payload route"
    by (auto simp: signed_write_def build_write_sign_envelope_def jprop_def)
  moreover have "rq_body req = Some (json_stringify (tw_show w) (JObj body))"
    using upstream_request_Inr [OF s(2)] assms(2) by (simp add: upstream_body_def)
  ultimately show ?thesis using sw sign_call_Inr(2,3) [OF s(1)] by blast
qed

section \<open>Witnesses\<close>

definition demo_contract :: jsval where
  "demo_contract = JObj [(''schemaVersion'', JStr ''1''), (''templateId'', JStr ''t''), (''templateVersion'', JStr ''1''),
     (''allowedActions'', JArr [JObj [(''name'', JStr ''checkout.create-order''), (''method'', JStr ''POST''),
        (''path'', JStr ''/api/checkout/order''), (''auth'', JObj [(''requiredRole'', JStr ''shop_admin'')]),
        (''requestSchemaRef'', JStr ''q''), (''responseSchemaRef'', JStr ''r''), (''ratelimitProfile'', JStr ''p''),
        (''idempotency'', JObj [(''mode'', JStr ''required'')])]])]"

definition demo_tpl_world :: tpl_world where
  "demo_tpl_world = \<lparr>tw_parse = (\<lambda>_. Inr demo_contract), tw_show = (\<lambda>_. ''1''), tw_new_url = (\<lambda>p b. Some (b @ p)),
     tw_url = (\<lambda>_. None), tw_hmac = (\<lambda>_ _. ''ab''), tw_locale_sort = id, tw_resolve = id, tw_read_file = (\<lambda>_. Some []),
     tw_traceId = ''t'', tw_nonceHex = ''0a'', tw_requestHex = ''0b'', tw_requestNow = 1000, tw_envelopeNow = 1000,
     tw_sign = (\<lambda>_. SignResponse 200 (Some (JObj [(''signature'', JStr ''s''), (''signatureRef'', JStr ''r'')]))),
     tw_upstream = (\<lambda>_. UpThrew True)\<rparr>"

definition demo_tpl_env :: env where
  "demo_tpl_env = (\<lambda>_. None)(''GATEWAY_TEMPLATE_ALLOW_MUTATIONS'' := Some ''1'', ''WRITE_API_URL'' := Some ''https://w'',
     ''WORKER_API_URL'' := Some ''https://k'', ''WORKER_SIGN_TOKEN'' := Some ''k'')"

definition demo_tpl_input :: tpl_input where
  "demo_tpl_input = \<lparr>ti_action = ''checkout.create-order'',
     ti_payload = JObj [(''siteId'', JStr ''s1''), (''items'', JArr [JNull])], ti_requestId = Some ''q1'',
     ti_siteId = Some (Own ''s1''), ti_runtimeHints = None, ti_runtimeHintsTrusted = False, ti_actor = None,
     ti_role = Some ''guest'', ti_traceId = None\<rparr>"

definition demo_tpl_policy :: action_policy where
  "demo_tpl_policy = the (get_template_action_policy ''checkout.create-order'')"

definition demo_tpl_action :: contract_action where
  "demo_tpl_action = \<lparr>ca_name = ''checkout.create-order'', ca_path = ''/api/checkout/order'', ca_requiredRole = ''shop_admin'',
     ca_requestSchemaRef = ''q'', ca_responseSchemaRef = ''r'', ca_ratelimitProfile = ''p'', ca_mode = IdemRequired, ca_keyHeader = None\<rparr>"

definition demo_tpl_route :: tpl_route where
  "demo_tpl_route = \<lparr>ro_payload = ti_payload demo_tpl_input, ro_baseUrl = ''https://w'', ro_writePid = None, ro_workerUrl = None\<rparr>"

definition demo_tpl_body :: jobj where
  "demo_tpl_body = build_write_sign_envelope demo_tpl_world demo_tpl_input ''s1'' ''q1'' ''shop_admin'' (ti_payload demo_tpl_input)
     @ [(''signature'', JStr ''s''), (''signatureRef'', JStr ''r''), (''templateAction'', JStr ''checkout.create-order'')]"

lemma demo_tpl_contract:
  "fst (get_template_contract_action id (\<lambda>_. Some []) (\<lambda>_. Inr demo_contract) demo_tpl_env ''checkout.create-order'' contract_cache_init)
     = Some demo_tpl_action"
  by code_simp

lemma demo_tpl_policy:
  "get_resolved_policy demo_tpl_world demo_tpl_env ''checkout.create-order'' contract_cache_init
     = (Some (demo_tpl_policy, demo_tpl_action), snd (get_resolved_policy demo_tpl_world demo_tpl_env ''checkout.create-order'' contract_cache_init))"
  "ap_kind demo_tpl_policy = WriteAction" "ap_path demo_tpl_policy = ''/api/checkout/order''"
proof -
  have p: "get_template_action_policy ''checkout.create-order'' = Some demo_tpl_policy"
    by (simp add: demo_tpl_policy_def get_template_action_policy_def template_action_policies_def)
  show k: "ap_kind demo_tpl_policy = WriteAction" and pa: "ap_path demo_tpl_policy = ''/api/checkout/order''"
    by (simp_all add: demo_tpl_policy_def get_template_action_policy_def template_action_policies_def)
  show "get_resolved_policy demo_tpl_world demo_tpl_env ''checkout.create-order'' contract_cache_init
     = (Some (demo_tpl_policy, demo_tpl_action), snd (get_resolved_policy demo_tpl_world demo_tpl_env ''checkout.create-order'' contract_cache_init))"
    using demo_tpl_contract
    by (cases "get_template_contract_action id (\<lambda>_. Some []) (\<lambda>_. Inr demo_contract) demo_tpl_env ''checkout.create-order'' contract_cache_init")
      (simp add: get_resolved_policy_def p pa demo_tpl_action_def demo_tpl_world_def)
qed

lemma demo_tpl_admit: "admit_call demo_tpl_world demo_tpl_env ''t'' demo_tpl_input demo_tpl_policy demo_tpl_action = Inr (Some ''q1'')"
  by code_simp

lemma demo_tpl_routed: "route_call demo_tpl_world demo_tpl_env ''t'' demo_tpl_input demo_tpl_policy = Inr demo_tpl_route"
  by code_simp

lemma demo_tpl_signed:
  "sign_call demo_tpl_world demo_tpl_env ''t'' demo_tpl_input demo_tpl_action demo_tpl_route (Some ''q1'') = Inr (demo_tpl_body, ''s1'', ''q1'')"
  by code_simp

lemma demo_tpl_size: "utf8_len (json_stringify (\<lambda>_. ''1'') (JObj demo_tpl_body)) = 263"
  by code_simp

lemma demo_tpl_prepared:
  "prepare_call demo_tpl_world demo_tpl_env ''t'' demo_tpl_input demo_tpl_policy demo_tpl_action =
     Inr \<lparr>rq_url = ''https://w/api/checkout/order'', rq_method = ''POST'',
       rq_headers = upstream_headers demo_tpl_world demo_tpl_env ''t'' demo_tpl_input demo_tpl_policy demo_tpl_route
         (Some ''q1'') (Some ''s1'') (json_stringify (\<lambda>_. ''1'') (JObj demo_tpl_body)) None,
       rq_body = Some (json_stringify (\<lambda>_. ''1'') (JObj demo_tpl_body))\<rparr>"
proof -
  have max: "template_max_body_bytes demo_tpl_env = 32768"
    by (simp add: template_max_body_bytes_def read_positive_int_env_unset demo_tpl_env_def)
  have auth: "read_upstream_auth_mode demo_tpl_env = AuthNone" "resolve_upstream_token demo_tpl_world demo_tpl_env (Some ''s1'') = Inr None"
    by code_simp+
  have b: "upstream_body demo_tpl_input demo_tpl_policy demo_tpl_route (Some demo_tpl_body) (Some ''q1'') (Some ''s1'') ''t'' = JObj demo_tpl_body"
    by (simp add: upstream_body_def demo_tpl_policy)
  have w: "tw_new_url demo_tpl_world p u = Some (u @ p)" "tw_show demo_tpl_world = (\<lambda>_. ''1'')" for p u
    by (simp_all add: demo_tpl_world_def)
  have r: "ro_baseUrl demo_tpl_route = ''https://w''" by (simp add: demo_tpl_route_def)
  have small: "\<not> body_exceeds_utf8_limit (json_stringify (\<lambda>_. ''1'') (JObj demo_tpl_body)) 32768"
    by (simp add: body_exceeds_utf8_limit_def demo_tpl_size del: json_stringify.simps)
  show ?thesis
    by (simp add: prepare_call_def demo_tpl_admit demo_tpl_routed demo_tpl_signed demo_tpl_policy upstream_request_def b w r max small auth
        Let_def resolved_def del: json_stringify.simps)
qed

lemma forwarded_call_witness:
  "\<exists>base body. (''https://w/api/checkout/order'' :: string) = base @ ''/api/checkout/order''
    \<and> \<not> body_exceeds_utf8_limit body (template_max_body_bytes demo_tpl_env)"
  using forwarded_call_is_admitted [of demo_tpl_world demo_tpl_env demo_tpl_input contract_cache_init, OF _ demo_tpl_prepared]
    demo_tpl_policy(1) by (fastforce simp: demo_tpl_input_def)

lemma forwarded_write_witness:
  "\<exists>payload siteId requestId body.
      json_stringify (\<lambda>_. ''1'') (JObj demo_tpl_body) = json_stringify (\<lambda>_. ''1'') (JObj body)
      \<and> jprop body ''role'' = JStr ''shop_admin'' \<and> jprop body ''payload'' = payload
      \<and> signed_write demo_tpl_world demo_tpl_env ''t'' demo_tpl_input ''shop_admin'' None payload siteId requestId body"
proof -
  have "tw_show demo_tpl_world = (\<lambda>_. ''1'')" "ca_requiredRole demo_tpl_action = ''shop_admin''"
    "resolve_runtime_worker_url (ti_runtimeHints demo_tpl_input) = None"
    by (simp_all add: demo_tpl_world_def demo_tpl_action_def demo_tpl_input_def resolve_runtime_worker_url_def resolve_runtime_hint_value_def)
  with forwarded_write_is_signed [OF demo_tpl_prepared demo_tpl_policy(2)] show ?thesis by auto
qed

end
