(* ===== verification/HttpReply.thy ===== *)
theory HttpReply
  imports Crypto Json
begin

text \<open>
  The replies of the gateway: the security headers (\<open>src/src/securityHeaders.ts\<close>) and the functions of
  \<open>src/src/handler.ts\<close> that build or finish a \<open>Response\<close>. A \<open>Headers\<close> object is the list of its entries
  under their lower-case names; the trace id is the one \<open>traceContext\<close> holds, and is empty where none
  is set.
\<close>

datatype reply_body = NoBody | Text string | Bytes "8 word list"

record http_reply =
  hr_status :: int
  hr_headers :: "string jmap"
  hr_body :: reply_body

definition header_key :: "string \<Rightarrow> string" where
  "header_key name = to_lower name"

definition header_set :: "string \<Rightarrow> string \<Rightarrow> string jmap \<Rightarrow> string jmap" where
  "header_set name v hs = AList.update (header_key name) v hs"

definition header_has :: "string \<Rightarrow> string jmap \<Rightarrow> bool" where
  "header_has name hs \<longleftrightarrow> map_of hs (header_key name) \<noteq> None"

definition header_list :: "(string \<times> string) list \<Rightarrow> string jmap" where
  "header_list kvs = foldl (\<lambda>hs (k, v). header_set k v hs) [] kvs"

text \<open>What the routes read of a \<open>Request\<close>: the query is the list of its parameters, the body is given as
  text and as bytes.\<close>

record gateway_request =
  gq_method :: string
  gq_path :: string
  gq_host :: string
  gq_query :: "(string \<times> string) list"
  gq_headers :: headers
  gq_text :: string
  gq_bytes :: "8 word list"

section \<open>Security headers\<close>

definition default_security_headers :: "(string \<times> string) list" where
  "default_security_headers =
    [(''X-Content-Type-Options'', ''nosniff''), (''X-Frame-Options'', ''DENY''),
     (''Referrer-Policy'', ''no-referrer''), (''X-XSS-Protection'', ''0''),
     (''Strict-Transport-Security'', ''max-age=31536000''),
     (''Cross-Origin-Opener-Policy'', ''same-origin''), (''Cross-Origin-Resource-Policy'', ''same-origin'')]"

definition security_headers_enabled :: "env \<Rightarrow> bool" where
  "security_headers_enabled env \<longleftrightarrow> read_raw_env ''GATEWAY_SECURITY_HEADERS_ENABLE'' env \<noteq> Some ''0''"

definition read_csp_directive :: "env \<Rightarrow> string" where
  "read_csp_directive env = (case read_raw_env ''GATEWAY_SECURITY_HEADERS_CSP'' env of None \<Rightarrow> [] | Some v \<Rightarrow> trim v)"

fun add_missing_headers :: "(string \<times> string) list \<Rightarrow> string jmap \<Rightarrow> string jmap" where
  "add_missing_headers [] hs = hs"
| "add_missing_headers ((k, v) # kvs) hs =
     add_missing_headers kvs (if header_has k hs then hs else header_set k v hs)"

definition apply_security_headers :: "env \<Rightarrow> http_reply \<Rightarrow> http_reply" where
  "apply_security_headers env r =
     (if \<not> security_headers_enabled env then r
      else
        let hs = add_missing_headers default_security_headers (hr_headers r);
            csp = read_csp_directive env
        in r\<lparr>hr_headers := (if csp \<noteq> [] then header_set ''Content-Security-Policy'' csp hs else hs)\<rparr>)"

section \<open>Building replies\<close>

definition set_trace :: "string \<Rightarrow> string jmap \<Rightarrow> string jmap" where
  "set_trace trace hs = (if trace \<noteq> [] then header_set ''x-trace-id'' trace hs else hs)"

text \<open>\<open>new Response\<close> gives a text without a content type one of its own.\<close>

definition text_content_type :: "reply_body \<Rightarrow> string jmap \<Rightarrow> string jmap" where
  "text_content_type body hs =
     (case body of
        Text _ \<Rightarrow> if header_has ''content-type'' hs then hs
                  else header_set ''content-type'' ''text/plain;charset=UTF-8'' hs
      | _ \<Rightarrow> hs)"

definition respond :: "env \<Rightarrow> string \<Rightarrow> reply_body \<Rightarrow> int \<Rightarrow> (string \<times> string) list \<Rightarrow> http_reply" where
  "respond env trace body status kvs =
     apply_security_headers env
       \<lparr>hr_status = status, hr_headers = text_content_type body (set_trace trace (header_list kvs)), hr_body = body\<rparr>"

definition secure_response :: "env \<Rightarrow> string \<Rightarrow> http_reply \<Rightarrow> http_reply" where
  "secure_response env trace r = apply_security_headers env (r\<lparr>hr_headers := set_trace trace (hr_headers r)\<rparr>)"

definition apply_no_store :: "string \<Rightarrow> http_reply \<Rightarrow> http_reply" where
  "apply_no_store trace r =
     (let hs = set_trace trace (hr_headers r)
      in r\<lparr>hr_headers := (if header_has ''cache-control'' hs then hs
            else header_set ''cache-control'' ''no-store'' hs)\<rparr>)"

definition plain_error :: "env \<Rightarrow> string \<Rightarrow> int \<Rightarrow> string \<Rightarrow> http_reply" where
  "plain_error env trace status message =
     respond env trace (Text message) status
       [(''content-type'', ''text/plain; charset=utf-8''), (''cache-control'', ''no-store'')]"

definition json_reply :: "env \<Rightarrow> string \<Rightarrow> (rat \<Rightarrow> string) \<Rightarrow> int \<Rightarrow> jobj \<Rightarrow> (string \<times> string) list \<Rightarrow> http_reply" where
  "json_reply env trace show_num status kvs hs =
     respond env trace (Text (json_stringify show_num (JObj kvs))) status ((''content-type'', ''application/json'') # hs)"

definition json_error_response :: "env \<Rightarrow> string \<Rightarrow> (rat \<Rightarrow> string) \<Rightarrow> int \<Rightarrow> string \<Rightarrow> jobj \<Rightarrow> http_reply" where
  "json_error_response env trace show_num status err extra =
     json_reply env trace show_num status ((''error'', JStr err) # extra) [(''cache-control'', ''no-store'')]"

section \<open>Hardened replies\<close>

text \<open>What every reply of the gateway's routes has: the trace id and, unless they are switched off, each
  of the security headers, with the configured policy where one is set.\<close>

definition hardened :: "env \<Rightarrow> string \<Rightarrow> http_reply \<Rightarrow> bool" where
  "hardened env trace r \<longleftrightarrow>
     map_of (hr_headers r) ''x-trace-id'' = Some trace
     \<and> (security_headers_enabled env \<longrightarrow>
          (\<forall>k \<in> fst ` set default_security_headers. header_has k (hr_headers r))
          \<and> (read_csp_directive env \<noteq> [] \<longrightarrow>
               map_of (hr_headers r) ''content-security-policy'' = Some (read_csp_directive env)))"

lemma header_set_get: "map_of (header_set k v hs) k' = (if k' = header_key k then Some v else map_of hs k')"
  by (simp add: header_set_def)

lemma header_has_set: "header_has k' (header_set k v hs) \<longleftrightarrow> header_key k' = header_key k \<or> header_has k' hs"
  by (simp add: header_has_def header_set_get)

lemma add_missing_get:
  "header_key k' \<notin> header_key ` fst ` set kvs \<Longrightarrow> map_of (add_missing_headers kvs hs) (header_key k') = map_of hs (header_key k')"
  by (induction kvs hs rule: add_missing_headers.induct) (auto simp: header_set_get)

lemma add_missing_keeps: "header_has k hs \<Longrightarrow> header_has k (add_missing_headers kvs hs)"
  by (induction kvs hs rule: add_missing_headers.induct) (auto simp: header_has_set)

lemma add_missing_has: "(k, v) \<in> set kvs \<Longrightarrow> header_has k (add_missing_headers kvs hs)"
proof (induction kvs hs rule: add_missing_headers.induct)
  case (2 k' v' kvs hs)
  then show ?case by (auto simp: header_has_set intro: add_missing_keeps)
qed simp

lemma names_lower [simp]:
  "header_key ''content-type'' = ''content-type''" "header_key ''x-trace-id'' = ''x-trace-id''" "header_key ''cache-control'' = ''cache-control''"
  "header_key ''Content-Security-Policy'' = ''content-security-policy''"
  by code_simp+

lemma trace_not_security: "header_key ''x-trace-id'' \<notin> header_key ` fst ` set default_security_headers"
  by code_simp

lemma hardened_apply:
  assumes "map_of (hr_headers r) ''x-trace-id'' = Some trace"
  shows "hardened env trace (apply_security_headers env r)"
proof -
  have "map_of (add_missing_headers default_security_headers (hr_headers r)) ''x-trace-id'' = Some trace"
    using add_missing_get [OF trace_not_security, of "hr_headers r"] assms by simp
  then show ?thesis
    using assms
    by (auto simp: hardened_def apply_security_headers_def Let_def header_set_get header_has_set
        intro!: add_missing_has)
qed

lemma set_trace_get: "trace \<noteq> [] \<Longrightarrow> map_of (set_trace trace hs) ''x-trace-id'' = Some trace"
  by (simp add: set_trace_def header_set_get)

lemma text_content_type_get: "k \<noteq> ''content-type'' \<Longrightarrow> map_of (text_content_type body hs) k = map_of hs k"
  by (simp add: text_content_type_def header_set_get split: reply_body.splits)

lemma hardened_respond [simp]: "trace \<noteq> [] \<Longrightarrow> hardened env trace (respond env trace body status kvs)"
  by (simp add: respond_def hardened_apply text_content_type_get set_trace_get)

lemma hardened_secure [simp]: "trace \<noteq> [] \<Longrightarrow> hardened env trace (secure_response env trace r)"
  by (simp add: secure_response_def hardened_apply set_trace_get)

lemma hardened_plain [simp]: "trace \<noteq> [] \<Longrightarrow> hardened env trace (plain_error env trace status message)"
  by (simp add: plain_error_def)

lemma hardened_json [simp]: "trace \<noteq> [] \<Longrightarrow> hardened env trace (json_reply env trace show_num status kvs hs)"
  by (simp add: json_reply_def)

lemma hardened_json_error [simp]: "trace \<noteq> [] \<Longrightarrow> hardened env trace (json_error_response env trace show_num status err extra)"
  by (simp add: json_error_response_def)

lemma hardened_no_store:
  assumes "hardened env trace r" and "trace \<noteq> []"
  shows "hardened env trace (apply_no_store trace r)"
  using assms
  by (auto simp: hardened_def apply_no_store_def Let_def set_trace_def header_set_get header_has_set)

lemma hardened_no_store_respond [simp]:
  "trace \<noteq> [] \<Longrightarrow> hardened env trace (apply_no_store trace (respond env trace body status kvs))"
  by (simp add: hardened_no_store)

lemma apply_status [simp]:
  "hr_status (apply_security_headers env r) = hr_status r" "hr_body (apply_security_headers env r) = hr_body r"
  "hr_status (respond env trace body status kvs) = status" "hr_body (respond env trace body status kvs) = body"
  "hr_status (json_reply env trace show_num status obj hs) = status"
  "hr_status (json_error_response env trace show_num status err extra) = status"
  "hr_status (plain_error env trace status message) = status"
  "hr_status (secure_response env trace r) = hr_status r" "hr_body (secure_response env trace r) = hr_body r"
  "hr_status (apply_no_store trace r) = hr_status r" "hr_body (apply_no_store trace r) = hr_body r"
  by (simp_all add: apply_security_headers_def respond_def secure_response_def apply_no_store_def
      json_reply_def json_error_response_def plain_error_def Let_def)

end
