(* ===== verification/Policy.thy ===== *)
theory Policy
  imports HttpReply Checkpoint SiteResolver
begin

text \<open>
  The integrity policy of the gateway and the incidents that change it (\<open>src/src/handler.ts\<close>): the cached
  policy state, resolved from the integrity snapshot, the signed checkpoint or the environment, and the
  handler of \<open>/integrity/incident\<close> with its bounded table of incidents seen. Both are split where the code
  awaits a fetch, so that requests interleave there. The snapshot is kept as a JSON value, because a
  checkpoint's payload is not validated again.
\<close>

section \<open>Reading values\<close>

text \<open>\<open>v.name\<close>, \<^term>\<open>None\<close> where it throws, and \<open>v?.name\<close>.\<close>

definition jget :: "jsval \<Rightarrow> string \<Rightarrow> jsval option" where
  "jget v k =
     (case v of JUndef \<Rightarrow> None | JNull \<Rightarrow> None | JObj obj \<Rightarrow> Some (jprop obj k) | _ \<Rightarrow> Some JUndef)"

definition jopt :: "jsval \<Rightarrow> string \<Rightarrow> jsval" where
  "jopt v k = (case jget v k of None \<Rightarrow> JUndef | Some x \<Rightarrow> x)"

text \<open>The library functions the handler calls: \<open>JSON.parse\<close>, the printing of numbers and of values,
  \<open>Date.parse\<close> and \<open>toISOString\<close>, HMAC-SHA256 in hex, \<open>randomUUID\<close>.\<close>

record policy_world =
  pw_parse :: "string \<Rightarrow> string + jsval"
  pw_show :: "rat \<Rightarrow> string"
  pw_text :: "jsval \<Rightarrow> string"
  pw_date :: "string \<Rightarrow> int option"
  pw_iso :: "int \<Rightarrow> string"
  pw_hmac :: "string \<Rightarrow> string \<Rightarrow> string"
  pw_uuid :: string

definition js_text :: "'a policy_world_scheme \<Rightarrow> jsval \<Rightarrow> string" where
  "js_text w v = (case v of JStr s \<Rightarrow> s | _ \<Rightarrow> pw_text w v)"

text \<open>\<open>String(v || d)\<close>\<close>

definition text_or :: "'a policy_world_scheme \<Rightarrow> jsval \<Rightarrow> string \<Rightarrow> string" where
  "text_or w v d = (if truthy v then js_text w v else d)"

section \<open>Modes\<close>

definition parse_loose_boolean :: "string option \<Rightarrow> bool option" where
  "parse_loose_boolean raw =
     (let v = to_lower (trim (or_empty raw))
      in if or_empty raw = [] then None
         else if v \<in> {''1'', ''true'', ''yes'', ''on''} then Some True
         else if v \<in> {''0'', ''false'', ''no'', ''off''} then Some False else None)"

definition is_production_like_mode :: "env \<Rightarrow> bool" where
  "is_production_like_mode env =
     (case parse_loose_boolean (read_env_string ''GATEWAY_PRODUCTION_LIKE'' env) of
        Some b \<Rightarrow> b
      | None \<Rightarrow>
          to_lower (trim (or_empty (or_else (read_env_string ''GATEWAY_MODE'' env)
            (or_else (read_env_string ''APP_ENV'' env) (read_env_string ''NODE_ENV'' env)))))
          \<in> {''production'', ''prod'', ''staging'', ''stage'', ''preprod'', ''pre-production''})"

datatype internal_route = CacheRoute | ForgetRoute | InboxRoute

definition internal_plane_enabled :: "env \<Rightarrow> internal_route \<Rightarrow> bool \<Rightarrow> bool" where
  "internal_plane_enabled env route productionLike =
     (\<not> productionLike \<or> read_strict_enabled_flag ''GATEWAY_INTERNAL_PLANE_ALLOW_MUTATIONS'' env
      \<or> (case route of
           CacheRoute \<Rightarrow> read_strict_enabled_flag ''GATEWAY_INTERNAL_PLANE_ALLOW_CACHE'' env
         | ForgetRoute \<Rightarrow> read_strict_enabled_flag ''GATEWAY_INTERNAL_PLANE_ALLOW_FORGET'' env
         | InboxRoute \<Rightarrow> read_strict_enabled_flag ''GATEWAY_INTERNAL_PLANE_ALLOW_INBOX'' env))"

definition webhook_write_forward_enabled :: "env \<Rightarrow> bool \<Rightarrow> bool" where
  "webhook_write_forward_enabled env productionLike =
     (case parse_loose_boolean (read_env_string ''GATEWAY_WEBHOOK_WRITE_FORWARD_ENABLED'' env) of
        Some b \<Rightarrow> b | None \<Rightarrow> productionLike)"

section \<open>The policy state\<close>

datatype policy_source = FromEnv | FromAo | FromCheckpoint

record policy_state =
  ps_paused :: bool
  ps_source :: policy_source

record policy_runtime =
  pr_expiresAt :: int
  pr_state :: policy_state
  pr_snapshot :: jsval

record incident_record =
  ir_incidentId :: string
  ir_action :: string
  ir_event :: string
  ir_source :: string
  ir_severity :: string
  ir_paused :: bool
  ir_recordedAt :: string
  ir_seenAt :: int

record policy_system = mstate +
  pl_runtime :: policy_runtime
  pl_replay :: "incident_record jmap"

definition policy_init :: "metrics \<Rightarrow> policy_system" where
  "policy_init m = \<lparr>mx = m,
     pl_runtime = \<lparr>pr_expiresAt = 0, pr_state = \<lparr>ps_paused = False, ps_source = FromEnv\<rparr>, pr_snapshot = JNull\<rparr>,
     pl_replay = []\<rparr>"

definition read_env_policy_state :: "'a policy_world_scheme \<Rightarrow> env \<Rightarrow> policy_state" where
  "read_env_policy_state w env =
     (let fallback = \<lparr>ps_paused = read_strict_enabled_flag ''GATEWAY_INTEGRITY_POLICY_PAUSED'' env, ps_source = FromEnv\<rparr>
      in (case read_env_string ''GATEWAY_INTEGRITY_POLICY_JSON'' env of
            None \<Rightarrow> fallback
          | Some raw \<Rightarrow>
              (case parse_json_object (pw_parse w) raw of
                 Inr (JObj obj) \<Rightarrow>
                   (case jprop obj ''paused'' of JBool b \<Rightarrow> \<lparr>ps_paused = b, ps_source = FromEnv\<rparr> | _ \<Rightarrow> fallback)
               | _ \<Rightarrow> fallback)))"

definition integrity_cache_ttl_ms :: "env \<Rightarrow> int" where
  "integrity_cache_ttl_ms env = read_positive_int_env ''GATEWAY_INTEGRITY_CACHE_TTL_MS'' 10000 env"

definition incident_replay_ttl_ms :: "env \<Rightarrow> int" where
  "incident_replay_ttl_ms env = read_positive_int_env ''GATEWAY_INTEGRITY_INCIDENT_REPLAY_TTL_MS'' 1800000 env"

definition incident_replay_cap :: "env \<Rightarrow> int" where
  "incident_replay_cap env = read_positive_int_env ''GATEWAY_INTEGRITY_INCIDENT_REPLAY_CAP'' 256 env"

definition incident_max_body_bytes :: "env \<Rightarrow> int" where
  "incident_max_body_bytes env = read_positive_int_env ''GATEWAY_INTEGRITY_INCIDENT_MAX_BODY_BYTES'' 16384 env"

definition prune_incident_replay :: "env \<Rightarrow> int \<Rightarrow> policy_system \<Rightarrow> policy_system" where
  "prune_incident_replay env now st =
     (let kept = filter (\<lambda>(_, r). \<not> now - ir_seenAt r > incident_replay_ttl_ms env) (pl_replay st)
      in st\<lparr>pl_replay := snd (evict_while (\<lambda>size. size > incident_replay_cap env) kept)\<rparr>)"

definition paused_gauge :: "bool \<Rightarrow> policy_system \<Rightarrow> policy_system" where
  "paused_gauge paused st = mgauge ''gateway_integrity_policy_paused'' (if paused then 1 else 0) st"

text \<open>The gauges of the audit window; sequence numbers are integers. \<^term>\<open>None\<close> where reading them throws.\<close>

definition audit_number :: "jsval \<Rightarrow> int" where
  "audit_number v = (case v of JNum (Fin q) \<Rightarrow> \<lfloor>q\<rfloor> | _ \<Rightarrow> 0)"

definition set_audit_gauges :: "int \<Rightarrow> int \<Rightarrow> int \<Rightarrow> policy_system \<Rightarrow> policy_system" where
  "set_audit_gauges seqFrom seqTo age st =
     mgauge ''gateway_integrity_checkpoint_age_seconds'' age
       (mgauge ''gateway_integrity_audit_lag_seconds'' age
         (mgauge ''gateway_integrity_audit_seq_to'' seqTo
           (mgauge ''gateway_integrity_audit_seq_from'' seqFrom st)))"

definition update_audit_gauges ::
  "'a policy_world_scheme \<Rightarrow> int \<Rightarrow> jsval \<Rightarrow> policy_system \<Rightarrow> policy_system option" where
  "update_audit_gauges w now snap st =
     (if \<not> truthy snap then Some (set_audit_gauges 0 0 0 st)
      else
        let audit = jopt snap ''audit'' in
        (case (jget audit ''seqFrom'', jget audit ''seqTo'') of
           (Some seqFrom, Some seqTo) \<Rightarrow>
             Some (set_audit_gauges (audit_number seqFrom) (audit_number seqTo)
               (case pw_date w (js_text w (jopt audit ''acceptedAt'')) of
                  None \<Rightarrow> 0 | Some t \<Rightarrow> max 0 ((now - t) div 1000)) st)
         | _ \<Rightarrow> None))"

text \<open>\<open>resolveIntegrityPolicyState\<close> up to the fetch of the snapshot: the cached state, or \<^term>\<open>None\<close> where
  it fetches. \<open>now\<close> is the reading of the clock it keeps.\<close>

definition policy_start :: "int \<Rightarrow> policy_system \<Rightarrow> policy_state option \<times> policy_system" where
  "policy_start now st =
     (let r = pl_runtime st
      in if pr_expiresAt r > now then (Some (pr_state r), paused_gauge (ps_paused (pr_state r)) st) else (None, st))"

text \<open>What the fetch gives: a validated snapshot, or it fails and this is what the checkpoint gives.\<close>

datatype policy_outcome = Fetched snapshot | Unfetched jsval

definition resolved_policy ::
  "'a policy_world_scheme \<Rightarrow> env \<Rightarrow> policy_outcome \<Rightarrow> (policy_state \<times> jsval) option" where
  "resolved_policy w env outcome =
     (case outcome of
        Fetched sn \<Rightarrow> Some (\<lparr>ps_paused = po_paused (sn_policy sn), ps_source = FromAo\<rparr>, snapshot_json sn)
      | Unfetched v \<Rightarrow>
          if \<not> truthy v then Some (read_env_policy_state w env, v)
          else (case jget (jopt v ''policy'') ''paused'' of
              None \<Rightarrow> None
            | Some p \<Rightarrow> Some (\<lparr>ps_paused = truthy p, ps_source = FromCheckpoint\<rparr>, v)))"

definition policy_counters :: "policy_outcome \<Rightarrow> bool \<Rightarrow> policy_system \<Rightarrow> policy_system" where
  "policy_counters outcome ok st =
     (case outcome of
        Fetched _ \<Rightarrow> st
      | Unfetched v \<Rightarrow>
          let st1 = minc ''gateway_integrity_snapshot_fetch_fail'' st
          in if truthy v \<and> ok then minc ''gateway_integrity_checkpoint_restore'' st1 else st1)"

text \<open>The rest of it, from the clock reading \<open>now\<close> kept at the start; \<open>now'\<close> is read for the gauges.
  \<^term>\<open>None\<close> where it throws.\<close>

definition policy_finish ::
  "'a policy_world_scheme \<Rightarrow> env \<Rightarrow> int \<Rightarrow> int \<Rightarrow> policy_outcome \<Rightarrow> policy_system \<Rightarrow> policy_state option \<times> policy_system" where
  "policy_finish w env now now' outcome st0 =
     (let r = resolved_policy w env outcome;
          st1 = policy_counters outcome (r \<noteq> None) st0
      in (case r of
            None \<Rightarrow> (None, st1)
          | Some (state, snap) \<Rightarrow>
              let st2 = paused_gauge (ps_paused state)
                    (st1\<lparr>pl_runtime := \<lparr>pr_expiresAt = now + integrity_cache_ttl_ms env, pr_state = state, pr_snapshot = snap\<rparr>\<rparr>)
              in (case update_audit_gauges w now' snap st2 of
                    None \<Rightarrow> (None, st2) | Some st3 \<Rightarrow> (Some state, st3))))"

text \<open>The outcome as the code obtains it, with the checkpoint it writes.\<close>

record policy_net =
  pn_parse_url :: "string \<Rightarrow> url_parts option"
  pn_fetch :: "string \<Rightarrow> int \<Rightarrow> fetch_end"
  pn_read_file :: "string \<Rightarrow> file_read"

definition policy_fetch ::
  "'a policy_world_scheme \<Rightarrow> env \<Rightarrow> policy_net \<Rightarrow> int \<Rightarrow> metrics \<Rightarrow> policy_outcome \<times> metrics \<times> (string \<times> string) option" where
  "policy_fetch w env net now m =
     (case fetch_integrity_snapshot (pn_parse_url net) env None
         \<lparr>ov_timeoutMs = None, ov_retryAttempts = None, ov_retryBackoffMs = None, ov_retryJitterMs = None\<rparr> True (pn_fetch net) m of
        (Inr sn, m') \<Rightarrow>
          (Fetched sn, m',
           (case write_integrity_checkpoint env (pw_hmac w) (pw_show w) now (snapshot_json sn) None None of
              Inr written \<Rightarrow> written | Inl _ \<Rightarrow> None))
      | (Inl _, m') \<Rightarrow>
          (Unfetched (case read_integrity_checkpoint env (pw_hmac w) (pw_show w) (pw_parse w) now None None (pn_read_file net) of
             Inr (Some v) \<Rightarrow> v | _ \<Rightarrow> JNull), m', None))"

section \<open>Incidents\<close>

definition severities :: "string list" where
  "severities = [''low'', ''medium'', ''high'', ''critical'']"

datatype integrity_role = RootRole | UpgradeRole | EmergencyRole | ReporterRole

fun role_name :: "integrity_role \<Rightarrow> string" where
  "role_name RootRole = ''root''"
| "role_name UpgradeRole = ''upgrade''"
| "role_name EmergencyRole = ''emergency''"
| "role_name ReporterRole = ''reporter''"

definition incident_action_roles :: "string \<Rightarrow> integrity_role list" where
  "incident_action_roles action =
     (if action = ''report'' \<or> action = ''ack'' then [ReporterRole, EmergencyRole, RootRole]
      else if action = ''pause'' \<or> action = ''resume'' then [EmergencyRole, RootRole] else [])"

fun role_refs_from_env :: "incident_auth_config \<Rightarrow> integrity_role \<Rightarrow> string list" where
  "role_refs_from_env c RootRole = ia_root c"
| "role_refs_from_env c UpgradeRole = ia_upgrade c"
| "role_refs_from_env c EmergencyRole = ia_emergency c"
| "role_refs_from_env c ReporterRole = ia_reporter c"

definition set_of_list :: "string list \<Rightarrow> string list" where
  "set_of_list xs = foldl (\<lambda>acc x. if x \<in> set acc then acc else acc @ [x]) [] xs"

definition active_role_refs :: "jsval \<Rightarrow> integrity_role \<Rightarrow> string list" where
  "active_role_refs snap role =
     (let r = trim_string (jopt (jopt snap ''authority'') (role_name role)) in if r \<noteq> [] then [r] else [])"

definition collect_allowed_refs :: "incident_auth_config \<Rightarrow> jsval \<Rightarrow> string \<Rightarrow> string list \<times> string list" where
  "collect_allowed_refs c snap action =
     (let roles = incident_action_roles action
      in (set_of_list (concat (map (active_role_refs snap) roles)),
          set_of_list (concat (map (role_refs_from_env c) roles))))"

definition read_incident_signature_ref :: "incident_auth_config \<Rightarrow> headers \<Rightarrow> jobj \<Rightarrow> string" where
  "read_incident_signature_ref c hs body =
     (let headerRef = (if ia_refHeaderName c \<noteq> [] then read_header_token hs (ia_refHeaderName c) else [])
      in if headerRef \<noteq> [] then headerRef else trim_string (jprop body ''signatureRef''))"

text \<open>What is read of an incident that is admitted.\<close>

record incident_input =
  ii_event :: string
  ii_source :: string
  ii_severity :: string
  ii_action :: string
  ii_id :: "string option"
  ii_body :: jobj

definition read_incident :: "'a policy_world_scheme \<Rightarrow> jobj \<Rightarrow> incident_input" where
  "read_incident w body =
     \<lparr>ii_event = trim (text_or w (jprop body ''event'') []),
      ii_source = trim (text_or w (jprop body ''source'') ''gateway''),
      ii_severity = to_lower (text_or w (jprop body ''severity'') ''medium''),
      ii_action = to_lower (text_or w (jprop body ''action'') ''report''),
      ii_id = (let i = trim_string (jprop body ''incidentId'') in if i \<noteq> [] then Some i else None),
      ii_body = body\<rparr>"

definition incident_error :: "'a policy_world_scheme \<Rightarrow> env \<Rightarrow> string \<Rightarrow> int \<Rightarrow> string \<Rightarrow> http_reply" where
  "incident_error w env trace status err = json_error_response env trace (pw_show w) status err []"

text \<open>The steps before the table of incidents: the reply and the counters where the handler stops.\<close>

definition incident_authenticate ::
  "'a policy_world_scheme \<Rightarrow> env \<Rightarrow> string \<Rightarrow> gateway_request \<Rightarrow> (http_reply \<times> string list) + unit" where
  "incident_authenticate w env trace req =
     (let c = read_incident_auth_config env in
      if gq_method req \<noteq> ''POST'' then Inl (respond env trace (Text ''method'') 405 [], [])
      else if body_exceeds_utf8_limit (gq_text req) (incident_max_body_bytes env) then
        Inl (json_error_response env trace (pw_show w) 413 ''payload_too_large'' [(''retryable'', JBool False)],
          [''gateway_integrity_incident_reject_size''])
      else if ia_token c = [] then Inl (respond env trace (Text ''incident_auth_not_configured'') 500 [], [])
      else if \<not> check_token (gq_headers req) (ia_token c) ''x-incident-token'' then
        Inl (incident_error w env trace 401 ''unauthorized'', [''gateway_integrity_incident_auth_blocked''])
      else Inr ())"

definition incident_validate ::
  "'a policy_world_scheme \<Rightarrow> env \<Rightarrow> string \<Rightarrow> gateway_request \<Rightarrow> (http_reply \<times> string list) + incident_input" where
  "incident_validate w env trace req =
     (case pw_parse w (gq_text req) of
        Inr (JObj body) \<Rightarrow>
          let i = read_incident w body in
          if ii_event i = [] \<or> length (ii_event i) > 128 then Inl (incident_error w env trace 400 ''event_required'', [])
          else if ii_source i = [] \<or> length (ii_source i) > 128 then Inl (incident_error w env trace 400 ''invalid_source'', [])
          else if ii_severity i \<notin> set severities then Inl (incident_error w env trace 400 ''invalid_severity'', [])
          else if ii_action i \<notin> {''report'', ''ack'', ''pause'', ''resume''} then
            Inl (incident_error w env trace 400 ''invalid_action'', [])
          else Inr i
      | _ \<Rightarrow> Inl (incident_error w env trace 400 ''invalid_json'', []))"

definition incident_authorize ::
  "'a policy_world_scheme \<Rightarrow> env \<Rightarrow> string \<Rightarrow> gateway_request \<Rightarrow> jsval \<Rightarrow> incident_input
    \<Rightarrow> (http_reply \<times> string list) + unit" where
  "incident_authorize w env trace req snap i =
     (let c = read_incident_auth_config env; (active, overlap) = collect_allowed_refs c snap (ii_action i);
          presented = read_incident_signature_ref c (gq_headers req) (ii_body i) in
      if ia_requireSignatureRef c \<and> active = [] \<and> overlap = [] then
        Inl (incident_error w env trace 500 ''incident_ref_policy_not_configured'', [])
      else if ia_requireSignatureRef c
        \<and> require_authorized_signature_ref (Some presented) (Values (map JStr active)) (Values (map JStr overlap)) \<noteq> Inr () then
        Inl (incident_error w env trace 403 ''forbidden_signature_ref'', [''gateway_integrity_incident_role_blocked''])
      else if (case ii_id i of None \<Rightarrow> False | Some k \<Rightarrow> length k > 128) then
        Inl (incident_error w env trace 400 ''invalid_incident_id'', [])
      else Inr ())"

definition incident_admit ::
  "'a policy_world_scheme \<Rightarrow> env \<Rightarrow> string \<Rightarrow> gateway_request \<Rightarrow> jsval \<Rightarrow> (http_reply \<times> string list) + incident_input" where
  "incident_admit w env trace req snap =
     sum_bind (incident_authenticate w env trace req) (\<lambda>_.
     sum_bind (incident_validate w env trace req) (\<lambda>i.
     sum_bind (incident_authorize w env trace req snap i) (\<lambda>_. Inr i)))"

definition incident_duplicate :: "'a policy_world_scheme \<Rightarrow> env \<Rightarrow> string \<Rightarrow> incident_record \<Rightarrow> http_reply" where
  "incident_duplicate w env trace r =
     json_reply env trace (pw_show w) 200
       [(''ok'', JBool True), (''duplicate'', JBool True), (''idempotent'', JBool True),
        (''incidentId'', JStr (ir_incidentId r)), (''action'', JStr (ir_action r)), (''paused'', JBool (ir_paused r)),
        (''status'', JStr ''duplicate''), (''recordedAt'', JStr (ir_recordedAt r))]
       [(''cache-control'', ''no-store'')]"

text \<open>A pause or a resumption replaces the cached policy until the cache expires.\<close>

definition set_policy :: "env \<Rightarrow> int \<Rightarrow> bool \<Rightarrow> policy_system \<Rightarrow> policy_system" where
  "set_policy env now paused st =
     paused_gauge paused
       (st\<lparr>pl_runtime := (pl_runtime st)\<lparr>pr_state := \<lparr>ps_paused = paused, ps_source = FromEnv\<rparr>,
          pr_expiresAt := now + integrity_cache_ttl_ms env\<rparr>\<rparr>)"

definition apply_incident_action :: "env \<Rightarrow> int \<Rightarrow> string \<Rightarrow> policy_system \<Rightarrow> policy_system" where
  "apply_incident_action env now action st =
     (if action = ''pause'' then set_policy env now True st
      else if action = ''resume'' then set_policy env now False st else st)"

definition incident_json :: "'a policy_world_scheme \<Rightarrow> (nat \<Rightarrow> int) \<Rightarrow> string \<Rightarrow> incident_input \<Rightarrow> jobj" where
  "incident_json w clk incidentId i =
     (let details = jprop (ii_body i) ''details''; occ = trim_string (jprop (ii_body i) ''occurredAt'')
      in [(''incidentId'', JStr incidentId), (''event'', JStr (ii_event i)), (''source'', JStr (ii_source i)),
          (''severity'', JStr (ii_severity i)), (''action'', JStr (ii_action i)),
          (''occurredAt'', JStr (if occ \<noteq> [] then occ else pw_iso w (clk 2))),
          (''receivedAt'', JStr (pw_iso w (clk 3))),
          (''details'', if details = JUndef then JNull else details)])"

definition record_incident :: "'a policy_world_scheme \<Rightarrow> env \<Rightarrow> (nat \<Rightarrow> int) \<Rightarrow> incident_input \<Rightarrow> policy_system \<Rightarrow> policy_system" where
  "record_incident w env clk i st =
     (case ii_id i of
        None \<Rightarrow> st
      | Some incidentId \<Rightarrow>
          prune_incident_replay env (clk 5)
            (st\<lparr>pl_replay := AList.update incidentId
                \<lparr>ir_incidentId = incidentId, ir_action = ii_action i, ir_event = ii_event i, ir_source = ii_source i,
                 ir_severity = ii_severity i, ir_paused = ps_paused (pr_state (pl_runtime st)),
                 ir_recordedAt = pw_iso w (clk 3), ir_seenAt = clk 4\<rparr> (pl_replay st)\<rparr>))"

definition notify_request :: "'a policy_world_scheme \<Rightarrow> incident_auth_config \<Rightarrow> string \<Rightarrow> string \<Rightarrow> jobj \<Rightarrow> http_request" where
  "notify_request w c trace url incident =
     (let bodyRaw = json_stringify (pw_show w) (JObj incident)
      in \<lparr>rq_url = url, rq_method = ''POST'',
          rq_headers = [(''content-type'', ''application/json'')]
            @ (if trace \<noteq> [] then [(''x-trace-id'', trace)] else [])
            @ (case ia_notifyToken c of None \<Rightarrow> [] | Some t \<Rightarrow> if t = [] then [] else [(''authorization'', ''Bearer '' @ t)])
            @ (case ia_notifyHmac c of None \<Rightarrow> [] | Some k \<Rightarrow> if k = [] then [] else [(''x-signature'', pw_hmac w k bodyRaw)]),
          rq_body = Some bodyRaw\<rparr>)"

definition incident_done :: "'a policy_world_scheme \<Rightarrow> env \<Rightarrow> string \<Rightarrow> string \<Rightarrow> string \<Rightarrow> policy_system \<Rightarrow> http_reply" where
  "incident_done w env trace incidentId action st =
     json_reply env trace (pw_show w) 200
       [(''ok'', JBool True), (''incidentId'', JStr incidentId),
        (''paused'', JBool (ps_paused (pr_state (pl_runtime st)))), (''action'', JStr action)] []"

datatype incident_phase = IncidentReply http_reply | Notifying string string http_request

text \<open>The handler up to the notification, with the clock readings of the code in their order.\<close>

definition incident_start ::
  "'a policy_world_scheme \<Rightarrow> env \<Rightarrow> string \<Rightarrow> (nat \<Rightarrow> int) \<Rightarrow> gateway_request \<Rightarrow> jsval \<Rightarrow> policy_system
    \<Rightarrow> incident_phase \<times> policy_system" where
  "incident_start w env trace clk req snap st0 =
     (case incident_admit w env trace req snap of
        Inl (r, incs) \<Rightarrow> (IncidentReply r, foldl (\<lambda>s k. minc k s) st0 incs)
      | Inr i \<Rightarrow>
          let incidentId = (case ii_id i of Some k \<Rightarrow> k | None \<Rightarrow> pw_uuid w);
              st1 = prune_incident_replay env (clk 0) st0
          in (case Option.bind (ii_id i) (map_of (pl_replay st1)) of
                Some r \<Rightarrow> (IncidentReply (incident_duplicate w env trace r), minc ''gateway_integrity_incident_duplicate'' st1)
              | None \<Rightarrow>
                  let st2 = apply_incident_action env (clk 1) (ii_action i) st1;
                      st3 = record_incident w env clk i (minc ''gateway_integrity_incident'' st2);
                      c = read_incident_auth_config env
                  in (case ia_notifyUrl c of
                        Some url \<Rightarrow>
                          (Notifying incidentId (ii_action i) (notify_request w c trace url (incident_json w clk incidentId i)), st3)
                      | None \<Rightarrow> (IncidentReply (incident_done w env trace incidentId (ii_action i) st3), st3))))"

text \<open>After the notification; only the status of a response that was received is looked at.\<close>

definition incident_finish ::
  "'a policy_world_scheme \<Rightarrow> env \<Rightarrow> string \<Rightarrow> string \<Rightarrow> string \<Rightarrow> fetch_outcome \<Rightarrow> policy_system \<Rightarrow> http_reply \<times> policy_system" where
  "incident_finish w env trace incidentId action outcome st =
     (case outcome of
        Responded r \<Rightarrow>
          if \<not> rp_ok r then
            (json_reply env trace (pw_show w) 502
               [(''error'', JStr ''incident_notify_failed''), (''status'', JNum (Fin (of_int (rp_status r))))] [],
             minc ''gateway_integrity_incident_notify_fail'' st)
          else
            let st1 = minc ''gateway_integrity_incident_notify_ok'' st
            in (incident_done w env trace incidentId action st1, st1)
      | Threw _ \<Rightarrow>
          (json_reply env trace (pw_show w) 502 [(''error'', JStr ''incident_notify_failed'')] [],
           minc ''gateway_integrity_incident_notify_fail'' st))"

section \<open>The table of incidents\<close>

lemma policy_metric_frames [simp]:
  "pl_runtime (minc k st) = pl_runtime st" "pl_replay (minc k st) = pl_replay st"
  "pl_runtime (mgauge k v st) = pl_runtime st" "pl_replay (mgauge k v st) = pl_replay st"
  by (simp_all add: minc_def mgauge_def)

lemma policy_frames [simp]:
  "pl_runtime (paused_gauge p st) = pl_runtime st" "pl_replay (paused_gauge p st) = pl_replay st"
  "pl_runtime (set_audit_gauges a b c st) = pl_runtime st" "pl_replay (set_audit_gauges a b c st) = pl_replay st"
  "pl_runtime (prune_incident_replay env now st) = pl_runtime st"
  by (simp_all add: minc_def mgauge_def paused_gauge_def set_audit_gauges_def prune_incident_replay_def Let_def)

lemma fold_minc [simp]:
  "pl_runtime (foldl (\<lambda>s k. minc k s) st ks) = pl_runtime st"
  "pl_replay (foldl (\<lambda>s k. minc k s) st ks) = pl_replay st"
  by (induction ks arbitrary: st) simp_all

lemma set_update_cases: "x \<in> set (AList.update k v m) \<Longrightarrow> x = (k, v) \<or> x \<in> set m"
  by (induction m) (auto split: if_splits)

definition replay_ok :: "env \<Rightarrow> policy_system \<Rightarrow> bool" where
  "replay_ok env st \<longleftrightarrow> jm_ok (pl_replay st) \<and> int (length (pl_replay st)) \<le> incident_replay_cap env
     \<and> (\<forall>(k, r) \<in> set (pl_replay st). ir_incidentId r = k)"

lemma cap_pos: "0 < incident_replay_cap env"
  by (auto simp: incident_replay_cap_def read_positive_int_env_def split: config_result.splits option.splits)

lemma evict_to_cap:
  assumes "jm_ok m" and "0 < c"
  obtains n where "snd (evict_while (\<lambda>size. size > c) m) = drop n m" "int (length (drop n m)) \<le> c"
    "\<forall>i < n. int (length m - i) > c"
proof -
  from evict_while_drop [OF assms(1), of "\<lambda>size. size > c"] obtain n where
    n: "evict_while (\<lambda>size. size > c) m = (int n, drop n m)" "drop n m = [] \<or> \<not> int (length m - n) > c"
    "\<forall>i < n. int (length m - i) > c" by blast
  have "int (length (drop n m)) \<le> c"
  proof (cases "drop n m = []")
    case False
    then show ?thesis using n(2) by (metis length_drop linorder_not_less)
  qed (use assms(2) in simp)
  with n show ?thesis by (intro that [of n]) (simp_all only: snd_conv)
qed

definition live_incidents :: "env \<Rightarrow> int \<Rightarrow> policy_system \<Rightarrow> incident_record jmap" where
  "live_incidents env now st = filter (\<lambda>(_, r). \<not> now - ir_seenAt r > incident_replay_ttl_ms env) (pl_replay st)"

lemma prune_list:
  assumes "jm_ok (pl_replay st)"
  obtains n where "pl_replay (prune_incident_replay env now st) = drop n (live_incidents env now st)"
    and "int (length (pl_replay (prune_incident_replay env now st))) \<le> incident_replay_cap env"
    and "\<forall>i < n. int (length (live_incidents env now st) - i) > incident_replay_cap env"
proof -
  have "jm_ok (live_incidents env now st)" using assms by (simp add: live_incidents_def)
  from evict_to_cap [OF this cap_pos [of env]] obtain n where
    "snd (evict_while (\<lambda>size. size > incident_replay_cap env) (live_incidents env now st)) = drop n (live_incidents env now st)"
    "int (length (drop n (live_incidents env now st))) \<le> incident_replay_cap env"
    "\<forall>i < n. int (length (live_incidents env now st) - i) > incident_replay_cap env" .
  moreover have "pl_replay (prune_incident_replay env now st)
      = snd (evict_while (\<lambda>size. size > incident_replay_cap env) (live_incidents env now st))"
    by (simp add: prune_incident_replay_def live_incidents_def Let_def)
  ultimately show ?thesis by (intro that [of n]) (simp_all only:)
qed

lemma prune_ok:
  assumes "jm_ok (pl_replay st)" and "\<forall>(k, r) \<in> set (pl_replay st). ir_incidentId r = k"
  shows "replay_ok env (prune_incident_replay env now st)"
proof -
  from prune_list [OF assms(1), of env now] obtain n where
    n: "pl_replay (prune_incident_replay env now st) = drop n (live_incidents env now st)"
    "int (length (pl_replay (prune_incident_replay env now st))) \<le> incident_replay_cap env" by metis
  have "jm_ok (pl_replay (prune_incident_replay env now st))"
    unfolding n(1) drop_map [symmetric] using assms(1) by (intro distinct_drop) (simp add: live_incidents_def)
  moreover have "set (pl_replay (prune_incident_replay env now st)) \<subseteq> set (pl_replay st)"
    unfolding n(1) using set_drop_subset by (fastforce simp: live_incidents_def)
  ultimately show ?thesis using n(2) assms(2) by (auto simp: replay_ok_def)
qed

lemma action_frame [simp]: "pl_replay (apply_incident_action env now action st) = pl_replay st"
  by (simp add: apply_incident_action_def set_policy_def)

lemma record_ok:
  assumes "replay_ok env st"
  shows "replay_ok env (record_incident w env clk i st)"
proof (cases "ii_id i")
  case None
  with assms show ?thesis by (simp add: record_incident_def)
next
  case (Some k)
  have upd: "\<forall>(k', r') \<in> set (AList.update k r (pl_replay st)). ir_incidentId r' = k'" if "ir_incidentId r = k" for r
    using assms that by (auto simp: replay_ok_def dest!: set_update_cases)
  have ok: "jm_ok (pl_replay st)" using assms by (simp add: replay_ok_def)
  show ?thesis
    unfolding record_incident_def Some option.case by (intro prune_ok) (simp add: ok, simp, rule upd, simp)
qed

lemma incident_start_ok:
  assumes "replay_ok env st" and "incident_start w env trace clk req snap st = (ph, st')"
  shows "replay_ok env st'"
proof (cases "incident_admit w env trace req snap")
  case (Inl e)
  then show ?thesis using assms by (auto simp: incident_start_def replay_ok_def split: prod.splits)
next
  case (Inr i)
  let ?st1 = "prune_incident_replay env (clk 0) st"
  have 1: "replay_ok env ?st1" using assms(1) by (auto simp: replay_ok_def intro!: prune_ok [unfolded replay_ok_def])
  have 2: "replay_ok env (record_incident w env clk i (minc k (apply_incident_action env (clk 1) (ii_action i) ?st1)))" for k
    using 1 by (intro record_ok) (simp add: replay_ok_def)
  have 3: "replay_ok env (minc k ?st1)" for k using 1 by (simp add: replay_ok_def)
  show ?thesis using assms(2) Inr 2 3 by (auto simp: incident_start_def Let_def split: option.splits)
qed

section \<open>Requests in flight\<close>

text \<open>Policy lookups and incidents interleave where they await; an incident's snapshot is the one its own
  lookup ended with.\<close>

datatype policy_pending = NoRequest | Refreshing int | NotifyPending string string

inductive policy_step :: "policy_world \<Rightarrow> env \<Rightarrow> policy_system \<times> (nat \<Rightarrow> policy_pending)
    \<Rightarrow> policy_system \<times> (nat \<Rightarrow> policy_pending) \<Rightarrow> bool"
  for w env
where
  LookupCached: "p i = NoRequest \<Longrightarrow> policy_start now st = (Some s, st') \<Longrightarrow> policy_step w env (st, p) (st', p)"
| LookupFetch: "p i = NoRequest \<Longrightarrow> policy_start now st = (None, st')
    \<Longrightarrow> policy_step w env (st, p) (st', p(i := Refreshing now))"
| LookupDone: "p i = Refreshing now \<Longrightarrow> policy_finish w env now now' outcome st = (r, st')
    \<Longrightarrow> policy_step w env (st, p) (st', p(i := NoRequest))"
| Incident: "p i = NoRequest \<Longrightarrow> incident_start w env trace clk req snap st = (IncidentReply r, st')
    \<Longrightarrow> policy_step w env (st, p) (st', p)"
| IncidentNotify: "p i = NoRequest \<Longrightarrow> incident_start w env trace clk req snap st = (Notifying k action nreq, st')
    \<Longrightarrow> policy_step w env (st, p) (st', p(i := NotifyPending k action))"
| IncidentDone: "p i = NotifyPending k action \<Longrightarrow> incident_finish w env trace k action outcome st = (r, st')
    \<Longrightarrow> policy_step w env (st, p) (st', p(i := NoRequest))"

inductive policy_reachable :: "policy_world \<Rightarrow> env \<Rightarrow> policy_system \<times> (nat \<Rightarrow> policy_pending) \<Rightarrow> bool"
  for w env
where
  PolicyInit: "policy_reachable w env (policy_init m, \<lambda>_. NoRequest)"
| PolicyNext: "policy_reachable w env s \<Longrightarrow> policy_step w env s s' \<Longrightarrow> policy_reachable w env s'"

lemma policy_start_frame: "policy_start now st = (r, st') \<Longrightarrow> pl_replay st' = pl_replay st \<and> pl_runtime st' = pl_runtime st"
  by (auto simp: policy_start_def Let_def split: if_splits)

lemma policy_counters_frame [simp]:
  "pl_replay (policy_counters outcome ok st) = pl_replay st" "pl_runtime (policy_counters outcome ok st) = pl_runtime st"
  by (auto simp: policy_counters_def Let_def split: policy_outcome.splits)

lemma audit_frame: "update_audit_gauges w now snap st = Some st' \<Longrightarrow> pl_replay st' = pl_replay st \<and> pl_runtime st' = pl_runtime st"
  by (auto simp: update_audit_gauges_def Let_def split: if_splits option.splits)

lemma policy_finish_replay: "policy_finish w env now now' outcome st = (r, st') \<Longrightarrow> pl_replay st' = pl_replay st"
  by (auto simp: policy_finish_def Let_def split: option.splits dest!: audit_frame)

lemma incident_finish_frame:
  "incident_finish w env trace k action outcome st = (r, st') \<Longrightarrow> pl_replay st' = pl_replay st \<and> pl_runtime st' = pl_runtime st"
  by (auto simp: incident_finish_def Let_def split: fetch_outcome.splits if_splits)

text \<open>
  In any interleaving of policy lookups and incident reports the table of incidents seen holds at most
  the configured number of records, one for each incident id, each under its own id.
\<close>

theorem incident_table_stays_bounded:
  "policy_reachable w env s \<Longrightarrow> replay_ok env (fst s)"
proof (induction rule: policy_reachable.induct)
  case (PolicyInit m)
  show ?case using cap_pos [of env] by (simp add: replay_ok_def policy_init_def)
next
  case (PolicyNext s s')
  from PolicyNext(2) show ?case
  proof cases
    case LookupCached
    then show ?thesis using PolicyNext.IH policy_start_frame by (fastforce simp: replay_ok_def)
  next
    case LookupFetch
    then show ?thesis using PolicyNext.IH policy_start_frame by (fastforce simp: replay_ok_def)
  next
    case LookupDone
    then show ?thesis using PolicyNext.IH policy_finish_replay by (fastforce simp: replay_ok_def)
  next
    case IncidentDone
    then show ?thesis using PolicyNext.IH incident_finish_frame by (fastforce simp: replay_ok_def)
  qed (use PolicyNext.IH incident_start_ok in auto)
qed

section \<open>Who changes the policy\<close>

lemma start_changes:
  assumes "incident_start w env trace clk req snap st = (ph, st')"
    and "pr_state (pl_runtime st') \<noteq> pr_state (pl_runtime st)"
  obtains i where "incident_admit w env trace req snap = Inr i" "ii_action i \<in> {''pause'', ''resume''}"
    "pr_state (pl_runtime st') = \<lparr>ps_paused = (ii_action i = ''pause''), ps_source = FromEnv\<rparr>"
proof (cases "incident_admit w env trace req snap")
  case (Inl e)
  then show ?thesis using assms by (auto simp: incident_start_def split: prod.splits)
next
  case (Inr i)
  have run: "pl_runtime (record_incident w env clk i s) = pl_runtime s" for s
    by (simp add: record_incident_def split: option.splits)
  have "pl_runtime st' = pl_runtime (apply_incident_action env (clk 1) (ii_action i) (prune_incident_replay env (clk 0) st))
      \<or> pl_runtime st' = pl_runtime st"
    using assms(1) Inr by (auto simp: incident_start_def Let_def run split: option.splits)
  with that [OF Inr] assms(2) show ?thesis
    by (auto simp: apply_incident_action_def set_policy_def split: if_splits)
qed

lemma incident_admit_Inr:
  assumes "incident_admit w env trace req snap = Inr i"
  shows "incident_authenticate w env trace req = Inr ()" and "incident_validate w env trace req = Inr i"
    and "incident_authorize w env trace req snap i = Inr ()"
  using assms by (auto simp: incident_admit_def sum_bind_Inr)

lemma incident_validate_Inr:
  "incident_validate w env trace req = Inr i \<Longrightarrow> \<exists>body. pw_parse w (gq_text req) = Inr (JObj body) \<and> i = read_incident w body"
  by (auto simp: incident_validate_def Let_def split: sum.splits jsval.splits if_splits)

lemma set_of_list [simp]: "set (set_of_list xs) = set xs"
proof -
  have "set (foldl (\<lambda>acc x. if x \<in> set acc then acc else acc @ [x]) a xs) = set a \<union> set xs" for a
    by (induction xs arbitrary: a) auto
  then show ?thesis by (simp add: set_of_list_def)
qed

text \<open>The references that may act for a role: the snapshot's authority and the configured ones.\<close>

definition role_refs :: "env \<Rightarrow> jsval \<Rightarrow> integrity_role \<Rightarrow> string set" where
  "role_refs env snap role =
     trim ` (set (active_role_refs snap role) \<union> set (role_refs_from_env (read_incident_auth_config env) role))"

lemma authorize_Inr:
  assumes "incident_authorize w env trace req snap i = Inr ()"
    and "ia_requireSignatureRef (read_incident_auth_config env)"
  shows "\<exists>role \<in> set (incident_action_roles (ii_action i)).
    trim (read_incident_signature_ref (read_incident_auth_config env) (gq_headers req) (ii_body i)) \<in> role_refs env snap role"
  using assms
  by (auto simp: incident_authorize_def collect_allowed_refs_def require_authorized_signature_ref_def Let_def
      policy_values_set default_normalize_iff role_refs_def image_iff split: if_splits option.splits)

text \<open>
  C11: The integrity policy is paused or resumed by an incident report only when the request carries the
  configured incident token, the report's action is pause or resume, and, where signature references
  are required, the presented reference belongs to the emergency or root role of the snapshot's authority
  or of the configuration.
\<close>

theorem policy_change_is_authorised:
  assumes "incident_start w env trace clk req snap st = (ph, st')"
    and "pr_state (pl_runtime st') \<noteq> pr_state (pl_runtime st)"
  shows "ia_token (read_incident_auth_config env) \<noteq> []
    \<and> check_token (gq_headers req) (ia_token (read_incident_auth_config env)) ''x-incident-token''
    \<and> (\<exists>body. pw_parse w (gq_text req) = Inr (JObj body)
        \<and> ii_action (read_incident w body) = (if ps_paused (pr_state (pl_runtime st')) then ''pause'' else ''resume'')
        \<and> (ia_requireSignatureRef (read_incident_auth_config env) \<longrightarrow>
             trim (read_incident_signature_ref (read_incident_auth_config env) (gq_headers req) body)
             \<in> role_refs env snap EmergencyRole \<union> role_refs env snap RootRole))"
proof -
  from start_changes [OF assms] obtain i where i: "incident_admit w env trace req snap = Inr i"
    "ii_action i \<in> {''pause'', ''resume''}"
    "pr_state (pl_runtime st') = \<lparr>ps_paused = (ii_action i = ''pause''), ps_source = FromEnv\<rparr>" .
  note parts = incident_admit_Inr [OF i(1)]
  from incident_validate_Inr [OF parts(2)] obtain body where
    body: "pw_parse w (gq_text req) = Inr (JObj body)" "i = read_incident w body" by blast
  have "ii_body i = body" by (simp add: body(2) read_incident_def Let_def)
  moreover have "incident_action_roles (ii_action i) = [EmergencyRole, RootRole]"
    using i(2) by (auto simp: incident_action_roles_def)
  ultimately have "ia_requireSignatureRef (read_incident_auth_config env) \<longrightarrow>
      trim (read_incident_signature_ref (read_incident_auth_config env) (gq_headers req) body)
      \<in> role_refs env snap EmergencyRole \<union> role_refs env snap RootRole"
    using authorize_Inr [OF parts(3)] by auto
  moreover have "ia_token (read_incident_auth_config env) \<noteq> []
      \<and> check_token (gq_headers req) (ia_token (read_incident_auth_config env)) ''x-incident-token''"
    using parts(1) by (auto simp: incident_authenticate_def Let_def split: if_splits)
  ultimately show ?thesis using i body by auto
qed

section \<open>An incident is handled once\<close>

lemma update_fresh: "map_of m k = None \<Longrightarrow> AList.update k v m = m @ [(k, v)]"
  by (induction m) (auto split: if_splits)

lemma newest_survives:
  assumes "jm_ok (pl_replay st @ [(k, r)])" and "now - ir_seenAt r \<le> incident_replay_ttl_ms env"
  shows "map_of (pl_replay (prune_incident_replay env now (st\<lparr>pl_replay := pl_replay st @ [(k, r)]\<rparr>))) k = Some r"
proof -
  let ?st = "st\<lparr>pl_replay := pl_replay st @ [(k, r)]\<rparr>"
  define xs where "xs = live_incidents env now st"
  have live: "live_incidents env now ?st = xs @ [(k, r)]" using assms(2) by (simp add: live_incidents_def xs_def)
  have k: "k \<notin> fst ` set xs" using assms(1) by (auto simp: xs_def live_incidents_def)
  have ok: "jm_ok (pl_replay ?st)" using assms(1) by simp
  from prune_list [OF ok, of env now, unfolded live] obtain n where
    n: "pl_replay (prune_incident_replay env now ?st) = drop n (xs @ [(k, r)])"
    "\<forall>i < n. int (length (xs @ [(k, r)]) - i) > incident_replay_cap env" by metis
  have "n \<le> length xs"
  proof (rule ccontr)
    assume "\<not> n \<le> length xs"
    then have "int (length (xs @ [(k, r)]) - length xs) > incident_replay_cap env" using n(2) by (meson not_le_imp_less)
    then show False using cap_pos [of env] by simp
  qed
  then have "pl_replay (prune_incident_replay env now ?st) = drop n xs @ [(k, r)]" using n(1) by simp
  moreover have "k \<notin> fst ` set (drop n xs)" using k set_drop_subset by (metis image_mono subsetD)
  ultimately show ?thesis by (simp add: map_of_append map_add_def fst_set_map_of split: option.splits)
qed

lemma live_survives:
  assumes "replay_ok env st" and "map_of (pl_replay st) k = Some r" and "now - ir_seenAt r \<le> incident_replay_ttl_ms env"
  shows "map_of (pl_replay (prune_incident_replay env now st)) k = Some r"
proof -
  have ok: "jm_ok (pl_replay st)" using assms(1) by (simp add: replay_ok_def)
  from prune_list [OF ok, of env now] obtain n where
    n: "pl_replay (prune_incident_replay env now st) = drop n (live_incidents env now st)"
    "\<forall>i < n. int (length (live_incidents env now st) - i) > incident_replay_cap env" by metis
  have "length (live_incidents env now st) \<le> length (pl_replay st)" by (simp add: live_incidents_def)
  then have "n = 0" using n(2) assms(1) by (fastforce simp: replay_ok_def)
  moreover have "map_of (live_incidents env now st) k = Some r"
    using assms(2,3) ok by (auto simp: live_incidents_def map_of_eq_Some_iff distinct_map_filter)
  ultimately show ?thesis using n(1) by simp
qed

lemma recorded_incident:
  assumes "jm_ok (pl_replay st)" and "ii_id i = Some k" and "map_of (pl_replay st) k = None"
    and "clk 5 - clk 4 \<le> incident_replay_ttl_ms env"
  shows "\<exists>r. map_of (pl_replay (record_incident w env clk i st)) k = Some r \<and> ir_incidentId r = k
    \<and> ir_action r = ii_action i \<and> ir_paused r = ps_paused (pr_state (pl_runtime st)) \<and> ir_seenAt r = clk 4"
proof -
  define r where "r = \<lparr>ir_incidentId = k, ir_action = ii_action i, ir_event = ii_event i, ir_source = ii_source i,
    ir_severity = ii_severity i, ir_paused = ps_paused (pr_state (pl_runtime st)),
    ir_recordedAt = pw_iso w (clk 3), ir_seenAt = clk 4\<rparr>"
  have "jm_ok (pl_replay st @ [(k, r)])" using assms(1,3) by (auto simp: fst_set_map_of)
  then have "map_of (pl_replay (prune_incident_replay env (clk 5) (st\<lparr>pl_replay := pl_replay st @ [(k, r)]\<rparr>))) k = Some r"
    by (rule newest_survives) (use assms(4) in \<open>simp add: r_def\<close>)
  then show ?thesis using assms(2,3) by (simp add: record_incident_def update_fresh r_def [symmetric]) (simp add: r_def)
qed

text \<open>
  An incident report with an id that is admitted for the first time is acted on and remembered; while the
  table keeps it and its time to live lasts, a report with the same id, whatever else it asks for, is
  answered with the recorded outcome and leaves the policy as it is.
\<close>

theorem incident_is_handled_once:
  assumes ok: "replay_ok env st"
    and first: "incident_start w env trace clk req snap st = (ph, st1)"
      "incident_admit w env trace req snap = Inr i" "ii_id i = Some k"
      "map_of (pl_replay (prune_incident_replay env (clk 0) st)) k = None"
    and between: "pl_replay st2 = pl_replay st1"
    and second: "incident_start w env trace' clk' req' snap' st2 = (ph', st3)"
      "incident_admit w env trace' req' snap' = Inr i'" "ii_id i' = Some k"
    and times: "clk 5 - clk 4 \<le> incident_replay_ttl_ms env" "clk' 0 - clk 4 \<le> incident_replay_ttl_ms env"
  shows "\<exists>r. ph' = IncidentReply (incident_duplicate w env trace' r) \<and> ir_incidentId r = k \<and> ir_action r = ii_action i
    \<and> (ii_action i = ''pause'' \<longrightarrow> ir_paused r) \<and> (ii_action i = ''resume'' \<longrightarrow> \<not> ir_paused r)
    \<and> pl_runtime st3 = pl_runtime st2"
proof -
  define st' where "st' = minc ''gateway_integrity_incident''
    (apply_incident_action env (clk 1) (ii_action i) (prune_incident_replay env (clk 0) st))"
  have ok': "replay_ok env (prune_incident_replay env (clk 0) st)"
    using ok by (auto simp: replay_ok_def intro!: prune_ok [unfolded replay_ok_def])
  have "st1 = record_incident w env clk i st'"
    using first by (auto simp: incident_start_def st'_def Let_def split: option.splits)
  moreover have "jm_ok (pl_replay st')" "map_of (pl_replay st') k = None"
    using ok' first(4) by (simp_all add: st'_def replay_ok_def)
  moreover have "ii_action i = ''pause'' \<Longrightarrow> ps_paused (pr_state (pl_runtime st'))"
    "ii_action i = ''resume'' \<Longrightarrow> \<not> ps_paused (pr_state (pl_runtime st'))"
    by (simp_all add: st'_def apply_incident_action_def set_policy_def)
  ultimately obtain r where r: "map_of (pl_replay st1) k = Some r" "ir_incidentId r = k" "ir_action r = ii_action i"
    "ii_action i = ''pause'' \<longrightarrow> ir_paused r" "ii_action i = ''resume'' \<longrightarrow> \<not> ir_paused r" "ir_seenAt r = clk 4"
    using recorded_incident [of st' i k clk env w] first(3) times(1) by auto
  have "replay_ok env st2" using incident_start_ok [OF ok first(1)] between by (simp add: replay_ok_def)
  then have "map_of (pl_replay (prune_incident_replay env (clk' 0) st2)) k = Some r"
    by (rule live_survives) (use between r(1,6) times(2) in simp_all)
  then show ?thesis using second r by (auto simp: incident_start_def Let_def)
qed

section \<open>Pauses and lookups in flight\<close>

text \<open>After a pause every lookup before the cache expires finds the gateway paused.\<close>

lemma pause_holds:
  assumes "pl_runtime st' = pl_runtime (set_policy env t True st)" and "now < t + integrity_cache_ttl_ms env"
  shows "fst (policy_start now st') = Some \<lparr>ps_paused = True, ps_source = FromEnv\<rparr>"
  using assms by (simp add: policy_start_def set_policy_def Let_def)

text \<open>
  A lookup that was waiting for its snapshot when the incident was reported overwrites the pause with
  what it fetched: the gateway is running again although the pause was acknowledged.
\<close>

lemma lookup_in_flight_undoes_pause:
  assumes paused: "pl_runtime st1 = pl_runtime (set_policy env t True st)"
    and "po_paused (sn_policy sn) = False"
    and "policy_finish w env now now' (Fetched sn) st1 = (r, st2)" and "later < now + integrity_cache_ttl_ms env"
  shows "\<exists>s. fst (policy_start later st2) = Some s \<and> \<not> ps_paused s"
proof -
  have "pl_runtime st2 = \<lparr>pr_expiresAt = now + integrity_cache_ttl_ms env,
      pr_state = \<lparr>ps_paused = po_paused (sn_policy sn), ps_source = FromAo\<rparr>, pr_snapshot = snapshot_json sn\<rparr>"
    using assms(3) by (auto simp: policy_finish_def resolved_policy_def Let_def split: option.splits dest!: audit_frame)
  with assms show ?thesis by (simp add: policy_start_def Let_def)
qed

section \<open>Witnesses\<close>

definition demo_policy_world :: policy_world where
  "demo_policy_world = \<lparr>pw_parse = (\<lambda>s. if s = ''pause'' then Inr (JObj [(''event'', JStr ''breach''),
        (''action'', JStr ''pause''), (''incidentId'', JStr ''i1''), (''signatureRef'', JStr ''ref1'')]) else Inl []),
     pw_show = (\<lambda>_. ''0''), pw_text = (\<lambda>_. []), pw_date = (\<lambda>_. None), pw_iso = (\<lambda>_. ''now''),
     pw_hmac = (\<lambda>_ _. ''00''), pw_uuid = ''uuid''\<rparr>"

definition demo_policy_env :: env where
  "demo_policy_env = map_of
     [(''GATEWAY_INTEGRITY_INCIDENT_TOKEN'', ''tok''), (''GATEWAY_INTEGRITY_INCIDENT_REQUIRE_SIGNATURE_REF'', ''1''),
      (''GATEWAY_INTEGRITY_INCIDENT_REPLAY_TTL_MS'', ''9''), (''GATEWAY_INTEGRITY_INCIDENT_REPLAY_CAP'', ''2''),
      (''GATEWAY_INTEGRITY_INCIDENT_MAX_BODY_BYTES'', ''99''), (''GATEWAY_INTEGRITY_CACHE_TTL_MS'', ''9'')]"

definition demo_incident_request :: gateway_request where
  "demo_incident_request = \<lparr>gq_method = ''POST'', gq_path = ''/integrity/incident'', gq_host = ''h'', gq_query = [],
     gq_headers = map_of [(''x-incident-token'', ''tok'')], gq_text = ''pause'', gq_bytes = []\<rparr>"

definition demo_policy_snapshot :: jsval where
  "demo_policy_snapshot = JObj [(''authority'', JObj [(''emergency'', JStr ''ref1'')])]"

definition demo_incident :: incident_input where
  "demo_incident = \<lparr>ii_event = ''breach'', ii_source = ''gateway'', ii_severity = ''medium'', ii_action = ''pause'',
     ii_id = Some ''i1'', ii_body = [(''event'', JStr ''breach''), (''action'', JStr ''pause''),
        (''incidentId'', JStr ''i1''), (''signatureRef'', JStr ''ref1'')]\<rparr>"

lemma demo_limit: "incident_max_body_bytes demo_policy_env = 99" "incident_replay_ttl_ms demo_policy_env = 9"
  by code_simp+

lemma demo_auth: "read_incident_auth_config demo_policy_env = \<lparr>ia_token = ''tok'', ia_requireSignatureRef = True,
    ia_refHeaderName = ''x-signature-ref'', ia_root = [], ia_upgrade = [], ia_emergency = [], ia_reporter = [],
    ia_notifyUrl = None, ia_notifyToken = None, ia_notifyHmac = None\<rparr>"
  by code_simp

lemma demo_token: "check_token (gq_headers demo_incident_request) ''tok'' ''x-incident-token''"
  by code_simp

lemma demo_incident_read: "read_incident demo_policy_world (ii_body demo_incident) = demo_incident"
  by code_simp

lemma demo_size: "\<not> body_exceeds_utf8_limit (gq_text demo_incident_request) 99"
  by code_simp

lemma demo_request_simps:
  "gq_method demo_incident_request = ''POST''" "pw_parse demo_policy_world (gq_text demo_incident_request) = Inr (JObj (ii_body demo_incident))"
  by code_simp+

lemma demo_incident_simps: "ii_id demo_incident = Some ''i1''" "ii_action demo_incident = ''pause''"
  by code_simp+

lemma demo_authenticated: "incident_authenticate demo_policy_world demo_policy_env ''t'' demo_incident_request = Inr ()"
  by (simp add: incident_authenticate_def demo_auth demo_limit demo_token demo_size demo_request_simps)

lemma demo_validated: "incident_validate demo_policy_world demo_policy_env ''t'' demo_incident_request = Inr demo_incident"
  by (simp add: incident_validate_def demo_request_simps demo_incident_read) (simp add: demo_incident_def severities_def)

lemma demo_ref:
  "require_authorized_signature_ref (Some (read_incident_signature_ref (read_incident_auth_config demo_policy_env)
      (gq_headers demo_incident_request) (ii_body demo_incident)))
     (Values (map JStr (fst (collect_allowed_refs (read_incident_auth_config demo_policy_env) demo_policy_snapshot ''pause''))))
     (Values (map JStr (snd (collect_allowed_refs (read_incident_auth_config demo_policy_env) demo_policy_snapshot ''pause'')))) = Inr ()"
  "fst (collect_allowed_refs (read_incident_auth_config demo_policy_env) demo_policy_snapshot ''pause'') \<noteq> []"
  by code_simp+

lemma demo_authorized:
  "incident_authorize demo_policy_world demo_policy_env ''t'' demo_incident_request demo_policy_snapshot demo_incident = Inr ()"
  using demo_ref by (simp add: incident_authorize_def Let_def split_beta demo_incident_simps)

lemma demo_admitted:
  "incident_admit demo_policy_world demo_policy_env ''t'' demo_incident_request demo_policy_snapshot = Inr demo_incident"
  by (simp add: incident_admit_def demo_authenticated demo_validated demo_authorized)

definition demo_pause :: "(nat \<Rightarrow> int) \<Rightarrow> policy_system \<Rightarrow> incident_phase \<times> policy_system" where
  "demo_pause clk = incident_start demo_policy_world demo_policy_env ''t'' clk demo_incident_request demo_policy_snapshot"

lemma demo_empty: "pl_replay (prune_incident_replay env now (policy_init m)) = []"
  by (simp add: prune_incident_replay_def policy_init_def evict_while.simps)

lemma demo_first: "map_of (pl_replay (prune_incident_replay env now (policy_init m))) k = None"
  by (simp add: demo_empty)

lemma demo_runtime: "pl_runtime (record_incident w env clk i st) = pl_runtime st"
  by (simp add: record_incident_def split: option.splits)

lemma demo_paused: "pr_state (pl_runtime (snd (demo_pause clk (policy_init m)))) = \<lparr>ps_paused = True, ps_source = FromEnv\<rparr>"
  by (simp add: demo_pause_def incident_start_def demo_admitted demo_incident_simps demo_first demo_auth demo_runtime
      apply_incident_action_def set_policy_def Let_def)

theorem policy_change_witness:
  "pr_state (pl_runtime (snd (demo_pause int (policy_init metrics_empty)))) \<noteq> pr_state (pl_runtime (policy_init metrics_empty))
     \<and> trim (read_incident_signature_ref (read_incident_auth_config demo_policy_env) (gq_headers demo_incident_request)
          (ii_body demo_incident)) \<in> role_refs demo_policy_env demo_policy_snapshot EmergencyRole \<union> role_refs demo_policy_env demo_policy_snapshot RootRole"
proof -
  obtain ph st' where st: "demo_pause int (policy_init metrics_empty) = (ph, st')" by (cases "demo_pause int (policy_init metrics_empty)")
  have changed: "pr_state (pl_runtime st') \<noteq> pr_state (pl_runtime (policy_init metrics_empty))"
    using demo_paused [of int metrics_empty] st by (simp add: policy_init_def)
  from policy_change_is_authorised [OF st [unfolded demo_pause_def] changed] show ?thesis
    using st changed by (auto simp: demo_auth demo_request_simps)
qed

theorem incident_table_witness:
  "\<exists>s. policy_reachable demo_policy_world demo_policy_env s \<and> map_of (pl_replay (fst s)) ''i1'' \<noteq> None
     \<and> replay_ok demo_policy_env (fst s)"
proof -
  obtain ph st' where st: "demo_pause (\<lambda>_. 0) (policy_init metrics_empty) = (ph, st')"
    by (cases "demo_pause (\<lambda>_. 0) (policy_init metrics_empty)")
  have eqs: "st' = record_incident demo_policy_world demo_policy_env (\<lambda>_. 0) demo_incident
      (minc ''gateway_integrity_incident'' (apply_incident_action demo_policy_env 0 ''pause''
        (prune_incident_replay demo_policy_env 0 (policy_init metrics_empty))))" "\<exists>r. ph = IncidentReply r"
    using st by (auto simp: demo_pause_def incident_start_def demo_admitted demo_incident_simps demo_first demo_auth Let_def)
  have "policy_reachable demo_policy_world demo_policy_env (st', \<lambda>_. NoRequest)"
    using policy_reachable.PolicyNext [OF policy_reachable.PolicyInit policy_step.Incident] st eqs(2)
    by (auto simp: demo_pause_def)
  moreover have "map_of (pl_replay st') ''i1'' \<noteq> None"
    using recorded_incident [of "minc ''gateway_integrity_incident'' (apply_incident_action demo_policy_env 0 ''pause''
        (prune_incident_replay demo_policy_env 0 (policy_init metrics_empty)))" demo_incident "''i1''" "\<lambda>_. 0" demo_policy_env demo_policy_world]
    by (auto simp: eqs(1) demo_incident_simps demo_empty demo_limit)
  ultimately show ?thesis using incident_table_stays_bounded by (metis fst_conv)
qed

theorem incident_once_witness:
  "\<exists>r st3. demo_pause (\<lambda>_. 1) (snd (demo_pause (\<lambda>_. 0) (policy_init metrics_empty)))
       = (IncidentReply (incident_duplicate demo_policy_world demo_policy_env ''t'' r), st3)
     \<and> ir_action r = ''pause'' \<and> ir_paused r"
proof -
  obtain ph st1 where st: "demo_pause (\<lambda>_. 0) (policy_init metrics_empty) = (ph, st1)"
    by (cases "demo_pause (\<lambda>_. 0) (policy_init metrics_empty)")
  obtain ph' st3 where st': "demo_pause (\<lambda>_. 1) st1 = (ph', st3)" by (cases "demo_pause (\<lambda>_. 1) st1")
  have ok: "replay_ok demo_policy_env (policy_init metrics_empty)"
    using cap_pos [of demo_policy_env] by (simp add: replay_ok_def policy_init_def)
  from incident_is_handled_once [OF ok st [unfolded demo_pause_def] demo_admitted demo_incident_simps(1) demo_first refl
      st' [unfolded demo_pause_def] demo_admitted demo_incident_simps(1)]
  show ?thesis using st st' by (auto simp: demo_limit demo_incident_simps)
qed

end
