(* ===== verification/FrontController.thy ===== *)
theory FrontController
  imports HttpReply SiteResolver
begin

text \<open>
  Serving a site's page from a pinned template (\<open>src/src/frontController.ts\<close>): which template a host
  gets, the fetch with its hash check, and the cache by host. A request is split where it awaits the
  index and where it awaits the template, so that requests interleave there. The cached objects are an
  explicit store, because a request may still hold an object that another request has replaced.
\<close>

section \<open>Settings\<close>

definition front_as_string :: "jsval \<Rightarrow> string option" where
  "front_as_string v = (let t = trim_string v in if length t > 0 then Some t else None)"

definition front_env_string :: "string \<Rightarrow> env \<Rightarrow> string option" where
  "front_env_string name env =
     (case load_string_config env name no_options of
        ConfigFail _ _ _ _ \<Rightarrow> None
      | ConfigOk _ v _ \<Rightarrow> (case v of None \<Rightarrow> None | Some s \<Rightarrow> front_as_string (JStr s)))"

definition front_env_json :: "string \<Rightarrow> env \<Rightarrow> jsval" where
  "front_env_json name env = (case front_env_string name env of None \<Rightarrow> JUndef | Some s \<Rightarrow> JStr s)"

definition normalize_front_host :: "string \<Rightarrow> string" where
  "normalize_front_host host = normalize_resolver_host host"

definition front_cache_ttl_ms :: "env \<Rightarrow> int" where
  "front_cache_ttl_ms env = read_positive_int_env ''GATEWAY_FRONT_CONTROLLER_CACHE_TTL_MS'' 60000 env"

definition read_ar_gateway_base_url :: "env \<Rightarrow> string" where
  "read_ar_gateway_base_url env =
     (case front_env_string ''GATEWAY_FRONT_CONTROLLER_AR_GATEWAY_URL'' env of
        None \<Rightarrow> ''https://arweave.net''
      | Some u \<Rightarrow> rev (dropWhile (\<lambda>c. c = CHR ''/'') (rev u)))"

definition is_truthy :: "string option \<Rightarrow> bool" where
  "is_truthy raw = (to_lower (trim (or_empty raw)) \<in> {''1'', ''true'', ''yes'', ''on''})"

definition read_require_hash :: "env \<Rightarrow> bool" where
  "read_require_hash env = is_truthy (front_env_string ''GATEWAY_FRONT_CONTROLLER_REQUIRE_HASH'' env)"

definition read_locked_release_mode :: "env \<Rightarrow> bool" where
  "read_locked_release_mode env = is_truthy (front_env_string ''GATEWAY_FRONT_CONTROLLER_LOCKED_RELEASE'' env)"

definition parse_tx_id :: "jsval \<Rightarrow> string option" where
  "parse_tx_id v =
     (case front_as_string v of
        None \<Rightarrow> None
      | Some t \<Rightarrow> if matches_class (\<lambda>c. is_alnum c \<or> c = CHR ''_'' \<or> c = CHR ''-'') 8 128 t then Some t else None)"

definition parse_sha256 :: "jsval \<Rightarrow> string option" where
  "parse_sha256 v =
     (case front_as_string v of
        None \<Rightarrow> None
      | Some raw \<Rightarrow>
          let a = (if starts_with (to_lower raw) ''sha256-'' then drop 7 raw else raw);
              b = (if starts_with (to_lower a) ''0x'' then drop 2 a else a)
          in if matches_class is_hex 64 64 b then Some (to_lower b) else None)"

definition read_fallback_expected_hash :: "env \<Rightarrow> string option" where
  "read_fallback_expected_hash env = parse_sha256 (front_env_json ''GATEWAY_FRONT_CONTROLLER_TEMPLATE_SHA256'' env)"

definition validate_front_runtime_config :: "env \<Rightarrow> string option" where
  "validate_front_runtime_config env =
     (if \<not> read_locked_release_mode env then None
      else if front_env_string ''GATEWAY_FRONT_CONTROLLER_INDEX_URL'' env \<noteq> None
      then Some ''front_controller_locked_release_index_url_forbidden''
      else if front_env_string ''GATEWAY_FRONT_CONTROLLER_TEMPLATE_MAP'' env = None
        \<and> parse_tx_id (front_env_json ''GATEWAY_FRONT_CONTROLLER_TEMPLATE_TXID'' env) = None
      then Some ''front_controller_locked_release_pinned_source_required'' else None)"

definition front_controller_enabled :: "env \<Rightarrow> bool" where
  "front_controller_enabled env =
     (case front_env_string ''GATEWAY_FRONT_CONTROLLER_ENABLED'' env of
        Some explicit \<Rightarrow> is_truthy (Some explicit)
      | None \<Rightarrow> front_env_string ''GATEWAY_FRONT_CONTROLLER_TEMPLATE_TXID'' env \<noteq> None
          \<or> front_env_string ''GATEWAY_FRONT_CONTROLLER_TEMPLATE_MAP'' env \<noteq> None
          \<or> front_env_string ''GATEWAY_FRONT_CONTROLLER_INDEX_URL'' env \<noteq> None)"

section \<open>Which template\<close>

text \<open>\<open>te_txId\<close> is \<^term>\<open>None\<close> where the code stores \<open>undefined\<close>.\<close>

record template_ref =
  te_txId :: "string option"
  te_templateSha256 :: "string option"
  te_manifestTxId :: "string option"
  te_source :: string

definition front_hint_value :: "runtime_hints option \<Rightarrow> string list \<Rightarrow> string option" where
  "front_hint_value hints keys =
     (case hints of None \<Rightarrow> None
      | Some h \<Rightarrow> first_some (concat (map (\<lambda>r. case r of None \<Rightarrow> []
            | Some obj \<Rightarrow> map (front_as_string \<circ> jprop obj) keys) [rh_runtime h, rh_runtimePointers h])))"

definition opt_json :: "string option \<Rightarrow> jsval" where
  "opt_json v = (case v of None \<Rightarrow> JUndef | Some s \<Rightarrow> JStr s)"

definition template_from_hints :: "runtime_hints option \<Rightarrow> string + template_ref option" where
  "template_from_hints hints =
     (let txIdRaw = front_hint_value hints [''templateTxId'', ''template_tx_id''];
          shaRaw = front_hint_value hints [''templateSha256'', ''template_sha256''];
          manifestRaw = front_hint_value hints [''manifestTxId'', ''manifest_tx_id''];
          txId = parse_tx_id (opt_json txIdRaw);
          sha = parse_sha256 (opt_json shaRaw);
          manifest = parse_tx_id (opt_json manifestRaw)
      in if txIdRaw = None \<and> shaRaw = None \<and> manifestRaw = None then Inr None
         else if txIdRaw = None then Inl ''front_controller_runtime_template_txid_missing''
         else if txId = None then Inl ''front_controller_runtime_template_txid_invalid''
         else if shaRaw \<noteq> None \<and> sha = None then Inl ''front_controller_runtime_template_sha256_invalid''
         else if manifestRaw \<noteq> None \<and> manifest = None then Inl ''front_controller_runtime_manifest_txid_invalid''
         else Inr (Some \<lparr>te_txId = txId, te_templateSha256 = sha, te_manifestTxId = manifest, te_source = ''runtime''\<rparr>))"

text \<open>\<open>entry?.name\<close> of a value from \<open>JSON.parse\<close>, and \<open>a || b || c\<close> of parsed values.\<close>

definition entry_prop :: "jsval \<Rightarrow> string \<Rightarrow> jsval" where
  "entry_prop v k = (case v of JObj obj \<Rightarrow> jprop obj k | _ \<Rightarrow> JUndef)"

definition parse_template_record :: "string \<Rightarrow> jsval \<Rightarrow> template_ref option" where
  "parse_template_record source v =
     (case first_some [parse_tx_id v, parse_tx_id (entry_prop v ''templateTxId''), parse_tx_id (entry_prop v ''txId'')] of
        None \<Rightarrow> None
      | Some txId \<Rightarrow>
          Some \<lparr>te_txId = Some txId,
            te_templateSha256 = first_some (map (parse_sha256 \<circ> entry_prop v) [''templateSha256'', ''sha256'', ''hash'']),
            te_manifestTxId = parse_tx_id (entry_prop v ''manifestTxId''), te_source = source\<rparr>)"

text \<open>
  The configured map. The code builds a plain object; its values are objects, so storing one under
  \<open>__proto__\<close> makes it the prototype, and reading \<open>__proto__\<close> gives it back.
\<close>

fun template_map_of :: "jobj \<Rightarrow> template_ref jmap \<Rightarrow> template_ref jmap option" where
  "template_map_of [] m = Some m"
| "template_map_of ((keyRaw, v) # entries) m =
     (let k = normalize_front_host keyRaw
      in if k = [] then None
         else (case parse_template_record ''host-map'' v of
                 None \<Rightarrow> None
               | Some r \<Rightarrow> template_map_of entries (AList.update k r m)))"

definition parse_template_map :: "(string \<Rightarrow> string + jsval) \<Rightarrow> string \<Rightarrow> template_ref jmap option" where
  "parse_template_map parse raw =
     (case parse raw of Inr (JObj entries) \<Rightarrow> template_map_of entries [] | _ \<Rightarrow> None)"

text \<open>\<open>map[host] || map['*']\<close>: for a host whose name objects inherit, the inherited value has no \<open>txId\<close>.\<close>

definition mapped_template :: "template_ref jmap \<Rightarrow> string \<Rightarrow> template_ref option" where
  "mapped_template m host =
     (case table_lookup m host of
        Some (Own r) \<Rightarrow> Some r
      | Some (Inherited _) \<Rightarrow>
          Some \<lparr>te_txId = None, te_templateSha256 = None, te_manifestTxId = None, te_source = ''host-map''\<rparr>
      | None \<Rightarrow> map_of m ''*'')"

definition index_entry :: "jobj \<Rightarrow> string \<Rightarrow> jsval" where
  "index_entry candidate host =
     (case table_lookup candidate host of
        Some (Own v) \<Rightarrow> if v = JNull \<or> v = JUndef then jprop candidate ''*'' else v
      | Some (Inherited _) \<Rightarrow> JObj []
      | None \<Rightarrow> jprop candidate ''*'')"

definition from_index_host_map :: "jobj \<Rightarrow> string \<Rightarrow> template_ref option" where
  "from_index_host_map payload host =
     first_some (map (\<lambda>k. case jprop payload k of
         JObj candidate \<Rightarrow> parse_template_record ''index'' (index_entry candidate host) | _ \<Rightarrow> None)
       [''hosts'', ''byHost'', ''sites'', ''map''])"

definition template_from_index :: "jsval \<Rightarrow> string \<Rightarrow> template_ref option" where
  "template_from_index payload host =
     (case payload of
        JObj r \<Rightarrow>
          first_some [from_index_host_map r host, parse_template_record ''index'' payload,
            parse_template_record ''index'' (jprop r ''latest''), parse_template_record ''index'' (jprop r ''default'')]
      | _ \<Rightarrow> None)"

definition default_template :: "env \<Rightarrow> template_ref option" where
  "default_template env =
     (case parse_tx_id (front_env_json ''GATEWAY_FRONT_CONTROLLER_TEMPLATE_TXID'' env) of
        None \<Rightarrow> None
      | Some t \<Rightarrow> Some \<lparr>te_txId = Some t, te_templateSha256 = read_fallback_expected_hash env,
          te_manifestTxId = None, te_source = ''default''\<rparr>)"

datatype record_phase = RecordError string | RecordFound "template_ref option" | RecordAtIndex string

definition resolve_template_record ::
  "(string \<Rightarrow> string + jsval) \<Rightarrow> env \<Rightarrow> string \<Rightarrow> runtime_hints option \<Rightarrow> record_phase" where
  "resolve_template_record parse env host hints =
     (case template_from_hints hints of
        Inl e \<Rightarrow> RecordError e
      | Inr (Some r) \<Rightarrow> RecordFound (Some r)
      | Inr None \<Rightarrow>
          let after_map = (case front_env_string ''GATEWAY_FRONT_CONTROLLER_INDEX_URL'' env of
                Some url \<Rightarrow> RecordAtIndex url | None \<Rightarrow> RecordFound (default_template env))
          in (case front_env_string ''GATEWAY_FRONT_CONTROLLER_TEMPLATE_MAP'' env of
                None \<Rightarrow> after_map
              | Some raw \<Rightarrow>
                  (case parse_template_map parse raw of
                     None \<Rightarrow> RecordError ''front_controller_template_map_invalid''
                   | Some m \<Rightarrow> (case mapped_template m host of Some r \<Rightarrow> RecordFound (Some r) | None \<Rightarrow> after_map))))"

text \<open>What a fetch gives: the status, the content type and the text of the response (or the message with
  which reading it fails), or the message with which \<open>fetch\<close> fails.\<close>

record front_response =
  fr_status :: int
  fr_contentType :: "string option"
  fr_text :: "string + string"

datatype front_outcome = FrontResponse front_response | FrontThrew string

definition response_ok :: "int \<Rightarrow> bool" where
  "response_ok status \<longleftrightarrow> 200 \<le> status \<and> status < 300"

definition record_from_index ::
  "(string \<Rightarrow> string + jsval) \<Rightarrow> env \<Rightarrow> string \<Rightarrow> front_outcome \<Rightarrow> string + template_ref option" where
  "record_from_index parse env host outcome =
     (case outcome of
        FrontThrew e \<Rightarrow> Inl e
      | FrontResponse r \<Rightarrow>
          if \<not> response_ok (fr_status r) then Inl (''front_controller_index_http_'' @ int_str (fr_status r))
          else
            let payload = (case fr_text r of Inl _ \<Rightarrow> JNull
                  | Inr t \<Rightarrow> (case parse t of Inl _ \<Rightarrow> JNull | Inr v \<Rightarrow> v))
            in Inr (case template_from_index payload host of Some t \<Rightarrow> Some t | None \<Rightarrow> default_template env))"

section \<open>The cache and the handler\<close>

record cached_template =
  ct_txId :: "string option"
  ct_templateSha256 :: string
  ct_html :: string
  ct_contentType :: string
  ct_expiresAt :: int

text \<open>\<open>cacheByHost\<close> holds references: the position of the object in the store.\<close>

record front_state = mstate +
  fs_objects :: "cached_template list"
  fs_cacheByHost :: "nat jmap"

definition front_init :: "metrics \<Rightarrow> front_state" where
  "front_init m = \<lparr>mx = m, fs_objects = [], fs_cacheByHost = []\<rparr>"

record front_request =
  fq_method :: string
  fq_host :: string
  fq_refresh :: "string option"

text \<open>What a request holds across its awaits: the clock reading, the host, whether it forces a refresh
  and the cached object it found.\<close>

record front_ctx =
  fx_now :: int
  fx_host :: string
  fx_force :: bool
  fx_cached :: "nat option"

datatype front_phase = FrontReply http_reply | AwaitIndex front_ctx string | AwaitTemplate front_ctx template_ref string

definition front_error :: "int \<Rightarrow> string \<Rightarrow> http_reply" where
  "front_error status err =
     \<lparr>hr_status = status, hr_headers = [(''content-type'', ''application/json'')],
      hr_body = Text (json_stringify (\<lambda>_. []) (JObj [(''error'', JStr err)]))\<rparr>"

definition front_unavailable :: "string \<Rightarrow> string \<Rightarrow> http_reply" where
  "front_unavailable err detail =
     \<lparr>hr_status = 502, hr_headers = [(''content-type'', ''application/json'')],
      hr_body = Text (json_stringify (\<lambda>_. []) (JObj [(''error'', JStr err), (''detail'', JStr detail)]))\<rparr>"

definition txid_text :: "string option \<Rightarrow> string" where
  "txid_text t = (case t of None \<Rightarrow> ''undefined'' | Some s \<Rightarrow> s)"

definition build_html_response :: "cached_template \<Rightarrow> string \<Rightarrow> string \<Rightarrow> http_reply" where
  "build_html_response c cacheState source =
     \<lparr>hr_status = 200,
      hr_headers =
        [(''content-type'', if ct_contentType c \<noteq> [] then ct_contentType c else ''text/html; charset=utf-8''),
         (''cache-control'', ''no-store''), (''x-front-controller'', ''1''),
         (''x-front-controller-cache'', cacheState), (''x-front-controller-source'', source),
         (''x-front-controller-template-txid'', txid_text (ct_txId c)),
         (''x-front-controller-template-sha256'', ct_templateSha256 c)],
      hr_body = Text (ct_html c)\<rparr>"

definition front_stale :: "front_ctx \<Rightarrow> http_reply \<Rightarrow> front_state \<Rightarrow> http_reply" where
  "front_stale ctx otherwise st =
     (case fx_cached ctx of None \<Rightarrow> otherwise
      | Some i \<Rightarrow> build_html_response (fs_objects st ! i) ''stale'' ''cache'')"

text \<open>After the template is resolved: a cached object with the same transaction id is kept for another
  period, otherwise the template is fetched.\<close>

definition front_resolved ::
  "env \<Rightarrow> front_ctx \<Rightarrow> string + template_ref option \<Rightarrow> front_state \<Rightarrow> front_phase \<times> front_state" where
  "front_resolved env ctx res st =
     (case res of
        Inl e \<Rightarrow>
          (FrontReply (front_stale ctx (front_unavailable ''front_controller_index_unavailable'' e) st),
           minc ''gateway_front_controller_refresh_fail'' st)
      | Inr None \<Rightarrow>
          (FrontReply (front_stale ctx (front_error 503 ''front_controller_template_txid_missing'') st), st)
      | Inr (Some r) \<Rightarrow>
          let fetching = AwaitTemplate ctx r (read_ar_gateway_base_url env @ ''/'' @ txid_text (te_txId r))
          in (case fx_cached ctx of
                None \<Rightarrow> (fetching, st)
              | Some i \<Rightarrow>
                  if ct_txId (fs_objects st ! i) = te_txId r \<and> \<not> fx_force ctx then
                    let c = (fs_objects st ! i)\<lparr>ct_expiresAt := fx_now ctx + front_cache_ttl_ms env\<rparr>
                    in (FrontReply (build_html_response c ''hit'' (te_source r)),
                        minc ''gateway_front_controller_cache_hit'' (st\<lparr>fs_objects := (fs_objects st)[i := c]\<rparr>))
                  else (fetching, st)))"

definition front_ctx_of :: "int \<Rightarrow> front_request \<Rightarrow> front_state \<Rightarrow> front_ctx" where
  "front_ctx_of now req st =
     (let host = normalize_front_host (fq_host req)
      in \<lparr>fx_now = now, fx_host = host, fx_force = (fq_refresh req = Some ''1''),
           fx_cached = map_of (fs_cacheByHost st) host\<rparr>)"

definition front_fresh :: "front_ctx \<Rightarrow> front_state \<Rightarrow> cached_template option" where
  "front_fresh ctx st =
     (case fx_cached ctx of None \<Rightarrow> None
      | Some i \<Rightarrow> if \<not> fx_force ctx \<and> ct_expiresAt (fs_objects st ! i) > fx_now ctx then Some (fs_objects st ! i) else None)"

definition front_serve ::
  "(string \<Rightarrow> string + jsval) \<Rightarrow> env \<Rightarrow> front_ctx \<Rightarrow> runtime_hints option \<Rightarrow> front_state \<Rightarrow> front_phase \<times> front_state" where
  "front_serve parse env ctx hints st =
     (case front_fresh ctx st of
        Some c \<Rightarrow>
          (FrontReply (build_html_response c ''hit'' ''cache''), minc ''gateway_front_controller_cache_hit'' st)
      | None \<Rightarrow>
          (case resolve_template_record parse env (fx_host ctx) hints of
             RecordError e \<Rightarrow> front_resolved env ctx (Inl e) st
           | RecordFound r \<Rightarrow> front_resolved env ctx (Inr r) st
           | RecordAtIndex url \<Rightarrow> (AwaitIndex ctx url, st)))"

definition front_start ::
  "(string \<Rightarrow> string + jsval) \<Rightarrow> env \<Rightarrow> int \<Rightarrow> front_request \<Rightarrow> runtime_hints option \<Rightarrow> front_state
    \<Rightarrow> front_phase \<times> front_state" where
  "front_start parse env now req hints st =
     (if fq_method req \<noteq> ''GET'' \<and> fq_method req \<noteq> ''HEAD'' then
        (FrontReply \<lparr>hr_status = 405, hr_headers = [(''content-type'', ''text/plain;charset=UTF-8'')],
           hr_body = Text ''method''\<rparr>, st)
      else if \<not> front_controller_enabled env then (FrontReply (front_error 503 ''front_controller_not_configured''), st)
      else (case validate_front_runtime_config env of
          Some e \<Rightarrow> (FrontReply (front_error 503 e), st)
        | None \<Rightarrow> front_serve parse env (front_ctx_of now req st) hints st))"

definition front_index_done ::
  "(string \<Rightarrow> string + jsval) \<Rightarrow> env \<Rightarrow> front_ctx \<Rightarrow> front_outcome \<Rightarrow> front_state \<Rightarrow> front_phase \<times> front_state" where
  "front_index_done parse env ctx outcome st =
     front_resolved env ctx (record_from_index parse env (fx_host ctx) outcome) st"

definition checked_template ::
  "(string \<Rightarrow> string) \<Rightarrow> env \<Rightarrow> front_ctx \<Rightarrow> template_ref \<Rightarrow> front_outcome \<Rightarrow> string + cached_template" where
  "checked_template sha256_hex env ctx r outcome =
     (case outcome of
        FrontThrew e \<Rightarrow> Inl e
      | FrontResponse resp \<Rightarrow>
          if \<not> response_ok (fr_status resp) then Inl (''front_controller_template_http_'' @ int_str (fr_status resp))
          else (case fr_text resp of
              Inl e \<Rightarrow> Inl e
            | Inr html \<Rightarrow>
                if trim html = [] then Inl ''front_controller_template_empty''
                else if te_templateSha256 r \<noteq> None \<and> te_templateSha256 r \<noteq> Some (sha256_hex html)
                then Inl ''front_controller_template_hash_mismatch''
                else if read_require_hash env \<and> te_templateSha256 r = None
                then Inl ''front_controller_template_hash_required''
                else Inr \<lparr>ct_txId = te_txId r, ct_templateSha256 = sha256_hex html, ct_html = html,
                       ct_contentType = or_empty (or_else (fr_contentType resp) (Some ''text/html; charset=utf-8'')),
                       ct_expiresAt = fx_now ctx + front_cache_ttl_ms env\<rparr>))"

definition front_template_done ::
  "(string \<Rightarrow> string) \<Rightarrow> env \<Rightarrow> front_ctx \<Rightarrow> template_ref \<Rightarrow> front_outcome \<Rightarrow> front_state \<Rightarrow> http_reply \<times> front_state" where
  "front_template_done sha256_hex env ctx r outcome st =
     (case checked_template sha256_hex env ctx r outcome of
        Inl e \<Rightarrow>
          (front_stale ctx (front_unavailable ''front_controller_template_unavailable'' e) st,
           minc ''gateway_front_controller_refresh_fail'' st)
      | Inr c \<Rightarrow>
          (build_html_response c ''miss'' (te_source r),
           minc ''gateway_front_controller_cache_miss''
             (st\<lparr>fs_objects := fs_objects st @ [c],
                 fs_cacheByHost := AList.update (fx_host ctx) (length (fs_objects st)) (fs_cacheByHost st)\<rparr>)))"

definition front_reset :: "front_state \<Rightarrow> front_state" where
  "front_reset st = st\<lparr>fs_cacheByHost := []\<rparr>"

text \<open>One request that is not interleaved with others; \<open>fetch\<close> gives the outcome for a URL.\<close>

definition handle_front_controller_request ::
  "(string \<Rightarrow> string + jsval) \<Rightarrow> (string \<Rightarrow> string) \<Rightarrow> env \<Rightarrow> int \<Rightarrow> (string \<Rightarrow> front_outcome) \<Rightarrow> front_request
    \<Rightarrow> runtime_hints option \<Rightarrow> front_state \<Rightarrow> http_reply \<times> front_state" where
  "handle_front_controller_request parse sha256_hex env now fetch req hints st =
     (case front_start parse env now req hints st of
        (FrontReply r, st1) \<Rightarrow> (r, st1)
      | (AwaitTemplate ctx r url, st1) \<Rightarrow> front_template_done sha256_hex env ctx r (fetch url) st1
      | (AwaitIndex ctx url, st1) \<Rightarrow>
          (case front_index_done parse env ctx (fetch url) st1 of
             (FrontReply r, st2) \<Rightarrow> (r, st2)
           | (AwaitTemplate ctx' r url', st2) \<Rightarrow> front_template_done sha256_hex env ctx' r (fetch url') st2
           | (AwaitIndex ctx' url', st2) \<Rightarrow> (front_error 500 [], st2)))"

section \<open>Requests in flight\<close>

text \<open>
  Any number of requests interleave at their awaits. The log holds, for each template that was fetched,
  the host, the reference it was fetched under and the text, and the replies given with their hosts.
\<close>

datatype front_pending = Idle | PendingIndex front_ctx | PendingTemplate front_ctx template_ref

record front_system =
  fy_state :: front_state
  fy_pending :: "nat \<Rightarrow> front_pending"
  fy_fetched :: "(string \<times> template_ref \<times> string) list"
  fy_replies :: "(string \<times> http_reply) list"

fun pending_of :: "front_phase \<Rightarrow> front_pending" where
  "pending_of (FrontReply _) = Idle"
| "pending_of (AwaitIndex ctx _) = PendingIndex ctx"
| "pending_of (AwaitTemplate ctx r _) = PendingTemplate ctx r"

fun reply_of :: "string \<Rightarrow> front_phase \<Rightarrow> (string \<times> http_reply) list" where
  "reply_of host (FrontReply r) = [(host, r)]"
| "reply_of host _ = []"

fun fetched_of :: "front_ctx \<Rightarrow> template_ref \<Rightarrow> front_outcome \<Rightarrow> (string \<times> template_ref \<times> string) list" where
  "fetched_of ctx r (FrontResponse resp) = (case fr_text resp of Inr t \<Rightarrow> [(fx_host ctx, r, t)] | Inl _ \<Rightarrow> [])"
| "fetched_of ctx r (FrontThrew e) = []"

inductive front_step ::
  "(string \<Rightarrow> string + jsval) \<Rightarrow> (string \<Rightarrow> string) \<Rightarrow> env \<Rightarrow> front_system \<Rightarrow> front_system \<Rightarrow> bool"
  for parse sha256_hex env
where
  Arrive: "fy_pending s i = Idle \<Longrightarrow> front_start parse env now req hints (fy_state s) = (ph, st) \<Longrightarrow>
    front_step parse sha256_hex env s
      (s\<lparr>fy_state := st, fy_pending := (fy_pending s)(i := pending_of ph),
         fy_replies := reply_of (normalize_front_host (fq_host req)) ph @ fy_replies s\<rparr>)"
| IndexDone: "fy_pending s i = PendingIndex ctx \<Longrightarrow> front_index_done parse env ctx outcome (fy_state s) = (ph, st) \<Longrightarrow>
    front_step parse sha256_hex env s
      (s\<lparr>fy_state := st, fy_pending := (fy_pending s)(i := pending_of ph), fy_replies := reply_of (fx_host ctx) ph @ fy_replies s\<rparr>)"
| TemplateDone: "fy_pending s i = PendingTemplate ctx r \<Longrightarrow>
    front_template_done sha256_hex env ctx r outcome (fy_state s) = (reply, st) \<Longrightarrow>
    front_step parse sha256_hex env s
      (s\<lparr>fy_state := st, fy_pending := (fy_pending s)(i := Idle), fy_replies := (fx_host ctx, reply) # fy_replies s,
         fy_fetched := fetched_of ctx r outcome @ fy_fetched s\<rparr>)"

inductive front_reachable ::
  "(string \<Rightarrow> string + jsval) \<Rightarrow> (string \<Rightarrow> string) \<Rightarrow> env \<Rightarrow> front_system \<Rightarrow> bool"
  for parse sha256_hex env
where
  Start: "front_reachable parse sha256_hex env
     \<lparr>fy_state = front_init m, fy_pending = (\<lambda>_. Idle), fy_fetched = [], fy_replies = []\<rparr>"
| Step: "front_reachable parse sha256_hex env s \<Longrightarrow> front_step parse sha256_hex env s s'
    \<Longrightarrow> front_reachable parse sha256_hex env s'"

section \<open>What is served\<close>

text \<open>The object was fetched for the host, under a reference whose hash, where it has one, is the hash of
  the text; where the configuration requires a hash it has one.\<close>

definition pinned ::
  "env \<Rightarrow> (string \<Rightarrow> string) \<Rightarrow> (string \<times> template_ref \<times> string) list \<Rightarrow> string \<Rightarrow> cached_template \<Rightarrow> bool" where
  "pinned env sha256_hex fetched host c \<longleftrightarrow>
     ct_templateSha256 c = sha256_hex (ct_html c)
     \<and> (\<exists>r. (host, r, ct_html c) \<in> set fetched \<and> te_txId r = ct_txId c
          \<and> (te_templateSha256 r = Some (sha256_hex (ct_html c))
             \<or> te_templateSha256 r = None \<and> \<not> read_require_hash env))"

definition serves :: "http_reply \<Rightarrow> cached_template \<Rightarrow> bool" where
  "serves r c \<longleftrightarrow> hr_body r = Text (ct_html c)
     \<and> map_of (hr_headers r) ''x-front-controller-template-txid'' = Some (txid_text (ct_txId c))
     \<and> map_of (hr_headers r) ''x-front-controller-template-sha256'' = Some (ct_templateSha256 c)"

definition reply_pinned ::
  "env \<Rightarrow> (string \<Rightarrow> string) \<Rightarrow> (string \<times> template_ref \<times> string) list \<Rightarrow> string \<Rightarrow> http_reply \<Rightarrow> bool" where
  "reply_pinned env sha256_hex fetched host r \<longleftrightarrow>
     (hr_status r = 200 \<longrightarrow> (\<exists>c. pinned env sha256_hex fetched host c \<and> serves r c))"

definition object_pinned ::
  "env \<Rightarrow> (string \<Rightarrow> string) \<Rightarrow> (string \<times> template_ref \<times> string) list \<Rightarrow> cached_template list \<Rightarrow> string \<Rightarrow> nat \<Rightarrow> bool" where
  "object_pinned env sha256_hex fetched objs host i \<longleftrightarrow>
     i < length objs \<and> pinned env sha256_hex fetched host (objs ! i)"

lemma pinned_mono: "pinned env h fetched host c \<Longrightarrow> set fetched \<subseteq> set fetched' \<Longrightarrow> pinned env h fetched' host c"
  by (auto simp: pinned_def)

lemma reply_pinned_mono:
  "reply_pinned env h fetched host r \<Longrightarrow> set fetched \<subseteq> set fetched' \<Longrightarrow> reply_pinned env h fetched' host r"
  by (auto simp: reply_pinned_def intro: pinned_mono)

lemma pinned_expiry [simp]: "pinned env h fetched host (c\<lparr>ct_expiresAt := t\<rparr>) = pinned env h fetched host c"
  by (simp add: pinned_def)

lemma object_pinned_expiry [simp]:
  "object_pinned env h fetched (objs[j := (objs ! j)\<lparr>ct_expiresAt := t\<rparr>]) host i = object_pinned env h fetched objs host i"
  by (cases "i = j") (auto simp: object_pinned_def)

lemma object_pinned_snoc:
  "object_pinned env h fetched objs host i \<Longrightarrow> object_pinned env h fetched (objs @ [c]) host i"
  by (simp add: object_pinned_def nth_append)

lemma serves_html: "serves (build_html_response c cacheState source) c"
  by (simp add: serves_def build_html_response_def)

lemma html_pinned:
  "pinned env h fetched host c \<Longrightarrow> reply_pinned env h fetched host (build_html_response c cacheState source)"
  using serves_html by (auto simp: reply_pinned_def)

lemma errors_pinned [simp]:
  "status \<noteq> 200 \<Longrightarrow> reply_pinned env h fetched host (front_error status err)"
  "reply_pinned env h fetched host (front_unavailable err detail)"
  by (simp_all add: reply_pinned_def front_error_def front_unavailable_def)

definition ctx_pinned ::
  "env \<Rightarrow> (string \<Rightarrow> string) \<Rightarrow> (string \<times> template_ref \<times> string) list \<Rightarrow> cached_template list \<Rightarrow> front_ctx \<Rightarrow> bool" where
  "ctx_pinned env h fetched objs ctx \<longleftrightarrow> (\<forall>i. fx_cached ctx = Some i \<longrightarrow> object_pinned env h fetched objs (fx_host ctx) i)"

lemma ctx_object: "ctx_pinned env h fetched objs ctx \<Longrightarrow> fx_cached ctx = Some i \<Longrightarrow> pinned env h fetched (fx_host ctx) (objs ! i)"
  by (simp add: ctx_pinned_def object_pinned_def)

lemma stale_pinned:
  assumes "ctx_pinned env h fetched (fs_objects st) ctx" and "reply_pinned env h fetched (fx_host ctx) r"
  shows "reply_pinned env h fetched (fx_host ctx) (front_stale ctx r st)"
  using assms by (auto simp: front_stale_def intro: html_pinned ctx_object split: option.splits)

fun pending_ctx :: "front_pending \<Rightarrow> front_ctx option" where
  "pending_ctx Idle = None"
| "pending_ctx (PendingIndex ctx) = Some ctx"
| "pending_ctx (PendingTemplate ctx r) = Some ctx"

definition front_inv :: "env \<Rightarrow> (string \<Rightarrow> string) \<Rightarrow> front_system \<Rightarrow> bool" where
  "front_inv env h s \<longleftrightarrow>
     (\<forall>host i. map_of (fs_cacheByHost (fy_state s)) host = Some i
        \<longrightarrow> object_pinned env h (fy_fetched s) (fs_objects (fy_state s)) host i)
     \<and> (\<forall>i ctx. pending_ctx (fy_pending s i) = Some ctx \<longrightarrow> ctx_pinned env h (fy_fetched s) (fs_objects (fy_state s)) ctx)
     \<and> (\<forall>(host, r) \<in> set (fy_replies s). reply_pinned env h (fy_fetched s) host r)"

text \<open>What a phase may do to the state: the cache stays, objects only get a new expiry.\<close>

definition phase_ok ::
  "env \<Rightarrow> (string \<Rightarrow> string) \<Rightarrow> (string \<times> template_ref \<times> string) list \<Rightarrow> string \<Rightarrow> front_state
    \<Rightarrow> front_phase \<Rightarrow> front_state \<Rightarrow> bool" where
  "phase_ok env h fetched host st ph st' \<longleftrightarrow>
     fs_cacheByHost st' = fs_cacheByHost st
     \<and> (\<forall>host' i. object_pinned env h fetched (fs_objects st') host' i
          = object_pinned env h fetched (fs_objects st) host' i)
     \<and> (\<forall>r. ph = FrontReply r \<longrightarrow> reply_pinned env h fetched host r)
     \<and> (\<forall>ctx. pending_ctx (pending_of ph) = Some ctx \<longrightarrow> ctx_pinned env h fetched (fs_objects st) ctx)"

lemma minc_objects [simp]:
  "fs_objects (minc k st) = fs_objects st" "fs_cacheByHost (minc k st) = fs_cacheByHost st"
  by (simp_all add: minc_def)

lemma resolved_phase:
  assumes "front_resolved env ctx res st = (ph, st')" and "ctx_pinned env h fetched (fs_objects st) ctx"
  shows "phase_ok env h fetched (fx_host ctx) st ph st'"
  using assms
  by (auto simp: front_resolved_def phase_ok_def Let_def intro!: stale_pinned html_pinned
      dest: ctx_object split: sum.splits option.splits if_splits)

lemma serve_phase:
  assumes "front_serve parse env ctx hints st = (ph, st')" and "ctx_pinned env h fetched (fs_objects st) ctx"
  shows "phase_ok env h fetched (fx_host ctx) st ph st'"
proof (cases "front_fresh ctx st")
  case (Some c)
  then have "pinned env h fetched (fx_host ctx) c"
    using ctx_object [OF assms(2)] by (auto simp: front_fresh_def split: option.splits if_splits)
  with Some assms(1) show ?thesis by (auto simp: front_serve_def phase_ok_def intro: html_pinned)
next
  case None
  show ?thesis
  proof (cases "resolve_template_record parse env (fx_host ctx) hints")
    case (RecordAtIndex url)
    with None assms show ?thesis by (auto simp: front_serve_def phase_ok_def)
  qed (use None assms resolved_phase in \<open>auto simp: front_serve_def\<close>)
qed

lemma ctx_of_pinned:
  assumes "\<forall>host i. map_of (fs_cacheByHost st) host = Some i \<longrightarrow> object_pinned env h fetched (fs_objects st) host i"
  shows "ctx_pinned env h fetched (fs_objects st) (front_ctx_of now req st)"
  using assms by (simp add: ctx_pinned_def front_ctx_of_def Let_def)

lemma plain_phase: "reply_pinned env h fetched host r \<Longrightarrow> phase_ok env h fetched host st (FrontReply r) st"
  by (simp add: phase_ok_def)

lemma start_phase:
  assumes "front_start parse env now req hints st = (ph, st')"
    and "\<forall>host i. map_of (fs_cacheByHost st) host = Some i \<longrightarrow> object_pinned env h fetched (fs_objects st) host i"
  shows "phase_ok env h fetched (normalize_front_host (fq_host req)) st ph st'"
proof -
  have "phase_ok env h fetched (normalize_front_host (fq_host req)) st ph st'"
    if "front_serve parse env (front_ctx_of now req st) hints st = (ph, st')"
    using serve_phase [OF that ctx_of_pinned [OF assms(2)]] by (simp add: front_ctx_of_def Let_def)
  moreover have "reply_pinned env h fetched host \<lparr>hr_status = 405, hr_headers = hs, hr_body = b\<rparr>" for host hs b
    by (simp add: reply_pinned_def)
  ultimately show ?thesis
    using assms(1) by (auto simp: front_start_def intro: plain_phase split: if_splits option.splits)
qed

lemma template_phase:
  assumes "front_template_done h env ctx r outcome st = (reply, st')"
    and "ctx_pinned env h fetched (fs_objects st) ctx"
    and "\<forall>host i. map_of (fs_cacheByHost st) host = Some i \<longrightarrow> object_pinned env h fetched (fs_objects st) host i"
  shows "reply_pinned env h (fetched_of ctx r outcome @ fetched) (fx_host ctx) reply
    \<and> (\<forall>host i. map_of (fs_cacheByHost st') host = Some i
        \<longrightarrow> object_pinned env h (fetched_of ctx r outcome @ fetched) (fs_objects st') host i)
    \<and> (\<forall>host i. object_pinned env h fetched (fs_objects st) host i
        \<longrightarrow> object_pinned env h (fetched_of ctx r outcome @ fetched) (fs_objects st') host i)"
    (is "?R \<and> ?M \<and> ?O")
proof -
  let ?f = "fetched_of ctx r outcome @ fetched"
  have mono: "object_pinned env h fetched objs host i \<Longrightarrow> object_pinned env h ?f objs host i" for objs host i
    by (auto simp: object_pinned_def elim!: pinned_mono)
  show ?thesis
  proof (cases "checked_template h env ctx r outcome")
    case (Inl e)
    then have "reply_pinned env h fetched (fx_host ctx) reply"
      using assms(1) stale_pinned [OF assms(2)] by (auto simp: front_template_done_def)
    then show ?thesis using Inl assms mono by (auto simp: front_template_done_def intro: reply_pinned_mono)
  next
    case (Inr c)
    have c: "pinned env h ?f (fx_host ctx) c"
      using Inr by (auto simp: checked_template_def pinned_def split: front_outcome.splits if_splits sum.splits)
    have new: "object_pinned env h ?f (fs_objects st @ [c]) (fx_host ctx) (length (fs_objects st))"
      using c by (simp add: object_pinned_def)
    have old: "object_pinned env h fetched (fs_objects st) host i
      \<Longrightarrow> object_pinned env h ?f (fs_objects st @ [c]) host i" for host i
      using mono object_pinned_snoc by blast
    from Inr assms(1) have eqs: "reply = build_html_response c ''miss'' (te_source r)"
      "fs_objects st' = fs_objects st @ [c]"
      "fs_cacheByHost st' = AList.update (fx_host ctx) (length (fs_objects st)) (fs_cacheByHost st)"
      by (auto simp: front_template_done_def)
    have ?R using html_pinned [OF c] eqs(1) by simp
    moreover have ?M using new old assms(3) by (auto simp: eqs split: if_splits)
    moreover have ?O using old by (simp add: eqs)
    ultimately show ?thesis by blast
  qed
qed

lemma phase_inv:
  assumes inv: "front_inv env h s" and ph: "phase_ok env h (fy_fetched s) host (fy_state s) ph st"
  shows "front_inv env h (s\<lparr>fy_state := st, fy_pending := (fy_pending s)(i := pending_of ph),
    fy_replies := reply_of host ph @ fy_replies s\<rparr>)"
  using assms by (cases ph) (auto simp: front_inv_def phase_ok_def ctx_pinned_def)

lemma front_step_inv:
  assumes "front_step parse h env s s'" and inv: "front_inv env h s"
  shows "front_inv env h s'"
  using assms(1)
proof (cases rule: front_step.cases)
  case (Arrive i now req hints ph st)
  then show ?thesis using phase_inv [OF inv start_phase] inv by (auto simp: front_inv_def)
next
  case (IndexDone i ctx outcome ph st)
  then have "ctx_pinned env h (fy_fetched s) (fs_objects (fy_state s)) ctx"
    using inv by (auto simp: front_inv_def dest: spec [of _ i])
  then show ?thesis
    using IndexDone phase_inv [OF inv resolved_phase] by (auto simp: front_index_done_def)
next
  case (TemplateDone i ctx r outcome reply st)
  let ?f = "fetched_of ctx r outcome @ fy_fetched s"
  have ctx: "ctx_pinned env h (fy_fetched s) (fs_objects (fy_state s)) ctx"
    using inv TemplateDone by (auto simp: front_inv_def dest: spec [of _ i])
  have cache: "\<forall>host i. map_of (fs_cacheByHost (fy_state s)) host = Some i
      \<longrightarrow> object_pinned env h (fy_fetched s) (fs_objects (fy_state s)) host i"
    using inv by (simp add: front_inv_def)
  note ph = template_phase [OF TemplateDone(3) ctx cache]
  have "\<forall>(host, q) \<in> set (fy_replies s). reply_pinned env h ?f host q"
    using inv by (auto simp: front_inv_def intro: reply_pinned_mono)
  moreover have "\<forall>j ctx'. pending_ctx (fy_pending s j) = Some ctx' \<longrightarrow> ctx_pinned env h ?f (fs_objects st) ctx'"
    using inv ph by (auto simp: front_inv_def ctx_pinned_def)
  ultimately show ?thesis using ph TemplateDone(1) by (auto simp: front_inv_def)
qed

lemma front_reachable_inv: "front_reachable parse h env s \<Longrightarrow> front_inv env h s"
proof (induction rule: front_reachable.induct)
  case Start
  show ?case by (simp add: front_inv_def front_init_def)
qed (rule front_step_inv)

text \<open>
  C10: Every page the front controller serves, in any interleaving of requests, was fetched for the same
  host; the transaction id and the hash in its headers are those of the reference it was fetched under and of
  the served text, the reference's pinned hash is the hash of the text where it has one, and where the
  configuration requires a pinned hash it has one.
\<close>

theorem served_template_is_pinned:
  assumes "front_reachable parse sha256_hex env s" and "(host, reply) \<in> set (fy_replies s)" and "hr_status reply = 200"
  shows "\<exists>r html. (host, r, html) \<in> set (fy_fetched s) \<and> hr_body reply = Text html
    \<and> map_of (hr_headers reply) ''x-front-controller-template-txid'' = Some (txid_text (te_txId r))
    \<and> map_of (hr_headers reply) ''x-front-controller-template-sha256'' = Some (sha256_hex html)
    \<and> (te_templateSha256 r = Some (sha256_hex html) \<or> te_templateSha256 r = None \<and> \<not> read_require_hash env)"
proof -
  have "reply_pinned env sha256_hex (fy_fetched s) host reply"
    using front_reachable_inv [OF assms(1)] assms(2) by (auto simp: front_inv_def)
  with assms(3) obtain c where c: "pinned env sha256_hex (fy_fetched s) host c" "serves reply c"
    by (auto simp: reply_pinned_def)
  then obtain r where r: "(host, r, ct_html c) \<in> set (fy_fetched s)" "te_txId r = ct_txId c"
    "te_templateSha256 r = Some (sha256_hex (ct_html c)) \<or> te_templateSha256 r = None \<and> \<not> read_require_hash env"
    by (auto simp: pinned_def)
  show ?thesis
    by (rule exI [of _ r], rule exI [of _ "ct_html c"]) (use c r in \<open>auto simp: pinned_def serves_def\<close>)
qed

text \<open>
  A cached page with the same transaction id is served and kept for another period although the reference
  now pins another hash, also where the configuration requires a hash: the new hash is not looked at.
\<close>

lemma changed_pin_is_ignored:
  assumes "fx_cached ctx = Some i" and "i < length (fs_objects st)" and "\<not> fx_force ctx"
    and "ct_txId (fs_objects st ! i) = te_txId r"
    and "te_templateSha256 r = Some pin" and "pin \<noteq> ct_templateSha256 (fs_objects st ! i)"
  shows "\<exists>reply st'. front_resolved env ctx (Inr (Some r)) st = (FrontReply reply, st') \<and> hr_status reply = 200
    \<and> hr_body reply = Text (ct_html (fs_objects st ! i))
    \<and> ct_expiresAt (fs_objects st' ! i) = fx_now ctx + front_cache_ttl_ms env"
  using assms by (auto simp: front_resolved_def build_html_response_def Let_def)


definition demo_hash :: string where
  "demo_hash = ''0123456789abcdef0123456789abcdef0123456789abcdef0123456789abcdef''"

definition demo_front_env :: env where
  "demo_front_env = map_of
     [(''GATEWAY_FRONT_CONTROLLER_TEMPLATE_TXID'', ''template1''),
      (''GATEWAY_FRONT_CONTROLLER_TEMPLATE_SHA256'', demo_hash),
      (''GATEWAY_FRONT_CONTROLLER_REQUIRE_HASH'', ''1''), (''GATEWAY_FRONT_CONTROLLER_CACHE_TTL_MS'', ''9'')]"

definition demo_front_ctx :: front_ctx where
  "demo_front_ctx = \<lparr>fx_now = 5, fx_host = ''a.io'', fx_force = False, fx_cached = None\<rparr>"

definition demo_front_ref :: template_ref where
  "demo_front_ref = \<lparr>te_txId = Some ''template1'', te_templateSha256 = Some demo_hash, te_manifestTxId = None,
     te_source = ''default''\<rparr>"

definition demo_front_page :: front_outcome where
  "demo_front_page = FrontResponse \<lparr>fr_status = 200, fr_contentType = None, fr_text = Inr ''hi''\<rparr>"

lemma demo_front_start:
  "front_start (\<lambda>_. Inl []) demo_front_env 5 \<lparr>fq_method = ''GET'', fq_host = ''A.io:80'', fq_refresh = None\<rparr> None
     (front_init metrics_empty)
   = (AwaitTemplate demo_front_ctx demo_front_ref ''https://arweave.net/template1'', front_init metrics_empty)"
  by code_simp

lemma demo_front_done:
  "front_template_done (\<lambda>_. demo_hash) demo_front_env demo_front_ctx demo_front_ref demo_front_page (front_init metrics_empty)
   = (build_html_response \<lparr>ct_txId = Some ''template1'', ct_templateSha256 = demo_hash, ct_html = ''hi'',
        ct_contentType = ''text/html; charset=utf-8'', ct_expiresAt = 14\<rparr> ''miss'' ''default'',
      snd (front_template_done (\<lambda>_. demo_hash) demo_front_env demo_front_ctx demo_front_ref demo_front_page (front_init metrics_empty)))"
  by code_simp

theorem served_template_witness:
  "\<exists>s reply. front_reachable (\<lambda>_. Inl []) (\<lambda>_. demo_hash) demo_front_env s \<and> (''a.io'', reply) \<in> set (fy_replies s)
     \<and> hr_status reply = 200
     \<and> (\<exists>r html. (''a.io'', r, html) \<in> set (fy_fetched s) \<and> hr_body reply = Text html
          \<and> te_templateSha256 r = Some demo_hash)"
proof -
  let ?s0 = "\<lparr>fy_state = front_init metrics_empty, fy_pending = (\<lambda>_. Idle), fy_fetched = [], fy_replies = []\<rparr>"
  let ?reach = "front_reachable (\<lambda>_. Inl []) (\<lambda>_. demo_hash) demo_front_env"
  have start: "front_start (\<lambda>_. Inl []) demo_front_env 5
      \<lparr>fq_method = ''GET'', fq_host = ''A.io:80'', fq_refresh = None\<rparr> None (fy_state ?s0)
     = (AwaitTemplate demo_front_ctx demo_front_ref ''https://arweave.net/template1'', front_init metrics_empty)"
    using demo_front_start by simp
  have "fy_pending ?s0 0 = Idle" by simp
  from front_reachable.Step [OF front_reachable.Start front_step.Arrive [OF this start]]
  obtain s1 where s1: "?reach s1" "fy_pending s1 0 = PendingTemplate demo_front_ctx demo_front_ref"
      "fy_state s1 = front_init metrics_empty"
    by force
  let ?c = "\<lparr>ct_txId = Some ''template1'', ct_templateSha256 = demo_hash, ct_html = ''hi'',
        ct_contentType = ''text/html; charset=utf-8'', ct_expiresAt = 14\<rparr>"
  obtain st where fin: "front_template_done (\<lambda>_. demo_hash) demo_front_env demo_front_ctx demo_front_ref demo_front_page (fy_state s1)
      = (build_html_response ?c ''miss'' ''default'', st)"
    using demo_front_done s1(3) by metis
  obtain s2 where s2: "?reach s2" "(''a.io'', build_html_response ?c ''miss'' ''default'') \<in> set (fy_replies s2)"
    using front_reachable.Step [OF s1(1) front_step.TemplateDone [OF s1(2) fin]] by (force simp: demo_front_ctx_def)
  have "hr_status (build_html_response ?c ''miss'' ''default'') = 200" by (simp add: build_html_response_def)
  moreover have "read_require_hash demo_front_env" by code_simp
  ultimately show ?thesis using served_template_is_pinned [OF s2] s2 by blast
qed

end
