(* ===== verification/Hooks.thy ===== *)
theory Hooks
  imports Policy Cache RateLimit Replay Payments Webhooks FrontController TemplateApi
begin

text \<open>
  The state of the gateway process, and its webhook routes (\<open>src/src/handler.ts\<close>): verification of Stripe,
  PayPal and GoPay events, replay and idempotency, the forwarding to the worker. A route is split where
  it awaits the worker's answer. The components' states share one metrics registry: a component is
  run on the registry of the gateway and its registry is taken back.
\<close>

section \<open>The state of the process\<close>

record gateway_state = mstate +
  gs_cache :: cache_state
  gs_rl :: rl_state
  gs_replay :: rp_state
  gs_certs :: wh_state
  gs_gopay :: idem_boundary
  gs_policy :: policy_system
  gs_front :: front_state
  gs_resolver :: resolver_state
  gs_contract :: contract_cache

definition on_cache :: "(cache_state \<Rightarrow> 'r \<times> cache_state) \<Rightarrow> gateway_state \<Rightarrow> 'r \<times> gateway_state" where
  "on_cache f s = (let (r, x) = f ((gs_cache s)\<lparr>mx := mx s\<rparr>) in (r, s\<lparr>mx := mx x, gs_cache := x\<rparr>))"

definition on_rl :: "(rl_state \<Rightarrow> 'r \<times> rl_state) \<Rightarrow> gateway_state \<Rightarrow> 'r \<times> gateway_state" where
  "on_rl f s = (let (r, x) = f ((gs_rl s)\<lparr>mx := mx s\<rparr>) in (r, s\<lparr>mx := mx x, gs_rl := x\<rparr>))"

definition on_replay :: "(rp_state \<Rightarrow> 'r \<times> rp_state) \<Rightarrow> gateway_state \<Rightarrow> 'r \<times> gateway_state" where
  "on_replay f s = (let (r, x) = f ((gs_replay s)\<lparr>mx := mx s\<rparr>) in (r, s\<lparr>mx := mx x, gs_replay := x\<rparr>))"

definition on_certs :: "(wh_state \<Rightarrow> 'r \<times> wh_state) \<Rightarrow> gateway_state \<Rightarrow> 'r \<times> gateway_state" where
  "on_certs f s = (let (r, x) = f ((gs_certs s)\<lparr>mx := mx s\<rparr>) in (r, s\<lparr>mx := mx x, gs_certs := x\<rparr>))"

definition on_policy :: "(policy_system \<Rightarrow> 'r \<times> policy_system) \<Rightarrow> gateway_state \<Rightarrow> 'r \<times> gateway_state" where
  "on_policy f s = (let (r, x) = f ((gs_policy s)\<lparr>mx := mx s\<rparr>) in (r, s\<lparr>mx := mx x, gs_policy := x\<rparr>))"

definition on_front :: "(front_state \<Rightarrow> 'r \<times> front_state) \<Rightarrow> gateway_state \<Rightarrow> 'r \<times> gateway_state" where
  "on_front f s = (let (r, x) = f ((gs_front s)\<lparr>mx := mx s\<rparr>) in (r, s\<lparr>mx := mx x, gs_front := x\<rparr>))"

definition gateway_init :: "env \<Rightarrow> gateway_state" where
  "gateway_init env =
     (let c = cache_init (cache_config env) metrics_empty;
          r = rl_init (rl_config env) (mx c);
          p = rp_init (rp_config env) (mx r)
      in \<lparr>mx = mx p, gs_cache = c, gs_rl = r, gs_replay = p, gs_certs = wh_init (mx p),
          gs_gopay = gopay_idempotency env, gs_policy = policy_init (mx p), gs_front = front_init (mx p),
          gs_resolver = resolver_init, gs_contract = contract_cache_init\<rparr>)"

lemma gateway_metrics_frame [simp]:
  "gs_cache (mx_update f s) = gs_cache s" "gs_rl (mx_update f s) = gs_rl s"
  "gs_replay (mx_update f s) = gs_replay s" "gs_certs (mx_update f s) = gs_certs s"
  "gs_policy (mx_update f s) = gs_policy s" "gs_front (mx_update f s) = gs_front s"
  by (cases s, simp)+

section \<open>Rate limits\<close>

definition request_ip :: "gateway_request \<Rightarrow> string" where
  "request_ip req = or_empty (or_else (gq_headers req ''cf-connecting-ip'') (Some ''unknown''))"

definition rate_limited :: "env \<Rightarrow> int \<Rightarrow> string \<Rightarrow> gateway_state \<Rightarrow> bool \<times> gateway_state" where
  "rate_limited env now key s = (case on_rl (rl_check (rl_config env) now key) s of (ok, s') \<Rightarrow> (\<not> ok, s'))"

definition too_many :: "env \<Rightarrow> string \<Rightarrow> http_reply" where
  "too_many env trace = respond env trace (Text ''Too Many Requests'') 429 []"

section \<open>Forwarding to the worker\<close>

definition forward_worker_notify ::
  "'a policy_world_scheme \<Rightarrow> env \<Rightarrow> string \<Rightarrow> string \<Rightarrow> string option \<Rightarrow> http_reply + http_request" where
  "forward_worker_notify w env trace body provider =
     (let c = read_worker_notify_config env in
      if wn_token c = [] then Inl (respond env trace (Text ''worker_notify_auth_not_configured'') 500 [])
      else Inr \<lparr>rq_url = wn_target c, rq_method = ''POST'',
        rq_headers = [(''Authorization'', ''Bearer '' @ wn_token c), (''content-type'', ''application/json''),
             (''x-breaker-key'', resolve_worker_notify_breaker_key c provider)]
          @ (if trace \<noteq> [] then [(''x-trace-id'', trace)] else [])
          @ (case provider of None \<Rightarrow> [] | Some p \<Rightarrow> if p = [] then [] else [(''x-provider'', p)])
          @ (if wn_hmacSecret c \<noteq> [] then [(''X-Signature'', pw_hmac w (wn_hmacSecret c) body)] else []),
        rq_body = Some body\<rparr>)"

definition forward_answer :: "env \<Rightarrow> string \<Rightarrow> fetch_outcome \<Rightarrow> http_reply" where
  "forward_answer env trace outcome =
     (case outcome of
        Responded r \<Rightarrow>
          if rp_ok r then respond env trace (Text ''forwarded'') 200 [] else respond env trace (Text ''notify_failed'') 502 []
      | Threw aborted \<Rightarrow>
          if aborted then respond env trace (Text ''notify_timeout'') 504 [] else respond env trace (Text ''notify_failed'') 502 [])"

definition count_forward :: "http_reply \<Rightarrow> gateway_state \<Rightarrow> gateway_state" where
  "count_forward r s =
     minc (if 200 \<le> hr_status r \<and> hr_status r < 300 then ''gateway_webhook_write_forward_ok''
           else ''gateway_webhook_write_forward_fail'') s"

section \<open>Providers\<close>

datatype provider = Stripe | PayPal | GoPay

fun provider_name :: "provider \<Rightarrow> string" where
  "provider_name Stripe = ''stripe''"
| "provider_name PayPal = ''paypal''"
| "provider_name GoPay = ''gopay''"

definition record_webhook_5xx :: "provider \<Rightarrow> gateway_state \<Rightarrow> gateway_state" where
  "record_webhook_5xx p s = minc (''gateway_webhook_'' @ provider_name p @ ''_5xx'') s"

text \<open>\<open>wrapWebhook\<close>: what the handler gives, or that it throws.\<close>

definition wrap_webhook :: "env \<Rightarrow> string \<Rightarrow> provider \<Rightarrow> http_reply option \<Rightarrow> gateway_state \<Rightarrow> http_reply \<times> gateway_state" where
  "wrap_webhook env trace p res s =
     (case res of
        Some r \<Rightarrow> (secure_response env trace r, if hr_status r \<ge> 500 then record_webhook_5xx p s else s)
      | None \<Rightarrow> (respond env trace (Text ''error'') 500 [], record_webhook_5xx p s))"

definition webhook_too_large :: "env \<Rightarrow> string \<Rightarrow> http_reply" where
  "webhook_too_large env trace = plain_error env trace 413 ''payload too large''"

definition webhook_max_default :: int where
  "webhook_max_default = 262144"

text \<open>What the routes call: the worlds of the PayPal check and of HMAC and SHA-256 for GoPay.\<close>

record hook_world = policy_world +
  hw_wh :: wh_env
  hw_hmac_ref :: "string \<Rightarrow> string \<Rightarrow> string \<Rightarrow> string \<Rightarrow> string option"
  hw_sha256 :: "string \<Rightarrow> string"

text \<open>The body of a route ends with a reply, throws, or has an event to accept: with the key under which it
  is remembered and the reply for it where it is not forwarded.\<close>

datatype verified = Refused http_reply "string list" | Throws | Verified

definition sig_invalid :: "env \<Rightarrow> string \<Rightarrow> http_reply" where
  "sig_invalid env trace =
     respond env trace (Text ''sig invalid'')
       (if wc_shadowInvalid (read_webhook_config webhook_max_default env) then 202 else 401) []"

definition verify_event ::
  "'a hook_world_scheme \<Rightarrow> env \<Rightarrow> string \<Rightarrow> int \<Rightarrow> provider \<Rightarrow> gateway_request \<Rightarrow> gateway_state \<Rightarrow> verified \<times> gateway_state" where
  "verify_event w env trace now p req s =
     (let c = read_webhook_config webhook_max_default env; body = gq_text req; hs = gq_headers req;
          invalid = Refused (sig_invalid env trace) [''gateway_webhook_'' @ provider_name p @ ''_verify_fail''] in
      if body_exceeds_utf8_limit body (wc_maxBodyBytes c) then
        (Refused (webhook_too_large env trace) [''gateway_webhook_reject_size''], s)
      else (case p of
          Stripe \<Rightarrow>
            (case verify_stripe (pw_hmac w) (wh_config env) now body (hs ''stripe-signature'')
                 (wc_stripeSecret c) (Fin (of_int (wc_stripeToleranceMs c))) of
               Inl _ \<Rightarrow> (Throws, s)
             | Inr ok \<Rightarrow> (if ok then Verified else invalid, s))
        | PayPal \<Rightarrow>
            (case on_certs (note_cert (we_parse_url (hw_wh w)) (wh_config env) now (or_else (hs ''paypal-cert-url'') None)
                 (or_else (hs ''paypal-cert-sha256'') None)) s of
               (False, s1) \<Rightarrow> (invalid, s1)
             | (True, s1) \<Rightarrow>
                 (if verify_paypal (hw_wh w) env body hs (wc_paypalWebhookSecret c) (Some trace) then Verified else invalid, s1))
        | GoPay \<Rightarrow>
            (if verify_gopay_webhook (hw_hmac_ref w) body
                  (or_else (hs ''x-gopay-signature'') (hs ''gopay-signature'')) (wc_gopayWebhookSecret c)
             then Verified else invalid, s)))"

text \<open>The id of a Stripe event and the transmission id of PayPal; GoPay has its own table.\<close>

definition stripe_event_key :: "'a policy_world_scheme \<Rightarrow> string \<Rightarrow> string option" where
  "stripe_event_key w body =
     (case pw_parse w body of
        Inl _ \<Rightarrow> None
      | Inr v \<Rightarrow> let i = jopt v ''id'' in if truthy i then Some (''stripe:'' @ js_text w i) else None)"

definition paypal_event_key :: "gateway_request \<Rightarrow> string option" where
  "paypal_event_key req =
     (case or_else (gq_headers req ''paypal-transmission-id'') None of
        None \<Rightarrow> None | Some i \<Rightarrow> if i = [] then None else Some (''paypal:'' @ i))"

datatype first_seen = FirstSeen http_reply string | SeenBefore http_reply

definition remember_key ::
  "env \<Rightarrow> string \<Rightarrow> int \<Rightarrow> provider \<Rightarrow> string option \<Rightarrow> gateway_state \<Rightarrow> first_seen \<times> gateway_state" where
  "remember_key env trace now p keyOpt s =
     (let fresh = FirstSeen (respond env trace (Text ''ok'') 200 []) (''gateway_webhook_'' @ provider_name p @ ''_ok'')
      in (case keyOpt of
            None \<Rightarrow> (fresh, s)
          | Some k \<Rightarrow>
              (case on_replay (mark_and_check (rp_config env) now k) s of
                 (True, s1) \<Rightarrow> (SeenBefore (respond env trace (Text ''replay'') 200 []), s1)
               | (False, s1) \<Rightarrow> (fresh, s1))))"

definition remember_gopay ::
  "'a hook_world_scheme \<Rightarrow> env \<Rightarrow> string \<Rightarrow> int \<Rightarrow> int \<Rightarrow> gateway_request \<Rightarrow> gateway_state \<Rightarrow> first_seen \<times> gateway_state" where
  "remember_gopay w env trace now now' req s =
     (let (d, b) = classify_gopay_webhook (hw_sha256 w) now now' (gq_headers req ''x-gopay-event-id'') (gq_text req)
            (read_gopay_idempotency_policy env) (gs_gopay s);
          s1 = s\<lparr>gs_gopay := b\<rparr>;
          reply = respond env trace (Text (id_body d)) (id_http d) []
      in (case id_status d of
            MissingId \<Rightarrow> (SeenBefore reply, s1)
          | Conflict \<Rightarrow> (SeenBefore reply, s1)
          | Duplicate \<Rightarrow> (SeenBefore reply, minc ''gateway_webhook_replay'' s1)
          | Accepted \<Rightarrow> (FirstSeen reply ''gateway_webhook_gopay_ok'', s1)))"

definition remember_event ::
  "'a hook_world_scheme \<Rightarrow> env \<Rightarrow> string \<Rightarrow> int \<Rightarrow> int \<Rightarrow> provider \<Rightarrow> gateway_request \<Rightarrow> gateway_state \<Rightarrow> first_seen \<times> gateway_state" where
  "remember_event w env trace now now' p req s =
     (case p of
        Stripe \<Rightarrow> remember_key env trace now Stripe (stripe_event_key w (gq_text req)) s
      | PayPal \<Rightarrow> remember_key env trace now PayPal (paypal_event_key req) s
      | GoPay \<Rightarrow> remember_gopay w env trace now now' req s)"

datatype hook_phase = HookReply http_reply | HookForward http_request

definition accept_event ::
  "'a hook_world_scheme \<Rightarrow> env \<Rightarrow> string \<Rightarrow> provider \<Rightarrow> gateway_request \<Rightarrow> bool \<Rightarrow> http_reply \<Rightarrow> string \<Rightarrow> gateway_state
    \<Rightarrow> hook_phase \<times> gateway_state" where
  "accept_event w env trace p req productionLike reply counter s =
     (if \<not> webhook_write_forward_enabled env productionLike then
        (let (r, s') = wrap_webhook env trace p (Some reply) (minc counter s) in (HookReply r, s'))
      else (case forward_worker_notify w env trace (gq_text req) (Some (provider_name p)) of
          Inl r \<Rightarrow> (let (r', s') = wrap_webhook env trace p (Some r) (count_forward r s) in (HookReply r', s'))
        | Inr freq \<Rightarrow> (HookForward freq, s)))"

text \<open>A webhook route up to the request to the worker. \<open>clk\<close> gives the readings of the clock.\<close>

definition webhook_start ::
  "'a hook_world_scheme \<Rightarrow> env \<Rightarrow> string \<Rightarrow> (nat \<Rightarrow> int) \<Rightarrow> provider \<Rightarrow> gateway_request \<Rightarrow> bool \<Rightarrow> gateway_state
    \<Rightarrow> hook_phase \<times> gateway_state" where
  "webhook_start w env trace clk p req productionLike s =
     (case rate_limited env (clk 0) (''webhook:'' @ provider_name p @ '':'' @ request_ip req) s of
        (True, s1) \<Rightarrow> (HookReply (too_many env trace), s1)
      | (False, s1) \<Rightarrow>
          (case verify_event w env trace (clk 1) p req s1 of
             (Throws, s2) \<Rightarrow> (let (r, s3) = wrap_webhook env trace p None s2 in (HookReply r, s3))
           | (Refused r incs, s2) \<Rightarrow>
               (let (r', s3) = wrap_webhook env trace p (Some r) (foldl (\<lambda>s k. minc k s) s2 incs) in (HookReply r', s3))
           | (Verified, s2) \<Rightarrow>
               (case remember_event w env trace (clk 2) (clk 3) p req s2 of
                  (SeenBefore r, s3) \<Rightarrow> (let (r', s4) = wrap_webhook env trace p (Some r) s3 in (HookReply r', s4))
                | (FirstSeen r counter, s3) \<Rightarrow> accept_event w env trace p req productionLike r counter s3)))"

definition webhook_finish :: "env \<Rightarrow> string \<Rightarrow> provider \<Rightarrow> fetch_outcome \<Rightarrow> gateway_state \<Rightarrow> http_reply \<times> gateway_state" where
  "webhook_finish env trace p outcome s =
     (let r = forward_answer env trace outcome in wrap_webhook env trace p (Some r) (count_forward r s))"

section \<open>The demonstration route\<close>

definition query_get :: "gateway_request \<Rightarrow> string \<Rightarrow> string option" where
  "query_get req k = map_of (gq_query req) k"

definition demo_forward_provider :: "'a policy_world_scheme \<Rightarrow> gateway_request \<Rightarrow> string option" where
  "demo_forward_provider w req =
     (case or_else (query_get req ''provider'') (or_else (gq_headers req ''x-provider'') None) of
        Some p \<Rightarrow> Some (to_lower p)
      | None \<Rightarrow>
          (case pw_parse w (gq_text req) of
             Inl _ \<Rightarrow> None
           | Inr v \<Rightarrow> let p = jopt v ''provider'' in if truthy p then Some (to_lower (js_text w p)) else None))"

definition demo_forward_start ::
  "'a policy_world_scheme \<Rightarrow> env \<Rightarrow> string \<Rightarrow> int \<Rightarrow> gateway_request \<Rightarrow> gateway_state \<Rightarrow> hook_phase \<times> gateway_state" where
  "demo_forward_start w env trace now req s =
     (if \<not> read_strict_enabled_flag ''GATEWAY_DEMO_FORWARD_ENABLED'' env then
        (HookReply (respond env trace (Text ''not found'') 404 []), s)
      else (case read_env_string ''GATEWAY_DEMO_FORWARD_TOKEN'' env of
          None \<Rightarrow> (HookReply (respond env trace (Text ''demo_forward_auth_not_configured'') 500 []), s)
        | Some token \<Rightarrow>
            if \<not> check_token (gq_headers req) token ''x-demo-forward-token'' then
              (HookReply (respond env trace (Text ''unauthorized'') 401 []), s)
            else (case rate_limited env now (''demo-forward:'' @ request_ip req) s of
                (True, s1) \<Rightarrow> (HookReply (too_many env trace), s1)
              | (False, s1) \<Rightarrow>
                  if body_exceeds_utf8_limit (gq_text req) webhook_max_default then
                    (HookReply (webhook_too_large env trace), minc ''gateway_webhook_reject_size'' s1)
                  else (case forward_worker_notify w env trace (gq_text req) (demo_forward_provider w req) of
                      Inl r \<Rightarrow> (HookReply r, s1) | Inr freq \<Rightarrow> (HookForward freq, s1)))))"

section \<open>What is forwarded\<close>

definition event_verified :: "'a hook_world_scheme \<Rightarrow> env \<Rightarrow> string \<Rightarrow> int \<Rightarrow> provider \<Rightarrow> gateway_request \<Rightarrow> bool" where
  "event_verified w env trace now p req =
     (let c = read_webhook_config webhook_max_default env; hs = gq_headers req in
      (case p of
         Stripe \<Rightarrow> verify_stripe (pw_hmac w) (wh_config env) now (gq_text req) (hs ''stripe-signature'')
             (wc_stripeSecret c) (Fin (of_int (wc_stripeToleranceMs c))) = Inr True
       | PayPal \<Rightarrow> verify_paypal (hw_wh w) env (gq_text req) hs (wc_paypalWebhookSecret c) (Some trace)
       | GoPay \<Rightarrow> verify_gopay_webhook (hw_hmac_ref w) (gq_text req)
             (or_else (hs ''x-gopay-signature'') (hs ''gopay-signature'')) (wc_gopayWebhookSecret c)))"

lemma verify_event_Verified:
  assumes "verify_event w env trace now p req s = (Verified, s')"
  shows "event_verified w env trace now p req"
    and "\<not> body_exceeds_utf8_limit (gq_text req) (wc_maxBodyBytes (read_webhook_config webhook_max_default env))"
  using assms
  by (auto simp: verify_event_def event_verified_def Let_def
      split: if_splits provider.splits sum.splits prod.splits bool.splits)

lemma accept_event_forward:
  assumes "accept_event w env trace p req productionLike reply counter s = (HookForward freq, s')"
  shows "webhook_write_forward_enabled env productionLike" and "s' = s"
    and "forward_worker_notify w env trace (gq_text req) (Some (provider_name p)) = Inr freq"
  using assms by (auto simp: accept_event_def split: if_splits sum.splits prod.splits)

lemma webhook_start_forward:
  assumes "webhook_start w env trace clk p req productionLike s = (HookForward freq, s')"
  obtains s1 s2 r counter where
    "rate_limited env (clk 0) (''webhook:'' @ provider_name p @ '':'' @ request_ip req) s = (False, s1)"
    "verify_event w env trace (clk 1) p req s1 = (Verified, s2)"
    "remember_event w env trace (clk 2) (clk 3) p req s2 = (FirstSeen r counter, s')"
    "webhook_write_forward_enabled env productionLike"
    "forward_worker_notify w env trace (gq_text req) (Some (provider_name p)) = Inr freq"
  using assms accept_event_forward
  unfolding webhook_start_def Let_def
  by (fastforce split: prod.splits bool.splits verified.splits first_seen.splits)

text \<open>
  A webhook route sends an event to the worker only when the provider's verification accepted it, its body
  is within the limit and forwarding is enabled; what is sent is the body as received, with the
  configured bearer token and, where a secret is configured, the HMAC of that body.
\<close>

theorem forwarded_webhook_is_verified:
  assumes "webhook_start w env trace clk p req productionLike s = (HookForward freq, s')"
  shows "event_verified w env trace (clk 1) p req
    \<and> \<not> body_exceeds_utf8_limit (gq_text req) (wc_maxBodyBytes (read_webhook_config webhook_max_default env))
    \<and> webhook_write_forward_enabled env productionLike
    \<and> rq_url freq = wn_target (read_worker_notify_config env) \<and> rq_body freq = Some (gq_text req)
    \<and> wn_token (read_worker_notify_config env) \<noteq> []
    \<and> (''Authorization'', ''Bearer '' @ wn_token (read_worker_notify_config env)) \<in> set (rq_headers freq)
    \<and> (wn_hmacSecret (read_worker_notify_config env) \<noteq> [] \<longrightarrow>
         (''X-Signature'', pw_hmac w (wn_hmacSecret (read_worker_notify_config env)) (gq_text req)) \<in> set (rq_headers freq))"
proof -
  from webhook_start_forward [OF assms] obtain s1 s2 where
    v: "verify_event w env trace (clk 1) p req s1 = (Verified, s2)" and
    e: "webhook_write_forward_enabled env productionLike" and
    f: "forward_worker_notify w env trace (gq_text req) (Some (provider_name p)) = Inr freq" by metis
  from f have "rq_url freq = wn_target (read_worker_notify_config env) \<and> rq_body freq = Some (gq_text req)
    \<and> wn_token (read_worker_notify_config env) \<noteq> []
    \<and> (''Authorization'', ''Bearer '' @ wn_token (read_worker_notify_config env)) \<in> set (rq_headers freq)
    \<and> (wn_hmacSecret (read_worker_notify_config env) \<noteq> [] \<longrightarrow>
         (''X-Signature'', pw_hmac w (wn_hmacSecret (read_worker_notify_config env)) (gq_text req)) \<in> set (rq_headers freq))"
    by (auto simp: forward_worker_notify_def Let_def split: if_splits)
  with verify_event_Verified [OF v] e show ?thesis by simp
qed

section \<open>An event is forwarded at most once\<close>

lemma mark_remembers:
  assumes "\<not> mr_replay (fst (rs_mark cfg now key s))"
  shows "map_of (seen (snd (rs_mark cfg now key s))) key = Some (now + rs_ttlMs cfg)"
  using assms by (auto simp: rs_mark_def rs_accept_def Let_def split: if_splits prod.splits option.splits)

lemma marked_replays:
  assumes "jm_ok (seen s)" and "map_of (seen s) key = Some e" and "now < e"
  shows "mr_replay (fst (rs_mark cfg now key s))"
proof -
  obtain n s1 where ms: "maybe_sweep cfg now s = (n, s1)" by fastforce
  have "map_of (filter (\<lambda>(k, e). \<not> e \<le> now) (seen s)) key = Some e"
    using assms by (auto simp: map_of_eq_Some_iff distinct_map_filter)
  then have "map_of (seen s1) key = Some e"
    using maybe_sweep_seen [of cfg now s] assms(2) by (auto simp: ms)
  then show ?thesis using assms(3) by (simp add: rs_mark_def ms Let_def)
qed

text \<open>The replay store of the gateway.\<close>

abbreviation replay_of :: "gateway_state \<Rightarrow> rs_state" where
  "replay_of s \<equiv> rp_store (gs_replay s)"

lemma replay_frames [simp]:
  "replay_of (snd (on_rl f s)) = replay_of s" "replay_of (snd (on_certs g s)) = replay_of s"
  "gs_replay (minc k s) = gs_replay s" "gs_replay (record_webhook_5xx p s) = gs_replay s"
  "gs_replay (count_forward r s) = gs_replay s"
  by (simp_all add: on_rl_def on_certs_def minc_def record_webhook_5xx_def count_forward_def split: prod.splits)

lemma rate_limited_replay: "rate_limited env now key s = (b, s') \<Longrightarrow> replay_of s' = replay_of s"
  by (auto simp: rate_limited_def on_rl_def split: prod.splits)

lemma verify_event_replay: "verify_event w env trace now p req s = (v, s') \<Longrightarrow> replay_of s' = replay_of s"
  by (auto simp: verify_event_def Let_def on_certs_def
      split: if_splits provider.splits sum.splits prod.splits bool.splits)

lemma wrap_replay: "wrap_webhook env trace p res s = (r, s') \<Longrightarrow> replay_of s' = replay_of s"
  by (auto simp: wrap_webhook_def split: option.splits if_splits)

definition event_key :: "'a policy_world_scheme \<Rightarrow> provider \<Rightarrow> gateway_request \<Rightarrow> string option" where
  "event_key w p req =
     (case p of Stripe \<Rightarrow> stripe_event_key w (gq_text req) | PayPal \<Rightarrow> paypal_event_key req | GoPay \<Rightarrow> None)"

lemma remember_event_key:
  assumes "event_key w p req = Some k"
  shows "remember_event w env trace now now' p req s = remember_key env trace now p (Some k) s"
  using assms by (cases p) (auto simp: event_key_def remember_event_def)

lemma remember_key_replay:
  assumes "mr_replay (fst (rs_mark (rp_config env) now k (replay_of s)))"
  shows "\<exists>s'. remember_key env trace now p (Some k) s = (SeenBefore (respond env trace (Text ''replay'') 200 []), s')"
proof -
  let ?s = "(gs_replay s)\<lparr>mx := mx s\<rparr>"
  have "fst (mark_and_check (rp_config env) now k ?s)" using assms by simp
  then obtain x where "mark_and_check (rp_config env) now k ?s = (True, x)" by (metis prod.collapse)
  then show ?thesis by (simp add: remember_key_def on_replay_def)
qed

lemma remember_key_first:
  assumes "remember_key env trace now p (Some k) s = (FirstSeen r c, s')"
  shows "map_of (seen (replay_of s')) k = Some (now + rs_ttlMs (rp_config env))"
    and "jm_ok (seen (replay_of s)) \<Longrightarrow> int (length (seen (replay_of s))) \<le> rs_maxKeys (rp_config env)
      \<Longrightarrow> jm_ok (seen (replay_of s'))"
proof -
  let ?s = "(gs_replay s)\<lparr>mx := mx s\<rparr>"
  obtain b x where bx: "mark_and_check (rp_config env) now k ?s = (b, x)" by fastforce
  have "b = False" "gs_replay s' = x"
    using assms by (auto simp: remember_key_def on_replay_def bx split: bool.splits)
  then have res: "\<not> mr_replay (fst (rs_mark (rp_config env) now k (replay_of s)))"
    "replay_of s' = snd (rs_mark (rp_config env) now k (replay_of s))"
    using mark_and_check_store [of "rp_config env" now k ?s] by (simp_all add: bx)
  then show "map_of (seen (replay_of s')) k = Some (now + rs_ttlMs (rp_config env))"
    using mark_remembers [of "rp_config env" now k "replay_of s"] by simp
  show "jm_ok (seen (replay_of s'))"
    if "jm_ok (seen (replay_of s))" "int (length (seen (replay_of s))) \<le> rs_maxKeys (rp_config env)"
    using rs_mark_inv [of "rp_config env" "replay_of s" now k] that rp_config_pos(1) res(2)
    by (simp add: rs_inv_def)
qed


section \<open>Witnesses\<close>

lemma first_request_allowed:
  assumes "buckets s = []" and "1 \<le> effective_max_for_key cfg key"
  shows "fst (rl_check cfg now key s)"
proof -
  have "buckets (snd (rl_prune cfg now s)) = []"
    using assms(1) by (simp add: rl_prune_def evict_while.simps split: prod.splits)
  with assms(2) show ?thesis by (simp add: rl_check_def Let_def mgauge_def)
qed

lemma max_without_overrides: "rl_overrides cfg = [] \<Longrightarrow> effective_max_for_key cfg key = rl_maxReq cfg"
  by (simp add: effective_max_for_key_def Let_def)

definition demo_hook_env :: env where
  "demo_hook_env = map_of
     [(''GATEWAY_WEBHOOK_MAX_BODY_BYTES'', ''99''), (''PAYPAL_WEBHOOK_SECRET'', ''sec''),
      (''GATEWAY_WEBHOOK_WRITE_FORWARD_ENABLED'', ''1''), (''WORKER_AUTH_TOKEN'', ''tok''),
      (''WORKER_NOTIFY_HMAC'', ''key''), (''GATEWAY_RL_MAX'', ''5''), (''GATEWAY_WEBHOOK_REPLAY_TTL_MS'', ''50''),
      (''GATEWAY_WEBHOOK_REPLAY_KEY_MAX_BYTES'', ''99''), (''GATEWAY_WEBHOOK_REPLAY_MAX_KEYS'', ''9'')]"

definition demo_wh_env :: wh_env where
  "demo_wh_env = \<lparr>we_fetch = (\<lambda>_. Threw False), we_parse = (\<lambda>_. Inr (JObj [])), we_parse_url = (\<lambda>_. None),
     we_base64 = (\<lambda>s. s), we_hmac256 = (\<lambda>_ _. ''ab''), we_show_num = (\<lambda>_. ''0''), we_to_string = (\<lambda>_. []), we_uuid = ''u''\<rparr>"

definition demo_hook_world :: hook_world where
  "demo_hook_world = policy_world.extend demo_policy_world
     \<lparr>hw_wh = demo_wh_env, hw_hmac_ref = (\<lambda>_ _ _ _. None), hw_sha256 = (\<lambda>s. s)\<rparr>"

definition demo_hook_request :: gateway_request where
  "demo_hook_request = \<lparr>gq_method = ''POST'', gq_path = ''/webhook/paypal'', gq_host = ''h'', gq_query = [],
     gq_headers = map_of [(''paypal-transmission-sig'', ''ab''), (''paypal-transmission-id'', ''t1''),
        (''paypal-transmission-time'', ''1'')],
     gq_text = ''{}'', gq_bytes = []\<rparr>"

definition demo_gateway :: gateway_state where
  "demo_gateway = \<lparr>mx = metrics_empty, gs_cache = \<lparr>mx = metrics_empty, store = [], subjects = [], keySubject = []\<rparr>,
     gs_rl = \<lparr>mx = metrics_empty, buckets = []\<rparr>, gs_replay = \<lparr>mx = metrics_empty, rp_store = rs_new\<rparr>,
     gs_certs = wh_init metrics_empty, gs_gopay = gopay_idempotency demo_hook_env,
     gs_policy = policy_init metrics_empty, gs_front = front_init metrics_empty,
     gs_resolver = resolver_init, gs_contract = contract_cache_init\<rparr>"

lemma demo_hook_config:
  "wc_maxBodyBytes (read_webhook_config webhook_max_default demo_hook_env) = 99"
  "wc_paypalWebhookSecret (read_webhook_config webhook_max_default demo_hook_env) = Some ''sec''"
  "rl_maxReq (rl_config demo_hook_env) = 5" "rl_overrides (rl_config demo_hook_env) = []"
  "rs_ttlMs (rp_config demo_hook_env) = 50" "rs_keyMaxBytes (rp_config demo_hook_env) = 99"
  "rs_maxKeys (rp_config demo_hook_env) = 9"
  by (simp only: read_webhook_config_def webhook_config.select_convs rl_config_def rl_cfg.select_convs
      rp_config_def rs_cfg.select_convs, code_simp)+

lemma demo_forward_config:
  "webhook_write_forward_enabled demo_hook_env False" "wn_token (read_worker_notify_config demo_hook_env) = ''tok''"
  by code_simp+

lemma demo_headers:
  "read_required_header_value (gq_headers demo_hook_request) ''PayPal-Transmission-Sig'' = Some ''ab''"
  "read_required_header_value (gq_headers demo_hook_request) ''PayPal-Transmission-Id'' = Some ''t1''"
  "read_required_header_value (gq_headers demo_hook_request) ''PayPal-Transmission-Time'' = Some ''1''"
  "safe_compare_hex_or_ascii ''ab'' ''ab''"
  by code_simp+

lemma demo_worlds: "hw_wh demo_hook_world = demo_wh_env" "we_parse demo_wh_env = (\<lambda>_. Inr (JObj []))"
  "we_hmac256 demo_wh_env = (\<lambda>_ _. ''ab'')" "gq_text demo_hook_request = ''{}''"
  by (simp_all add: demo_hook_world_def policy_world.defs demo_wh_env_def demo_hook_request_def)

lemma demo_paypal:
  "verify_paypal (hw_wh demo_hook_world) demo_hook_env (gq_text demo_hook_request) (gq_headers demo_hook_request)
     (Some ''sec'') (Some ''t'')"
  by (simp add: verify_paypal_def parse_paypal_body_def demo_headers demo_worlds Let_def)

lemma demo_size_ok: "\<not> body_exceeds_utf8_limit (gq_text demo_hook_request) 99"
  by code_simp

lemma demo_event_key: "event_key demo_hook_world PayPal demo_hook_request = Some ''paypal:t1''"
  "or_else (gq_headers demo_hook_request ''paypal-cert-url'') None = None"
  by code_simp+

lemma demo_verify_event:
  "verify_event demo_hook_world demo_hook_env ''t'' now PayPal demo_hook_request s = (Verified, snd (verify_event demo_hook_world demo_hook_env ''t'' now PayPal demo_hook_request s))"
  by (simp add: verify_event_def demo_hook_config demo_event_key demo_paypal demo_size_ok on_certs_def note_cert_def Let_def)

lemma demo_not_limited:
  "buckets (gs_rl s) = [] \<Longrightarrow> fst (rate_limited demo_hook_env now key s) = False"
  using first_request_allowed [of "(gs_rl s)\<lparr>mx := mx s\<rparr>" "rl_config demo_hook_env" key now]
  by (auto simp: rate_limited_def on_rl_def max_without_overrides demo_hook_config split: prod.splits)

lemma demo_forward_request:
  "\<exists>f. forward_worker_notify demo_hook_world demo_hook_env ''t'' (gq_text demo_hook_request) (Some ''paypal'') = Inr f"
  by (simp add: forward_worker_notify_def demo_forward_config Let_def)

lemma demo_first_seen:
  assumes "replay_of s = rs_new"
  shows "\<exists>r c s'. remember_key demo_hook_env ''t'' now PayPal (Some ''paypal:t1'') s = (FirstSeen r c, s')"
proof -
  let ?s = "(gs_replay s)\<lparr>mx := mx s\<rparr>"
  have "utf8_len ''paypal:t1'' = 9" by code_simp
  then have "\<not> mr_replay (fst (rs_mark (rp_config demo_hook_env) now ''paypal:t1'' (replay_of s)))"
    by (simp add: assms rs_new_def rs_mark_def rs_accept_def maybe_sweep_def rs_sweep_def sweep_expired_def
        demo_hook_config Let_def split: prod.splits)
  then have "\<not> fst (mark_and_check (rp_config demo_hook_env) now ''paypal:t1'' ?s)" by simp
  then obtain x where "mark_and_check (rp_config demo_hook_env) now ''paypal:t1'' ?s = (False, x)" by (metis prod.collapse)
  then show ?thesis by (simp add: remember_key_def on_replay_def Let_def)
qed

lemma demo_start_forwards:
  assumes "buckets (gs_rl s) = []" and "replay_of s = rs_new"
  shows "\<exists>f s'. webhook_start demo_hook_world demo_hook_env ''t'' clk PayPal demo_hook_request False s = (HookForward f, s')"
proof -
  obtain t1 where t1: "rate_limited demo_hook_env (clk 0) (''webhook:'' @ provider_name PayPal @ '':'' @ request_ip demo_hook_request) s = (False, t1)"
    using demo_not_limited [OF assms(1)] by (metis prod.collapse)
  define t2 where "t2 = snd (verify_event demo_hook_world demo_hook_env ''t'' (clk 1) PayPal demo_hook_request t1)"
  have v: "verify_event demo_hook_world demo_hook_env ''t'' (clk 1) PayPal demo_hook_request t1 = (Verified, t2)"
    using demo_verify_event by (simp add: t2_def)
  have "replay_of t2 = rs_new"
    using rate_limited_replay [OF t1] verify_event_replay [OF v] assms(2) by simp
  from demo_first_seen [OF this] obtain r c s' where
    "remember_event demo_hook_world demo_hook_env ''t'' (clk 2) (clk 3) PayPal demo_hook_request t2 = (FirstSeen r c, s')"
    using remember_event_key [OF demo_event_key(1)] by metis
  with t1 v demo_forward_request show ?thesis
    by (auto simp: webhook_start_def accept_event_def demo_forward_config split: sum.splits)
qed

lemma demo_gateway_empty: "buckets (gs_rl demo_gateway) = []" "replay_of demo_gateway = rs_new"
  by (simp_all add: demo_gateway_def)

theorem forwarded_webhook_witness:
  "\<exists>f s'. webhook_start demo_hook_world demo_hook_env ''t'' int PayPal demo_hook_request False demo_gateway = (HookForward f, s')
     \<and> rq_body f = Some (gq_text demo_hook_request)
     \<and> (''X-Signature'', ''00'') \<in> set (rq_headers f)"
proof -
  obtain f s' where s: "webhook_start demo_hook_world demo_hook_env ''t'' int PayPal demo_hook_request False demo_gateway = (HookForward f, s')"
    using demo_start_forwards [OF demo_gateway_empty] by blast
  have "wn_hmacSecret (read_worker_notify_config demo_hook_env) \<noteq> []" "\<And>k t. pw_hmac demo_hook_world k t = ''00''"
    by (code_simp, simp add: demo_hook_world_def demo_policy_world_def policy_world.defs)
  with forwarded_webhook_is_verified [OF s] s show ?thesis by auto
qed


end
