(* ===== verification/Handler.thy ===== *)
theory Handler
  imports Hooks Sessions
begin

text \<open>
  The request handler of the gateway (\<open>src/src/handler.ts\<close>): the cache routes, template calls, the
  integrity state, metrics and the dispatch of \<open>handleRequest\<close>. One request is run to its end; where
  requests interleave is modelled in the theories of the components. \<open>clk\<close> gives the readings of
  the clock, each part reading from its own offset. \<^term>\<open>None\<close> stands for a rejected promise.
\<close>

section \<open>Surroundings\<close>

record gateway_world = hook_world +
  gt_tpl :: tpl_world
  gt_net :: policy_net
  gt_write_ok :: "string \<Rightarrow> bool"
  gt_resolver :: "http_request \<Rightarrow> resolver_outcome"
  gt_pages :: "string \<Rightarrow> front_outcome"
  gt_fetch :: "http_request \<Rightarrow> fetch_outcome"
  gt_sha256_bytes :: "8 word list \<Rightarrow> string"
  gt_base64 :: "string \<Rightarrow> string"

text \<open>The process and the files it wrote: the checkpoint.\<close>

record process_state = gateway_state +
  pc_files :: "string jmap"

definition resolve_handler_trace :: "'a policy_world_scheme \<Rightarrow> string option \<Rightarrow> string" where
  "resolve_handler_trace w raw = (case Webhooks.resolve_trace_id raw of Some t \<Rightarrow> t | None \<Rightarrow> pw_uuid w)"

definition on_gateway :: "(gateway_state \<Rightarrow> 'r \<times> gateway_state) \<Rightarrow> process_state \<Rightarrow> 'r \<times> process_state" where
  "on_gateway f s =
     (let (r, g) = f (gateway_state.truncate s)
      in (r, gateway_state.extend g \<lparr>pc_files = pc_files s\<rparr>))"

section \<open>The integrity context\<close>

definition files_of :: "gateway_world \<Rightarrow> string jmap \<Rightarrow> string \<Rightarrow> file_read" where
  "files_of w files path = (case map_of files path of Some t \<Rightarrow> FileText t | None \<Rightarrow> pn_read_file (gt_net w) path)"

definition resolve_integrity_context ::
  "gateway_world \<Rightarrow> env \<Rightarrow> (nat \<Rightarrow> int) \<Rightarrow> process_state \<Rightarrow> policy_state option \<times> process_state" where
  "resolve_integrity_context w env clk s =
     (case on_gateway (on_policy (policy_start (clk 0))) s of
        (Some p, s1) \<Rightarrow> (Some p, s1)
      | (None, s1) \<Rightarrow>
          let net = (gt_net w)\<lparr>pn_read_file := files_of w (pc_files s1)\<rparr>;
              (outcome, m, written) = policy_fetch w env net (clk 1) (mx s1);
              files = (case written of Some (path, t) \<Rightarrow> if gt_write_ok w path then AList.update path t (pc_files s1) else pc_files s1
                       | None \<Rightarrow> pc_files s1)
          in on_gateway (on_policy (policy_finish w env (clk 0) (clk 2) outcome)) (s1\<lparr>mx := m, pc_files := files\<rparr>))"

definition current_snapshot :: "'a gateway_state_scheme \<Rightarrow> jsval" where
  "current_snapshot s = pr_snapshot (pl_runtime (gs_policy s))"

text \<open>A route runs on the process without its files and ends with a reply or rejects.\<close>

type_synonym route = "gateway_state \<Rightarrow> http_reply option \<times> gateway_state"

definition reply :: "http_reply \<Rightarrow> route" where
  "reply r s = (Some r, s)"

definition policy_paused_response :: "gateway_world \<Rightarrow> env \<Rightarrow> string \<Rightarrow> route" where
  "policy_paused_response w env trace s =
     (Some (json_reply env trace (pw_show w) 503
        [(''error'', JStr ''policy_paused''), (''reason'', JStr ''integrity_policy_paused''),
         (''paused'', JBool True), (''retryable'', JBool False)] [(''cache-control'', ''no-store'')]),
      minc ''gateway_integrity_unverified_block'' s)"

definition mark_readonly_fallback :: "bool \<Rightarrow> gateway_state \<Rightarrow> gateway_state" where
  "mark_readonly_fallback paused s = (if paused then minc ''gateway_integrity_fallback_readonly'' s else s)"

fun route_name :: "internal_route \<Rightarrow> string" where
  "route_name CacheRoute = ''cache''"
| "route_name ForgetRoute = ''forget''"
| "route_name InboxRoute = ''inbox''"

definition internal_plane_blocked :: "env \<Rightarrow> string \<Rightarrow> internal_route \<Rightarrow> route" where
  "internal_plane_blocked env trace r s =
     (Some (plain_error env trace 404 ''not found''),
      minc (''gateway_internal_plane_blocked_'' @ route_name r) (minc ''gateway_internal_plane_blocked'' s))"

section \<open>The cache route\<close>

fun check_code_text :: "check_code \<Rightarrow> string" where
  "check_code_text IntegrityMismatch = ''integrity_mismatch''"
| "check_code_text NoTrustedRoot = ''missing_trusted_root''"
| "check_code_text PolicyPaused = ''policy_paused''"

definition integrity_error_status :: "string \<Rightarrow> int" where
  "integrity_error_status code = (if code = ''policy_paused'' \<or> code = ''missing_trusted_root'' then 503 else 422)"

text \<open>A root that is not a string counts as none, as the verifier treats it. Reading the release of a
  snapshot without one throws.\<close>

definition handler_trusted_roots :: "jsval \<Rightarrow> string list option" where
  "handler_trusted_roots snap =
     (case jget (jopt snap ''release'') ''root'' of
        None \<Rightarrow> None
      | Some releaseRoot \<Rightarrow>
          let pol = jopt snap ''policy'';
              roots = [jopt pol ''activeRoot'', releaseRoot, jopt (jopt pol ''pendingUpgrade'') ''root'',
                jopt (jopt pol ''compatibilityState'') ''root'']
          in Some (set_of_list (List.map_filter as_str (filter truthy roots))))"

definition header_text :: "headers \<Rightarrow> string \<Rightarrow> string" where
  "header_text hs name = trim (or_empty (hs name))"

definition requires_verified_cache :: "env \<Rightarrow> bool" where
  "requires_verified_cache env = read_strict_enabled_flag ''GATEWAY_INTEGRITY_REQUIRE_VERIFIED_CACHE'' env"

text \<open>The check of a verified write: the status and code it is refused with, or its root and hash.\<close>

definition check_cache_write ::
  "gateway_world \<Rightarrow> jsval \<Rightarrow> gateway_request \<Rightarrow> ((int \<times> string) + (string \<times> string)) option" where
  "check_cache_write w snap req =
     (let rt = header_text (gq_headers req) ''x-integrity-root'';
          declared = header_text (gq_headers req) ''x-integrity-hash'';
          actual = gt_sha256_bytes w (gq_bytes req);
          activeRoot = jopt (jopt snap ''policy'') ''activeRoot''
      in if \<not> truthy activeRoot then Some (Inl (503, ''missing_trusted_root''))
         else if declared \<noteq> [] \<and> declared \<noteq> actual then Some (Inl (422, ''integrity_mismatch''))
         else (case handler_trusted_roots snap of
             None \<Rightarrow> None
           | Some roots \<Rightarrow>
               (case verify_manifest_entry \<lparr>me_root = Some rt, me_hash = Some actual, me_uriHash = None, me_metaHash = None\<rparr>
                    \<lparr>tr_activeRoot = as_str activeRoot, tr_trustedRoots = roots,
                     tr_expectedHash = (if declared \<noteq> [] then Some declared else None),
                     tr_paused = truthy (jopt (jopt snap ''policy'') ''paused'')\<rparr> of
                  Some code \<Rightarrow> Some (Inl (integrity_error_status (check_code_text code), check_code_text code))
                | None \<Rightarrow> Some (Inr (rt, actual)))))"

definition cache_store_reply :: "gateway_world \<Rightarrow> env \<Rightarrow> string \<Rightarrow> (nat \<Rightarrow> int) \<Rightarrow> string \<Rightarrow> 8 word list \<Rightarrow> put_arg \<Rightarrow> route" where
  "cache_store_reply w env trace clk key bytes arg s =
     (case on_cache (cache_put (cache_config env) (clk 0) (clk 1) key bytes arg) s of
        (True, s1) \<Rightarrow> (Some (respond env trace (Text ''stored'') 201 []), s1)
      | (False, s1) \<Rightarrow> (Some (json_reply env trace (pw_show w) 507 [(''error'', JStr ''cache_budget_exceeded'')] []), s1))"

definition handle_cache_put ::
  "gateway_world \<Rightarrow> env \<Rightarrow> string \<Rightarrow> (nat \<Rightarrow> int) \<Rightarrow> gateway_request \<Rightarrow> string \<Rightarrow> jsval \<Rightarrow> route" where
  "handle_cache_put w env trace clk req key snap s =
     (let subject = or_else (gq_headers req ''x-subject'') None in
      if requires_verified_cache env then
        (case check_cache_write w snap req of
           None \<Rightarrow> (None, s)
         | Some (Inl (status, code)) \<Rightarrow>
             (Some (json_reply env trace (pw_show w) status [(''error'', JStr code)] []), minc ''gateway_integrity_verify_fail'' s)
         | Some (Inr (rt, hash)) \<Rightarrow>
             cache_store_reply w env trace (\<lambda>n. clk (n + 1)) key (gq_bytes req)
               (OptionsArg subject (Some \<lparr>ci_verified = True, ci_root = Some rt, ci_hash = Some hash, ci_verifiedAt = Some (clk 0)\<rparr>))
               (minc ''gateway_integrity_verify_ok'' s))
      else cache_store_reply w env trace (\<lambda>n. clk (n + 1)) key (gq_bytes req)
             (case subject of None \<Rightarrow> NoArg | Some u \<Rightarrow> SubjectArg u) s)"

definition handle_cache_get :: "gateway_world \<Rightarrow> env \<Rightarrow> string \<Rightarrow> (nat \<Rightarrow> int) \<Rightarrow> string \<Rightarrow> bool \<Rightarrow> route" where
  "handle_cache_get w env trace clk key paused s =
     (case on_cache (cache_fetch_entry (clk 0) key (requires_verified_cache env)) (mark_readonly_fallback paused s) of
        (Unverified, s1) \<Rightarrow> (Some (json_reply env trace (pw_show w) 503 [(''error'', JStr ''integrity_mismatch'')] []), s1)
      | (Hit v _, s1) \<Rightarrow> (Some (respond env trace (Bytes v) 200 []), s1)
      | (_, s1) \<Rightarrow> (Some (respond env trace (Text ''miss'') 404 []), s1))"

definition handle_cache ::
  "gateway_world \<Rightarrow> env \<Rightarrow> string \<Rightarrow> (nat \<Rightarrow> int) \<Rightarrow> gateway_request \<Rightarrow> string \<Rightarrow> bool \<Rightarrow> jsval \<Rightarrow> route" where
  "handle_cache w env trace clk req key paused snap s =
     (if gq_method req = ''PUT'' then
        (if paused then policy_paused_response w env trace s else handle_cache_put w env trace clk req key snap s)
      else if gq_method req = ''GET'' then handle_cache_get w env trace clk key paused s
      else reply (respond env trace (Text ''method'') 405 []) s)"

section \<open>Forgetting\<close>

definition forget_authorized :: "string option \<Rightarrow> gateway_request \<Rightarrow> bool" where
  "forget_authorized token req =
     (case or_else token None of
        None \<Rightarrow> True
      | Some t \<Rightarrow>
          token_equals t (read_bearer_token (gq_headers req))
          \<or> token_equals t (trim (header_or_empty (gq_headers req) ''authorization''))
          \<or> token_equals t (read_header_token (gq_headers req) ''x-forget-token''))"

definition forget_entries :: "string option \<Rightarrow> string option \<Rightarrow> gateway_state \<Rightarrow> int \<times> gateway_state" where
  "forget_entries subject key s =
     (let (removed, s1) = (case subject of None \<Rightarrow> (0, s) | Some u \<Rightarrow> on_cache (cache_forget_subject u) s)
      in (case key of
            None \<Rightarrow> (removed, s1)
          | Some k \<Rightarrow> (case on_cache (cache_drop_key k) s1 of (True, s2) \<Rightarrow> (1, s2) | (False, s2) \<Rightarrow> (removed, s2))))"

definition add_trace_header :: "string \<Rightarrow> http_request \<Rightarrow> http_request" where
  "add_trace_header trace r =
     r\<lparr>rq_headers := rq_headers r @ (if trace \<noteq> [] then [(''x-trace-id'', trace)] else [])\<rparr>"

text \<open>The body's \<open>subject\<close> and \<open>key\<close> are strings, as the code takes them to be, and count when not empty. For
  the body \<open>null\<close> reading them throws.\<close>

definition body_field :: "jsval \<Rightarrow> string \<Rightarrow> string option" where
  "body_field body k = (case jopt body k of JStr s \<Rightarrow> if s \<noteq> [] then Some s else None | _ \<Rightarrow> None)"

definition handle_forget :: "gateway_world \<Rightarrow> env \<Rightarrow> string \<Rightarrow> (nat \<Rightarrow> int) \<Rightarrow> gateway_request \<Rightarrow> bool \<Rightarrow> bool \<Rightarrow> route" where
  "handle_forget w env trace clk req paused productionLike s =
     (let token = read_raw_env ''GATEWAY_FORGET_TOKEN'' env in
      if \<not> internal_plane_enabled env ForgetRoute productionLike then internal_plane_blocked env trace ForgetRoute s
      else if gq_method req \<noteq> ''POST'' then reply (respond env trace (Text ''method'') 405 []) s
      else if paused then policy_paused_response w env trace s
      else if productionLike \<and> or_empty token = [] then reply (respond env trace (Text ''forget_auth_not_configured'') 500 []) s
      else if \<not> forget_authorized token req then reply (respond env trace (Text ''unauthorized'') 401 []) s
      else
        let body = (case pw_parse w (gq_text req) of Inl _ \<Rightarrow> JObj [] | Inr v \<Rightarrow> v) in
        if body = JNull then (None, s)
        else
          let subject = body_field body ''subject''; key = body_field body ''key'';
              (removed, s1) = forget_entries subject key s;
              (res, s2) = forward_forget_event
                \<lparr>fp_subject = subject, fp_key = key, fp_removed = removed, fp_ts = pw_iso w (clk 0)\<rparr>
                (read_forget_forward_config env) (Some (\<lambda>r. gt_fetch w (add_trace_header trace r))) s1
          in (Some (json_reply env trace (pw_show w) 200
                [(''removed'', JNum (Fin (of_int removed))), (''forwarded'', JBool (fr_forwarded res))] []), s2))"

section \<open>Template calls\<close>

definition template_max_body :: "env \<Rightarrow> int" where
  "template_max_body env = read_positive_int_env ''GATEWAY_TEMPLATE_MAX_BODY_BYTES'' 32768 env"

definition template_read_actions :: "string list" where
  "template_read_actions = [''public.resolve-route'', ''public.site-by-host'', ''public.get-page'']"

definition template_write_actions :: "string list" where
  "template_write_actions = [''checkout.create-order'', ''checkout.create-payment-intent'']"

text \<open>What is read of the body; \<open>tc_payloadSiteId\<close> is empty for a payload that is no object.\<close>

record template_call =
  tc_body :: jsval
  tc_action :: string
  tc_payload :: jsval
  tc_bodySiteId :: string
  tc_payloadSiteId :: string

definition read_template_call :: "gateway_world \<Rightarrow> string \<Rightarrow> (string \<times> int) + template_call" where
  "read_template_call w bodyText =
     (let body = (if bodyText = [] then JNull else (case pw_parse w bodyText of Inl _ \<Rightarrow> JNull | Inr v \<Rightarrow> v));
          c = \<lparr>tc_body = body, tc_action = trim (text_or w (jopt body ''action'') []), tc_payload = jopt body ''payload'',
               tc_bodySiteId = trim_string (jopt body ''siteId''),
               tc_payloadSiteId = trim_string (jopt (jopt body ''payload'') ''siteId'')\<rparr>
      in case body of
           JObj _ \<Rightarrow> if tc_action c = [] then Inl (''action_required'', 400) else Inr c
         | JArr _ \<Rightarrow> Inl (''action_required'', 400)
         | _ \<Rightarrow> Inl (''invalid_json'', 400))"

definition template_token_error :: "env \<Rightarrow> gateway_request \<Rightarrow> string \<Rightarrow> (string \<times> int) option" where
  "template_token_error env req action =
     (let required = or_empty (read_raw_env ''GATEWAY_TEMPLATE_TOKEN'' env);
          write = (action \<in> set template_write_actions \<and> read_strict_enabled_flag ''GATEWAY_TEMPLATE_ALLOW_MUTATIONS'' env)
      in if write \<and> required = [] then Some (''template_auth_not_configured'', 500)
         else if (required \<noteq> [] \<or> write) \<and> \<not> token_equals required (header_text (gq_headers req) ''x-template-token'')
         then Some (''unauthorized'', 401) else None)"

definition site_bound :: "string table_value option \<Rightarrow> bool" where
  "site_bound v = (case v of None \<Rightarrow> False | Some (Own s) \<Rightarrow> s \<noteq> [] | Some (Inherited _) \<Rightarrow> True)"

definition body_fallback_allowed :: "env \<Rightarrow> bool \<Rightarrow> bool" where
  "body_fallback_allowed env productionLike =
     (read_strict_enabled_flag ''GATEWAY_SITE_RESOLVE_ALLOW_BODY_FALLBACK'' env
      \<or> \<not> productionLike \<and> read_env_string ''GATEWAY_SITE_ID_BY_HOST_MAP'' env = None)"

text \<open>The site a call runs for: the one bound to the host, or the call's own where that is allowed.\<close>

definition bind_site :: "env \<Rightarrow> bool \<Rightarrow> template_call \<Rightarrow> string table_value option \<Rightarrow> (string \<times> int) + string table_value option" where
  "bind_site env productionLike c mapped =
     (let fallback = (if tc_bodySiteId c \<noteq> [] then tc_bodySiteId c else tc_payloadSiteId c);
          allowed = body_fallback_allowed env productionLike
      in if \<not> site_bound mapped \<and> tc_action c \<in> set template_write_actions \<and> \<not> allowed then Inl (''site_not_bound_for_host'', 403)
         else if \<not> site_bound mapped \<and> fallback \<noteq> [] \<and> \<not> allowed then Inl (''site_id_without_host_binding'', 400)
         else if site_bound mapped \<and> tc_bodySiteId c \<noteq> [] \<and> mapped \<noteq> Some (Own (tc_bodySiteId c)) then Inl (''site_id_host_mismatch'', 400)
         else if site_bound mapped \<and> tc_payloadSiteId c \<noteq> [] \<and> mapped \<noteq> Some (Own (tc_payloadSiteId c)) then Inl (''site_id_host_mismatch'', 400)
         else Inr (if site_bound mapped then mapped
                   else if allowed \<and> fallback \<noteq> [] then Some (Own fallback) else None))"

definition string_field :: "jsval \<Rightarrow> string \<Rightarrow> string option" where
  "string_field body k = as_str (jopt body k)"

definition template_input :: "string \<Rightarrow> template_call \<Rightarrow> string table_value option \<Rightarrow> runtime_hints option \<Rightarrow> tpl_input" where
  "template_input trace c site hints =
     \<lparr>ti_action = tc_action c,
      ti_payload = (case (site, tc_payload c) of
          (Some v, JObj p) \<Rightarrow> if tc_payloadSiteId c = [] then JObj (spread p [(''siteId'', value_json v)]) else tc_payload c
        | _ \<Rightarrow> tc_payload c),
      ti_requestId = string_field (tc_body c) ''requestId'', ti_siteId = site, ti_runtimeHints = hints,
      ti_runtimeHintsTrusted = (hints \<noteq> None), ti_actor = string_field (tc_body c) ''actor'',
      ti_role = string_field (tc_body c) ''role'', ti_traceId = Some trace\<rparr>"

definition template_reply :: "tpl_response \<Rightarrow> http_reply" where
  "template_reply r = \<lparr>hr_status = tr_status r, hr_headers = header_list (tr_headers r), hr_body = Text (tr_body r)\<rparr>"

definition template_counter :: "int \<Rightarrow> string" where
  "template_counter status =
     (if 200 \<le> status \<and> status < 300 then ''gateway_template_call_ok''
      else if status \<ge> 500 then ''gateway_template_call_backend_fail'' else ''gateway_template_call_blocked'')"

definition blocked :: "gateway_world \<Rightarrow> env \<Rightarrow> string \<Rightarrow> string \<times> int \<Rightarrow> route" where
  "blocked w env trace e s =
     (Some (json_reply env trace (pw_show w) (snd e) [(''error'', JStr (fst e))] []), minc ''gateway_template_call_blocked'' s)"

definition blocked_no_store :: "gateway_world \<Rightarrow> env \<Rightarrow> string \<Rightarrow> string \<times> int \<Rightarrow> route" where
  "blocked_no_store w env trace e s =
     (Some (json_error_response env trace (pw_show w) (snd e) (fst e) []), minc ''gateway_template_call_blocked'' s)"

text \<open>The lookup of the host's site, and the call with the site it is bound to.\<close>

definition resolve_site ::
  "gateway_world \<Rightarrow> env \<Rightarrow> (nat \<Rightarrow> int) \<Rightarrow> string \<Rightarrow> bool \<Rightarrow> gateway_state \<Rightarrow> host_resolution option \<times> gateway_state" where
  "resolve_site w env clk host productionLike s =
     (let (r, st) = resolve_template_site_id_from_host (pw_parse w) (tw_new_url (gt_tpl w)) (pw_show w) env clk (\<lambda>n. clk (n + 4))
            (gt_resolver w) host productionLike (gs_resolver s)
      in (r, s\<lparr>gs_resolver := st\<rparr>))"

definition run_template_call :: "gateway_world \<Rightarrow> env \<Rightarrow> string \<Rightarrow> tpl_input \<Rightarrow> route" where
  "run_template_call w env trace inp s =
     (let (res, m, cache) = proxy_template_call (gt_tpl w) env inp (mx s) (gs_contract s);
          s1 = s\<lparr>mx := m, gs_contract := cache\<rparr>
      in (case res of
            Rejected \<Rightarrow> (None, s1)
          | Reply r \<Rightarrow> (Some (secure_response env trace (template_reply r)), minc (template_counter (tr_status r)) s1)))"

definition bound_template_call ::
  "gateway_world \<Rightarrow> env \<Rightarrow> string \<Rightarrow> (nat \<Rightarrow> int) \<Rightarrow> string \<Rightarrow> bool \<Rightarrow> template_call \<Rightarrow> route" where
  "bound_template_call w env trace clk host productionLike c s =
     (case resolve_site w env clk host productionLike s of
        (None, s1) \<Rightarrow> (None, s1)
      | (Some (SiteFail status err), s1) \<Rightarrow> blocked_no_store w env trace (err, status) s1
      | (Some (SiteOk mapped hints), s1) \<Rightarrow>
          (case bind_site env productionLike c mapped of
             Inl e \<Rightarrow> blocked_no_store w env trace e s1
           | Inr site \<Rightarrow> run_template_call w env trace (template_input trace c site hints) s1))"

definition handle_template_call ::
  "gateway_world \<Rightarrow> env \<Rightarrow> string \<Rightarrow> (nat \<Rightarrow> int) \<Rightarrow> gateway_request \<Rightarrow> bool \<Rightarrow> bool \<Rightarrow> route" where
  "handle_template_call w env trace clk req paused productionLike s0 =
     (let s = minc ''gateway_template_call'' s0 in
      if gq_method req \<noteq> ''POST'' then reply (respond env trace (Text ''method'') 405 []) s
      else (case rate_limited env (clk 0) (''template:'' @ request_ip req) s of
          (True, s1) \<Rightarrow> reply (too_many env trace) s1
        | (False, s1) \<Rightarrow>
            if body_exceeds_utf8_limit (gq_text req) (template_max_body env) then
              (Some (json_error_response env trace (pw_show w) 413 ''payload_too_large'' [(''retryable'', JBool False)]),
               minc ''gateway_template_reject_size'' s1)
            else (case read_template_call w (gq_text req) of
                Inl e \<Rightarrow> blocked w env trace e s1
              | Inr c \<Rightarrow>
                  (case template_token_error env req (tc_action c) of
                     Some e \<Rightarrow> blocked w env trace e s1
                   | None \<Rightarrow>
                       if paused \<and> tc_action c \<in> set template_write_actions then policy_paused_response w env trace s1
                       else bound_template_call w env trace (\<lambda>n. clk (n + 1)) (gq_host req) productionLike c
                              (mark_readonly_fallback (paused \<and> tc_action c \<in> set template_read_actions) s1)))))"

section \<open>Configuration, integrity state and metrics\<close>

fun kind_text :: "action_kind \<Rightarrow> string" where
  "kind_text ReadAction = ''read''"
| "kind_text WriteAction = ''write''"

fun target_text :: "backend_target \<Rightarrow> string" where
  "target_text ToAo = ''ao''"
| "target_text ToWrite = ''write''"
| "target_text ToWorker = ''worker''"

fun mode_text :: "idempotency_mode \<Rightarrow> string" where
  "mode_text IdemRequired = ''required''"
| "mode_text IdemOptional = ''optional''"
| "mode_text IdemForbidden = ''forbidden''"

fun contract_actions_json :: "gateway_world \<Rightarrow> env \<Rightarrow> action_policy list \<Rightarrow> contract_cache \<Rightarrow> jsval list \<times> contract_cache" where
  "contract_actions_json w env [] cache = ([], cache)"
| "contract_actions_json w env (p # ps) cache =
     (let t = gt_tpl w;
          (contract, cache1) = get_template_contract_action (tw_resolve t) (tw_read_file t) (tw_parse t) env (ap_action p) cache;
          (rest, cache2) = contract_actions_json w env ps cache1
      in (JObj [(''action'', JStr (ap_action p)), (''kind'', JStr (kind_text (ap_kind p))),
            (''target'', JStr (target_text (ap_target p))), (''method'', JStr ''POST''), (''path'', JStr (ap_path p)),
            (''requiredRole'', case contract of None \<Rightarrow> JNull | Some c \<Rightarrow> if ca_requiredRole c = [] then JNull else JStr (ca_requiredRole c)),
            (''idempotency'', case contract of None \<Rightarrow> JNull | Some c \<Rightarrow> JStr (mode_text (ca_mode c)))] # rest, cache2))"

definition has_env :: "env \<Rightarrow> string \<Rightarrow> jsval" where
  "has_env env name = JBool (read_env_string name env \<noteq> None)"

definition either_env :: "env \<Rightarrow> string \<Rightarrow> string \<Rightarrow> jsval" where
  "either_env env a b = JBool (read_env_string a env \<noteq> None \<or> read_env_string b env \<noteq> None)"

definition upstream_config_json :: "env \<Rightarrow> jsval" where
  "upstream_config_json env =
     JObj [(''readConfigured'', either_env env ''AO_PUBLIC_API_URL'' ''AO_READ_URL''),
       (''writeConfigured'', has_env env ''WRITE_API_URL''),
       (''signerConfigured'', either_env env ''WORKER_API_URL'' ''WORKER_SIGN_URL''),
       (''signerMapConfigured'', has_env env ''GATEWAY_TEMPLATE_WORKER_URL_MAP''),
       (''signerTokenMapConfigured'', has_env env ''GATEWAY_TEMPLATE_WORKER_TOKEN_MAP''),
       (''variantMapConfigured'', has_env env ''GATEWAY_TEMPLATE_VARIANT_MAP''),
       (''upstreamAuthMode'', JStr (or_empty (or_else (read_env_string ''GATEWAY_TEMPLATE_UPSTREAM_AUTH_MODE'' env) (Some ''none'')))),
       (''upstreamTokenConfigured'', has_env env ''GATEWAY_TEMPLATE_UPSTREAM_TOKEN''),
       (''upstreamTokenMapConfigured'', has_env env ''GATEWAY_TEMPLATE_UPSTREAM_TOKEN_MAP'')]"

definition handle_template_config :: "gateway_world \<Rightarrow> env \<Rightarrow> string \<Rightarrow> int \<Rightarrow> gateway_request \<Rightarrow> bool \<Rightarrow> route" where
  "handle_template_config w env trace now req paused s =
     (if gq_method req \<noteq> ''GET'' then reply (respond env trace (Text ''method'') 405 []) s
      else
        let (actions, cache) = contract_actions_json w env template_action_policies (gs_contract s);
            s1 = (mark_readonly_fallback paused s)\<lparr>gs_contract := cache\<rparr>
        in (Some (json_reply env trace (pw_show w) 200
              [(''ok'', JBool True), (''mode'', JStr ''gateway-node''), (''integrityPaused'', JBool paused),
               (''templateTokenRequired'', JBool (or_empty (read_raw_env ''GATEWAY_TEMPLATE_TOKEN'' env) \<noteq> [])),
               (''writeMutationsEnabled'', JBool (read_strict_enabled_flag ''GATEWAY_TEMPLATE_ALLOW_MUTATIONS'' env)),
               (''maxTemplateBodyBytes'', JNum (Fin (of_int (template_max_body env)))),
               (''upstream'', upstream_config_json env), (''contractActions'', JArr actions),
               (''timestamp'', JStr (pw_iso w now))]
              [(''cache-control'', ''no-store'')]), s1))"

definition or_null :: "jsval \<Rightarrow> jsval" where
  "or_null v = (if truthy v then v else JNull)"

fun source_text :: "policy_source \<Rightarrow> string" where
  "source_text FromEnv = ''env''"
| "source_text FromAo = ''ao''"
| "source_text FromCheckpoint = ''checkpoint''"

definition integrity_state_json :: "policy_state \<Rightarrow> jsval \<Rightarrow> jobj" where
  "integrity_state_json p snap =
     (let pol = jopt snap ''policy'' in
      [(''policy'', JObj [(''paused'', JBool (ps_paused p)), (''source'', JStr (source_text (ps_source p))),
          (''activeRoot'', or_null (jopt pol ''activeRoot'')), (''activePolicyHash'', or_null (jopt pol ''activePolicyHash'')),
          (''maxCheckInAgeSec'', or_null (jopt pol ''maxCheckInAgeSec''))]),
       (''release'', or_null (jopt snap ''release'')), (''authority'', or_null (jopt snap ''authority'')),
       (''audit'', or_null (jopt snap ''audit''))])"

definition handle_integrity_state :: "gateway_world \<Rightarrow> env \<Rightarrow> string \<Rightarrow> gateway_request \<Rightarrow> policy_state \<Rightarrow> jsval \<Rightarrow> route" where
  "handle_integrity_state w env trace req p snap s =
     (let token = or_empty (read_raw_env ''GATEWAY_INTEGRITY_STATE_TOKEN'' env) in
      if gq_method req \<noteq> ''GET'' then reply (respond env trace (Text ''method'') 405 []) s
      else if token \<noteq> [] \<and> \<not> check_token (gq_headers req) token ''x-integrity-token'' then
        (Some (json_reply env trace (pw_show w) 401 [(''error'', JStr ''unauthorized'')] []),
         minc ''gateway_integrity_state_auth_blocked'' s)
      else (Some (json_reply env trace (pw_show w) 200 (integrity_state_json p snap) []), minc ''gateway_integrity_state_read'' s))"

definition metrics_authorized :: "gateway_world \<Rightarrow> env \<Rightarrow> gateway_request \<Rightarrow> bool" where
  "metrics_authorized w env req =
     (let c = read_metrics_auth_config env; auth = header_or_empty (gq_headers req) ''authorization'';
          bearer = read_bearer_token (gq_headers req); alt = read_header_token (gq_headers req) ''x-metrics-token''
      in \<not> (ma_needBasic c \<or> ma_needBearer c \<or> ma_mustGuard c)
         \<or> ma_needBearer c \<and> auth \<noteq> [] \<and> token_equals (ma_bearerToken c) bearer
         \<or> ma_needBearer c \<and> alt \<noteq> [] \<and> token_equals (ma_bearerToken c) alt
         \<or> ma_needBasic c \<and> basic_credentials_match (gt_base64 w) (ma_basicUser c) (ma_basicPass c) auth)"

definition handle_metrics :: "gateway_world \<Rightarrow> env \<Rightarrow> string \<Rightarrow> gateway_request \<Rightarrow> bool \<Rightarrow> route" where
  "handle_metrics w env trace req paused s0 =
     (let c = read_metrics_auth_config env; s = mark_readonly_fallback paused s0 in
      if \<not> ma_needBasic c \<and> \<not> ma_needBearer c \<and> ma_mustGuard c then
        reply (respond env trace (Text ''metrics_auth_not_configured'') 500 []) s
      else if \<not> metrics_authorized w env req then
        (Some (respond env trace (Text ''unauthorized'') 401 [(''WWW-Authenticate'', ''Basic realm=\"metrics\"'')]),
         minc ''gateway_metrics_auth_blocked'' s)
      else reply (respond env trace (Text (to_prom (mx s))) 200 [(''content-type'', ''text/plain; version=0.0.4'')]) s)"

definition handle_inbox :: "env \<Rightarrow> string \<Rightarrow> int \<Rightarrow> gateway_request \<Rightarrow> route" where
  "handle_inbox env trace now req s =
     (case rate_limited env now (''inbox:'' @ request_ip req) s of
        (True, s1) \<Rightarrow> reply (too_many env trace) s1
      | (False, s1) \<Rightarrow> reply (respond env trace (Text ''ok'') 200 []) (minc ''gateway_inbox_accept'' s1))"

section \<open>Dispatch\<close>

definition handle_page :: "gateway_world \<Rightarrow> env \<Rightarrow> string \<Rightarrow> (nat \<Rightarrow> int) \<Rightarrow> gateway_request \<Rightarrow> bool \<Rightarrow> route" where
  "handle_page w env trace clk req productionLike s =
     (case resolve_site w env clk (gq_host req) productionLike s of
        (None, s1) \<Rightarrow> (None, s1)
      | (Some (SiteFail status err), s1) \<Rightarrow> reply (json_error_response env trace (pw_show w) status err []) s1
      | (Some (SiteOk _ hints), s1) \<Rightarrow>
          (case on_front (handle_front_controller_request (pw_parse w) (hw_sha256 w) env (clk 8) (gt_pages w)
               \<lparr>fq_method = gq_method req, fq_host = gq_host req, fq_refresh = query_get req ''refresh''\<rparr> hints) s1 of
             (r, s2) \<Rightarrow> reply (secure_response env trace r) s2))"

definition handle_incident :: "gateway_world \<Rightarrow> env \<Rightarrow> string \<Rightarrow> (nat \<Rightarrow> int) \<Rightarrow> gateway_request \<Rightarrow> jsval \<Rightarrow> route" where
  "handle_incident w env trace clk req snap s =
     (case on_policy (incident_start w env trace clk req snap) s of
        (IncidentReply r, s1) \<Rightarrow> reply r s1
      | (Notifying k action nreq, s1) \<Rightarrow>
          (case on_policy (incident_finish w env trace k action (gt_fetch w nreq)) s1 of (r, s2) \<Rightarrow> reply r s2))"

definition handle_webhook :: "gateway_world \<Rightarrow> env \<Rightarrow> string \<Rightarrow> (nat \<Rightarrow> int) \<Rightarrow> provider \<Rightarrow> gateway_request \<Rightarrow> bool \<Rightarrow> bool \<Rightarrow> route" where
  "handle_webhook w env trace clk p req paused productionLike s =
     (if paused then policy_paused_response w env trace s
      else (case webhook_start w env trace clk p req productionLike s of
          (HookReply r, s1) \<Rightarrow> reply r s1
        | (HookForward freq, s1) \<Rightarrow> (case webhook_finish env trace p (gt_fetch w freq) s1 of (r, s2) \<Rightarrow> reply r s2)))"

definition handle_demo_forward :: "gateway_world \<Rightarrow> env \<Rightarrow> string \<Rightarrow> int \<Rightarrow> gateway_request \<Rightarrow> bool \<Rightarrow> route" where
  "handle_demo_forward w env trace now req paused s =
     (if paused then policy_paused_response w env trace s
      else (case demo_forward_start w env trace now req s of
          (HookReply r, s1) \<Rightarrow> reply r s1
        | (HookForward freq, s1) \<Rightarrow> reply (forward_answer env trace (gt_fetch w freq)) s1))"

definition no_store :: "string \<Rightarrow> http_reply option \<times> gateway_state \<Rightarrow> http_reply option \<times> gateway_state" where
  "no_store trace rs = (map_option (apply_no_store trace) (fst rs), snd rs)"

definition query_not_allowed :: "gateway_world \<Rightarrow> env \<Rightarrow> string \<Rightarrow> http_reply" where
  "query_not_allowed w env trace = json_error_response env trace (pw_show w) 400 ''query_not_allowed'' []"

text \<open>The paths with an exact name, and those of the cache by their beginning.\<close>

datatype gateway_path =
    HealthPath | StatePath | IncidentPath | ForgetPath | CachePath string | InboxPath | TemplateCallPath
  | TemplateConfigPath | FrontPath | MetricsPath | WebhookPath provider | DemoForwardPath | RootPath | UnknownPath

definition gateway_path_of :: "string \<Rightarrow> gateway_path" where
  "gateway_path_of p =
     (if p = ''/health'' \<or> p = ''/healthz'' then HealthPath
      else if p = ''/integrity/state'' then StatePath
      else if p = ''/integrity/incident'' then IncidentPath
      else if starts_with p ''/cache/forget'' then ForgetPath
      else if starts_with p ''/cache/'' then CachePath (drop 7 p)
      else if p = ''/inbox'' then InboxPath
      else if p = ''/template/call'' then TemplateCallPath
      else if p = ''/template/config'' then TemplateConfigPath
      else if p = ''/front-controller'' \<or> p = ''/front-controller/search'' then FrontPath
      else if p = ''/metrics'' then MetricsPath
      else if p = ''/webhook/stripe'' then WebhookPath Stripe
      else if p = ''/webhook/paypal'' then WebhookPath PayPal
      else if p = ''/webhook/gopay'' then WebhookPath GoPay
      else if p = ''/webhook/demo-forward'' then DemoForwardPath
      else if p = ''/'' then RootPath else UnknownPath)"

definition sweep_cache :: "int \<Rightarrow> gateway_state \<Rightarrow> gateway_state" where
  "sweep_cache now s = snd (on_cache (\<lambda>c. ((), cache_sweep now c)) s)"

definition health_reply :: "gateway_world \<Rightarrow> env \<Rightarrow> string \<Rightarrow> int \<Rightarrow> http_reply" where
  "health_reply w env trace now =
     apply_no_store trace (json_reply env trace (pw_show w) 200
       [(''ok'', JBool True), (''service'', JStr ''blackcat-darkmesh-gateway''), (''ts'', JStr (pw_iso w now))] [])"

text \<open>The routes behind the integrity context; \<open>/health\<close> is answered before.\<close>

definition dispatch ::
  "gateway_world \<Rightarrow> env \<Rightarrow> string \<Rightarrow> (nat \<Rightarrow> int) \<Rightarrow> gateway_request \<Rightarrow> policy_state \<Rightarrow> jsval \<Rightarrow> route" where
  "dispatch w env trace clk req p snap s =
     (let paused = ps_paused p; plike = is_production_like_mode env in
      (case gateway_path_of (gq_path req) of
         HealthPath \<Rightarrow> reply (health_reply w env trace (clk 0)) s
       | StatePath \<Rightarrow> no_store trace (handle_integrity_state w env trace req p snap (mark_readonly_fallback paused s))
       | IncidentPath \<Rightarrow> no_store trace (handle_incident w env trace clk req snap s)
       | ForgetPath \<Rightarrow> no_store trace (handle_forget w env trace clk req paused plike s)
       | CachePath key \<Rightarrow>
           if \<not> internal_plane_enabled env CacheRoute plike then no_store trace (internal_plane_blocked env trace CacheRoute s)
           else handle_cache w env trace clk req key paused snap s
       | InboxPath \<Rightarrow>
           if \<not> internal_plane_enabled env InboxRoute plike then no_store trace (internal_plane_blocked env trace InboxRoute s)
           else if paused then policy_paused_response w env trace s else handle_inbox env trace (clk 0) req s
       | TemplateCallPath \<Rightarrow>
           if gq_query req \<noteq> [] then reply (query_not_allowed w env trace) s
           else handle_template_call w env trace clk req paused plike s
       | TemplateConfigPath \<Rightarrow>
           if gq_query req \<noteq> [] then reply (query_not_allowed w env trace) s
           else handle_template_config w env trace (clk 0) req paused s
       | FrontPath \<Rightarrow>
           if length (gq_query req) > 1 \<or> length (gq_query req) = 1 \<and> query_get req ''refresh'' = None
           then reply (query_not_allowed w env trace) s
           else handle_page w env trace clk req plike (mark_readonly_fallback paused s)
       | MetricsPath \<Rightarrow> no_store trace (handle_metrics w env trace req paused s)
       | WebhookPath q \<Rightarrow> handle_webhook w env trace clk q req paused plike s
       | DemoForwardPath \<Rightarrow> handle_demo_forward w env trace (clk 0) req paused s
       | RootPath \<Rightarrow>
           let s1 = mark_readonly_fallback paused (sweep_cache (clk 0) s)
           in if front_controller_enabled env then handle_page w env trace (\<lambda>n. clk (n + 1)) req plike s1
              else reply (respond env trace (Text ''Gateway skeleton'') 200 []) s1
       | UnknownPath \<Rightarrow> reply (plain_error env trace 404 ''not found'') (sweep_cache (clk 0) s)))"

definition handle_request ::
  "gateway_world \<Rightarrow> env \<Rightarrow> (nat \<Rightarrow> int) \<Rightarrow> gateway_request \<Rightarrow> process_state \<Rightarrow> http_reply option \<times> process_state" where
  "handle_request w env clk req s =
     (let trace = resolve_handler_trace w (gq_headers req ''x-trace-id'') in
      if gateway_path_of (gq_path req) = HealthPath then (Some (health_reply w env trace (clk 0)), s)
      else (case resolve_integrity_context w env clk s of
          (None, s1) \<Rightarrow> (None, s1)
        | (Some p, s1) \<Rightarrow>
            on_gateway (dispatch w env trace (\<lambda>n. clk (n + 3)) req p (current_snapshot s1)) s1))"

end
