(* ===== verification/Gateway.thy ===== *)
theory Gateway
  imports Handler
begin

text \<open>
  What the whole request handler guarantees, over the definitions of \<open>Handler\<close>: every reply is hardened, a paused
  gateway takes no writes, the template's servers are asked for bound calls only, a verified write is
  trusted and forgetting is authorised; with a gateway to run them on.
\<close>

section \<open>Every reply is hardened\<close>

text \<open>A route gives hardened replies only.\<close>

definition hardened_result :: "env \<Rightarrow> string \<Rightarrow> http_reply option \<times> gateway_state \<Rightarrow> bool" where
  "hardened_result env trace rs \<longleftrightarrow> (case fst rs of None \<Rightarrow> True | Some r \<Rightarrow> hardened env trace r)"

named_theorems hardening \<open>replies that are hardened, route by route\<close>

lemma hardened_reply [hardening]: "hardened env trace r \<Longrightarrow> hardened_result env trace (reply r s)"
  by (simp add: reply_def hardened_result_def)

lemma hardened_pair [simp]: "hardened_result env trace (Some r, s) = hardened env trace r"
  "hardened_result env trace (None, s)"
  by (simp_all add: hardened_result_def)

lemma hardened_no_store_result [hardening]:
  "trace \<noteq> [] \<Longrightarrow> hardened_result env trace rs \<Longrightarrow> hardened_result env trace (no_store trace rs)"
  by (cases rs; cases "fst rs") (auto simp: no_store_def hardened_result_def intro: hardened_no_store)

lemma hardened_paused [hardening]: "trace \<noteq> [] \<Longrightarrow> hardened_result env trace (policy_paused_response w env trace s)"
  by (simp add: policy_paused_response_def)

lemma hardened_blocked_plane [hardening]:
  "trace \<noteq> [] \<Longrightarrow> hardened_result env trace (internal_plane_blocked env trace r s)"
  by (simp add: internal_plane_blocked_def)

lemma hardened_store [hardening]:
  "trace \<noteq> [] \<Longrightarrow> hardened_result env trace (cache_store_reply w env trace clk key b arg s)"
  by (simp add: cache_store_reply_def split: prod.splits bool.splits)

lemma hardened_put [hardening]:
  "trace \<noteq> [] \<Longrightarrow> hardened_result env trace (handle_cache_put w env trace clk req key snap s)"
  by (auto simp: handle_cache_put_def Let_def intro!: hardened_store split: option.splits sum.splits prod.splits)

lemma hardened_get [hardening]:
  "trace \<noteq> [] \<Longrightarrow> hardened_result env trace (handle_cache_get w env trace clk key paused s)"
  by (simp add: handle_cache_get_def split: prod.splits fetch_result.splits)

lemma hardened_cache [hardening]:
  "trace \<noteq> [] \<Longrightarrow> hardened_result env trace (handle_cache w env trace clk req key paused snap s)"
  by (simp add: handle_cache_def hardening)

lemma hardened_forget [hardening]:
  "trace \<noteq> [] \<Longrightarrow> hardened_result env trace (handle_forget w env trace clk req paused plike s)"
  by (auto simp: handle_forget_def policy_paused_response_def internal_plane_blocked_def reply_def Let_def split: prod.splits)

lemma hardened_too_many [simp]: "trace \<noteq> [] \<Longrightarrow> hardened env trace (too_many env trace)"
  by (simp add: too_many_def)

lemma hardened_template [hardening]:
  "trace \<noteq> [] \<Longrightarrow> hardened_result env trace (handle_template_call w env trace clk req paused plike s)"
  by (auto simp: handle_template_call_def bound_template_call_def run_template_call_def blocked_def blocked_no_store_def
      policy_paused_response_def reply_def Let_def
      split: option.splits sum.splits prod.splits bool.splits host_resolution.splits tpl_result.splits)

lemma hardened_config [hardening]:
  "trace \<noteq> [] \<Longrightarrow> hardened_result env trace (handle_template_config w env trace now req paused s)"
  by (auto simp: handle_template_config_def reply_def split: prod.splits)

lemma hardened_state [hardening]:
  "trace \<noteq> [] \<Longrightarrow> hardened_result env trace (handle_integrity_state w env trace req p snap s)"
  by (simp add: handle_integrity_state_def reply_def Let_def)

lemma hardened_metrics [hardening]:
  "trace \<noteq> [] \<Longrightarrow> hardened_result env trace (handle_metrics w env trace req paused s)"
  by (simp add: handle_metrics_def reply_def Let_def)

lemma hardened_inbox [hardening]: "trace \<noteq> [] \<Longrightarrow> hardened_result env trace (handle_inbox env trace now req s)"
  by (auto simp: handle_inbox_def reply_def split: prod.splits bool.splits)

lemma hardened_page [hardening]: "trace \<noteq> [] \<Longrightarrow> hardened_result env trace (handle_page w env trace clk req plike s)"
  by (auto simp: handle_page_def reply_def split: option.splits prod.splits host_resolution.splits)

lemma incident_admit_hardened:
  "trace \<noteq> [] \<Longrightarrow> incident_admit w env trace req snap = Inl (r, incs) \<Longrightarrow> hardened env trace r"
  by (auto simp: incident_admit_def sum_bind_def incident_authenticate_def incident_validate_def incident_authorize_def
      incident_error_def Let_def split: sum.splits jsval.splits if_splits prod.splits)

lemma incident_start_hardened:
  "incident_start w env trace clk req snap s = (IncidentReply r, s') \<Longrightarrow> trace \<noteq> [] \<Longrightarrow> hardened env trace r"
  by (auto simp: incident_start_def incident_duplicate_def incident_done_def Let_def
      dest: incident_admit_hardened split: sum.splits option.splits)

lemma incident_finish_hardened:
  "incident_finish w env trace k action outcome s = (r, s') \<Longrightarrow> trace \<noteq> [] \<Longrightarrow> hardened env trace r"
  by (auto simp: incident_finish_def incident_done_def Let_def split: fetch_outcome.splits if_splits)

lemma hardened_incident [hardening]: "trace \<noteq> [] \<Longrightarrow> hardened_result env trace (handle_incident w env trace clk req snap s)"
  by (auto simp: handle_incident_def on_policy_def reply_def split: prod.splits incident_phase.splits
      dest: incident_start_hardened incident_finish_hardened)

lemma wrap_hardened: "trace \<noteq> [] \<Longrightarrow> wrap_webhook env trace p res s = (r, s') \<Longrightarrow> hardened env trace r"
  by (auto simp: wrap_webhook_def split: option.splits)

lemma webhook_start_hardened:
  "trace \<noteq> [] \<Longrightarrow> webhook_start w env trace clk p req plike s = (HookReply r, s') \<Longrightarrow> hardened env trace r"
  by (auto simp: webhook_start_def accept_event_def Let_def dest: wrap_hardened
      split: prod.splits bool.splits verified.splits first_seen.splits if_splits sum.splits)

lemma hardened_webhook [hardening]:
  "trace \<noteq> [] \<Longrightarrow> hardened_result env trace (handle_webhook w env trace clk p req paused plike s)"
  by (auto simp: handle_webhook_def webhook_finish_def policy_paused_response_def reply_def Let_def
      split: prod.splits hook_phase.splits dest: wrap_hardened webhook_start_hardened)

lemma forward_answer_hardened [simp]: "trace \<noteq> [] \<Longrightarrow> hardened env trace (forward_answer env trace outcome)"
  by (simp add: forward_answer_def split: fetch_outcome.splits)

lemma demo_start_hardened:
  "trace \<noteq> [] \<Longrightarrow> demo_forward_start w env trace now req s = (HookReply r, s') \<Longrightarrow> hardened env trace r"
  by (auto simp: demo_forward_start_def forward_worker_notify_def webhook_too_large_def Let_def
      split: if_splits option.splits prod.splits bool.splits sum.splits)

lemma hardened_demo [hardening]:
  "trace \<noteq> [] \<Longrightarrow> hardened_result env trace (handle_demo_forward w env trace now req paused s)"
  by (auto simp: handle_demo_forward_def policy_paused_response_def reply_def
      split: prod.splits hook_phase.splits dest: demo_start_hardened)

lemma hardened_health [simp]: "trace \<noteq> [] \<Longrightarrow> hardened env trace (health_reply w env trace now)"
  by (simp add: health_reply_def hardened_no_store)

lemma hardened_dispatch:
  assumes "trace \<noteq> []"
  shows "hardened_result env trace (dispatch w env trace clk req p snap s)"
  using assms
  by (auto simp: dispatch_def query_not_allowed_def Let_def intro!: hardening split: gateway_path.splits)

lemma handler_trace_nonempty: "pw_uuid w \<noteq> [] \<Longrightarrow> resolve_handler_trace w raw \<noteq> []"
  by (auto simp: resolve_handler_trace_def Webhooks.resolve_trace_id_def matches_class_def Let_def split: option.splits if_splits)

text \<open>
  Whatever a request asks for, a reply of the handler carries the request's trace id (the one presented, where
  it is well formed, or a new one) and, unless they are switched off, every security header, with the
  configured content security policy.
\<close>

theorem every_reply_is_hardened:
  assumes "handle_request w env clk req s = (Some r, s')" and "pw_uuid w \<noteq> []"
  shows "hardened env (resolve_handler_trace w (gq_headers req ''x-trace-id'')) r"
proof -
  let ?t = "resolve_handler_trace w (gq_headers req ''x-trace-id'')"
  have t: "?t \<noteq> []" using handler_trace_nonempty [OF assms(2)] .
  show ?thesis
  proof (cases "gateway_path_of (gq_path req) = HealthPath")
    case True
    with assms(1) t show ?thesis by (auto simp: handle_request_def Let_def)
  next
    case False
    with assms(1) obtain p s1 where
      "on_gateway (dispatch w env ?t (\<lambda>n. clk (n + 3)) req p (current_snapshot s1)) s1 = (Some r, s')"
      by (auto simp: handle_request_def Let_def split: prod.splits option.splits)
    then have "fst (dispatch w env ?t (\<lambda>n. clk (n + 3)) req p (current_snapshot s1) (gateway_state.truncate s1)) = Some r"
      by (auto simp: on_gateway_def split: prod.splits)
    then show ?thesis
      using hardened_dispatch [OF t, of env w "\<lambda>n. clk (n + 3)" req p "current_snapshot s1" "gateway_state.truncate s1"]
      by (auto simp: hardened_result_def)
  qed
qed

section \<open>While the gateway is paused\<close>

text \<open>What a paused gateway must leave alone: no cached entry is added or replaced, and the webhook tables stay.\<close>

definition intact :: "gateway_state \<Rightarrow> gateway_state \<Rightarrow> bool" where
  "intact s s' \<longleftrightarrow> set (store (gs_cache s')) \<subseteq> set (store (gs_cache s)) \<and> gs_replay s' = gs_replay s
     \<and> gs_gopay s' = gs_gopay s \<and> gs_certs s' = gs_certs s"

lemma intact_refl [simp]: "intact s s"
  by (simp add: intact_def)

lemma intact_trans: "intact s s1 \<Longrightarrow> intact s1 s2 \<Longrightarrow> intact s s2"
  by (auto simp: intact_def)

lemma intact_updates [simp]:
  "intact s (minc k s') = intact s s'" "intact s (s'\<lparr>gs_contract := c\<rparr>) = intact s s'"
  "intact s (s'\<lparr>gs_resolver := r\<rparr>) = intact s s'" "intact s (s'\<lparr>mx := m\<rparr>) = intact s s'"
  "intact s (mark_readonly_fallback b s') = intact s s'"
  by (simp_all add: intact_def minc_def mark_readonly_fallback_def)

lemma intact_from [simp]:
  "intact (minc k s) s' = intact s s'" "intact (mark_readonly_fallback b s) s' = intact s s'"
  by (simp_all add: intact_def minc_def mark_readonly_fallback_def)

lemma intact_parts [simp]:
  "intact s (s'\<lparr>gs_rl := a\<rparr>) = intact s s'" "intact s (s'\<lparr>gs_policy := b\<rparr>) = intact s s'"
  "intact s (s'\<lparr>gs_front := d\<rparr>) = intact s s'"
  by (simp_all add: intact_def)

lemma intact_on [simp]:
  "on_rl f s = (r, s') \<Longrightarrow> intact s s'" "on_policy g s = (q, s') \<Longrightarrow> intact s s'" "on_front h s = (u, s') \<Longrightarrow> intact s s'"
  by (auto simp: on_rl_def on_policy_def on_front_def split: prod.splits)

lemma intact_limited: "rate_limited env now key s = (b, s') \<Longrightarrow> intact s s'"
  by (auto simp: rate_limited_def split: prod.splits)

lemma set_delete_subset: "set (AList.delete k m) \<subseteq> set m"
  by (auto simp: AList.delete_eq)

lemma fetch_store_subset: "set (store (snd (cache_fetch_entry now k v c))) \<subseteq> set (store c)"
  using set_delete_subset [of k "store c"]
  by (auto simp: cache_fetch_entry_def touch_key_def dest!: set_update_cases dest: map_of_SomeD split: option.splits)

lemma sweep_store_subset: "set (store (cache_sweep now c)) \<subseteq> set (store c)"
proof -
  have "set (store (fold delete_entry ks c)) \<subseteq> set (store c)" for ks
  proof (induction ks arbitrary: c)
    case (Cons k ks)
    then show ?case using Cons [of "delete_entry k c"] set_delete_subset [of k "store c"] by auto
  qed simp
  then show ?thesis by (simp add: cache_sweep_def Let_def)
qed

lemma intact_on_cache:
  assumes "on_cache f s = (r, s')" and "\<And>c. set (store (snd (f c))) \<subseteq> set (store c)"
  shows "intact s s'"
  using assms(1) assms(2) [of "(gs_cache s)\<lparr>mx := mx s\<rparr>"] by (auto simp: on_cache_def intact_def split: prod.splits)

lemma intact_sweep: "intact s (sweep_cache now s)"
  using intact_on_cache [of "\<lambda>c. ((), cache_sweep now c)" s] sweep_store_subset
  by (cases "on_cache (\<lambda>c. ((), cache_sweep now c)) s") (auto simp: sweep_cache_def)

lemma intact_resolve: "resolve_site w env clk host plike s = (r, s') \<Longrightarrow> intact s s'"
  by (auto simp: resolve_site_def split: prod.splits)

lemma intact_paused: "policy_paused_response w env trace s = (r, s') \<Longrightarrow> intact s s'"
  by (auto simp: policy_paused_response_def)

lemma intact_cache: "handle_cache w env trace clk req key True snap s = (r, s') \<Longrightarrow> intact s s'"
proof -
  assume r: "handle_cache w env trace clk req key True snap s = (r, s')"
  obtain u t where u: "on_cache (cache_fetch_entry (clk 0) key (requires_verified_cache env)) (mark_readonly_fallback True s) = (u, t)"
    by fastforce
  have "intact (mark_readonly_fallback True s) t" by (rule intact_on_cache [OF u fetch_store_subset])
  then have "intact s t" using intact_trans [of s "mark_readonly_fallback True s" t] by simp
  then show ?thesis using r u
    by (cases u) (auto simp: handle_cache_def handle_cache_get_def reply_def policy_paused_response_def split: if_splits)
qed

lemma intact_page:
  assumes "handle_page w env trace clk req plike s = (r, s')"
  shows "intact s s'"
proof -
  obtain site s1 where s1: "resolve_site w env clk (gq_host req) plike s = (site, s1)" by fastforce
  note first = intact_resolve [OF s1]
  show ?thesis
  proof (cases "\<exists>sid hints. site = Some (SiteOk sid hints)")
    case True
    with assms s1 show ?thesis
      by (auto simp: handle_page_def reply_def split: prod.splits intro: intact_trans [OF first intact_on(3)])
  next
    case False
    with assms s1 first show ?thesis
      by (auto simp: handle_page_def reply_def split: option.splits host_resolution.splits)
  qed
qed

lemma intact_page_after:
  "handle_page w env trace clk req plike s1 = (r, s') \<Longrightarrow> intact s s1 \<Longrightarrow> intact s s'"
  by (rule intact_trans) (auto intro: intact_page)

lemma intact_run: "run_template_call w env trace inp s = (r, s') \<Longrightarrow> intact s s'"
  by (auto simp: run_template_call_def Let_def split: prod.splits tpl_result.splits)

lemma intact_bound: "bound_template_call w env trace clk host plike c s = (r, s') \<Longrightarrow> intact s s'"
  by (auto simp: bound_template_call_def blocked_no_store_def dest!: intact_resolve dest: intact_run intro: intact_trans
      split: prod.splits option.splits host_resolution.splits sum.splits)

lemma intact_template: "handle_template_call w env trace clk req paused plike s = (r, s') \<Longrightarrow> intact s s'"
proof -
  assume r: "handle_template_call w env trace clk req paused plike s = (r, s')"
  define s0 where "s0 = minc ''gateway_template_call'' s"
  obtain b s1 where s1: "rate_limited env (clk 0) (''template:'' @ request_ip req) s0 = (b, s1)" by fastforce
  have "intact s s0" by (simp add: s0_def)
  moreover have "intact s s1" using intact_limited [OF s1] by (simp add: s0_def)
  ultimately show ?thesis
    using r s1 unfolding handle_template_call_def s0_def [symmetric] Let_def
    by (auto simp: reply_def blocked_def policy_paused_response_def dest!: intact_bound intro: intact_trans
        split: if_splits bool.splits sum.splits option.splits)
qed

lemma intact_incident: "handle_incident w env trace clk req snap s = (r, s') \<Longrightarrow> intact s s'"
proof -
  assume r: "handle_incident w env trace clk req snap s = (r, s')"
  obtain ph s1 where s1: "on_policy (incident_start w env trace clk req snap) s = (ph, s1)" by fastforce
  show ?thesis
  proof (cases ph)
    case (Notifying k action nreq)
    obtain q s2 where s2: "on_policy (incident_finish w env trace k action (gt_fetch w nreq)) s1 = (q, s2)" by fastforce
    with r s1 Notifying have "s' = s2" by (simp add: handle_incident_def reply_def)
    then show ?thesis using intact_trans [OF intact_on(2) [OF s1] intact_on(2) [OF s2]] by simp
  qed (use r s1 in \<open>auto simp: handle_incident_def reply_def\<close>)
qed

lemma no_store_state: "no_store trace rs = (r, s') \<Longrightarrow> s' = snd rs"
  by (simp add: no_store_def)

definition takes_writes :: "gateway_request \<Rightarrow> bool" where
  "takes_writes req \<longleftrightarrow>
     (case gateway_path_of (gq_path req) of
        ForgetPath \<Rightarrow> gq_method req = ''POST'' | CachePath _ \<Rightarrow> gq_method req = ''PUT'' | InboxPath \<Rightarrow> True
      | WebhookPath _ \<Rightarrow> True | DemoForwardPath \<Rightarrow> True | _ \<Rightarrow> False)"

lemma paused_refuses:
  assumes "ps_paused p" and "takes_writes req"
  shows "\<exists>r. fst (dispatch w env trace clk req p snap s) = Some r \<and> hr_status r \<in> {404, 503}
    \<and> intact s (snd (dispatch w env trace clk req p snap s))"
proof -
  note closed = internal_plane_blocked_def policy_paused_response_def no_store_def
  show ?thesis
  proof (cases "gateway_path_of (gq_path req)")
    case ForgetPath
    with assms show ?thesis by (simp add: takes_writes_def dispatch_def closed handle_forget_def Let_def)
  next
    case (CachePath key)
    with assms show ?thesis by (simp add: takes_writes_def dispatch_def closed handle_cache_def Let_def)
  next
    case InboxPath
    with assms show ?thesis by (simp add: dispatch_def closed Let_def)
  next
    case (WebhookPath q)
    with assms show ?thesis by (simp add: dispatch_def closed handle_webhook_def Let_def)
  next
    case DemoForwardPath
    with assms show ?thesis by (simp add: dispatch_def closed handle_demo_forward_def Let_def)
  qed (use assms in \<open>simp_all add: takes_writes_def\<close>)
qed

lemma paused_intact:
  assumes "ps_paused p" and "dispatch w env trace clk req p snap s = (r, s')"
  shows "intact s s'"
proof (cases "gateway_path_of (gq_path req)")
  case ForgetPath
  with assms show ?thesis
    by (auto simp: dispatch_def no_store_def handle_forget_def internal_plane_blocked_def policy_paused_response_def reply_def
        Let_def split: if_splits)
next
  case (CachePath key)
  with assms show ?thesis
    by (auto simp: dispatch_def no_store_def internal_plane_blocked_def Let_def split: if_splits dest: intact_cache)
next
  case InboxPath
  with assms show ?thesis
    by (auto simp: dispatch_def no_store_def internal_plane_blocked_def policy_paused_response_def Let_def split: if_splits)
next
  case TemplateCallPath
  with assms show ?thesis by (auto simp: dispatch_def reply_def Let_def split: if_splits dest: intact_template)
next
  case TemplateConfigPath
  with assms show ?thesis
    by (auto simp: dispatch_def reply_def handle_template_config_def Let_def split: if_splits prod.splits)
next
  case FrontPath
  with assms show ?thesis
    by (auto simp: dispatch_def reply_def Let_def split: if_splits dest!: intact_page_after [where s = s])
next
  case RootPath
  with assms show ?thesis using intact_sweep [of s "clk 0"]
    by (auto simp: dispatch_def reply_def Let_def split: if_splits dest!: intact_page_after [where s = s])
next
  case IncidentPath
  with assms intact_incident [of w env trace clk req snap s] show ?thesis
    by (cases "handle_incident w env trace clk req snap s") (auto simp: dispatch_def no_store_def)
qed (use assms intact_sweep in \<open>auto simp: dispatch_def reply_def no_store_def handle_integrity_state_def handle_metrics_def
    handle_webhook_def handle_demo_forward_def policy_paused_response_def Let_def split: if_splits\<close>)

text \<open>
  C8: While the integrity policy is paused no request adds or replaces a cached entry or changes the replay,
  idempotency or certificate tables of the webhooks, and every request that would write (a cache PUT, a
  forget POST, the inbox, a webhook, the demonstration forward) is answered 503, or 404 where the route is closed.
\<close>

theorem paused_gateway_takes_no_writes:
  assumes "ps_paused p" and "dispatch w env trace clk req p snap s = (r, s')"
  shows "set (store (gs_cache s')) \<subseteq> set (store (gs_cache s)) \<and> gs_replay s' = gs_replay s
    \<and> gs_gopay s' = gs_gopay s \<and> gs_certs s' = gs_certs s
    \<and> (takes_writes req \<longrightarrow> (\<exists>q. r = Some q \<and> hr_status q \<in> {404, 503}))"
  using paused_intact [OF assms] paused_refuses [OF assms(1), of req w env trace clk snap s] assms(2)
  by (auto simp: intact_def)


section \<open>What the template's servers can influence\<close>

text \<open>The same surroundings with other answers of the signer and of the upstream.\<close>

definition with_servers :: "(http_request \<Rightarrow> sign_outcome) \<Rightarrow> (http_request \<Rightarrow> upstream_outcome) \<Rightarrow> gateway_world \<Rightarrow> gateway_world" where
  "with_servers sg up w = w\<lparr>gt_tpl := (gt_tpl w)\<lparr>tw_sign := sg, tw_upstream := up\<rparr>\<rparr>"

lemma with_servers_text [simp]: "js_text (with_servers sg up w) v = js_text w v"
  by (simp add: js_text_def with_servers_def split: jsval.splits)

lemma with_servers_same [simp]:
  "pw_show (with_servers sg up w) = pw_show w" "pw_parse (with_servers sg up w) = pw_parse w"
  "gt_resolver (with_servers sg up w) = gt_resolver w"
  "tw_new_url (gt_tpl (with_servers sg up w)) = tw_new_url (gt_tpl w)"
  by (simp_all add: with_servers_def)

lemma with_servers_reads [simp]: "read_template_call (with_servers sg up w) t = read_template_call w t"
  unfolding read_template_call_def text_or_def with_servers_text with_servers_same ..

lemma with_servers_routes [simp]:
  "blocked (with_servers sg up w) env trace e = blocked w env trace e"
  "blocked_no_store (with_servers sg up w) env trace e = blocked_no_store w env trace e"
  "policy_paused_response (with_servers sg up w) env trace = policy_paused_response w env trace"
  "resolve_site (with_servers sg up w) env clk host plike = resolve_site w env clk host plike"
  by (simp_all add: blocked_def blocked_no_store_def policy_paused_response_def resolve_site_def fun_eq_iff)

lemma bound_call_differs:
  assumes "bound_template_call (with_servers sg up w) env trace clk host plike c s
      \<noteq> bound_template_call w env trace clk host plike c s"
  obtains mapped hints site where "fst (resolve_site w env clk host plike s) = Some (SiteOk mapped hints)"
    and "bind_site env plike c mapped = Inr site"
  using assms
  by (auto simp: bound_template_call_def split: prod.splits option.splits host_resolution.splits sum.splits)

lemma bind_site_bound:
  "bind_site env plike c mapped = Inr site \<Longrightarrow> site_bound mapped \<Longrightarrow>
   site = mapped \<and> (tc_bodySiteId c = [] \<or> mapped = Some (Own (tc_bodySiteId c)))
   \<and> (tc_payloadSiteId c = [] \<or> mapped = Some (Own (tc_payloadSiteId c)))"
  by (auto simp: bind_site_def Let_def split: if_splits)

lemma bind_site_unbound:
  "bind_site env plike c mapped = Inr site \<Longrightarrow> \<not> site_bound mapped \<Longrightarrow>
   body_fallback_allowed env plike \<or> site = None \<and> tc_action c \<notin> set template_write_actions
     \<and> tc_bodySiteId c = [] \<and> tc_payloadSiteId c = []"
  by (auto simp: bind_site_def Let_def split: if_splits)


section \<open>Writes to the cache and forgetting\<close>

lemma cache_store_201:
  assumes "cache_store_reply w env trace clk key b arg s = (Some r, s')" and "hr_status r = 201"
  shows "\<exists>c. map_of (store (gs_cache s')) key = Some c \<and> ce_value c = b \<and> ce_integrity c = put_integrity arg"
  using assms
  by (auto simp: cache_store_reply_def on_cache_def put_store_lookup split: prod.splits bool.splits elim!: put_True)

lemma check_cache_write_trusted:
  assumes "check_cache_write w snap req = Some (Inr (rt, hash))"
  shows "truthy (jopt (jopt snap ''policy'') ''activeRoot'') \<and> \<not> truthy (jopt (jopt snap ''policy'') ''paused'')
    \<and> rt = header_text (gq_headers req) ''x-integrity-root'' \<and> hash = gt_sha256_bytes w (gq_bytes req)
    \<and> header_text (gq_headers req) ''x-integrity-hash'' \<in> {[], hash}
    \<and> (\<exists>roots t. handler_trusted_roots snap = Some roots
         \<and> (t \<in> set roots \<or> as_str (jopt (jopt snap ''policy'') ''activeRoot'') = Some t)
         \<and> normalize_integrity_token (Some t) = normalize_integrity_token (Some rt)
         \<and> normalize_integrity_token (Some rt) \<noteq> None)"
proof -
  obtain roots where roots: "handler_trusted_roots snap = Some roots"
    using assms by (auto simp: check_cache_write_def Let_def split: if_splits option.splits)
  have ok: "truthy (jopt (jopt snap ''policy'') ''activeRoot'')" "rt = header_text (gq_headers req) ''x-integrity-root''"
    "hash = gt_sha256_bytes w (gq_bytes req)" "header_text (gq_headers req) ''x-integrity-hash'' \<in> {[], hash}"
    using assms roots by (auto simp: check_cache_write_def Let_def split: if_splits option.splits)
  have entry: "\<exists>h. verify_manifest_entry \<lparr>me_root = Some rt, me_hash = Some hash, me_uriHash = None, me_metaHash = None\<rparr>
      \<lparr>tr_activeRoot = as_str (jopt (jopt snap ''policy'') ''activeRoot''), tr_trustedRoots = roots,
       tr_expectedHash = h, tr_paused = truthy (jopt (jopt snap ''policy'') ''paused'')\<rparr> = None"
    using assms roots ok by (auto simp: check_cache_write_def Let_def split: if_splits option.splits)
  then obtain h p where p: "p = \<lparr>tr_activeRoot = as_str (jopt (jopt snap ''policy'') ''activeRoot''), tr_trustedRoots = roots,
       tr_expectedHash = h, tr_paused = truthy (jopt (jopt snap ''policy'') ''paused'')\<rparr>"
    and e: "verify_manifest_entry \<lparr>me_root = Some rt, me_hash = Some hash, me_uriHash = None, me_metaHash = None\<rparr> p = None"
    by blast
  obtain n where n: "normalize_integrity_token (Some rt) = Some n"
    using e by (auto simp: verify_manifest_entry_def Let_def split: if_splits option.splits)
  have "n \<in> set (collect_trusted_roots p)" "\<not> tr_paused p"
    using e n trusted_in_collected [OF n, of p] by (auto simp: verify_manifest_entry_def Let_def split: if_splits option.splits)
  moreover have "normalize_integrity_token None = None" by (simp add: normalize_integrity_token_def)
  ultimately show ?thesis
    using n p roots ok
    by (cases "as_str (jopt (jopt snap ''policy'') ''activeRoot'')") (auto simp: collected_roots)
qed

text \<open>
  Where verified entries are required, a cache PUT is answered 201 only if the gateway and the policy of
  the snapshot are not paused, the snapshot has an active root and the request's root is, up to its
  spelling, the active root or another trusted one; the entry stored under the key is the body of the
  request, marked verified with that root and the hash of the body, which is the declared hash if there is one.
\<close>

theorem verified_write_is_trusted:
  assumes "handle_cache w env trace clk req key paused snap s = (Some r, s')" and "gq_method req = ''PUT''"
    and "hr_status r = 201" and "requires_verified_cache env"
  shows "\<not> paused \<and> \<not> truthy (jopt (jopt snap ''policy'') ''paused'')
    \<and> (\<exists>rt roots t. rt = header_text (gq_headers req) ''x-integrity-root''
         \<and> handler_trusted_roots snap = Some roots
         \<and> (t \<in> set roots \<or> as_str (jopt (jopt snap ''policy'') ''activeRoot'') = Some t)
         \<and> normalize_integrity_token (Some t) = normalize_integrity_token (Some rt)
         \<and> normalize_integrity_token (Some rt) \<noteq> None
         \<and> header_text (gq_headers req) ''x-integrity-hash'' \<in> {[], gt_sha256_bytes w (gq_bytes req)}
         \<and> (\<exists>e. map_of (store (gs_cache s')) key = Some e \<and> ce_value e = gq_bytes req
              \<and> ce_integrity e = Some \<lparr>ci_verified = True, ci_root = Some rt,
                    ci_hash = Some (gt_sha256_bytes w (gq_bytes req)), ci_verifiedAt = Some (clk 0)\<rparr>))"
proof -
  have open': "\<not> paused" using assms(1-3) by (auto simp: handle_cache_def policy_paused_response_def)
  have put: "handle_cache_put w env trace clk req key snap s = (Some r, s')"
    using assms(1,2) open' by (simp add: handle_cache_def)
  obtain rt hash where c: "check_cache_write w snap req = Some (Inr (rt, hash))"
    using put assms(3,4) by (auto simp: handle_cache_put_def check_cache_write_def integrity_error_status_def Let_def
        split: option.splits sum.splits prod.splits if_splits)
  have "\<exists>e. map_of (store (gs_cache s')) key = Some e \<and> ce_value e = gq_bytes req
      \<and> ce_integrity e = Some \<lparr>ci_verified = True, ci_root = Some rt, ci_hash = Some hash, ci_verifiedAt = Some (clk 0)\<rparr>"
    using put c assms(3,4) by (auto simp: handle_cache_put_def Let_def dest!: cache_store_201)
  with check_cache_write_trusted [OF c] open' show ?thesis by blast
qed

lemma forward_forget_cache:
  "forward_forget_event ev cfg fetch s = (res, s') \<Longrightarrow> gs_cache s' = gs_cache (s :: gateway_state)"
  by (auto simp: forward_forget_event_def minc_def Let_def split: if_splits option.splits fetch_outcome.splits)

lemma cache_inv_metrics [simp]: "cache_inv cfg (c\<lparr>mx := m\<rparr>) = cache_inv cfg c"
  by (simp add: cache_inv_def index_ok_def keys_of_def)

lemma forget_entries_exact:
  assumes "cache_inv cfg (gs_cache s)" and "forget_entries subject key s = (n, s')"
  shows "map_of (store (gs_cache s')) k =
    (if (\<exists>u. subject = Some u \<and> map_of (keySubject (gs_cache s)) k = Some u) \<or> key = Some k then None
     else map_of (store (gs_cache s)) k)"
proof -
  obtain n1 s1 where s1: "(case subject of None \<Rightarrow> (0, s) | Some u \<Rightarrow> on_cache (cache_forget_subject u) s) = (n1, s1)"
    by fastforce
  have "map_of (store (gs_cache s1)) k =
    (if \<exists>u. subject = Some u \<and> map_of (keySubject (gs_cache s)) k = Some u then None else map_of (store (gs_cache s)) k)" for k
  proof (cases subject)
    case (Some u)
    let ?c = "(gs_cache s)\<lparr>mx := mx s\<rparr>"
    obtain m c where c: "cache_forget_subject u ?c = (m, c)" by fastforce
    with s1 Some have "gs_cache s1 = c" by (auto simp: on_cache_def)
    with c Some forget_effect(1) [of cfg ?c u k] assms(1) show ?thesis by simp
  qed (use s1 in simp)
  moreover have "map_of (store (gs_cache s')) k = (if key = Some k then None else map_of (store (gs_cache s1)) k)"
    using assms(2) s1
    by (auto simp: forget_entries_def on_cache_def cache_drop_key_def cache_size_gauge_def delete_entry_def Let_def
        split: option.splits prod.splits bool.splits if_splits)
  ultimately show ?thesis by auto
qed

lemma forget_outcomes:
  assumes "handle_forget w env trace clk req paused plike s = (r, s')"
  obtains (Refused) "gs_cache s' = gs_cache s" and "\<And>q. r = Some q \<Longrightarrow> hr_status q \<noteq> 200"
  | (Forgot) body n s1 where "gq_method req = ''POST''" "internal_plane_enabled env ForgetRoute plike" "\<not> paused"
      "forget_authorized (read_raw_env ''GATEWAY_FORGET_TOKEN'' env) req"
      "plike \<Longrightarrow> or_empty (read_raw_env ''GATEWAY_FORGET_TOKEN'' env) \<noteq> []"
      "pw_parse w (gq_text req) = Inr body \<or> (\<exists>e. pw_parse w (gq_text req) = Inl e) \<and> body = JObj []"
      "forget_entries (body_field body ''subject'') (body_field body ''key'') s = (n, s1)" "gs_cache s' = gs_cache s1"
  using assms unfolding handle_forget_def Let_def
  by (auto simp: internal_plane_blocked_def policy_paused_response_def reply_def minc_def
      split: if_splits prod.splits sum.splits dest!: forward_forget_cache)

text \<open>
  A request to forget changes the cache only if it is a POST, the route is open, the gateway is not
  paused and the request is authorised: it presents the configured token, which a production gateway must have.
  What it then removes are exactly the keys stored under the subject its body names and the key the body names;
  a request that is answered 200 did that.
\<close>

theorem forgetting_is_authorised:
  assumes "handle_forget w env trace clk req paused plike s = (r, s')" and "cache_inv cfg (gs_cache s)"
    and "gs_cache s' \<noteq> gs_cache s \<or> (\<exists>q. r = Some q \<and> hr_status q = 200)"
  shows "gq_method req = ''POST'' \<and> internal_plane_enabled env ForgetRoute plike \<and> \<not> paused
    \<and> forget_authorized (read_raw_env ''GATEWAY_FORGET_TOKEN'' env) req
    \<and> (plike \<longrightarrow> or_empty (read_raw_env ''GATEWAY_FORGET_TOKEN'' env) \<noteq> [])
    \<and> (\<exists>body. (pw_parse w (gq_text req) = Inr body \<or> (\<exists>e. pw_parse w (gq_text req) = Inl e) \<and> body = JObj [])
        \<and> (\<forall>k. map_of (store (gs_cache s')) k =
              (if (\<exists>u. body_field body ''subject'' = Some u \<and> map_of (keySubject (gs_cache s)) k = Some u)
                  \<or> body_field body ''key'' = Some k
               then None else map_of (store (gs_cache s)) k)))"
  using assms(1)
proof (cases rule: forget_outcomes)
  case Refused
  with assms(3) show ?thesis by auto
next
  case (Forgot body n s1)
  with forget_entries_exact [OF assms(2) Forgot(7)] show ?thesis by auto
qed

section \<open>A gateway to run\<close>

definition demo_gateway_world :: gateway_world where
  "demo_gateway_world = hook_world.extend demo_hook_world
     \<lparr>gt_tpl = demo_tpl_world,
      gt_net = \<lparr>pn_parse_url = (\<lambda>_. None), pn_fetch = (\<lambda>_ _. FetchThrow False None), pn_read_file = (\<lambda>_. FileMissing)\<rparr>,
      gt_write_ok = (\<lambda>_. True), gt_resolver = (\<lambda>_. SrThrew False), gt_pages = (\<lambda>_. FrontThrew []),
      gt_fetch = (\<lambda>_. Threw False), gt_sha256_bytes = (\<lambda>bs. ''aa''), gt_base64 = (\<lambda>s. s)\<rparr>"

definition demo_request :: "string \<Rightarrow> string \<Rightarrow> gateway_request" where
  "demo_request m path = \<lparr>gq_method = m, gq_path = path, gq_host = ''h'', gq_query = [],
     gq_headers = map_of [(''x-integrity-root'', ''rootone'')], gq_text = ''{}'', gq_bytes = [1, 2]\<rparr>"

definition demo_process :: process_state where
  "demo_process = gateway_state.extend demo_gateway \<lparr>pc_files = []\<rparr>"

lemma demo_trace: "resolve_handler_trace demo_gateway_world (gq_headers (demo_request m p) ''x-trace-id'') = ''uuid''"
  by (simp add: resolve_handler_trace_def Webhooks.resolve_trace_id_def demo_request_def demo_gateway_world_def
      hook_world.defs demo_hook_world_def policy_world.defs demo_policy_world_def matches_class_def Let_def)

lemma demo_paths: "gateway_path_of ''/health'' = HealthPath" "gateway_path_of ''/cache/k'' = CachePath ''k''"
  by code_simp+

theorem every_reply_witness:
  "\<exists>r s'. handle_request demo_gateway_world Map.empty int (demo_request ''GET'' ''/health'') demo_process = (Some r, s')
     \<and> hr_status r = 200 \<and> hardened Map.empty ''uuid'' r"
proof -
  let ?req = "demo_request ''GET'' ''/health''"
  obtain r s' where r: "handle_request demo_gateway_world Map.empty int ?req demo_process = (Some r, s')" "hr_status r = 200"
    by (simp add: handle_request_def demo_paths demo_request_def health_reply_def Let_def)
  have "pw_uuid demo_gateway_world \<noteq> []"
    by (simp add: demo_gateway_world_def hook_world.defs demo_hook_world_def policy_world.defs demo_policy_world_def)
  from every_reply_is_hardened [OF r(1) this] r demo_trace [of "''GET''" "''/health''"] show ?thesis by auto
qed

theorem paused_gateway_witness:
  "\<exists>p r s' q. ps_paused p
     \<and> dispatch demo_gateway_world Map.empty ''t'' int (demo_request ''PUT'' ''/cache/k'') p JNull demo_gateway = (r, s')
     \<and> store (gs_cache s') = [] \<and> r = Some q \<and> hr_status q \<in> {404, 503}"
proof -
  obtain p :: policy_state where p: "ps_paused p" by (metis (full_types) policy_state.select_convs(1))
  obtain r s' where r: "dispatch demo_gateway_world Map.empty ''t'' int (demo_request ''PUT'' ''/cache/k'') p JNull demo_gateway = (r, s')"
    by fastforce
  have "takes_writes (demo_request ''PUT'' ''/cache/k'')"
    by (simp add: takes_writes_def demo_paths demo_request_def)
  moreover have "store (gs_cache demo_gateway) = []" by (simp add: demo_gateway_def)
  ultimately show ?thesis using paused_gateway_takes_no_writes [OF p r] p r by auto
qed

definition demo_call_env :: env where
  "demo_call_env = demo_tpl_env(''GATEWAY_TEMPLATE_TOKEN'' := Some ''tok'', ''GATEWAY_RL_MAX'' := Some ''5'',
     ''GATEWAY_TEMPLATE_MAX_BODY_BYTES'' := Some ''9999'')"

definition demo_call_request :: gateway_request where
  "demo_call_request = (demo_request ''POST'' ''/template/call'')\<lparr>gq_headers := map_of [(''x-template-token'', ''tok'')]\<rparr>"

definition demo_call_body :: jsval where
  "demo_call_body = JObj [(''action'', JStr ''checkout.create-order''), (''requestId'', JStr ''q1''), (''role'', JStr ''guest''),
     (''siteId'', JStr ''s1''), (''payload'', JObj [(''siteId'', JStr ''s1''), (''items'', JArr [JNull])])]"

definition demo_call_world :: gateway_world where
  "demo_call_world = demo_gateway_world\<lparr>pw_parse := (\<lambda>_. Inr demo_call_body)\<rparr>"

definition demo_call :: template_call where
  "demo_call = \<lparr>tc_body = demo_call_body, tc_action = ''checkout.create-order'',
     tc_payload = JObj [(''siteId'', JStr ''s1''), (''items'', JArr [JNull])], tc_bodySiteId = ''s1'', tc_payloadSiteId = ''s1''\<rparr>"

lemma demo_call_steps:
  "read_template_call demo_call_world ''{}'' = Inr demo_call"
  "template_token_error demo_call_env demo_call_request ''checkout.create-order'' = None"
  "resolve_locally (\<lambda>_. Inr demo_call_body) demo_call_env ''h'' False = Inr (SiteOk None None)"
  "bind_site demo_call_env False demo_call None = Inr (Some (Own ''s1''))"
  by code_simp+


definition demo_call_input :: tpl_input where
  "demo_call_input = template_input ''t'' demo_call (Some (Own ''s1'')) None"

definition demo_served :: "upstream_outcome \<Rightarrow> tpl_world" where
  "demo_served up = demo_tpl_world\<lparr>tw_upstream := \<lambda>_. up\<rparr>"

definition demo_signed_call :: "tpl_stop + (jobj \<times> string \<times> string)" where
  "demo_signed_call = sign_call demo_tpl_world demo_call_env ''t'' demo_call_input demo_tpl_action demo_tpl_route (Some ''q1'')"

lemma demo_call_prepared:
  "admit_call (demo_served up) demo_call_env ''t'' demo_call_input demo_tpl_policy demo_tpl_action = Inr (Some ''q1'')"
  "route_call (demo_served up) demo_call_env ''t'' demo_call_input demo_tpl_policy = Inr demo_tpl_route"
  "sign_call (demo_served up) demo_call_env ''t'' demo_call_input demo_tpl_action demo_tpl_route (Some ''q1'') = demo_signed_call"
  "\<not> isl demo_signed_call" "snd (projr demo_signed_call) = (''s1'', ''q1'')"
  by code_simp+

lemma demo_call_sent:
  "\<not> isl (upstream_request (demo_served up) demo_call_env ''t'' demo_call_input demo_tpl_policy demo_tpl_route
     (Some (fst (projr demo_signed_call))) (Some ''q1'') (Some ''s1''))"
  by code_simp

lemma demo_call_policy:
  "fst (get_resolved_policy (demo_served up) demo_call_env ''checkout.create-order'' contract_cache_init)
     = Some (demo_tpl_policy, demo_tpl_action)"
proof -
  have c: "fst (get_template_contract_action id (\<lambda>_. Some []) (\<lambda>_. Inr demo_contract) demo_call_env ''checkout.create-order''
      contract_cache_init) = Some demo_tpl_action" by code_simp
  have p: "get_template_action_policy ''checkout.create-order'' = Some demo_tpl_policy"
    by (simp add: demo_tpl_policy_def get_template_action_policy_def template_action_policies_def)
  show ?thesis
    using c
    by (cases "get_template_contract_action id (\<lambda>_. Some []) (\<lambda>_. Inr demo_contract) demo_call_env ''checkout.create-order'' contract_cache_init")
      (simp add: get_resolved_policy_def p demo_tpl_policy(3) demo_tpl_action_def demo_served_def demo_tpl_world_def)
qed

lemma demo_call_relayed:
  "fst (proxy_template_call (demo_served up) demo_call_env demo_call_input m contract_cache_init)
     = fst (relay_upstream (demo_served up) demo_call_env ''t'' WriteAction up)"
proof -
  obtain e where e: "demo_signed_call = Inr (e, ''s1'', ''q1'')"
    using demo_call_prepared(4,5) by (metis sum.collapse(2) prod.collapse)
  obtain r where r: "upstream_request (demo_served up) demo_call_env ''t'' demo_call_input demo_tpl_policy demo_tpl_route
     (Some e) (Some ''q1'') (Some ''s1'') = Inr r"
    using demo_call_sent [of up, unfolded e]
    by (cases "upstream_request (demo_served up) demo_call_env ''t'' demo_call_input demo_tpl_policy demo_tpl_route
     (Some e) (Some ''q1'') (Some ''s1'')") auto
  have t: "resolve_trace_id (tw_traceId (demo_served up)) (ti_traceId demo_call_input) = ''t''"
    "ti_action demo_call_input = ''checkout.create-order''" "tw_upstream (demo_served up) r = up"
    by (simp add: demo_served_def demo_call_input_def template_input_def demo_tpl_world_def, code_simp)
      (simp_all add: demo_call_input_def template_input_def demo_call_def demo_served_def)
  obtain c where p: "get_resolved_policy (demo_served up) demo_call_env ''checkout.create-order'' contract_cache_init
     = (Some (demo_tpl_policy, demo_tpl_action), c)" using demo_call_policy [of up] by (metis prod.collapse)
  show ?thesis
    by (simp add: proxy_template_call_def t p prepare_call_def demo_call_prepared e r demo_tpl_policy(2) split: prod.splits)
qed

lemma demo_call_allowed: "\<not> fst (rate_limited demo_call_env now key s)" if "buckets (gs_rl s) = []" for s :: gateway_state
proof -
  have "rl_maxReq (rl_config demo_call_env) = 5" "rl_overrides (rl_config demo_call_env) = []"
    by (simp only: rl_config_def rl_cfg.select_convs, code_simp)+
  then show ?thesis
    using first_request_allowed [of "(gs_rl s)\<lparr>mx := mx s\<rparr>" "rl_config demo_call_env" key now] that
    by (auto simp: rate_limited_def on_rl_def max_without_overrides split: prod.splits)
qed

lemma demo_call_servers:
  "demo_call_world\<lparr>gt_tpl := demo_served up\<rparr> = with_servers (tw_sign demo_tpl_world) (\<lambda>_. up) demo_call_world"
  by (simp add: with_servers_def demo_call_world_def demo_gateway_world_def demo_served_def demo_tpl_world_def hook_world.defs)

lemma secure_same_status: "secure_response env trace a = secure_response env trace b \<Longrightarrow> hr_status a = hr_status b"
  by (drule arg_cong [where f = hr_status]) simp

lemma demo_call_reply:
  "\<exists>s. handle_template_call (demo_call_world\<lparr>gt_tpl := demo_served up\<rparr>) demo_call_env ''t'' int demo_call_request False False demo_gateway
     = (case fst (relay_upstream (demo_served up) demo_call_env ''t'' WriteAction up) of
          Rejected \<Rightarrow> None | Reply r \<Rightarrow> Some (secure_response demo_call_env ''t'' (template_reply r)), s)"
proof -
  let ?w = "demo_call_world\<lparr>gt_tpl := demo_served up\<rparr>" and ?s = "minc ''gateway_template_call'' demo_gateway"
  obtain s1 where s1: "rate_limited demo_call_env 0 (''template:'' @ request_ip demo_call_request) ?s = (False, s1)"
    using demo_call_allowed [of ?s 0 "''template:'' @ request_ip demo_call_request"] demo_gateway_empty
    by (cases "rate_limited demo_call_env 0 (''template:'' @ request_ip demo_call_request) ?s") (simp add: minc_def)
  have size: "\<not> body_exceeds_utf8_limit (gq_text demo_call_request) (template_max_body demo_call_env)" by code_simp
  have body: "gq_text demo_call_request = ''{}''" "gq_method demo_call_request = ''POST''" "gq_host demo_call_request = ''h''"
    by (simp_all add: demo_call_request_def demo_request_def)
  have read: "read_template_call ?w ''{}'' = Inr demo_call"
    using demo_call_steps(1) with_servers_reads [of "tw_sign demo_tpl_world" "\<lambda>_. up" demo_call_world]
    by (simp only: demo_call_servers)
  have action: "tc_action demo_call = ''checkout.create-order''" by (simp add: demo_call_def)
  have site: "resolve_site ?w demo_call_env clk ''h'' False s1 = (Some (SiteOk None None), s1)" for clk
    using demo_call_steps(3) by (simp add: resolve_site_def resolve_template_site_id_from_host_def demo_call_world_def)
  have contract: "gs_contract s1 = contract_cache_init"
    using s1 by (auto simp: rate_limited_def on_rl_def minc_def demo_gateway_def split: prod.splits)
  obtain m c where run: "proxy_template_call (demo_served up) demo_call_env demo_call_input (mx s1) contract_cache_init
      = (fst (relay_upstream (demo_served up) demo_call_env ''t'' WriteAction up), m, c)"
    using demo_call_relayed [of up "mx s1"] by (metis prod.collapse)
  have "handle_template_call ?w demo_call_env ''t'' int demo_call_request False False demo_gateway
      = run_template_call ?w demo_call_env ''t'' demo_call_input s1"
    using s1 size by (simp add: handle_template_call_def body read demo_call_steps(2) bound_template_call_def site
        demo_call_steps(4) demo_call_input_def mark_readonly_fallback_def action Let_def)
  then show ?thesis
    by (auto simp: run_template_call_def contract run Let_def split: tpl_result.splits)
qed


definition demo_verified_env :: env where
  "demo_verified_env = map_of
     [(''GATEWAY_INTEGRITY_REQUIRE_VERIFIED_CACHE'', ''1''), (''GATEWAY_CACHE_TTL_MS'', ''50''),
      (''GATEWAY_CACHE_MAX_ENTRIES'', ''9''), (''GATEWAY_CACHE_MAX_ENTRY_BYTES'', ''99''),
      (''GATEWAY_CACHE_MAX_KEYS_PER_SUBJECT'', ''9'')]"

definition demo_root_snapshot :: jsval where
  "demo_root_snapshot = JObj [(''release'', JObj [(''root'', JStr ''rootone'')]), (''policy'', JObj [(''activeRoot'', JStr ''rootone'')])]"

lemma demo_write_checked:
  "check_cache_write demo_gateway_world demo_root_snapshot (demo_request ''PUT'' p) = Some (Inr (''rootone'', ''aa''))"
  by code_simp

lemma demo_cache_config:
  "cc_maxEntries (cache_config demo_verified_env) = 9" "cc_maxEntryBytes (cache_config demo_verified_env) = 99"
  "requires_verified_cache demo_verified_env"
  by (simp_all only: cache_config_def cache_cfg.select_convs, code_simp+)

lemma empty_cache_accepts:
  "store c = [] \<Longrightarrow> int (length v) \<le> cc_maxEntryBytes cfg \<Longrightarrow> 1 \<le> cc_maxEntries cfg \<Longrightarrow> put_subject arg = []
   \<Longrightarrow> fst (cache_put cfg t1 t2 k v arg c)"
  by (simp add: cache_put_def cache_sweep_def expired_keys_def Let_def)

lemma demo_request_fields [simp]:
  "gq_method (demo_request m p) = m" "gq_bytes (demo_request m p) = [1, 2]" "gq_headers (demo_request m p) ''x-subject'' = None"
  "gq_text (demo_request m p) = ''{}''"
  by (simp_all add: demo_request_def)

lemma demo_empty_store [simp]: "store (gs_cache demo_gateway) = []"
  by (simp add: demo_gateway_def)

theorem verified_write_witness:
  "\<exists>r s'. handle_cache demo_gateway_world demo_verified_env ''t'' int (demo_request ''PUT'' ''/cache/k'') ''k'' False demo_root_snapshot
      demo_gateway = (Some r, s') \<and> hr_status r = 201 \<and> map_of (store (gs_cache s')) ''k'' \<noteq> None"
proof -
  let ?req = "demo_request ''PUT'' ''/cache/k''" and ?s = "minc ''gateway_integrity_verify_ok'' demo_gateway"
  let ?arg = "OptionsArg None (Some \<lparr>ci_verified = True, ci_root = Some ''rootone'', ci_hash = Some ''aa'', ci_verifiedAt = Some 0\<rparr>)"
  have "fst (cache_put (cache_config demo_verified_env) 1 2 ''k'' [1, 2] ?arg ((gs_cache ?s)\<lparr>mx := mx ?s\<rparr>))"
    by (rule empty_cache_accepts) (simp_all add: demo_cache_config minc_def)
  then obtain c where "cache_put (cache_config demo_verified_env) 1 2 ''k'' [1, 2] ?arg ((gs_cache ?s)\<lparr>mx := mx ?s\<rparr>) = (True, c)"
    by (cases "cache_put (cache_config demo_verified_env) 1 2 ''k'' [1, 2] ?arg ((gs_cache ?s)\<lparr>mx := mx ?s\<rparr>)") simp
  then obtain r s' where r: "handle_cache demo_gateway_world demo_verified_env ''t'' int ?req ''k'' False demo_root_snapshot demo_gateway = (Some r, s')"
    "hr_status r = 201"
    by (simp add: handle_cache_def handle_cache_put_def demo_write_checked demo_cache_config cache_store_reply_def on_cache_def
        or_else_def Let_def)
  from verified_write_is_trusted [OF r(1) _ r(2) demo_cache_config(3)] r show ?thesis by auto
qed

theorem forgetting_witness:
  "\<exists>r s' cfg. handle_forget (demo_gateway_world\<lparr>pw_parse := \<lambda>_. Inr (JObj [(''key'', JStr ''k'')])\<rparr>) Map.empty ''t'' int
       (demo_request ''POST'' ''/cache/forget'') False False demo_gateway = (r, s')
     \<and> cache_inv cfg (gs_cache demo_gateway) \<and> map_of (store (gs_cache s')) ''k'' = None"
proof -
  let ?w = "demo_gateway_world\<lparr>pw_parse := \<lambda>_. Inr (JObj [(''key'', JStr ''k'')])\<rparr>" and ?req = "demo_request ''POST'' ''/cache/forget''"
  let ?cfg = "\<lparr>cc_ttl = 1, cc_maxEntryBytes = 9, cc_maxEntries = 9, cc_maxKeysPerSubject = 9, cc_mode = EvictLru\<rparr>"
  have token: "read_raw_env ''GATEWAY_FORGET_TOKEN'' Map.empty = None" by code_simp
  obtain q s' where r: "handle_forget ?w Map.empty ''t'' int ?req False False demo_gateway = (q, s')" by fastforce
  then have ok: "\<exists>a. q = Some a \<and> hr_status a = 200"
    by (auto simp add: handle_forget_def internal_plane_enabled_def forget_authorized_def or_else_def token Let_def split: prod.splits)
  have inv: "cache_inv ?cfg (gs_cache demo_gateway)"
    by (simp add: cache_inv_def demo_gateway_def index_ok_def keys_of_def)
  have key: "body_field (JObj [(''key'', JStr ''k'')]) ''key'' = Some ''k''" by code_simp
  from forgetting_is_authorised [OF r inv] ok key have "map_of (store (gs_cache s')) ''k'' = None" by auto
  with r inv show ?thesis by blast
qed

section \<open>Two oddities of the forget route\<close>

text \<open>The body \<open>null\<close> of an authorised request makes the handler's promise reject.\<close>

lemma null_body_rejects:
  "gq_method req = ''POST'' \<Longrightarrow> internal_plane_enabled env ForgetRoute plike \<Longrightarrow>
   forget_authorized (read_raw_env ''GATEWAY_FORGET_TOKEN'' env) req \<Longrightarrow>
   plike \<longrightarrow> or_empty (read_raw_env ''GATEWAY_FORGET_TOKEN'' env) \<noteq> [] \<Longrightarrow> pw_parse w (gq_text req) = Inr JNull \<Longrightarrow>
   handle_forget w env trace clk req False plike s = (None, s)"
  by (auto simp: handle_forget_def Let_def)

text \<open>Every key that begins with \<open>forget\<close> is out of reach of the cache route.\<close>

lemma forget_shadows_keys: "gateway_path_of (''/cache/forget'' @ k) = ForgetPath"
  by (simp add: gateway_path_of_def)

end
