(* ===== verification/WorkerMetrics.thy ===== *)
theory WorkerMetrics
  imports Metrics
begin

text \<open>
  The metrics registry of the secrets worker (\<open>src/workers/secrets-worker/src/metrics.ts\<close>): counters and
  gauges under normalised names, and the text of \<open>GET /metrics\<close>. Unlike the gateway's registry it has no
  audit stream, and its exposition prints the counters under their own names.
\<close>

record worker_metrics =
  wm_counters :: "int jmap"
  wm_gauges :: "int jmap"

definition worker_metrics_help :: "(string \<times> string) list" where
  "worker_metrics_help =
    [(''worker_inbox_put_total'', ''Inbox items stored''),
     (''worker_inbox_get_total'', ''Inbox items fetched''),
     (''worker_inbox_replay_total'', ''Inbox replay attempts blocked''),
     (''worker_inbox_expired_total'', ''Inbox items expired by janitor''),
     (''worker_forget_deleted_total'', ''Inbox entries deleted via forget''),
     (''worker_forget_replay_deleted_total'', ''Replay keys deleted via forget''),
     (''worker_forget_replay_lock_error_total'', ''Durable replay lock clears failed during forget''),
     (''worker_rate_limit_blocked_total'', ''Requests blocked by inbox rate-limit''),
     (''worker_notify_rate_blocked_total'', ''Notify requests blocked''),
     (''worker_notify_sent_total'', ''Notify deliveries accepted''),
     (''worker_notify_retry_total'', ''Notify retries attempted''),
     (''worker_notify_failed_total'', ''Notify deliveries failed after retries''),
     (''worker_notify_breaker_blocked_total'', ''Notify breaker open (blocked)''),
     (''worker_notify_breaker_open_total'', ''Notify breaker trips''),
     (''worker_notify_breaker_blocked_total_stripe'', ''Notify breaker blocked (stripe)''),
     (''worker_notify_breaker_open_total_stripe'', ''Notify breaker trips (stripe)''),
     (''worker_notify_breaker_blocked_total_paypal'', ''Notify breaker blocked (paypal)''),
     (''worker_notify_breaker_open_total_paypal'', ''Notify breaker trips (paypal)''),
     (''worker_notify_breaker_blocked_total_gopay'', ''Notify breaker blocked (gopay)''),
     (''worker_notify_breaker_open_total_gopay'', ''Notify breaker trips (gopay)''),
     (''worker_notify_deduped_total'', ''Notify deduped by hash (provider label)''),
     (''worker_notify_hmac_invalid_total'', ''Notify HMAC validation failures''),
     (''worker_metrics_auth_blocked_total'', ''Metrics requests unauthorized''),
     (''worker_metrics_auth_ok_total'', ''Metrics requests authorized''),
     (''worker_metrics_auth_ok_basic_total'', ''Metrics requests authorized via Basic auth''),
     (''worker_metrics_auth_ok_bearer_total'', ''Metrics requests authorized via Bearer token''),
     (''worker_notify_hmac_optional'', ''Notify HMAC optional flag (1 when optional)'')]"

definition worker_metric_type :: "string \<Rightarrow> metric_type" where
  "worker_metric_type k = (if k = ''worker_notify_hmac_optional'' then GaugeT else CounterT)"

definition worker_norm :: "string \<Rightarrow> string" where
  "worker_norm name = map (\<lambda>c. if is_alnum c \<or> c = CHR ''_'' then c else CHR ''_'') name"

definition worker_inc :: "string \<Rightarrow> int \<Rightarrow> worker_metrics \<Rightarrow> worker_metrics" where
  "worker_inc name v m =
     (let k = worker_norm name
      in m\<lparr>wm_counters := AList.update k (case_option 0 id (map_of (wm_counters m) k) + v) (wm_counters m)\<rparr>)"

definition worker_gauge :: "string \<Rightarrow> int \<Rightarrow> worker_metrics \<Rightarrow> worker_metrics" where
  "worker_gauge name v m = m\<lparr>wm_gauges := AList.update (worker_norm name) v (wm_gauges m)\<rparr>"

definition worker_to_prom :: "worker_metrics \<Rightarrow> string" where
  "worker_to_prom m =
     (let newline = [char_of (10 :: nat)];
          head_lines = concat (map (\<lambda>(k, v).
            [''# HELP '' @ k @ '' '' @ v,
             ''# TYPE '' @ k @ '' '' @ (case worker_metric_type k of CounterT \<Rightarrow> ''counter'' | GaugeT \<Rightarrow> ''gauge'')])
            worker_metrics_help);
          value_lines = (\<lambda>vs. map (\<lambda>(k, v). k @ '' '' @ int_str v) vs)
      in join_with newline (head_lines @ value_lines (wm_counters m) @ value_lines (wm_gauges m)) @ newline)"

definition worker_reset_all :: "worker_metrics \<Rightarrow> worker_metrics" where
  "worker_reset_all m = m\<lparr>wm_counters := [], wm_gauges := []\<rparr>"

definition worker_counter :: "worker_metrics \<Rightarrow> string \<Rightarrow> int" where
  "worker_counter m name = case_option 0 id (map_of (wm_counters m) (worker_norm name))"

lemma worker_counter_inc:
  "worker_counter (worker_inc name v m) name'
   = worker_counter m name' + (if worker_norm name = worker_norm name' then v else 0)"
  by (simp add: worker_counter_def worker_inc_def Let_def update_conv')

lemma worker_inc_frame [simp]: "wm_gauges (worker_inc name v m) = wm_gauges m"
  by (simp add: worker_inc_def Let_def)

lemma worker_gauge_frame [simp]: "wm_counters (worker_gauge name v m) = wm_counters m"
  by (simp add: worker_gauge_def)

end
