(* ===== verification/Worker.thy ===== *)
theory Worker
  imports RouteReplay Crypto Json WorkerMetrics
begin

text \<open>
  The ground the routes of the secrets worker stand on (\<open>src/workers/secrets-worker/src/index.ts\<close>): values
  of unknown type, the state of one isolate, operations that may throw, the environment and its secrets,
  the key-value namespace, and the tokens. The services and library functions are the record
  \<open>worker_world\<close>; \<open>Date.now()\<close> is a stream of readings, of which each use takes the next. Sleeping and
  logging change nothing here.
\<close>

section \<open>Numbers and text of unknown values\<close>

fun jn_less :: "jnum \<Rightarrow> jnum \<Rightarrow> bool" where
  "jn_less (Fin a) (Fin b) = (a < b)"
| "jn_less (Fin a) PInf = True"
| "jn_less NInf (Fin b) = True"
| "jn_less NInf PInf = True"
| "jn_less _ _ = False"

definition jn_le :: "jnum \<Rightarrow> jnum \<Rightarrow> bool" where
  "jn_le a b \<longleftrightarrow> a \<noteq> NaN \<and> (jn_less a b \<or> a = b)"

fun jn_add :: "jnum \<Rightarrow> jnum \<Rightarrow> jnum" where
  "jn_add (Fin a) (Fin b) = Fin (a + b)"
| "jn_add NaN _ = NaN"
| "jn_add _ NaN = NaN"
| "jn_add PInf NInf = NaN"
| "jn_add NInf PInf = NaN"
| "jn_add PInf _ = PInf"
| "jn_add NInf _ = NInf"
| "jn_add _ b = b"

definition jint :: "int \<Rightarrow> jsval" where
  "jint n = JNum (Fin (of_int n))"

text \<open>\<open>Number.parseInt\<close>, with \<^term>\<open>None\<close> for \<open>NaN\<close>, as a number.\<close>

definition jn_of :: "int option \<Rightarrow> jnum" where
  "jn_of x = (case x of None \<Rightarrow> NaN | Some n \<Rightarrow> Fin (of_int n))"

text \<open>A KV namespace as a binding of the environment; a call returns a value or the message of what it throws.\<close>

record 's kv_binding =
  kb_get :: "int \<Rightarrow> string \<Rightarrow> 's \<Rightarrow> (string + string option) \<times> 's"
  kb_put :: "int \<Rightarrow> string \<Rightarrow> string \<Rightarrow> int option \<Rightarrow> int option \<Rightarrow> 's \<Rightarrow> (string + unit) \<times> 's"
  kb_delete :: "int \<Rightarrow> string \<Rightarrow> 's \<Rightarrow> (string + unit) \<times> 's"
  kb_list :: "int \<Rightarrow> string \<Rightarrow> int option \<Rightarrow> string option \<Rightarrow> 's \<Rightarrow> (string + shim_page) \<times> 's"

datatype lock_fault = LockThrows string | LockStatus int

text \<open>
  \<open>ww_kv\<close> is \<open>env.INBOX_KV\<close>, \<open>ww_process\<close> is \<open>process.env\<close>, \<open>ww_clock\<close> the successive readings of the
  clock in seconds, \<open>ww_random\<close> the random ids, \<open>ww_lock_fault\<close> the failures of the calls to Durable Objects;
  \<open>ww_builtin\<close> is what the members of \<open>Object.prototype\<close> have as their own properties, \<open>ww_sign\<close> is Ed25519
  with \<^term>\<open>None\<close> where it throws, \<open>ww_date\<close> is \<open>Date.parse\<close> in milliseconds;
  \<open>ww_can_wait\<close> says whether the request has an \<open>executionCtx\<close>;
  \<open>ww_text\<close> is \<open>String(v)\<close> of an array or object and \<open>ww_number\<close> is \<open>Number(s)\<close>.
\<close>

record 's worker_world =
  ww_kv :: "'s kv_binding option"
  ww_process :: jobj
  ww_clock :: "nat \<Rightarrow> int"
  ww_random :: "nat \<Rightarrow> string"
  ww_lock_fault :: "nat \<Rightarrow> lock_fault option"
  ww_parse :: "string \<Rightarrow> string + jsval"
  ww_show :: "rat \<Rightarrow> string"
  ww_text :: "jsval \<Rightarrow> string"
  ww_number :: "string \<Rightarrow> jnum"
  ww_date :: "string \<Rightarrow> int option"
  ww_url :: "string \<Rightarrow> url_parts option"
  ww_hmac :: "string \<Rightarrow> nat list \<Rightarrow> string \<Rightarrow> bool"
  ww_sha256 :: "string \<Rightarrow> string"
  ww_sign :: "nat list \<Rightarrow> nat list \<Rightarrow> nat list option"
  ww_base64 :: "string \<Rightarrow> string"
  ww_fetch :: "nat \<Rightarrow> http_request \<Rightarrow> fetch_outcome"
  ww_can_wait :: bool
  ww_builtin :: "string \<Rightarrow> string \<Rightarrow> jsval"

definition wk_text :: "'s worker_world \<Rightarrow> jsval \<Rightarrow> string" where
  "wk_text w v =
     (case v of
        JStr s \<Rightarrow> s
      | JNum (Fin q) \<Rightarrow> ww_show w q
      | JNum NaN \<Rightarrow> ''NaN''
      | JNum PInf \<Rightarrow> ''Infinity''
      | JNum NInf \<Rightarrow> ''-Infinity''
      | JBool b \<Rightarrow> if b then ''true'' else ''false''
      | JUndef \<Rightarrow> ''undefined''
      | JNull \<Rightarrow> ''null''
      | _ \<Rightarrow> ww_text w v)"

definition wk_number :: "'s worker_world \<Rightarrow> jsval \<Rightarrow> jnum" where
  "wk_number w v =
     (case v of
        JNum n \<Rightarrow> n
      | JBool b \<Rightarrow> Fin (if b then 1 else 0)
      | JNull \<Rightarrow> Fin 0
      | JUndef \<Rightarrow> NaN
      | JStr s \<Rightarrow> ww_number w s
      | _ \<Rightarrow> ww_number w (ww_text w v))"

fun is_texty :: "jsval \<Rightarrow> bool" where
  "is_texty (JStr _) = True"
| "is_texty (JArr _) = True"
| "is_texty (JObj _) = True"
| "is_texty _ = False"

text \<open>The operator \<open>+\<close>: it concatenates as soon as one operand is a string or an object.\<close>

definition js_add :: "'s worker_world \<Rightarrow> jsval \<Rightarrow> jsval \<Rightarrow> jsval" where
  "js_add w a b =
     (if is_texty a \<or> is_texty b then JStr (wk_text w a @ wk_text w b)
      else JNum (jn_add (wk_number w a) (wk_number w b)))"

text \<open>\<open>v.name\<close>, \<^term>\<open>None\<close> where it throws a \<open>TypeError\<close>.\<close>

definition wk_prop :: "jsval \<Rightarrow> string \<Rightarrow> jsval option" where
  "wk_prop v k =
     (case v of JUndef \<Rightarrow> None | JNull \<Rightarrow> None | JObj obj \<Rightarrow> Some (jprop obj k) | _ \<Rightarrow> Some JUndef)"

definition wk_opt :: "jsval \<Rightarrow> string \<Rightarrow> jsval" where
  "wk_opt v k = (case wk_prop v k of None \<Rightarrow> JUndef | Some x \<Rightarrow> x)"

definition js_or :: "jsval \<Rightarrow> jsval \<Rightarrow> jsval" where
  "js_or a b = (if truthy a then a else b)"

definition trim_string :: "jsval \<Rightarrow> string" where
  "trim_string v = (case v of JStr s \<Rightarrow> trim s | _ \<Rightarrow> [])"

fun first_non_empty_string :: "jsval list \<Rightarrow> string" where
  "first_non_empty_string [] = []"
| "first_non_empty_string (v # vs) = (if trim_string v \<noteq> [] then trim_string v else first_non_empty_string vs)"

definition as_record :: "jsval \<Rightarrow> jobj option" where
  "as_record v = (case v of JObj obj \<Rightarrow> Some obj | _ \<Rightarrow> None)"

fun first_record :: "jsval list \<Rightarrow> jobj option" where
  "first_record [] = None"
| "first_record (v # vs) = (case as_record v of Some r \<Rightarrow> Some r | None \<Rightarrow> first_record vs)"

definition safe_id_char :: "char \<Rightarrow> bool" where
  "safe_id_char c \<longleftrightarrow> is_alnum c \<or> c \<in> set ''._-''"

definition safe_trace_id :: "string \<Rightarrow> bool" where
  "safe_trace_id = matches_class safe_id_char 8 128"

definition resolve_trace_id :: "jsval \<Rightarrow> string" where
  "resolve_trace_id v =
     (let normalized = trim_string v
      in if normalized = [] then [] else if safe_trace_id normalized then normalized else [])"

section \<open>The state of an isolate, and operations that may throw\<close>

text \<open>The in-memory KV shim, the replay claims under way, the KV namespace, the expiry stored by each Durable
  Object, the metrics, the requests sent to other servers with the last one first, and how many readings of the clock and calls have been made.\<close>

record 's worker_state =
  wk_memory :: shim
  wk_claims :: "int jmap"
  wk_store :: 's
  wk_locks :: "int jmap"
  wk_metrics :: worker_metrics
  wk_sent :: "http_request list"
  wk_ticks :: nat

datatype worker_error = WHttp int string | WOther string

type_synonym ('s, 'a) wk = "'s worker_state \<Rightarrow> (worker_error + 'a) \<times> 's worker_state"

definition wk_return :: "'a \<Rightarrow> ('s, 'a) wk" where
  "wk_return x st = (Inr x, st)"

definition wk_throw :: "worker_error \<Rightarrow> ('s, 'a) wk" where
  "wk_throw e st = (Inl e, st)"

definition wk_bind :: "('s, 'a) wk \<Rightarrow> ('a \<Rightarrow> ('s, 'b) wk) \<Rightarrow> ('s, 'b) wk" where
  "wk_bind m f st = (case m st of (Inl e, st') \<Rightarrow> (Inl e, st') | (Inr x, st') \<Rightarrow> f x st')"

definition wk_catch :: "('s, 'a) wk \<Rightarrow> (worker_error \<Rightarrow> ('s, 'a) wk) \<Rightarrow> ('s, 'a) wk" where
  "wk_catch m h st = (case m st of (Inl e, st') \<Rightarrow> h e st' | (Inr x, st') \<Rightarrow> (Inr x, st'))"

definition wk_lift :: "worker_error + 'a \<Rightarrow> ('s, 'a) wk" where
  "wk_lift r st = (r, st)"

definition wk_when :: "bool \<Rightarrow> ('s, unit) wk \<Rightarrow> ('s, unit) wk" where
  "wk_when b m = (if b then m else wk_return ())"

fun wk_each :: "('a \<Rightarrow> ('s, unit) wk) \<Rightarrow> 'a list \<Rightarrow> ('s, unit) wk" where
  "wk_each f [] = wk_return ()"
| "wk_each f (x # xs) = wk_bind (f x) (\<lambda>_. wk_each f xs)"

definition wk_modify :: "('s worker_state \<Rightarrow> 's worker_state) \<Rightarrow> ('s, unit) wk" where
  "wk_modify f st = (Inr (), f st)"

definition wk_inc_by :: "string \<Rightarrow> int \<Rightarrow> ('s, unit) wk" where
  "wk_inc_by name n = wk_modify (\<lambda>st. st\<lparr>wk_metrics := worker_inc name n (wk_metrics st)\<rparr>)"

definition wk_inc :: "string \<Rightarrow> ('s, unit) wk" where
  "wk_inc name = wk_inc_by name 1"

definition wk_gauge :: "string \<Rightarrow> int \<Rightarrow> ('s, unit) wk" where
  "wk_gauge name n = wk_modify (\<lambda>st. st\<lparr>wk_metrics := worker_gauge name n (wk_metrics st)\<rparr>)"

definition wk_tick :: "(nat \<Rightarrow> 'a) \<Rightarrow> ('s, 'a) wk" where
  "wk_tick f st = (Inr (f (wk_ticks st)), st\<lparr>wk_ticks := Suc (wk_ticks st)\<rparr>)"

definition now_seconds :: "'s worker_world \<Rightarrow> ('s, int) wk" where
  "now_seconds w = wk_tick (ww_clock w)"

definition random_id :: "'s worker_world \<Rightarrow> string \<Rightarrow> ('s, string) wk" where
  "random_id w pfx = wk_tick (\<lambda>n. pfx @ ''-'' @ ww_random w n)"

definition type_error :: worker_error where
  "type_error = WOther ''TypeError''"

definition error_message :: "worker_error \<Rightarrow> string" where
  "error_message e = (case e of WHttp _ m \<Rightarrow> m | WOther m \<Rightarrow> m)"

definition wk_get_prop :: "jsval \<Rightarrow> string \<Rightarrow> ('s, jsval) wk" where
  "wk_get_prop v k = (case wk_prop v k of None \<Rightarrow> wk_throw type_error | Some x \<Rightarrow> wk_return x)"

text \<open>Up to three attempts, a further one only after an error that says that SQLite is busy.\<close>

definition is_sqlite_busy :: "worker_error \<Rightarrow> bool" where
  "is_sqlite_busy e \<longleftrightarrow>
     includes_str (to_lower (error_message e)) ''database is locked''
     \<or> includes_str (to_lower (error_message e)) ''sqlite_busy''"

fun busy_retry :: "nat \<Rightarrow> ('s, 'a) wk \<Rightarrow> ('s, 'a) wk" where
  "busy_retry 0 m = m"
| "busy_retry (Suc n) m = wk_catch m (\<lambda>e. if is_sqlite_busy e then busy_retry n m else wk_throw e)"

section \<open>Environment\<close>

definition clean_env_value :: "jsval \<Rightarrow> string" where
  "clean_env_value v =
     (let nxt = trim_string v
      in if nxt = [] then [] else if nxt = ''undefined'' \<or> nxt = ''null'' then [] else nxt)"

definition bool_env :: "jsval \<Rightarrow> bool \<Rightarrow> bool" where
  "bool_env v fallback =
     (let normalized = to_lower (clean_env_value v)
      in if normalized = [] then fallback
         else normalized = ''1'' \<or> normalized = ''true'' \<or> normalized = ''yes'' \<or> normalized = ''on'')"

definition positive_int_env :: "jsval \<Rightarrow> int \<Rightarrow> int" where
  "positive_int_env v fallback =
     (case finite_parse_int (clean_env_value v) of
        Some n \<Rightarrow> if n \<le> 0 then fallback else n
      | None \<Rightarrow> fallback)"

text \<open>\<open>parseInt(env.A || env.B || 'd', 10)\<close>, \<^term>\<open>None\<close> for \<open>NaN\<close>.\<close>

fun env_first :: "jobj \<Rightarrow> string list \<Rightarrow> jsval" where
  "env_first env [] = JUndef"
| "env_first env (k # ks) = (if truthy (jprop env k) then jprop env k else env_first env ks)"

definition env_int :: "'s worker_world \<Rightarrow> jobj \<Rightarrow> string list \<Rightarrow> string \<Rightarrow> int option" where
  "env_int w env names d =
     (let v = env_first env names in parse_int (if truthy v then wk_text w v else d))"

definition memory_flag :: "jsval \<Rightarrow> bool" where
  "memory_flag flag =
     (if flag = JNum (Fin 1) \<or> flag = JStr ''1'' \<or> flag = JBool True then True
      else if flag = JNum (Fin 0) \<or> flag = JStr ''0'' \<or> flag = JBool False then False
      else truthy flag)"

definition use_memory_kv :: "jobj \<Rightarrow> bool" where
  "use_memory_kv env = memory_flag (jprop env ''TEST_IN_MEMORY_KV'')"

definition production_like_env :: "jobj \<Rightarrow> bool" where
  "production_like_env env =
     (to_lower (first_non_empty_string
        [jprop env ''CF_ENV'', jprop env ''ENVIRONMENT'', jprop env ''NODE_ENV'', jprop env ''DEPLOY_ENV''])
      \<in> {''production'', ''staging'', ''prod-like''})"

definition secrets_enforced :: "jobj \<Rightarrow> bool" where
  "secrets_enforced env \<longleftrightarrow> jprop env ''REQUIRE_SECRETS'' = JStr ''1'' \<or> \<not> use_memory_kv env"

definition is_placeholder_secret :: "string \<Rightarrow> bool" where
  "is_placeholder_secret val =
     (if val = [] then True
      else list_ex (includes_str (to_lower (trim val)))
        [''change-me'', ''changeme'', ''placeholder'', ''example'', ''sample'', ''setme''])"

definition require_secret :: "'s worker_world \<Rightarrow> jobj \<Rightarrow> string \<Rightarrow> string \<Rightarrow> worker_error + unit" where
  "require_secret w env key message =
     (if \<not> secrets_enforced env then Inr ()
      else
        let v = jprop env key in
        if \<not> truthy v \<or> is_placeholder_secret (wk_text w v) then Inl (WHttp 500 message) else Inr ())"

definition prod_like :: "jobj \<Rightarrow> bool" where
  "prod_like env \<longleftrightarrow> list_ex (\<lambda>k. jprop env k = JStr ''production'')
     [''CF_ENV'', ''ENVIRONMENT'', ''NODE_ENV'', ''DEPLOY_ENV'']"

definition ensure_prod_secrets :: "'s worker_world \<Rightarrow> jobj \<Rightarrow> worker_error + unit" where
  "ensure_prod_secrets w env =
     (if \<not> secrets_enforced env then
        (if prod_like env then Inl (WHttp 500 ''secrets_not_enforced_in_prod'') else Inr ())
      else
        Prelude.sum_bind (require_secret w env ''INBOX_HMAC_SECRET'' ''missing_secret:INBOX_HMAC_SECRET'') (\<lambda>_.
        Prelude.sum_bind
          (if jprop env ''NOTIFY_HMAC_OPTIONAL'' \<noteq> JStr ''1''
           then require_secret w env ''NOTIFY_HMAC_SECRET'' ''missing_secret:NOTIFY_HMAC_SECRET''
           else Inr ()) (\<lambda>_.
        if prod_like env \<and> use_memory_kv env then Inl (WHttp 500 ''memory_kv_not_allowed_in_prod'')
        else Inr ())))"

definition env_default :: "string \<Rightarrow> jsval \<Rightarrow> jobj \<Rightarrow> jobj" where
  "env_default key v env = (if truthy (jprop env key) then env else AList.update key v env)"

definition normalize_test_env :: "jobj \<Rightarrow> jobj" where
  "normalize_test_env env0 =
     (let env1 = (if \<not> truthy (jprop env0 ''FORGET_TOKEN'') \<and> truthy (jprop env0 ''WORKER_AUTH_TOKEN'')
            then AList.update ''FORGET_TOKEN'' (jprop env0 ''WORKER_AUTH_TOKEN'') env0 else env0);
          env2 = (if \<not> truthy (jprop env1 ''WORKER_AUTH_TOKEN'') \<and> truthy (jprop env1 ''FORGET_TOKEN'')
            then AList.update ''WORKER_AUTH_TOKEN'' (jprop env1 ''FORGET_TOKEN'') env1 else env1);
          env3 = (if \<not> truthy (jprop env2 ''INBOX_HMAC_SECRET'') \<and> jprop env2 ''INBOX_HMAC_OPTIONAL'' = JStr ''1''
            then AList.update ''INBOX_HMAC_SECRET'' (JStr ''stress-secret'') env2 else env2);
          env4 = (if jprop env3 ''NOTIFY_HMAC_OPTIONAL'' = JUndef
            then AList.update ''NOTIFY_HMAC_OPTIONAL'' (JStr ''0'') env3 else env3);
          d = JStr (if use_memory_kv env4 then ''0'' else ''1'')
      in env_default ''AUTH_REQUIRE_NONCE'' d (env_default ''AUTH_REQUIRE_SIGNATURE'' d env4))"

section \<open>The key-value namespace\<close>

text \<open>\<open>kvFor(c)\<close> chooses the in-memory shim or the binding; an operation on the binding may throw. Each
  operation takes one reading of the clock.\<close>

definition memory_mode :: "'s worker_world \<Rightarrow> jobj \<Rightarrow> bool" where
  "memory_mode w env \<longleftrightarrow> use_memory_kv env \<or> use_memory_kv (ww_process w)"

definition kv_call ::
  "'s worker_world \<Rightarrow> bool \<Rightarrow> (int \<Rightarrow> shim \<Rightarrow> 'a \<times> shim)
   \<Rightarrow> ('s kv_binding \<Rightarrow> int \<Rightarrow> 's \<Rightarrow> (string + 'a) \<times> 's) \<Rightarrow> ('s, 'a) wk" where
  "kv_call w mem on_memory on_binding = wk_bind (now_seconds w) (\<lambda>now st.
     if mem then (case on_memory now (wk_memory st) of (v, m) \<Rightarrow> (Inr v, st\<lparr>wk_memory := m\<rparr>))
     else (case ww_kv w of
         None \<Rightarrow> (Inl type_error, st)
       | Some b \<Rightarrow> (case on_binding b now (wk_store st) of
             (Inl m, s) \<Rightarrow> (Inl (WOther m), st\<lparr>wk_store := s\<rparr>)
           | (Inr v, s) \<Rightarrow> (Inr v, st\<lparr>wk_store := s\<rparr>))))"

definition kv_read :: "'s worker_world \<Rightarrow> bool \<Rightarrow> string \<Rightarrow> ('s, string option) wk" where
  "kv_read w mem k = kv_call w mem (\<lambda>now. shim_get now k) (\<lambda>b now. kb_get b now k)"

definition kv_write ::
  "'s worker_world \<Rightarrow> bool \<Rightarrow> string \<Rightarrow> string \<Rightarrow> int option \<Rightarrow> int option \<Rightarrow> ('s, unit) wk" where
  "kv_write w mem k v expiration ttl =
     kv_call w mem (\<lambda>now m. ((), shim_put now k v expiration ttl m)) (\<lambda>b now. kb_put b now k v expiration ttl)"

definition kv_remove :: "'s worker_world \<Rightarrow> bool \<Rightarrow> string \<Rightarrow> ('s, unit) wk" where
  "kv_remove w mem k = kv_call w mem (\<lambda>now m. ((), shim_delete k m)) (\<lambda>b now. kb_delete b now k)"

definition kv_keys ::
  "'s worker_world \<Rightarrow> bool \<Rightarrow> string \<Rightarrow> int option \<Rightarrow> string option \<Rightarrow> ('s, shim_page) wk" where
  "kv_keys w mem pfx limit cursor =
     kv_call w mem (\<lambda>now. shim_list now pfx limit cursor) (\<lambda>b now. kb_list b now pfx limit cursor)"

text \<open>An \<open>expiration\<close> is compared with whole seconds, so its floor stands for it; without a number it never
  runs out.\<close>

definition expiration_of :: "'s worker_world \<Rightarrow> jsval \<Rightarrow> int option" where
  "expiration_of w v = (case wk_number w v of Fin q \<Rightarrow> Some \<lfloor>q\<rfloor> | _ \<Rightarrow> None)"

section \<open>Requests, replies and tokens\<close>

record worker_request =
  wq_method :: string
  wq_path :: "string list"
  wq_headers :: headers
  wq_body :: string

datatype worker_body = JsonBody jsval | PlainBody string

record worker_reply =
  wr_status :: int
  wr_body :: worker_body

definition json_reply :: "jobj \<Rightarrow> int \<Rightarrow> ('s, worker_reply) wk" where
  "json_reply obj status = wk_return \<lparr>wr_status = status, wr_body = JsonBody (JObj obj)\<rparr>"

definition wq_header :: "worker_request \<Rightarrow> string \<Rightarrow> string" where
  "wq_header rq name = header_or_empty (wq_headers rq) name"

definition client_ip :: "worker_request \<Rightarrow> string" where
  "client_ip rq =
     (if wq_header rq ''cf-connecting-ip'' \<noteq> [] then wq_header rq ''cf-connecting-ip''
      else if wq_header rq ''x-forwarded-for'' \<noteq> [] then wq_header rq ''x-forwarded-for''
      else ''unknown'')"

text \<open>\<open>await c.req.json()\<close>, with the message of the handler where it throws.\<close>

definition json_body :: "'s worker_world \<Rightarrow> worker_request \<Rightarrow> string \<Rightarrow> worker_error + jsval" where
  "json_body w rq message =
     (case ww_parse w (wq_body rq) of Inl _ \<Rightarrow> Inl (WHttp 400 message) | Inr v \<Rightarrow> Inr v)"

definition worker_bearer_token :: "worker_request \<Rightarrow> string" where
  "worker_bearer_token rq =
     (let auth = wq_header rq ''authorization'' in if starts_with auth ''Bearer '' then drop 7 auth else [])"

definition strict_token_scopes_enabled :: "jobj \<Rightarrow> bool" where
  "strict_token_scopes_enabled env =
     (let explicit = clean_env_value (jprop env ''WORKER_STRICT_TOKEN_SCOPES'')
      in if explicit \<noteq> [] then explicit \<noteq> ''0'' else secrets_enforced env \<or> production_like_env env)"

definition scoped_token_names :: "string list" where
  "scoped_token_names =
     [''WORKER_READ_TOKEN'', ''WORKER_FORGET_TOKEN'', ''WORKER_NOTIFY_TOKEN'', ''WORKER_SIGN_TOKEN'']"

fun first_repeated :: "string list \<Rightarrow> string list \<Rightarrow> bool" where
  "first_repeated seen [] = False"
| "first_repeated seen (v # vs) = (if v \<in> set seen then True else first_repeated (v # seen) vs)"

definition ensure_strict_scoped_token_topology :: "jobj \<Rightarrow> string \<Rightarrow> worker_error + unit" where
  "ensure_strict_scoped_token_topology env required_key =
     (if \<not> strict_token_scopes_enabled env then Inr ()
      else
        let scoped = map (\<lambda>name. (name, clean_env_value (jprop env name))) scoped_token_names;
            missing = filter (\<lambda>(name, token). name \<noteq> required_key \<and> token = []) scoped
        in if missing \<noteq> [] then Inl (WHttp 500 ''missing_scoped_token_config'')
           else if first_repeated [] (map snd scoped) then Inl (WHttp 500 ''scoped_tokens_not_unique'')
           else Inr ())"

fun first_clean :: "jobj \<Rightarrow> string list \<Rightarrow> string" where
  "first_clean env [] = []"
| "first_clean env (k # ks) =
     (if clean_env_value (jprop env k) \<noteq> [] then clean_env_value (jprop env k) else first_clean env ks)"

definition present_token :: "jobj \<Rightarrow> worker_request \<Rightarrow> string \<Rightarrow> string \<Rightarrow> string \<Rightarrow> worker_error + unit" where
  "present_token env rq expected key missing_message =
     (if expected = [] then Inl (WHttp 500 missing_message)
      else Prelude.sum_bind (ensure_strict_scoped_token_topology env key) (\<lambda>_.
        let token = worker_bearer_token rq
        in if token = [] \<or> token \<noteq> expected then Inl (WHttp 401 ''unauthorized'') else Inr ()))"

definition require_scoped_token :: "jobj \<Rightarrow> worker_request \<Rightarrow> string \<Rightarrow> string list \<Rightarrow> string \<Rightarrow> worker_error + unit" where
  "require_scoped_token env rq primary fallbacks missing_message =
     (let strict = strict_token_scopes_enabled env;
          own = clean_env_value (jprop env primary);
          expected = (if own = [] \<and> \<not> strict then first_clean env fallbacks else own)
      in present_token env rq expected primary missing_message)"

definition require_read_token :: "jobj \<Rightarrow> worker_request \<Rightarrow> worker_error + unit" where
  "require_read_token env rq =
     require_scoped_token env rq ''WORKER_READ_TOKEN'' [''WORKER_AUTH_TOKEN'', ''FORGET_TOKEN''] ''missing_read_token''"

definition require_forget_token :: "jobj \<Rightarrow> worker_request \<Rightarrow> worker_error + unit" where
  "require_forget_token env rq =
     require_scoped_token env rq ''WORKER_FORGET_TOKEN'' [''WORKER_AUTH_TOKEN'', ''FORGET_TOKEN''] ''missing_forget_token''"

definition require_notify_token :: "jobj \<Rightarrow> worker_request \<Rightarrow> worker_error + unit" where
  "require_notify_token env rq =
     require_scoped_token env rq ''WORKER_NOTIFY_TOKEN'' [''WORKER_AUTH_TOKEN'', ''FORGET_TOKEN''] ''missing_notify_token''"

definition require_sign_token :: "jobj \<Rightarrow> worker_request \<Rightarrow> worker_error + unit" where
  "require_sign_token env rq =
     present_token env rq (clean_env_value (jprop env ''WORKER_SIGN_TOKEN'')) ''WORKER_SIGN_TOKEN'' ''missing_sign_token''"

definition wk_finally :: "('s, 'a) wk \<Rightarrow> ('s worker_state \<Rightarrow> 's worker_state) \<Rightarrow> ('s, 'a) wk" where
  "wk_finally m f st = (case m st of (r, st') \<Rightarrow> (r, f st'))"

section \<open>Reasoning about operations that may throw\<close>

lemma wk_bind_Inr:
  "wk_bind m f st = (Inr y, st') \<longleftrightarrow> (\<exists>x st1. m st = (Inr x, st1) \<and> f x st1 = (Inr y, st'))"
  by (auto simp: wk_bind_def split: prod.split sum.split)

lemma wk_bind_Inl:
  "wk_bind m f st = (Inl e, st')
   \<longleftrightarrow> m st = (Inl e, st') \<or> (\<exists>x st1. m st = (Inr x, st1) \<and> f x st1 = (Inl e, st'))"
  by (auto simp: wk_bind_def split: prod.split sum.split)

lemma wk_bind_run: "m st = (Inr x, st1) \<Longrightarrow> wk_bind m f st = f x st1"
  by (simp add: wk_bind_def)

lemma wk_bind_run_Inl: "m st = (Inl e, st1) \<Longrightarrow> wk_bind m f st = (Inl e, st1)"
  by (simp add: wk_bind_def)

lemma wk_catch_Inr:
  "wk_catch m h st = (Inr x, st')
   \<longleftrightarrow> m st = (Inr x, st') \<or> (\<exists>e st1. m st = (Inl e, st1) \<and> h e st1 = (Inr x, st'))"
  by (auto simp: wk_catch_def split: prod.split sum.split)

lemma wk_finally_run: "m st = (r, st') \<Longrightarrow> wk_finally m f st = (r, f st')"
  by (simp add: wk_finally_def)

lemma wk_catch_run: "m st = (Inr x, st1) \<Longrightarrow> wk_catch m h st = (Inr x, st1)"
  by (simp add: wk_catch_def)

lemma wk_catch_run_Inl: "m st = (Inl e, st1) \<Longrightarrow> wk_catch m h st = h e st1"
  by (simp add: wk_catch_def)

text \<open>For running an operation on a given state: only the part that is next is evaluated.\<close>

lemma wk_bind_weak: "m = m' \<Longrightarrow> wk_bind m f = wk_bind m' f"
  by simp

lemma wk_catch_weak: "m = m' \<Longrightarrow> wk_catch m h = wk_catch m' h"
  by simp

lemmas wk_run = wk_bind_run wk_bind_run_Inl wk_catch_run wk_catch_run_Inl wk_finally_run
  now_seconds_def random_id_def wk_tick_def wk_inc_def wk_inc_by_def wk_gauge_def

lemmas wk_weak = wk_bind_weak wk_catch_weak

lemma wk_simps [simp]:
  "wk_return x st = (Inr x, st)" "wk_throw e st = (Inl e, st)" "wk_lift r st = (r, st)"
  "wk_modify f st = (Inr (), f st)" "wk_when True m = m" "wk_when False m = wk_return ()"
  by (simp_all add: wk_return_def wk_throw_def wk_lift_def wk_modify_def wk_when_def)

lemmas wk_inversion = wk_bind_Inr wk_catch_Inr

text \<open>A relation between the states before and after that every part of an operation keeps.\<close>

definition wk_keeps :: "('s worker_state \<Rightarrow> 's worker_state \<Rightarrow> bool) \<Rightarrow> ('s, 'a) wk \<Rightarrow> bool" where
  "wk_keeps R m \<longleftrightarrow> (\<forall>st. R st (snd (m st)))"

locale state_relation =
  fixes R :: "'s worker_state \<Rightarrow> 's worker_state \<Rightarrow> bool"
  assumes R_refl: "R st st" and R_trans: "R a b \<Longrightarrow> R b c \<Longrightarrow> R a c"
begin

lemma keeps_return: "wk_keeps R (wk_return x)"
  by (simp add: wk_keeps_def R_refl)

lemma keeps_throw: "wk_keeps R (wk_throw e)"
  by (simp add: wk_keeps_def R_refl)

lemma keeps_lift: "wk_keeps R (wk_lift r)"
  by (simp add: wk_keeps_def R_refl)

lemma keeps_bind:
  assumes "wk_keeps R m" and "\<And>x. wk_keeps R (f x)" shows "wk_keeps R (wk_bind m f)"
  unfolding wk_keeps_def
proof
  fix st
  obtain r st1 where m: "m st = (r, st1)" by fastforce
  then have "R st st1" using assms(1) by (auto simp: wk_keeps_def dest: spec [of _ st])
  moreover have "R st1 (snd (f x st1))" for x using assms(2) by (simp add: wk_keeps_def)
  ultimately show "R st (snd (wk_bind m f st))"
    using m by (auto simp: wk_bind_def split: sum.split intro: R_trans)
qed

lemma keeps_catch:
  assumes "wk_keeps R m" and "\<And>e. wk_keeps R (h e)" shows "wk_keeps R (wk_catch m h)"
  unfolding wk_keeps_def
proof
  fix st
  obtain r st1 where m: "m st = (r, st1)" by fastforce
  then have "R st st1" using assms(1) by (auto simp: wk_keeps_def dest: spec [of _ st])
  moreover have "R st1 (snd (h e st1))" for e using assms(2) by (simp add: wk_keeps_def)
  ultimately show "R st (snd (wk_catch m h st))"
    using m by (auto simp: wk_catch_def split: sum.split intro: R_trans)
qed

lemma keeps_when: "wk_keeps R m \<Longrightarrow> wk_keeps R (wk_when b m)"
  by (simp add: wk_when_def keeps_return)

lemma keeps_each: "(\<And>x. wk_keeps R (f x)) \<Longrightarrow> wk_keeps R (wk_each f xs)"
  by (induction xs) (auto intro: keeps_return keeps_bind)

lemma keeps_retry: "wk_keeps R m \<Longrightarrow> wk_keeps R (busy_retry n m)"
  by (induction n) (auto intro!: keeps_catch keeps_throw)

lemma keeps_get_prop: "wk_keeps R (wk_get_prop v k)"
  by (auto simp: wk_get_prop_def keeps_throw keeps_return split: option.split)

lemmas keeps_rules =
  keeps_return keeps_throw keeps_lift keeps_bind keeps_catch keeps_when keeps_each keeps_retry keeps_get_prop

end

lemma wk_keepsD: "wk_keeps R m \<Longrightarrow> m st = (r, st') \<Longrightarrow> R st st'"
  by (auto simp: wk_keeps_def dest: spec [of _ st])

definition clock_on :: "'s worker_state \<Rightarrow> 's worker_state \<Rightarrow> bool" where
  "clock_on st st' \<longleftrightarrow> wk_ticks st \<le> wk_ticks st'"

interpretation clock_on: state_relation clock_on
  by unfold_locales (auto simp: clock_on_def)

lemma clock_on_basic:
  "wk_keeps clock_on (wk_inc_by name n)" "wk_keeps clock_on (wk_inc name)" "wk_keeps clock_on (wk_gauge name n)"
  "wk_keeps clock_on (now_seconds w)" "wk_keeps clock_on (random_id w p)"
  by (simp_all add: wk_keeps_def clock_on_def wk_inc_by_def wk_inc_def wk_gauge_def now_seconds_def
      random_id_def wk_tick_def)

lemma clock_on_kv:
  "wk_keeps clock_on (kv_read w mem k)" "wk_keeps clock_on (kv_write w mem k v e ttl)"
  "wk_keeps clock_on (kv_remove w mem k)" "wk_keeps clock_on (kv_keys w mem p l c)"
  by (auto simp: wk_keeps_def clock_on_def kv_read_def kv_write_def kv_remove_def kv_keys_def kv_call_def
      wk_bind_def now_seconds_def wk_tick_def split: prod.split sum.split option.split)

section \<open>What a namespace promises\<close>

text \<open>
  \<open>reads st t k\<close> is what a read of \<open>k\<close> at time \<open>t\<close> returns in state \<open>st\<close>. A write that succeeds stays
  readable until it runs out, a removal takes effect, and an operation on one key, failed or not, does
  not touch the others.
\<close>

definition kv_lives :: "int \<Rightarrow> int option \<Rightarrow> int option \<Rightarrow> int \<Rightarrow> bool" where
  "kv_lives now expiration ttl t \<longleftrightarrow>
     (case (case expiration of Some x \<Rightarrow> if x = 0 then None else Some x | None \<Rightarrow> None) of
        Some x \<Rightarrow> t < x
      | None \<Rightarrow> (case ttl of Some n \<Rightarrow> n = 0 \<or> t < now + n | None \<Rightarrow> True))"

text \<open>A key that an operation leaves alone, as long as the clock does not go back.\<close>

definition untouched ::
  "'s worker_world \<Rightarrow> ('s worker_state \<Rightarrow> int \<Rightarrow> string \<Rightarrow> string option) \<Rightarrow> string
   \<Rightarrow> 's worker_state \<Rightarrow> 's worker_state \<Rightarrow> bool" where
  "untouched w reads k st st' \<longleftrightarrow> clock_on st st' \<and> (mono (ww_clock w) \<longrightarrow>
     (\<forall>t. ww_clock w (wk_ticks st') \<le> t \<longrightarrow> reads st' t k = reads st t k))"

locale worker_store =
  fixes w :: "'s worker_world" and mem :: bool
    and reads :: "'s worker_state \<Rightarrow> int \<Rightarrow> string \<Rightarrow> string option"
  assumes reads_cong: "wk_memory st' = wk_memory st \<Longrightarrow> wk_store st' = wk_store st \<Longrightarrow> reads st' = reads st"
    and read_value: "kv_read w mem k st = (Inr r, st') \<Longrightarrow> r = reads st (ww_clock w (wk_ticks st)) k"
    and read_frame: "ww_clock w (wk_ticks st) \<le> t \<Longrightarrow> reads (snd (kv_read w mem k st)) t k' = reads st t k'"
    and write_value: "kv_write w mem k v e ttl st = (Inr (), st')
      \<Longrightarrow> kv_lives (ww_clock w (wk_ticks st)) e ttl t \<Longrightarrow> reads st' t k = Some v"
    and write_failed: "kv_write w mem k v e ttl st = (Inl err, st')
      \<Longrightarrow> (\<forall>t \<ge> ww_clock w (wk_ticks st). reads st' t k = reads st t k)
        \<or> (\<forall>t. kv_lives (ww_clock w (wk_ticks st)) e ttl t \<longrightarrow> reads st' t k = Some v)"
    and write_frame: "k' \<noteq> k \<Longrightarrow> reads (snd (kv_write w mem k v e ttl st)) t k' = reads st t k'"
    and remove_value: "kv_remove w mem k st = (Inr (), st') \<Longrightarrow> reads st' t k = None"
    and remove_frame: "k' \<noteq> k \<Longrightarrow> reads (snd (kv_remove w mem k st)) t k' = reads st t k'"
    and keys_frame: "ww_clock w (wk_ticks st) \<le> t \<Longrightarrow> reads (snd (kv_keys w mem p l c st)) t k' = reads st t k'"
begin

lemma untouched_relation: "state_relation (untouched w reads k)"
proof
  show "untouched w reads k st st" for st by (simp add: untouched_def clock_on_def)
  show "untouched w reads k a c" if ab: "untouched w reads k a b" and bc: "untouched w reads k b c" for a b c
    unfolding untouched_def
  proof (intro conjI impI allI)
    show "clock_on a c" using ab bc by (simp add: untouched_def clock_on_def)
    fix t assume m: "mono (ww_clock w)" and t: "ww_clock w (wk_ticks c) \<le> t"
    have "ww_clock w (wk_ticks b) \<le> ww_clock w (wk_ticks c)"
      using m bc by (simp add: untouched_def clock_on_def monoD)
    with t have "ww_clock w (wk_ticks b) \<le> t" by simp
    with m t ab bc show "reads c t k = reads a t k" by (simp add: untouched_def)
  qed
qed

lemma untouched_tick: "clock_on st st' \<Longrightarrow> wk_memory st' = wk_memory st \<Longrightarrow> wk_store st' = wk_store st \<Longrightarrow> untouched w reads k st st'"
  by (simp add: untouched_def reads_cong [of st' st])

lemma untouched_basic:
  "wk_keeps (untouched w reads k) (wk_inc_by name n)" "wk_keeps (untouched w reads k) (wk_inc name)"
  "wk_keeps (untouched w reads k) (wk_gauge name n)" "wk_keeps (untouched w reads k) (now_seconds w)"
  "wk_keeps (untouched w reads k) (random_id w p)"
  unfolding wk_keeps_def
  by (auto intro!: untouched_tick simp: clock_on_def wk_inc_by_def wk_inc_def wk_gauge_def now_seconds_def
      random_id_def wk_tick_def)

lemma untouched_later:
  assumes "clock_on st st'" and "\<And>t. ww_clock w (wk_ticks st) \<le> t \<Longrightarrow> reads st' t k = reads st t k"
  shows "untouched w reads k st st'"
  using assms unfolding untouched_def clock_on_def by (meson order_trans monoD)

lemma untouched_kv:
  "wk_keeps (untouched w reads k) (kv_read w mem k')" "wk_keeps (untouched w reads k) (kv_keys w mem p l c)"
  "k' \<noteq> k \<Longrightarrow> wk_keeps (untouched w reads k) (kv_write w mem k' v e ttl)"
  "k' \<noteq> k \<Longrightarrow> wk_keeps (untouched w reads k) (kv_remove w mem k')"
proof -
  show "wk_keeps (untouched w reads k) (kv_read w mem k')"
    using clock_on_kv(1) [of w mem k'] read_frame by (auto simp: wk_keeps_def intro: untouched_later)
  show "wk_keeps (untouched w reads k) (kv_keys w mem p l c)"
    using clock_on_kv(4) [of w mem p l c] keys_frame by (auto simp: wk_keeps_def intro: untouched_later)
  show "k' \<noteq> k \<Longrightarrow> wk_keeps (untouched w reads k) (kv_write w mem k' v e ttl)"
    using clock_on_kv(2) [of w mem k' v e ttl] write_frame [of k k']
    by (auto simp: wk_keeps_def intro: untouched_later)
  show "k' \<noteq> k \<Longrightarrow> wk_keeps (untouched w reads k) (kv_remove w mem k')"
    using clock_on_kv(3) [of w mem k'] remove_frame [of k k'] by (auto simp: wk_keeps_def intro: untouched_later)
qed

lemmas untouched_rules = state_relation.keeps_rules [OF untouched_relation] untouched_basic untouched_kv

end

definition memory_reads :: "'s worker_state \<Rightarrow> int \<Rightarrow> string \<Rightarrow> string option" where
  "memory_reads st t k = shim_read (wk_memory st) t k"

lemma shim_put_read:
  "kv_lives now e ttl t \<Longrightarrow> shim_read (shim_put now k v e ttl m) t k = Some v"
  "k' \<noteq> k \<Longrightarrow> shim_read (shim_put now k v e ttl m) t k' = shim_read m t k'"
  by (auto simp: shim_read_alt shim_put_def shim_expired_def kv_lives_def Let_def update_conv'
      split: option.splits if_splits)

lemma shim_delete_read:
  "shim_read (shim_delete k m) t k' = (if k' = k then None else shim_read m t k')"
  by (auto simp: shim_read_alt shim_delete_def delete_conv')

lemma shim_list_snd: "snd (shim_list now p l c m) = snd (shim_scan now p (map fst m) m)"
  by (simp add: shim_list_def Let_def split_def)

lemma kv_call_memory:
  "kv_call w True f g st = (let (v, m) = f (ww_clock w (wk_ticks st)) (wk_memory st)
     in (Inr v, st\<lparr>wk_ticks := Suc (wk_ticks st), wk_memory := m\<rparr>))"
  by (simp add: kv_call_def wk_bind_def now_seconds_def wk_tick_def split_def Let_def)

lemmas kv_run = kv_read_def kv_write_def kv_remove_def kv_keys_def kv_call_memory

interpretation memory: worker_store w True memory_reads
proof
  show "v = memory_reads st (ww_clock w (wk_ticks st)) k"
    if "kv_read w True k st = (Inr v, st')" for k v and st st' :: "'a worker_state"
    using that by (auto simp: kv_read_def kv_call_memory memory_reads_def shim_read_def Let_def split_def)
next
  show "memory_reads (snd (kv_read w True k st)) t k' = memory_reads st t k'"
    if "ww_clock w (wk_ticks st) \<le> t" for k t k' and st :: "'a worker_state"
    using that shim_get_invisible
    by (auto simp: kv_read_def kv_call_memory memory_reads_def Let_def split_def)
next
  show "memory_reads (snd (kv_keys w True p l c st)) t k' = memory_reads st t k'"
    if "ww_clock w (wk_ticks st) \<le> t" for p l c t k' and st :: "'a worker_state"
    using that shim_scan_invisible
    by (auto simp: kv_keys_def kv_call_memory memory_reads_def Let_def split_def shim_list_snd)
qed (auto simp: memory_reads_def kv_write_def kv_remove_def kv_call_memory shim_put_read shim_delete_read fun_eq_iff)

text \<open>A world for small examples: the clock stands at 1000, and only \<open>JSON.parse\<close> is of interest.\<close>

definition demo_worker_world :: "(string \<Rightarrow> string + jsval) \<Rightarrow> unit worker_world" where
  "demo_worker_world parse =
     \<lparr>ww_kv = None, ww_process = [], ww_clock = (\<lambda>_. 1000), ww_random = (\<lambda>_. ''x''), ww_lock_fault = (\<lambda>_. None),
      ww_parse = parse, ww_show = show_ratio, ww_text = (\<lambda>_. ''[object Object]''), ww_number = (\<lambda>_. NaN),
      ww_date = (\<lambda>_. None),
      ww_url = (\<lambda>u. Some \<lparr>up_protocol = ''https:'', up_username = [], up_password = [],
        up_hostname = u, up_href = u\<rparr>),
      ww_hmac = (\<lambda>secret sig body. sig = [1]), ww_sha256 = (\<lambda>s. s), ww_sign = (\<lambda>k msg. Some (k @ msg)),
      ww_base64 = (\<lambda>s. s), ww_fetch = (\<lambda>_ _. Responded \<lparr>rp_ok = True, rp_status = 200, rp_body = []\<rparr>),
      ww_can_wait = True, ww_builtin = (\<lambda>_ _. JUndef)\<rparr>"

definition fresh_worker :: "unit worker_state" where
  "fresh_worker =
     \<lparr>wk_memory = [], wk_claims = [], wk_store = (), wk_locks = [],
      wk_metrics = \<lparr>wm_counters = [], wm_gauges = []\<rparr>, wk_sent = [], wk_ticks = 0\<rparr>"

end
