(* ===== verification/WorkerGuards.thy ===== *)
theory WorkerGuards
  imports Worker
begin

text \<open>
  The guards of the secrets worker's routes (\<open>src/workers/secrets-worker/src/index.ts\<close>): the fixed-window
  limits kept in the key-value namespace, the guard against spraying subjects, the replay check with its
  claims in memory, its marker in the namespace and its Durable Object, and the limits on payloads and
  subjects.
\<close>

section \<open>Windows\<close>

text \<open>\<open>reset && now < reset\<close>\<close>

definition window_live :: "'s worker_world \<Rightarrow> int \<Rightarrow> jsval \<Rightarrow> bool" where
  "window_live w now reset \<longleftrightarrow> truthy reset \<and> jn_less (Fin (of_int now)) (wk_number w reset)"

definition window_text :: "'s worker_world \<Rightarrow> jsval \<Rightarrow> jsval \<Rightarrow> string" where
  "window_text w cnt reset = json_stringify (ww_show w) (JObj [(''count'', cnt), (''reset'', reset)])"

definition window_end :: "int \<Rightarrow> int option \<Rightarrow> jsval" where
  "window_end now ttl = JNum (jn_add (Fin (of_int now)) (jn_of ttl))"

datatype window_verdict = Blocked | Admitted string

definition window_step ::
  "'s worker_world \<Rightarrow> int option \<Rightarrow> int option \<Rightarrow> int \<Rightarrow> string option \<Rightarrow> worker_error + window_verdict" where
  "window_step w cap ttl now raw =
     (if raw = None \<or> raw = Some [] then Inr (Admitted (window_text w (jint 1) (window_end now ttl)))
      else (case ww_parse w (the raw) of
          Inl m \<Rightarrow> Inl (WOther m)
        | Inr v \<Rightarrow>
            (case (wk_prop v ''count'', wk_prop v ''reset'') of
               (Some cnt, Some reset) \<Rightarrow>
                 let live = window_live w now reset in
                 if live \<and> jn_le (jn_of cap) (wk_number w cnt) then Inr Blocked
                 else Inr (Admitted (window_text w
                   (if live then js_add w cnt (jint 1) else jint 1)
                   (if live then reset else window_end now ttl)))
             | _ \<Rightarrow> Inl type_error)))"

definition ttl_after :: "int option \<Rightarrow> int option" where
  "ttl_after windowSec = map_option (\<lambda>n. n + 5) windowSec"

text \<open>One attempt: the entry of the window is read, checked and written back.\<close>

definition window_attempt ::
  "'s worker_world \<Rightarrow> bool \<Rightarrow> string \<Rightarrow> int option \<Rightarrow> int option \<Rightarrow> ('s, unit) wk \<Rightarrow> string \<Rightarrow> ('s, unit) wk" where
  "window_attempt w mem rk cap ttl on_block message =
     wk_bind (kv_read w mem rk) (\<lambda>raw.
     wk_bind (now_seconds w) (\<lambda>now.
     wk_bind (wk_lift (window_step w cap ttl now raw)) (\<lambda>verdict.
       case verdict of
         Blocked \<Rightarrow> wk_bind on_block (\<lambda>_. wk_throw (WHttp 429 message))
       | Admitted entry \<Rightarrow> kv_write w mem rk entry None ttl)))"

definition limit_off :: "int option \<Rightarrow> bool" where
  "limit_off cap \<longleftrightarrow> (case cap of Some n \<Rightarrow> n \<le> 0 | None \<Rightarrow> False)"

definition rate_limit :: "'s worker_world \<Rightarrow> jobj \<Rightarrow> worker_request \<Rightarrow> ('s, unit) wk" where
  "rate_limit w env rq =
     (let cap = env_int w env [''RATE_LIMIT_MAX''] ''50'';
          ttl = ttl_after (env_int w env [''RATE_LIMIT_WINDOW''] ''60'')
      in if limit_off cap then wk_return ()
         else busy_retry 2 (window_attempt w (memory_mode w env) (''rl:'' @ client_ip rq) cap ttl
           (wk_inc ''worker_rate_limit_blocked_total'') ''rate_limited''))"

definition notify_rate_limit :: "'s worker_world \<Rightarrow> jobj \<Rightarrow> worker_request \<Rightarrow> ('s, unit) wk" where
  "notify_rate_limit w env rq =
     (let cap = env_int w env [''NOTIFY_RATE_MAX'', ''RATE_LIMIT_MAX''] ''50'';
          ttl = ttl_after (env_int w env [''NOTIFY_RATE_WINDOW'', ''RATE_LIMIT_WINDOW''] ''60'')
      in if limit_off cap then wk_return ()
         else window_attempt w (memory_mode w env) (''rl:notify:'' @ client_ip rq) cap ttl
           (wk_inc ''worker_notify_rate_blocked_total'') ''notify_rate_limited'')"

definition sign_rate_limit :: "'s worker_world \<Rightarrow> jobj \<Rightarrow> worker_request \<Rightarrow> ('s, unit) wk" where
  "sign_rate_limit w env rq =
     (let cap = env_int w env [''SIGN_RATE_LIMIT_MAX'', ''RATE_LIMIT_MAX''] ''20'';
          ttl = ttl_after (env_int w env [''SIGN_RATE_LIMIT_WINDOW'', ''RATE_LIMIT_WINDOW''] ''60'')
      in if limit_off cap then wk_return ()
         else busy_retry 2 (window_attempt w (memory_mode w env) (''rl:sign:'' @ client_ip rq) cap ttl
           (wk_return ()) ''rate_limited''))"

definition notify_subject_limit :: "'s worker_world \<Rightarrow> jobj \<Rightarrow> string \<Rightarrow> ('s, unit) wk" where
  "notify_subject_limit w env subject_key =
     (let cap = env_int w env [''NOTIFY_SUBJECT_MAX''] ''20'';
          ttl = ttl_after (env_int w env [''NOTIFY_SUBJECT_WINDOW'', ''NOTIFY_RATE_WINDOW''] ''60'')
      in if limit_off cap then wk_return ()
         else busy_retry 2 (window_attempt w (memory_mode w env) (''notify:subj:'' @ subject_key) cap ttl
           (wk_inc ''worker_notify_subject_blocked_total'') ''notify_subject_limit''))"

text \<open>The subjects one address has used in the window, counted once each.\<close>

definition spray_count :: "'s worker_world \<Rightarrow> int \<Rightarrow> string option \<Rightarrow> worker_error + jsval" where
  "spray_count w now raw =
     (if raw = None \<or> raw = Some [] then Inr (jint 0)
      else (case ww_parse w (the raw) of
          Inl m \<Rightarrow> Inl (WOther m)
        | Inr v \<Rightarrow>
            (case (wk_prop v ''reset'', wk_prop v ''count'') of
               (Some reset, Some cnt) \<Rightarrow> Inr (if window_live w now reset then js_or cnt (jint 0) else jint 0)
             | _ \<Rightarrow> Inl type_error)))"

definition subject_spray_guard :: "'s worker_world \<Rightarrow> jobj \<Rightarrow> string \<Rightarrow> string \<Rightarrow> ('s, unit) wk" where
  "subject_spray_guard w env ip subject =
     (let cap = env_int w env [''UNIQUE_SUBJECT_MAX_PER_IP''] ''20'';
          ttl = ttl_after (env_int w env [''UNIQUE_SUBJECT_WINDOW'', ''RATE_LIMIT_WINDOW''] ''60'');
          mem = memory_mode w env;
          subject_key = ''rlsub:'' @ ip @ '':'' @ subject;
          counter_key = ''rlsubcount:'' @ ip
      in if limit_off cap then wk_return ()
         else
           wk_bind (now_seconds w) (\<lambda>now.
           wk_bind (kv_read w mem subject_key) (\<lambda>seen.
             if seen \<noteq> None \<and> seen \<noteq> Some [] then wk_return ()
             else
               wk_bind (kv_read w mem counter_key) (\<lambda>raw.
               wk_bind (wk_lift (spray_count w now raw)) (\<lambda>cnt.
                 if jn_le (jn_of cap) (wk_number w cnt) then
                   wk_bind (wk_inc ''worker_notify_subject_blocked_total'') (\<lambda>_.
                   wk_throw (WHttp 429 ''notify_subject_spray''))
                 else
                   wk_bind (kv_write w mem subject_key ''1'' None ttl) (\<lambda>_.
                   kv_write w mem counter_key (window_text w (js_add w cnt (jint 1)) (window_end now ttl))
                     None ttl))))))"

section \<open>Replays\<close>

definition replay_window :: "'s worker_world \<Rightarrow> jobj \<Rightarrow> worker_error + int" where
  "replay_window w env =
     (case env_int w env [''REPLAY_TTL''] ''600'' of
        Some n \<Rightarrow> if \<not> js_finite n \<or> n \<le> 0 then Inl (WHttp 500 ''invalid_replay_ttl'') else Inr n
      | None \<Rightarrow> Inl (WHttp 500 ''invalid_replay_ttl''))"

definition replay_strong_mode_enabled :: "jobj \<Rightarrow> bool" where
  "replay_strong_mode_enabled env =
     (let explicit = clean_env_value (jprop env ''REPLAY_STRONG_MODE'')
      in if explicit \<noteq> [] then explicit = ''1'' else False)"

definition prune_replay_claims :: "int \<Rightarrow> int jmap \<Rightarrow> int jmap" where
  "prune_replay_claims now m = filter (\<lambda>(k, x). \<not> x \<le> now) m"

definition claim_replay_key :: "'s worker_world \<Rightarrow> string \<Rightarrow> int \<Rightarrow> ('s, unit) wk" where
  "claim_replay_key w k ttl =
     wk_bind (now_seconds w) (\<lambda>now st.
       let claims = prune_replay_claims now (wk_claims st) in
       if map_of claims k \<noteq> None then (Inl (WHttp 409 ''replay''), st\<lparr>wk_claims := claims\<rparr>)
       else (Inr (), st\<lparr>wk_claims := AList.update k (now + max 1 (min 15 ttl)) claims\<rparr>))"

text \<open>The Durable Object: \<open>exp\<close> is its only stored value. A body that cannot be read keeps the default.\<close>

definition lock_ttl :: "'s worker_world \<Rightarrow> string \<Rightarrow> int" where
  "lock_ttl w body =
     (case ww_parse w body of
        Inl _ \<Rightarrow> 600
      | Inr v \<Rightarrow>
          (case wk_opt v ''ttl'' of
             JNum (Fin q) \<Rightarrow> if q > 0 then min 86400 (max 1 \<lfloor>q\<rfloor>) else 600
           | _ \<Rightarrow> 600))"

definition lock_fetch ::
  "'s worker_world \<Rightarrow> string \<Rightarrow> string \<Rightarrow> string \<Rightarrow> int \<Rightarrow> int option \<Rightarrow> int \<times> int option" where
  "lock_fetch w meth path body now stored =
     (if meth \<noteq> ''POST'' then (404, stored)
      else if path = ''/forget'' then (200, None)
      else if path \<noteq> ''/claim'' then (404, stored)
      else
        let ttl = lock_ttl w body in
        (case stored of
           Some x \<Rightarrow> if x > now then (409, stored) else (201, Some (now + ttl))
         | None \<Rightarrow> (201, Some (now + ttl))))"

definition lock_alarm :: "int \<Rightarrow> int option \<Rightarrow> int option" where
  "lock_alarm now stored = (case stored of Some x \<Rightarrow> if x \<le> now then None else stored | None \<Rightarrow> None)"

text \<open>\<open>stub.fetch\<close>: the call may fail before it reaches the object.\<close>

definition lock_call :: "'s worker_world \<Rightarrow> string \<Rightarrow> string \<Rightarrow> string \<Rightarrow> ('s, int) wk" where
  "lock_call w name path body =
     wk_bind (wk_tick (\<lambda>n. (ww_lock_fault w n, ww_clock w n))) (\<lambda>(fault, now) st.
       case fault of
         Some (LockThrows m) \<Rightarrow> (Inl (WOther m), st)
       | Some (LockStatus s) \<Rightarrow> (Inr s, st)
       | None \<Rightarrow>
           (case lock_fetch w ''POST'' path body now (map_of (wk_locks st) name) of
              (s, stored) \<Rightarrow>
                (Inr s, st\<lparr>wk_locks := (case stored of
                   Some x \<Rightarrow> AList.update name x (wk_locks st)
                 | None \<Rightarrow> AList.delete name (wk_locks st))\<rparr>)))"

definition status_ok :: "int \<Rightarrow> bool" where
  "status_ok s \<longleftrightarrow> 200 \<le> s \<and> s < 300"

definition check_replay_with_durable_object :: "'s worker_world \<Rightarrow> jobj \<Rightarrow> string \<Rightarrow> int \<Rightarrow> ('s, unit) wk" where
  "check_replay_with_durable_object w env rk ttl =
     (if \<not> truthy (jprop env ''REPLAY_LOCKS'') then wk_throw (WHttp 500 ''missing_replay_lock_binding'')
      else wk_bind (lock_call w rk ''/claim'' (json_stringify (ww_show w) (JObj [(''ttl'', jint ttl)]))) (\<lambda>s.
        if s = 409 then wk_throw (WHttp 409 ''replay'')
        else if \<not> status_ok s then wk_throw (WHttp 500 ''replay_lock_unavailable'')
        else wk_return ()))"

definition clear_replay_with_durable_object :: "'s worker_world \<Rightarrow> jobj \<Rightarrow> string \<Rightarrow> ('s, unit) wk" where
  "clear_replay_with_durable_object w env rk =
     (if \<not> truthy (jprop env ''REPLAY_LOCKS'') then wk_return ()
      else wk_bind (lock_call w rk ''/forget'' []) (\<lambda>s.
        if \<not> status_ok s then wk_throw (WHttp 500 ''replay_lock_unavailable'') else wk_return ()))"

definition persist_replay_marker :: "'s worker_world \<Rightarrow> jobj \<Rightarrow> string \<Rightarrow> int \<Rightarrow> ('s, unit) wk" where
  "persist_replay_marker w env rk ttl =
     busy_retry 2 (kv_write w (memory_mode w env) rk ''1'' None (Some ttl))"

definition replay_attempt :: "'s worker_world \<Rightarrow> bool \<Rightarrow> string \<Rightarrow> int \<Rightarrow> ('s, unit) wk" where
  "replay_attempt w mem rk ttl =
     wk_bind (kv_read w mem rk) (\<lambda>existing.
       if existing \<noteq> None \<and> existing \<noteq> Some [] then wk_throw (WHttp 409 ''replay'')
       else
         wk_bind (random_id w ''replay'') (\<lambda>i.
         wk_bind (kv_write w mem rk (''claim:'' @ i) None (Some ttl)) (\<lambda>_.
         wk_bind (kv_read w mem rk) (\<lambda>owned.
           if owned \<noteq> Some (''claim:'' @ i) then wk_throw (WHttp 409 ''replay'')
           else kv_write w mem rk ''1'' None (Some ttl)))))"

definition replay_marker_key :: "string \<Rightarrow> string \<Rightarrow> string" where
  "replay_marker_key subj nonce = ''replay:'' @ subj @ '':'' @ nonce"

definition claim_and_mark :: "'s worker_world \<Rightarrow> jobj \<Rightarrow> string \<Rightarrow> int \<Rightarrow> ('s, unit) wk" where
  "claim_and_mark w env rk ttl =
     (if truthy (jprop env ''REPLAY_LOCKS'') then
        wk_bind (check_replay_with_durable_object w env rk ttl) (\<lambda>_.
        wk_catch (persist_replay_marker w env rk ttl) (\<lambda>err.
          wk_bind (wk_catch (clear_replay_with_durable_object w env rk) (\<lambda>_. wk_return ())) (\<lambda>_.
          wk_throw err)))
      else if replay_strong_mode_enabled env then wk_throw (WHttp 500 ''missing_replay_lock_binding'')
      else busy_retry 2 (replay_attempt w (memory_mode w env) rk ttl))"

definition check_replay :: "'s worker_world \<Rightarrow> jobj \<Rightarrow> string \<Rightarrow> string \<Rightarrow> ('s, unit) wk" where
  "check_replay w env subj nonce =
     wk_bind (wk_lift (replay_window w env)) (\<lambda>ttl.
       let rk = replay_marker_key subj nonce in
       wk_bind (claim_replay_key w rk ttl) (\<lambda>_.
       wk_finally (claim_and_mark w env rk ttl) (\<lambda>st. st\<lparr>wk_claims := AList.delete rk (wk_claims st)\<rparr>)))"

section \<open>Subjects and payloads\<close>

definition current_subject_count :: "'s worker_world \<Rightarrow> jobj \<Rightarrow> string \<Rightarrow> ('s, int) wk" where
  "current_subject_count w env subj =
     wk_bind (kv_keys w (memory_mode w env) (subj @ '':'') (Some 50) None) (\<lambda>page.
       wk_return (int (length (sp_keys page))))"

definition subject_limit :: "'s worker_world \<Rightarrow> jobj \<Rightarrow> int \<Rightarrow> worker_error + unit" where
  "subject_limit w env cnt =
     (case env_int w env [''SUBJECT_MAX_ENVELOPES''] ''10'' of
        Some n \<Rightarrow> if n > 0 \<and> cnt \<ge> n then Inl (WHttp 429 ''subject_limit'') else Inr ()
      | None \<Rightarrow> Inr ())"

definition over_bytes :: "int option \<Rightarrow> string \<Rightarrow> bool" where
  "over_bytes maxBytes s \<longleftrightarrow> (case maxBytes of Some n \<Rightarrow> n > 0 \<and> int (utf8_len s) > n | None \<Rightarrow> False)"

text \<open>\<open>new TextEncoder().encode(payload)\<close> converts a payload that is not a string.\<close>

definition validate_payload_size :: "'s worker_world \<Rightarrow> jobj \<Rightarrow> jsval \<Rightarrow> worker_error + unit" where
  "validate_payload_size w env payload =
     (if over_bytes (env_int w env [''PAYLOAD_MAX_BYTES''] ''16384'') (wk_text w payload)
      then Inl (WHttp 413 ''payload_too_large'') else Inr ())"

section \<open>Signatures\<close>

text \<open>\<open>parseInt(pair, 16)\<close> stored in a byte: white space and a sign are skipped, a prefix \<open>0x\<close> too, the
  longest run of digits counts, and what is no number is zero.\<close>

definition hex_byte :: "char \<Rightarrow> char \<Rightarrow> nat" where
  "hex_byte a b =
     (if js_ws a \<or> a = CHR ''+'' then (if is_hex b then hex_nat b else 0)
      else if a = CHR ''-'' then (if is_hex b \<and> hex_nat b \<noteq> 0 then 256 - hex_nat b else 0)
      else if is_hex a then (if is_hex b then 16 * hex_nat a + hex_nat b
                             else if a = CHR ''0'' \<and> b \<in> set ''xX'' then 0 else hex_nat a)
      else 0)"

fun byte_pairs :: "string \<Rightarrow> nat list" where
  "byte_pairs (a # b # cs) = hex_byte a b # byte_pairs cs"
| "byte_pairs _ = []"

definition hex_to_bytes :: "string \<Rightarrow> worker_error + nat list" where
  "hex_to_bytes hex =
     (if hex = [] \<or> odd (length hex) then Inl (WHttp 401 ''invalid_signature'') else Inr (byte_pairs hex))"

definition normalize_worker_signature :: "string \<Rightarrow> string" where
  "normalize_worker_signature signature = to_lower (trim signature)"

definition signature_valid :: "'s worker_world \<Rightarrow> string \<Rightarrow> string \<Rightarrow> string \<Rightarrow> bool" where
  "signature_valid w secret sig body =
     (case hex_to_bytes (normalize_worker_signature sig) of
        Inl _ \<Rightarrow> False
      | Inr bs \<Rightarrow> ww_hmac w secret bs body)"

section \<open>What a window admits\<close>

lemma jint_simps [simp]:
  "wk_number w (jint n) = Fin (of_int n)" "truthy (jint n) \<longleftrightarrow> n \<noteq> 0" "jint m = jint n \<longleftrightarrow> m = n"
  "\<not> is_texty (jint n)" "js_add w (jint m) (jint n) = jint (m + n)"
  by (simp_all add: jint_def wk_number_def js_add_def)

lemma jn_of_simps [simp]: "jn_of (Some n) = Fin (of_int n)" "window_end now (Some n) = jint (now + n)"
  by (simp_all add: jn_of_def window_end_def jint_def)

lemma jn_le_Fin [simp]: "jn_le (Fin a) (Fin b) \<longleftrightarrow> a \<le> b"
  by (auto simp: jn_le_def)

lemma window_text_ne [simp]: "window_text w a b \<noteq> []"
  by (simp add: window_text_def)

text \<open>What \<open>JSON.parse\<close> makes of the entries a window writes, for the counts up to the limit.\<close>

definition windows_parse :: "'s worker_world \<Rightarrow> int \<Rightarrow> int \<Rightarrow> bool" where
  "windows_parse w cap ttl \<longleftrightarrow> (\<forall>c i. 1 \<le> c \<and> c \<le> cap \<longrightarrow>
     ww_parse w (window_text w (jint c) (jint (ww_clock w i + ttl)))
     = Inr (JObj [(''count'', jint c), (''reset'', jint (ww_clock w i + ttl))]))"

lemma window_step_fresh: "window_step w cap ttl now None = Inr (Admitted (window_text w (jint 1) (window_end now ttl)))"
  by (simp add: window_step_def)

lemma window_step_live:
  assumes "windows_parse w cap ttl" and "1 \<le> c" and "c \<le> cap" and "now < ww_clock w i + ttl" and "0 \<le> now"
  shows "window_step w (Some cap) (Some ttl) now (Some (window_text w (jint c) (jint (ww_clock w i + ttl))))
    = Inr (if cap \<le> c then Blocked
           else Admitted (window_text w (jint (c + 1)) (jint (ww_clock w i + ttl))))"
  using assms by (auto simp: window_step_def windows_parse_def wk_prop_def jprop_def window_live_def Let_def)

text \<open>The entry of the window in force: it counts at least the requests admitted since \<open>t0\<close>.\<close>

definition window_holds ::
  "'s worker_world \<Rightarrow> ('s worker_state \<Rightarrow> int \<Rightarrow> string \<Rightarrow> string option) \<Rightarrow> string \<Rightarrow> int \<Rightarrow> int \<Rightarrow> int
   \<Rightarrow> nat \<Rightarrow> 's worker_state \<Rightarrow> bool" where
  "window_holds w reads rk cap ttl t0 n st \<longleftrightarrow> t0 \<le> ww_clock w (wk_ticks st) \<and>
     ((n = 0 \<and> (\<forall>t \<ge> ww_clock w (wk_ticks st). reads st t rk = None))
      \<or> (\<exists>c i. 1 \<le> c \<and> int n \<le> c \<and> c \<le> cap \<and> t0 \<le> ww_clock w i
          \<and> (\<forall>t. ww_clock w (wk_ticks st) \<le> t \<and> t < t0 + ttl
              \<longrightarrow> reads st t rk = Some (window_text w (jint c) (jint (ww_clock w i + ttl))))))"

inductive limiter_run ::
  "'s worker_world \<Rightarrow> ('s worker_state \<Rightarrow> int \<Rightarrow> string \<Rightarrow> string option) \<Rightarrow> ('s, unit) wk \<Rightarrow> string
   \<Rightarrow> 's worker_state \<Rightarrow> nat \<Rightarrow> 's worker_state \<Rightarrow> bool"
  for w reads m rk st0 where
  Start: "limiter_run w reads m rk st0 0 st0"
| Call: "limiter_run w reads m rk st0 n st \<Longrightarrow> m st = (r, st')
    \<Longrightarrow> limiter_run w reads m rk st0 (if isl r then n else Suc n) st'"
| Other: "limiter_run w reads m rk st0 n st \<Longrightarrow> untouched w reads rk st st'
    \<Longrightarrow> limiter_run w reads m rk st0 n st'"

lemma window_attempt_clock:
  "wk_keeps clock_on on_block \<Longrightarrow> wk_keeps clock_on (window_attempt w mem rk cap ttl on_block message)"
  unfolding window_attempt_def
  by (intro clock_on.keeps_rules clock_on_basic clock_on_kv)
    (auto split: window_verdict.split intro!: clock_on.keeps_rules clock_on_basic clock_on_kv)

context worker_store
begin

lemma window_holds_untouched:
  assumes "window_holds w reads rk cap ttl t0 n st" and "untouched w reads rk st st'" and "mono (ww_clock w)"
  shows "window_holds w reads rk cap ttl t0 n st'"
proof -
  have le: "ww_clock w (wk_ticks st) \<le> ww_clock w (wk_ticks st')"
    using assms(2,3) by (simp add: untouched_def clock_on_def monoD)
  have same: "reads st' t rk = reads st t rk" if "ww_clock w (wk_ticks st') \<le> t" for t
    using assms(2,3) that by (simp add: untouched_def)
  show ?thesis
    using assms(1) le same unfolding window_holds_def by (smt (verit) order_trans)
qed

lemma window_holds_written:
  assumes k: "kv_write w mem rk (window_text w (jint c) (jint (ww_clock w i + ttl))) None (Some ttl) st = (r, st')"
    and old: "window_holds w reads rk cap ttl t0 n st" and m: "mono (ww_clock w)" and "0 < ttl"
    and c: "1 \<le> c" "int (Suc n) \<le> c" "c \<le> cap" "t0 \<le> ww_clock w i"
  shows "window_holds w reads rk cap ttl t0 (if isl r then n else Suc n) st'"
proof -
  have le: "ww_clock w (wk_ticks st) \<le> ww_clock w (wk_ticks st')"
    using wk_keepsD [OF clock_on_kv(2) k] m by (simp add: clock_on_def monoD)
  have lives: "kv_lives (ww_clock w (wk_ticks st)) None (Some ttl) t" if "t < t0 + ttl" for t
    using that old by (simp add: kv_lives_def window_holds_def)
  have new: "window_holds w reads rk cap ttl t0 n' st'"
    if "n' \<le> Suc n" "\<And>t. t < t0 + ttl \<Longrightarrow> reads st' t rk = Some (window_text w (jint c) (jint (ww_clock w i + ttl)))"
    for n'
    unfolding window_holds_def
  proof (intro conjI disjI2 exI [of _ c] exI [of _ i])
    show "int n' \<le> c" using that(1) c(2) by linarith
    show "t0 \<le> ww_clock w (wk_ticks st')" using le old by (simp add: window_holds_def)
  qed (use that c in auto)
  show ?thesis
  proof (cases r)
    case (Inr u)
    then show ?thesis using new [of "Suc n"] write_value [of rk _ _ _ st st'] k lives by simp
  next
    case (Inl e)
    from write_failed [OF k [unfolded Inl]] show ?thesis
    proof
      assume same: "\<forall>t \<ge> ww_clock w (wk_ticks st). reads st' t rk = reads st t rk"
      have "window_holds w reads rk cap ttl t0 n st'"
        using old le same unfolding window_holds_def by (smt (verit) order_trans)
      then show ?thesis using Inl by simp
    next
      assume "\<forall>t. kv_lives (ww_clock w (wk_ticks st)) None (Some ttl) t
        \<longrightarrow> reads st' t rk = Some (window_text w (jint c) (jint (ww_clock w i + ttl)))"
      then show ?thesis using new [of n] lives Inl by simp
    qed
  qed
qed

lemma window_attempt_holds:
  assumes a: "window_attempt w mem rk (Some cap) (Some ttl) on_block message st = (r, st')"
    and inv: "window_holds w reads rk cap ttl t0 n st"
    and late: "ww_clock w (wk_ticks st') < t0 + ttl"
    and m: "mono (ww_clock w)" and p: "windows_parse w cap ttl" and pos: "0 < ttl" "0 \<le> t0" "0 < cap"
    and b: "wk_keeps (untouched w reads rk) on_block"
  shows "window_holds w reads rk cap ttl t0 (if isl r then n else Suc n) st'"
proof -
  obtain r1 st1 where 1: "kv_read w mem rk st = (r1, st1)" by fastforce
  have u1: "untouched w reads rk st st1" by (rule wk_keepsD [OF untouched_kv(1) 1])
  have i1: "window_holds w reads rk cap ttl t0 n st1" by (rule window_holds_untouched [OF inv u1 m])
  show ?thesis
  proof (cases r1)
    case (Inl e)
    then show ?thesis using a 1 i1 by (auto simp: window_attempt_def wk_bind_def)
  next
    case (Inr raw)
    have raw: "raw = reads st (ww_clock w (wk_ticks st)) rk" by (rule read_value [OF 1 [unfolded Inr]])
    define now where "now = ww_clock w (wk_ticks st1)"
    define st2 where "st2 = st1\<lparr>wk_ticks := Suc (wk_ticks st1)\<rparr>"
    have u2: "untouched w reads rk st1 st2" by (rule untouched_tick) (simp_all add: st2_def clock_on_def)
    have i2: "window_holds w reads rk cap ttl t0 n st2" by (rule window_holds_untouched [OF i1 u2 m])
    have rest: "(case window_step w (Some cap) (Some ttl) now raw of
          Inl e \<Rightarrow> (Inl e, st2)
        | Inr Blocked \<Rightarrow> wk_bind on_block (\<lambda>_. wk_throw (WHttp 429 message)) st2
        | Inr (Admitted entry) \<Rightarrow> kv_write w mem rk entry None (Some ttl) st2) = (r, st')"
      using a 1 Inr by (simp add: window_attempt_def wk_bind_def now_seconds_def wk_tick_def now_def st2_def
          split: sum.splits window_verdict.splits)
    have now: "t0 \<le> now" using i1 by (simp add: window_holds_def now_def)
    from inv consider "n = 0" "raw = None"
      | c i where "1 \<le> c" "int n \<le> c" "c \<le> cap" "t0 \<le> ww_clock w i"
          "ww_clock w (wk_ticks st) < t0 + ttl \<Longrightarrow> raw = Some (window_text w (jint c) (jint (ww_clock w i + ttl)))"
      unfolding window_holds_def raw by (metis order_refl)
    then show ?thesis
    proof cases
      case 1
      then show ?thesis
        using rest window_holds_written [of rk 1 "wk_ticks st1" ttl st2 r st' cap t0 n] i2 m pos now
        by (simp add: window_step_fresh now_def)
    next
      case (2 c i)
      have "clock_on st2 st'"
      proof -
        have "clock_on st2 (snd (kv_write w mem rk entry None (Some ttl) st2))" for entry
          using clock_on_kv(2) [of w mem rk entry None "Some ttl"] by (simp add: wk_keeps_def)
        moreover have "clock_on st2 (snd ((wk_bind on_block (\<lambda>_. wk_throw (WHttp 429 message)) :: ('s, unit) wk) st2))"
        proof -
          have "wk_keeps clock_on on_block" using b by (auto simp: wk_keeps_def untouched_def)
          then have "wk_keeps clock_on (wk_bind on_block (\<lambda>_. wk_throw (WHttp 429 message)) :: ('s, unit) wk)"
            by (intro clock_on.keeps_rules)
          then show ?thesis by (simp add: wk_keeps_def)
        qed
        ultimately show ?thesis
          using rest clock_on.R_refl
          by (auto split: sum.splits window_verdict.splits) (metis snd_conv)+
      qed
      then have "now \<le> ww_clock w (wk_ticks st')"
        unfolding now_def by (intro monoD [OF m]) (simp add: clock_on_def st2_def)
      then have n1: "now < t0 + ttl" using late by simp
      have "ww_clock w (wk_ticks st) \<le> now"
        using u1 m by (simp add: now_def untouched_def clock_on_def monoD)
      then have raw': "raw = Some (window_text w (jint c) (jint (ww_clock w i + ttl)))" using 2(5) n1 by simp
      have step: "window_step w (Some cap) (Some ttl) now raw
        = Inr (if cap \<le> c then Blocked else Admitted (window_text w (jint (c + 1)) (jint (ww_clock w i + ttl))))"
        unfolding raw' using 2 n1 now pos by (intro window_step_live [OF p]) auto
      show ?thesis
      proof (cases "cap \<le> c")
        case True
        then have "wk_bind on_block (\<lambda>_. wk_throw (WHttp 429 message)) st2 = (r, st')" using rest step by simp
        moreover from this have "untouched w reads rk st2 st'"
          by (rule wk_keepsD [rotated]) (intro untouched_rules b)
        ultimately show ?thesis
          using window_holds_untouched [OF i2 _ m] by (auto simp: wk_bind_def split: prod.splits sum.splits)
      next
        case False
        then show ?thesis
          using rest step window_holds_written [of rk "c + 1" i ttl st2 r st' cap t0 n] i2 m pos 2 by simp
      qed
    qed
  qed
qed

lemma busy_retry_holds:
  assumes "busy_retry k (window_attempt w mem rk (Some cap) (Some ttl) on_block message) st = (r, st')"
    and "window_holds w reads rk cap ttl t0 n st" and "ww_clock w (wk_ticks st') < t0 + ttl"
    and m: "mono (ww_clock w)" and p: "windows_parse w cap ttl" and pos: "0 < ttl" "0 \<le> t0" "0 < cap"
    and b: "wk_keeps (untouched w reads rk) on_block"
  shows "window_holds w reads rk cap ttl t0 (if isl r then n else Suc n) st'"
  using assms(1-3)
proof (induction k arbitrary: st)
  case 0
  then show ?case using window_attempt_holds [OF _ _ _ m p pos b] by simp
next
  case (Suc k)
  let ?m = "window_attempt w mem rk (Some cap) (Some ttl) on_block message"
  obtain r1 st1 where 1: "?m st = (r1, st1)" by fastforce
  show ?case
  proof (cases "\<exists>e. r1 = Inl e \<and> is_sqlite_busy e")
    case True
    then obtain e where e: "r1 = Inl e" "is_sqlite_busy e" by blast
    with Suc.prems 1 have rest: "busy_retry k ?m st1 = (r, st')" by (simp add: wk_catch_def)
    have "wk_keeps clock_on on_block" using b by (auto simp: wk_keeps_def untouched_def)
    then have "wk_keeps clock_on (busy_retry k ?m)"
      by (intro clock_on.keeps_rules window_attempt_clock)
    from wk_keepsD [OF this rest] have "ww_clock w (wk_ticks st1) < t0 + ttl"
      using Suc.prems(3) m by (auto simp: clock_on_def dest: monoD)
    then have "window_holds w reads rk cap ttl t0 n st1"
      using window_attempt_holds [OF 1 Suc.prems(2) _ m p pos b] e by simp
    then show ?thesis by (rule Suc.IH [OF rest _ Suc.prems(3)])
  next
    case False
    then have "r1 = r" "st1 = st'" using Suc.prems(1) 1 by (auto simp: wk_catch_def split: sum.splits if_splits)
    then show ?thesis using window_attempt_holds [OF _ Suc.prems(2,3) m p pos b] 1 by simp
  qed
qed

lemma limiter_run_holds:
  assumes "limiter_run w reads (busy_retry k (window_attempt w mem rk (Some cap) (Some ttl) on_block message)) rk st0 n st"
    and "ww_clock w (wk_ticks st) < ww_clock w (wk_ticks st0) + ttl"
    and m: "mono (ww_clock w)" and p: "windows_parse w cap ttl"
    and pos: "0 < ttl" "0 \<le> ww_clock w (wk_ticks st0)" "0 < cap"
    and b: "wk_keeps (untouched w reads rk) on_block"
    and start: "\<And>t. ww_clock w (wk_ticks st0) \<le> t \<Longrightarrow> reads st0 t rk = None"
  shows "window_holds w reads rk cap ttl (ww_clock w (wk_ticks st0)) n st"
  using assms(1,2)
proof (induction)
  case Start
  then show ?case using start by (simp add: window_holds_def)
next
  case (Call n st r st')
  have "wk_keeps clock_on on_block" using b by (auto simp: wk_keeps_def untouched_def)
  then have "wk_keeps clock_on (busy_retry k (window_attempt w mem rk (Some cap) (Some ttl) on_block message))"
    by (intro clock_on.keeps_rules window_attempt_clock)
  from wk_keepsD [OF this Call.hyps(2)] have "ww_clock w (wk_ticks st) \<le> ww_clock w (wk_ticks st')"
    using m by (simp add: clock_on_def monoD)
  with Call show ?case using busy_retry_holds [OF Call.hyps(2) _ Call.prems m p pos b] by simp
next
  case (Other n st st')
  then have "ww_clock w (wk_ticks st) \<le> ww_clock w (wk_ticks st')"
    using m by (simp add: untouched_def clock_on_def monoD)
  with Other show ?case using window_holds_untouched [OF _ Other.hyps(2) m] by simp
qed

end

section \<open>A nonce is claimed once\<close>

text \<open>What a replay claim rests on: its marker in the namespace and the expiry in its Durable Object.\<close>

definition claim_untouched ::
  "'s worker_world \<Rightarrow> ('s worker_state \<Rightarrow> int \<Rightarrow> string \<Rightarrow> string option) \<Rightarrow> string
   \<Rightarrow> 's worker_state \<Rightarrow> 's worker_state \<Rightarrow> bool" where
  "claim_untouched w reads k st st' \<longleftrightarrow>
     untouched w reads k st st' \<and> map_of (wk_locks st') k = map_of (wk_locks st) k"

definition locks_same :: "'s worker_state \<Rightarrow> 's worker_state \<Rightarrow> bool" where
  "locks_same st st' \<longleftrightarrow> wk_locks st' = wk_locks st"

interpretation locks_same: state_relation locks_same
  by unfold_locales (auto simp: locks_same_def)

lemma locks_same_basic:
  "wk_keeps locks_same (wk_inc_by name n)" "wk_keeps locks_same (wk_inc name)" "wk_keeps locks_same (wk_gauge name n)"
  "wk_keeps locks_same (now_seconds w)" "wk_keeps locks_same (random_id w p)"
  "wk_keeps locks_same (kv_read w mem k)" "wk_keeps locks_same (kv_write w mem k v e ttl)"
  "wk_keeps locks_same (kv_remove w mem k)" "wk_keeps locks_same (kv_keys w mem p l c)"
  by (auto simp: wk_keeps_def locks_same_def wk_inc_by_def wk_inc_def wk_gauge_def now_seconds_def
      random_id_def wk_tick_def kv_read_def kv_write_def kv_remove_def kv_keys_def kv_call_def
      wk_bind_def split: prod.split sum.split option.split)

text \<open>What \<open>JSON.parse\<close> makes of the body of a claim.\<close>

definition lock_body_parses :: "'s worker_world \<Rightarrow> int \<Rightarrow> bool" where
  "lock_body_parses w ttl \<longleftrightarrow>
     ww_parse w (json_stringify (ww_show w) (JObj [(''ttl'', jint ttl)])) = Inr (JObj [(''ttl'', jint ttl)])"

lemma lock_ttl_claim:
  "lock_body_parses w ttl \<Longrightarrow> 0 < ttl
   \<Longrightarrow> lock_ttl w (json_stringify (ww_show w) (JObj [(''ttl'', jint ttl)])) = min 86400 ttl"
  by (simp add: lock_ttl_def lock_body_parses_def wk_opt_def wk_prop_def jprop_def jint_def)

lemma lock_call_claim:
  assumes "lock_call w k ''/claim'' body st = (Inr s, st')" and "status_ok s" and "ww_lock_fault w (wk_ticks st) = None"
  shows "map_of (wk_locks st') k = Some (ww_clock w (wk_ticks st) + lock_ttl w body)"
    and "\<And>x. map_of (wk_locks st) k = Some x \<Longrightarrow> x \<le> ww_clock w (wk_ticks st)"
    and "wk_ticks st' = Suc (wk_ticks st)" "wk_memory st' = wk_memory st" "wk_store st' = wk_store st"
  using assms
  by (auto simp: lock_call_def wk_bind_def wk_tick_def lock_fetch_def status_ok_def Let_def update_conv'
      split: option.splits if_splits)

lemma claim_replay_key_state:
  "claim_replay_key w k ttl st = (r, st') \<Longrightarrow> wk_memory st' = wk_memory st \<and> wk_store st' = wk_store st
   \<and> wk_locks st' = wk_locks st \<and> wk_ticks st' = Suc (wk_ticks st)"
  by (auto simp: claim_replay_key_def wk_bind_def now_seconds_def wk_tick_def Let_def split: if_splits)

lemma check_replay_Inr:
  assumes "check_replay w env s n st = (Inr (), st')"
  obtains ttl st1 st2 where "replay_window w env = Inr ttl" "wk_memory st1 = wk_memory st" "wk_store st1 = wk_store st"
    "wk_locks st1 = wk_locks st" "wk_ticks st1 = Suc (wk_ticks st)"
    "claim_and_mark w env (replay_marker_key s n) ttl st1 = (Inr (), st2)"
    "wk_memory st' = wk_memory st2" "wk_store st' = wk_store st2" "wk_locks st' = wk_locks st2" "wk_ticks st' = wk_ticks st2"
proof -
  from assms obtain ttl st1 where t: "replay_window w env = Inr ttl"
    and k: "claim_replay_key w (replay_marker_key s n) ttl st = (Inr (), st1)"
    and f: "wk_finally (claim_and_mark w env (replay_marker_key s n) ttl)
      (\<lambda>st. st\<lparr>wk_claims := AList.delete (replay_marker_key s n) (wk_claims st)\<rparr>) st1 = (Inr (), st')"
    unfolding check_replay_def by (auto simp: wk_bind_Inr Let_def)
  obtain r st2 where c: "claim_and_mark w env (replay_marker_key s n) ttl st1 = (r, st2)" by fastforce
  then have "r = Inr ()" "st' = st2\<lparr>wk_claims := AList.delete (replay_marker_key s n) (wk_claims st2)\<rparr>"
    using f by (simp_all add: wk_finally_def)
  with that [OF t _ _ _ _ c [unfolded \<open>r = Inr ()\<close>]] claim_replay_key_state [OF k] show ?thesis by simp
qed

context worker_store
begin

lemma claim_untouched_relation: "state_relation (claim_untouched w reads k)"
proof
  show "claim_untouched w reads k st st" for st
    by (simp add: claim_untouched_def state_relation.R_refl [OF untouched_relation])
  show "claim_untouched w reads k a b \<Longrightarrow> claim_untouched w reads k b c \<Longrightarrow> claim_untouched w reads k a c" for a b c
    by (auto simp: claim_untouched_def intro: state_relation.R_trans [OF untouched_relation])
qed

lemma claim_untouched_kv:
  assumes "wk_keeps (untouched w reads k) m" and "wk_keeps locks_same m"
  shows "wk_keeps (claim_untouched w reads k) m"
  using assms by (auto simp: wk_keeps_def claim_untouched_def locks_same_def)

lemmas claim_untouched_rules = state_relation.keeps_rules [OF claim_untouched_relation]
  untouched_basic(1) [THEN claim_untouched_kv, OF locks_same_basic(1)]
  untouched_basic(2) [THEN claim_untouched_kv, OF locks_same_basic(2)]
  untouched_basic(3) [THEN claim_untouched_kv, OF locks_same_basic(3)]
  untouched_basic(4) [THEN claim_untouched_kv, OF locks_same_basic(4)]
  untouched_kv(1) [THEN claim_untouched_kv, OF locks_same_basic(6)]
  untouched_kv(3) [THEN claim_untouched_kv, OF _ locks_same_basic(7)]
  untouched_kv(4) [THEN claim_untouched_kv, OF _ locks_same_basic(8)]
  untouched_kv(2) [THEN claim_untouched_kv, OF locks_same_basic(9)]

text \<open>The marker that stays readable until a time.\<close>

definition marked :: "string \<Rightarrow> int \<Rightarrow> 's worker_state \<Rightarrow> bool" where
  "marked k bound st \<longleftrightarrow> (\<forall>t. ww_clock w (wk_ticks st) \<le> t \<and> t < bound \<longrightarrow> reads st t k = Some ''1'')"

lemma clock_mono: "mono (ww_clock w) \<Longrightarrow> clock_on st st' \<Longrightarrow> ww_clock w (wk_ticks st) \<le> ww_clock w (wk_ticks st')"
  by (simp add: clock_on_def monoD)

lemma untouched_clock: "untouched w reads k st st' \<Longrightarrow> clock_on st st'"
  by (simp add: untouched_def)

lemma marked_untouched:
  assumes "marked k bound st" and "untouched w reads k st st'" and m: "mono (ww_clock w)"
  shows "marked k bound st'"
  unfolding marked_def
proof (intro allI impI)
  fix t assume t: "ww_clock w (wk_ticks st') \<le> t \<and> t < bound"
  then have "ww_clock w (wk_ticks st) \<le> t" using clock_mono [OF m untouched_clock [OF assms(2)]] by simp
  with t assms show "reads st' t k = Some ''1''" by (simp add: marked_def untouched_def)
qed

lemma busy_retry_Inr:
  assumes "wk_keeps clock_on m" and "busy_retry n m st = (Inr x, st')"
  shows "\<exists>st0. clock_on st st0 \<and> m st0 = (Inr x, st')"
  using assms(2)
proof (induction n arbitrary: st)
  case 0
  then show ?case by (intro exI [of _ st]) (simp add: clock_on_def)
next
  case (Suc n)
  then consider "m st = (Inr x, st')" | e st1 where "m st = (Inl e, st1)" "busy_retry n m st1 = (Inr x, st')"
    by (auto simp: wk_catch_Inr split: if_splits)
  then show ?case
  proof cases
    case 1
    then show ?thesis by (intro exI [of _ st]) (simp add: clock_on_def)
  next
    case 2
    from Suc.IH [OF 2(2)] obtain st0 where "clock_on st1 st0" "m st0 = (Inr x, st')" by blast
    with wk_keepsD [OF assms(1) 2(1)] show ?thesis by (auto simp: clock_on_def intro!: exI [of _ st0])
  qed
qed

lemma write_marks:
  assumes "kv_write w mem k ''1'' None (Some ttl) st = (Inr (), st')" and "0 < ttl"
    and "start \<le> ww_clock w (wk_ticks st)"
  shows "marked k (start + ttl) st'"
  using assms write_value [OF assms(1)] by (auto simp: marked_def kv_lives_def)

lemma replay_attempt_clock: "wk_keeps clock_on (replay_attempt w mem k ttl)"
  unfolding replay_attempt_def
  by (auto intro!: clock_on.keeps_rules clock_on_basic clock_on_kv)

lemma replay_attempt_marks:
  assumes a: "replay_attempt w mem k ttl st = (Inr (), st')" and m: "mono (ww_clock w)" and "0 < ttl"
  shows "marked k (ww_clock w (wk_ticks st) + ttl) st'"
proof -
  from a obtain st1 st2 st3 i raw owned where s: "kv_read w mem k st = (Inr raw, st1)"
    "random_id w ''replay'' st1 = (Inr i, st2)"
    "wk_bind (kv_write w mem k (''claim:'' @ i) None (Some ttl)) (\<lambda>_. kv_read w mem k) st2 = (Inr owned, st3)"
    and w: "kv_write w mem k ''1'' None (Some ttl) st3 = (Inr (), st')"
    unfolding replay_attempt_def by (fastforce simp: wk_bind_Inr split: if_splits)
  have "wk_keeps clock_on (wk_bind (kv_write w mem k (''claim:'' @ i) None (Some ttl)) (\<lambda>_. kv_read w mem k))"
    by (intro clock_on.keeps_rules clock_on_kv)
  from wk_keepsD [OF this s(3)] wk_keepsD [OF clock_on_kv(1) s(1)] wk_keepsD [OF clock_on_basic(5) s(2)]
  have c: "clock_on st st3" by (simp add: clock_on_def)
  show ?thesis using write_marks [OF w \<open>0 < ttl\<close>] clock_mono [OF m c] by blast
qed

lemma replay_attempt_refused:
  assumes "marked k bound st" and "ww_clock w (wk_ticks st) < bound"
    and "replay_attempt w mem k ttl st = (r, st')"
  shows "isl r \<and> untouched w reads k st st'"
proof -
  obtain r1 st1 where 1: "kv_read w mem k st = (r1, st1)" by fastforce
  have u: "untouched w reads k st st1" by (rule wk_keepsD [OF untouched_kv(1) 1])
  show ?thesis
  proof (cases r1)
    case (Inl e)
    then show ?thesis using assms(3) 1 u by (auto simp: replay_attempt_def wk_bind_def)
  next
    case (Inr raw)
    then have "raw = Some ''1''" using read_value [OF 1 [unfolded Inr]] assms(1,2) by (simp add: marked_def)
    then show ?thesis using assms(3) 1 u Inr by (auto simp: replay_attempt_def wk_bind_def)
  qed
qed

lemma replay_retry_refused:
  assumes "marked k bound st" and "busy_retry n (replay_attempt w mem k ttl) st = (r, st')"
    and "ww_clock w (wk_ticks st') < bound" and m: "mono (ww_clock w)"
  shows "isl r"
  using assms(1-3)
proof (induction n arbitrary: st)
  case 0
  have "ww_clock w (wk_ticks st) < bound"
    using clock_mono [OF m wk_keepsD [OF replay_attempt_clock]] 0 by fastforce
  with replay_attempt_refused [of k bound st ttl r st'] 0 show ?case by simp
next
  case (Suc n)
  let ?m = "replay_attempt w mem k ttl"
  obtain r1 st1 where 1: "?m st = (r1, st1)" by fastforce
  have "clock_on st st'"
    using wk_keepsD [OF clock_on.keeps_retry [OF replay_attempt_clock] Suc.prems(2)] .
  then have b: "ww_clock w (wk_ticks st) < bound" using clock_mono [OF m] Suc.prems(3) by fastforce
  from replay_attempt_refused [OF Suc.prems(1) b 1] obtain e where e: "r1 = Inl e" "untouched w reads k st st1"
    by (auto simp: isl_def)
  show ?case
  proof (cases "is_sqlite_busy e")
    case True
    then have "busy_retry n ?m st1 = (r, st')" using Suc.prems(2) 1 e by (simp add: wk_catch_def)
    from Suc.IH [OF marked_untouched [OF Suc.prems(1) e(2) m] this Suc.prems(3)] show ?thesis .
  next
    case False
    then show ?thesis using Suc.prems(2) 1 e by (auto simp: wk_catch_def)
  qed
qed

text \<open>What a claim that succeeded leaves behind, in either mode, and what it then refuses.\<close>

definition claimed :: "jobj \<Rightarrow> string \<Rightarrow> int \<Rightarrow> 's worker_state \<Rightarrow> bool" where
  "claimed env k bound st \<longleftrightarrow>
     (if truthy (jprop env ''REPLAY_LOCKS'') then (\<exists>x. map_of (wk_locks st) k = Some x \<and> bound \<le> x)
      else marked k bound st)"

lemma claimed_untouched:
  assumes "claimed env k bound st" and "claim_untouched w reads k st st'" and "mono (ww_clock w)"
  shows "claimed env k bound st'"
  using assms marked_untouched by (auto simp: claimed_def claim_untouched_def)

lemma claimed_cong:
  assumes "claimed env k bound st" and "wk_memory st' = wk_memory st" "wk_store st' = wk_store st"
    "wk_locks st' = wk_locks st" "wk_ticks st \<le> wk_ticks st'" and m: "mono (ww_clock w)"
  shows "claimed env k bound st'"
proof -
  have "untouched w reads k st st'" using assms by (intro untouched_tick) (auto simp: clock_on_def)
  then show ?thesis using claimed_untouched [OF assms(1) _ m] assms(4) by (simp add: claim_untouched_def)
qed

lemma claim_and_mark_claims:
  assumes c: "claim_and_mark w env k ttl st = (Inr (), st')" and mode: "mem = memory_mode w env"
    and m: "mono (ww_clock w)" and ttl: "0 < ttl" "ttl \<le> 86400"
    and f: "\<And>n s. ww_lock_fault w n = Some (LockStatus s) \<Longrightarrow> \<not> status_ok s" and p: "lock_body_parses w ttl"
  shows "claimed env k (ww_clock w (wk_ticks st) + ttl) st'"
proof (cases "truthy (jprop env ''REPLAY_LOCKS'')")
  case True
  let ?body = "json_stringify (ww_show w) (JObj [(''ttl'', jint ttl)])"
  from c True obtain st1 where 1: "check_replay_with_durable_object w env k ttl st = (Inr (), st1)"
    and 2: "persist_replay_marker w env k ttl st1 = (Inr (), st')"
    by (auto simp: claim_and_mark_def wk_bind_Inr wk_catch_Inr)
  from 1 True obtain s where s: "lock_call w k ''/claim'' ?body st = (Inr s, st1)" "status_ok s"
    by (auto simp: check_replay_with_durable_object_def wk_bind_Inr split: if_splits)
  have "ww_lock_fault w (wk_ticks st) = None"
    using s f [of "wk_ticks st"] by (auto simp: lock_call_def wk_bind_def wk_tick_def split: option.splits lock_fault.splits)
  from lock_call_claim(1) [OF s this] have "map_of (wk_locks st1) k = Some (ww_clock w (wk_ticks st) + ttl)"
    using lock_ttl_claim [OF p ttl(1)] ttl by simp
  moreover have "wk_locks st' = wk_locks st1"
    using wk_keepsD [OF locks_same.keeps_retry [OF locks_same_basic(7)] 2 [unfolded persist_replay_marker_def]]
    by (simp add: locks_same_def)
  ultimately show ?thesis using True by (simp add: claimed_def)
next
  case False
  then have "busy_retry 2 (replay_attempt w mem k ttl) st = (Inr (), st')"
    using c mode by (auto simp: claim_and_mark_def split: if_splits)
  from busy_retry_Inr [OF replay_attempt_clock this] obtain st0
    where 0: "clock_on st st0" "replay_attempt w mem k ttl st0 = (Inr (), st')" by blast
  have "marked k (ww_clock w (wk_ticks st0) + ttl) st'" by (rule replay_attempt_marks [OF 0(2) m ttl(1)])
  then show ?thesis using clock_mono [OF m 0(1)] False by (auto simp: claimed_def marked_def)
qed

lemma claim_and_mark_refused:
  assumes c: "claim_and_mark w env k ttl st = (r, st')" and mode: "mem = memory_mode w env"
    and cl: "claimed env k bound st" and late: "ww_clock w (wk_ticks st') < bound" and m: "mono (ww_clock w)"
    and ticks: "clock_on st st'"
    and f: "\<And>n s. ww_lock_fault w n = Some (LockStatus s) \<Longrightarrow> \<not> status_ok s"
  shows "isl r"
proof (cases "truthy (jprop env ''REPLAY_LOCKS'')")
  case True
  let ?body = "json_stringify (ww_show w) (JObj [(''ttl'', jint ttl)])"
  have now: "ww_clock w (wk_ticks st) < bound" using clock_mono [OF m ticks] late by simp
  obtain r1 st1 where 1: "check_replay_with_durable_object w env k ttl st = (r1, st1)" by fastforce
  have "isl r1"
  proof (rule ccontr)
    assume "\<not> isl r1"
    then have "r1 = Inr ()" by (cases r1) auto
    then obtain s where s: "lock_call w k ''/claim'' ?body st = (Inr s, st1)" "status_ok s"
      using 1 True by (auto simp: check_replay_with_durable_object_def wk_bind_Inr split: if_splits)
    have "ww_lock_fault w (wk_ticks st) = None"
      using s f [of "wk_ticks st"] by (auto simp: lock_call_def wk_bind_def wk_tick_def split: option.splits lock_fault.splits)
    from lock_call_claim(2) [OF s this] show False using cl True now by (fastforce simp: claimed_def)
  qed
  then show ?thesis using c 1 True by (auto simp: claim_and_mark_def wk_bind_def split: sum.splits)
next
  case False
  then consider "r = Inl (WHttp 500 ''missing_replay_lock_binding'')"
    | "busy_retry 2 (replay_attempt w mem k ttl) st = (r, st')"
    using c mode by (auto simp: claim_and_mark_def split: if_splits)
  then show ?thesis
  proof cases
    case 2
    then show ?thesis using replay_retry_refused [OF _ 2 late m] cl False by (simp add: claimed_def)
  qed simp
qed

end

section \<open>Properties\<close>


definition demo_limit_env :: jobj where
  "demo_limit_env = [(''TEST_IN_MEMORY_KV'', JStr ''1''), (''RATE_LIMIT_MAX'', JStr ''1''), (''RATE_LIMIT_WINDOW'', JStr ''60'')]"

definition demo_window :: jsval where
  "demo_window = JObj [(''count'', jint 1), (''reset'', jint 1065)]"

definition demo_limit_world :: "unit worker_world" where
  "demo_limit_world = demo_worker_world (\<lambda>s.
     if s = json_stringify show_ratio demo_window then Inr demo_window else Inl ''SyntaxError'')"

definition demo_client :: worker_request where
  "demo_client = \<lparr>wq_method = ''POST'', wq_path = [''inbox''],
     wq_headers = (\<lambda>h. if h = ''cf-connecting-ip'' then Some ''10.0.0.1'' else None), wq_body = []\<rparr>"


end
