(* ===== verification/WorkerInbox.thy ===== *)
theory WorkerInbox
  imports WorkerGuards
begin

text \<open>
  The inbox of the secrets worker (\<open>src/workers/secrets-worker/src/index.ts\<close>): storing an item, reading it
  once, forgetting a subject, the scheduled janitor, and the metrics route. Work handed to
  \<open>waitUntil\<close> runs where it is registered, and its errors are dropped.
\<close>

section \<open>Signatures\<close>

definition verify_inbox_signature :: "'s worker_world \<Rightarrow> jobj \<Rightarrow> worker_request \<Rightarrow> string \<Rightarrow> worker_error + unit" where
  "verify_inbox_signature w env rq body =
     (let secret = jprop env ''INBOX_HMAC_SECRET'';
          optional = (jprop env ''INBOX_HMAC_OPTIONAL'' = JStr ''1'')
      in Prelude.sum_bind (require_secret w env ''INBOX_HMAC_SECRET'' ''missing_inbox_hmac_secret'') (\<lambda>_.
         if \<not> truthy secret then Inr ()
         else
           let sig = wq_header rq ''x-signature'' in
           if sig = [] then (if optional then Inr () else Inl (WHttp 401 ''missing_signature''))
           else if signature_valid w (wk_text w secret) sig body then Inr ()
           else Inl (WHttp 401 ''invalid_signature'')))"

section \<open>Storing an item\<close>

definition inbox_ttl_hard_max_seconds :: int where
  "inbox_ttl_hard_max_seconds = 86400"

definition ttl_seconds :: "'s worker_world \<Rightarrow> jobj \<Rightarrow> jsval \<Rightarrow> jsval" where
  "ttl_seconds w env req =
     (let def_ttl = JNum (jn_of (env_int w env [''INBOX_TTL_DEFAULT''] ''3600''));
          max_ttl = min inbox_ttl_hard_max_seconds
            (case env_int w env [''INBOX_TTL_MAX''] ''86400'' of
               Some n \<Rightarrow> if js_finite n \<and> n > 0 then n else inbox_ttl_hard_max_seconds
             | None \<Rightarrow> inbox_ttl_hard_max_seconds);
          ttl0 = js_or req def_ttl;
          ttl1 = (if jn_less (wk_number w ttl0) (Fin 60) then jint 60 else ttl0)
      in if jn_less (Fin (of_int max_ttl)) (wk_number w ttl1) then jint max_ttl else ttl1)"

definition inbox_key :: "string \<Rightarrow> string \<Rightarrow> string" where
  "inbox_key subject nonce = subject @ '':'' @ nonce"

definition inbox_fields :: "jsval \<Rightarrow> worker_error + (jsval \<times> jsval \<times> jsval)" where
  "inbox_fields body =
     (case (wk_prop body ''subject'', wk_prop body ''nonce'', wk_prop body ''payload'') of
        (Some s, Some n, Some p) \<Rightarrow>
          if \<not> truthy s \<or> \<not> truthy n \<or> \<not> truthy p then Inl (WHttp 400 ''missing_fields'') else Inr (s, n, p)
      | _ \<Rightarrow> Inl type_error)"

text \<open>\<open>JSON.parse(raw || '{}')\<close>\<close>

definition parse_raw_body :: "'s worker_world \<Rightarrow> string \<Rightarrow> worker_error + jsval" where
  "parse_raw_body w raw =
     (if raw = [] then Inr (JObj [])
      else (case ww_parse w raw of Inl _ \<Rightarrow> Inl (WHttp 400 ''invalid_json'') | Inr v \<Rightarrow> Inr v))"

definition item_text :: "'s worker_world \<Rightarrow> jsval \<Rightarrow> jsval \<Rightarrow> string" where
  "item_text w payload x = json_stringify (ww_show w) (JObj [(''payload'', payload), (''exp'', x)])"

definition checked_replay :: "'s worker_world \<Rightarrow> jobj \<Rightarrow> string \<Rightarrow> string \<Rightarrow> ('s, unit) wk" where
  "checked_replay w env subject nonce =
     wk_catch (check_replay w env subject nonce) (\<lambda>e.
       wk_bind (wk_inc ''worker_inbox_replay_total'') (\<lambda>_. wk_throw e))"

definition store_item ::
  "'s worker_world \<Rightarrow> jobj \<Rightarrow> string \<Rightarrow> string \<Rightarrow> jsval \<Rightarrow> jsval \<Rightarrow> ('s, worker_reply) wk" where
  "store_item w env subject nonce payload req_ttl =
     wk_bind (now_seconds w) (\<lambda>now.
       let x = js_add w (jint now) (ttl_seconds w env req_ttl) in
       wk_bind (kv_write w (memory_mode w env) (inbox_key subject nonce) (item_text w payload x)
         (expiration_of w x) None) (\<lambda>_.
       wk_bind (wk_inc ''worker_inbox_put_total'') (\<lambda>_.
       json_reply [(''status'', JStr ''OK''), (''exp'', x)] 201)))"

definition handle_inbox_post :: "'s worker_world \<Rightarrow> jobj \<Rightarrow> worker_request \<Rightarrow> ('s, worker_reply) wk" where
  "handle_inbox_post w env rq =
     wk_bind (wk_lift (verify_inbox_signature w env rq (wq_body rq))) (\<lambda>_.
     wk_bind (wk_lift (parse_raw_body w (wq_body rq))) (\<lambda>body.
     wk_bind (wk_lift (inbox_fields body)) (\<lambda>(s, n, payload).
       let subject = wk_text w s; nonce = wk_text w n in
       wk_bind (rate_limit w env rq) (\<lambda>_.
       wk_bind (subject_spray_guard w env (client_ip rq) subject) (\<lambda>_.
       wk_bind (checked_replay w env subject nonce) (\<lambda>_.
       wk_bind (wk_lift (validate_payload_size w env payload)) (\<lambda>_.
       wk_bind (current_subject_count w env subject) (\<lambda>cnt.
       wk_bind (wk_lift (subject_limit w env cnt)) (\<lambda>_.
       store_item w env subject nonce payload (wk_opt body ''ttlSeconds''))))))))))"

section \<open>Reading an item\<close>

definition handle_inbox_get ::
  "'s worker_world \<Rightarrow> jobj \<Rightarrow> worker_request \<Rightarrow> string \<Rightarrow> string \<Rightarrow> ('s, worker_reply) wk" where
  "handle_inbox_get w env rq subj nonce =
     (let mem = memory_mode w env in
      wk_bind (wk_lift (require_read_token env rq)) (\<lambda>_.
      wk_bind (rate_limit w env rq) (\<lambda>_.
      wk_bind (kv_read w mem (inbox_key subj nonce)) (\<lambda>raw.
        if raw = None \<or> raw = Some [] then wk_throw (WHttp 404 ''not_found'')
        else (case ww_parse w (the raw) of
            Inl _ \<Rightarrow> wk_throw (WHttp 500 ''inbox_item_corrupt'')
          | Inr item \<Rightarrow>
              wk_bind (kv_remove w mem (inbox_key subj nonce)) (\<lambda>_.
              wk_bind (wk_inc ''worker_inbox_get_total'') (\<lambda>_.
              wk_bind (wk_get_prop item ''payload'') (\<lambda>payload.
              wk_bind (wk_get_prop item ''exp'') (\<lambda>x.
              json_reply [(''status'', JStr ''OK''), (''payload'', payload), (''exp'', x)] 200)))))))))"

section \<open>Forgetting a subject\<close>

definition in_background :: "('s, unit) wk \<Rightarrow> ('s, unit) wk" where
  "in_background m = wk_catch m (\<lambda>_. wk_return ())"

definition delete_keys :: "'s worker_world \<Rightarrow> jobj \<Rightarrow> string list \<Rightarrow> ('s, unit) wk" where
  "delete_keys w env ks =
     wk_each (\<lambda>k. if ww_can_wait w then in_background (kv_remove w (memory_mode w env) k)
       else kv_remove w (memory_mode w env) k) ks"

definition forget_replay_locks :: "'s worker_world \<Rightarrow> jobj \<Rightarrow> string list \<Rightarrow> ('s, unit) wk" where
  "forget_replay_locks w env ks =
     (if \<not> truthy (jprop env ''REPLAY_LOCKS'') then wk_return ()
      else wk_each (\<lambda>k. wk_catch (clear_replay_with_durable_object w env k)
        (\<lambda>_. wk_inc ''worker_forget_replay_lock_error_total'')) ks)"

definition forget_limit :: "int option \<Rightarrow> int" where
  "forget_limit max_keys = (case max_keys of Some n \<Rightarrow> n + 1 | None \<Rightarrow> 0)"

definition forget_over :: "int option \<Rightarrow> string list \<Rightarrow> bool" where
  "forget_over max_keys ks \<longleftrightarrow> (case max_keys of Some n \<Rightarrow> int (length ks) > n | None \<Rightarrow> False)"

definition forget_slice :: "int option \<Rightarrow> bool \<Rightarrow> string list \<Rightarrow> string list" where
  "forget_slice max_keys overflow ks = (if overflow then js_slice 0 (case_option 0 id max_keys) ks else ks)"

definition forget_listed ::
  "'s worker_world \<Rightarrow> jobj \<Rightarrow> int option \<Rightarrow> string list \<Rightarrow> string list \<Rightarrow> ('s, worker_reply) wk" where
  "forget_listed w env max_keys listed replay_listed =
     (let overflow = forget_over max_keys listed \<or> forget_over max_keys replay_listed;
          inbox_keys = forget_slice max_keys overflow listed;
          replay_keys = forget_slice max_keys overflow replay_listed;
          deleted = int (length inbox_keys);
          replay_deleted = int (length replay_keys)
      in wk_bind (delete_keys w env inbox_keys) (\<lambda>_.
         wk_bind (delete_keys w env replay_keys) (\<lambda>_.
         wk_bind (forget_replay_locks w env replay_keys) (\<lambda>_.
         wk_bind (wk_inc_by ''worker_forget_deleted_total'' deleted) (\<lambda>_.
         wk_bind (wk_inc_by ''worker_forget_replay_deleted_total'' replay_deleted) (\<lambda>_.
           if overflow then
             json_reply [(''status'', JStr ''error''), (''message'', JStr ''forget_too_many_keys''),
               (''deleted'', jint deleted), (''replayDeleted'', jint replay_deleted)] 429
           else
             json_reply [(''status'', JStr ''OK''), (''deleted'', jint deleted),
               (''replayDeleted'', jint replay_deleted)] 200))))))"

definition forget_subject :: "'s worker_world \<Rightarrow> jobj \<Rightarrow> string \<Rightarrow> ('s, worker_reply) wk" where
  "forget_subject w env subject =
     (let mem = memory_mode w env;
          max_keys = env_int w env [''FORGET_MAX_KEYS''] ''500'';
          limit = Some (forget_limit max_keys)
      in wk_bind (kv_keys w mem (subject @ '':'') limit None) (\<lambda>page.
         wk_bind (kv_keys w mem (''replay:'' @ subject @ '':'') limit None) (\<lambda>replay_page.
         forget_listed w env max_keys (sp_keys page) (sp_keys replay_page))))"

definition handle_forget_post :: "'s worker_world \<Rightarrow> jobj \<Rightarrow> worker_request \<Rightarrow> ('s, worker_reply) wk" where
  "handle_forget_post w env rq =
     wk_bind (wk_lift (require_forget_token env rq)) (\<lambda>_.
     wk_bind (wk_lift (json_body w rq ''invalid_json'')) (\<lambda>body.
     wk_bind (wk_get_prop body ''subject'') (\<lambda>subject.
       if \<not> truthy subject then wk_throw (WHttp 400 ''missing_subject'')
       else forget_subject w env (wk_text w subject))))"

section \<open>The janitor\<close>

text \<open>\<open>scheduled\<close> walks the pages of two prefixes and deletes what has run out or cannot be read. Each
  page of a prefix costs one unit of fuel.\<close>

datatype janitor_end = PrefixDone int | CapReached | OutOfFuel

definition janitor_stale :: "'s worker_world \<Rightarrow> int \<Rightarrow> string \<Rightarrow> bool" where
  "janitor_stale w now raw =
     (case ww_parse w raw of
        Inl _ \<Rightarrow> True
      | Inr item \<Rightarrow>
          (case wk_prop item ''exp'' of
             None \<Rightarrow> True
           | Some x \<Rightarrow> truthy x \<and> jn_less (wk_number w x) (Fin (of_int now))))"

definition over_cap :: "int option \<Rightarrow> int \<Rightarrow> bool" where
  "over_cap cap processed \<longleftrightarrow> (case cap of Some n \<Rightarrow> processed > n | None \<Rightarrow> False)"

text \<open>One page; \<^term>\<open>Inl\<close> where the cap is reached, else the numbers processed and deleted.\<close>

fun janitor_page ::
  "'s worker_world \<Rightarrow> bool \<Rightarrow> int option \<Rightarrow> int \<Rightarrow> string list \<Rightarrow> int \<Rightarrow> int \<Rightarrow> ('s, unit + (int \<times> int)) wk" where
  "janitor_page w mem cap now [] processed deleted = wk_return (Inr (processed, deleted))"
| "janitor_page w mem cap now (k # ks) processed deleted =
     (if over_cap cap (processed + 1) then wk_return (Inl ())
      else wk_bind (kv_read w mem k) (\<lambda>raw.
        if raw = None \<or> raw = Some [] then janitor_page w mem cap now ks (processed + 1) deleted
        else if janitor_stale w now (the raw) then
          wk_bind (in_background (kv_remove w mem k)) (\<lambda>_.
          janitor_page w mem cap now ks (processed + 1) (deleted + 1))
        else janitor_page w mem cap now ks (processed + 1) deleted))"

fun janitor_pages ::
  "nat \<Rightarrow> 's worker_world \<Rightarrow> bool \<Rightarrow> int option \<Rightarrow> int \<Rightarrow> string \<Rightarrow> string option \<Rightarrow> int \<Rightarrow> int \<Rightarrow> ('s, janitor_end) wk" where
  "janitor_pages 0 w mem cap now pfx cursor processed deleted = wk_return OutOfFuel"
| "janitor_pages (Suc fuel) w mem cap now pfx cursor processed deleted =
     wk_bind (kv_keys w mem pfx (Some 1000) cursor) (\<lambda>page.
     wk_bind (janitor_page w mem cap now (sp_keys page) processed deleted) (\<lambda>r.
       case r of
         Inl _ \<Rightarrow> wk_return CapReached
       | Inr (processed', deleted') \<Rightarrow>
           if sp_complete page \<or> sp_cursor page = None \<or> sp_cursor page = Some []
           then wk_return (PrefixDone deleted')
           else janitor_pages fuel w mem cap now pfx (sp_cursor page) processed' deleted'))"

definition handle_scheduled :: "nat \<Rightarrow> 's worker_world \<Rightarrow> jobj \<Rightarrow> ('s, janitor_end) wk" where
  "handle_scheduled fuel w env =
     (if jprop env ''DISABLE_JANITOR'' = JStr ''1'' then wk_return (PrefixDone 0)
      else
        let mem = use_memory_kv env; cap = env_int w env [''MAX_JANITOR_KEYS''] ''2000'' in
        wk_bind (now_seconds w) (\<lambda>now.
        wk_bind (janitor_pages fuel w mem cap now [] None 0 0) (\<lambda>r1.
          case r1 of
            PrefixDone d1 \<Rightarrow>
              wk_bind (janitor_pages fuel w mem cap now ''replay:'' None 0 d1) (\<lambda>r2.
                case r2 of
                  PrefixDone d2 \<Rightarrow>
                    wk_bind (wk_when (d2 > 0) (wk_inc_by ''worker_inbox_expired_total'' d2)) (\<lambda>_.
                    wk_return (PrefixDone d2))
                | stop \<Rightarrow> wk_return stop)
          | stop \<Rightarrow> wk_return stop)))"

section \<open>Metrics\<close>

definition env_string :: "jobj \<Rightarrow> string \<Rightarrow> string" where
  "env_string env k = (case jprop env k of JStr s \<Rightarrow> s | _ \<Rightarrow> [])"

definition basic_auth_ok :: "'s worker_world \<Rightarrow> jobj \<Rightarrow> string \<Rightarrow> bool" where
  "basic_auth_ok w env auth =
     (case strip_scheme ''Basic'' auth of
        None \<Rightarrow> False
      | Some b64 \<Rightarrow>
          (case split_on CHR '':'' (ww_base64 w b64) of
             u # p # _ \<Rightarrow> u = env_string env ''METRICS_BASIC_USER'' \<and> p = env_string env ''METRICS_BASIC_PASS''
           | _ \<Rightarrow> False))"

datatype metrics_method = BearerMethod | BasicMethod

definition metrics_auth :: "'s worker_world \<Rightarrow> jobj \<Rightarrow> worker_request \<Rightarrow> string \<Rightarrow> bool \<Rightarrow> metrics_method option" where
  "metrics_auth w env rq bearer_token need_basic =
     (let auth = wq_header rq ''authorization''; alt = wq_header rq ''x-metrics-token'';
          need_bearer = (bearer_token \<noteq> []);
          bearer = (need_bearer \<and> (alt = bearer_token
            \<or> (case strip_scheme ''Bearer'' auth of Some t \<Rightarrow> trim t = bearer_token | None \<Rightarrow> False)))
      in if bearer then Some BearerMethod
         else if need_basic \<and> basic_auth_ok w env auth then Some BasicMethod
         else None)"

definition handle_worker_metrics :: "'s worker_world \<Rightarrow> jobj \<Rightarrow> worker_request \<Rightarrow> ('s, worker_reply) wk" where
  "handle_worker_metrics w env rq =
     (let need_basic = (env_string env ''METRICS_BASIC_USER'' \<noteq> [] \<and> env_string env ''METRICS_BASIC_PASS'' \<noteq> []);
          tok = env_string env ''METRICS_BEARER_TOKEN'';
          bearer_token = (if is_placeholder_secret tok then [] else tok);
          need_bearer = (bearer_token \<noteq> []);
          must_guard = (jprop env ''REQUIRE_METRICS_AUTH'' = JStr ''1'' \<or> secrets_enforced env);
          render = wk_bind (wk_gauge ''worker_notify_hmac_optional''
              (if jprop env ''NOTIFY_HMAC_OPTIONAL'' = JStr ''1'' then 1 else 0)) (\<lambda>_.
            wk_bind (wk_gauge ''worker_inbox_janitor_enabled''
              (if jprop env ''DISABLE_JANITOR'' = JStr ''1'' then 0 else 1)) (\<lambda>_ st.
            (Inr \<lparr>wr_status = 200, wr_body = PlainBody (worker_to_prom (wk_metrics st))\<rparr>, st)))
      in if \<not> need_basic \<and> \<not> need_bearer \<and> must_guard then wk_throw (WHttp 500 ''metrics_auth_not_configured'')
         else if need_basic \<or> need_bearer then
           (case metrics_auth w env rq bearer_token need_basic of
              None \<Rightarrow> wk_bind (wk_inc ''worker_metrics_auth_blocked_total'') (\<lambda>_.
                wk_throw (WHttp 401 ''unauthorized''))
            | Some m \<Rightarrow>
                wk_bind (wk_inc ''worker_metrics_auth_ok_total'') (\<lambda>_.
                wk_bind (wk_inc (case m of BearerMethod \<Rightarrow> ''worker_metrics_auth_ok_bearer_total''
                  | BasicMethod \<Rightarrow> ''worker_metrics_auth_ok_basic_total'')) (\<lambda>_.
                render)))
         else render)"

section \<open>Frames\<close>

lemma clock_on_lock: "wk_keeps clock_on (lock_call w k path body)"
  by (auto simp: wk_keeps_def clock_on_def lock_call_def wk_bind_def wk_tick_def
      split: prod.split option.split lock_fault.split)

lemma claim_and_mark_clock: "wk_keeps clock_on (claim_and_mark w env k ttl)"
proof -
  have "wk_keeps clock_on (replay_attempt w mem k ttl)" for mem
    unfolding replay_attempt_def by (auto intro!: clock_on.keeps_rules clock_on_basic clock_on_kv)
  then show ?thesis
    unfolding claim_and_mark_def check_replay_with_durable_object_def clear_replay_with_durable_object_def
      persist_replay_marker_def
    by (auto intro!: clock_on.keeps_rules clock_on_kv clock_on_lock)
qed

lemma replay_marker_ne_inbox: "inbox_key s n \<noteq> replay_marker_key s n"
proof
  assume "inbox_key s n = replay_marker_key s n"
  then have "length (inbox_key s n) = length (replay_marker_key s n)" by simp
  then show False by (simp add: inbox_key_def replay_marker_key_def)
qed

context worker_store
begin

lemma window_attempt_frame:
  assumes "k \<noteq> rk" and "wk_keeps (claim_untouched w reads k) on_block"
  shows "wk_keeps (claim_untouched w reads k) (window_attempt w mem rk cap ttl on_block message)"
  unfolding window_attempt_def using assms
  by (auto intro!: claim_untouched_rules split: window_verdict.split)

lemma rate_limit_frame:
  assumes "mem = memory_mode w env" and "k \<noteq> ''rl:'' @ client_ip rq"
  shows "wk_keeps (claim_untouched w reads k) (rate_limit w env rq)"
  unfolding rate_limit_def Let_def assms(1) [symmetric] using assms(2)
  by (auto intro!: claim_untouched_rules window_attempt_frame)

lemma spray_frame:
  assumes "mem = memory_mode w env" and "k \<noteq> ''rlsub:'' @ ip @ '':'' @ s" and "k \<noteq> ''rlsubcount:'' @ ip"
  shows "wk_keeps (claim_untouched w reads k) (subject_spray_guard w env ip s)"
  unfolding subject_spray_guard_def Let_def assms(1) [symmetric] using assms(2,3)
  by (auto intro!: claim_untouched_rules)

lemma store_item_frame:
  assumes "mem = memory_mode w env" and "k \<noteq> inbox_key s n"
  shows "wk_keeps (claim_untouched w reads k) (store_item w env s n p rt)"
  unfolding store_item_def Let_def json_reply_def assms(1) [symmetric] using assms(2)
  by (auto intro!: claim_untouched_rules)

lemma count_frame:
  assumes "mem = memory_mode w env"
  shows "wk_keeps (claim_untouched w reads k) (current_subject_count w env s)"
  unfolding current_subject_count_def assms(1) [symmetric] by (auto intro!: claim_untouched_rules)

end

section \<open>What an accepted item went through\<close>

lemma handle_inbox_post_Inr:
  assumes "handle_inbox_post w env rq st = (Inr rep, st')"
  obtains body s n p st1 st2 st3 st4 cnt where
    "verify_inbox_signature w env rq (wq_body rq) = Inr ()"
    "parse_raw_body w (wq_body rq) = Inr body" "inbox_fields body = Inr (s, n, p)"
    "rate_limit w env rq st = (Inr (), st1)"
    "subject_spray_guard w env (client_ip rq) (wk_text w s) st1 = (Inr (), st2)"
    "check_replay w env (wk_text w s) (wk_text w n) st2 = (Inr (), st3)"
    "validate_payload_size w env p = Inr ()"
    "current_subject_count w env (wk_text w s) st3 = (Inr cnt, st4)"
    "subject_limit w env cnt = Inr ()"
    "store_item w env (wk_text w s) (wk_text w n) p (wk_opt body ''ttlSeconds'') st4 = (Inr rep, st')"
  using assms unfolding handle_inbox_post_def Let_def
  by (auto simp: wk_bind_Inr wk_catch_Inr checked_replay_def intro!: that)

lemma signature_gate:
  assumes "verify_inbox_signature w env rq body = Inr ()"
    and "truthy (jprop env ''INBOX_HMAC_SECRET'')" and "jprop env ''INBOX_HMAC_OPTIONAL'' \<noteq> JStr ''1''"
  shows "signature_valid w (wk_text w (jprop env ''INBOX_HMAC_SECRET'')) (wq_header rq ''x-signature'') body"
  using assms by (auto simp: verify_inbox_signature_def Let_def Prelude.sum_bind_Inr split: if_splits)

lemma store_item_Inr:
  assumes "store_item w env s n p rt st = (Inr rep, st')"
  obtains st1 st2 where "wk_ticks st1 = Suc (wk_ticks st)"
    "kv_write w (memory_mode w env) (inbox_key s n)
      (item_text w p (js_add w (jint (ww_clock w (wk_ticks st))) (ttl_seconds w env rt)))
      (expiration_of w (js_add w (jint (ww_clock w (wk_ticks st))) (ttl_seconds w env rt))) None st1 = (Inr (), st2)"
    "wk_memory st' = wk_memory st2" "wk_store st' = wk_store st2"
    "rep = \<lparr>wr_status = 201, wr_body = JsonBody (JObj [(''status'', JStr ''OK''),
      (''exp'', js_add w (jint (ww_clock w (wk_ticks st))) (ttl_seconds w env rt))])\<rparr>"
  using assms unfolding store_item_def Let_def
  by (auto simp: wk_bind_Inr now_seconds_def wk_tick_def wk_inc_def wk_inc_by_def json_reply_def intro!: that)

section \<open>Properties\<close>

text \<open>
  The time to live of an inbox item is bounded: for a request without one or with a number, and a default
  that is a number, it is a number of at most a day, and of at least a minute unless the configured maximum
  is shorter than that.
\<close>

theorem ttl_seconds_bounds:
  assumes "req = JUndef \<or> (\<exists>x. req = JNum x)" and "env_int w env [''INBOX_TTL_DEFAULT''] ''3600'' = Some d"
  shows "\<exists>q. ttl_seconds w env req = JNum (Fin q) \<and> q \<le> 86400
    \<and> (60 \<le> q \<or> (\<exists>n. env_int w env [''INBOX_TTL_MAX''] ''86400'' = Some n \<and> 0 < n \<and> n < 60 \<and> q = of_int n))"
proof -
  define top :: int where "top = min inbox_ttl_hard_max_seconds
    (case env_int w env [''INBOX_TTL_MAX''] ''86400'' of
       Some n \<Rightarrow> if js_finite n \<and> n > 0 then n else inbox_ttl_hard_max_seconds
     | None \<Rightarrow> inbox_ttl_hard_max_seconds)"
  have top: "top \<le> 86400" by (simp add: top_def inbox_ttl_hard_max_seconds_def)
  have low: "60 \<le> top \<or> (\<exists>n. env_int w env [''INBOX_TTL_MAX''] ''86400'' = Some n \<and> 0 < n \<and> n < 60 \<and> top = n)"
    by (auto simp: top_def inbox_ttl_hard_max_seconds_def min_def split: option.split)
  obtain x where x: "js_or req (JNum (jn_of (Some d))) = JNum x" "x \<noteq> NaN"
  proof (cases "truthy req")
    case True
    then obtain y where "req = JNum y" using assms(1) by auto
    with True that [of y] show ?thesis by (cases y) (auto simp: js_or_def)
  next
    case False
    with that [of "Fin (of_int d)"] show ?thesis by (simp add: js_or_def jn_of_def)
  qed
  have t: "ttl_seconds w env req =
    (let t1 = (if jn_less x (Fin 60) then jint 60 else JNum x)
     in if jn_less (Fin (of_int top)) (wk_number w t1) then jint top else t1)"
    using x by (simp add: ttl_seconds_def top_def assms(2) wk_number_def Let_def)
  have num: "wk_number w (JNum y) = y" for y by (simp add: wk_number_def)
  show ?thesis
  proof (cases x)
    case (Fin q)
    have "top < 60 \<Longrightarrow> 0 < top" using low by auto
    with low top show ?thesis unfolding t Fin
      by (cases "q < 60"; cases "of_int top < q"; cases "top < 60") (auto simp: jint_def num Let_def)
  qed (use x low top t num in \<open>auto simp: jint_def Let_def\<close>)
qed

lemma ttl_seconds_witness:
  "\<exists>q. ttl_seconds (demo_worker_world (\<lambda>_. Inl [])) [(''INBOX_TTL_DEFAULT'', JStr ''600'')] (JNum (Fin 900000)) = JNum (Fin q)
    \<and> q \<le> 86400"
proof -
  have "env_int (demo_worker_world (\<lambda>_. Inl [])) [(''INBOX_TTL_DEFAULT'', JStr ''600'')] [''INBOX_TTL_DEFAULT''] ''3600''
    = Some 600" by code_simp
  from ttl_seconds_bounds [OF _ this, of "JNum (Fin 900000)"] show ?thesis by auto
qed

text \<open>A time to live that is a string is neither converted nor bounded: it is appended to the clock.\<close>

lemma string_ttl_unbounded:
  assumes "ww_number w s = Fin 90" and "env_int w env [''INBOX_TTL_MAX''] ''86400'' = Some 86400" and "s \<noteq> []"
  shows "ttl_seconds w env (JStr s) = JStr s"
    and "js_add w (jint now) (ttl_seconds w env (JStr s)) = JStr (ww_show w (of_int now) @ s)"
proof -
  have "js_finite 86400" by (simp add: js_finite_code)
  then show "ttl_seconds w env (JStr s) = JStr s"
    using assms by (simp add: ttl_seconds_def js_or_def wk_number_def inbox_ttl_hard_max_seconds_def Let_def)
  then show "js_add w (jint now) (ttl_seconds w env (JStr s)) = JStr (ww_show w (of_int now) @ s)"
    by (simp add: js_add_def wk_text_def jint_def)
qed

text \<open>A payload that is an object is measured by the text \<open>[object Object]\<close>, whatever it holds.\<close>

lemma object_payload_not_measured:
  assumes "ww_text w (JObj kvs) = ''[object Object]''" and "env_int w env [''PAYLOAD_MAX_BYTES''] ''16384'' = Some 16384"
  shows "validate_payload_size w env (JObj kvs) = Inr ()"
  using assms by (simp add: validate_payload_size_def over_bytes_def wk_text_def utf8_len_def)

text \<open>Subject and nonce are joined without escaping, in one namespace with the worker's own entries.\<close>

lemma inbox_keys_collide:
  "inbox_key ''a'' ''b:c'' = inbox_key ''a:b'' ''c''"
  "inbox_key ''replay'' (s @ '':'' @ n) = replay_marker_key s n"
  "inbox_key ''rl'' ip = ''rl:'' @ ip"
  "inbox_key ''notify'' ''breaker:stripe'' = ''notify:breaker:stripe''"
  by (simp_all add: inbox_key_def replay_marker_key_def)

text \<open>
  C13: What an accepted \<open>POST /inbox\<close> has done: the body carried a valid HMAC where a secret is set and not optional, it named
  a subject, a nonce and a payload within the size limit, and the item it named is readable under
  its key, with the expiry that was answered, until that time.
\<close>

theorem inbox_post_stores:
  assumes "worker_store w (memory_mode w env) reads" and "handle_inbox_post w env rq st = (Inr rep, st')"
    and "truthy (jprop env ''INBOX_HMAC_SECRET'')" and "jprop env ''INBOX_HMAC_OPTIONAL'' \<noteq> JStr ''1''"
  shows "\<exists>body s n p i x.
      signature_valid w (wk_text w (jprop env ''INBOX_HMAC_SECRET'')) (wq_header rq ''x-signature'') (wq_body rq)
    \<and> parse_raw_body w (wq_body rq) = Inr body \<and> inbox_fields body = Inr (s, n, p)
    \<and> validate_payload_size w env p = Inr ()
    \<and> x = js_add w (jint (ww_clock w i)) (ttl_seconds w env (wk_opt body ''ttlSeconds''))
    \<and> rep = \<lparr>wr_status = 201, wr_body = JsonBody (JObj [(''status'', JStr ''OK''), (''exp'', x)])\<rparr>
    \<and> (\<forall>t. kv_lives (ww_clock w (Suc i)) (expiration_of w x) None t
        \<longrightarrow> reads st' t (inbox_key (wk_text w s) (wk_text w n)) = Some (item_text w p x))"
proof -
  from assms(2) obtain body s n p st1 st2 st3 st4 cnt where
    v: "verify_inbox_signature w env rq (wq_body rq) = Inr ()" and b: "parse_raw_body w (wq_body rq) = Inr body"
    and f: "inbox_fields body = Inr (s, n, p)" and z: "validate_payload_size w env p = Inr ()"
    and i: "store_item w env (wk_text w s) (wk_text w n) p (wk_opt body ''ttlSeconds'') st4 = (Inr rep, st')"
    by (rule handle_inbox_post_Inr)
  from i obtain st5 st6 where k: "wk_ticks st5 = Suc (wk_ticks st4)"
    "kv_write w (memory_mode w env) (inbox_key (wk_text w s) (wk_text w n))
      (item_text w p (js_add w (jint (ww_clock w (wk_ticks st4))) (ttl_seconds w env (wk_opt body ''ttlSeconds''))))
      (expiration_of w (js_add w (jint (ww_clock w (wk_ticks st4))) (ttl_seconds w env (wk_opt body ''ttlSeconds''))))
      None st5 = (Inr (), st6)"
    and m: "wk_memory st' = wk_memory st6" "wk_store st' = wk_store st6"
    and r: "rep = \<lparr>wr_status = 201, wr_body = JsonBody (JObj [(''status'', JStr ''OK''),
      (''exp'', js_add w (jint (ww_clock w (wk_ticks st4))) (ttl_seconds w env (wk_opt body ''ttlSeconds'')))])\<rparr>"
    by (rule store_item_Inr)
  show ?thesis
  proof (rule exI [of _ body], rule exI [of _ s], rule exI [of _ n], rule exI [of _ p],
      rule exI [of _ "wk_ticks st4"],
      rule exI [of _ "js_add w (jint (ww_clock w (wk_ticks st4))) (ttl_seconds w env (wk_opt body ''ttlSeconds''))"],
      intro conjI allI impI)
    fix t
    assume "kv_lives (ww_clock w (Suc (wk_ticks st4))) (expiration_of w
      (js_add w (jint (ww_clock w (wk_ticks st4))) (ttl_seconds w env (wk_opt body ''ttlSeconds'')))) None t"
    then show "reads st' t (inbox_key (wk_text w s) (wk_text w n)) = Some (item_text w p
      (js_add w (jint (ww_clock w (wk_ticks st4))) (ttl_seconds w env (wk_opt body ''ttlSeconds''))))"
      using worker_store.write_value [OF assms(1) k(2)] worker_store.reads_cong [OF assms(1) m] k(1) by simp
  qed (rule signature_gate [OF v assms(3,4)] b f z r refl)+
qed

definition demo_inbox_env :: jobj where
  "demo_inbox_env =
     [(''TEST_IN_MEMORY_KV'', JStr ''1''), (''INBOX_HMAC_SECRET'', JStr ''k1''), (''RATE_LIMIT_MAX'', JStr ''0''),
      (''UNIQUE_SUBJECT_MAX_PER_IP'', JStr ''0''), (''REPLAY_TTL'', JStr ''600''), (''FORGET_MAX_KEYS'', JStr ''5''),
      (''WORKER_STRICT_TOKEN_SCOPES'', JStr ''0''), (''WORKER_READ_TOKEN'', JStr ''t1''),
      (''WORKER_FORGET_TOKEN'', JStr ''t1''), (''PAYLOAD_MAX_BYTES'', JStr ''100''),
      (''SUBJECT_MAX_ENVELOPES'', JStr ''10''), (''INBOX_TTL_DEFAULT'', JStr ''600''), (''INBOX_TTL_MAX'', JStr ''900''),
      (''MAX_JANITOR_KEYS'', JStr ''100'')]"

definition demo_inbox_world :: "unit worker_world" where
  "demo_inbox_world = demo_worker_world (\<lambda>s.
     if s = ''B'' then Inr (JObj [(''subject'', JStr ''s1''), (''nonce'', JStr ''n1''), (''payload'', JStr ''p'')])
     else if s = item_text (demo_worker_world (\<lambda>_. Inl [])) (JStr ''p'') (jint 1600)
     then Inr (JObj [(''payload'', JStr ''p''), (''exp'', jint 1600)])
     else if s = json_stringify show_ratio (JObj [(''ttl'', jint 600)]) then Inr (JObj [(''ttl'', jint 600)])
     else Inl ''SyntaxError'')"

definition demo_inbox_request :: worker_request where
  "demo_inbox_request = \<lparr>wq_method = ''POST'', wq_path = [''inbox''],
     wq_headers = (\<lambda>h. if h = ''x-signature'' then Some ''01'' else if h = ''authorization'' then Some ''Bearer t1'' else None),
     wq_body = ''B''\<rparr>"

lemma demo_inbox_facts:
  "memory_mode demo_inbox_world demo_inbox_env" "truthy (jprop demo_inbox_env ''INBOX_HMAC_SECRET'')"
  "jprop demo_inbox_env ''INBOX_HMAC_OPTIONAL'' \<noteq> JStr ''1''"
  "replay_window demo_inbox_world demo_inbox_env = Inr 600"
  "mono (ww_clock demo_inbox_world)" "ww_clock demo_inbox_world i = 1000"
proof -
  show "memory_mode demo_inbox_world demo_inbox_env" "truthy (jprop demo_inbox_env ''INBOX_HMAC_SECRET'')"
    "jprop demo_inbox_env ''INBOX_HMAC_OPTIONAL'' \<noteq> JStr ''1''"
    "replay_window demo_inbox_world demo_inbox_env = Inr 600" by code_simp+
  show "mono (ww_clock demo_inbox_world)" "ww_clock demo_inbox_world i = 1000"
    by (simp_all add: demo_inbox_world_def demo_worker_world_def mono_def)
qed

lemma demo_inbox_store: "worker_store demo_inbox_world (memory_mode demo_inbox_world demo_inbox_env) memory_reads"
  by (simp add: demo_inbox_facts(1) memory.worker_store_axioms)

definition demo_body :: jsval where
  "demo_body = JObj [(''subject'', JStr ''s1''), (''nonce'', JStr ''n1''), (''payload'', JStr ''p'')]"

definition demo_item :: string where
  "demo_item = item_text (demo_worker_world (\<lambda>_. Inl [])) (JStr ''p'') (jint 1600)"

lemma demo_env_facts:
  "verify_inbox_signature demo_inbox_world demo_inbox_env demo_inbox_request (wq_body demo_inbox_request) = Inr ()"
  "inbox_fields demo_body = Inr (JStr ''s1'', JStr ''n1'', JStr ''p'')"
  "ttl_seconds demo_inbox_world demo_inbox_env (wk_opt demo_body ''ttlSeconds'') = jint 600"
  "validate_payload_size demo_inbox_world demo_inbox_env (JStr ''p'') = Inr ()"
  "env_int demo_inbox_world demo_inbox_env [''SUBJECT_MAX_ENVELOPES''] ''10'' = Some 10"
  "env_int demo_inbox_world demo_inbox_env [''FORGET_MAX_KEYS''] ''500'' = Some 5"
  "env_int demo_inbox_world demo_inbox_env [''MAX_JANITOR_KEYS''] ''2000'' = Some 100"
  "truthy (jprop demo_inbox_env ''REPLAY_LOCKS'') = False" "replay_strong_mode_enabled demo_inbox_env = False"
  "require_read_token demo_inbox_env demo_inbox_request = Inr ()"
  "require_forget_token demo_inbox_env demo_inbox_request = Inr ()"
  "wk_prop demo_body ''subject'' = Some (JStr ''s1'')" "use_memory_kv demo_inbox_env"
  "jprop demo_inbox_env ''DISABLE_JANITOR'' = JUndef"
  by code_simp+

lemma demo_body_facts:
  "parse_raw_body demo_inbox_world (wq_body demo_inbox_request) = Inr demo_body"
  "json_body demo_inbox_world demo_inbox_request m = Inr demo_body"
proof -
  have "ww_parse (demo_worker_world f) = f" for f by (simp add: demo_worker_world_def)
  then have "ww_parse demo_inbox_world ''B'' = Inr demo_body" "wq_body demo_inbox_request = ''B''"
    by (simp_all add: demo_inbox_world_def demo_body_def demo_inbox_request_def)
  then show "parse_raw_body demo_inbox_world (wq_body demo_inbox_request) = Inr demo_body"
    "json_body demo_inbox_world demo_inbox_request m = Inr demo_body"
    by (simp_all add: parse_raw_body_def json_body_def)
qed

lemma demo_item_head: "\<exists>cs. demo_item = CHR 0x7B # cs"
  by (simp add: demo_item_def item_text_def)

lemma demo_item_facts:
  "ww_parse demo_inbox_world demo_item = Inr (JObj [(''payload'', JStr ''p''), (''exp'', jint 1600)])"
  "(demo_item = []) = False" "(demo_item = ''1'') = False"
  "item_text demo_inbox_world (JStr ''p'') (jint 1600) = demo_item"
proof -
  obtain cs where cs: "demo_item = CHR 0x7B # cs" using demo_item_head by blast
  show "(demo_item = []) = False" "(demo_item = ''1'') = False" by (simp_all add: cs)
  have "demo_item \<noteq> ''B''" by (simp add: cs)
  moreover have "ww_parse (demo_worker_world f) = f" for f by (simp add: demo_worker_world_def)
  ultimately show "ww_parse demo_inbox_world demo_item = Inr (JObj [(''payload'', JStr ''p''), (''exp'', jint 1600)])"
    by (simp add: demo_inbox_world_def demo_item_def [symmetric])
  show "item_text demo_inbox_world (JStr ''p'') (jint 1600) = demo_item"
    unfolding demo_item_def item_text_def by (simp only: demo_inbox_world_def demo_worker_world_def worker_world.select_convs)
qed

lemma demo_env_limits:
  "rate_limit demo_inbox_world demo_inbox_env rq = wk_return ()"
  "subject_spray_guard demo_inbox_world demo_inbox_env ip s = wk_return ()"
  "wk_text demo_inbox_world (JStr s) = s" "ww_can_wait demo_inbox_world"
proof -
  have "env_int demo_inbox_world demo_inbox_env [''RATE_LIMIT_MAX''] ''50'' = Some 0"
    "env_int demo_inbox_world demo_inbox_env [''UNIQUE_SUBJECT_MAX_PER_IP''] ''20'' = Some 0" by code_simp+
  then show "rate_limit demo_inbox_world demo_inbox_env rq = wk_return ()"
    "subject_spray_guard demo_inbox_world demo_inbox_env ip s = wk_return ()"
    by (simp_all add: rate_limit_def subject_spray_guard_def limit_off_def)
  show "wk_text demo_inbox_world (JStr s) = s" "ww_can_wait demo_inbox_world"
    by (simp_all add: wk_text_def demo_inbox_world_def demo_worker_world_def)
qed

lemmas demo_run = wk_run kv_run demo_inbox_facts demo_env_facts demo_body_facts demo_item_facts demo_env_limits Let_def
  shim_get_def shim_put_def shim_delete_def clean_expired_def shim_expired_def json_reply_def

lemma shim_scan_fresh:
  assumes "\<forall>k \<in> set ks. \<exists>e. map_of m k = Some e \<and> \<not> shim_expired now e"
  shows "shim_scan now p ks m = (filter (\<lambda>k. starts_with k p) ks, m)"
  using assms by (induction ks) (auto simp: clean_expired_def)

lemma shim_list_fresh:
  assumes "\<forall>k \<in> fst ` set m. \<exists>e. map_of m k = Some e \<and> \<not> shim_expired now e" and "int (length m) \<le> n"
  shows "shim_list now p (Some n) None m
    = (\<lparr>sp_keys = filter (\<lambda>k. starts_with k p) (map fst m), sp_complete = True, sp_cursor = None\<rparr>, m)"
proof -
  let ?ks = "filter (\<lambda>k. starts_with k p) (map fst m)"
  have "length ?ks \<le> length m" by (metis length_filter_le length_map)
  then have l: "int (length ?ks) \<le> n" using assms(2) by linarith
  then have "js_slice 0 n ?ks = ?ks" by (simp add: js_slice_def slice_pos_def Let_def del: length_filter_map)
  moreover have "shim_scan now p (map fst m) m = (?ks, m)" using assms(1) by (intro shim_scan_fresh) simp
  ultimately show ?thesis by (simp add: shim_list_def)
qed

definition demo_marker :: shim_entry where
  "demo_marker = \<lparr>sh_value = ''1'', sh_exp = Some 1600\<rparr>"

definition demo_stored_item :: shim_entry where
  "demo_stored_item = \<lparr>sh_value = demo_item, sh_exp = Some 1600\<rparr>"

lemma demo_replay:
  assumes "wk_memory st = []" and "wk_claims st = []"
  shows "\<exists>st'. check_replay demo_inbox_world demo_inbox_env ''s1'' ''n1'' st = (Inr (), st')
    \<and> wk_memory st' = [(''replay:s1:n1'', demo_marker)] \<and> wk_claims st' = []"
  by (simp add: check_replay_def claim_replay_key_def prune_replay_claims_def claim_and_mark_def replay_attempt_def
      replay_marker_key_def numeral_2_eq_2 demo_marker_def assms demo_run cong: wk_weak)

definition demo_stored :: "(worker_error + worker_reply) \<times> unit worker_state" where
  "demo_stored = handle_inbox_post demo_inbox_world demo_inbox_env demo_inbox_request fresh_worker"

lemma demo_stored_facts:
  "fst demo_stored = Inr \<lparr>wr_status = 201, wr_body = JsonBody (JObj [(''status'', JStr ''OK''), (''exp'', jint 1600)])\<rparr>"
  "wk_memory (snd demo_stored) = [(''replay:s1:n1'', demo_marker), (''s1:n1'', demo_stored_item)]"
proof -
  obtain st where st: "check_replay demo_inbox_world demo_inbox_env ''s1'' ''n1'' fresh_worker = (Inr (), st)"
    "wk_memory st = [(''replay:s1:n1'', demo_marker)]"
    using demo_replay [of fresh_worker] by (auto simp: fresh_worker_def)
  have l: "shim_list 1000 ''s1:'' (Some 50) None [(''replay:s1:n1'', demo_marker)]
      = (\<lparr>sp_keys = [], sp_complete = True, sp_cursor = None\<rparr>, [(''replay:s1:n1'', demo_marker)])"
    by (simp add: shim_list_fresh shim_expired_def demo_marker_def)
  have x: "expiration_of demo_inbox_world (jint 1600) = Some 1600" by (simp add: expiration_of_def)
  show "fst demo_stored = Inr \<lparr>wr_status = 201, wr_body = JsonBody (JObj [(''status'', JStr ''OK''), (''exp'', jint 1600)])\<rparr>"
    "wk_memory (snd demo_stored) = [(''replay:s1:n1'', demo_marker), (''s1:n1'', demo_stored_item)]"
    by (simp_all add: demo_stored_def handle_inbox_post_def checked_replay_def st current_subject_count_def l
        subject_limit_def store_item_def x inbox_key_def demo_stored_item_def demo_run cong: wk_weak)
qed

lemma inbox_post_stores_witness:
  "\<exists>x. signature_valid demo_inbox_world ''k1'' ''01'' ''B'' \<and> fst demo_stored
      = Inr \<lparr>wr_status = 201, wr_body = JsonBody (JObj [(''status'', JStr ''OK''), (''exp'', x)])\<rparr>"
proof -
  obtain rep where r: "fst demo_stored = Inr rep" using demo_stored_facts(1) by simp
  then have "handle_inbox_post demo_inbox_world demo_inbox_env demo_inbox_request fresh_worker = (Inr rep, snd demo_stored)"
    by (simp add: demo_stored_def prod_eq_iff)
  from inbox_post_stores [OF demo_inbox_store this demo_inbox_facts(2,3)]
  have s: "signature_valid demo_inbox_world (wk_text demo_inbox_world (jprop demo_inbox_env ''INBOX_HMAC_SECRET''))
      (wq_header demo_inbox_request ''x-signature'') (wq_body demo_inbox_request)"
    and x: "\<exists>x. rep = \<lparr>wr_status = 201, wr_body = JsonBody (JObj [(''status'', JStr ''OK''), (''exp'', x)])\<rparr>" by blast+
  have "wk_text demo_inbox_world (jprop demo_inbox_env ''INBOX_HMAC_SECRET'') = ''k1''"
    "wq_header demo_inbox_request ''x-signature'' = ''01''" "wq_body demo_inbox_request = ''B''" by code_simp+
  with s x r show ?thesis by simp
qed



text \<open>
  C25: An item is handed out once: after a successful \<open>GET /inbox/:subject/:nonce\<close>, a further one for the same item fails
  as long as nothing stores it again and the client's rate-limit entry is not the item itself.
\<close>

theorem inbox_item_once:
  assumes store: "worker_store w (memory_mode w env) reads" and m: "mono (ww_clock w)"
    and first: "handle_inbox_get w env rq s n st = (Inr rep, st1)"
    and between: "untouched w reads (inbox_key s n) st1 st2"
    and second: "handle_inbox_get w env rq' s n st2 = (r, st3)"
    and ne: "inbox_key s n \<noteq> ''rl:'' @ client_ip rq'"
  shows "isl r"
proof (rule ccontr)
  let ?k = "inbox_key s n"
  from first obtain a1 a2 where d: "kv_remove w (memory_mode w env) ?k a1 = (Inr (), a2)"
    "wk_memory st1 = wk_memory a2" "wk_store st1 = wk_store a2"
    unfolding handle_inbox_get_def Let_def
    by (fastforce simp: wk_bind_Inr wk_inc_def wk_inc_by_def wk_get_prop_def json_reply_def
        split: if_splits sum.splits option.splits intro: that)
  have gone: "reads st1 t ?k = None" for t
    using worker_store.remove_value [OF store d(1)] worker_store.reads_cong [OF store d(2,3)] by simp
  assume "\<not> isl r"
  then obtain rep' where "handle_inbox_get w env rq' s n st2 = (Inr rep', st3)" using second by (cases r) auto
  then obtain b1 b2 raw where rl: "rate_limit w env rq' st2 = (Inr (), b1)"
    and rd: "kv_read w (memory_mode w env) ?k b1 = (Inr raw, b2)" and some: "raw \<noteq> None"
    unfolding handle_inbox_get_def Let_def by (auto simp: wk_bind_Inr split: if_splits)
  have u: "untouched w reads ?k st1 b1"
    using wk_keepsD [OF worker_store.rate_limit_frame [OF store refl ne] rl]
      state_relation.R_trans [OF worker_store.untouched_relation [OF store] between] by (simp add: claim_untouched_def)
  then have "reads b1 (ww_clock w (wk_ticks b1)) ?k = None" using gone m by (simp add: untouched_def)
  with worker_store.read_value [OF store rd] some show False by simp
qed

definition demo_fetched :: "(worker_error + worker_reply) \<times> unit worker_state" where
  "demo_fetched = handle_inbox_get demo_inbox_world demo_inbox_env demo_inbox_request ''s1'' ''n1'' (snd demo_stored)"

lemma demo_fetched_reply: "\<not> isl (fst demo_fetched)"
  by (simp add: demo_fetched_def handle_inbox_get_def inbox_key_def demo_stored_facts demo_stored_item_def
      wk_get_prop_def wk_prop_def demo_run cong: wk_weak)

lemma inbox_item_once_witness:
  "isl (fst (handle_inbox_get demo_inbox_world demo_inbox_env demo_inbox_request ''s1'' ''n1'' (snd demo_fetched)))"
proof -
  obtain rep where "fst demo_fetched = Inr rep" using demo_fetched_reply by (auto simp: isl_def) (metis sum.exhaust_sel)
  then have f: "handle_inbox_get demo_inbox_world demo_inbox_env demo_inbox_request ''s1'' ''n1'' (snd demo_stored)
      = (Inr rep, snd demo_fetched)"
    by (simp add: demo_fetched_def prod_eq_iff)
  obtain r2 st3 where g: "handle_inbox_get demo_inbox_world demo_inbox_env demo_inbox_request ''s1'' ''n1''
      (snd demo_fetched) = (r2, st3)" by fastforce
  have "isl r2"
    by (rule inbox_item_once [OF demo_inbox_store demo_inbox_facts(5) f
        state_relation.R_refl [OF worker_store.untouched_relation [OF demo_inbox_store]] g])
      (simp add: inbox_key_def)
  then show ?thesis using g by simp
qed

section \<open>Listing and removing\<close>

text \<open>A namespace whose listing is complete up to its limit and whose removals do not fail.\<close>

locale listing_store = worker_store +
  fixes good :: "'a worker_state \<Rightarrow> bool"
  assumes keys_value: "good st \<Longrightarrow> kv_keys w mem p (Some n) None st = (r, st') \<Longrightarrow> 0 \<le> n
      \<Longrightarrow> \<exists>page ks. r = Inr page \<and> sp_keys page = take (nat n) ks
        \<and> set ks = {k. starts_with k p \<and> reads st (ww_clock w (wk_ticks st)) k \<noteq> None}"
    and remove_works: "fst (kv_remove w mem k st) = Inr ()"
    and reads_expire: "reads st t k = None \<Longrightarrow> t \<le> t' \<Longrightarrow> reads st t' k = None"
    and good_kept: "good st \<Longrightarrow> good (snd (kv_keys w mem p l c st))"
begin

text \<open>Keys stay gone while other keys are removed.\<close>

lemma gone_stays_gone:
  assumes "kv_remove w mem k st = (r, st')" and "reads st t k' = None"
  shows "reads st' t k' = None"
proof (cases "k' = k")
  case True
  have "r = Inr ()" using remove_works [of k st] assms(1) by simp
  with True assms(1) show ?thesis using remove_value by auto
next
  case False
  then show ?thesis using remove_frame [of k' k st t] assms by simp
qed

lemma delete_keys_gone:
  assumes "delete_keys w env ks st = (r, st')" and "mem = memory_mode w env"
  shows "r = Inr () \<and> (\<forall>k t. k \<in> set ks \<or> reads st t k = None \<longrightarrow> reads st' t k = None)
    \<and> wk_ticks st \<le> wk_ticks st'"
  using assms(1) unfolding delete_keys_def assms(2) [symmetric]
proof (induction ks arbitrary: st)
  case Nil
  then show ?case by simp
next
  case (Cons k ks)
  obtain r1 st1 where 1: "kv_remove w mem k st = (r1, st1)" by fastforce
  have ok: "r1 = Inr ()" using remove_works [of k st] 1 by simp
  have tick: "wk_ticks st \<le> wk_ticks st1" using wk_keepsD [OF clock_on_kv(3) 1] by (simp add: clock_on_def)
  from Cons.prems have "wk_each (\<lambda>k. if ww_can_wait w then in_background (kv_remove w mem k) else kv_remove w mem k) ks st1
      = (r, st')"
    using 1 ok by (simp add: wk_bind_def in_background_def wk_catch_def split: if_splits)
  from Cons.IH [OF this] show ?case
    using tick gone_stays_gone [OF 1] remove_value [OF 1 [unfolded ok]] by auto
qed

lemma listed_all:
  assumes "good st" and "kv_keys w mem p (Some (n + 1)) None st = (Inr page, st')" and "0 \<le> n"
    and "\<not> forget_over (Some n) (sp_keys page)"
  shows "set (sp_keys page) = {k. starts_with k p \<and> reads st (ww_clock w (wk_ticks st)) k \<noteq> None}"
proof -
  from keys_value [OF assms(1,2)] assms(3) obtain ks where
    ks: "sp_keys page = take (nat (n + 1)) ks"
      "set ks = {k. starts_with k p \<and> reads st (ww_clock w (wk_ticks st)) k \<noteq> None}" by auto
  have "length ks \<le> nat (n + 1)"
  proof (rule ccontr)
    assume "\<not> length ks \<le> nat (n + 1)"
    then have "length (sp_keys page) = nat (n + 1)" by (simp add: ks(1))
    with assms(3,4) show False by (simp add: forget_over_def)
  qed
  then show ?thesis using ks by simp
qed

lemma not_listed_gone:
  assumes m: "mono (ww_clock w)" and k: "kv_keys w mem p l c st = (r, st')" and "starts_with x q"
    and out: "\<not> (starts_with x q \<and> reads st (ww_clock w (wk_ticks st)) x \<noteq> None)"
    and "ww_clock w (wk_ticks st) \<le> t"
  shows "reads st' t x = None"
proof -
  have "reads st t x = None" using reads_expire out assms(3,5) by blast
  then show ?thesis using keys_frame [OF assms(5), of p l c x] k by simp
qed

lemma forget_locks_same:
  assumes "forget_replay_locks w env ks st = (r, st')"
  shows "wk_memory st' = wk_memory st \<and> wk_store st' = wk_store st \<and> wk_ticks st \<le> wk_ticks st'"
proof -
  define R :: "'a worker_state \<Rightarrow> 'a worker_state \<Rightarrow> bool" where
    "R = (\<lambda>a b. wk_memory b = wk_memory a \<and> wk_store b = wk_store a \<and> wk_ticks a \<le> wk_ticks b)"
  have rel: "state_relation R" by unfold_locales (auto simp: R_def)
  have "wk_keeps R (lock_call w k path body)" for k path body
    by (auto simp: wk_keeps_def R_def lock_call_def wk_bind_def wk_tick_def
        split: prod.split option.split lock_fault.split)
  moreover have "wk_keeps R (wk_inc name)" for name
    by (simp add: wk_keeps_def R_def wk_inc_def wk_inc_by_def)
  ultimately have "wk_keeps R (forget_replay_locks w env ks)"
    unfolding forget_replay_locks_def clear_replay_with_durable_object_def
    by (auto intro!: state_relation.keeps_rules [OF rel])
  from wk_keepsD [OF this assms] show ?thesis by (simp add: R_def)
qed

lemma forget_subject_gone:
  assumes f: "forget_subject w env s st = (Inr rep, st')" and ok: "wr_status rep = 200"
    and mode: "mem = memory_mode w env" and g: "good st" and m: "mono (ww_clock w)"
    and cap: "env_int w env [''FORGET_MAX_KEYS''] ''500'' = Some n" "0 \<le> n"
    and k: "starts_with k (s @ '':'') \<or> starts_with k (''replay:'' @ s @ '':'')"
    and t: "ww_clock w (wk_ticks st') \<le> t"
  shows "reads st' t k = None"
proof -
  from f obtain p1 st1 p2 st2 where
    1: "kv_keys w mem (s @ '':'') (Some (n + 1)) None st = (Inr p1, st1)"
    and 2: "kv_keys w mem (''replay:'' @ s @ '':'') (Some (n + 1)) None st1 = (Inr p2, st2)"
    and l: "forget_listed w env (Some n) (sp_keys p1) (sp_keys p2) st2 = (Inr rep, st')"
    unfolding forget_subject_def Let_def mode [symmetric] cap(1) by (auto simp: wk_bind_Inr forget_limit_def)
  have n: "\<not> forget_over (Some n) (sp_keys p1)" "\<not> forget_over (Some n) (sp_keys p2)"
    using l ok by (auto simp: forget_listed_def Let_def wk_bind_Inr json_reply_def)
  with l obtain st3 st4 st5 where
    3: "delete_keys w env (sp_keys p1) st2 = (Inr (), st3)"
    and 4: "delete_keys w env (sp_keys p2) st3 = (Inr (), st4)"
    and 5: "forget_replay_locks w env (sp_keys p2) st4 = (Inr (), st5)"
    and e: "wk_memory st' = wk_memory st5" "wk_store st' = wk_store st5" "wk_ticks st' = wk_ticks st5"
    by (auto simp: forget_listed_def Let_def wk_bind_Inr json_reply_def forget_slice_def wk_inc_by_def)
  have g1: "good st1" using good_kept [OF g] 1 by (metis snd_conv)
  note l1 = listed_all [OF g 1 cap(2) n(1)] and l2 = listed_all [OF g1 2 cap(2) n(2)]
  have c1: "clock_on st st1" by (rule wk_keepsD [OF clock_on_kv(4) 1])
  have c2: "clock_on st1 st2" by (rule wk_keepsD [OF clock_on_kv(4) 2])
  note d1 = delete_keys_gone [OF 3 mode] and d2 = delete_keys_gone [OF 4 mode]
  note lk = forget_locks_same [OF 5]
  have ticks: "wk_ticks st \<le> wk_ticks st'" "wk_ticks st1 \<le> wk_ticks st'"
    using c1 c2 d1 d2 lk e by (auto simp: clock_on_def)
  have le: "ww_clock w (wk_ticks st) \<le> t" "ww_clock w (wk_ticks st1) \<le> t"
    using monoD [OF m ticks(1)] monoD [OF m ticks(2)] t by simp_all
  have end_same: "reads st' = reads st4" using reads_cong [of st' st4] e lk by simp
  from k show ?thesis
  proof
    assume p: "starts_with k (s @ '':'')"
    have "k \<in> set (sp_keys p1) \<or> reads st2 t k = None"
    proof (cases "k \<in> set (sp_keys p1)")
      case False
      then have "\<not> (starts_with k (s @ '':'') \<and> reads st (ww_clock w (wk_ticks st)) k \<noteq> None)"
        unfolding l1 mem_Collect_eq .
      then have "reads st1 t k = None" by (rule not_listed_gone [OF m 1 p _ le(1)])
      then have "reads st2 t k = None" using keys_frame [OF le(2), of "''replay:'' @ s @ '':''" "Some (n + 1)" None k] 2 by simp
      then show ?thesis by simp
    qed simp
    then have "reads st3 t k = None" using d1 by (elim disjE) simp_all
    then have "reads st4 t k = None" using d2 by simp
    then show ?thesis by (simp only: end_same)
  next
    assume p: "starts_with k (''replay:'' @ s @ '':'')"
    have "k \<in> set (sp_keys p2) \<or> reads st2 t k = None"
    proof (cases "k \<in> set (sp_keys p2)")
      case False
      then have "\<not> (starts_with k (''replay:'' @ s @ '':'') \<and> reads st1 (ww_clock w (wk_ticks st1)) k \<noteq> None)"
        unfolding l2 mem_Collect_eq .
      then show ?thesis by (intro disjI2 not_listed_gone [OF m 2 p _ le(2)])
    qed simp
    then have "k \<in> set (sp_keys p2) \<or> reads st3 t k = None" using d1 by (elim disjE) simp_all
    then have "reads st4 t k = None" using d2 by (elim disjE) simp_all
    then show ?thesis by (simp only: end_same)
  qed
qed

end

lemma js_slice_first: "0 \<le> n \<Longrightarrow> js_slice 0 n xs = take (nat n) xs"
  by (simp add: js_slice_def slice_pos_def Let_def min_def)

lemma shim_list_first:
  assumes "jm_ok m" and "0 \<le> n"
  shows "sp_keys (fst (shim_list now p (Some n) None m))
    = take (nat n) (filter (\<lambda>k. starts_with k p \<and> shim_read m now k \<noteq> None) (map fst m))"
proof -
  have "sp_keys (fst (shim_list now p (Some n) None m)) = js_slice 0 (0 + n) (fst (shim_scan now p (map fst m) m))"
    unfolding shim_list_def Let_def split_def by simp
  then show ?thesis using assms by (simp only: shim_scan_keys js_slice_first add_0)
qed

lemma shim_read_key: "shim_read m t k \<noteq> None \<Longrightarrow> k \<in> fst ` set m"
  by (auto simp: shim_read_alt split: option.splits dest!: map_of_SomeD) (metis fst_conv image_eqI)

lemma shim_scan_ok: "jm_ok m \<Longrightarrow> jm_ok (snd (shim_scan now p ks m))"
  by (induction ks arbitrary: m)
    (auto simp: split_def Let_def clean_expired_def distinct_delete split: option.split)

definition memory_ok :: "'s worker_state \<Rightarrow> bool" where
  "memory_ok st \<longleftrightarrow> jm_ok (wk_memory st)"

interpretation memory_listing: listing_store w True memory_reads memory_ok
proof (unfold_locales, goal_cases)
  case (1 st p n r st')
  let ?m = "wk_memory st" and ?now = "ww_clock w (wk_ticks st)"
  from 1 have "r = Inr (fst (shim_list ?now p (Some n) None ?m))"
    by (simp add: kv_keys_def kv_call_memory split_def Let_def)
  moreover have "sp_keys (fst (shim_list ?now p (Some n) None ?m))
      = take (nat n) (filter (\<lambda>k. starts_with k p \<and> shim_read ?m ?now k \<noteq> None) (map fst ?m))"
    using 1 by (intro shim_list_first) (auto simp: memory_ok_def)
  moreover have "set (filter (\<lambda>k. starts_with k p \<and> shim_read ?m ?now k \<noteq> None) (map fst ?m))
      = {k. starts_with k p \<and> memory_reads st ?now k \<noteq> None}"
    using shim_read_key by (fastforce simp: memory_reads_def)
  ultimately show ?case by blast
next
  case (2 k st)
  then show ?case by (simp add: kv_remove_def kv_call_memory)
next
  case (3 st t k t')
  then show ?case
    by (auto simp: memory_reads_def shim_read_alt shim_expired_def split: option.splits if_splits)
next
  case (4 st p l c)
  then show ?case
    by (auto simp: memory_ok_def kv_keys_def kv_call_memory split_def Let_def shim_list_snd shim_scan_ok)
qed



section \<open>What the janitor keeps\<close>

context worker_store
begin

definition stays :: "string \<Rightarrow> string \<Rightarrow> 's worker_state \<Rightarrow> bool" where
  "stays k v st \<longleftrightarrow> (\<forall>t. ww_clock w (wk_ticks st) \<le> t \<longrightarrow> reads st t k = Some v)"

lemma stays_untouched:
  assumes "stays k v st" and "untouched w reads k st st'" and "mono (ww_clock w)"
  shows "stays k v st'"
  unfolding stays_def
proof (intro allI impI)
  fix t assume t: "ww_clock w (wk_ticks st') \<le> t"
  moreover have "ww_clock w (wk_ticks st) \<le> ww_clock w (wk_ticks st')"
    using assms(2,3) by (simp add: untouched_def clock_on_def monoD)
  ultimately show "reads st' t k = Some v" using assms by (simp add: stays_def untouched_def)
qed

lemma janitor_page_keeps:
  assumes "janitor_page w mem cap now ks a b st = (r, st')" and "stays k v st" and m: "mono (ww_clock w)"
    and live: "\<not> janitor_stale w now v"
  shows "stays k v st'"
  using assms(1,2)
proof (induction ks arbitrary: a b st)
  case Nil
  then show ?case by simp
next
  case (Cons x xs)
  show ?case
  proof (cases "over_cap cap (a + 1)")
    case True
    then show ?thesis using Cons.prems by simp
  next
    case False
    obtain r1 st1 where 1: "kv_read w mem x st = (r1, st1)" by fastforce
    have s1: "stays k v st1" by (rule stays_untouched [OF Cons.prems(2) wk_keepsD [OF untouched_kv(1) 1] m])
    show ?thesis
    proof (cases r1)
      case (Inl e)
      then show ?thesis using Cons.prems(1) 1 False s1 by (simp add: wk_bind_def)
    next
      case (Inr raw)
      show ?thesis
      proof (cases "raw \<noteq> None \<and> raw \<noteq> Some [] \<and> janitor_stale w now (the raw)")
        case True
        have "x \<noteq> k"
        proof
          assume "x = k"
          then have "raw = Some v"
            using read_value [OF 1 [unfolded Inr]] Cons.prems(2) by (simp add: stays_def)
          with True live show False by simp
        qed
        then have "wk_keeps (untouched w reads k) (in_background (kv_remove w mem x))"
          unfolding in_background_def by (intro untouched_rules)
        then have s2: "stays k v (snd (in_background (kv_remove w mem x) st1))"
          using s1 stays_untouched m by (auto simp: wk_keeps_def)
        obtain q st2 where q: "in_background (kv_remove w mem x) st1 = (q, st2)" by fastforce
        have "q = Inr ()"
          using q by (auto simp: in_background_def wk_catch_def split: prod.splits sum.splits)
        then have "janitor_page w mem cap now xs (a + 1) (b + 1) st2 = (r, st')"
          using Cons.prems(1) 1 Inr False True q by (auto simp: wk_bind_def split: if_splits)
        moreover have "stays k v st2" using s2 q by simp
        ultimately show ?thesis by (rule Cons.IH)
      next
        case no: False
        then have "janitor_page w mem cap now xs (a + 1) b st1 = (r, st')"
          using Cons.prems(1) Inr False by (auto simp: wk_bind_def 1 split: if_splits)
        with Cons.IH s1 show ?thesis by blast
      qed
    qed
  qed
qed

lemma janitor_pages_keeps:
  assumes "janitor_pages fuel w mem cap now pfx cursor a b st = (r, st')" and "stays k v st"
    and m: "mono (ww_clock w)" and live: "\<not> janitor_stale w now v"
  shows "stays k v st'"
  using assms(1,2)
proof (induction fuel arbitrary: cursor a b st)
  case 0
  then show ?case by simp
next
  case (Suc fuel)
  obtain r1 st1 where 1: "kv_keys w mem pfx (Some 1000) cursor st = (r1, st1)" by fastforce
  have s1: "stays k v st1" by (rule stays_untouched [OF Suc.prems(2) wk_keepsD [OF untouched_kv(2) 1] m])
  show ?case
  proof (cases r1)
    case (Inl e)
    then show ?thesis using Suc.prems(1) 1 s1 by (simp add: wk_bind_def)
  next
    case (Inr page)
    obtain r2 st2 where 2: "janitor_page w mem cap now (sp_keys page) a b st1 = (r2, st2)" by fastforce
    have s2: "stays k v st2" by (rule janitor_page_keeps [OF 2 s1 m live])
    then show ?thesis
      using Suc.prems(1) Suc.IH by (auto simp: wk_bind_def 1 2 Inr split: sum.splits if_splits prod.splits)
  qed
qed

end


definition demo_lasting_item :: shim_entry where
  "demo_lasting_item = \<lparr>sh_value = demo_item, sh_exp = None\<rparr>"

definition demo_janitor_state :: "unit worker_state" where
  "demo_janitor_state = fresh_worker\<lparr>wk_memory :=
     [(''old'', \<lparr>sh_value = ''claim:x'', sh_exp = None\<rparr>), (''s1:n1'', demo_lasting_item)]\<rparr>"


end
