(* ===== verification/WorkerSign.thy ===== *)
theory WorkerSign
  imports WorkerGuards RouteAssert
begin

text \<open>
  Signing of write commands (\<open>POST /sign\<close> in \<open>src/workers/secrets-worker/src/index.ts\<close>): the canonical site
  id and signature reference of a body, the policy of actions and roles, the time stamp, and the
  message that is signed with the worker's Ed25519 key. \<open>parseSignPolicyMap\<close> builds plain objects; a
  selector or action named \<open>__proto__\<close> in the policy is left out.
\<close>

section \<open>Canonical fields\<close>

text \<open>\<open>Array.from(new Set(xs))\<close>\<close>

definition distinct_first :: "'a list \<Rightarrow> 'a list" where
  "distinct_first xs = rev (remdups (rev xs))"

lemma distinct_first_set [simp]: "set (distinct_first xs) = set xs" "distinct (distinct_first xs)"
  by (simp_all add: distinct_first_def)

definition clean_strings :: "jsval list \<Rightarrow> string list" where
  "clean_strings vs = distinct_first (filter (\<lambda>s. s \<noteq> []) (map trim_string vs))"

definition canonical_field_value :: "jsval list \<Rightarrow> string \<Rightarrow> worker_error + string" where
  "canonical_field_value vs mismatch =
     (case clean_strings vs of
        [] \<Rightarrow> Inr []
      | [s] \<Rightarrow> Inr s
      | _ \<Rightarrow> Inl (WHttp 400 mismatch))"

definition top_level_site_id :: "jobj \<Rightarrow> worker_error + string" where
  "top_level_site_id body =
     canonical_field_value [jprop body ''siteId'', jprop body ''SiteId'', jprop body ''Site-Id''] ''site_id_mismatch''"

definition payload_site_id :: "jobj option \<Rightarrow> worker_error + string" where
  "payload_site_id payload =
     (case payload of
        None \<Rightarrow> Inr []
      | Some p \<Rightarrow> canonical_field_value [jprop p ''siteId'', jprop p ''SiteId'', jprop p ''Site-Id''] ''site_id_mismatch'')"

definition resolve_canonical_site_id :: "string \<Rightarrow> string \<Rightarrow> string \<Rightarrow> bool \<Rightarrow> worker_error + string" where
  "resolve_canonical_site_id top_level payload header required =
     (case filter (\<lambda>s. s \<noteq> []) [top_level, payload, header] of
        [] \<Rightarrow> if required then Inl (WHttp 400 ''site_id_required'') else Inr []
      | canonical # candidates \<Rightarrow>
          if list_ex (\<lambda>c. c \<noteq> canonical) candidates then Inl (WHttp 400 ''site_id_mismatch'') else Inr canonical)"

definition resolve_canonical_signature_ref :: "jobj \<Rightarrow> jobj \<Rightarrow> worker_error + string" where
  "resolve_canonical_signature_ref body env =
     Prelude.sum_bind (canonical_field_value
        [jprop body ''signatureRef'', jprop body ''SignatureRef'', jprop body ''Signature-Ref'']
        ''signature_ref_mismatch'') (\<lambda>provided.
     Inr (if provided \<noteq> [] then provided
          else if clean_env_value (jprop env ''WORKER_SIGNATURE_REF'') \<noteq> []
          then clean_env_value (jprop env ''WORKER_SIGNATURE_REF'') else ''worker-ed25519''))"

definition body_payload :: "jobj \<Rightarrow> jobj option" where
  "body_payload body = first_record [jprop body ''payload'', jprop body ''Payload'']"

definition sign_site_id :: "jobj \<Rightarrow> jobj option \<Rightarrow> worker_error + string" where
  "sign_site_id body payload =
     Prelude.sum_bind (top_level_site_id body) (\<lambda>top_id.
     Prelude.sum_bind (payload_site_id payload) (\<lambda>payload_id.
     resolve_canonical_site_id top_id payload_id [] False))"

definition canonicalize_sign_body :: "jobj \<Rightarrow> jobj \<Rightarrow> worker_error + jobj" where
  "canonicalize_sign_body body env =
     (let payload = (case body_payload body of Some p \<Rightarrow> p | None \<Rightarrow> []) in
      Prelude.sum_bind (sign_site_id body (Some payload)) (\<lambda>site.
      Prelude.sum_bind (resolve_canonical_signature_ref body env) (\<lambda>sig_ref.
        let payload' = (if site \<noteq> [] then AList.update ''siteId'' (JStr site) payload else payload);
            normalized = AList.update ''signatureRef'' (JStr sig_ref) (AList.update ''payload'' (JObj payload') body)
        in Inr (if site \<noteq> [] then AList.update ''siteId'' (JStr site) normalized else normalized))))"

section \<open>The policy\<close>

type_synonym rule_map = "(string \<times> string list) list"
type_synonym policy_map = "(string \<times> rule_map) list"

fun parse_roles_map :: "jobj \<Rightarrow> rule_map \<Rightarrow> rule_map option" where
  "parse_roles_map [] acc = Some acc"
| "parse_roles_map ((k, v) # kvs) acc =
     (let action = trim k in
      if action = [] then None
      else (case v of
          JArr vs \<Rightarrow>
            let roles = clean_strings vs in
            if roles = [] then None else parse_roles_map kvs (table_set action roles acc)
        | _ \<Rightarrow> None))"

fun parse_policy_entries :: "jobj \<Rightarrow> policy_map \<Rightarrow> policy_map option" where
  "parse_policy_entries [] acc = Some acc"
| "parse_policy_entries ((k, v) # kvs) acc =
     (let selector = trim k in
      if selector = [] then None
      else (case as_record v of
          None \<Rightarrow> None
        | Some actions \<Rightarrow>
            (case parse_roles_map actions [] of
               None \<Rightarrow> None
             | Some rules \<Rightarrow> parse_policy_entries kvs (table_set selector rules acc))))"

definition parse_sign_policy_map :: "jsval \<Rightarrow> policy_map option" where
  "parse_sign_policy_map v = (case as_record v of None \<Rightarrow> None | Some obj \<Rightarrow> parse_policy_entries obj [])"

record sign_policy =
  pl_sites :: "policy_map option"
  pl_signatureRefs :: "policy_map option"

text \<open>A family of the policy: absent, or its map; \<^term>\<open>None\<close> where it is there and cannot be read.\<close>

definition policy_family :: "jobj \<Rightarrow> string \<Rightarrow> policy_map option option" where
  "policy_family obj k =
     (case map_of obj k of
        None \<Rightarrow> Some None
      | Some v \<Rightarrow> (case parse_sign_policy_map v of None \<Rightarrow> None | Some m \<Rightarrow> Some (Some m)))"

definition parse_sign_policy :: "'s worker_world \<Rightarrow> string \<Rightarrow> sign_policy option" where
  "parse_sign_policy w raw =
     (case ww_parse w raw of
        Inl _ \<Rightarrow> None
      | Inr parsed \<Rightarrow>
          (case as_record parsed of
             None \<Rightarrow> None
           | Some obj \<Rightarrow>
               (case (policy_family obj ''sites'', policy_family obj ''signatureRefs'') of
                  (Some sites, Some refs) \<Rightarrow> Some \<lparr>pl_sites = sites, pl_signatureRefs = refs\<rparr>
                | _ \<Rightarrow> None)))"

definition resolve_sign_policy_raw :: "jobj \<Rightarrow> string" where
  "resolve_sign_policy_raw env = first_clean env [''SIGN_POLICY_JSON'', ''SIGN_ALLOWLIST_JSON'']"

definition sign_policy_required :: "jobj \<Rightarrow> bool" where
  "sign_policy_required env =
     (let explicit = clean_env_value (jprop env ''SIGN_POLICY_REQUIRED'')
      in if explicit \<noteq> [] then explicit \<noteq> ''0'' else secrets_enforced env)"

definition role_allowed :: "string list \<Rightarrow> string \<Rightarrow> bool" where
  "role_allowed allowed role \<longleftrightarrow> ''*'' \<in> set allowed \<or> role \<in> set allowed"

definition control_plane_sign_actions :: "string list" where
  "control_plane_sign_actions = map to_lower
     [''RegisterSite'', ''BindDomain'', ''SetSiteRuntime'', ''UpsertSiteRuntime'', ''SetActiveVersion'', ''GrantRole'',
      ''RegisterGateway'', ''UpdateGatewayStatus'', ''SetPolicyMode'', ''PublishPolicySnapshot'', ''RevokePolicySnapshot'',
      ''SetSiteServingPolicy'', ''SetSiteFundingState'', ''RegisterHBNode'', ''UpdateHBNodeStatus'']"

definition allow_control_plane_sign :: "jobj \<Rightarrow> bool" where
  "allow_control_plane_sign env \<longleftrightarrow> clean_env_value (jprop env ''ALLOW_CONTROL_PLANE_SIGN'') = ''1''"

definition is_control_plane_sign_action :: "string \<Rightarrow> bool" where
  "is_control_plane_sign_action action \<longleftrightarrow> to_lower (trim action) \<in> set control_plane_sign_actions"

record sign_context =
  sx_action :: string
  sx_role :: string
  sx_siteId :: string
  sx_signatureRef :: string

definition resolve_sign_request_context :: "jobj \<Rightarrow> jobj \<Rightarrow> worker_error + sign_context" where
  "resolve_sign_request_context body env =
     Prelude.sum_bind (sign_site_id body (body_payload body)) (\<lambda>site.
     Prelude.sum_bind (resolve_canonical_signature_ref body env) (\<lambda>sig_ref.
     Inr \<lparr>sx_action = first_non_empty_string [jprop body ''action'', jprop body ''Action''],
          sx_role = first_non_empty_string [jprop body ''role'', jprop body ''Role'', jprop body ''Actor-Role''],
          sx_siteId = site, sx_signatureRef = sig_ref\<rparr>))"

text \<open>One scope of the policy. A lookup of a name that every object has finds an inherited member: what that
  member has under the action's name is asked, and a string is searched for the role.\<close>

record scope_messages =
  sm_required :: string
  sm_action :: string
  sm_role :: string

definition site_messages :: scope_messages where
  "site_messages = \<lparr>sm_required = ''sign_policy_site_required'', sm_action = ''sign_action_not_allowed_for_site'',
     sm_role = ''sign_role_not_allowed_for_site''\<rparr>"

definition signature_ref_messages :: scope_messages where
  "signature_ref_messages = \<lparr>sm_required = ''sign_policy_signature_ref_required'',
     sm_action = ''sign_action_not_allowed_for_signature_ref'', sm_role = ''sign_role_not_allowed_for_signature_ref''\<rparr>"

definition check_scope ::
  "'s worker_world \<Rightarrow> scope_messages \<Rightarrow> policy_map \<Rightarrow> string \<Rightarrow> string \<Rightarrow> string \<Rightarrow> worker_error + unit" where
  "check_scope w msgs family selector action role =
     (if selector = [] then Inl (WHttp 400 (sm_required msgs))
      else (case table_lookup family selector of
          None \<Rightarrow> Inl (WHttp 403 (sm_action msgs))
        | Some (Inherited name) \<Rightarrow>
            (let v = ww_builtin w name action in
             if \<not> truthy v then Inl (WHttp 403 (sm_action msgs))
             else (case v of
                 JStr s \<Rightarrow> if includes_str s ''*'' \<or> includes_str s role then Inr () else Inl (WHttp 403 (sm_role msgs))
               | _ \<Rightarrow> Inl type_error))
        | Some (Own rules) \<Rightarrow>
            (case table_lookup rules action of
               None \<Rightarrow> Inl (WHttp 403 (sm_action msgs))
             | Some (Inherited _) \<Rightarrow> Inl type_error
             | Some (Own roles) \<Rightarrow>
                 if role_allowed roles role then Inr () else Inl (WHttp 403 (sm_role msgs)))))"

definition check_family ::
  "'s worker_world \<Rightarrow> scope_messages \<Rightarrow> policy_map option \<Rightarrow> string \<Rightarrow> sign_context \<Rightarrow> worker_error + unit" where
  "check_family w msgs family selector ctx =
     (case family of None \<Rightarrow> Inr () | Some m \<Rightarrow> check_scope w msgs m selector (sx_action ctx) (sx_role ctx))"

definition enforce_sign_policy :: "'s worker_world \<Rightarrow> jobj \<Rightarrow> jobj \<Rightarrow> worker_error + sign_context" where
  "enforce_sign_policy w env body =
     Prelude.sum_bind (resolve_sign_request_context body env) (\<lambda>ctx.
       if sx_action ctx \<noteq> [] \<and> is_control_plane_sign_action (sx_action ctx) \<and> \<not> allow_control_plane_sign env
       then Inl (WHttp 403 ''sign_control_plane_action_blocked'')
       else
         let raw = resolve_sign_policy_raw env in
         if raw = [] then (if sign_policy_required env then Inl (WHttp 500 ''missing_sign_policy'') else Inr ctx)
         else (case parse_sign_policy w raw of
             None \<Rightarrow> Inl (WHttp 500 ''invalid_sign_policy'')
           | Some policy \<Rightarrow>
               if sx_action ctx = [] then Inl (WHttp 400 ''sign_policy_action_required'')
               else if sx_role ctx = [] then Inl (WHttp 400 ''sign_policy_role_required'')
               else if pl_sites policy = None \<and> pl_signatureRefs policy = None then Inl (WHttp 403 ''sign_policy_empty'')
               else
                 Prelude.sum_bind (check_family w site_messages (pl_sites policy) (sx_siteId ctx) ctx) (\<lambda>_.
                 Prelude.sum_bind (check_family w signature_ref_messages (pl_signatureRefs policy)
                   (sx_signatureRef ctx) ctx) (\<lambda>_.
                 Inr ctx))))"

section \<open>Signing\<close>

definition parse_unix_or_iso_timestamp :: "'s worker_world \<Rightarrow> jsval \<Rightarrow> int option" where
  "parse_unix_or_iso_timestamp w v =
     (case v of
        JNum (Fin q) \<Rightarrow> Some (js_trunc q)
      | JStr s \<Rightarrow>
          let trimmed = trim s in
          if trimmed = [] then None
          else if list_all is_digit trimmed then finite_parse_int trimmed
          else map_option (\<lambda>ms. ms div 1000) (ww_date w trimmed)
      | _ \<Rightarrow> None)"

definition any_of :: "jobj \<Rightarrow> string list \<Rightarrow> jsval" where
  "any_of cmd ks = (let v = env_first cmd ks in if truthy v then v else JStr [])"

definition canonical_detached_message :: "'s worker_world \<Rightarrow> jobj \<Rightarrow> string" where
  "canonical_detached_message w cmd =
     (let payload = env_first cmd [''payload'', ''Payload''] in
      join_with ''|''
        [wk_text w (any_of cmd [''action'', ''Action'']),
         wk_text w (any_of cmd [''tenant'', ''Tenant'', ''Tenant-Id'']),
         wk_text w (any_of cmd [''actor'', ''Actor'']),
         wk_text w (any_of cmd [''ts'', ''timestamp'', ''X-Timestamp'']),
         wk_text w (any_of cmd [''nonce'', ''Nonce'', ''X-Nonce'']),
         wk_text w (any_of cmd [''role'', ''Role'', ''Actor-Role'']),
         stable_stringify (ww_show w) (if truthy payload then payload else JObj []),
         wk_text w (any_of cmd [''requestId'', ''Request-Id''])])"

definition sign_command :: "'s worker_world \<Rightarrow> jobj \<Rightarrow> jobj \<Rightarrow> worker_error + string" where
  "sign_command w env cmd =
     (let priv = jprop env ''WORKER_ED25519_PRIV_HEX'' in
      Prelude.sum_bind (require_secret w env ''WORKER_ED25519_PRIV_HEX'' ''missing_secret:WORKER_ED25519_PRIV_HEX'') (\<lambda>_.
        if \<not> truthy priv then Inl (WHttp 500 ''missing_secret:WORKER_ED25519_PRIV_HEX'')
        else
          Prelude.sum_bind (hex_to_bytes (wk_text w priv)) (\<lambda>key.
            case ww_sign w key (utf8_bytes (canonical_detached_message w cmd)) of
              None \<Rightarrow> Inl (WOther ''sign'')
            | Some sig \<Rightarrow> Inr (bytes_hex sig))))"

definition sign_allowed_keys :: "string list" where
  "sign_allowed_keys =
     [''action'', ''Action'', ''tenant'', ''Tenant'', ''actor'', ''Actor'', ''timestamp'', ''ts'', ''nonce'', ''Nonce'', ''role'',
      ''Role'', ''Actor-Role'', ''siteId'', ''SiteId'', ''Site-Id'', ''signatureRef'', ''SignatureRef'', ''Signature-Ref'',
      ''payload'', ''Payload'', ''requestId'', ''Request-Id'']"

text \<open>A body that is an array has its positions for keys.\<close>

definition sign_body_object :: "jsval \<Rightarrow> worker_error + jobj" where
  "sign_body_object body =
     (case body of
        JObj obj \<Rightarrow> if list_all (\<lambda>(k, _). k \<in> set sign_allowed_keys) obj then Inr obj else Inl (WHttp 400 ''unknown_field'')
      | JArr [] \<Rightarrow> Inr []
      | JArr _ \<Rightarrow> Inl (WHttp 400 ''unknown_field'')
      | _ \<Rightarrow> Inl (WHttp 400 ''invalid_body''))"

definition sign_nonce :: "jobj \<Rightarrow> worker_error + string" where
  "sign_nonce body =
     (case env_first body [''nonce'', ''Nonce''] of
        JStr s \<Rightarrow> if s = [] \<or> length s > 128 then Inl (WHttp 400 ''missing_nonce'') else Inr s
      | _ \<Rightarrow> Inl (WHttp 400 ''missing_nonce''))"

definition sign_window :: "'s worker_world \<Rightarrow> jobj \<Rightarrow> worker_error + int" where
  "sign_window w env =
     (case env_int w env [''SIGN_TS_WINDOW''] ''300'' of
        Some n \<Rightarrow> if \<not> js_finite n \<or> n \<le> 0 then Inl (WHttp 500 ''invalid_sign_ts_window'') else Inr n
      | None \<Rightarrow> Inl (WHttp 500 ''invalid_sign_ts_window''))"

definition sign_timestamp :: "'s worker_world \<Rightarrow> jobj \<Rightarrow> int option" where
  "sign_timestamp w body =
     (let ts = jprop body ''ts''
      in parse_unix_or_iso_timestamp w (if ts = JUndef \<or> ts = JNull then jprop body ''timestamp'' else ts))"

definition fresh_timestamp :: "int \<Rightarrow> int \<Rightarrow> int option \<Rightarrow> bool" where
  "fresh_timestamp now window ts \<longleftrightarrow> (case ts of Some t \<Rightarrow> t \<noteq> 0 \<and> \<not> \<bar>now - t\<bar> > window | None \<Rightarrow> False)"

definition prepare_sign :: "'s worker_world \<Rightarrow> jobj \<Rightarrow> worker_request \<Rightarrow> worker_error + (jobj \<times> sign_context \<times> string \<times> int)" where
  "prepare_sign w env rq =
     Prelude.sum_bind (json_body w rq ''invalid_json'') (\<lambda>raw.
     Prelude.sum_bind (sign_body_object raw) (\<lambda>body.
     Prelude.sum_bind (canonicalize_sign_body body env) (\<lambda>sign_body.
     Prelude.sum_bind (enforce_sign_policy w env sign_body) (\<lambda>ctx.
     Prelude.sum_bind (sign_nonce sign_body) (\<lambda>nonce.
     Prelude.sum_bind (sign_window w env) (\<lambda>window.
     Inr (sign_body, ctx, nonce, window)))))))"

definition handle_sign_post :: "'s worker_world \<Rightarrow> jobj \<Rightarrow> worker_request \<Rightarrow> ('s, worker_reply) wk" where
  "handle_sign_post w env rq =
     wk_bind (wk_lift (require_sign_token env rq)) (\<lambda>_.
     wk_bind (sign_rate_limit w env rq) (\<lambda>_.
     wk_bind (wk_lift (prepare_sign w env rq)) (\<lambda>(body, ctx, nonce, window).
     wk_bind (now_seconds w) (\<lambda>now.
       if \<not> fresh_timestamp now window (sign_timestamp w body) then wk_throw (WHttp 400 ''stale_timestamp'')
       else
         wk_bind (check_replay w env ''sign'' nonce) (\<lambda>_.
           if over_bytes (env_int w env [''SIGN_MAX_BYTES''] ''4096'') (json_stringify (ww_show w) (JObj body))
           then wk_throw (WHttp 413 ''payload_too_large'')
           else
             wk_bind (wk_lift (sign_command w env body)) (\<lambda>signature.
             json_reply [(''signature'', JStr signature), (''signatureRef'', JStr (sx_signatureRef ctx))] 200))))))"

section \<open>Properties\<close>

text \<open>What a family of the policy says: the selector has a rule for the action that names the role or all roles.\<close>

definition permits :: "policy_map \<Rightarrow> string \<Rightarrow> string \<Rightarrow> string \<Rightarrow> bool" where
  "permits family selector action role \<longleftrightarrow>
     (case map_of family selector of
        None \<Rightarrow> False
      | Some rules \<Rightarrow> (case map_of rules action of None \<Rightarrow> False | Some roles \<Rightarrow> role_allowed roles role))"

lemma check_scope_permits:
  assumes "selector \<notin> set object_prototype_keys" and "action \<notin> set object_prototype_keys"
  shows "check_scope w msgs family selector action role = Inr u
    \<longleftrightarrow> selector \<noteq> [] \<and> permits family selector action role"
  using assms by (auto simp: check_scope_def permits_def table_lookup_def split: option.split)

definition family_permits :: "policy_map option \<Rightarrow> string \<Rightarrow> sign_context \<Rightarrow> bool" where
  "family_permits family selector ctx \<longleftrightarrow>
     (case family of None \<Rightarrow> True | Some m \<Rightarrow> selector \<noteq> [] \<and> permits m selector (sx_action ctx) (sx_role ctx))"

lemma check_family_permits:
  assumes "selector \<notin> set object_prototype_keys" and "sx_action ctx \<notin> set object_prototype_keys"
  shows "check_family w msgs family selector ctx = Inr u \<longleftrightarrow> family_permits family selector ctx"
  using check_scope_permits [OF assms] by (auto simp: check_family_def family_permits_def split: option.split)

text \<open>
  The sign policy is applied exactly: with a policy that can be read, and names that are no members of every
  object, a body passes if and only if it names an action and a role, the action is not one of the control
  plane unless those are allowed, the policy has a family, and each family it has permits the role the
  action for the body's site id or signature reference.
\<close>

theorem sign_policy_exact:
  assumes "resolve_sign_request_context body env = Inr ctx"
    and "resolve_sign_policy_raw env \<noteq> []" and "parse_sign_policy w (resolve_sign_policy_raw env) = Some policy"
    and "sx_siteId ctx \<notin> set object_prototype_keys" and "sx_signatureRef ctx \<notin> set object_prototype_keys"
    and "sx_action ctx \<notin> set object_prototype_keys"
  shows "enforce_sign_policy w env body = Inr ctx \<longleftrightarrow>
      sx_action ctx \<noteq> [] \<and> sx_role ctx \<noteq> []
    \<and> (is_control_plane_sign_action (sx_action ctx) \<longrightarrow> allow_control_plane_sign env)
    \<and> (pl_sites policy \<noteq> None \<or> pl_signatureRefs policy \<noteq> None)
    \<and> family_permits (pl_sites policy) (sx_siteId ctx) ctx
    \<and> family_permits (pl_signatureRefs policy) (sx_signatureRef ctx) ctx"
  using assms
  by (auto simp: enforce_sign_policy_def Let_def Prelude.sum_bind_Inr check_family_permits)

definition demo_policy_json :: jobj where
  "demo_policy_json = [(''sites'', JObj [(''s1'', JObj [(''Publish'', JArr [JStr ''editor''])])])]"

definition demo_policy :: sign_policy where
  "demo_policy = \<lparr>pl_sites = Some [(''s1'', [(''Publish'', [''editor''])])], pl_signatureRefs = None\<rparr>"

definition demo_sign_env :: jobj where
  "demo_sign_env =
     [(''TEST_IN_MEMORY_KV'', JStr ''1''), (''SIGN_POLICY_JSON'', JStr ''P''), (''WORKER_SIGN_TOKEN'', JStr ''t1''),
      (''WORKER_STRICT_TOKEN_SCOPES'', JStr ''0''), (''SIGN_RATE_LIMIT_MAX'', JStr ''0''), (''SIGN_TS_WINDOW'', JStr ''300''),
      (''SIGN_MAX_BYTES'', JStr ''4096''), (''REPLAY_TTL'', JStr ''600''), (''WORKER_ED25519_PRIV_HEX'', JStr ''01'')]"

definition demo_sign_body :: jobj where
  "demo_sign_body = [(''action'', JStr ''Publish''), (''role'', JStr ''editor''), (''siteId'', JStr ''s1''),
     (''nonce'', JStr ''n1''), (''ts'', JNum (Fin 1000))]"

definition demo_sign_world :: "unit worker_world" where
  "demo_sign_world = demo_worker_world (\<lambda>s.
     if s = ''P'' then Inr (JObj demo_policy_json) else if s = ''B'' then Inr (JObj demo_sign_body) else Inl ''SyntaxError'')"

lemma sign_policy_exact_witness:
  "enforce_sign_policy demo_sign_world demo_sign_env demo_sign_body
     = Inr \<lparr>sx_action = ''Publish'', sx_role = ''editor'', sx_siteId = ''s1'', sx_signatureRef = ''worker-ed25519''\<rparr>"
proof -
  have c: "resolve_sign_request_context demo_sign_body demo_sign_env
    = Inr \<lparr>sx_action = ''Publish'', sx_role = ''editor'', sx_siteId = ''s1'', sx_signatureRef = ''worker-ed25519''\<rparr>"
    by code_simp
  have r: "resolve_sign_policy_raw demo_sign_env \<noteq> []"
    "parse_sign_policy demo_sign_world (resolve_sign_policy_raw demo_sign_env) = Some demo_policy" by code_simp+
  have k: "is_control_plane_sign_action ''Publish'' = False" by code_simp
  show ?thesis
    by (subst sign_policy_exact [OF c r])
      (simp_all add: object_prototype_keys_def demo_policy_def family_permits_def permits_def role_allowed_def k)
qed

text \<open>A site named \<open>constructor\<close>, an action \<open>name\<close> and the role \<open>Object\<close> pass every policy of sites, for the
  name of the function \<open>Object\<close> is the text searched.\<close>

lemma inherited_scope_passes:
  assumes "map_of family ''constructor'' = None" and "ww_builtin w ''constructor'' ''name'' = JStr ''Object''"
  shows "check_scope w msgs family ''constructor'' ''name'' ''Object'' = Inr ()"
  using assms by (simp add: check_scope_def table_lookup_def object_prototype_keys_def)

lemma handle_sign_post_Inr:
  assumes "handle_sign_post w env rq st = (Inr rep, st')"
  obtains body ctx nonce window now signature where "require_sign_token env rq = Inr ()"
    "prepare_sign w env rq = Inr (body, ctx, nonce, window)"
    "fresh_timestamp now window (sign_timestamp w body)" "sign_command w env body = Inr signature"
    "rep = \<lparr>wr_status = 200, wr_body = JsonBody (JObj [(''signature'', JStr signature),
      (''signatureRef'', JStr (sx_signatureRef ctx))])\<rparr>"
    "\<exists>i. now = ww_clock w i"
  using assms unfolding handle_sign_post_def
  by (auto simp: wk_bind_Inr now_seconds_def wk_tick_def json_reply_def split: if_splits intro!: that)

lemma require_sign_token_Inr:
  "require_sign_token env rq = Inr () \<Longrightarrow> clean_env_value (jprop env ''WORKER_SIGN_TOKEN'') \<noteq> []
     \<and> worker_bearer_token rq = clean_env_value (jprop env ''WORKER_SIGN_TOKEN'')"
  by (auto simp: require_sign_token_def present_token_def Prelude.sum_bind_Inr Let_def split: if_splits)

lemma enforce_sign_policy_Inr:
  assumes "enforce_sign_policy w env body = Inr ctx"
  shows "resolve_sign_request_context body env = Inr ctx
    \<and> (is_control_plane_sign_action (sx_action ctx) \<longrightarrow> sx_action ctx = [] \<or> allow_control_plane_sign env)
    \<and> (resolve_sign_policy_raw env = [] \<longrightarrow> \<not> sign_policy_required env)
    \<and> (resolve_sign_policy_raw env \<noteq> [] \<longrightarrow>
        (\<exists>policy. parse_sign_policy w (resolve_sign_policy_raw env) = Some policy
          \<and> (pl_sites policy \<noteq> None \<or> pl_signatureRefs policy \<noteq> None)
          \<and> check_family w site_messages (pl_sites policy) (sx_siteId ctx) ctx = Inr ()
          \<and> check_family w signature_ref_messages (pl_signatureRefs policy) (sx_signatureRef ctx) ctx = Inr ()))"
  using assms
  by (auto simp: enforce_sign_policy_def Prelude.sum_bind_Inr Let_def split: if_splits option.splits)


definition demo_sign_request :: worker_request where
  "demo_sign_request = \<lparr>wq_method = ''POST'', wq_path = [''sign''],
     wq_headers = (\<lambda>h. if h = ''authorization'' then Some ''Bearer t1'' else None), wq_body = ''B''\<rparr>"

definition demo_canonical_body :: jobj where
  "demo_canonical_body = demo_sign_body @ [(''payload'', JObj [(''siteId'', JStr ''s1'')]),
     (''signatureRef'', JStr ''worker-ed25519'')]"


section \<open>What a signature binds\<close>

lemma bar_split:
  assumes "a @ CHR ''|'' # x = b @ CHR ''|'' # y" and "CHR ''|'' \<notin> set a" and "CHR ''|'' \<notin> set b"
  shows "a = b \<and> x = y"
  using assms by (induction a arbitrary: b) (auto simp: Cons_eq_append_conv)

lemma bar_split_last:
  assumes "x @ CHR ''|'' # a = y @ CHR ''|'' # b" and "CHR ''|'' \<notin> set a" and "CHR ''|'' \<notin> set b"
  shows "x = y \<and> a = b"
proof -
  have "rev a @ CHR ''|'' # rev x = rev b @ CHR ''|'' # rev y" using assms(1) [THEN arg_cong [of _ _ rev]] by simp
  from bar_split [OF this] assms(2,3) show ?thesis by auto
qed

definition message_fields :: "'s worker_world \<Rightarrow> jobj \<Rightarrow> string list" where
  "message_fields w cmd = map (\<lambda>ks. wk_text w (any_of cmd ks))
     [[''action'', ''Action''], [''tenant'', ''Tenant'', ''Tenant-Id''], [''actor'', ''Actor''],
      [''ts'', ''timestamp'', ''X-Timestamp''], [''nonce'', ''Nonce'', ''X-Nonce''], [''role'', ''Role'', ''Actor-Role''],
      [''requestId'', ''Request-Id'']]"

definition message_payload :: "'s worker_world \<Rightarrow> jobj \<Rightarrow> string" where
  "message_payload w cmd =
     (let payload = env_first cmd [''payload'', ''Payload'']
      in stable_stringify (ww_show w) (if truthy payload then payload else JObj []))"

text \<open>
  The signed message binds every field as long as no field contains the separator: two commands with the same
  message, neither of which has a bar in its action, tenant, actor, time stamp, nonce, role or request
  id, agree in all of these and in the canonical text of the payload.
\<close>

theorem detached_message_binds:
  assumes "canonical_detached_message w cmd = canonical_detached_message w cmd'"
    and "\<forall>s \<in> set (message_fields w cmd @ message_fields w cmd'). CHR ''|'' \<notin> set s"
  shows "message_fields w cmd = message_fields w cmd' \<and> message_payload w cmd = message_payload w cmd'"
proof -
  obtain a1 a2 a3 a4 a5 a6 a7 where a: "message_fields w cmd = [a1, a2, a3, a4, a5, a6, a7]"
    by (simp add: message_fields_def)
  obtain b1 b2 b3 b4 b5 b6 b7 where b: "message_fields w cmd' = [b1, b2, b3, b4, b5, b6, b7]"
    by (simp add: message_fields_def)
  let ?p = "message_payload w cmd" and ?q = "message_payload w cmd'"
  have m: "canonical_detached_message w cmd = a1 @ CHR ''|'' # a2 @ CHR ''|'' # a3 @ CHR ''|'' # a4 @ CHR ''|''
      # a5 @ CHR ''|'' # a6 @ CHR ''|'' # ?p @ CHR ''|'' # a7"
    using a by (simp add: canonical_detached_message_def message_fields_def message_payload_def Let_def)
  have m': "canonical_detached_message w cmd' = b1 @ CHR ''|'' # b2 @ CHR ''|'' # b3 @ CHR ''|'' # b4 @ CHR ''|''
      # b5 @ CHR ''|'' # b6 @ CHR ''|'' # ?q @ CHR ''|'' # b7"
    using b by (simp add: canonical_detached_message_def message_fields_def message_payload_def Let_def)
  have no: "CHR ''|'' \<notin> set x" if "x \<in> {a1, a2, a3, a4, a5, a6, a7, b1, b2, b3, b4, b5, b6, b7}" for x
    using assms(2) that by (auto simp: a b)
  note e1 = bar_split [OF assms(1) [unfolded m m'] no no, simplified]
  note e2 = bar_split [OF e1 [THEN conjunct2] no no, simplified]
  note e3 = bar_split [OF e2 [THEN conjunct2] no no, simplified]
  note e4 = bar_split [OF e3 [THEN conjunct2] no no, simplified]
  note e5 = bar_split [OF e4 [THEN conjunct2] no no, simplified]
  note e6 = bar_split [OF e5 [THEN conjunct2] no no, simplified]
  note e7 = bar_split_last [OF e6 [THEN conjunct2] no no, simplified]
  show ?thesis using e1 e2 e3 e4 e5 e6 e7 by (simp add: a b)
qed

lemma detached_message_witness:
  "message_payload demo_sign_world demo_sign_body = message_payload demo_sign_world (rev demo_sign_body)"
proof -
  have "canonical_detached_message demo_sign_world demo_sign_body
      = canonical_detached_message demo_sign_world (rev demo_sign_body)" by code_simp
  moreover have "\<forall>s \<in> set (message_fields demo_sign_world demo_sign_body @ message_fields demo_sign_world (rev demo_sign_body)).
      CHR ''|'' \<notin> set s" by code_simp
  ultimately show ?thesis using detached_message_binds [of demo_sign_world demo_sign_body "rev demo_sign_body"] by simp
qed

text \<open>Fields are joined without escaping, so a command of one role has the message of a command of another.\<close>

definition harmless_command :: jobj where
  "harmless_command = [(''action'', JStr ''Publish''), (''tenant'', JStr ''t''), (''actor'', JStr ''a|1|n1|admin|{}|r1''),
     (''ts'', JStr ''2''), (''nonce'', JStr ''n2''), (''role'', JStr ''viewer''), (''payload'', JObj []), (''requestId'', JStr ''r2'')]"

definition forged_command :: jobj where
  "forged_command = [(''action'', JStr ''Publish''), (''tenant'', JStr ''t''), (''actor'', JStr ''a''), (''ts'', JStr ''1''),
     (''nonce'', JStr ''n1''), (''role'', JStr ''admin''), (''payload'', JObj []), (''requestId'', JStr ''r1|2|n2|viewer|{}|r2'')]"

lemma detached_message_ambiguous:
  "canonical_detached_message w harmless_command = canonical_detached_message w forged_command"
  by (simp add: canonical_detached_message_def harmless_command_def forged_command_def any_of_def jprop_def
      wk_text_def Let_def)

end
