(* ===== verification/WorkerNotify.thy ===== *)
theory WorkerNotify
  imports WorkerGuards
begin

text \<open>
  Notifications (\<open>POST /notify\<close> in \<open>src/workers/secrets-worker/src/index.ts\<close>): the checks of addresses and
  webhook hosts, the signature, the deduplication, the circuit breaker kept in the namespace, and the
  delivery with its retries. A request to another server is recorded in \<open>wk_sent\<close>; time-outs are the
  \<open>AbortError\<close> outcome of \<open>ww_fetch\<close>.
\<close>

section \<open>Addresses and hosts\<close>

text \<open>\<open>/^[^@\s]+@[^@\s]+\.[^@\s]+$/\<close>: one \<open>@\<close>, no white space, and a dot inside the part after it.\<close>

definition inner_dot :: "string \<Rightarrow> bool" where
  "inner_dot d \<longleftrightarrow> list_ex (\<lambda>i. d ! i = CHR ''.'') [1..<length d - 1]"

definition validate_email :: "string \<Rightarrow> bool" where
  "validate_email email \<longleftrightarrow>
     list_all (\<lambda>c. \<not> js_ws c) email
     \<and> (case split_on CHR ''@'' email of [l, d] \<Rightarrow> l \<noteq> [] \<and> inner_dot d | _ \<Rightarrow> False)"

definition validate_url :: "'s worker_world \<Rightarrow> string \<Rightarrow> bool" where
  "validate_url w url \<longleftrightarrow>
     url \<noteq> [] \<and> (case ww_url w url of None \<Rightarrow> False | Some u \<Rightarrow> up_protocol u \<in> {''http:'', ''https:''})"

definition deny_hosts :: "string list" where
  "deny_hosts = [''localhost'', ''127.0.0.1'', ''0.0.0.0'', ''::1'', ''metadata.google.internal'']"

text \<open>\<open>/^172\.(1[6-9]|2[0-9]|3[0-1])\./\<close>\<close>

definition private_172 :: "string \<Rightarrow> bool" where
  "private_172 h \<longleftrightarrow>
     starts_with h ''172.''
     \<and> (case drop 4 h of
          a # b # c # _ \<Rightarrow> c = CHR ''.''
            \<and> (a = CHR ''1'' \<and> b \<in> set ''6789'' \<or> a = CHR ''2'' \<and> is_digit b \<or> a = CHR ''3'' \<and> b \<in> set ''01'')
        | _ \<Rightarrow> False)"

definition is_private_ip :: "string \<Rightarrow> bool" where
  "is_private_ip h \<longleftrightarrow>
     starts_with h ''10.'' \<or> starts_with h ''192.168.'' \<or> private_172 h \<or> starts_with h ''169.254.''
     \<or> starts_with h ''127.''"

definition allow_entries :: "string \<Rightarrow> string list" where
  "allow_entries raw = filter (\<lambda>h. h \<noteq> []) (map (\<lambda>h. to_lower (trim h)) (split_on CHR '','' raw))"

definition host_allowed :: "url_parts \<Rightarrow> string \<Rightarrow> bool" where
  "host_allowed u raw =
     (let host = to_lower (up_hostname u); allow = allow_entries raw in
      if host \<in> set deny_hosts then False
      else if is_private_ip host then False
      else if allow = [] then False
      else if ''*'' \<in> set allow then True
      else list_ex (\<lambda>a. host = a \<or> ends_with host (CHR ''.'' # a)) allow)"

definition webhook_timeout_ms :: "'s worker_world \<Rightarrow> jobj \<Rightarrow> int" where
  "webhook_timeout_ms w env =
     (case env_int w env [''HTTP_TIMEOUT_MS''] ''8000'' of Some n \<Rightarrow> if n > 0 then n else 8000 | None \<Rightarrow> 8000)"

section \<open>The signature\<close>

text \<open>A signature that is well formed and wrong is counted twice, once where it is found wrong and once where
  the exception is caught.\<close>

definition verify_notify_signature :: "'s worker_world \<Rightarrow> jobj \<Rightarrow> worker_request \<Rightarrow> string \<Rightarrow> ('s, unit) wk" where
  "verify_notify_signature w env rq body =
     (let secret = jprop env ''NOTIFY_HMAC_SECRET'';
          optional = (jprop env ''NOTIFY_HMAC_OPTIONAL'' = JStr ''1'');
          invalid = wk_bind (wk_inc ''worker_notify_hmac_invalid_total'') (\<lambda>_. wk_throw (WHttp 401 ''invalid_signature''))
      in wk_bind (wk_lift (require_secret w env ''NOTIFY_HMAC_SECRET'' ''missing_notify_hmac_secret'')) (\<lambda>_.
         if \<not> truthy secret then wk_return ()
         else
           let sig = wq_header rq ''x-signature'' in
           if sig = [] then
             (if optional then wk_return ()
              else wk_bind (wk_inc ''worker_notify_hmac_invalid_total'') (\<lambda>_. wk_throw (WHttp 401 ''missing_signature'')))
           else wk_catch
             (wk_bind (wk_lift (hex_to_bytes (normalize_worker_signature sig))) (\<lambda>bs.
                if ww_hmac w (wk_text w secret) bs body then wk_return () else invalid))
             (\<lambda>_. invalid)))"

section \<open>The circuit breaker\<close>

definition breaker_store_key :: "string \<Rightarrow> string" where
  "breaker_store_key k = ''notify:breaker:'' @ k"

definition breaker_idle :: jsval where
  "breaker_idle = JObj [(''count'', jint 0), (''openUntil'', jint 0)]"

definition breaker_state :: "'s worker_world \<Rightarrow> bool \<Rightarrow> string \<Rightarrow> ('s, jsval) wk" where
  "breaker_state w mem k =
     wk_bind (kv_read w mem (breaker_store_key k)) (\<lambda>raw.
       if raw = None \<or> raw = Some [] then wk_return breaker_idle
       else (case ww_parse w (the raw) of Inl _ \<Rightarrow> wk_return breaker_idle | Inr v \<Rightarrow> wk_return v))"

definition provider_inc :: "string \<Rightarrow> string \<Rightarrow> ('s, unit) wk" where
  "provider_inc name k =
     wk_bind (wk_inc name) (\<lambda>_.
     wk_when (k \<in> {''stripe'', ''paypal'', ''gopay''}) (wk_inc (name @ ''_'' @ k)))"

definition breaker_blocked :: "string \<Rightarrow> ('s, unit) wk" where
  "breaker_blocked k =
     wk_bind (provider_inc ''worker_notify_breaker_blocked_total'' k) (\<lambda>_.
     wk_throw (WHttp 429 ''notify_breaker_open''))"

record breaker_cfg =
  bc_threshold :: "int option"
  bc_cooldown :: "int option"

definition breaker_cfg_of :: "'s worker_world \<Rightarrow> jobj \<Rightarrow> breaker_cfg" where
  "breaker_cfg_of w env =
     \<lparr>bc_threshold = env_int w env [''NOTIFY_BREAKER_THRESHOLD''] ''5'',
      bc_cooldown = env_int w env [''NOTIFY_BREAKER_COOLDOWN''] ''300''\<rparr>"

definition save_breaker :: "'s worker_world \<Rightarrow> bool \<Rightarrow> breaker_cfg \<Rightarrow> string \<Rightarrow> jsval \<Rightarrow> ('s, unit) wk" where
  "save_breaker w mem cfg k v =
     kv_write w mem (breaker_store_key k) (json_stringify (ww_show w) v) None (map_option (\<lambda>n. n * 2) (bc_cooldown cfg))"

text \<open>\<open>openUntil && openUntil > now\<close>\<close>

definition open_at :: "'s worker_world \<Rightarrow> int \<Rightarrow> jsval \<Rightarrow> bool" where
  "open_at w now open_until \<longleftrightarrow> truthy open_until \<and> jn_less (Fin (of_int now)) (wk_number w open_until)"

definition breaker_allows :: "'s worker_world \<Rightarrow> bool \<Rightarrow> breaker_cfg \<Rightarrow> string \<Rightarrow> ('s, unit) wk" where
  "breaker_allows w mem cfg k =
     wk_bind (breaker_state w mem k) (\<lambda>st.
     wk_bind (now_seconds w) (\<lambda>now.
     wk_bind (wk_get_prop st ''openUntil'') (\<lambda>open_until.
       if open_at w now open_until then breaker_blocked k
       else
         wk_bind (wk_get_prop st ''count'') (\<lambda>cnt.
           if jn_le (jn_of (bc_threshold cfg)) (wk_number w cnt) then
             wk_bind (save_breaker w mem cfg k
               (JObj [(''count'', cnt), (''openUntil'', window_end now (bc_cooldown cfg))])) (\<lambda>_.
             breaker_blocked k)
           else wk_return ()))))"

text \<open>\<open>st.field = v\<close> on what was read: a primitive cannot be assigned to, and what is set on an array is not
  printed.\<close>

definition breaker_set :: "jsval \<Rightarrow> jsval \<Rightarrow> jsval \<Rightarrow> worker_error + jsval" where
  "breaker_set st cnt open_until =
     (case st of
        JObj obj \<Rightarrow> Inr (JObj (AList.update ''openUntil'' open_until (AList.update ''count'' cnt obj)))
      | JArr vs \<Rightarrow> Inr (JArr vs)
      | _ \<Rightarrow> Inl type_error)"

definition breaker_note :: "'s worker_world \<Rightarrow> bool \<Rightarrow> breaker_cfg \<Rightarrow> string \<Rightarrow> bool \<Rightarrow> ('s, unit) wk" where
  "breaker_note w mem cfg k success =
     wk_bind (breaker_state w mem k) (\<lambda>st.
     wk_bind (now_seconds w) (\<lambda>now.
     wk_bind (wk_get_prop st ''count'') (\<lambda>cnt.
     wk_bind (wk_get_prop st ''openUntil'') (\<lambda>open_until.
       let cnt' = (if success then jint 0 else js_add w (js_or cnt (jint 0)) (jint 1));
           open' = (if success then jint 0
             else if jn_le (jn_of (bc_threshold cfg)) (wk_number w cnt') then window_end now (bc_cooldown cfg)
             else if open_at w now open_until then open_until else jint 0)
       in wk_bind (wk_lift (breaker_set st cnt' open')) (\<lambda>v.
          wk_bind (save_breaker w mem cfg k v) (\<lambda>_.
          wk_when (open_at w now open') (provider_inc ''worker_notify_breaker_open_total'' k)))))))"

section \<open>Delivery\<close>

definition send_request :: "'s worker_world \<Rightarrow> http_request \<Rightarrow> ('s, fetch_outcome) wk" where
  "send_request w rq = wk_bind (wk_tick (\<lambda>n. ww_fetch w n rq)) (\<lambda>out st.
     (Inr out, st\<lparr>wk_sent := rq # wk_sent st\<rparr>))"

text \<open>\<open>n\<close> is the number of rounds the loop \<open>while (attempt < maxAttempts)\<close> has left.\<close>

primrec send_attempts ::
  "nat \<Rightarrow> 's worker_world \<Rightarrow> ('s, unit) wk \<Rightarrow> int \<Rightarrow> string \<Rightarrow> http_request \<Rightarrow> int \<Rightarrow> ('s, unit) wk" where
  "send_attempts 0 w note max_retry label rq attempt = wk_throw (WHttp 502 (label @ ''_failed''))"
| "send_attempts (Suc n) w note max_retry label rq attempt =
     wk_bind (send_request w rq) (\<lambda>out.
       case out of
         Threw False \<Rightarrow> wk_throw (WOther ''fetch'')
       | _ \<Rightarrow>
           if (case out of Responded rp \<Rightarrow> rp_ok rp | _ \<Rightarrow> False) then wk_return ()
           else if attempt + 1 < max_retry then
             wk_bind (wk_inc ''worker_notify_retry_total'') (\<lambda>_.
             send_attempts n w note max_retry label rq (attempt + 1))
           else
             wk_bind (wk_inc ''worker_notify_failed_total'') (\<lambda>_.
             wk_bind note (\<lambda>_.
             wk_throw (WHttp 502 (label @ ''_failed'')))))"

definition send_with_retry ::
  "'s worker_world \<Rightarrow> ('s, unit) wk \<Rightarrow> int option \<Rightarrow> string \<Rightarrow> http_request \<Rightarrow> ('s, unit) wk" where
  "send_with_retry w note max_retry label rq =
     (case max_retry of
        None \<Rightarrow> wk_throw (WHttp 502 (label @ ''_failed''))
      | Some n \<Rightarrow> send_attempts (nat (max 1 n)) w note n label rq 0)"

definition allowed_breaker_keys :: "string list" where
  "allowed_breaker_keys = [''stripe'', ''paypal'', ''gopay'', ''webhook'', ''sendgrid'', ''notify'']"

definition breaker_key_of :: "worker_request \<Rightarrow> jsval \<Rightarrow> jsval \<Rightarrow> string" where
  "breaker_key_of rq webhook to =
     (let h = trim (wq_header rq ''x-breaker-key'')
      in if h \<noteq> [] \<and> h \<in> set allowed_breaker_keys then h
         else if truthy webhook then ''webhook'' else if truthy to then ''sendgrid'' else ''notify'')"

definition webhook_request :: "'s worker_world \<Rightarrow> jsval \<Rightarrow> string \<Rightarrow> http_request" where
  "webhook_request w body url =
     \<lparr>rq_url = url, rq_method = ''POST'', rq_headers = [(''content-type'', ''application/json'')],
      rq_body = Some (json_stringify (ww_show w) (JObj
        [(''to'', wk_opt body ''to''), (''subject'', wk_opt body ''subject''), (''text'', wk_opt body ''text''),
         (''html'', wk_opt body ''html''), (''data'', wk_opt body ''data'')]))\<rparr>"

definition sendgrid_url :: string where
  "sendgrid_url = ''https://api.sendgrid.com/v3/mail/send''"

definition sendgrid_request :: "'s worker_world \<Rightarrow> jobj \<Rightarrow> jsval \<Rightarrow> http_request" where
  "sendgrid_request w env body =
     \<lparr>rq_url = sendgrid_url, rq_method = ''POST'',
      rq_headers = [(''content-type'', ''application/json''),
        (''authorization'', ''Bearer '' @ wk_text w (jprop env ''SENDGRID_KEY''))],
      rq_body = Some (json_stringify (ww_show w) (JObj
        [(''personalizations'', JArr [JObj [(''to'', JArr [JObj [(''email'', wk_opt body ''to'')]])]]),
         (''from'', JObj [(''email'', js_or (jprop env ''NOTIFY_FROM'') (JStr ''no-reply@example.com''))]),
         (''subject'', js_or (wk_opt body ''subject'') (JStr ''Notification'')),
         (''content'', JArr [JObj
            [(''type'', JStr (if truthy (wk_opt body ''html'') then ''text/html'' else ''text/plain'')),
             (''value'', js_or (wk_opt body ''html'') (js_or (wk_opt body ''text'') (JStr [])))]])]))\<rparr>"

definition deliver ::
  "'s worker_world \<Rightarrow> jobj \<Rightarrow> string \<Rightarrow> string \<Rightarrow> string \<Rightarrow> http_request \<Rightarrow> ('s, worker_reply) wk" where
  "deliver w env k label via rq =
     (let mem = memory_mode w env; cfg = breaker_cfg_of w env in
      wk_bind (send_with_retry w (breaker_note w mem cfg k False)
        (env_int w env [''NOTIFY_RETRY_MAX''] ''3'') label rq) (\<lambda>_.
      wk_bind (wk_inc ''worker_notify_sent_total'') (\<lambda>_.
      wk_bind (breaker_note w mem cfg k True) (\<lambda>_.
      json_reply [(''status'', JStr ''OK''), (''delivered'', JStr via)] 200))))"

section \<open>The handler\<close>

definition lite_mode :: "'s worker_world \<Rightarrow> bool" where
  "lite_mode w \<longleftrightarrow> jprop (ww_process w) ''LITE_MODE'' = JStr ''1''"

definition dedupe_key :: "'s worker_world \<Rightarrow> jsval \<Rightarrow> jsval \<Rightarrow> string \<Rightarrow> string" where
  "dedupe_key w to webhook raw =
     (let what = js_or to (js_or webhook (JStr raw));
          kind = (if truthy webhook then ''webhook'' else if truthy to then ''email'' else ''notify'')
      in ''notify:hash:'' @ ww_sha256 w (wk_text w what @ ''|'' @ kind))"

text \<open>Whether the notification was seen before; if not, it is marked as seen.\<close>

definition dedupe :: "'s worker_world \<Rightarrow> jobj \<Rightarrow> jsval \<Rightarrow> jsval \<Rightarrow> string \<Rightarrow> ('s, bool) wk" where
  "dedupe w env to webhook raw =
     (let ttl = (if lite_mode w then Some 0 else env_int w env [''NOTIFY_DEDUPE_TTL''] ''300'');
          mem = memory_mode w env; k = dedupe_key w to webhook raw
      in if (case ttl of Some n \<Rightarrow> n > 0 | None \<Rightarrow> False) then
           wk_bind (kv_read w mem k) (\<lambda>seen.
             if seen \<noteq> None \<and> seen \<noteq> Some [] then
               wk_bind (wk_inc ''worker_notify_deduped_total'') (\<lambda>_. wk_return True)
             else wk_bind (kv_write w mem k ''1'' None ttl) (\<lambda>_. wk_return False))
         else wk_return False)"

definition webhook_allowlist :: "jobj \<Rightarrow> string" where
  "webhook_allowlist env = (case jprop env ''NOTIFY_WEBHOOK_ALLOWLIST'' of JStr s \<Rightarrow> s | _ \<Rightarrow> [])"

definition check_webhook :: "'s worker_world \<Rightarrow> jobj \<Rightarrow> jsval \<Rightarrow> ('s, unit) wk" where
  "check_webhook w env webhook =
     (if \<not> truthy webhook then wk_return ()
      else if \<not> validate_url w (wk_text w webhook) then wk_throw (WHttp 400 ''invalid_webhook_url'')
      else (case ww_url w (wk_text w webhook) of
          None \<Rightarrow> wk_throw type_error
        | Some u \<Rightarrow>
            if \<not> host_allowed u (webhook_allowlist env)
            then wk_bind (wk_inc ''worker_notify_host_blocked_total'') (\<lambda>_.
              wk_throw (WHttp 403 ''webhook_host_not_allowed''))
            else wk_return ()))"

definition notify_body :: "'s worker_world \<Rightarrow> jobj \<Rightarrow> string \<Rightarrow> worker_error + jsval" where
  "notify_body w env raw =
     (case (if raw = [] then Inr (JObj []) else ww_parse w raw) of
        Inl _ \<Rightarrow> Inl (WHttp 400 ''invalid_json'')
      | Inr body \<Rightarrow>
          if wk_prop body ''to'' = None then Inl type_error
          else if \<not> truthy (wk_opt body ''to'') \<and> \<not> truthy (wk_opt body ''webhookUrl'')
            \<and> \<not> truthy (jprop env ''NOTIFY_WEBHOOK'')
          then Inl (WHttp 400 ''missing_destination'')
          else Inr body)"

definition check_email :: "'s worker_world \<Rightarrow> jsval \<Rightarrow> worker_error + unit" where
  "check_email w to =
     (if truthy to \<and> \<not> validate_email (wk_text w to) then Inl (WHttp 400 ''invalid_email'') else Inr ())"

definition notify_deliver :: "'s worker_world \<Rightarrow> jobj \<Rightarrow> worker_request \<Rightarrow> jsval \<Rightarrow> jsval \<Rightarrow> ('s, worker_reply) wk" where
  "notify_deliver w env rq body webhook =
     (let to = wk_opt body ''to'';
          k = breaker_key_of rq webhook to
      in wk_bind (breaker_allows w (memory_mode w env) (breaker_cfg_of w env) k) (\<lambda>_.
         if truthy webhook then
           deliver w env k ''notify_webhook'' ''webhook'' (webhook_request w body (wk_text w webhook))
         else if truthy (jprop env ''SENDGRID_KEY'') \<and> truthy to then
           deliver w env k ''notify_sendgrid'' ''sendgrid'' (sendgrid_request w env body)
         else wk_throw (WHttp 400 ''notify_unconfigured'')))"

definition notify_admitted :: "'s worker_world \<Rightarrow> jobj \<Rightarrow> worker_request \<Rightarrow> jsval \<Rightarrow> jsval \<Rightarrow> ('s, worker_reply) wk" where
  "notify_admitted w env rq body webhook =
     (let to = wk_opt body ''to'' in
      wk_bind (dedupe w env to webhook (wq_body rq)) (\<lambda>seen.
        if seen then json_reply [(''status'', JStr ''OK''), (''deduped'', JBool True)] 200
        else
          let subject_key = wk_text w (js_or to (js_or webhook (JStr (client_ip rq))));
              spray_key = (if truthy (wk_opt body ''subject'') then wk_text w (wk_opt body ''subject'') else subject_key)
          in wk_bind (subject_spray_guard w env (client_ip rq) spray_key) (\<lambda>_.
             wk_bind (notify_subject_limit w env subject_key) (\<lambda>_.
             notify_deliver w env rq body webhook))))"

definition handle_notify_post :: "'s worker_world \<Rightarrow> jobj \<Rightarrow> worker_request \<Rightarrow> ('s, worker_reply) wk" where
  "handle_notify_post w env rq =
     wk_bind (wk_lift (require_notify_token env rq)) (\<lambda>_.
     wk_bind (wk_gauge ''worker_notify_hmac_optional''
       (if jprop env ''NOTIFY_HMAC_OPTIONAL'' = JStr ''1'' then 1 else 0)) (\<lambda>_.
     wk_bind (verify_notify_signature w env rq (wq_body rq)) (\<lambda>_.
     wk_bind (wk_lift (notify_body w env (wq_body rq))) (\<lambda>body.
     wk_bind (notify_rate_limit w env rq) (\<lambda>_.
     wk_bind (wk_lift (check_email w (wk_opt body ''to''))) (\<lambda>_.
       let webhook = js_or (wk_opt body ''webhookUrl'') (jprop env ''NOTIFY_WEBHOOK'') in
       wk_bind (check_webhook w env webhook) (\<lambda>_.
       notify_admitted w env rq body webhook)))))))"

section \<open>Properties\<close>

lemma ends_with_append: "ends_with s p \<longleftrightarrow> (\<exists>q. s = q @ p)"
  by (auto simp: ends_with_def prefix_def) (metis rev_append rev_rev_ident)

text \<open>
  The check of webhook hosts is exact: a host passes if and only if it is not one of the denied names, is not
  written as a private or loop-back IPv4 address, and the allow list has a star, the host itself or a
  domain that the host is a proper subdomain of; an empty list admits nothing.
\<close>

theorem host_allowed_exact:
  "host_allowed u raw \<longleftrightarrow>
     to_lower (up_hostname u) \<notin> set deny_hosts \<and> \<not> is_private_ip (to_lower (up_hostname u))
     \<and> (\<exists>a \<in> set (allow_entries raw). a = ''*'' \<or> to_lower (up_hostname u) = a
          \<or> (\<exists>sub. to_lower (up_hostname u) = sub @ CHR ''.'' # a))"
  by (auto simp: host_allowed_def Let_def list_ex_iff ends_with_append)

text \<open>The host of an IPv6 URL is written in brackets, so the entry \<open>::1\<close> denies nothing.\<close>

lemma ipv6_loopback_not_denied:
  "up_hostname u = ''[::1]'' \<Longrightarrow> ''*'' \<in> set (allow_entries raw) \<Longrightarrow> host_allowed u raw"
  by (auto simp: host_allowed_def Let_def deny_hosts_def is_private_ip_def private_172_def lower_char_def)

text \<open>The requests an operation has sent.\<close>

definition sent_same :: "'s worker_state \<Rightarrow> 's worker_state \<Rightarrow> bool" where
  "sent_same st st' \<longleftrightarrow> wk_sent st' = wk_sent st"

interpretation sent_same: state_relation sent_same
  by unfold_locales (auto simp: sent_same_def)

lemma sent_same_basic:
  "wk_keeps sent_same (wk_inc_by name n)" "wk_keeps sent_same (wk_inc name)" "wk_keeps sent_same (wk_gauge name n)"
  "wk_keeps sent_same (now_seconds w)" "wk_keeps sent_same (random_id w p)"
  "wk_keeps sent_same (kv_read w mem k)" "wk_keeps sent_same (kv_write w mem k v e ttl)"
  "wk_keeps sent_same (kv_remove w mem k)" "wk_keeps sent_same (kv_keys w mem p l c)"
  by (auto simp: wk_keeps_def sent_same_def wk_inc_by_def wk_inc_def wk_gauge_def now_seconds_def
      random_id_def wk_tick_def kv_read_def kv_write_def kv_remove_def kv_keys_def kv_call_def
      wk_bind_def split: prod.split sum.split option.split)

lemmas sent_same_rules = sent_same.keeps_rules sent_same_basic

lemma sent_same_window:
  "wk_keeps sent_same b \<Longrightarrow> wk_keeps sent_same (window_attempt w mem k cap ttl b message)"
  unfolding window_attempt_def by (auto intro!: sent_same_rules split: window_verdict.split)

lemma sent_same_limits:
  "wk_keeps sent_same (notify_rate_limit w env rq)" "wk_keeps sent_same (notify_subject_limit w env s)"
  "wk_keeps sent_same (subject_spray_guard w env ip s)"
  unfolding notify_rate_limit_def notify_subject_limit_def subject_spray_guard_def Let_def
  by (auto intro!: sent_same_rules sent_same_window)

lemma sent_same_breaker:
  "wk_keeps sent_same (breaker_allows w mem cfg k)" "wk_keeps sent_same (breaker_note w mem cfg k b)"
  unfolding breaker_allows_def breaker_note_def breaker_state_def breaker_blocked_def provider_inc_def
    save_breaker_def Let_def
  by (auto intro!: sent_same_rules split: sum.split)

lemma sent_same_checks:
  "wk_keeps sent_same (verify_notify_signature w env rq body)" "wk_keeps sent_same (check_webhook w env v)"
  "wk_keeps sent_same (dedupe w env to v raw)"
  unfolding verify_notify_signature_def check_webhook_def dedupe_def Let_def
  by (auto intro!: sent_same_rules split: option.split)

lemma send_attempts_sent:
  assumes "send_attempts n w note mr label rq a st = (r, st')" and "wk_keeps sent_same note"
  shows "\<exists>k \<le> n. wk_sent st' = replicate k rq @ wk_sent st"
  using assms(1)
proof (induction n arbitrary: a st)
  case 0
  then show ?case by simp
next
  case (Suc n)
  obtain out st1 where 1: "send_request w rq st = (Inr out, st1)" "wk_sent st1 = rq # wk_sent st"
    by (simp add: send_request_def wk_bind_def wk_tick_def)
  consider "wk_sent st' = wk_sent st1"
    | st2 where "send_attempts n w note mr label rq (a + 1) st2 = (r, st')" "wk_sent st2 = wk_sent st1"
  proof (cases "out = Threw False \<or> (\<exists>rp. out = Responded rp \<and> rp_ok rp)")
    case True
    then have "st' = st1" using Suc.prems 1 by (auto simp: wk_bind_def)
    then show ?thesis using that(1) by simp
  next
    case soft: False
    show ?thesis
    proof (cases "a + 1 < mr")
      case True
      define st2 where "st2 = snd (wk_inc ''worker_notify_retry_total'' st1)"
      have "wk_inc ''worker_notify_retry_total'' st1 = (Inr (), st2)"
        by (simp add: st2_def wk_inc_def wk_inc_by_def)
      then have "send_attempts n w note mr label rq (a + 1) st2 = (r, st')"
        using Suc.prems 1 True soft
        by (auto simp: wk_bind_def split: fetch_outcome.splits bool.splits)
      moreover have "wk_sent st2 = wk_sent st1" by (simp add: st2_def wk_inc_def wk_inc_by_def)
      ultimately show ?thesis using that(2) by blast
    next
      case False
      have "wk_keeps sent_same (wk_bind (wk_inc ''worker_notify_failed_total'') (\<lambda>_. wk_bind note (\<lambda>_.
          wk_throw (WHttp 502 (label @ ''_failed'')) :: ('a, unit) wk)))"
        by (intro sent_same_rules assms(2))
      moreover have "wk_bind (wk_inc ''worker_notify_failed_total'') (\<lambda>_. wk_bind note (\<lambda>_.
          wk_throw (WHttp 502 (label @ ''_failed'')))) st1 = (r, st')"
        using Suc.prems 1 False soft by (auto simp: wk_bind_run [of "send_request w rq"] split: fetch_outcome.splits bool.splits)
      ultimately show ?thesis using that(1) wk_keepsD by (fastforce simp: sent_same_def)
    qed
  qed
  then show ?case
  proof cases
    case 1
    then show ?thesis using \<open>wk_sent st1 = rq # wk_sent st\<close> by (intro exI [of _ 1]) simp
  next
    case (2 st2)
    from Suc.IH [OF 2(1)] obtain k where k: "k \<le> n" "wk_sent st' = replicate k rq @ wk_sent st2" by blast
    then have "wk_sent st' = replicate (Suc k) rq @ wk_sent st"
      using 2(2) 1(2) by (simp add: replicate_app_Cons_same)
    with k(1) show ?thesis by (intro exI [of _ "Suc k"]) simp
  qed
qed

definition max_attempts :: "'s worker_world \<Rightarrow> jobj \<Rightarrow> nat" where
  "max_attempts w env = (case env_int w env [''NOTIFY_RETRY_MAX''] ''3'' of None \<Rightarrow> 0 | Some n \<Rightarrow> nat (max 1 n))"

lemma deliver_sent:
  assumes "deliver w env k label via rq st = (r, st')"
  shows "\<exists>n \<le> max_attempts w env. wk_sent st' = replicate n rq @ wk_sent st"
proof -
  let ?note = "\<lambda>b. breaker_note w (memory_mode w env) (breaker_cfg_of w env) k b"
  obtain r1 st1 where 1: "send_with_retry w (?note False) (env_int w env [''NOTIFY_RETRY_MAX''] ''3'') label rq st = (r1, st1)"
    by fastforce
  have "\<exists>n \<le> max_attempts w env. wk_sent st1 = replicate n rq @ wk_sent st"
    using 1 send_attempts_sent [OF _ sent_same_breaker(2)]
    by (fastforce simp: send_with_retry_def max_attempts_def split: option.splits)
  moreover have "wk_sent st' = wk_sent st1"
  proof (cases r1)
    case (Inl e)
    then show ?thesis using assms 1 by (simp add: deliver_def wk_bind_def Let_def)
  next
    case (Inr u)
    let ?rest = "wk_bind (wk_inc ''worker_notify_sent_total'') (\<lambda>_. wk_bind (?note True) (\<lambda>_.
      json_reply [(''status'', JStr ''OK''), (''delivered'', JStr via)] 200))"
    have "?rest st1 = (r, st')" using assms 1 Inr
      by (simp add: deliver_def Let_def wk_bind_def [of "send_with_retry _ _ _ _ _"])
    moreover have "wk_keeps sent_same ?rest"
      unfolding json_reply_def by (intro sent_same_rules sent_same_breaker)
    ultimately show ?thesis using wk_keepsD by (fastforce simp: sent_same_def)
  qed
  ultimately show ?thesis by simp
qed


text \<open>What an operation may send: at most \<open>n\<close> requests, each of which satisfies \<open>P\<close>.\<close>

definition sends :: "(http_request \<Rightarrow> bool) \<Rightarrow> nat \<Rightarrow> ('s, 'a) wk \<Rightarrow> bool" where
  "sends P n m \<longleftrightarrow> (\<forall>st r st'. m st = (r, st') \<longrightarrow>
     (\<exists>rqs. wk_sent st' = rqs @ wk_sent st \<and> length rqs \<le> n \<and> (\<forall>q \<in> set rqs. P q)))"

lemma sends_nothing: "wk_keeps sent_same m \<Longrightarrow> sends P n m"
  unfolding sends_def by (intro allI impI exI [of _ "[]"]) (drule (1) wk_keepsD, simp add: sent_same_def)

lemma sends_if: "(b \<Longrightarrow> sends P n m) \<Longrightarrow> (\<not> b \<Longrightarrow> sends P n m') \<Longrightarrow> sends P n (if b then m else m')"
  by simp

lemma sends_after:
  assumes "wk_keeps sent_same m" and "\<And>x st st1. m st = (Inr x, st1) \<Longrightarrow> sends P n (f x)"
  shows "sends P n (wk_bind m f)"
  unfolding sends_def
proof (intro allI impI)
  fix st r st' assume run: "wk_bind m f st = (r, st')"
  obtain r1 st1 where 1: "m st = (r1, st1)" by fastforce
  then have same: "wk_sent st1 = wk_sent st" using wk_keepsD [OF assms(1)] by (fastforce simp: sent_same_def)
  show "\<exists>rqs. wk_sent st' = rqs @ wk_sent st \<and> length rqs \<le> n \<and> (\<forall>q \<in> set rqs. P q)"
  proof (cases r1)
    case (Inl e)
    then show ?thesis using run 1 same by (simp add: wk_bind_def)
  next
    case (Inr x)
    then have "f x st1 = (r, st')" using run 1 by (simp add: wk_bind_def)
    with assms(2) [OF 1 [unfolded Inr]] obtain rqs where
      "wk_sent st' = rqs @ wk_sent st1" "length rqs \<le> n" "\<forall>q \<in> set rqs. P q"
      unfolding sends_def by blast
    then show ?thesis using same by (intro exI [of _ rqs]) simp
  qed
qed

lemma sends_lift:
  "(\<And>x. r = Inr x \<Longrightarrow> sends P n (f x)) \<Longrightarrow> sends P n (wk_bind (wk_lift r) f)"
  by (rule sends_after) (auto simp: wk_lift_def intro!: sent_same_rules)

lemma sends_deliver: "P rq \<Longrightarrow> sends P (max_attempts w env) (deliver w env k label via rq)"
  unfolding sends_def using deliver_sent by (fastforce simp: in_set_replicate)

text \<open>The signature check, and what a request sent on behalf of \<open>rq\<close> may be.\<close>

definition notify_signed :: "'s worker_world \<Rightarrow> jobj \<Rightarrow> worker_request \<Rightarrow> bool" where
  "notify_signed w env rq \<longleftrightarrow>
     \<not> truthy (jprop env ''NOTIFY_HMAC_SECRET'')
     \<or> (wq_header rq ''x-signature'' = [] \<and> jprop env ''NOTIFY_HMAC_OPTIONAL'' = JStr ''1'')
     \<or> (\<exists>bs. hex_to_bytes (normalize_worker_signature (wq_header rq ''x-signature'')) = Inr bs
          \<and> ww_hmac w (wk_text w (jprop env ''NOTIFY_HMAC_SECRET'')) bs (wq_body rq))"

definition may_send :: "'s worker_world \<Rightarrow> jobj \<Rightarrow> http_request \<Rightarrow> bool" where
  "may_send w env q \<longleftrightarrow>
     (\<exists>u. ww_url w (rq_url q) = Some u \<and> up_protocol u \<in> {''http:'', ''https:''} \<and> host_allowed u (webhook_allowlist env))
     \<or> (\<exists>body. q = sendgrid_request w env body \<and> validate_email (wk_text w (wk_opt body ''to''))
          \<and> truthy (jprop env ''SENDGRID_KEY''))"

lemma verify_notify_signature_Inr:
  "verify_notify_signature w env rq (wq_body rq) st = (Inr x, st') \<Longrightarrow> notify_signed w env rq"
  by (auto simp: verify_notify_signature_def notify_signed_def Let_def wk_bind_def wk_catch_def wk_lift_def
      wk_inc_def wk_inc_by_def split: if_splits sum.splits prod.splits)

lemma check_webhook_Inr:
  "check_webhook w env v st = (Inr x, st') \<Longrightarrow> truthy v \<Longrightarrow>
     \<exists>u. ww_url w (wk_text w v) = Some u \<and> up_protocol u \<in> {''http:'', ''https:''}
       \<and> host_allowed u (webhook_allowlist env)"
  by (auto simp: check_webhook_def validate_url_def wk_bind_def wk_inc_def wk_inc_by_def
      split: if_splits option.splits)

lemma sends_deliver_checked:
  assumes "check_email w (wk_opt body ''to'') = Inr ()"
    and "\<And>v. v = webhook \<Longrightarrow> truthy v \<Longrightarrow> \<exists>u. ww_url w (wk_text w v) = Some u
      \<and> up_protocol u \<in> {''http:'', ''https:''} \<and> host_allowed u (webhook_allowlist env)"
  shows "sends (may_send w env) (max_attempts w env) (notify_deliver w env rq body webhook)"
proof -
  have hook: "truthy webhook \<Longrightarrow> may_send w env (webhook_request w body (wk_text w webhook))"
    using assms(2) by (simp add: may_send_def webhook_request_def)
  have mail: "truthy (wk_opt body ''to'') \<Longrightarrow> truthy (jprop env ''SENDGRID_KEY'') \<Longrightarrow>
      may_send w env (sendgrid_request w env body)"
    using assms(1) by (auto simp: may_send_def check_email_def split: if_splits)
  show ?thesis
    unfolding notify_deliver_def Let_def
    by (intro sends_after sent_same_breaker sends_if sends_deliver hook mail) (auto intro: sends_nothing sent_same_rules)
qed

text \<open>
  C12: A notification goes nowhere else: whatever a call of the route does, the requests it sends are at most
  \<open>NOTIFY_RETRY_MAX\<close> many (one where that is not positive), they are sent only where the token and the
  signature of the call were accepted, and each of them goes to an HTTP address whose host the allow list
  admits or is the mail request to SendGrid for a well-formed address.
\<close>

theorem notify_sends_only_allowed:
  assumes "handle_notify_post w env rq st = (r, st')"
  shows "\<exists>rqs. wk_sent st' = rqs @ wk_sent st \<and> length rqs \<le> max_attempts w env
    \<and> (\<forall>q \<in> set rqs. require_notify_token env rq = Inr () \<and> notify_signed w env rq \<and> may_send w env q)"
proof -
  let ?P = "\<lambda>q. require_notify_token env rq = Inr () \<and> notify_signed w env rq \<and> may_send w env q"
  have admitted: "sends ?P (max_attempts w env) (notify_admitted w env rq body webhook)"
    if "require_notify_token env rq = Inr ()" "notify_signed w env rq"
      "sends (may_send w env) (max_attempts w env) (notify_deliver w env rq body webhook)" for body webhook
  proof -
    have "sends ?P (max_attempts w env) (notify_deliver w env rq body webhook)" using that by (simp add: sends_def)
    then show ?thesis
      unfolding notify_admitted_def Let_def json_reply_def
      by (intro sends_after sends_if sent_same_checks sent_same_limits)
        (auto intro: sends_nothing sent_same_rules)
  qed
  have "sends ?P (max_attempts w env) (handle_notify_post w env rq)"
    unfolding handle_notify_post_def Let_def
  proof (rule sends_lift)
    fix x assume tok: "require_notify_token env rq = Inr x"
    show "sends ?P (max_attempts w env) (wk_bind (wk_gauge ''worker_notify_hmac_optional''
       (if jprop env ''NOTIFY_HMAC_OPTIONAL'' = JStr ''1'' then 1 else 0)) (\<lambda>_.
     wk_bind (verify_notify_signature w env rq (wq_body rq)) (\<lambda>_.
     wk_bind (wk_lift (notify_body w env (wq_body rq))) (\<lambda>body.
     wk_bind (notify_rate_limit w env rq) (\<lambda>_.
     wk_bind (wk_lift (check_email w (wk_opt body ''to''))) (\<lambda>_.
     wk_bind (check_webhook w env (js_or (wk_opt body ''webhookUrl'') (jprop env ''NOTIFY_WEBHOOK''))) (\<lambda>_.
     notify_admitted w env rq body (js_or (wk_opt body ''webhookUrl'') (jprop env ''NOTIFY_WEBHOOK'')))))))))"
      by (intro sends_after sends_lift sent_same_checks sent_same_limits sent_same_basic
          admitted sends_deliver_checked)
        (use tok in \<open>auto dest: verify_notify_signature_Inr check_webhook_Inr\<close>)
  qed
  then show ?thesis using assms by (auto simp: sends_def)
qed

text \<open>A call that is delivered.\<close>

definition demo_notify_env :: jobj where
  "demo_notify_env =
     [(''TEST_IN_MEMORY_KV'', JStr ''1''), (''WORKER_NOTIFY_TOKEN'', JStr ''t1''), (''NOTIFY_RATE_MAX'', JStr ''0''),
      (''NOTIFY_SUBJECT_MAX'', JStr ''0''), (''UNIQUE_SUBJECT_MAX_PER_IP'', JStr ''0''),
      (''NOTIFY_DEDUPE_TTL'', JStr ''0''), (''NOTIFY_WEBHOOK_ALLOWLIST'', JStr ''example.org'')]"

definition demo_notify_world :: "unit worker_world" where
  "demo_notify_world = demo_worker_world (\<lambda>_. Inr (JObj [(''webhookUrl'', JStr ''hooks.example.org'')]))"

definition demo_notify_request :: worker_request where
  "demo_notify_request = \<lparr>wq_method = ''POST'', wq_path = [''notify''],
     wq_headers = (\<lambda>h. if h = ''authorization'' then Some ''Bearer t1'' else None), wq_body = ''B''\<rparr>"

lemma demo_notify_facts:
  "require_notify_token demo_notify_env demo_notify_request = Inr ()"
  "memory_mode demo_notify_world demo_notify_env" "wq_body demo_notify_request = ''B''"
  "require_secret demo_notify_world demo_notify_env ''NOTIFY_HMAC_SECRET'' ''missing_notify_hmac_secret'' = Inr ()"
  "jprop demo_notify_env ''NOTIFY_HMAC_SECRET'' = JUndef" "jprop demo_notify_env ''NOTIFY_HMAC_OPTIONAL'' = JUndef"
  "notify_body demo_notify_world demo_notify_env ''B'' = Inr (JObj [(''webhookUrl'', JStr ''hooks.example.org'')])"
  "env_int demo_notify_world demo_notify_env [''NOTIFY_RATE_MAX'', ''RATE_LIMIT_MAX''] ''50'' = Some 0"
  "env_int demo_notify_world demo_notify_env [''NOTIFY_SUBJECT_MAX''] ''20'' = Some 0"
  "env_int demo_notify_world demo_notify_env [''UNIQUE_SUBJECT_MAX_PER_IP''] ''20'' = Some 0"
  "env_int demo_notify_world demo_notify_env [''NOTIFY_DEDUPE_TTL''] ''300'' = Some 0"
  "env_int demo_notify_world demo_notify_env [''NOTIFY_RETRY_MAX''] ''3'' = Some 3"
  "breaker_cfg_of demo_notify_world demo_notify_env = \<lparr>bc_threshold = Some 5, bc_cooldown = Some 300\<rparr>"
  "validate_url demo_notify_world ''hooks.example.org''"
  "ww_url demo_notify_world ''hooks.example.org'' = Some \<lparr>up_protocol = ''https:'', up_username = [],
     up_password = [], up_hostname = ''hooks.example.org'', up_href = ''hooks.example.org''\<rparr>"
  "host_allowed \<lparr>up_protocol = ''https:'', up_username = [],
     up_password = [], up_hostname = ''hooks.example.org'', up_href = ''hooks.example.org''\<rparr> (webhook_allowlist demo_notify_env)"
  "breaker_key_of demo_notify_request (JStr ''hooks.example.org'') JUndef = ''webhook''"
  "lite_mode demo_notify_world = False" "max_attempts demo_notify_world demo_notify_env = 3"
  by code_simp+

lemma demo_notify_body:
  "wk_opt (JObj [(''webhookUrl'', JStr ''hooks.example.org'')]) ''to'' = JUndef"
  "wk_opt (JObj [(''webhookUrl'', JStr ''hooks.example.org'')]) ''subject'' = JUndef"
  "js_or (wk_opt (JObj [(''webhookUrl'', JStr ''hooks.example.org'')]) ''webhookUrl'')
     (jprop demo_notify_env ''NOTIFY_WEBHOOK'') = JStr ''hooks.example.org''"
  by code_simp+

lemma demo_notify_world_facts:
  "ww_clock demo_notify_world = (\<lambda>_. 1000)" "wk_text demo_notify_world (JStr s) = s"
  "wk_number demo_notify_world (jint n) = Fin (of_int n)"
  "ww_fetch demo_notify_world = (\<lambda>_ _. Responded \<lparr>rp_ok = True, rp_status = 200, rp_body = []\<rparr>)"
  by (simp_all add: demo_notify_world_def demo_worker_world_def wk_text_def wk_number_def jint_def)

lemma demo_notify_guards:
  "dedupe demo_notify_world demo_notify_env to v raw = wk_return False"
  "notify_rate_limit demo_notify_world demo_notify_env rq = wk_return ()"
  "notify_subject_limit demo_notify_world demo_notify_env s = wk_return ()"
  "subject_spray_guard demo_notify_world demo_notify_env ip s = wk_return ()"
  "check_webhook demo_notify_world demo_notify_env (JStr ''hooks.example.org'') = wk_return ()"
  "verify_notify_signature demo_notify_world demo_notify_env demo_notify_request raw = wk_return ()"
  by (simp_all add: dedupe_def notify_rate_limit_def notify_subject_limit_def subject_spray_guard_def limit_off_def
      check_webhook_def verify_notify_signature_def demo_notify_facts demo_notify_world_facts Let_def
      wk_bind_def wk_lift_def wk_return_def fun_eq_iff)

lemma wk_return_bind: "wk_bind (wk_return x) f = f x"
  by (simp add: fun_eq_iff wk_bind_def)

definition demo_notified :: "(worker_error + worker_reply) \<times> unit worker_state" where
  "demo_notified = handle_notify_post demo_notify_world demo_notify_env demo_notify_request fresh_worker"

lemma breaker_idle_props:
  "wk_get_prop breaker_idle ''openUntil'' = wk_return (jint 0)" "wk_get_prop breaker_idle ''count'' = wk_return (jint 0)"
  "open_at w now (jint 0) = False"
proof -
  have "wk_prop breaker_idle ''openUntil'' = Some (jint 0)" "wk_prop breaker_idle ''count'' = Some (jint 0)"
    "\<not> truthy (jint 0)" by code_simp+
  then show "wk_get_prop breaker_idle ''openUntil'' = wk_return (jint 0)"
    "wk_get_prop breaker_idle ''count'' = wk_return (jint 0)" "open_at w now (jint 0) = False"
    by (simp_all add: wk_get_prop_def open_at_def)
qed

lemma deliver_first:
  assumes "env_int w env [''NOTIFY_RETRY_MAX''] ''3'' = Some n" "ww_fetch w (wk_ticks st) rq = Responded rp" "rp_ok rp"
  shows "wk_sent (snd (deliver w env k label via rq st)) = rq # wk_sent st"
proof -
  let ?rest = "wk_bind (wk_inc ''worker_notify_sent_total'') (\<lambda>_.
    wk_bind (breaker_note w (memory_mode w env) (breaker_cfg_of w env) k True) (\<lambda>_.
    json_reply [(''status'', JStr ''OK''), (''delivered'', JStr via)] 200))"
  obtain m where m: "nat (max 1 n) = Suc m" by (cases "nat (max 1 n)") auto
  let ?st1 = "st\<lparr>wk_ticks := Suc (wk_ticks st), wk_sent := rq # wk_sent st\<rparr>"
  have "deliver w env k label via rq st = ?rest ?st1"
    using assms by (simp add: deliver_def send_with_retry_def m send_request_def wk_bind_def [of "send_attempts _ _ _ _ _ _ _"] Let_def
        wk_tick_def wk_bind_run)
  moreover have "wk_keeps sent_same ?rest"
    unfolding json_reply_def by (intro sent_same_rules sent_same_breaker)
  ultimately show ?thesis by (simp add: wk_keeps_def sent_same_def)
qed

lemma demo_notified_sent: "map rq_url (wk_sent (snd demo_notified)) = [''hooks.example.org'']"
proof -
  let ?w = demo_notify_world and ?e = demo_notify_env and ?body = "JObj [(''webhookUrl'', JStr ''hooks.example.org'')]"
  let ?st = "fresh_worker\<lparr>wk_metrics := worker_gauge ''worker_notify_hmac_optional'' 0 (wk_metrics fresh_worker)\<rparr>"
  have "demo_notified = notify_deliver ?w ?e demo_notify_request ?body (JStr ''hooks.example.org'') ?st"
    by (simp add: demo_notified_def handle_notify_post_def notify_admitted_def demo_notify_guards check_email_def
        demo_notify_facts demo_notify_body wk_return_bind wk_run Let_def cong: wk_weak)
  moreover have "breaker_allows ?w True \<lparr>bc_threshold = Some 5, bc_cooldown = Some 300\<rparr> ''webhook'' ?st
      = (Inr (), ?st\<lparr>wk_ticks := Suc (Suc 0)\<rparr>)"
    by (simp add: breaker_allows_def breaker_state_def breaker_idle_props
        jn_le_def jn_of_def fresh_worker_def wk_run kv_run Let_def shim_get_def clean_expired_def demo_notify_world_facts cong: wk_weak)
  ultimately have run: "demo_notified = deliver ?w ?e ''webhook'' ''notify_webhook'' ''webhook''
      (webhook_request ?w ?body ''hooks.example.org'') (?st\<lparr>wk_ticks := Suc (Suc 0)\<rparr>)"
    by (simp add: notify_deliver_def Let_def demo_notify_body demo_notify_facts demo_notify_world_facts wk_run)
  have "env_int ?w ?e [''NOTIFY_RETRY_MAX''] ''3'' = Some 3" by (simp add: demo_notify_facts)
  then have "wk_sent (snd demo_notified) = webhook_request ?w ?body ''hooks.example.org'' # wk_sent (?st\<lparr>wk_ticks := Suc (Suc 0)\<rparr>)"
    unfolding run by (rule deliver_first) (simp add: demo_notify_world_facts, simp)
  then show ?thesis by (simp add: fresh_worker_def) (simp add: webhook_request_def del: json_stringify.simps)
qed

lemma notify_sends_witness:
  "\<exists>q. wk_sent (snd demo_notified) = [q] \<and> rq_url q = ''hooks.example.org'' \<and> may_send demo_notify_world demo_notify_env q"
proof -
  obtain r st' where run: "demo_notified = (r, st')" by fastforce
  obtain q where q: "wk_sent st' = [q]" "rq_url q = ''hooks.example.org''" using demo_notified_sent by (auto simp: map_eq_Cons_conv run)
  from notify_sends_only_allowed [OF run [unfolded demo_notified_def]] q(1)
  have "may_send demo_notify_world demo_notify_env q" by (auto simp: fresh_worker_def)
  with q show ?thesis by (simp add: run)
qed

end
