(* ===== verification/AsyncWorker.thy ===== *)
theory AsyncWorker
  imports DmConfig DomainMap RouteAssert Crypto
begin

text \<open>
  The async worker (\<open>src/workers/async-worker/src/index.ts\<close>): the refresh of a domain (DNS record, signed
  configuration, probe of the target, route assertion of the secrets worker), its booking in the domain
  map, the batches and the routes. An operation is a function of the worker's state that returns or
  throws. A counter says at which point of time the outside world is asked for the time, random bytes,
  answers of servers and faults of the bindings; time-outs are the \<open>AbortError\<close> outcome of \<open>aw_fetch\<close>.
\<close>

section \<open>World, state and exceptions\<close>

text \<open>\<open>aw_kv\<close> is the adapter over the binding \<open>DOMAIN_MAP_KV\<close>, \<^term>\<open>None\<close> where there is none. A call that
  throws may have had its effect all the same. \<open>aw_queue\<close> says whether \<open>DOMAIN_REFRESH_QUEUE\<close> is bound, and
  when \<open>send\<close> throws. \<open>aw_failure\<close> is the message of an exception of \<open>fetch\<close>.\<close>

record 's async_world =
  aw_env :: "string \<Rightarrow> string option"
  aw_kv :: "'s kv_ops option"
  aw_kv_fault :: "nat \<Rightarrow> (string \<times> bool) option"
  aw_queue :: "(nat \<Rightarrow> string option) option"
  aw_clock :: "nat \<Rightarrow> int"
  aw_random :: "nat \<Rightarrow> string"
  aw_fetch :: "nat \<Rightarrow> http_request \<Rightarrow> fetch_outcome"
  aw_failure :: "nat \<Rightarrow> string"
  aw_parse :: "string \<Rightarrow> string + jsval"
  aw_show :: "rat \<Rightarrow> string"
  aw_url :: "string \<Rightarrow> url_parts option"
  aw_route_url :: "url_parts \<Rightarrow> string \<Rightarrow> string"
  aw_sha256 :: "string \<Rightarrow> string"
  aw_crypto :: dm_crypto

record log_line =
  lg_level :: string
  lg_event :: string
  lg_payload :: jobj

record 's async_state =
  ay_store :: 's
  ay_queued :: "jsval list"
  ay_log :: "log_line list"
  ay_ticks :: nat

datatype async_error = Controlled int string string jsval | Thrown string

type_synonym ('s, 'a) aw = "'s async_state \<Rightarrow> (async_error + 'a) \<times> 's async_state"

definition aw_return :: "'a \<Rightarrow> ('s, 'a) aw" where
  "aw_return x st = (Inr x, st)"

definition aw_throw :: "async_error \<Rightarrow> ('s, 'a) aw" where
  "aw_throw e st = (Inl e, st)"

definition aw_bind :: "('s, 'a) aw \<Rightarrow> ('a \<Rightarrow> ('s, 'b) aw) \<Rightarrow> ('s, 'b) aw" where
  "aw_bind m f st = (case m st of (Inl e, st1) \<Rightarrow> (Inl e, st1) | (Inr x, st1) \<Rightarrow> f x st1)"

definition aw_catch :: "('s, 'a) aw \<Rightarrow> (async_error \<Rightarrow> ('s, 'a) aw) \<Rightarrow> ('s, 'a) aw" where
  "aw_catch m h st = (case m st of (Inl e, st1) \<Rightarrow> h e st1 | (Inr x, st1) \<Rightarrow> (Inr x, st1))"

definition aw_lift :: "async_error + 'a \<Rightarrow> ('s, 'a) aw" where
  "aw_lift r st = (r, st)"

definition aw_tick :: "(nat \<Rightarrow> 'a) \<Rightarrow> ('s, 'a) aw" where
  "aw_tick f st = (Inr (f (ay_ticks st)), st\<lparr>ay_ticks := Suc (ay_ticks st)\<rparr>)"

definition aw_now :: "'s async_world \<Rightarrow> ('s, int) aw" where
  "aw_now w = aw_tick (aw_clock w)"

definition aw_call :: "'s async_world \<Rightarrow> http_request \<Rightarrow> ('s, fetch_outcome \<times> string) aw" where
  "aw_call w rq = aw_tick (\<lambda>n. (aw_fetch w n rq, aw_failure w n))"

text \<open>\<open>logJson\<close>, without the time stamp of the line.\<close>

definition log_json :: "string \<Rightarrow> string \<Rightarrow> jobj \<Rightarrow> ('s, unit) aw" where
  "log_json level event payload st =
     (Inr (), st\<lparr>ay_log := \<lparr>lg_level = level, lg_event = event, lg_payload = payload\<rparr> # ay_log st\<rparr>)"

definition err_code :: "async_error \<Rightarrow> string" where
  "err_code e = (case e of Controlled _ code _ _ \<Rightarrow> code | Thrown _ \<Rightarrow> ''unexpected_error'')"

definition err_message :: "async_error \<Rightarrow> string" where
  "err_message e = (case e of Controlled _ _ message _ \<Rightarrow> message | Thrown message \<Rightarrow> message)"

datatype refresh_mode = ModeInline | ModeQueue | ModeScheduled | ModeBatch

fun mode_str :: "refresh_mode \<Rightarrow> string" where
  "mode_str ModeInline = ''inline''"
| "mode_str ModeQueue = ''queue''"
| "mode_str ModeScheduled = ''scheduled''"
| "mode_str ModeBatch = ''batch''"

definition int_json :: "int \<Rightarrow> jsval" where
  "int_json n = JNum (Fin (of_int n))"

definition log_refresh_outcome :: "string \<Rightarrow> refresh_mode \<Rightarrow> string \<Rightarrow> string \<Rightarrow> int \<Rightarrow> ('s, unit) aw" where
  "log_refresh_outcome level mode domain code latency =
     log_json level ''refresh_outcome'' [(''mode'', JStr (mode_str mode)), (''domain'', JStr domain),
       (''code'', JStr code), (''latencyMs'', int_json latency)]"

section \<open>Reading requests and the environment\<close>

text \<open>\<open>reqToken?.replace(/^Bearer\s+/i, '').trim()\<close>\<close>

definition strip_bearer :: "string \<Rightarrow> string" where
  "strip_bearer s =
     (if length s > 6 \<and> to_lower (take 6 s) = ''bearer'' \<and> js_ws (s ! 6) then dropWhile js_ws (drop 6 s) else s)"

definition get_auth_token :: "string option \<Rightarrow> string option" where
  "get_auth_token reqToken = map_option (\<lambda>s. trim (strip_bearer s)) reqToken"

definition env_text :: "(string \<Rightarrow> string option) \<Rightarrow> string \<Rightarrow> string" where
  "env_text env k = (case env k of None \<Rightarrow> [] | Some s \<Rightarrow> s)"

definition verify_internal_auth :: "(string \<Rightarrow> string option) \<Rightarrow> headers \<Rightarrow> async_error + unit" where
  "verify_internal_auth env hs =
     (let token = (case get_auth_token (hs ''authorization'') of None \<Rightarrow> [] | Some t \<Rightarrow> t);
          expected = (if env_text env ''JOBS_AUTH_TOKEN'' \<noteq> [] then env_text env ''JOBS_AUTH_TOKEN''
            else env_text env ''MAILER_AUTH_TOKEN'')
      in if token = [] \<or> expected = [] \<or> token \<noteq> expected
         then Inl (Controlled 401 ''unauthorized'' ''Missing or invalid internal auth token.'' JUndef)
         else Inr ())"

definition parse_json_object :: "jsval \<Rightarrow> string \<Rightarrow> async_error + jobj" where
  "parse_json_object v code =
     (case as_obj v of
        None \<Rightarrow> Inl (Controlled 400 code ''Expected JSON object payload.'' JUndef)
      | Some obj \<Rightarrow> Inr obj)"

text \<open>\<open>/^(?=.{1,253}$)(?!-)(?:[a-z0-9-]{1,63}\.)+[a-z]{2,63}$/i\<close>\<close>

definition host_re :: "string \<Rightarrow> bool" where
  "host_re s \<longleftrightarrow>
     s \<noteq> [] \<and> length s \<le> 253 \<and> hd s \<noteq> CHR ''-''
     \<and> (let labels = split_on CHR ''.'' s in
        length labels \<ge> 2
        \<and> list_all (\<lambda>l. matches_class (\<lambda>c. is_alnum c \<or> c = CHR ''-'') 1 63 l) (butlast labels)
        \<and> matches_class (\<lambda>c. is_lower c \<or> is_upper c) 2 63 (last labels))"

definition domain_field :: jsval where
  "domain_field = JObj [(''field'', JStr ''domain'')]"

definition normalize_domain :: "jsval \<Rightarrow> async_error + string" where
  "normalize_domain raw =
     (case raw of
        JStr s \<Rightarrow>
          let domain = to_lower (trim s) in
          if \<not> host_re domain
          then Inl (Controlled 422 ''domain_invalid'' ''domain has invalid format.'' domain_field)
          else Inr domain
      | _ \<Rightarrow> Inl (Controlled 422 ''domain_invalid'' ''domain must be a string.'' domain_field))"

text \<open>\<open>Array.from(new Set(items))\<close> keeps the first of equal items.\<close>

definition csv_list :: "string option \<Rightarrow> string list" where
  "csv_list input =
     (case input of
        None \<Rightarrow> []
      | Some s \<Rightarrow>
          if s = [] then []
          else rev (remdups (rev (filter (\<lambda>i. i \<noteq> []) (map (\<lambda>i. to_lower (trim i)) (split_on CHR '','' s))))))"

definition parse_positive_int :: "string option \<Rightarrow> int \<Rightarrow> int option \<Rightarrow> int" where
  "parse_positive_int raw fallback cap =
     (case (case raw of None \<Rightarrow> Some fallback | Some s \<Rightarrow> if s = [] then Some fallback else parse_int s) of
        None \<Rightarrow> fallback
      | Some v \<Rightarrow>
          if \<not> js_finite v \<or> v \<le> 0 then fallback
          else (case cap of None \<Rightarrow> v | Some m \<Rightarrow> min v m))"

definition parse_boolean :: "string option \<Rightarrow> bool option" where
  "parse_boolean raw =
     (case raw of
        None \<Rightarrow> None
      | Some s \<Rightarrow>
          let normalized = to_lower (trim s) in
          if normalized \<in> {''1'', ''true'', ''yes'', ''on''} then Some True
          else if normalized \<in> {''0'', ''false'', ''no'', ''off''} then Some False
          else None)"

definition is_signature_strict_mode :: "(string \<Rightarrow> string option) \<Rightarrow> bool" where
  "is_signature_strict_mode env =
     (case parse_boolean (env ''REFRESH_SIGNATURE_STRICT'') of Some b \<Rightarrow> b | None \<Rightarrow> False)"

definition map_config_or_signature_code_to_status :: "string \<Rightarrow> int" where
  "map_config_or_signature_code_to_status code =
     (if starts_with code ''sig_'' then 403
      else if starts_with code ''config_'' \<or> code = ''domain_invalid'' then 422
      else 422)"

definition map_controlled_error_to_http_status :: "string \<Rightarrow> int" where
  "map_controlled_error_to_http_status code =
     (if starts_with code ''sig_'' then 403
      else if starts_with code ''txt_'' \<or> starts_with code ''config_'' \<or> starts_with code ''domain_''
        \<or> starts_with code ''hb_probe_'' then 422
      else 502)"

definition route_assertion_required :: "(string \<Rightarrow> string option) \<Rightarrow> bool" where
  "route_assertion_required env =
     (case parse_boolean (env ''ROUTE_ASSERT_REQUIRE_VERIFY'') of
        Some b \<Rightarrow> b
      | None \<Rightarrow> trim (env_text env ''SECRETS_WORKER_BASE_URL'') \<noteq> [])"

section \<open>Upstream documents\<close>

definition drop_slashes :: "string \<Rightarrow> string" where
  "drop_slashes s = rev (dropWhile (\<lambda>c. c = CHR ''/'') (rev s))"

text \<open>\<open>await res.json().catch(() => null)\<close>\<close>

definition response_json :: "'s async_world \<Rightarrow> http_response \<Rightarrow> jsval" where
  "response_json w rp = (case aw_parse w (rp_body rp) of Inl _ \<Rightarrow> JNull | Inr v \<Rightarrow> v)"

definition get_request :: "string \<Rightarrow> http_request" where
  "get_request url = \<lparr>rq_url = url, rq_method = ''GET'', rq_headers = [], rq_body = None\<rparr>"

definition fetch_json_with_timeout :: "'s async_world \<Rightarrow> string \<Rightarrow> ('s, jobj) aw" where
  "fetch_json_with_timeout w url =
     aw_bind (aw_call w (get_request url)) (\<lambda>(out, message).
       case out of
         Responded rp \<Rightarrow>
           if \<not> rp_ok rp then
             aw_throw (Controlled 502 ''upstream_fetch_failed'' ''Upstream request failed.''
               (JObj [(''url'', JStr url), (''status'', int_json (rp_status rp))]))
           else aw_lift (parse_json_object (response_json w rp) ''upstream_invalid_json'')
       | Threw aborted \<Rightarrow>
           if aborted then
             aw_throw (Controlled 504 ''upstream_timeout'' ''Upstream request timed out.'' (JObj [(''url'', JStr url)]))
           else
             aw_throw (Controlled 502 ''upstream_fetch_failed'' ''Unable to fetch upstream resource.''
               (JObj [(''url'', JStr url), (''message'', JStr message)])))"

text \<open>\<open>data.replace(/^"(.*)"$/, '$1')\<close>; the dot matches no line break.\<close>

definition strip_quotes :: "string \<Rightarrow> string" where
  "strip_quotes s =
     (if length s \<ge> 2 \<and> hd s = CHR 0x22 \<and> last s = CHR 0x22
         \<and> list_all (\<lambda>c. c \<noteq> CHR 0x0A \<and> c \<noteq> CHR 0x0D) (butlast (tl s))
      then butlast (tl s) else s)"

fun first_txt :: "jsval list \<Rightarrow> string option" where
  "first_txt [] = None"
| "first_txt (item # items) =
     (case item of
        JObj obj \<Rightarrow>
          (case jprop obj ''data'' of
             JStr data \<Rightarrow>
               if trim (strip_quotes data) \<noteq> [] then Some (trim (strip_quotes data)) else first_txt items
           | _ \<Rightarrow> first_txt items)
      | _ \<Rightarrow> first_txt items)"

definition read_first_txt_answer :: "jobj \<Rightarrow> async_error + string" where
  "read_first_txt_answer payload =
     (case jprop payload ''Answer'' of
        JArr answer \<Rightarrow>
          if answer = [] then Inl (Controlled 404 ''txt_not_found'' ''No TXT records found for _darkmesh host.'' JUndef)
          else (case first_txt answer of
              Some txt \<Rightarrow> Inr txt
            | None \<Rightarrow> Inl (Controlled 422 ''txt_invalid_payload'' ''TXT record payload is not usable.'' JUndef))
      | _ \<Rightarrow> Inl (Controlled 404 ''txt_not_found'' ''No TXT records found for _darkmesh host.'' JUndef))"

text \<open>\<open>encodeURIComponent\<close> is the identity on \<open>_darkmesh.\<close> and the characters of a domain.\<close>

definition dns_query_url :: "(string \<Rightarrow> string option) \<Rightarrow> string \<Rightarrow> string" where
  "dns_query_url env domain =
     (let resolver = drop_slashes (if env_text env ''DNS_RESOLVER_URL'' \<noteq> [] then env_text env ''DNS_RESOLVER_URL''
            else ''https://dns.google/resolve'')
      in resolver @ ''?name=_darkmesh.'' @ domain @ ''&type=TXT'')"

definition resolve_txt_payload :: "'s async_world \<Rightarrow> string \<Rightarrow> ('s, string) aw" where
  "resolve_txt_payload w domain =
     aw_bind (fetch_json_with_timeout w (dns_query_url (aw_env w) domain)) (\<lambda>payload.
     aw_lift (read_first_txt_answer payload))"

definition resolve_config_json :: "'s async_world \<Rightarrow> string \<Rightarrow> ('s, jobj) aw" where
  "resolve_config_json w cfgTx =
     (let gateway = drop_slashes (if env_text (aw_env w) ''AR_GATEWAY_URL'' \<noteq> []
            then env_text (aw_env w) ''AR_GATEWAY_URL'' else ''https://arweave.net'')
      in fetch_json_with_timeout w (gateway @ ''/'' @ cfgTx))"

section \<open>The probe\<close>

datatype check_status = CheckOk | CheckFailed | CheckSkipped

fun check_str :: "check_status \<Rightarrow> string" where
  "check_str CheckOk = ''ok''"
| "check_str CheckFailed = ''failed''"
| "check_str CheckSkipped = ''skipped''"

record hb_probe =
  hp_status :: check_status
  hp_code :: "string option"
  hp_statusCode :: "int option"
  hp_target :: "string option"

definition opt_prop :: "string \<Rightarrow> jsval option \<Rightarrow> jobj" where
  "opt_prop k v = (case v of None \<Rightarrow> [] | Some x \<Rightarrow> [(k, x)])"

definition probe_json :: "hb_probe \<Rightarrow> jsval" where
  "probe_json p = JObj ((''status'', JStr (check_str (hp_status p))) # opt_prop ''code'' (map_option JStr (hp_code p))
     @ opt_prop ''statusCode'' (map_option int_json (hp_statusCode p))
     @ opt_prop ''target'' (map_option JStr (hp_target p)))"

definition ensure_allowlisted_hb_url :: "'s async_world \<Rightarrow> string \<Rightarrow> async_error + string" where
  "ensure_allowlisted_hb_url w rawUrl =
     (case aw_url w rawUrl of
        None \<Rightarrow> Inl (Controlled 422 ''hb_probe_invalid_url'' ''hbProbeUrl must be a valid absolute URL.'' JUndef)
      | Some u \<Rightarrow>
          if up_protocol u \<noteq> ''https:'' \<and> up_protocol u \<noteq> ''http:''
          then Inl (Controlled 422 ''hb_probe_invalid_url'' ''hbProbeUrl must use http/https.'' JUndef)
          else
            let allowlist = csv_list (aw_env w ''HB_PROBE_ALLOWLIST'') in
            if length allowlist > 0 \<and> to_lower (up_hostname u) \<notin> set allowlist
            then Inl (Controlled 422 ''hb_probe_not_allowlisted'' ''hb probe target host is not in allowlist.''
              (JObj [(''host'', JStr (up_hostname u))]))
            else Inr (up_href u))"

definition probe_request :: "string \<Rightarrow> http_request" where
  "probe_request target =
     \<lparr>rq_url = target, rq_method = ''GET'',
      rq_headers = [(''accept'', ''application/json,text/plain;q=0.9,*/*;q=0.8'')], rq_body = None\<rparr>"

definition probe_hb_integrity :: "'s async_world \<Rightarrow> string \<Rightarrow> ('s, hb_probe) aw" where
  "probe_hb_integrity w rawUrl =
     aw_bind (aw_lift (ensure_allowlisted_hb_url w rawUrl)) (\<lambda>target.
     aw_bind (aw_call w (probe_request target)) (\<lambda>(out, message). aw_return
       (case out of
          Responded rp \<Rightarrow>
            if rp_status rp \<ge> 500 then
              \<lparr>hp_status = CheckFailed, hp_code = Some ''hb_probe_failed'', hp_statusCode = Some (rp_status rp),
               hp_target = Some target\<rparr>
            else \<lparr>hp_status = CheckOk, hp_code = None, hp_statusCode = Some (rp_status rp), hp_target = Some target\<rparr>
        | Threw aborted \<Rightarrow>
            \<lparr>hp_status = CheckFailed, hp_code = Some (if aborted then ''hb_probe_timeout'' else ''hb_probe_failed''),
             hp_statusCode = None, hp_target = Some target\<rparr>)))"

definition text_field :: "jobj \<Rightarrow> string \<Rightarrow> string" where
  "text_field obj k = (case jprop obj k of JStr s \<Rightarrow> trim s | _ \<Rightarrow> [])"

definition derive_probe_url :: "string option \<Rightarrow> jobj \<Rightarrow> string option" where
  "derive_probe_url requestProbeUrl config =
     (let own = (case requestProbeUrl of None \<Rightarrow> [] | Some s \<Rightarrow> trim s) in
      if own \<noteq> [] then Some own
      else if text_field config ''hbProbeUrl'' \<noteq> [] then Some (text_field config ''hbProbeUrl'')
      else if text_field config ''hbUrl'' \<noteq> [] then Some (text_field config ''hbUrl'')
      else None)"

section \<open>The route assertion\<close>

record route_check =
  rc_status :: check_status
  rc_required :: bool
  rc_code :: "string option"
  rc_detail :: "string option"

definition route_json :: "route_check \<Rightarrow> jsval" where
  "route_json r = JObj ([(''status'', JStr (check_str (rc_status r))), (''required'', JBool (rc_required r))]
     @ opt_prop ''code'' (map_option JStr (rc_code r)) @ opt_prop ''detail'' (map_option JStr (rc_detail r)))"

definition route_failed :: "bool \<Rightarrow> string \<Rightarrow> string option \<Rightarrow> route_check" where
  "route_failed required code detail =
     \<lparr>rc_status = CheckFailed, rc_required = required, rc_code = Some code, rc_detail = detail\<rparr>"

fun first_host :: "'s async_world \<Rightarrow> string option list \<Rightarrow> string option" where
  "first_host w [] = None"
| "first_host w (c # cs) =
     (case c of
        None \<Rightarrow> first_host w cs
      | Some url \<Rightarrow>
          if url = [] then first_host w cs
          else (case aw_url w url of None \<Rightarrow> first_host w cs | Some u \<Rightarrow> Some (to_lower (up_hostname u))))"

definition derive_hb_host_for_assertion ::
  "'s async_world \<Rightarrow> string option \<Rightarrow> string option \<Rightarrow> string option" where
  "derive_hb_host_for_assertion w hbProbeTarget rawProbeUrl =
     (let override = trim (env_text (aw_env w) ''ROUTE_ASSERT_HB_HOST_OVERRIDE'')
      in if override \<noteq> [] then Some (to_lower override) else first_host w [hbProbeTarget, rawProbeUrl])"

text \<open>\<open>v && typeof v === 'object'\<close>; an array has none of the fields that are read.\<close>

definition js_object :: "jsval \<Rightarrow> jobj option" where
  "js_object v = (case v of JObj obj \<Rightarrow> Some obj | JArr _ \<Rightarrow> Some [] | _ \<Rightarrow> None)"

definition post_json :: "'s async_world \<Rightarrow> string \<Rightarrow> (string \<times> string) list \<Rightarrow> jobj \<Rightarrow> http_request" where
  "post_json w url hs body =
     \<lparr>rq_url = url, rq_method = ''POST'', rq_headers = hs @ [(''content-type'', ''application/json'')],
      rq_body = Some (json_stringify (aw_show w) (JObj body))\<rparr>"

definition issue_request ::
  "'s async_world \<Rightarrow> url_parts \<Rightarrow> string \<Rightarrow> string \<Rightarrow> string \<Rightarrow> string \<Rightarrow> string \<Rightarrow> int \<Rightarrow> http_request" where
  "issue_request w base token domain cfgTx hbHost nonce challengeExp =
     post_json w (aw_route_url w base ''/route/assert'') [(''authorization'', ''Bearer '' @ token)]
       [(''domain'', JStr domain), (''cfgTx'', JStr cfgTx), (''hbHost'', JStr hbHost),
        (''challengeNonce'', JStr nonce), (''challengeExp'', int_json challengeExp)]"

text \<open>The fields of the answer that the verification is asked for, where all of them are there.\<close>

definition issued_assertion :: "jobj \<Rightarrow> jobj option" where
  "issued_assertion issued =
     (case jprop issued ''assertion'' of
        JObj a \<Rightarrow>
          if text_field issued ''signature'' = [] \<or> text_field issued ''sigAlg'' = []
             \<or> text_field issued ''signatureRef'' = [] then None
          else Some [(''assertion'', JObj a), (''signature'', JStr (text_field issued ''signature'')),
            (''sigAlg'', JStr (text_field issued ''sigAlg'')),
            (''signatureRef'', JStr (text_field issued ''signatureRef''))]
      | _ \<Rightarrow> None)"

definition verify_request :: "'s async_world \<Rightarrow> url_parts \<Rightarrow> string \<Rightarrow> string \<Rightarrow> jobj \<Rightarrow> http_request" where
  "verify_request w base domain hbHost fs =
     post_json w (aw_route_url w base ''/route/assert/verify'') []
       (fs @ [(''expectedDomain'', JStr domain), (''expectedHbHost'', JStr hbHost)])"

definition verify_answer :: "'s async_world \<Rightarrow> bool \<Rightarrow> http_response \<Rightarrow> route_check" where
  "verify_answer w required rp =
     (let body = response_json w rp in
      if \<not> rp_ok rp then
        route_failed required ''route_assert_verify_failed''
          (case js_object body of
             None \<Rightarrow> None
           | Some obj \<Rightarrow> (case jprop obj ''error'' of JStr code \<Rightarrow> Some code | _ \<Rightarrow> None))
      else if (case js_object body of None \<Rightarrow> True | Some obj \<Rightarrow> jprop obj ''ok'' \<noteq> JBool True) then
        route_failed required ''route_assert_verify_invalid_response'' None
      else \<lparr>rc_status = CheckOk, rc_required = required, rc_code = None, rc_detail = None\<rparr>)"

definition route_threw :: "bool \<Rightarrow> bool \<Rightarrow> string \<Rightarrow> route_check" where
  "route_threw required aborted message =
     (if aborted then route_failed required ''route_assert_timeout'' None
      else route_failed required ''route_assert_unreachable'' (Some message))"

definition ask_route_assertion ::
  "'s async_world \<Rightarrow> bool \<Rightarrow> url_parts \<Rightarrow> string \<Rightarrow> string \<Rightarrow> string \<Rightarrow> string \<Rightarrow> ('s, route_check) aw" where
  "ask_route_assertion w required base token domain cfgTx hbHost =
     aw_bind (aw_tick (aw_random w)) (\<lambda>nonce.
     aw_bind (aw_now w) (\<lambda>ms.
     aw_bind (aw_call w (issue_request w base token domain cfgTx hbHost nonce (ms div 1000 + 90))) (\<lambda>(out, message).
       case out of
         Threw aborted \<Rightarrow> aw_return (route_threw required aborted message)
       | Responded rp \<Rightarrow>
           (case js_object (response_json w rp) of
              None \<Rightarrow> aw_return (route_failed required ''route_assert_issue_failed'' None)
            | Some issued \<Rightarrow>
                if \<not> rp_ok rp then aw_return (route_failed required ''route_assert_issue_failed'' None)
                else (case issued_assertion issued of
                    None \<Rightarrow> aw_return (route_failed required ''route_assert_issue_invalid_response'' None)
                  | Some fs \<Rightarrow>
                      aw_bind (aw_call w (verify_request w base domain hbHost fs)) (\<lambda>(out2, message2).
                        aw_return (case out2 of
                            Threw aborted \<Rightarrow> route_threw required aborted message2
                          | Responded rp2 \<Rightarrow> verify_answer w required rp2)))))))"

definition verify_route_assertion ::
  "'s async_world \<Rightarrow> string \<Rightarrow> string \<Rightarrow> string option \<Rightarrow> ('s, route_check) aw" where
  "verify_route_assertion w domain cfgTx hbHost =
     (let required = route_assertion_required (aw_env w);
          base = drop_slashes (trim (env_text (aw_env w) ''SECRETS_WORKER_BASE_URL''));
          token = trim (env_text (aw_env w) ''ROUTE_ASSERT_TOKEN'')
      in if \<not> required \<and> (base = [] \<or> token = []) then
           aw_return \<lparr>rc_status = CheckSkipped, rc_required = required,
             rc_code = Some ''route_assert_not_configured'', rc_detail = None\<rparr>
         else if base = [] then aw_return (route_failed required ''route_assert_base_url_missing'' None)
         else if token = [] then aw_return (route_failed required ''route_assert_token_missing'' None)
         else
           (case hbHost of
              None \<Rightarrow> aw_return (route_failed required ''route_assert_hb_host_missing'' None)
            | Some host \<Rightarrow>
                if host = [] then aw_return (route_failed required ''route_assert_hb_host_missing'' None)
                else (case aw_url w base of
                    None \<Rightarrow> aw_return (route_failed required ''route_assert_base_url_invalid'' None)
                  | Some u \<Rightarrow> ask_route_assertion w required u token domain cfgTx host)))"

section \<open>The refresh of a domain\<close>

record refresh_request =
  jr_domain :: string
  jr_reason :: "string option"
  jr_force :: bool
  jr_dryRun :: bool
  jr_txtPayload :: "string option"
  jr_configJson :: "jobj option"
  jr_hbProbeUrl :: "string option"

record refresh_result =
  rr_domain :: string
  rr_mode :: refresh_mode
  rr_cfgTx :: string
  rr_ttlSec :: int
  rr_resolvedTarget :: string
  rr_writeProcess :: "string option"
  rr_configHash :: string
  rr_hbProbe :: hb_probe
  rr_routeAssertion :: route_check

fun txt_code_str :: "txt_code \<Rightarrow> string" where
  "txt_code_str TxtInvalidType = ''txt_invalid_type''"
| "txt_code_str TxtEmpty = ''txt_empty''"
| "txt_code_str TxtInvalidPair = ''txt_invalid_pair''"
| "txt_code_str TxtDuplicateKey = ''txt_duplicate_key''"
| "txt_code_str TxtUnknownKey = ''txt_unknown_key''"
| "txt_code_str TxtMissingField = ''txt_missing_field''"
| "txt_code_str TxtInvalidVersion = ''txt_invalid_version''"
| "txt_code_str TxtInvalidCfg = ''txt_invalid_cfg''"
| "txt_code_str TxtInvalidKid = ''txt_invalid_kid''"
| "txt_code_str TxtInvalidTtl = ''txt_invalid_ttl''"

fun config_code_str :: "config_code \<Rightarrow> string" where
  "config_code_str DomainInvalid = ''domain_invalid''"
| "config_code_str ConfigInvalidType = ''config_invalid_type''"
| "config_code_str ConfigMissingField = ''config_missing_field''"
| "config_code_str ConfigInvalidField = ''config_invalid_field''"
| "config_code_str ConfigInvalidTimeWindow = ''config_invalid_time_window''"
| "config_code_str ConfigKidMismatch = ''config_kid_mismatch''"
| "config_code_str SigInvalidPayload = ''sig_invalid_payload''"
| "config_code_str SigInvalidPublicKey = ''sig_invalid_public_key''"
| "config_code_str SigInvalidSignatureEncoding = ''sig_invalid_signature_encoding''"
| "config_code_str SigUnsupportedAlgorithm = ''sig_unsupported_algorithm''"
| "config_code_str SigWindowNotStarted = ''sig_window_not_started''"
| "config_code_str SigWindowExpired = ''sig_window_expired''"
| "config_code_str SigVerificationFailed = ''sig_verification_failed''"

definition dm_details :: "('c \<Rightarrow> string) \<Rightarrow> 'c dm_error \<Rightarrow> jsval" where
  "dm_details str e =
     JObj [(''code'', JStr (str (de_code e))), (''message'', JStr (de_message e)),
       (''field'', case de_field e of None \<Rightarrow> JUndef | Some f \<Rightarrow> JStr f)]"

definition txt_error :: "txt_code dm_error \<Rightarrow> async_error" where
  "txt_error e = Controlled 422 (txt_code_str (de_code e)) (de_message e) (dm_details txt_code_str e)"

definition config_error :: "config_code dm_error \<Rightarrow> async_error" where
  "config_error e =
     Controlled (map_config_or_signature_code_to_status (config_code_str (de_code e))) (config_code_str (de_code e))
       (de_message e) (dm_details config_code_str e)"

definition refresh_txt :: "'s async_world \<Rightarrow> string \<Rightarrow> refresh_request \<Rightarrow> ('s, dm_txt_envelope) aw" where
  "refresh_txt w domain req =
     (let given = (case jr_txtPayload req of None \<Rightarrow> [] | Some t \<Rightarrow> trim t)
      in aw_bind (if given \<noteq> [] then aw_return given else resolve_txt_payload w domain) (\<lambda>txt.
         aw_lift (case parse_and_validate_dm_txt_envelope (JStr txt) of
             Inl e \<Rightarrow> Inl (txt_error e)
           | Inr envl \<Rightarrow> Inr envl)))"

definition refresh_config :: "'s async_world \<Rightarrow> string \<Rightarrow> refresh_request \<Rightarrow> ('s, jobj) aw" where
  "refresh_config w cfgTx req =
     (case jr_configJson req of Some config \<Rightarrow> aw_return config | None \<Rightarrow> resolve_config_json w cfgTx)"

text \<open>The domain and the owner that the config names, from the verified config or, where strict mode is off,
  from one that does not verify.\<close>

definition refresh_identity ::
  "'s async_world \<Rightarrow> refresh_mode \<Rightarrow> string \<Rightarrow> jobj \<Rightarrow> dm_txt_envelope \<Rightarrow> ('s, string \<times> string) aw" where
  "refresh_identity w mode domain config envl =
     (let strict = is_signature_strict_mode (aw_env w)
      in aw_bind (aw_now w) (\<lambda>ms.
         case validate_and_verify_dm_config (aw_url w) (aw_crypto w) (ms div 1000) (JObj config)
             (KeyText (te_kid envl)) of
           None \<Rightarrow> aw_throw (Thrown ''TypeError'')
         | Some (Inl e) \<Rightarrow>
             if strict then aw_throw (config_error e)
             else aw_bind (log_json ''warn'' ''refresh_signature_bypass''
                 [(''mode'', JStr (mode_str mode)), (''domain'', JStr domain),
                  (''code'', JStr (config_code_str (de_code e))), (''strictMode'', JBool strict),
                  (''reason'', JStr (de_message e))]) (\<lambda>_.
               aw_return (to_lower (text_field config ''domain''), text_field config ''owner''))
         | Some (Inr c) \<Rightarrow>
             (case validate_config_kid_against_txt c envl of
                Inl e \<Rightarrow> if strict then aw_throw (config_error e) else aw_return (dc_domain c, dc_owner c)
              | Inr _ \<Rightarrow> aw_return (dc_domain c, dc_owner c))))"

definition mismatch_details :: "string \<Rightarrow> string \<Rightarrow> jsval" where
  "mismatch_details expected actual = JObj [(''expected'', JStr expected), (''actual'', JStr actual)]"

definition check_identity :: "string \<Rightarrow> dm_txt_envelope \<Rightarrow> string \<times> string \<Rightarrow> async_error + unit" where
  "check_identity domain envl ids =
     (case ids of (configDomain, owner) \<Rightarrow>
        if configDomain \<noteq> [] \<and> configDomain \<noteq> domain then
          Inl (Controlled 422 ''config_domain_mismatch'' ''Config domain does not match request domain.''
            (mismatch_details domain configDomain))
        else if owner \<noteq> [] \<and> owner \<noteq> te_kid envl then
          Inl (Controlled 422 ''config_owner_mismatch'' ''Config owner does not match TXT kid.''
            (mismatch_details (te_kid envl) owner))
        else Inr ())"

definition refresh_probe :: "'s async_world \<Rightarrow> refresh_request \<Rightarrow> string option \<Rightarrow> ('s, hb_probe) aw" where
  "refresh_probe w req probe_url =
     aw_bind (case probe_url of
         Some url \<Rightarrow> probe_hb_integrity w url
       | None \<Rightarrow> aw_return \<lparr>hp_status = CheckSkipped, hp_code = Some ''hb_probe_target_missing'',
           hp_statusCode = None, hp_target = None\<rparr>) (\<lambda>p.
       if hp_status p = CheckFailed \<and> \<not> jr_dryRun req then
         aw_throw (Controlled 502 (case hp_code p of Some c \<Rightarrow> c | None \<Rightarrow> ''hb_probe_failed'')
           ''HB integrity probe failed.'' (probe_json p))
       else aw_return p)"

definition refresh_route ::
  "'s async_world \<Rightarrow> refresh_request \<Rightarrow> string \<Rightarrow> string \<Rightarrow> string option \<Rightarrow> hb_probe \<Rightarrow> ('s, route_check) aw" where
  "refresh_route w req domain cfgTx probe_url p =
     aw_bind (verify_route_assertion w domain cfgTx (derive_hb_host_for_assertion w (hp_target p) probe_url)) (\<lambda>r.
       if rc_status r = CheckFailed \<and> rc_required r \<and> \<not> jr_dryRun req then
         (let code = (case rc_code r of Some c \<Rightarrow> c | None \<Rightarrow> ''route_assert_verify_failed'')
          in aw_throw (Controlled (map_controlled_error_to_http_status code) code
            ''Route assertion verification failed.'' (route_json r)))
       else aw_return r)"

definition resolved_target :: "jobj \<Rightarrow> string \<Rightarrow> string" where
  "resolved_target config cfgTx =
     (let siteProcess = text_field config ''siteProcess'';
          entryPath = (if starts_with (text_field config ''entryPath'') ''/'' then text_field config ''entryPath'' else ''/'')
      in if siteProcess \<noteq> [] then siteProcess @ entryPath else ''cfg:'' @ cfgTx)"

definition non_empty_text :: "string \<Rightarrow> string option" where
  "non_empty_text s = (if s = [] then None else Some s)"

definition run_domain_refresh ::
  "'s async_world \<Rightarrow> refresh_request \<Rightarrow> refresh_mode \<Rightarrow> ('s, refresh_result) aw" where
  "run_domain_refresh w req mode =
     aw_bind (aw_lift (normalize_domain (JStr (jr_domain req)))) (\<lambda>domain.
     aw_bind (refresh_txt w domain req) (\<lambda>envl.
     aw_bind (refresh_config w (te_cfg envl) req) (\<lambda>config.
     aw_bind (refresh_identity w mode domain config envl) (\<lambda>ids.
     aw_bind (aw_lift (check_identity domain envl ids)) (\<lambda>_.
     let probe_url = derive_probe_url (jr_hbProbeUrl req) config in
     aw_bind (refresh_probe w req probe_url) (\<lambda>p.
     aw_bind (refresh_route w req domain (te_cfg envl) probe_url p) (\<lambda>r.
     aw_return
       \<lparr>rr_domain = domain, rr_mode = mode, rr_cfgTx = te_cfg envl, rr_ttlSec = te_ttl envl,
        rr_resolvedTarget = resolved_target config (te_cfg envl),
        rr_writeProcess = non_empty_text (text_field config ''writeProcess''),
        rr_configHash = aw_sha256 w (stable_stringify (aw_show w) (JObj config)),
        rr_hbProbe = p, rr_routeAssertion = r\<rparr>)))))))"

section \<open>The adapter over the binding\<close>

text \<open>The loop of \<open>WorkersKvDomainMapAdapter.list\<close> over the pages of the binding, which may go on for ever.\<close>

record kv_list_page =
  kl_keys :: "string list"
  kl_complete :: bool
  kl_cursor :: "string option"

definition next_cursor :: "kv_list_page \<Rightarrow> string option" where
  "next_cursor page =
     (if kl_complete page then None
      else (case kl_cursor page of Some c \<Rightarrow> if c = [] then None else Some c | None \<Rightarrow> None))"

partial_function (option) adapter_list ::
  "(string option \<Rightarrow> kv_list_page) \<Rightarrow> string option \<Rightarrow> string list \<Rightarrow> string list option" where
  "adapter_list pages cursor ks =
     (let page = pages cursor
      in case next_cursor page of
           None \<Rightarrow> Some (ks @ kl_keys page)
         | Some c \<Rightarrow> adapter_list pages (Some c) (ks @ kl_keys page))"

text \<open>It returns, with the keys of all pages, where the cursors run out.\<close>

lemma adapter_list_returns:
  assumes "\<And>c c'. next_cursor (pages c) = Some c' \<Longrightarrow> rank (Some c') < (rank c :: nat)"
  shows "\<exists>more. adapter_list pages cursor ks = Some (ks @ kl_keys (pages cursor) @ more)"
proof (induction "rank cursor" arbitrary: cursor ks rule: less_induct)
  case less
  show ?case
  proof (cases "next_cursor (pages cursor)")
    case None
    then show ?thesis by (subst adapter_list.simps) simp
  next
    case (Some c)
    from less [OF assms [OF Some], of "ks @ kl_keys (pages cursor)"] show ?thesis
      by (subst adapter_list.simps) (auto simp: Some)
  qed
qed

section \<open>Booking in the domain map\<close>

text \<open>A call of the binding: it may throw, with or without having had its effect.\<close>

definition kv_effect :: "'s async_world \<Rightarrow> ('s \<Rightarrow> string + 'a \<times> 's) \<Rightarrow> ('s, 'a) aw" where
  "kv_effect w f =
     aw_bind (aw_tick (aw_kv_fault w)) (\<lambda>fault st.
       case f (ay_store st) of
         Inl message \<Rightarrow> (Inl (Thrown message), st)
       | Inr (x, store) \<Rightarrow>
           (case fault of
              None \<Rightarrow> (Inr x, st\<lparr>ay_store := store\<rparr>)
            | Some (message, applied) \<Rightarrow> (Inl (Thrown message), if applied then st\<lparr>ay_store := store\<rparr> else st)))"

definition read_entry :: "'s async_world \<Rightarrow> 's kv_ops \<Rightarrow> string \<Rightarrow> ('s, dm_entry option) aw" where
  "read_entry w kv host =
     aw_bind (aw_now w) (\<lambda>now.
     kv_effect w (\<lambda>store. map_sum id (\<lambda>e. (e, store)) (get_domain_map_entry kv (aw_parse w) (of_int now) host store)))"

definition write_entry :: "'s async_world \<Rightarrow> 's kv_ops \<Rightarrow> dm_entry \<Rightarrow> ('s, unit) aw" where
  "write_entry w kv e =
     kv_effect w (\<lambda>store. map_sum id (\<lambda>store'. ((), store')) (put_domain_map_entry kv (aw_show w) e store))"

definition domain_state_options_from_env :: "(string \<Rightarrow> string option) \<Rightarrow> sm_options" where
  "domain_state_options_from_env env =
     \<lparr>so_staleIfErrorMs = Some (of_int (parse_positive_int (env ''STALE_GRACE_SEC'') 300 None * 1000)),
      so_minTtlMs = None, so_maxTtlMs = None\<rparr>"

definition book_outcome ::
  "'s async_world \<Rightarrow> 's kv_ops \<Rightarrow> string \<Rightarrow> (rat \<Rightarrow> refresh_outcome) \<Rightarrow> ('s, unit) aw" where
  "book_outcome w kv domain outcome =
     aw_bind (aw_now w) (\<lambda>now.
     aw_bind (read_entry w kv domain) (\<lambda>current.
     aw_bind (aw_lift (map_sum Thrown id (apply_refresh_outcome current (outcome (of_int now)) domain (of_int now)
       (domain_state_options_from_env (aw_env w))))) (\<lambda>e.
     write_entry w kv e)))"

definition success_outcome :: "refresh_result \<Rightarrow> rat \<Rightarrow> refresh_outcome" where
  "success_outcome r now =
     RefreshSuccess \<lparr>rf_cfgTx = rr_cfgTx r, rf_resolvedTarget = rr_resolvedTarget r,
       rf_ttlMs = of_int (rr_ttlSec r * 1000), rf_writeProcess = rr_writeProcess r,
       rf_configHash = Some (rr_configHash r),
       rf_hbVerifiedAt = (if hp_status (rr_hbProbe r) = CheckOk then Some now else None)\<rparr>"

definition persist_domain_refresh_success :: "'s async_world \<Rightarrow> 's kv_ops \<Rightarrow> refresh_result \<Rightarrow> ('s, unit) aw" where
  "persist_domain_refresh_success w kv r = book_outcome w kv (rr_domain r) (success_outcome r)"

definition persist_domain_refresh_failure ::
  "'s async_world \<Rightarrow> 's kv_ops \<Rightarrow> string \<Rightarrow> async_error \<Rightarrow> ('s, unit) aw" where
  "persist_domain_refresh_failure w kv domain e =
     book_outcome w kv domain (\<lambda>now. RefreshFailure (ErrObj (err_code e) (err_message e) (Some now)))"

definition run_domain_refresh_with_domain_state ::
  "'s async_world \<Rightarrow> refresh_request \<Rightarrow> refresh_mode \<Rightarrow> ('s, refresh_result) aw" where
  "run_domain_refresh_with_domain_state w req mode =
     aw_bind (run_domain_refresh w req mode) (\<lambda>result.
       case aw_kv w of
         None \<Rightarrow> aw_return result
       | Some kv \<Rightarrow>
           aw_bind (aw_catch (persist_domain_refresh_success w kv result) (\<lambda>e.
             aw_throw (Controlled 500 ''domain_map_write_failed''
               ''Domain map state write failed after successful refresh.''
               (JObj [(''domain'', JStr (rr_domain result)), (''message'', JStr (err_message e))])))) (\<lambda>_.
           aw_return result))"

definition run_domain_refresh_tracked ::
  "'s async_world \<Rightarrow> refresh_request \<Rightarrow> refresh_mode \<Rightarrow> ('s, refresh_result) aw" where
  "run_domain_refresh_tracked w req mode =
     aw_bind (aw_lift (normalize_domain (JStr (jr_domain req)))) (\<lambda>domain.
     aw_catch (run_domain_refresh_with_domain_state w (req\<lparr>jr_domain := domain\<rparr>) mode) (\<lambda>e.
       aw_bind (case aw_kv w of
           None \<Rightarrow> aw_return ()
         | Some kv \<Rightarrow>
             aw_catch (persist_domain_refresh_failure w kv domain e) (\<lambda>write_error.
               log_json ''error'' ''domain_map_write_failed''
                 [(''domain'', JStr domain), (''code'', JStr ''domain_map_write_failed_on_error_path''),
                  (''message'', JStr (err_message write_error))])) (\<lambda>_.
       aw_throw e)))"

section \<open>Jobs and batches\<close>

definition opt_text :: "jobj \<Rightarrow> string \<Rightarrow> string option" where
  "opt_text obj k = (case jprop obj k of JStr s \<Rightarrow> Some s | _ \<Rightarrow> None)"

definition request_of :: "string \<Rightarrow> jobj \<Rightarrow> refresh_request" where
  "request_of domain obj =
     \<lparr>jr_domain = domain, jr_reason = opt_text obj ''reason'', jr_force = (jprop obj ''force'' = JBool True),
      jr_dryRun = (jprop obj ''dryRun'' = JBool True), jr_txtPayload = opt_text obj ''txtPayload'',
      jr_configJson = as_obj (jprop obj ''configJson''), jr_hbProbeUrl = opt_text obj ''hbProbeUrl''\<rparr>"

definition handle_refresh_domain_post :: "'s async_world \<Rightarrow> jobj \<Rightarrow> ('s, refresh_result) aw" where
  "handle_refresh_domain_post w body =
     aw_bind (aw_lift (normalize_domain (jprop body ''domain''))) (\<lambda>domain.
     run_domain_refresh_tracked w (request_of domain body) ModeInline)"

fun map_sum_list :: "('a \<Rightarrow> 'e + 'b) \<Rightarrow> 'a list \<Rightarrow> 'e + 'b list" where
  "map_sum_list f [] = Inr []"
| "map_sum_list f (x # xs) =
     Prelude.sum_bind (f x) (\<lambda>y. Prelude.sum_bind (map_sum_list f xs) (\<lambda>ys. Inr (y # ys)))"

definition batch_item :: "jsval \<Rightarrow> async_error + refresh_request" where
  "batch_item item =
     Prelude.sum_bind (parse_json_object item ''invalid_batch_item'') (\<lambda>parsed.
     Prelude.sum_bind (normalize_domain (jprop parsed ''domain'')) (\<lambda>domain.
     Inr (request_of domain parsed)))"

definition batch_candidates :: "jobj \<Rightarrow> async_error + refresh_request list" where
  "batch_candidates body =
     (case jprop body ''items'' of
        JArr items \<Rightarrow> map_sum_list batch_item items
      | _ \<Rightarrow>
          (case jprop body ''domains'' of
             JArr domains \<Rightarrow>
               map_sum_list (\<lambda>d. Prelude.sum_bind (normalize_domain d) (\<lambda>domain. Inr (request_of domain body))) domains
           | _ \<Rightarrow> Inl (Controlled 400 ''invalid_batch_payload'' ''Batch payload requires domains[] or items[].'' JUndef)))"

fun split_duplicates :: "string list \<Rightarrow> refresh_request list \<Rightarrow> refresh_request list \<times> string list" where
  "split_duplicates seen [] = ([], [])"
| "split_duplicates seen (c # cs) =
     (if jr_domain c \<in> set seen then (case split_duplicates seen cs of (ds, dups) \<Rightarrow> (ds, jr_domain c # dups))
      else (case split_duplicates (jr_domain c # seen) cs of (ds, dups) \<Rightarrow> (c # ds, dups)))"

definition parse_batch_requests :: "jobj \<Rightarrow> async_error + refresh_request list \<times> string list" where
  "parse_batch_requests body =
     Prelude.sum_bind (batch_candidates body) (\<lambda>candidates.
       if candidates = [] then
         Inl (Controlled 400 ''invalid_batch_payload'' ''Batch payload cannot be empty.'' JUndef)
       else Inr (split_duplicates [] candidates))"

datatype batch_outcome = Refreshed refresh_result | NotRefreshed string string string

record batch_summary =
  bs_attempted :: nat
  bs_ok :: nat
  bs_failed :: nat
  bs_outcomes :: "batch_outcome list"

definition batch_limit :: "(string \<Rightarrow> string option) \<Rightarrow> int" where
  "batch_limit env = parse_positive_int (env ''REFRESH_BATCH_LIMIT'') 10 (Some 100)"

definition batch_step ::
  "'s async_world \<Rightarrow> refresh_mode \<Rightarrow> refresh_request \<Rightarrow> ('s, batch_outcome) aw" where
  "batch_step w mode req =
     aw_bind (aw_now w) (\<lambda>started.
     aw_catch
       (aw_bind (run_domain_refresh_tracked w req mode) (\<lambda>result.
        aw_bind (aw_now w) (\<lambda>now.
        aw_bind (log_refresh_outcome ''info'' mode (jr_domain req) ''ok'' (now - started)) (\<lambda>_.
        aw_return (Refreshed result)))))
       (\<lambda>e. aw_bind (aw_now w) (\<lambda>now.
        aw_bind (log_refresh_outcome ''warn'' mode (jr_domain req) (err_code e) (now - started)) (\<lambda>_.
        aw_return (NotRefreshed (jr_domain req) (err_code e) (err_message e))))))"

definition note_outcome :: "batch_outcome \<Rightarrow> batch_summary \<Rightarrow> batch_summary" where
  "note_outcome out s =
     (case out of
        Refreshed _ \<Rightarrow> s\<lparr>bs_ok := Suc (bs_ok s), bs_outcomes := bs_outcomes s @ [out]\<rparr>
      | NotRefreshed _ _ _ \<Rightarrow> s\<lparr>bs_failed := Suc (bs_failed s), bs_outcomes := bs_outcomes s @ [out]\<rparr>)"

primrec batch_loop ::
  "'s async_world \<Rightarrow> refresh_mode \<Rightarrow> refresh_request list \<Rightarrow> batch_summary \<Rightarrow> ('s, batch_summary) aw" where
  "batch_loop w mode [] s = aw_return s"
| "batch_loop w mode (r # rs) s =
     aw_bind (batch_step w mode r) (\<lambda>out. batch_loop w mode rs (note_outcome out s))"

definition run_refresh_batch ::
  "'s async_world \<Rightarrow> refresh_request list \<Rightarrow> refresh_mode \<Rightarrow> ('s, batch_summary) aw" where
  "run_refresh_batch w requests mode =
     (let selected = take (nat (batch_limit (aw_env w))) requests
      in batch_loop w mode selected
           \<lparr>bs_attempted = length selected, bs_ok = 0, bs_failed = 0, bs_outcomes = []\<rparr>)"

definition scheduled_request :: "string \<Rightarrow> refresh_request" where
  "scheduled_request domain =
     \<lparr>jr_domain = domain, jr_reason = Some ''scheduled'', jr_force = False, jr_dryRun = False,
      jr_txtPayload = None, jr_configJson = None, jr_hbProbeUrl = None\<rparr>"

definition run_scheduled_refresh_batch :: "'s async_world \<Rightarrow> ('s, batch_summary) aw" where
  "run_scheduled_refresh_batch w =
     run_refresh_batch w (map scheduled_request (csv_list (aw_env w ''REFRESH_DOMAINS''))) ModeScheduled"

definition job_json :: "refresh_request \<Rightarrow> jsval" where
  "job_json req =
     JObj [(''type'', JStr ''refresh-domain''), (''payload'', JObj
       [(''domain'', JStr (jr_domain req)), (''reason'', case jr_reason req of None \<Rightarrow> JUndef | Some s \<Rightarrow> JStr s),
        (''force'', JBool (jr_force req)), (''dryRun'', JBool (jr_dryRun req))])]"

definition enqueue_job :: "'s async_world \<Rightarrow> jsval \<Rightarrow> ('s, refresh_mode) aw" where
  "enqueue_job w job =
     (case aw_queue w of
        None \<Rightarrow> aw_return ModeInline
      | Some fault \<Rightarrow>
          aw_bind (aw_tick fault) (\<lambda>threw st.
            case threw of
              Some message \<Rightarrow> (Inl (Thrown message), st)
            | None \<Rightarrow> (Inr ModeQueue, st\<lparr>ay_queued := job # ay_queued st\<rparr>)))"

section \<open>Routes\<close>

record async_reply =
  ar_status :: int
  ar_body :: jobj

definition result_json :: "refresh_result \<Rightarrow> jobj" where
  "result_json r =
     [(''ok'', JBool True), (''domain'', JStr (rr_domain r)), (''mode'', JStr (mode_str (rr_mode r))),
      (''cfgTx'', JStr (rr_cfgTx r)), (''ttlSec'', int_json (rr_ttlSec r)),
      (''resolvedTarget'', JStr (rr_resolvedTarget r)),
      (''writeProcess'', case rr_writeProcess r of None \<Rightarrow> JNull | Some p \<Rightarrow> JStr p),
      (''configHash'', JStr (rr_configHash r)), (''hbProbe'', probe_json (rr_hbProbe r)),
      (''routeAssertion'', route_json (rr_routeAssertion r))]"

definition outcome_json :: "batch_outcome \<Rightarrow> jsval" where
  "outcome_json out =
     (case out of
        Refreshed r \<Rightarrow> JObj (result_json r)
      | NotRefreshed domain code message \<Rightarrow>
          JObj [(''ok'', JBool False), (''domain'', JStr domain), (''code'', JStr code), (''message'', JStr message)])"

text \<open>\<open>app.onError\<close>\<close>

definition on_error :: "async_error \<Rightarrow> async_reply" where
  "on_error e =
     (case e of
        Controlled status code message details \<Rightarrow>
          \<lparr>ar_status = status, ar_body = [(''ok'', JBool False), (''error'', JStr code), (''message'', JStr message),
             (''details'', details)]\<rparr>
      | Thrown _ \<Rightarrow> \<lparr>ar_status = 500, ar_body = [(''ok'', JBool False), (''error'', JStr ''internal_error'')]\<rparr>)"

definition answered :: "('s, async_reply) aw \<Rightarrow> 's async_state \<Rightarrow> async_reply \<times> 's async_state" where
  "answered m st = (case m st of (Inl e, st') \<Rightarrow> (on_error e, st') | (Inr rep, st') \<Rightarrow> (rep, st'))"

definition provider_name :: "'s async_world \<Rightarrow> string" where
  "provider_name w =
     (if env_text (aw_env w) ''MAIL_PROVIDER'' \<noteq> [] then env_text (aw_env w) ''MAIL_PROVIDER'' else ''unset'')"

definition handle_async_health :: "'s async_world \<Rightarrow> ('s, async_reply) aw" where
  "handle_async_health w =
     aw_return \<lparr>ar_status = 200, ar_body = [(''ok'', JBool True), (''service'', JStr ''async-worker''),
       (''provider'', JStr (provider_name w))]\<rparr>"

text \<open>The body of a request, \<open>null\<close> where it is not JSON.\<close>

definition body_json :: "'s async_world \<Rightarrow> string \<Rightarrow> jsval" where
  "body_json w raw = (case aw_parse w raw of Inl _ \<Rightarrow> JNull | Inr v \<Rightarrow> v)"

definition handle_mail_send :: "'s async_world \<Rightarrow> headers \<Rightarrow> string \<Rightarrow> ('s, async_reply) aw" where
  "handle_mail_send w hs raw =
     aw_bind (aw_lift (verify_internal_auth (aw_env w) hs)) (\<lambda>_.
     aw_bind (aw_lift (parse_json_object (body_json w raw) ''invalid_payload'')) (\<lambda>_.
     aw_return \<lparr>ar_status = 202, ar_body = [(''ok'', JBool True), (''accepted'', JBool True),
       (''provider'', JStr (provider_name w))]\<rparr>))"

definition enqueue_request :: "string \<Rightarrow> jobj \<Rightarrow> refresh_request" where
  "enqueue_request domain payload =
     \<lparr>jr_domain = domain,
      jr_reason = Some (case jprop payload ''reason'' of JStr s \<Rightarrow> s | _ \<Rightarrow> ''manual_enqueue''),
      jr_force = (jprop payload ''force'' = JBool True), jr_dryRun = (jprop payload ''dryRun'' = JBool True),
      jr_txtPayload = None, jr_configJson = None, jr_hbProbeUrl = None\<rparr>"

text \<open>What an error is logged for: the warning, then the error again. \<open>domain\<close> is \<open>unknown\<close> until it is read.\<close>

definition warn_and_throw :: "'s async_world \<Rightarrow> int \<Rightarrow> refresh_mode \<Rightarrow> string \<Rightarrow> async_error \<Rightarrow> ('s, 'a) aw" where
  "warn_and_throw w started mode domain e =
     aw_bind (aw_now w) (\<lambda>now.
     aw_bind (log_refresh_outcome ''warn'' mode domain (err_code e) (now - started)) (\<lambda>_. aw_throw e))"

definition read_job :: "'s async_world \<Rightarrow> string \<Rightarrow> async_error + jobj" where
  "read_job w raw =
     Prelude.sum_bind (parse_json_object (body_json w raw) ''invalid_payload'') (\<lambda>body.
     Prelude.sum_bind (parse_json_object (jprop body ''payload'') ''invalid_job_payload'') (\<lambda>payload.
       if jprop body ''type'' \<noteq> JStr ''refresh-domain'' then
         Inl (Controlled 400 ''unsupported_job_type'' ''Only refresh-domain jobs are currently supported.'' JUndef)
       else Inr payload))"

definition dispatch_job :: "'s async_world \<Rightarrow> int \<Rightarrow> refresh_request \<Rightarrow> ('s, async_reply) aw" where
  "dispatch_job w started req =
     aw_bind (enqueue_job w (job_json req)) (\<lambda>mode.
       if mode = ModeInline then
         aw_bind (run_domain_refresh_tracked w req ModeInline) (\<lambda>result.
         aw_bind (aw_now w) (\<lambda>now.
         aw_bind (log_refresh_outcome ''info'' ModeInline (jr_domain req) ''ok'' (now - started)) (\<lambda>_.
         aw_return \<lparr>ar_status = 202, ar_body = [(''ok'', JBool True), (''accepted'', JBool True),
           (''mode'', JStr (mode_str mode)), (''result'', JObj (result_json result))]\<rparr>)))
       else
         aw_bind (aw_now w) (\<lambda>now.
         aw_bind (log_refresh_outcome ''info'' ModeQueue (jr_domain req) ''enqueued'' (now - started)) (\<lambda>_.
         aw_return \<lparr>ar_status = 202, ar_body = [(''ok'', JBool True), (''accepted'', JBool True),
           (''mode'', JStr (mode_str mode)), (''job'', job_json req)]\<rparr>)))"

definition handle_jobs_enqueue :: "'s async_world \<Rightarrow> headers \<Rightarrow> string \<Rightarrow> ('s, async_reply) aw" where
  "handle_jobs_enqueue w hs raw =
     aw_bind (aw_lift (verify_internal_auth (aw_env w) hs)) (\<lambda>_.
     aw_bind (aw_now w) (\<lambda>started.
       case Prelude.sum_bind (read_job w raw) (\<lambda>payload.
           Prelude.sum_bind (normalize_domain (jprop payload ''domain'')) (\<lambda>domain. Inr (payload, domain))) of
         Inl e \<Rightarrow> warn_and_throw w started ModeQueue ''unknown'' e
       | Inr (payload, domain) \<Rightarrow>
           aw_catch (dispatch_job w started (enqueue_request domain payload))
             (warn_and_throw w started ModeQueue domain)))"

definition handle_jobs_refresh_domain :: "'s async_world \<Rightarrow> headers \<Rightarrow> string \<Rightarrow> ('s, async_reply) aw" where
  "handle_jobs_refresh_domain w hs raw =
     aw_bind (aw_lift (verify_internal_auth (aw_env w) hs)) (\<lambda>_.
     aw_bind (aw_now w) (\<lambda>started.
     aw_bind (aw_lift (parse_json_object (body_json w raw) ''invalid_payload'')) (\<lambda>body.
     aw_catch
       (aw_bind (handle_refresh_domain_post w body) (\<lambda>result.
        aw_bind (aw_now w) (\<lambda>now.
        aw_bind (log_refresh_outcome ''info'' ModeInline (rr_domain result) ''ok'' (now - started)) (\<lambda>_.
        aw_return \<lparr>ar_status = 200, ar_body = result_json result\<rparr>))))
       (warn_and_throw w started ModeInline
          (if text_field body ''domain'' \<noteq> [] then to_lower (text_field body ''domain'') else ''unknown'')))))"

definition handle_jobs_refresh_batch :: "'s async_world \<Rightarrow> headers \<Rightarrow> string \<Rightarrow> ('s, async_reply) aw" where
  "handle_jobs_refresh_batch w hs raw =
     aw_bind (aw_lift (verify_internal_auth (aw_env w) hs)) (\<lambda>_.
     aw_bind (aw_now w) (\<lambda>started.
     aw_bind (aw_lift (parse_json_object (body_json w raw) ''invalid_payload'')) (\<lambda>body.
     aw_bind (aw_lift (parse_batch_requests body)) (\<lambda>(requests, duplicates).
     aw_bind (run_refresh_batch w requests ModeBatch) (\<lambda>s.
     aw_bind (aw_now w) (\<lambda>now.
     aw_bind (log_json ''info'' ''refresh_batch_complete''
       [(''mode'', JStr ''batch''), (''attempted'', int_json (int (bs_attempted s))),
        (''ok'', int_json (int (bs_ok s))), (''failed'', int_json (int (bs_failed s))),
        (''duplicates'', int_json (int (length duplicates))), (''latencyMs'', int_json (now - started))]) (\<lambda>_.
     aw_return \<lparr>ar_status = 200, ar_body =
       [(''ok'', JBool True), (''mode'', JStr ''batch''), (''attempted'', int_json (int (bs_attempted s))),
        (''okCount'', int_json (int (bs_ok s))), (''failedCount'', int_json (int (bs_failed s))),
        (''duplicates'', JArr (map JStr duplicates)),
        (''outcomes'', JArr (map outcome_json (bs_outcomes s)))]\<rparr>)))))))"

definition scheduled_handler :: "'s async_world \<Rightarrow> string \<Rightarrow> int \<Rightarrow> ('s, unit) aw" where
  "scheduled_handler w cron scheduledTime =
     aw_bind (aw_now w) (\<lambda>started.
     aw_bind (run_scheduled_refresh_batch w) (\<lambda>s.
     aw_bind (aw_now w) (\<lambda>now.
     log_json ''info'' ''scheduled_refresh_complete''
       [(''mode'', JStr ''scheduled''), (''code'', JStr (if bs_failed s > 0 then ''partial_failure'' else ''ok'')),
        (''cron'', JStr cron), (''scheduledTime'', int_json scheduledTime), (''latencyMs'', int_json (now - started)),
        (''attempted'', int_json (int (bs_attempted s))), (''ok'', int_json (int (bs_ok s))),
        (''failed'', int_json (int (bs_failed s)))])))"

section \<open>Reasoning about operations that may throw\<close>

lemma aw_bind_Inr:
  "aw_bind m f st = (Inr y, st') \<longleftrightarrow> (\<exists>x st1. m st = (Inr x, st1) \<and> f x st1 = (Inr y, st'))"
  by (auto simp: aw_bind_def split: prod.split sum.split)

lemma aw_bind_run: "m st = (Inr x, st1) \<Longrightarrow> aw_bind m f st = f x st1"
  by (simp add: aw_bind_def)

lemma aw_catch_Inr:
  "aw_catch m h st = (Inr x, st')
   \<longleftrightarrow> m st = (Inr x, st') \<or> (\<exists>e st1. m st = (Inl e, st1) \<and> h e st1 = (Inr x, st'))"
  by (auto simp: aw_catch_def split: prod.split sum.split)

lemma aw_simps [simp]:
  "aw_return x st = (Inr x, st)" "aw_throw e st = (Inl e, st)" "aw_lift r st = (r, st)"
  by (simp_all add: aw_return_def aw_throw_def aw_lift_def)

definition aw_keeps :: "('s async_state \<Rightarrow> 's async_state \<Rightarrow> bool) \<Rightarrow> ('s, 'a) aw \<Rightarrow> bool" where
  "aw_keeps R m \<longleftrightarrow> (\<forall>st. R st (snd (m st)))"

text \<open>A relation between the states before and after that each part of an operation keeps.\<close>

locale async_relation =
  fixes R :: "'s async_state \<Rightarrow> 's async_state \<Rightarrow> bool"
  assumes R_refl: "R st st" and R_trans: "R a b \<Longrightarrow> R b c \<Longrightarrow> R a c"
    and R_outside: "ay_store st' = ay_store st \<Longrightarrow> R st st'"
begin

lemma aw_keeps_plain:
  "aw_keeps R (aw_return x)" "aw_keeps R (aw_throw e)" "aw_keeps R (aw_lift r)" "aw_keeps R (aw_tick f)"
  "aw_keeps R (log_json level event payload)"
  by (auto simp: aw_keeps_def R_refl aw_tick_def log_json_def intro: R_outside)

lemma aw_keeps_bind:
  assumes "aw_keeps R m" and "\<And>x a b. m a = (Inr x, b) \<Longrightarrow> aw_keeps R (f x)" shows "aw_keeps R (aw_bind m f)"
  unfolding aw_keeps_def
proof
  fix st
  obtain r st1 where m: "m st = (r, st1)" by fastforce
  then have "R st st1" using assms(1) by (auto simp: aw_keeps_def dest: spec [of _ st])
  moreover have "R st1 (snd (f x st1))" if "r = Inr x" for x
    using assms(2) [OF m [unfolded that]] by (simp add: aw_keeps_def)
  ultimately show "R st (snd (aw_bind m f st))"
    using m by (auto simp: aw_bind_def split: sum.split intro: R_trans)
qed

lemma aw_keeps_catch:
  assumes "aw_keeps R m" and "\<And>e. aw_keeps R (h e)" shows "aw_keeps R (aw_catch m h)"
  unfolding aw_keeps_def
proof
  fix st
  obtain r st1 where m: "m st = (r, st1)" by fastforce
  then have "R st st1" using assms(1) by (auto simp: aw_keeps_def dest: spec [of _ st])
  moreover have "R st1 (snd (h e st1))" for e using assms(2) by (simp add: aw_keeps_def)
  ultimately show "R st (snd (aw_catch m h st))"
    using m by (auto simp: aw_catch_def split: sum.split intro: R_trans)
qed

lemmas aw_keeps_rules = aw_keeps_plain aw_keeps_bind aw_keeps_catch

lemma aw_keeps_fetch: "aw_keeps R (aw_now w)" "aw_keeps R (aw_call w rq)" "aw_keeps R (fetch_json_with_timeout w url)"
  unfolding aw_now_def aw_call_def fetch_json_with_timeout_def
  by (auto intro!: aw_keeps_rules split: fetch_outcome.split)

lemma aw_keeps_parts:
  "aw_keeps R (refresh_txt w domain req)" "aw_keeps R (refresh_config w cfgTx req)"
  "aw_keeps R (refresh_identity w mode domain config envl)" "aw_keeps R (refresh_probe w req url)"
  "aw_keeps R (refresh_route w req domain cfgTx url p)"
  unfolding refresh_txt_def refresh_config_def refresh_identity_def refresh_probe_def refresh_route_def
    probe_hb_integrity_def resolve_txt_payload_def resolve_config_json_def verify_route_assertion_def
    ask_route_assertion_def Let_def split_def
  by (auto intro!: aw_keeps_rules aw_keeps_fetch split: fetch_outcome.split option.split sum.split)

lemma aw_keeps_refresh: "aw_keeps R (run_domain_refresh w req mode)"
  unfolding run_domain_refresh_def Let_def by (auto intro!: aw_keeps_rules aw_keeps_parts)

end

lemma aw_keepsD: "aw_keeps R m \<Longrightarrow> m st = (r, st') \<Longrightarrow> R st st'"
  by (auto simp: aw_keeps_def dest: spec [of _ st])

definition same_map :: "'s async_state \<Rightarrow> 's async_state \<Rightarrow> bool" where
  "same_map st st' \<longleftrightarrow> ay_store st' = ay_store st"

interpretation same_map: async_relation same_map
  by unfold_locales (auto simp: same_map_def)

section \<open>What a refresh checks\<close>


section \<open>What a refresh books\<close>

lemma split_on_snoc: "split_on c (s @ [c]) = split_on c s @ [[]]"
  by (induction c s rule: split_on.induct) (auto split: list.split)

lemma in_butlast_or_last: "x \<in> set xs \<Longrightarrow> x \<in> set (butlast xs) \<or> x = last xs"
  by (induction xs) auto

lemma normalized_domain:
  assumes "normalize_domain v = Inr d"
  shows "normalize_domain_host d = Inr d" "normalize_domain (JStr d) = Inr d"
proof -
  obtain s where s: "d = to_lower (trim s)" and h: "host_re d"
    using assms by (auto simp: normalize_domain_def Let_def split: jsval.splits if_splits)
  let ?ls = "split_on CHR ''.'' d"
  have labels: "\<forall>l \<in> set ?ls. list_all (\<lambda>c. is_alnum c \<or> c = CHR ''-'') l" and last: "last ?ls \<noteq> []"
  proof -
    have b: "list_all (\<lambda>l. matches_class (\<lambda>c. is_alnum c \<or> c = CHR ''-'') 1 63 l) (butlast ?ls)"
      and z: "matches_class (\<lambda>c. is_lower c \<or> is_upper c) 2 63 (last ?ls)"
      using h by (auto simp: host_re_def Let_def)
    show "last ?ls \<noteq> []" using z by (auto simp: matches_class_def)
    have z': "list_all (\<lambda>c. is_alnum c \<or> c = CHR ''-'') (last ?ls)"
      using z by (auto simp: matches_class_def list_all_iff is_alnum_def)
    show "\<forall>l \<in> set ?ls. list_all (\<lambda>c. is_alnum c \<or> c = CHR ''-'') l"
      using b z' in_butlast_or_last by (fastforce simp: list_all_iff matches_class_def)
  qed
  have "\<not> js_ws c" if "c \<in> set d" for c
  proof -
    have "c = CHR ''.'' \<or> is_alnum c \<or> c = CHR ''-''"
      using split_on_chars [OF that, of "CHR ''.''"] labels by (auto simp: list_all_iff)
    then show ?thesis using alnum_not_ws by (auto simp: js_ws_def)
  qed
  then have t: "trim d = d" by (simp add: trim_no_ws list_all_iff)
  have dot: "last d \<noteq> CHR ''.''" if "d \<noteq> []"
  proof
    assume "last d = CHR ''.''"
    then have "d = butlast d @ [CHR ''.'']" using that by (metis append_butlast_last_id)
    then have "last ?ls = []" by (metis split_on_snoc last_snoc)
    with last show False ..
  qed
  have ne: "d \<noteq> []" using h by (auto simp: host_re_def)
  have lower: "to_lower d = d" unfolding s by (rule to_lower_idem)
  show "normalize_domain (JStr d) = Inr d" using h by (simp add: normalize_domain_def t lower)
  show "normalize_domain_host d = Inr d"
    using t dot ne by (simp add: normalize_domain_host_def drop_trailing_dot_def Let_def lower del: map_map)
qed

text \<open>What a store holds for a domain names that domain; the text of an entry, where it parses, still has its
  host; and the relation between the states that a booking for the domain keeps.\<close>

definition hosted :: "'s async_world \<Rightarrow> 's kv_ops \<Rightarrow> string \<Rightarrow> 's \<Rightarrow> bool" where
  "hosted w kv domain store \<longleftrightarrow>
     (\<forall>now e. get_domain_map_entry kv (aw_parse w) now domain store = Inr (Some e) \<longrightarrow> en_host e = domain)"

definition host_survives :: "'s async_world \<Rightarrow> bool" where
  "host_survives w \<longleftrightarrow>
     (\<forall>e obj. aw_parse w (json_stringify (aw_show w) (entry_json e)) = Inr (JObj obj) \<longrightarrow> jprop obj ''host'' = JStr (en_host e))"

definition own_entry :: "'s async_world \<Rightarrow> 's kv_ops \<Rightarrow> string \<Rightarrow> 's async_state \<Rightarrow> 's async_state \<Rightarrow> bool" where
  "own_entry w kv domain st st' \<longleftrightarrow> hosted w kv domain (ay_store st) \<longrightarrow>
     hosted w kv domain (ay_store st')
     \<and> (\<forall>k. k \<noteq> domain_key_prefix @ domain \<longrightarrow> kv_get kv (ay_store st') k = kv_get kv (ay_store st) k)"

lemma own_entry_relation: "async_relation (own_entry w kv domain)"
  by unfold_locales (auto simp: own_entry_def)

lemma parsed_host:
  assumes "parse_domain_map_entry parse now raw (Some domain) = Inr e" and "normalize_domain_host domain = Inr domain"
    and "\<forall>obj. parse raw = Inr (JObj obj) \<longrightarrow> jprop obj ''host'' = JStr domain"
  shows "en_host e = domain"
proof -
  have corrupted: "en_host e' = domain" if "make_corrupted_domain_map_entry (Some domain) now c m = Inr e'" for c m e'
    using that assms(2)
    by (auto simp: make_corrupted_domain_map_entry_def create_empty_domain_map_entry_def empty_entry_def or_default_def)
  show ?thesis
  proof (cases "\<exists>obj. parse raw = Inr (JObj obj)")
    case False
    then show ?thesis
      using assms(1) corrupted
      by (auto simp: parse_domain_map_entry_def split: sum.splits option.splits elim: as_obj.elims)
  next
    case True
    then obtain obj where obj: "parse raw = Inr (JObj obj)" by blast
    then have "safe_normalize_domain_host (jprop obj ''host'') (Some domain) = domain"
      using assms(2,3) by (simp add: safe_normalize_domain_host_def)
    then show ?thesis
      using assms(1,2) corrupted
      by (auto simp: parse_domain_map_entry_def obj Let_def migrate_persisted_record_def create_empty_domain_map_entry_def
          empty_entry_def split: if_splits)
  qed
qed

lemma outcome_host:
  assumes "apply_refresh_outcome current out domain now opts = Inr e" and "normalize_domain_host domain = Inr domain"
    and "\<And>c. current = Some c \<Longrightarrow> en_host c = domain"
  shows "en_host e = domain"
proof -
  have "en_host (refresh_entry out now opts (apply_hard_expiry c now)) = en_host c" for c
    by (simp add: refresh_entry_def apply_hard_expiry_def with_status_def Let_def split: refresh_outcome.split)
  then show ?thesis
    using assms
    by (auto simp: apply_refresh_outcome_def current_or_empty_def create_empty_domain_map_entry_def empty_entry_def
        split: option.splits)
qed

context domain_kv
begin

lemma put_hosted:
  assumes "en_host e = domain" and domain_normal: "normalize_domain_host domain = Inr domain" and survives: "host_survives w"
  shows "hosted w kv domain (kv_put kv (domain_key_prefix @ domain) (json_stringify (aw_show w) (entry_json e)) store)"
  unfolding hosted_def
proof (intro allI impI)
  fix now e'
  let ?raw = "json_stringify (aw_show w) (entry_json e)"
  assume "get_domain_map_entry kv (aw_parse w) now domain (kv_put kv (domain_key_prefix @ domain) ?raw store) = Inr (Some e')"
  moreover have "?raw \<noteq> []" by (simp add: entry_json_def)
  ultimately have "parse_domain_map_entry (aw_parse w) now ?raw (Some domain) = Inr e'"
    using domain_normal
    by (auto simp: get_domain_map_entry_def domain_map_key_def map_sum_def split: sum.splits)
  then show "en_host e' = domain"
    using survives assms(1) by (intro parsed_host [OF _ domain_normal]) (auto simp: host_survives_def)
qed

lemma write_entry_store:
  fixes st st' :: "'s async_state"
  assumes "en_host e = domain" and domain_normal: "normalize_domain_host domain = Inr domain"
  shows "ay_store (snd (write_entry w kv e st)) \<in> {ay_store st,
      kv_put kv (domain_key_prefix @ domain) (json_stringify (aw_show w) (entry_json e)) (ay_store st)}"
    and "write_entry w kv e st = (Inr u, st') \<Longrightarrow>
      ay_store st' = kv_put kv (domain_key_prefix @ domain) (json_stringify (aw_show w) (entry_json e)) (ay_store st)"
  using assms
  by (auto simp: write_entry_def kv_effect_def aw_bind_def aw_tick_def put_domain_map_entry_def domain_map_key_def
      split: option.splits prod.splits if_splits)

lemma read_entry_store:
  fixes st st' :: "'s async_state"
  shows
  "ay_store (snd (read_entry w kv d st)) = ay_store st"
  "read_entry w kv d st = (Inr x, st') \<Longrightarrow> \<exists>now. get_domain_map_entry kv (aw_parse w) now d (ay_store st) = Inr x"
  by (auto simp: read_entry_def kv_effect_def aw_now_def aw_bind_def aw_tick_def map_sum_def
      split: option.splits prod.splits sum.splits if_splits)

lemma book_cases:
  fixes st st' :: "'s async_state"
  assumes "book_outcome w kv domain out st = (r, st')" and "hosted w kv domain (ay_store st)"
    and domain_normal: "normalize_domain_host domain = Inr domain"
  shows "(isl r \<and> ay_store st' = ay_store st)
    \<or> (\<exists>current e now n. apply_refresh_outcome current (out (of_int now)) domain (of_int now)
          (domain_state_options_from_env (aw_env w)) = Inr e \<and> en_host e = domain
        \<and> now = aw_clock w n
        \<and> (r = Inr () \<longrightarrow> ay_store st' = kv_put kv (domain_key_prefix @ domain)
            (json_stringify (aw_show w) (entry_json e)) (ay_store st))
        \<and> ay_store st' \<in> {ay_store st, kv_put kv (domain_key_prefix @ domain)
            (json_stringify (aw_show w) (entry_json e)) (ay_store st)})"
proof -
  let ?now = "aw_clock w (ay_ticks st)" and ?s0 = "st\<lparr>ay_ticks := Suc (ay_ticks st)\<rparr>"
  obtain rc s1 where rd: "read_entry w kv domain ?s0 = (rc, s1)" by fastforce
  have s1: "ay_store s1 = ay_store st" using read_entry_store(1) [of w domain ?s0] rd by simp
  show ?thesis
  proof (cases rc)
    case (Inl x)
    then show ?thesis
      using assms(1) rd s1 by (auto simp: book_outcome_def aw_bind_def aw_now_def aw_tick_def)
  next
    case (Inr current)
    let ?e = "apply_refresh_outcome current (out (of_int ?now)) domain (of_int ?now)
      (domain_state_options_from_env (aw_env w))"
    have book: "book_outcome w kv domain out st = aw_bind (aw_lift (map_sum Thrown id ?e)) (write_entry w kv) s1"
      using rd Inr by (simp add: book_outcome_def aw_bind_def aw_now_def aw_tick_def)
    show ?thesis
    proof (cases ?e)
      case (Inl m)
      then show ?thesis using assms(1) s1 by (auto simp: book aw_bind_def)
    next
      case e: (Inr e)
      have host: "en_host e = domain"
        using read_entry_store(2) [OF rd [unfolded Inr]] assms(2)
        by (intro outcome_host [OF e domain_normal]) (auto simp: hosted_def)
      have run: "write_entry w kv e s1 = (r, st')" using assms(1) e by (simp add: book aw_bind_def)
      have "r = Inr () \<longrightarrow> ay_store st' = kv_put kv (domain_key_prefix @ domain)
          (json_stringify (aw_show w) (entry_json e)) (ay_store st)"
        using write_entry_store(2) [OF host domain_normal, of w s1] run s1 by auto
      moreover have "ay_store st' \<in> {ay_store st, kv_put kv (domain_key_prefix @ domain)
          (json_stringify (aw_show w) (entry_json e)) (ay_store st)}"
        using write_entry_store(1) [OF host domain_normal, of w s1] run s1 by simp
      ultimately show ?thesis using e host by blast
    qed
  qed
qed

lemma book_keeps:
  assumes "normalize_domain_host domain = Inr domain" and "host_survives w"
  shows "aw_keeps (own_entry w kv domain) (book_outcome w kv domain out)"
  unfolding aw_keeps_def own_entry_def
proof (intro allI impI)
  fix st :: "'s async_state" assume h: "hosted w kv domain (ay_store st)"
  obtain r st' where run: "book_outcome w kv domain out st = (r, st')" by fastforce
  from book_cases [OF run h assms(1)] show "hosted w kv domain (ay_store (snd (book_outcome w kv domain out st))) \<and>
      (\<forall>k. k \<noteq> domain_key_prefix @ domain \<longrightarrow>
        kv_get kv (ay_store (snd (book_outcome w kv domain out st))) k = kv_get kv (ay_store st) k)"
    using h put_hosted [OF _ assms] by (auto simp: run insert_frame)
qed

lemma tracked_keeps:
  assumes "aw_kv w = Some kv" and "normalize_domain (JStr (jr_domain req)) = Inr domain" and "host_survives w"
  shows "aw_keeps (own_entry w kv domain) (run_domain_refresh_tracked w req mode)"
proof -
  note rules = async_relation.aw_keeps_rules [OF own_entry_relation] async_relation.aw_keeps_refresh [OF own_entry_relation]
  note book = book_keeps [OF normalized_domain(1) [OF assms(2)] assms(3)]
  have result: "rr_domain r = domain"
    if "run_domain_refresh w (req\<lparr>jr_domain := domain\<rparr>) mode a = (Inr r, b)" for a b r
    using that normalized_domain(2) [OF assms(2)]
    by (auto simp: run_domain_refresh_def Let_def aw_bind_Inr)
  show ?thesis
    unfolding run_domain_refresh_tracked_def run_domain_refresh_with_domain_state_def assms(1,2)
      persist_domain_refresh_success_def persist_domain_refresh_failure_def
    by (intro rules) (auto simp: result intro!: rules book)
qed

end

text \<open>
  C6: A refresh, however it ends and whatever the bindings fail at, writes no entry of the domain map but that of
  its own domain, provided the record that is stored for the domain names it and the host of an entry
  survives being printed and read.
\<close>

theorem refresh_touches_own_entry:
  assumes "domain_kv kv" and "aw_kv w = Some kv" and "normalize_domain (JStr (jr_domain req)) = Inr domain"
    and "host_survives w" and "hosted w kv domain (ay_store st)" and "k \<noteq> domain_key_prefix @ domain"
  shows "kv_get kv (ay_store (snd (run_domain_refresh_tracked w req mode st))) k = kv_get kv (ay_store st) k"
  using domain_kv.tracked_keeps [OF assms(1-4)] assms(5,6) by (simp add: aw_keeps_def own_entry_def)

lemma success_entry:
  assumes "apply_refresh_outcome current (success_outcome r now) domain now opts = Inr e"
  shows "en_status e = Valid \<and> en_cfgTx e = Some (rr_cfgTx r) \<and> en_resolvedTarget e = Some (rr_resolvedTarget r)
    \<and> en_configHash e = Some (rr_configHash r) \<and> en_lastError e = None
    \<and> en_expiresAt e = Some (now + clamp_ttl (of_int (rr_ttlSec r * 1000)) opts)
    \<and> en_hardExpiresAt e = Some (now + clamp_ttl (of_int (rr_ttlSec r * 1000)) opts + stale_if_error_ms opts)"
  using assms
  by (auto simp: apply_refresh_outcome_def success_outcome_def refresh_entry_def Let_def map_sum_def split: sum.splits)


section \<open>Batches\<close>

definition outcome_for :: "refresh_request \<Rightarrow> batch_outcome \<Rightarrow> bool" where
  "outcome_for req out =
     (case out of
        Refreshed r \<Rightarrow> normalize_domain (JStr (jr_domain req)) = Inr (rr_domain r)
      | NotRefreshed domain _ _ \<Rightarrow> domain = jr_domain req)"

lemma tracked_domain:
  assumes "run_domain_refresh_tracked w req mode st = (Inr r, st')"
  shows "normalize_domain (JStr (jr_domain req)) = Inr (rr_domain r)"
proof -
  from assms obtain domain s1 where d: "normalize_domain (JStr (jr_domain req)) = Inr domain"
    and run: "run_domain_refresh w (req\<lparr>jr_domain := domain\<rparr>) mode st = (Inr r, s1)"
    unfolding run_domain_refresh_tracked_def run_domain_refresh_with_domain_state_def
    by (auto simp: aw_bind_Inr aw_catch_Inr split: option.splits)
  from run have "normalize_domain (JStr domain) = Inr (rr_domain r)"
    by (auto simp: run_domain_refresh_def Let_def aw_bind_Inr)
  with d normalized_domain(2) [OF d] show ?thesis by simp
qed

lemma batch_step_outcome: "\<exists>out st'. batch_step w mode req st = (Inr out, st') \<and> outcome_for req out"
proof -
  obtain r s1 where r: "run_domain_refresh_tracked w req mode (st\<lparr>ay_ticks := Suc (ay_ticks st)\<rparr>) = (r, s1)" by fastforce
  show ?thesis
  proof (cases r)
    case (Inl e)
    then show ?thesis
      using r by (simp add: batch_step_def aw_bind_def aw_catch_def aw_now_def aw_tick_def log_refresh_outcome_def
          log_json_def outcome_for_def)
  next
    case (Inr x)
    then show ?thesis
      using r tracked_domain [OF r [unfolded Inr]]
      by (simp add: batch_step_def aw_bind_def aw_catch_def aw_now_def aw_tick_def log_refresh_outcome_def
          log_json_def outcome_for_def)
  qed
qed

lemma batch_loop_outcomes:
  "\<exists>s' st' outs. batch_loop w mode rs s st = (Inr s', st') \<and> bs_attempted s' = bs_attempted s
     \<and> bs_outcomes s' = bs_outcomes s @ outs \<and> list_all2 outcome_for rs outs
     \<and> bs_ok s' + bs_failed s' = bs_ok s + bs_failed s + length rs"
proof (induction rs arbitrary: s st)
  case Nil
  show ?case by simp
next
  case (Cons r rs)
  obtain out st1 where out: "batch_step w mode r st = (Inr out, st1)" "outcome_for r out"
    using batch_step_outcome by blast
  obtain s' st' outs where rest: "batch_loop w mode rs (note_outcome out s) st1 = (Inr s', st')"
    "bs_attempted s' = bs_attempted s" "bs_outcomes s' = (bs_outcomes s @ [out]) @ outs" "list_all2 outcome_for rs outs"
    "bs_ok s' + bs_failed s' = Suc (bs_ok s + bs_failed s) + length rs"
    using Cons.IH [of "note_outcome out s" st1] by (auto simp: note_outcome_def split: batch_outcome.splits)
  show ?case
    by (rule exI [of _ s'], rule exI [of _ st'], rule exI [of _ "out # outs"])
      (use out rest in \<open>simp add: aw_bind_def\<close>)
qed

lemma batch_limit_range: "1 \<le> batch_limit env \<and> batch_limit env \<le> 100"
  by (auto simp: batch_limit_def parse_positive_int_def split: option.split)

text \<open>
  C40: A batch is bounded and accounted for: it returns whatever its refreshes end with, it attempts the first
  requests up to the limit, which is from 1 to 100, and reports for each of them in order one outcome
  for its domain; the counts of successes and failures add up to the attempts.
\<close>

theorem batch_is_bounded:
  "\<exists>s st'. run_refresh_batch w requests mode st = (Inr s, st')
     \<and> bs_attempted s = min (length requests) (nat (batch_limit (aw_env w))) \<and> bs_attempted s \<le> 100
     \<and> bs_ok s + bs_failed s = bs_attempted s
     \<and> list_all2 outcome_for (take (bs_attempted s) requests) (bs_outcomes s)"
proof -
  let ?sel = "take (nat (batch_limit (aw_env w))) requests"
  let ?s = "\<lparr>bs_attempted = length ?sel, bs_ok = 0, bs_failed = 0, bs_outcomes = []\<rparr>"
  obtain s' st' outs where run: "batch_loop w mode ?sel ?s st = (Inr s', st')"
    and s': "bs_attempted s' = length ?sel" "bs_outcomes s' = outs" "list_all2 outcome_for ?sel outs"
      "bs_ok s' + bs_failed s' = length ?sel"
    using batch_loop_outcomes [of w mode ?sel ?s st] by auto
  have "nat (batch_limit (aw_env w)) \<le> 100" using batch_limit_range [of "aw_env w"] by (simp add: nat_le_iff)
  moreover have "take (bs_attempted s') requests = ?sel" using s'(1) by (simp add: min_def)
  ultimately show ?thesis
    using run s' by (intro exI [of _ s'] exI [of _ st']) (simp add: run_refresh_batch_def Let_def)
qed

lemma split_duplicates_spec:
  "split_duplicates seen cs = (ds, dups) \<Longrightarrow>
     distinct (map jr_domain ds) \<and> set (map jr_domain ds) \<inter> set seen = {}
     \<and> set dups \<subseteq> set seen \<union> set (map jr_domain ds) \<and> set ds \<subseteq> set cs
     \<and> set (map jr_domain cs) \<subseteq> set seen \<union> set (map jr_domain ds)"
proof (induction seen cs arbitrary: ds dups rule: split_duplicates.induct)
  case (1 seen)
  then show ?case by simp
next
  case (2 seen c cs)
  show ?case
  proof (cases "jr_domain c \<in> set seen")
    case True
    then obtain dups' where "split_duplicates seen cs = (ds, dups')" "dups = jr_domain c # dups'"
      using 2(3) by (auto split: prod.splits)
    with 2(1) [OF True] True show ?thesis by auto
  next
    case False
    then obtain ds' where "split_duplicates (jr_domain c # seen) cs = (ds', dups)" "ds = c # ds'"
      using 2(3) by (auto split: prod.splits)
    with 2(2) [OF False, of ds' dups] have IH: "distinct (map jr_domain ds')"
      "set (map jr_domain ds') \<inter> set (jr_domain c # seen) = {}"
      "set dups \<subseteq> set (jr_domain c # seen) \<union> set (map jr_domain ds')" "set ds' \<subseteq> set cs"
      "set (map jr_domain cs) \<subseteq> set (jr_domain c # seen) \<union> set (map jr_domain ds')" by blast+
    show ?thesis unfolding \<open>ds = c # ds'\<close> using IH False by (intro conjI) auto
  qed
qed

text \<open>The requests of a batch name each domain once, and a duplicate is a domain that is refreshed.\<close>

lemma batch_requests_once:
  assumes "parse_batch_requests body = Inr (requests, duplicates)"
  shows "requests \<noteq> [] \<and> distinct (map jr_domain requests) \<and> set duplicates \<subseteq> set (map jr_domain requests)"
proof -
  from assms obtain cs where cs: "cs \<noteq> []" "split_duplicates [] cs = (requests, duplicates)"
    by (auto simp: parse_batch_requests_def Prelude.sum_bind_Inr split: if_splits)
  with split_duplicates_spec [OF cs(2)] show ?thesis by (cases cs) auto
qed

section \<open>Examples\<close>

definition demo_domain_config :: jobj where
  "demo_domain_config =
     [(''v'', JStr ''dm1''), (''domain'', JStr ''example.org''), (''siteProcess'', JStr (replicate 20 CHR ''s'')),
      (''writeProcess'', JStr (replicate 20 CHR ''w'')), (''entryPath'', JStr ''/''),
      (''validFrom'', JNum (Fin 1)), (''validTo'', JNum (Fin 9)), (''sigAlg'', JStr ''ed25519''),
      (''sig'', JStr (replicate 32 CHR ''A'')), (''owner'', JStr (replicate 32 CHR ''K'')), (''nonce'', JStr ''n'')]"

definition demo_envelope :: dm_txt_envelope where
  "demo_envelope = \<lparr>te_cfg = replicate 32 CHR ''C'', te_kid = replicate 32 CHR ''K'', te_ttl = 60\<rparr>"

definition demo_job :: refresh_request where
  "demo_job = \<lparr>jr_domain = ''example.org'', jr_reason = None, jr_force = False, jr_dryRun = False,
     jr_txtPayload = Some (render_txt demo_envelope), jr_configJson = Some demo_domain_config, jr_hbProbeUrl = None\<rparr>"

definition demo_async_world :: "string jmap async_world" where
  "demo_async_world =
     \<lparr>aw_env = (\<lambda>k. if k = ''REFRESH_SIGNATURE_STRICT'' then Some ''1'' else None), aw_kv = Some mem_kv,
      aw_kv_fault = (\<lambda>_. None), aw_queue = None, aw_clock = (\<lambda>_. 5000), aw_random = (\<lambda>_. ''r''),
      aw_fetch = (\<lambda>_ _. Threw False), aw_failure = (\<lambda>_. ''down''), aw_parse = (\<lambda>_. Inl ''''),
      aw_show = show_ratio, aw_url = demo_host, aw_route_url = (\<lambda>u p. p), aw_sha256 = (\<lambda>s. s),
      aw_crypto = demo_crypto\<lparr>dy_ed25519 := (\<lambda>_ _ _. True)\<rparr>\<rparr>"

definition demo_async_state :: "string jmap async_state" where
  "demo_async_state = \<lparr>ay_store = [(''domain:other.org'', ''kept'')], ay_queued = [], ay_log = [], ay_ticks = 0\<rparr>"

lemma demo_async_facts:
  "normalize_domain (JStr ''example.org'') = Inr ''example.org''"
  "parse_and_validate_dm_txt_envelope (JStr (trim (render_txt demo_envelope))) = Inr demo_envelope"
  "trim (render_txt demo_envelope) \<noteq> []" "derive_probe_url None demo_domain_config = None"
  "is_signature_strict_mode (aw_env demo_async_world)" "\<not> route_assertion_required (aw_env demo_async_world)"
  "drop_slashes (trim (env_text (aw_env demo_async_world) ''SECRETS_WORKER_BASE_URL'')) = []"
  "te_kid demo_envelope = replicate 32 CHR ''K''" "domain_key_prefix @ ''example.org'' = ''domain:example.org''"
  by code_simp+

lemma demo_async_config:
  "\<exists>c. validate_and_verify_dm_config (aw_url demo_async_world) (aw_crypto demo_async_world) 5 (JObj demo_domain_config)
      (KeyText (te_kid demo_envelope)) = Some (Inr c) \<and> validate_config_kid_against_txt c demo_envelope = Inr c
    \<and> dc_domain c = ''example.org'' \<and> dc_owner c = te_kid demo_envelope"
proof -
  let ?v = "validate_and_verify_dm_config (aw_url demo_async_world) (aw_crypto demo_async_world) 5
    (JObj demo_domain_config) (KeyText (te_kid demo_envelope))"
  have "(case ?v of Some (Inr c) \<Rightarrow> isl (validate_config_kid_against_txt c demo_envelope) = False
      \<and> dc_domain c = ''example.org'' \<and> dc_owner c = te_kid demo_envelope | _ \<Rightarrow> False)" by code_simp
  then show ?thesis
    by (auto simp: validate_config_kid_against_txt_def dm_fail_def Let_def split: option.splits sum.splits if_splits)
qed

lemma demo_refreshed:
  "\<exists>r st'. run_domain_refresh demo_async_world demo_job ModeInline demo_async_state = (Inr r, st')
     \<and> rr_domain r = ''example.org''"
proof -
  obtain c where c: "validate_and_verify_dm_config (aw_url demo_async_world) (aw_crypto demo_async_world) 5
      (JObj demo_domain_config) (KeyText (te_kid demo_envelope)) = Some (Inr c)"
    "validate_config_kid_against_txt c demo_envelope = Inr c" "dc_domain c = ''example.org''"
    "dc_owner c = te_kid demo_envelope" using demo_async_config by blast
  have clock: "aw_clock demo_async_world n div 1000 = 5" for n by (simp add: demo_async_world_def)
  have envl: "refresh_txt demo_async_world ''example.org'' demo_job st = (Inr demo_envelope, st)" for st
    by (simp add: refresh_txt_def demo_job_def demo_async_facts aw_bind_def Let_def)
  have config: "refresh_config demo_async_world t demo_job st = (Inr demo_domain_config, st)" for t st
    by (simp add: refresh_config_def demo_job_def)
  have ids: "\<exists>st'. refresh_identity demo_async_world ModeInline ''example.org'' demo_domain_config demo_envelope st
      = (Inr (''example.org'', te_kid demo_envelope), st')" for st
    using c by (simp add: refresh_identity_def aw_bind_def aw_now_def aw_tick_def clock Let_def)
  have probe: "refresh_probe demo_async_world demo_job None st = (Inr \<lparr>hp_status = CheckSkipped,
      hp_code = Some ''hb_probe_target_missing'', hp_statusCode = None, hp_target = None\<rparr>, st)" for st
    by (simp add: refresh_probe_def aw_bind_def)
  have route: "\<exists>ra. refresh_route demo_async_world demo_job d t None p st = (Inr ra, st)" for d t p st
    using demo_async_facts by (simp add: refresh_route_def verify_route_assertion_def aw_bind_def Let_def)
  have fields: "jr_domain demo_job = ''example.org''" "jr_hbProbeUrl demo_job = None" by (simp_all add: demo_job_def)
  obtain st1 where 1: "refresh_identity demo_async_world ModeInline ''example.org'' demo_domain_config demo_envelope
      demo_async_state = (Inr (''example.org'', te_kid demo_envelope), st1)" using ids by blast
  show ?thesis
    using route [of "''example.org''" "te_cfg demo_envelope" "\<lparr>hp_status = CheckSkipped,
      hp_code = Some ''hb_probe_target_missing'', hp_statusCode = None, hp_target = None\<rparr>" st1]
    by (auto simp: run_domain_refresh_def fields demo_async_facts(1,4) envl config 1 check_identity_def probe
        aw_bind_def Let_def)
qed


lemma demo_hosted: "hosted demo_async_world mem_kv ''example.org'' (ay_store demo_async_state)"
  and demo_survives: "host_survives demo_async_world"
proof -
  have "domain_map_key ''example.org'' = Inr ''domain:example.org''" by code_simp
  then show "hosted demo_async_world mem_kv ''example.org'' (ay_store demo_async_state)"
    by (simp add: hosted_def get_domain_map_entry_def mem_kv_def demo_async_state_def)
qed (simp add: host_survives_def demo_async_world_def)

lemma refresh_touches_witness:
  "map_of (ay_store (snd (run_domain_refresh_tracked demo_async_world demo_job ModeInline demo_async_state)))
     ''domain:other.org'' = Some ''kept''"
proof -
  have kv: "aw_kv demo_async_world = Some mem_kv" by (simp add: demo_async_world_def)
  have d: "normalize_domain (JStr (jr_domain demo_job)) = Inr ''example.org''"
    by (simp add: demo_job_def demo_async_facts)
  have "''domain:other.org'' \<noteq> domain_key_prefix @ ''example.org''" by (simp add: demo_async_facts)
  from refresh_touches_own_entry [OF mem_kv.domain_kv_axioms kv d demo_survives demo_hosted this]
  show ?thesis by (simp add: mem_kv_def demo_async_state_def)
qed

lemma demo_booked:
  "\<exists>r st'. run_domain_refresh_tracked demo_async_world demo_job ModeInline demo_async_state = (Inr r, st')
     \<and> rr_domain r = ''example.org''"
proof -
  obtain r s1 where run: "run_domain_refresh demo_async_world demo_job ModeInline demo_async_state = (Inr r, s1)"
    and r: "rr_domain r = ''example.org''" using demo_refreshed by blast
  have store: "ay_store s1 = ay_store demo_async_state"
    using aw_keepsD [OF same_map.aw_keeps_refresh run] by (simp add: same_map_def)
  have key: "domain_map_key ''example.org'' = Inr ''domain:example.org''"
    "normalize_domain_host ''example.org'' = Inr ''example.org''" by code_simp+
  have kv: "aw_kv demo_async_world = Some mem_kv" "aw_kv_fault demo_async_world = (\<lambda>_. None)"
    by (simp_all add: demo_async_world_def)
  let ?o = "\<lambda>e. apply_refresh_outcome None (success_outcome r e) ''example.org'' e
    (domain_state_options_from_env (aw_env demo_async_world))"
  have e: "\<exists>en. ?o now = Inr en \<and> en_host en = ''example.org''" for now
    by (simp add: apply_refresh_outcome_def current_or_empty_def create_empty_domain_map_entry_def key
        refresh_entry_def success_outcome_def apply_hard_expiry_def should_invalidate_def empty_entry_def Let_def)
  obtain en where en: "?o (of_int (aw_clock demo_async_world (ay_ticks s1))) = Inr en" "en_host en = ''example.org''"
    using e by blast
  have "\<exists>st'. book_outcome demo_async_world mem_kv ''example.org'' (success_outcome r) s1 = (Inr (), st')"
    using en by (simp add: book_outcome_def read_entry_def write_entry_def kv_effect_def aw_bind_def aw_now_def
        aw_tick_def get_domain_map_entry_def put_domain_map_entry_def key kv store demo_async_state_def mem_kv_def)
  then obtain st' where "book_outcome demo_async_world mem_kv ''example.org'' (success_outcome r) s1 = (Inr (), st')" ..
  moreover have job: "demo_job\<lparr>jr_domain := ''example.org''\<rparr> = demo_job" "jr_domain demo_job = ''example.org''"
    by (simp_all add: demo_job_def)
  ultimately show ?thesis
    using r
    by (simp add: run job run_domain_refresh_tracked_def run_domain_refresh_with_domain_state_def demo_async_facts(1) kv
        persist_domain_refresh_success_def aw_bind_def aw_catch_def)
qed


end
