(* ===== verification/Spec2Isabelle.thy ===== *)
theory Spec2Isabelle
  imports Cache RateLimit Replay Payments Sessions Webhooks DmConfig DomainMap RouteAssert
    Mailing Checkpoint TemplateApi Gateway WorkerInbox WorkerSign WorkerNotify AsyncWorker
begin

text \<open>
  A verification library of the darkmesh gateway and its workers. The gateway (\<open>src/src\<close>, paths are
  relative to the repository with its \<open>src/\<close> in front) is a stateless HTTP proxy that keeps only
  bounded, expiring state in memory: an envelope cache, rate-limit buckets, replay windows, sessions,
  a mail queue and the integrity policy it fetched last. Two workers stand beside it: the secrets worker
  (\<open>src/workers/secrets-worker\<close>), which signs route assertions and keeps an inbox, and the async worker
  (\<open>src/workers/async-worker\<close>), which refreshes the map from domains to configurations.

  Theories and the code they model:

  \<^item> \<open>Prelude\<close>: strings, JavaScript values (\<open>jsval\<close>, numbers as rationals with the infinities and
    \<open>NaN\<close>), headers, list and map lemmas, \<open>split\<close>, \<open>trim\<close>, \<open>parseInt\<close>, runs of machines (locale
    \<open>run_invariant\<close>).
  \<^item> \<open>Metrics\<close> (\<open>metrics.ts\<close>), \<open>Config\<close> (\<open>runtime/config/*\<close>, \<open>runtime/core/bytes.ts\<close>): the shared
    registry and the reading of the environment. The environment is an argument, the registry is a record
    that the states of the other components extend.
  \<^item> \<open>Cache\<close> (\<open>cache.ts\<close>): the store, the subject index, the modes of admission, sweeping and
    forgetting. The index and the store are shown to agree, forgetting removes exactly a subject's entries.
  \<^item> \<open>RateLimit\<close> (\<open>ratelimit.ts\<close>), \<open>Replay\<close> (\<open>runtime/sessions/replayStore.ts\<close>, \<open>replay.ts\<close>): windows
    with bounded tables. Both are shown equal to an unbounded specification while the table is large enough.
  \<^item> \<open>Json\<close> (\<open>runtime/core/canonicalJson.ts\<close>, \<open>hash.ts\<close>, \<open>json.ts\<close>): canonical JSON and bounded parsing.
    The canonical text is shown to be uniquely readable.
  \<^item> \<open>Crypto\<close> (\<open>runtime/crypto/*\<close>, \<open>runtime/auth/*\<close>), \<open>Payments\<close> (\<open>runtime/payments/*\<close>), \<open>Webhooks\<close>
    (\<open>webhooks.ts\<close>), \<open>Sessions\<close> (\<open>runtime/sessions/lifecycle.ts\<close>, \<open>forgetForward.ts\<close>): authentication,
    idempotency of payment events, Stripe and PayPal verification, the session service over an abstract
    store (locale \<open>session_store\<close>) with the in-memory store as its interpretation.
  \<^item> \<open>Mailing\<close> (\<open>runtime/mailing/*\<close>): payload policy, queue, transport and delivery, with a machine that
    interleaves enqueueing with deliveries in flight.
  \<^item> \<open>Integrity\<close> (\<open>integrity/verifier.ts\<close>, \<open>fetch-control.ts\<close>, \<open>types.ts\<close>, \<open>client.ts\<close>) and \<open>Checkpoint\<close>
    (\<open>integrity/checkpoint.ts\<close>): parsing of integrity snapshots, the retry loop, mirrors, manifest checks
    and the signed local checkpoint.
  \<^item> \<open>DmConfig\<close> and \<open>DomainMap\<close> (\<open>workers/async-worker/src\<close>): the DNS TXT record, the signed domain
    configuration, the stored domain entries and their refresh state machine. \<open>AsyncWorker\<close> (\<open>index.ts\<close> of
    that worker) puts them together, again as a state monad with exceptions: the refresh of a domain over
    DNS, HTTP and the secrets worker, its booking through a binding that may fail, batches, queue and routes.
    It shows what a successful refresh was checked for, that it is booked, that no refresh writes another
    domain's entry, and that a batch is bounded. The adapter's loop over pages is a partial function, shown to
    return where the cursors run out.
  \<^item> \<open>WorkerKv\<close>, \<open>RouteReplay\<close>, \<open>RouteAssert\<close> (\<open>workers/secrets-worker/src\<close>): the key-value shim (an
    interpretation of the locale \<open>expiring_store\<close>), the replay claim with its interleavings (an inductive
    step relation over any such store), and the two route-assertion handlers.
  \<^item> \<open>WorkerMetrics\<close> (\<open>metrics.ts\<close>) and \<open>Worker\<close>, \<open>WorkerGuards\<close>, \<open>WorkerInbox\<close>, \<open>WorkerSign\<close>,
    \<open>WorkerNotify\<close> (\<open>index.ts\<close> of the same worker): its operations are functions of a state monad with
    exceptions over one record \<open>worker_state\<close> (the namespace, the claims in memory, the Durable Objects, the
    metrics, the requests sent, and a counter at which the outside world is asked for the time, random ids
    and answers). \<open>worker_store\<close> and \<open>listing_store\<close> say what the handlers rely on of a namespace; the shim
    in memory is shown to keep both. \<open>WorkerGuards\<close> bounds what a window admits; \<open>WorkerInbox\<close> shows that an
    accepted item is stored, that a nonce and an item are used once, that forgetting is complete and that the
    janitor keeps what is live; \<open>WorkerSign\<close> that signatures follow the policy; \<open>WorkerNotify\<close> that requests go
    nowhere but to admitted hosts and to the mail service. The janitor walks pages that a namespace may keep
    returning, so it has fuel, one unit a page: what it keeps is shown for every amount.

  \<^item> \<open>SiteResolver\<close> (\<open>runtime/template/siteResolver.ts\<close>), \<open>Template\<close> (\<open>templateContract.ts\<close>,
    \<open>runtime/template/*\<close>) and \<open>TemplateApi\<close> (\<open>templateApi.ts\<close>): which site a host belongs to, with the
    lookups in flight, the contract and the payload rules of template calls, and the call itself: what a
    forwarded call was checked for, and that a forwarded write is signed.
  \<^item> \<open>HttpReply\<close> (\<open>securityHeaders.ts\<close> and the reply helpers of \<open>handler.ts\<close>), \<open>FrontController\<close>
    (\<open>frontController.ts\<close>), \<open>Policy\<close> (the integrity policy and its incidents in \<open>handler.ts\<close>), \<open>Hooks\<close>
    (its webhook routes) and \<open>Handler\<close> (its other routes and \<open>handleRequest\<close>): the gateway's state is one
    record (\<open>gateway_state\<close>) whose fields are the states of the components above, and each route calls
    their operations on them. Page requests and the refreshes of the policy are step relations, since
    their awaits interleave. \<open>Gateway\<close> proves what holds of the handler as a whole.

  Conventions. A handler's clock readings are separate arguments, in the order the code reads the clock.
  \<open>JSON.parse\<close>, the printing of numbers, URL parsing, base64, digests, Ed25519 and WebCrypto are
  parameters; where a theorem relies on one of them the reliance is a hypothesis (for example
  \<open>number_format\<close>: printing is injective and uses the characters of numbers). Fetches are arguments
  that give the response or the exception. Errors are values of sum types with the codes of the source.
  Loops are structural or well-founded recursions; the retry loop of \<open>Integrity\<close> terminates by the number
  of attempts left, the prefix stripping of tokens by the length of the string, so no fuel is used.
  Strings are lists of characters below 256; the code units above are not represented.

  Not modelled: the entry points that only open sockets or read files (\<open>server.ts\<close>), the secrets worker's
  reads and writes against AO processes (calls of the AO client library) and the routing framework of
  both workers, the secrets worker's log lines, the client SDKs, the command-line scripts, tests and deployment files.
\<close>

end
